(* ===== verification/Prelude.thy ===== *)
theory Prelude
  imports Main "HOL-Library.Word"
begin

text \<open>
  What the components share.
  \<^item> Machine integers are words of the width the Rust types have. The plain operators
    \<open>+\<close>, \<open>-\<close>, \<open>*\<close> of the sources wrap, as they do in the \<open>production\<close> profile of
    \<open>src/Cargo.toml\<close> (which inherits \<open>release\<close>: no overflow checks, no debug assertions).
    The saturating and checked operators of the standard library are defined here.
  \<^item> A call of a pallet returns an \<open>outcome\<close>: \<open>Ok\<close> with a value and the new storage, \<open>Err\<close>
    with the error and the storage as the call left it (a dispatchable that is not marked
    \<open>transactional\<close> keeps what it wrote before the error), or \<open>Panic\<close> (a failed \<open>expect\<close>,
    \<open>unwrap\<close>, slice index or integer division by zero: the extrinsic does not happen).
  \<^item> \<open>andthen\<close> is the question mark operator, \<open>transactional\<close> the attribute of that name.
\<close>

named_theorems outcome_simps \<open>equations of the outcome combinators\<close>
named_theorems word_bounds \<open>facts that read word arithmetic as arithmetic on nat\<close>

type_synonym u8 = "8 word"
type_synonym u16 = "16 word"
type_synonym u32 = "32 word"
type_synonym u64 = "64 word"
type_synonym u128 = "128 word"
type_synonym u256 = "256 word"
type_synonym bytes = "u8 list"

section \<open>Saturating and checked arithmetic\<close>

definition saturating_add :: "'n::len word \<Rightarrow> 'n word \<Rightarrow> 'n word" where
  "saturating_add a b = (if unat a + unat b < 2 ^ LENGTH('n) then a + b else - 1)"

definition saturating_sub :: "'n::len word \<Rightarrow> 'n word \<Rightarrow> 'n word" where
  "saturating_sub a b = (if b \<le> a then a - b else 0)"

definition saturating_mul :: "'n::len word \<Rightarrow> 'n word \<Rightarrow> 'n word" where
  "saturating_mul a b = (if unat a * unat b < 2 ^ LENGTH('n) then a * b else - 1)"

definition checked_sub :: "'n::len word \<Rightarrow> 'n word \<Rightarrow> 'n word option" where
  "checked_sub a b = (if b \<le> a then Some (a - b) else None)"

lemma unat_lt_2p [simp]: "unat (a :: 'n::len word) < 2 ^ LENGTH('n)"
  by (rule unsigned_less)

lemma unat_saturating_add [word_bounds]:
  "unat (saturating_add a (b :: 'n::len word)) = min (unat a + unat b) (2 ^ LENGTH('n) - 1)"
  by (auto simp: saturating_add_def unat_word_ariths unsigned_minus_1_eq_mask mask_eq_exp_minus_1)

lemma unat_saturating_sub [word_bounds]:
  "unat (saturating_sub a b) = unat a - unat b"
  by (auto simp: saturating_sub_def unat_sub word_le_nat_alt)

lemma unat_saturating_mul [word_bounds]:
  "unat (saturating_mul a (b :: 'n::len word)) = min (unat a * unat b) (2 ^ LENGTH('n) - 1)"
  by (auto simp: saturating_mul_def unat_word_ariths unsigned_minus_1_eq_mask mask_eq_exp_minus_1)

lemma saturating_add_ge: "a \<le> saturating_add a b"
proof -
  have "unat a < 2 ^ LENGTH('a)" by simp
  then have "unat a \<le> 2 ^ LENGTH('a) - 1" by linarith
  then show ?thesis by (simp add: word_le_nat_alt unat_saturating_add)
qed

lemma saturating_sub_le: "saturating_sub a b \<le> a"
  by (simp add: word_le_nat_alt unat_saturating_sub)

lemma saturating_add_zero [simp]: "saturating_add a 0 = a"
  by (simp add: saturating_add_def)

lemma zero_saturating_add [simp]: "saturating_add 0 a = a"
  by (simp add: saturating_add_def)

lemma saturating_sub_zero [simp]: "saturating_sub a 0 = a"
  by (simp add: saturating_sub_def)

lemma checked_sub_Some_iff:
  "checked_sub a b = Some c \<longleftrightarrow> b \<le> a \<and> c = a - b"
  by (auto simp: checked_sub_def)

lemma unat_minus_le [word_bounds]: "b \<le> a \<Longrightarrow> unat (a - b) = unat a - unat b"
  by (simp add: unat_sub word_le_nat_alt)

lemma unat_plus_small [word_bounds]:
  "unat a + unat (b :: 'n::len word) < 2 ^ LENGTH('n) \<Longrightarrow> unat (a + b) = unat a + unat b"
  by (simp add: unat_word_ariths)

lemma unat_times_small [word_bounds]:
  "unat a * unat (b :: 'n::len word) < 2 ^ LENGTH('n) \<Longrightarrow> unat (a * b) = unat a * unat b"
  by (simp add: unat_word_ariths)

lemma unat_of_nat_small [word_bounds]:
  "n < 2 ^ LENGTH('n) \<Longrightarrow> unat (of_nat n :: 'n::len word) = n"
  by (simp add: unat_of_nat)

section \<open>Outcomes\<close>

datatype ('e, 'a, 's) outcome = Ok 'a 's | Err 'e 's | Panic

definition andthen :: "('e, 'a, 's) outcome \<Rightarrow> ('a \<Rightarrow> 's \<Rightarrow> ('e, 'b, 's) outcome) \<Rightarrow>
    ('e, 'b, 's) outcome" where
  "andthen r f = (case r of Ok x s \<Rightarrow> f x s | Err e s \<Rightarrow> Err e s | Panic \<Rightarrow> Panic)"

text \<open>A \<open>for\<close> loop over a list; an error or a panic of the body ends it.\<close>

fun for_each :: "('x \<Rightarrow> 's \<Rightarrow> ('e, unit, 's) outcome) \<Rightarrow> 'x list \<Rightarrow> 's \<Rightarrow>
    ('e, unit, 's) outcome" where
  "for_each f [] s = Ok () s"
| "for_each f (x # xs) s = andthen (f x s) (\<lambda>_. for_each f xs)"

definition transactional :: "'s \<Rightarrow> ('e, 'a, 's) outcome \<Rightarrow> ('e, 'a, 's) outcome" where
  "transactional s r = (case r of Ok x s' \<Rightarrow> Ok x s' | Err e s' \<Rightarrow> Err e s | Panic \<Rightarrow> Panic)"

text \<open>\<open>map_err\<close> on the error, and the storage an outcome leaves behind (a panic leaves none).\<close>

definition map_err :: "('e \<Rightarrow> 'f) \<Rightarrow> ('e, 'a, 's) outcome \<Rightarrow> ('f, 'a, 's) outcome" where
  "map_err g r = (case r of Ok x s \<Rightarrow> Ok x s | Err e s \<Rightarrow> Err (g e) s | Panic \<Rightarrow> Panic)"

fun left_state :: "('e, 'a, 's) outcome \<Rightarrow> 's option" where
  "left_state (Ok x s) = Some s"
| "left_state (Err e s) = Some s"
| "left_state Panic = None"

lemma andthen_simps [simp, outcome_simps]:
  "andthen (Ok x s) f = f x s"
  "andthen (Err e s) f = Err e s"
  "andthen Panic f = Panic"
  by (simp_all add: andthen_def)

lemma transactional_simps [simp, outcome_simps]:
  "transactional s0 (Ok x s) = Ok x s"
  "transactional s0 (Err e s) = Err e s0"
  "transactional s0 Panic = Panic"
  by (simp_all add: transactional_def)

lemma map_err_simps [simp, outcome_simps]:
  "map_err g (Ok x s) = Ok x s"
  "map_err g (Err e s) = Err (g e) s"
  "map_err g Panic = Panic"
  by (simp_all add: map_err_def)

lemma andthen_Ok_iff:
  "andthen r f = Ok y s' \<longleftrightarrow> (\<exists>x s. r = Ok x s \<and> f x s = Ok y s')"
  by (cases r) auto

lemma andthen_eq_OkE:
  assumes "andthen r f = Ok y s'"
  obtains x s where "r = Ok x s" "f x s = Ok y s'"
  using assms by (auto simp: andthen_Ok_iff)

lemma transactional_Ok_iff [simp]: "transactional s0 r = Ok x s \<longleftrightarrow> r = Ok x s"
  by (cases r) auto

lemma map_err_eq_Err: "map_err g r = Err e s \<longleftrightarrow> (\<exists>e'. r = Err e' s \<and> e = g e')"
  by (cases r) auto

lemma map_err_Ok_iff [simp]: "map_err g r = Ok x s \<longleftrightarrow> r = Ok x s"
  by (cases r) auto

lemma transactional_Err: "transactional s0 r = Err e s \<Longrightarrow> s = s0"
  by (cases r) auto

lemma left_state_cases:
  "left_state r = Some s \<longleftrightarrow> (\<exists>x. r = Ok x s) \<or> (\<exists>e. r = Err e s)"
  by (cases r) auto

text \<open>
  An invariant of the storage that survives every outcome of the first step and is kept by
  the continuation survives the composition.
\<close>

text \<open>An outcome keeps a property of the storage, on success and on error.\<close>

definition keeps :: "('s \<Rightarrow> bool) \<Rightarrow> 's \<Rightarrow> ('e, 'a, 's) outcome \<Rightarrow> bool" where
  "keeps P s r \<longleftrightarrow> (P s \<longrightarrow> (\<forall>s'. left_state r = Some s' \<longrightarrow> P s'))"

lemma keeps_simps [simp]:
  "keeps P s (Ok x s') \<longleftrightarrow> (P s \<longrightarrow> P s')"
  "keeps P s (Err e s') \<longleftrightarrow> (P s \<longrightarrow> P s')"
  "keeps P s Panic"
  by (auto simp: keeps_def)

lemma keeps_andthen:
  assumes "keeps P s r" "\<And>x t. r = Ok x t \<Longrightarrow> keeps P t (f x t)"
  shows "keeps P s (andthen r f)"
proof (cases r)
  case (Ok x t)
  have "P s \<longrightarrow> P t" "keeps P t (f x t)" using assms Ok by simp_all
  then show ?thesis unfolding Ok andthen_simps keeps_def by blast
qed (use assms(1) in simp_all)

lemma keeps_map_err [simp]: "keeps P s (map_err g r) = keeps P s r"
  by (cases r) simp_all

lemma keeps_for_each:
  "(\<And>x s. x \<in> set xs \<Longrightarrow> keeps P s (f x s)) \<Longrightarrow> keeps P s (for_each f xs s)"
proof (induction xs arbitrary: s)
  case (Cons x xs)
  have "keeps P s (f x s)" "\<And>t. keeps P t (for_each f xs t)" using Cons by simp_all
  then show ?case unfolding for_each.simps by (rule keeps_andthen)
qed simp

lemma keepsD: "keeps P s r \<Longrightarrow> P s \<Longrightarrow> left_state r = Some s' \<Longrightarrow> P s'"
  by (simp add: keeps_def)

text \<open>The same for a relation between the storage before and after.\<close>

definition steps :: "('s \<Rightarrow> 's \<Rightarrow> bool) \<Rightarrow> 's \<Rightarrow> ('e, 'a, 's) outcome \<Rightarrow> bool" where
  "steps R s r \<longleftrightarrow> (\<forall>s'. left_state r = Some s' \<longrightarrow> R s s')"

lemma steps_simps [simp]:
  "steps R s (Ok x s') \<longleftrightarrow> R s s'"
  "steps R s (Err e s') \<longleftrightarrow> R s s'"
  "steps R s Panic"
  by (auto simp: steps_def)

lemma steps_andthen:
  assumes "\<And>t u. R s t \<Longrightarrow> R t u \<Longrightarrow> R s u" "steps R s r" "\<And>x t. r = Ok x t \<Longrightarrow> steps R t (f x t)"
  shows "steps R s (andthen r f)"
proof (cases r)
  case (Ok x t)
  have "R s t" "steps R t (f x t)" using assms(2,3) Ok by simp_all
  then show ?thesis unfolding Ok andthen_simps steps_def using assms(1) by blast
qed (use assms(2) in simp_all)

lemma steps_for_each:
  assumes "\<And>s. R s s" "\<And>s t u. R s t \<Longrightarrow> R t u \<Longrightarrow> R s u"
    and "\<And>x s. x \<in> set xs \<Longrightarrow> steps R s (f x s)"
  shows "steps R s (for_each f xs s)"
  using assms(3)
proof (induction xs arbitrary: s)
  case (Cons x xs)
  have "steps R s (f x s)" "\<And>t. steps R t (for_each f xs t)" using Cons by simp_all
  then show ?case unfolding for_each.simps by (intro steps_andthen) (rule assms(2))
qed (simp add: assms(1))

lemma stepsD: "steps R s r \<Longrightarrow> left_state r = Some s' \<Longrightarrow> R s s'"
  by (simp add: steps_def)

lemma left_state_andthen:
  assumes "left_state (andthen r f) = Some s'"
    and "\<And>e t. r = Err e t \<Longrightarrow> P t"
    and "\<And>x t. r = Ok x t \<Longrightarrow> left_state (f x t) = Some s' \<Longrightarrow> P s'"
  shows "P s'"
  using assms by (cases r) auto

section \<open>Origins and errors of a dispatch\<close>

text \<open>
  The origin of a dispatched call. \<open>Root\<close> and \<open>Signed\<close> are the system origins the pallets
  look at with \<open>ensure_root\<close> and \<open>ensure_signed\<close>; governance origins are predicates that the
  configuration of a pallet supplies.
\<close>

type_synonym account_id = bytes

datatype origin = Root | Signed account_id | Unsigned

datatype 'm dispatch_error = BadOrigin | Other string | Module 'm | External nat

definition ensure_signed :: "origin \<Rightarrow> account_id option" where
  "ensure_signed o' = (case o' of Signed who \<Rightarrow> Some who | _ \<Rightarrow> None)"

definition ensure_root :: "origin \<Rightarrow> bool" where
  "ensure_root o' = (o' = Root)"

lemma ensure_signed_simps [simp]:
  "ensure_signed (Signed a) = Some a"
  "ensure_signed Root = None"
  "ensure_signed Unsigned = None"
  by (simp_all add: ensure_signed_def)

section \<open>Lists\<close>

text \<open>\<open>position\<close> of an iterator: the index of the first element that satisfies the test.\<close>

fun find_index :: "('a \<Rightarrow> bool) \<Rightarrow> 'a list \<Rightarrow> nat option" where
  "find_index P [] = None"
| "find_index P (x # xs) = (if P x then Some 0 else map_option Suc (find_index P xs))"

definition remove_at :: "nat \<Rightarrow> 'a list \<Rightarrow> 'a list" where
  "remove_at i xs = take i xs @ drop (Suc i) xs"

lemma find_index_Some:
  "find_index P xs = Some i \<Longrightarrow> i < length xs \<and> P (xs ! i) \<and> (\<forall>j < i. \<not> P (xs ! j))"
proof (induction xs arbitrary: i)
  case Nil
  then show ?case by simp
next
  case (Cons x xs)
  show ?case
  proof (cases "P x")
    case True
    with Cons.prems show ?thesis by simp
  next
    case False
    with Cons.prems obtain k where "find_index P xs = Some k" and "i = Suc k" by auto
    with Cons.IH [of k] False show ?thesis
      by (auto simp: nth_Cons split: nat.splits)
  qed
qed

lemma find_index_None: "find_index P xs = None \<longleftrightarrow> (\<forall>x \<in> set xs. \<not> P x)"
  by (induction xs) auto

lemma set_remove_at_subset: "set (remove_at i xs) \<subseteq> set xs"
  by (auto simp: remove_at_def dest: in_set_takeD in_set_dropD)

lemma distinct_append_new: "distinct xs \<Longrightarrow> x \<notin> set xs \<Longrightarrow> distinct (xs @ [x])"
  by simp

end
