(* ===== verification/Xt_Base.thy ===== *)
theory Xt_Base
  imports Prelude
begin

text \<open>
  The types the cross-chain pallets of \<open>src/pallets/xtransfer\<close> share: the identifiers of
  \<open>bridge/mod.rs\<close> and the error enumerations of the four pallets, joined into the module error
  that a \<open>DispatchError\<close> carries.
\<close>

type_synonym bridge_chain_id = u8
type_synonym deposit_nonce = u64
type_synonym resource_id = bytes
type_synonym block_number = u32
type_synonym asset_id = u32

datatype bridge_error =
    ThresholdNotSet | InvalidChainId | InvalidThreshold | ChainNotWhitelisted
  | ChainAlreadyWhitelisted | ResourceDoesNotExist | RelayerAlreadyExists | RelayerInvalid
  | MustBeRelayer | RelayerAlreadyVoted | ProposalAlreadyExists | ProposalDoesNotExist
  | ProposalNotComplete | ProposalAlreadyComplete | ProposalExpired

datatype wrapper_error =
    AssetAlreadyExist | AssetNotRegistered | BridgeAlreadyEnabled | BridgeAlreadyDisabled

datatype transfer_error =
    AssetConversionFailed | AssetNotRegistered | FeeOptionsMissing | CannotPayAsFee
  | InvalidDestination | InvalidFeeOption | InsufficientBalance | BalanceConversionFailed
  | FailedToTransactAsset | DestUnrecognized | Unimplemented | CannotDetermineReservedLocation

datatype xcm_transfer_error =
    UnknownError | CannotReanchor | UnweighableMessage | FeePaymentEmpty | ExecutionFailed
  | UnknownTransfer | AssetNotFound | LocationInvertFailed | IllegalDestination

datatype xt_module_error =
    BridgeError bridge_error
  | WrapperError wrapper_error
  | TransferError transfer_error
  | XcmTransferError xcm_transfer_error

type_synonym xt_error = "xt_module_error dispatch_error"

abbreviation bridge_err :: "bridge_error \<Rightarrow> xt_error" where
  "bridge_err e \<equiv> Module (BridgeError e)"

abbreviation wrapper_err :: "wrapper_error \<Rightarrow> xt_error" where
  "wrapper_err e \<equiv> Module (WrapperError e)"

abbreviation transfer_err :: "transfer_error \<Rightarrow> xt_error" where
  "transfer_err e \<equiv> Module (TransferError e)"

abbreviation xcm_err :: "xcm_transfer_error \<Rightarrow> xt_error" where
  "xcm_err e \<equiv> Module (XcmTransferError e)"

end
