(* ===== verification/Bridge.thy ===== *)
theory Bridge
  imports Xt_Base
begin

text \<open>
  The chain bridge, \<open>src/pallets/xtransfer/src/bridge/mod.rs\<close>: relayers vote on proposals
  that a whitelisted source chain made, a proposal with enough votes is dispatched, and
  outgoing transfers are numbered per destination chain.

  \<open>bridge_st\<close> holds the storage items of the pallet, the block number it reads and the events
  it deposits; it is extensible, and the pallets that build on the bridge extend it. What the
  pallet takes from its \<open>Config\<close> trait is \<open>bridge_config\<close>: the committee origin, the chain's
  identifier, the lifetime of a proposal, the account derived from the module id, and the
  runtime's dispatch of a call.
\<close>

section \<open>Storage, configuration, events\<close>

definition derive_resource_id :: "u8 \<Rightarrow> bytes \<Rightarrow> resource_id" where
  "derive_resource_id chain i =
     (let r_id = (replicate 32 0)[31 := chain];
          range = (if length i > 31 then 31 else length i)
      in fold (\<lambda>k r. r[30 - k := i ! (range - 1 - k)]) [0..<range] r_id)"

datatype proposal_status = Initiated | Approved | Rejected

record proposal_votes =
  votes_for :: "account_id list"
  votes_against :: "account_id list"
  status :: proposal_status
  expiry :: block_number

datatype bridge_event =
    FungibleTransfer bridge_chain_id deposit_nonce resource_id u256 bytes
  | NonFungibleTransfer bridge_chain_id deposit_nonce resource_id bytes bytes bytes
  | GenericTransfer bridge_chain_id deposit_nonce resource_id bytes

text \<open>The pallet's \<open>Event\<close>; the three transfer events carry what \<open>bridge_event\<close> carries.\<close>

datatype bridge_pallet_event =
    RelayerThresholdChanged u32
  | ChainWhitelisted bridge_chain_id
  | RelayerAdded account_id
  | RelayerRemoved account_id
  | TransferEvent bridge_event
  | VoteFor bridge_chain_id deposit_nonce account_id
  | VoteAgainst bridge_chain_id deposit_nonce account_id
  | ProposalApproved bridge_chain_id deposit_nonce
  | ProposalRejected bridge_chain_id deposit_nonce
  | ProposalSucceeded bridge_chain_id deposit_nonce
  | ProposalFailed bridge_chain_id deposit_nonce

record 'call bridge_st =
  ChainNonces :: "bridge_chain_id \<rightharpoonup> deposit_nonce"
  RelayerThreshold :: u32
  Relayers :: "account_id \<rightharpoonup> bool"
  RelayerCount :: u32
  Votes :: "bridge_chain_id \<times> deposit_nonce \<times> 'call \<rightharpoonup> proposal_votes"
  BridgeEvents :: "bridge_event list"
  block_number :: block_number
  bridge_log :: "bridge_pallet_event list"

record ('call, 's) bridge_config =
  committee_origin :: "origin \<Rightarrow> bool"
  BridgeChainId :: bridge_chain_id
  ProposalLifetime :: block_number
  bridge_account_id :: account_id
  dispatch_call :: "'call \<Rightarrow> origin \<Rightarrow> 's \<Rightarrow> (xt_error, unit, 's) outcome"

definition bridge_deposit_event ::
    "bridge_pallet_event \<Rightarrow> ('call, 'm) bridge_st_scheme \<Rightarrow> ('call, 'm) bridge_st_scheme" where
  "bridge_deposit_event e s = s\<lparr>bridge_log := bridge_log s @ [e]\<rparr>"

section \<open>Votes of one proposal\<close>

definition default_votes :: proposal_votes where
  "default_votes = \<lparr>votes_for = [], votes_against = [], status = Initiated, expiry = 0\<rparr>"

definition try_to_complete :: "proposal_votes \<Rightarrow> u32 \<Rightarrow> u32 \<Rightarrow> proposal_status \<times> proposal_votes" where
  "try_to_complete v threshold tot =
     (if length (votes_for v) \<ge> unat threshold
      then (Approved, v\<lparr>status := Approved\<rparr>)
      else if tot \<ge> threshold \<and> of_nat (length (votes_against v)) + threshold > tot
      then (Rejected, v\<lparr>status := Rejected\<rparr>)
      else (Initiated, v))"

definition is_complete :: "proposal_votes \<Rightarrow> bool" where
  "is_complete v = (status v \<noteq> Initiated)"

definition has_voted :: "proposal_votes \<Rightarrow> account_id \<Rightarrow> bool" where
  "has_voted v who = (who \<in> set (votes_for v) \<or> who \<in> set (votes_against v))"

definition is_expired :: "proposal_votes \<Rightarrow> block_number \<Rightarrow> bool" where
  "is_expired v now = (expiry v \<le> now)"

section \<open>Utility and admin methods\<close>

definition is_relayer :: "('call, 'm) bridge_st_scheme \<Rightarrow> account_id \<Rightarrow> bool" where
  "is_relayer s who = (case Relayers s who of Some b \<Rightarrow> b | None \<Rightarrow> False)"

definition chain_whitelisted :: "('call, 'm) bridge_st_scheme \<Rightarrow> bridge_chain_id \<Rightarrow> bool" where
  "chain_whitelisted s i = (ChainNonces s i \<noteq> None)"

definition bump_nonce :: "bridge_chain_id \<Rightarrow> ('call, 'm) bridge_st_scheme \<Rightarrow>
    deposit_nonce \<times> ('call, 'm) bridge_st_scheme" where
  "bump_nonce i s =
     (let nonce = (case ChainNonces s i of Some n \<Rightarrow> n | None \<Rightarrow> 0) + 1
      in (nonce, s\<lparr>ChainNonces := (ChainNonces s)(i \<mapsto> nonce)\<rparr>))"

definition set_relayer_threshold :: "u32 \<Rightarrow> ('call, 'm) bridge_st_scheme \<Rightarrow>
    (xt_error, unit, ('call, 'm) bridge_st_scheme) outcome" where
  "set_relayer_threshold threshold s =
     (if \<not> threshold > 0 then Err (bridge_err InvalidThreshold) s
      else Ok () (bridge_deposit_event (RelayerThresholdChanged threshold)
             (s\<lparr>RelayerThreshold := threshold\<rparr>)))"

definition whitelist :: "('call, 's) bridge_config \<Rightarrow> bridge_chain_id \<Rightarrow>
    ('call, 'm) bridge_st_scheme \<Rightarrow> (xt_error, unit, ('call, 'm) bridge_st_scheme) outcome" where
  "whitelist T i s =
     (if i = BridgeChainId T then Err (bridge_err InvalidChainId) s
      else if chain_whitelisted s i then Err (bridge_err ChainAlreadyWhitelisted) s
      else Ok () (bridge_deposit_event (ChainWhitelisted i)
             (s\<lparr>ChainNonces := (ChainNonces s)(i \<mapsto> 0)\<rparr>)))"

definition register_relayer :: "account_id \<Rightarrow> ('call, 'm) bridge_st_scheme \<Rightarrow>
    (xt_error, unit, ('call, 'm) bridge_st_scheme) outcome" where
  "register_relayer relayer s =
     (if is_relayer s relayer then Err (bridge_err RelayerAlreadyExists) s
      else Ok () (bridge_deposit_event (RelayerAdded relayer)
             (s\<lparr>Relayers := (Relayers s)(relayer \<mapsto> True), RelayerCount := RelayerCount s + 1\<rparr>)))"

definition unregister_relayer :: "account_id \<Rightarrow> ('call, 'm) bridge_st_scheme \<Rightarrow>
    (xt_error, unit, ('call, 'm) bridge_st_scheme) outcome" where
  "unregister_relayer relayer s =
     (if \<not> is_relayer s relayer then Err (bridge_err RelayerInvalid) s
      else Ok () (bridge_deposit_event (RelayerRemoved relayer)
             (s\<lparr>Relayers := (Relayers s)(relayer := None), RelayerCount := RelayerCount s - 1\<rparr>)))"

section \<open>Voting and execution\<close>

definition commit_vote :: "('call, 's) bridge_config \<Rightarrow> account_id \<Rightarrow> deposit_nonce \<Rightarrow>
    bridge_chain_id \<Rightarrow> 'call \<Rightarrow> bool \<Rightarrow> ('call, 'm) bridge_st_scheme \<Rightarrow>
    (xt_error, unit, ('call, 'm) bridge_st_scheme) outcome" where
  "commit_vote T who nonce src_id prop in_favour s =
     (let now = block_number s;
          votes = (case Votes s (src_id, nonce, prop) of
                     Some v \<Rightarrow> v
                   | None \<Rightarrow> default_votes\<lparr>expiry := now + ProposalLifetime T\<rparr>)
      in if is_complete votes then Err (bridge_err ProposalAlreadyComplete) s
         else if is_expired votes now then Err (bridge_err ProposalExpired) s
         else if has_voted votes who then Err (bridge_err RelayerAlreadyVoted) s
         else let (votes', s') =
                (if in_favour
                 then (votes\<lparr>votes_for := votes_for votes @ [who]\<rparr>,
                       bridge_deposit_event (VoteFor src_id nonce who) s)
                 else (votes\<lparr>votes_against := votes_against votes @ [who]\<rparr>,
                       bridge_deposit_event (VoteAgainst src_id nonce who) s))
              in Ok () (s'\<lparr>Votes := (Votes s')((src_id, nonce, prop) \<mapsto> votes')\<rparr>))"

definition finalize_execution :: "('call, ('call, 'm) bridge_st_scheme) bridge_config \<Rightarrow>
    bridge_chain_id \<Rightarrow> deposit_nonce \<Rightarrow> 'call \<Rightarrow> ('call, 'm) bridge_st_scheme \<Rightarrow>
    (xt_error, unit, ('call, 'm) bridge_st_scheme) outcome" where
  "finalize_execution T src_id nonce call s =
     andthen (dispatch_call T call (Signed (bridge_account_id T))
                (bridge_deposit_event (ProposalApproved src_id nonce) s))
       (\<lambda>_ s'. Ok () (bridge_deposit_event (ProposalSucceeded src_id nonce) s'))"

definition cancel_execution :: "bridge_chain_id \<Rightarrow> deposit_nonce \<Rightarrow> ('call, 'm) bridge_st_scheme \<Rightarrow>
    (xt_error, unit, ('call, 'm) bridge_st_scheme) outcome" where
  "cancel_execution src_id nonce s = Ok () (bridge_deposit_event (ProposalRejected src_id nonce) s)"

definition try_resolve_proposal :: "('call, ('call, 'm) bridge_st_scheme) bridge_config \<Rightarrow>
    deposit_nonce \<Rightarrow> bridge_chain_id \<Rightarrow> 'call \<Rightarrow> ('call, 'm) bridge_st_scheme \<Rightarrow>
    (xt_error, unit, ('call, 'm) bridge_st_scheme) outcome" where
  "try_resolve_proposal T nonce src_id prop s =
     (case Votes s (src_id, nonce, prop) of
        Some votes \<Rightarrow>
          (if is_complete votes then Err (bridge_err ProposalAlreadyComplete) s
           else if is_expired votes (block_number s) then Err (bridge_err ProposalExpired) s
           else let (st, votes') = try_to_complete votes (RelayerThreshold s) (RelayerCount s);
                    s' = s\<lparr>Votes := (Votes s)((src_id, nonce, prop) \<mapsto> votes')\<rparr>
                in (case st of
                      Approved \<Rightarrow> finalize_execution T src_id nonce prop s'
                    | Rejected \<Rightarrow> cancel_execution src_id nonce s'
                    | Initiated \<Rightarrow> Ok () s'))
      | None \<Rightarrow> Err (bridge_err ProposalDoesNotExist) s)"

definition vote_for :: "('call, ('call, 'm) bridge_st_scheme) bridge_config \<Rightarrow> account_id \<Rightarrow>
    deposit_nonce \<Rightarrow> bridge_chain_id \<Rightarrow> 'call \<Rightarrow> ('call, 'm) bridge_st_scheme \<Rightarrow>
    (xt_error, unit, ('call, 'm) bridge_st_scheme) outcome" where
  "vote_for T who nonce src_id prop s =
     andthen (commit_vote T who nonce src_id prop True s)
       (\<lambda>_ s'. try_resolve_proposal T nonce src_id prop s')"

definition vote_against :: "('call, ('call, 'm) bridge_st_scheme) bridge_config \<Rightarrow> account_id \<Rightarrow>
    deposit_nonce \<Rightarrow> bridge_chain_id \<Rightarrow> 'call \<Rightarrow> ('call, 'm) bridge_st_scheme \<Rightarrow>
    (xt_error, unit, ('call, 'm) bridge_st_scheme) outcome" where
  "vote_against T who nonce src_id prop s =
     andthen (commit_vote T who nonce src_id prop False s)
       (\<lambda>_ s'. try_resolve_proposal T nonce src_id prop s')"

section \<open>Dispatchable calls, hook, transfers out of the chain\<close>

definition bridge_on_initialize :: "('call, 'm) bridge_st_scheme \<Rightarrow> ('call, 'm) bridge_st_scheme" where
  "bridge_on_initialize s = s\<lparr>BridgeEvents := []\<rparr>"

definition set_threshold :: "('call, 's) bridge_config \<Rightarrow> origin \<Rightarrow> u32 \<Rightarrow>
    ('call, 'm) bridge_st_scheme \<Rightarrow> (xt_error, unit, ('call, 'm) bridge_st_scheme) outcome" where
  "set_threshold T orig threshold s =
     (if \<not> committee_origin T orig then Err BadOrigin s else set_relayer_threshold threshold s)"

definition whitelist_chain :: "('call, 's) bridge_config \<Rightarrow> origin \<Rightarrow> bridge_chain_id \<Rightarrow>
    ('call, 'm) bridge_st_scheme \<Rightarrow> (xt_error, unit, ('call, 'm) bridge_st_scheme) outcome" where
  "whitelist_chain T orig i s =
     (if \<not> committee_origin T orig then Err BadOrigin s else whitelist T i s)"

definition add_relayer :: "('call, 's) bridge_config \<Rightarrow> origin \<Rightarrow> account_id \<Rightarrow>
    ('call, 'm) bridge_st_scheme \<Rightarrow> (xt_error, unit, ('call, 'm) bridge_st_scheme) outcome" where
  "add_relayer T orig v s =
     (if \<not> committee_origin T orig then Err BadOrigin s else register_relayer v s)"

definition remove_relayer :: "('call, 's) bridge_config \<Rightarrow> origin \<Rightarrow> account_id \<Rightarrow>
    ('call, 'm) bridge_st_scheme \<Rightarrow> (xt_error, unit, ('call, 'm) bridge_st_scheme) outcome" where
  "remove_relayer T orig v s =
     (if \<not> committee_origin T orig then Err BadOrigin s else unregister_relayer v s)"

definition acknowledge_proposal :: "('call, ('call, 'm) bridge_st_scheme) bridge_config \<Rightarrow> origin \<Rightarrow>
    deposit_nonce \<Rightarrow> bridge_chain_id \<Rightarrow> resource_id \<Rightarrow> 'call \<Rightarrow> ('call, 'm) bridge_st_scheme \<Rightarrow>
    (xt_error, unit, ('call, 'm) bridge_st_scheme) outcome" where
  "acknowledge_proposal T orig nonce src_id r_id call s =
     (case ensure_signed orig of
        None \<Rightarrow> Err BadOrigin s
      | Some who \<Rightarrow>
          (if \<not> is_relayer s who then Err (bridge_err MustBeRelayer) s
           else if \<not> chain_whitelisted s src_id then Err (bridge_err ChainNotWhitelisted) s
           else vote_for T who nonce src_id call s))"

definition reject_proposal :: "('call, ('call, 'm) bridge_st_scheme) bridge_config \<Rightarrow> origin \<Rightarrow>
    deposit_nonce \<Rightarrow> bridge_chain_id \<Rightarrow> resource_id \<Rightarrow> 'call \<Rightarrow> ('call, 'm) bridge_st_scheme \<Rightarrow>
    (xt_error, unit, ('call, 'm) bridge_st_scheme) outcome" where
  "reject_proposal T orig nonce src_id r_id call s =
     (case ensure_signed orig of
        None \<Rightarrow> Err BadOrigin s
      | Some who \<Rightarrow>
          (if \<not> is_relayer s who then Err (bridge_err MustBeRelayer) s
           else if \<not> chain_whitelisted s src_id then Err (bridge_err ChainNotWhitelisted) s
           else vote_against T who nonce src_id call s))"

definition eval_vote_state :: "('call, ('call, 'm) bridge_st_scheme) bridge_config \<Rightarrow> origin \<Rightarrow>
    deposit_nonce \<Rightarrow> bridge_chain_id \<Rightarrow> 'call \<Rightarrow> ('call, 'm) bridge_st_scheme \<Rightarrow>
    (xt_error, unit, ('call, 'm) bridge_st_scheme) outcome" where
  "eval_vote_state T orig nonce src_id prop s =
     (case ensure_signed orig of
        None \<Rightarrow> Err BadOrigin s
      | Some who \<Rightarrow> try_resolve_proposal T nonce src_id prop s)"

text \<open>
  The three \<open>BridgeTransact\<close> transfers differ in the event they build from the new nonce.
\<close>

definition emit_transfer :: "bridge_chain_id \<Rightarrow> (deposit_nonce \<Rightarrow> bridge_event) \<Rightarrow>
    ('call, 'm) bridge_st_scheme \<Rightarrow> (xt_error, unit, ('call, 'm) bridge_st_scheme) outcome" where
  "emit_transfer dest_id mk s =
     (if \<not> chain_whitelisted s dest_id then Err (bridge_err ChainNotWhitelisted) s
      else let (nonce, s1) = bump_nonce dest_id s;
               s2 = s1\<lparr>BridgeEvents := BridgeEvents s1 @ [mk nonce]\<rparr>
           in Ok () (bridge_deposit_event (TransferEvent (mk nonce)) s2))"

definition transfer_fungible :: "bridge_chain_id \<Rightarrow> resource_id \<Rightarrow> bytes \<Rightarrow> u256 \<Rightarrow>
    ('call, 'm) bridge_st_scheme \<Rightarrow> (xt_error, unit, ('call, 'm) bridge_st_scheme) outcome" where
  "transfer_fungible dest_id rid to amount =
     emit_transfer dest_id (\<lambda>nonce. FungibleTransfer dest_id nonce rid amount to)"

definition transfer_nonfungible :: "bridge_chain_id \<Rightarrow> resource_id \<Rightarrow> bytes \<Rightarrow> bytes \<Rightarrow> bytes \<Rightarrow>
    ('call, 'm) bridge_st_scheme \<Rightarrow> (xt_error, unit, ('call, 'm) bridge_st_scheme) outcome" where
  "transfer_nonfungible dest_id rid token_id to metadata =
     emit_transfer dest_id (\<lambda>nonce. NonFungibleTransfer dest_id nonce rid token_id to metadata)"

definition transfer_generic :: "bridge_chain_id \<Rightarrow> resource_id \<Rightarrow> bytes \<Rightarrow>
    ('call, 'm) bridge_st_scheme \<Rightarrow> (xt_error, unit, ('call, 'm) bridge_st_scheme) outcome" where
  "transfer_generic dest_id rid metadata =
     emit_transfer dest_id (\<lambda>nonce. GenericTransfer dest_id nonce rid metadata)"

text \<open>\<open>EnsureBridge\<close>: the origin check of calls that only the bridge account may make.\<close>

definition ensure_bridge :: "('call, 's) bridge_config \<Rightarrow> origin \<Rightarrow> account_id option" where
  "ensure_bridge T orig =
     (case orig of Signed who \<Rightarrow> (if who = bridge_account_id T then Some (bridge_account_id T) else None)
      | _ \<Rightarrow> None)"

end
