(* ===== verification/Bridge_Props.thy ===== *)
theory Bridge_Props
  imports Bridge "HOL-Library.Sublist"
begin

text \<open>
  What the bridge promises: an invariant of its storage, a preorder that says how the votes of
  a proposal may change (they only grow, and a completed proposal is frozen), and the
  operations of the pallet as one executable step function over which reachability is defined.
  The locale \<open>bridge_host\<close> is the contract the bridge has with the runtime that dispatches
  approved proposals.
\<close>

section \<open>Invariant and vote order\<close>

definition votes_ok :: "proposal_votes \<Rightarrow> bool" where
  "votes_ok v \<longleftrightarrow> distinct (votes_for v) \<and> distinct (votes_against v) \<and>
     set (votes_for v) \<inter> set (votes_against v) = {}"

definition relayer_set :: "('call, 'm) bridge_st_scheme \<Rightarrow> account_id set" where
  "relayer_set s = {a. is_relayer s a}"

definition bridge_inv :: "('call, 'm) bridge_st_scheme \<Rightarrow> bool" where
  "bridge_inv s \<longleftrightarrow> (\<forall>k v. Votes s k = Some v \<longrightarrow> votes_ok v) \<and> finite (relayer_set s) \<and>
     RelayerCount s = of_nat (card (relayer_set s)) \<and> RelayerThreshold s \<noteq> 0"

definition vote_ext :: "proposal_votes \<Rightarrow> proposal_votes \<Rightarrow> bool" where
  "vote_ext v v' \<longleftrightarrow> prefix (votes_for v) (votes_for v') \<and> prefix (votes_against v) (votes_against v') \<and>
     expiry v' = expiry v \<and> (is_complete v \<longrightarrow> v' = v)"

definition votes_extend :: "('call, 'm) bridge_st_scheme \<Rightarrow> ('call, 'm) bridge_st_scheme \<Rightarrow> bool" where
  "votes_extend s s' \<longleftrightarrow> (\<forall>k v. Votes s k = Some v \<longrightarrow> (\<exists>v'. Votes s' k = Some v' \<and> vote_ext v v'))"

lemma vote_ext_refl [simp]: "vote_ext v v"
  by (simp add: vote_ext_def)

lemma vote_ext_trans: "vote_ext u v \<Longrightarrow> vote_ext v w \<Longrightarrow> vote_ext u w"
  by (auto simp: vote_ext_def)

lemma votes_extend_same: "Votes s' = Votes s \<Longrightarrow> votes_extend s s'"
  by (auto simp: votes_extend_def)

lemma votes_extend_trans: "votes_extend s t \<Longrightarrow> votes_extend t u \<Longrightarrow> votes_extend s u"
  unfolding votes_extend_def by (meson vote_ext_trans)

lemma votes_extendD:
  "votes_extend s s' \<Longrightarrow> Votes s k = Some v \<Longrightarrow> Votes s' k = Some v' \<Longrightarrow> vote_ext v v'"
  unfolding votes_extend_def by fastforce

lemma votes_extend_upd:
  assumes "\<And>v. Votes s k = Some v \<Longrightarrow> vote_ext v v'" and "Votes s' = (Votes s)(k \<mapsto> v')"
  shows "votes_extend s s'"
  using assms by (auto simp: votes_extend_def)

lemma bridge_log_frame [simp]:
  "Votes (bridge_deposit_event e s) = Votes s"
  "Relayers (bridge_deposit_event e s) = Relayers s"
  "RelayerCount (bridge_deposit_event e s) = RelayerCount s"
  "RelayerThreshold (bridge_deposit_event e s) = RelayerThreshold s"
  "ChainNonces (bridge_deposit_event e s) = ChainNonces s"
  "BridgeEvents (bridge_deposit_event e s) = BridgeEvents s"
  "block_number (bridge_deposit_event e s) = block_number s"
  by (simp_all add: bridge_deposit_event_def)

lemma relayer_set_cong: "Relayers s' = Relayers s \<Longrightarrow> relayer_set s' = relayer_set s"
  by (simp add: relayer_set_def is_relayer_def)

lemma bridge_inv_cong:
  assumes "Votes s' = Votes s" "Relayers s' = Relayers s" "RelayerCount s' = RelayerCount s"
    "RelayerThreshold s' = RelayerThreshold s"
  shows "bridge_inv s' = bridge_inv s"
  by (simp add: bridge_inv_def relayer_set_cong [OF assms(2)] assms)

lemma bridge_inv_upd:
  assumes "bridge_inv s" "votes_ok v" "Votes s' = (Votes s)(k \<mapsto> v)" "Relayers s' = Relayers s"
    "RelayerCount s' = RelayerCount s" "RelayerThreshold s' = RelayerThreshold s"
  shows "bridge_inv s'"
  using assms(1,2) by (auto simp: bridge_inv_def relayer_set_cong [OF assms(4)] assms(3,5,6))

section \<open>Votes of one proposal\<close>

lemma try_to_complete_votes:
  assumes "try_to_complete v th tot = (st, v')"
  shows "votes_for v' = votes_for v" "votes_against v' = votes_against v" "expiry v' = expiry v"
    "st = Initiated \<Longrightarrow> v' = v" "st \<noteq> Initiated \<Longrightarrow> status v' = st"
    "st = Approved \<longleftrightarrow> unat th \<le> length (votes_for v)"
  using assms by (auto simp: try_to_complete_def split: if_splits)

lemma try_to_complete_ext:
  assumes "try_to_complete v th tot = (st, v')" "\<not> is_complete v"
  shows "vote_ext v v'" "votes_ok v' = votes_ok v"
  using try_to_complete_votes [OF assms(1)] assms(2) by (auto simp: vote_ext_def votes_ok_def)

lemma commit_vote_Err: "commit_vote T who n c p fav s = Err e s' \<Longrightarrow> s' = s"
  by (auto simp: commit_vote_def Let_def split: if_splits prod.splits)

lemma commit_vote_not_Panic [simp]: "commit_vote T who n c p fav s \<noteq> Panic"
  by (auto simp: commit_vote_def Let_def split: if_splits prod.splits)

lemma commit_vote_OkE:
  assumes "commit_vote T who n c p fav s = Ok u s'"
  obtains v v' e where
    "v = (case Votes s (c, n, p) of Some v \<Rightarrow> v
        | None \<Rightarrow> default_votes\<lparr>expiry := block_number s + ProposalLifetime T\<rparr>)"
    "\<not> is_complete v" "\<not> is_expired v (block_number s)" "\<not> has_voted v who"
    "v' = (if fav then v\<lparr>votes_for := votes_for v @ [who]\<rparr>
           else v\<lparr>votes_against := votes_against v @ [who]\<rparr>)"
    "e = (if fav then VoteFor c n who else VoteAgainst c n who)"
    "s' = (bridge_deposit_event e s)\<lparr>Votes := (Votes s)((c, n, p) \<mapsto> v')\<rparr>"
proof -
  define v where "v = (case Votes s (c, n, p) of Some v \<Rightarrow> v
        | None \<Rightarrow> default_votes\<lparr>expiry := block_number s + ProposalLifetime T\<rparr>)"
  define e where "e = (if fav then VoteFor c n who else VoteAgainst c n who)"
  have "\<not> is_complete v" "\<not> is_expired v (block_number s)" "\<not> has_voted v who"
    and "s' = (bridge_deposit_event e s)\<lparr>Votes := (Votes s)((c, n, p) \<mapsto>
        (if fav then v\<lparr>votes_for := votes_for v @ [who]\<rparr>
           else v\<lparr>votes_against := votes_against v @ [who]\<rparr>))\<rparr>"
    using assms unfolding commit_vote_def Let_def v_def [symmetric] e_def
    by (auto split: if_splits)
  with v_def e_def that show thesis by blast
qed

lemma commit_vote_keeps:
  assumes "commit_vote T who n c p fav s = Ok u s'" "bridge_inv s"
  shows "bridge_inv s' \<and> votes_extend s s'"
proof -
  from assms(1) obtain v v' e where v: "v = (case Votes s (c, n, p) of Some v \<Rightarrow> v
        | None \<Rightarrow> default_votes\<lparr>expiry := block_number s + ProposalLifetime T\<rparr>)"
    and nc: "\<not> is_complete v" and nv: "\<not> has_voted v who"
    and v': "v' = (if fav then v\<lparr>votes_for := votes_for v @ [who]\<rparr>
           else v\<lparr>votes_against := votes_against v @ [who]\<rparr>)"
    and s': "s' = (bridge_deposit_event e s)\<lparr>Votes := (Votes s)((c, n, p) \<mapsto> v')\<rparr>"
    by (rule commit_vote_OkE)
  have "votes_ok v" using assms(2) v
    by (auto simp: bridge_inv_def votes_ok_def default_votes_def split: option.splits)
  with nv v' have ok: "votes_ok v'" by (auto simp: votes_ok_def has_voted_def)
  have ext: "vote_ext v v'" using v' nc by (auto simp: vote_ext_def)
  have "bridge_inv s'" by (rule bridge_inv_upd [OF assms(2) ok]) (simp_all add: s')
  moreover have "votes_extend s s'"
    by (rule votes_extend_upd [where v' = v' and k = "(c, n, p)"]) (use v ext in \<open>auto simp: s'\<close>)
  ultimately show ?thesis by blast
qed

section \<open>The contract with the dispatching runtime\<close>

definition keeps_bridge :: "('call, 'm) bridge_st_scheme \<Rightarrow>
    (xt_error, 'a, ('call, 'm) bridge_st_scheme) outcome \<Rightarrow> bool" where
  "keeps_bridge s r \<longleftrightarrow> (\<forall>s'. left_state r = Some s' \<longrightarrow> bridge_inv s \<longrightarrow> bridge_inv s' \<and> votes_extend s s')"

lemma keeps_bridge_simps [simp]:
  "keeps_bridge s (Ok x s') \<longleftrightarrow> (bridge_inv s \<longrightarrow> bridge_inv s' \<and> votes_extend s s')"
  "keeps_bridge s (Err e s') \<longleftrightarrow> (bridge_inv s \<longrightarrow> bridge_inv s' \<and> votes_extend s s')"
  "keeps_bridge s Panic"
  by (auto simp: keeps_bridge_def)

lemma keeps_bridge_refl [simp]: "bridge_inv s \<longrightarrow> bridge_inv s \<and> votes_extend s s"
  by (simp add: votes_extend_same)

lemma keeps_bridge_andthen:
  assumes "keeps_bridge s r" "\<And>x t. r = Ok x t \<Longrightarrow> keeps_bridge t (f x t)"
  shows "keeps_bridge s (andthen r f)"
proof (cases r)
  case (Ok x t)
  with assms have "keeps_bridge s (Ok x t)" "keeps_bridge t (f x t)" by auto
  then show ?thesis using Ok by (auto simp: keeps_bridge_def intro: votes_extend_trans)
qed (use assms in auto)

lemma keeps_bridge_frame:
  assumes "Votes s' = Votes s" "Relayers s' = Relayers s" "RelayerCount s' = RelayerCount s"
    "RelayerThreshold s' = RelayerThreshold s"
  shows "keeps_bridge s (Ok x s')" "keeps_bridge s (Err e s')"
  using bridge_inv_cong [OF assms] votes_extend_same [OF assms(1)] by simp_all

locale bridge_host =
  fixes T :: "('call, ('call, 'm) bridge_st_scheme) bridge_config"
  assumes dispatch_keeps: "keeps_bridge s (dispatch_call T c (Signed (bridge_account_id T)) s)"
begin

lemma finalize_execution_keeps: "keeps_bridge s (finalize_execution T c n p s)"
proof -
  let ?s1 = "bridge_deposit_event (ProposalApproved c n) s"
  have "keeps_bridge s (Ok () ?s1)" by (rule keeps_bridge_frame) simp_all
  then have "keeps_bridge s (andthen (Ok () ?s1) (\<lambda>_. dispatch_call T p (Signed (bridge_account_id T))))"
    by (rule keeps_bridge_andthen) (rule dispatch_keeps)
  then have "keeps_bridge s (dispatch_call T p (Signed (bridge_account_id T)) ?s1)" by simp
  then show ?thesis unfolding finalize_execution_def
    by (rule keeps_bridge_andthen) (rule keeps_bridge_frame, simp_all)
qed

lemma try_resolve_proposal_keeps: "keeps_bridge s (try_resolve_proposal T n c p s)"
proof (cases "Votes s (c, n, p)")
  case None
  then show ?thesis by (simp add: try_resolve_proposal_def)
next
  case (Some v)
  obtain st v' where tc: "try_to_complete v (RelayerThreshold s) (RelayerCount s) = (st, v')"
    by fastforce
  define s' where "s' = s\<lparr>Votes := (Votes s)((c, n, p) \<mapsto> v')\<rparr>"
  show ?thesis
  proof (cases "is_complete v \<or> is_expired v (block_number s)")
    case True
    with Some show ?thesis by (auto simp: try_resolve_proposal_def)
  next
    case False
    note ext = try_to_complete_ext [OF tc]
    have step: "keeps_bridge s (Ok () s')"
    proof (clarsimp, intro conjI)
      assume inv: "bridge_inv s"
      then have "votes_ok v" using Some by (auto simp: bridge_inv_def)
      then show "bridge_inv s'" using ext False inv
        by (intro bridge_inv_upd [of s v' s']) (auto simp: s'_def)
      show "votes_extend s s'" using ext False Some
        by (intro votes_extend_upd [of s "(c, n, p)" v']) (auto simp: s'_def)
    qed
    have "keeps_bridge s (andthen (Ok () s') (\<lambda>_ t. case st of
        Approved \<Rightarrow> finalize_execution T c n p t | Rejected \<Rightarrow> cancel_execution c n t
      | Initiated \<Rightarrow> Ok () t))"
      by (rule keeps_bridge_andthen [OF step])
        (auto split: proposal_status.split intro: finalize_execution_keeps
          simp: cancel_execution_def keeps_bridge_frame simp del: keeps_bridge_simps)
    moreover have "try_resolve_proposal T n c p s = (case st of
        Approved \<Rightarrow> finalize_execution T c n p s' | Rejected \<Rightarrow> cancel_execution c n s'
      | Initiated \<Rightarrow> Ok () s')"
      using False Some tc unfolding s'_def by (simp add: try_resolve_proposal_def Let_def)
    ultimately show ?thesis by simp
  qed
qed

lemma commit_then_resolve_keeps:
  "keeps_bridge s (andthen (commit_vote T who n c p fav s) (\<lambda>_ s'. try_resolve_proposal T n c p s'))"
proof (rule keeps_bridge_andthen)
  show "keeps_bridge s (commit_vote T who n c p fav s)"
    by (cases "commit_vote T who n c p fav s")
      (auto dest: commit_vote_keeps commit_vote_Err simp: votes_extend_same)
qed (rule try_resolve_proposal_keeps)

lemma vote_for_keeps: "keeps_bridge s (vote_for T who n c p s)"
  unfolding vote_for_def by (rule commit_then_resolve_keeps)

lemma vote_against_keeps: "keeps_bridge s (vote_against T who n c p s)"
  unfolding vote_against_def by (rule commit_then_resolve_keeps)

end

section \<open>Admin methods and transfers\<close>

lemma relayer_set_upd:
  "Relayers s' = (Relayers s)(a \<mapsto> True) \<Longrightarrow> relayer_set s' = insert a (relayer_set s)"
  "Relayers s' = (Relayers s)(a := None) \<Longrightarrow> relayer_set s' = relayer_set s - {a}"
  by (auto simp: relayer_set_def is_relayer_def)

lemma set_relayer_threshold_keeps: "keeps_bridge s (set_relayer_threshold th s)"
  by (auto simp: set_relayer_threshold_def bridge_inv_def relayer_set_def is_relayer_def
      intro: votes_extend_same)

lemma whitelist_keeps: "keeps_bridge s (whitelist T i s)"
  by (auto simp: whitelist_def keeps_bridge_frame simp del: keeps_bridge_simps(1))

lemma register_relayer_keeps: "keeps_bridge s (register_relayer a s)"
proof (cases "is_relayer s a")
  case True
  then show ?thesis by (simp add: register_relayer_def votes_extend_same)
next
  case False
  define s' where "s' = bridge_deposit_event (RelayerAdded a)
    (s\<lparr>Relayers := (Relayers s)(a \<mapsto> True), RelayerCount := RelayerCount s + 1\<rparr>)"
  have rs: "relayer_set s' = insert a (relayer_set s)" by (rule relayer_set_upd) (simp add: s'_def)
  have "a \<notin> relayer_set s" using False by (simp add: relayer_set_def)
  then have "bridge_inv s'" if "bridge_inv s"
    using that by (simp add: bridge_inv_def rs) (simp add: s'_def)
  moreover have "votes_extend s s'" by (rule votes_extend_same) (simp add: s'_def)
  ultimately show ?thesis using False by (simp add: register_relayer_def s'_def [symmetric])
qed

lemma unregister_relayer_keeps: "keeps_bridge s (unregister_relayer a s)"
proof (cases "is_relayer s a")
  case False
  then show ?thesis by (simp add: unregister_relayer_def votes_extend_same)
next
  case True
  define s' where "s' = bridge_deposit_event (RelayerRemoved a)
    (s\<lparr>Relayers := (Relayers s)(a := None), RelayerCount := RelayerCount s - 1\<rparr>)"
  have rs: "relayer_set s' = relayer_set s - {a}" by (rule relayer_set_upd) (simp add: s'_def)
  have a: "a \<in> relayer_set s" using True by (simp add: relayer_set_def)
  have "bridge_inv s'" if inv: "bridge_inv s"
  proof -
    from inv have fin: "finite (relayer_set s)" by (simp add: bridge_inv_def)
    have "card (relayer_set s) = Suc (card (relayer_set s - {a}))"
      by (rule card.remove [OF fin a])
    then have "RelayerCount s - 1 = of_nat (card (relayer_set s - {a}))"
      using inv by (simp add: bridge_inv_def)
    then show ?thesis using inv by (simp add: bridge_inv_def rs) (simp add: s'_def)
  qed
  moreover have "votes_extend s s'" by (rule votes_extend_same) (simp add: s'_def)
  ultimately show ?thesis using True by (simp add: unregister_relayer_def s'_def [symmetric])
qed

lemma emit_transfer_frame:
  assumes "emit_transfer d mk s = Ok u s'"
  shows "Votes s' = Votes s" "Relayers s' = Relayers s" "RelayerCount s' = RelayerCount s"
    "RelayerThreshold s' = RelayerThreshold s"
  using assms by (auto simp: emit_transfer_def bump_nonce_def Let_def split: if_splits)

lemma emit_transfer_cases:
  obtains "emit_transfer d mk s = Err (bridge_err ChainNotWhitelisted) s"
  | s' where "emit_transfer d mk s = Ok () s'"
  by (cases "chain_whitelisted s d") (auto simp: emit_transfer_def bump_nonce_def Let_def)

lemma emit_transfer_keeps: "keeps_bridge s (emit_transfer d mk s)"
proof (cases rule: emit_transfer_cases [of d mk s])
  case 1
  then show ?thesis by (simp add: votes_extend_same)
next
  case (2 s')
  then show ?thesis using keeps_bridge_frame(1) [OF emit_transfer_frame [OF 2]] by simp
qed

section \<open>Operations as steps, reachability\<close>

datatype 'call bridge_op =
    SetThreshold origin u32
  | WhitelistChain origin bridge_chain_id
  | AddRelayer origin account_id
  | RemoveRelayer origin account_id
  | Acknowledge origin deposit_nonce bridge_chain_id resource_id 'call
  | Reject origin deposit_nonce bridge_chain_id resource_id 'call
  | EvalVoteState origin deposit_nonce bridge_chain_id 'call
  | TransferFungible bridge_chain_id resource_id bytes u256
  | TransferNonFungible bridge_chain_id resource_id bytes bytes bytes
  | TransferGeneric bridge_chain_id resource_id bytes
  | NewBlock block_number

fun bridge_exec :: "('call, ('call, 'm) bridge_st_scheme) bridge_config \<Rightarrow> 'call bridge_op \<Rightarrow>
    ('call, 'm) bridge_st_scheme \<Rightarrow> (xt_error, unit, ('call, 'm) bridge_st_scheme) outcome" where
  "bridge_exec T (SetThreshold orig th) s = set_threshold T orig th s"
| "bridge_exec T (WhitelistChain orig i) s = whitelist_chain T orig i s"
| "bridge_exec T (AddRelayer orig v) s = add_relayer T orig v s"
| "bridge_exec T (RemoveRelayer orig v) s = remove_relayer T orig v s"
| "bridge_exec T (Acknowledge orig n c r p) s = acknowledge_proposal T orig n c r p s"
| "bridge_exec T (Reject orig n c r p) s = reject_proposal T orig n c r p s"
| "bridge_exec T (EvalVoteState orig n c p) s = eval_vote_state T orig n c p s"
| "bridge_exec T (TransferFungible d r to amount) s = transfer_fungible d r to amount s"
| "bridge_exec T (TransferNonFungible d r t to m) s = transfer_nonfungible d r t to m s"
| "bridge_exec T (TransferGeneric d r m) s = transfer_generic d r m s"
| "bridge_exec T (NewBlock n) s = Ok () (bridge_on_initialize (s\<lparr>block_number := n\<rparr>))"

text \<open>
  A failed extrinsic keeps what it wrote, so a step goes to whatever storage the operation
  leaves, an error's included.
\<close>

inductive bridge_reaches :: "('call, ('call, 'm) bridge_st_scheme) bridge_config \<Rightarrow>
    ('call, 'm) bridge_st_scheme \<Rightarrow> ('call, 'm) bridge_st_scheme \<Rightarrow> bool"
  for T where
  reach_start: "bridge_reaches T s s"
| reach_step: "bridge_reaches T s t \<Longrightarrow> left_state (bridge_exec T op t) = Some u \<Longrightarrow>
    bridge_reaches T s u"

context bridge_host
begin

lemma bridge_exec_keeps: "keeps_bridge s (bridge_exec T op s)"
proof (cases op)
  case (NewBlock n)
  then show ?thesis
    by (simp add: bridge_on_initialize_def bridge_inv_cong [of "_ s" s] votes_extend_same
        bridge_inv_def relayer_set_def is_relayer_def)
qed (auto simp: set_threshold_def whitelist_chain_def add_relayer_def remove_relayer_def
      acknowledge_proposal_def reject_proposal_def eval_vote_state_def transfer_fungible_def
      transfer_nonfungible_def transfer_generic_def votes_extend_same
      simp: set_relayer_threshold_keeps whitelist_keeps register_relayer_keeps
        unregister_relayer_keeps vote_for_keeps vote_against_keeps try_resolve_proposal_keeps
        emit_transfer_keeps split: option.split)

lemma bridge_reaches_keeps:
  "bridge_reaches T s t \<Longrightarrow> bridge_inv s \<Longrightarrow> bridge_inv t \<and> votes_extend s t"
proof (induction rule: bridge_reaches.induct)
  case (reach_start s)
  then show ?case by (simp add: votes_extend_same)
next
  case (reach_step s t op u)
  then show ?case using bridge_exec_keeps [of t op]
    by (auto simp: keeps_bridge_def intro: votes_extend_trans)
qed

end

section \<open>Completion of one proposal\<close>

text \<open>What resolving leaves under the proposal's own key, whatever the dispatch does.\<close>

lemma try_resolve_leaves:
  assumes host: "bridge_host T" and inv: "bridge_inv s" and v: "Votes s (c, n, p) = Some v"
    and nc: "\<not> is_complete v" and left: "left_state (try_resolve_proposal T n c p s) = Some s'"
    and v': "Votes s' (c, n, p) = Some v'" and comp: "is_complete v'"
  shows "try_to_complete v (RelayerThreshold s) (RelayerCount s) = (status v', v')"
proof -
  obtain st w where tc: "try_to_complete v (RelayerThreshold s) (RelayerCount s) = (st, w)"
    by fastforce
  note w = try_to_complete_votes [OF tc] and ext = try_to_complete_ext [OF tc nc]
  define s1 where "s1 = s\<lparr>Votes := (Votes s)((c, n, p) \<mapsto> w)\<rparr>"
  have inv1: "bridge_inv s1"
    by (rule bridge_inv_upd [OF inv, of w]) (use ext v inv in \<open>auto simp: s1_def bridge_inv_def\<close>)
  have res: "try_resolve_proposal T n c p s = (case st of
        Approved \<Rightarrow> finalize_execution T c n p s1 | Rejected \<Rightarrow> cancel_execution c n s1
      | Initiated \<Rightarrow> Ok () s1)" if "\<not> is_expired v (block_number s)"
    using that nc v tc unfolding s1_def by (simp add: try_resolve_proposal_def Let_def)
  show ?thesis
  proof (cases "is_expired v (block_number s)")
    case True
    then show ?thesis using left v v' nc comp by (simp add: try_resolve_proposal_def)
  next
    case False
    have "votes_extend s1 s'"
    proof (cases st)
      case Approved
      then show ?thesis using left res [OF False] inv1
          bridge_host.finalize_execution_keeps [OF host, of s1 c n p] by (simp add: keeps_bridge_def)
    qed (use left res [OF False] in \<open>auto simp: cancel_execution_def intro: votes_extend_same\<close>)
    then have "vote_ext w v'" by (rule votes_extendD [OF _ _ v']) (simp add: s1_def)
    then have "st \<noteq> Initiated \<Longrightarrow> v' = w" using w(5) by (auto simp: vote_ext_def is_complete_def)
    moreover have "st \<noteq> Initiated"
    proof
      assume st: "st = Initiated"
      then have "s' = s1" using left res [OF False] by simp
      then show False using st w(4) v' nc comp by (simp add: s1_def)
    qed
    ultimately show ?thesis using tc w(5) by simp
  qed
qed

text \<open>A vote of the proposal's own call that ends in a completed proposal.\<close>

lemma vote_completes:
  assumes "bridge_host T" "bridge_inv s"
    and nc: "\<And>v. Votes s (c, n, p) = Some v \<Longrightarrow> \<not> is_complete v"
    and left: "left_state (andthen (commit_vote T who n c p fav s)
        (\<lambda>_ s'. try_resolve_proposal T n c p s')) = Some s'"
    and v': "Votes s' (c, n, p) = Some v'" and comp: "is_complete v'"
  shows "votes_ok v' \<and> who \<in> set (if fav then votes_for v' else votes_against v') \<and>
    (\<exists>v. \<not> is_complete v \<and>
      try_to_complete v (RelayerThreshold s) (RelayerCount s) = (status v', v'))"
proof (cases "commit_vote T who n c p fav s")
  case (Ok u t)
  have inv: "bridge_inv t" using commit_vote_keeps [OF Ok assms(2)] by simp
  from Ok obtain w v e where w: "\<not> is_complete w" and v: "v = (if fav then w\<lparr>votes_for := votes_for w @ [who]\<rparr>
           else w\<lparr>votes_against := votes_against w @ [who]\<rparr>)"
    and t: "t = (bridge_deposit_event e s)\<lparr>Votes := (Votes s)((c, n, p) \<mapsto> v)\<rparr>"
    by (rule commit_vote_OkE)
  have vt: "Votes t (c, n, p) = Some v" by (simp add: t)
  have vnc: "\<not> is_complete v" using w v by (auto simp: is_complete_def)
  have tc: "try_to_complete v (RelayerThreshold t) (RelayerCount t) = (status v', v')"
    by (rule try_resolve_leaves [OF assms(1) inv vt vnc _ v' comp]) (use left Ok in simp)
  have "votes_ok v" using inv vt by (auto simp: bridge_inv_def)
  then have "votes_ok v'" using try_to_complete_ext [OF tc vnc] by simp
  moreover have "who \<in> set (if fav then votes_for v' else votes_against v')"
    using try_to_complete_votes [OF tc] v by auto
  moreover have "try_to_complete v (RelayerThreshold s) (RelayerCount s) = (status v', v')"
    using tc by (simp add: t)
  ultimately show ?thesis using vnc by blast
next
  case (Err e t)
  then show ?thesis using left v' comp nc by (auto dest: commit_vote_Err)
qed simp

section \<open>Numbering of the transfers out of the chain\<close>

fun event_key :: "bridge_event \<Rightarrow> bridge_chain_id \<times> deposit_nonce" where
  "event_key (FungibleTransfer d n r a t) = (d, n)"
| "event_key (NonFungibleTransfer d n r i t m) = (d, n)"
| "event_key (GenericTransfer d n r m) = (d, n)"

fun transfer_key :: "bridge_pallet_event \<Rightarrow> (bridge_chain_id \<times> deposit_nonce) list" where
  "transfer_key (TransferEvent e) = [event_key e]"
| "transfer_key _ = []"

definition nonces_to :: "bridge_chain_id \<Rightarrow> ('call, 'm) bridge_st_scheme \<Rightarrow> deposit_nonce list" where
  "nonces_to d s = [n. e \<leftarrow> bridge_log s, (d', n) \<leftarrow> transfer_key e, d' = d]"

text \<open>The transfers to a chain carry the nonces 1, 2, 3, \<dots> and the counter is their number.\<close>

definition numbered :: "('call, 'm) bridge_st_scheme \<Rightarrow> bool" where
  "numbered s \<longleftrightarrow> (\<forall>d. nonces_to d s = map of_nat [1..<Suc (length (nonces_to d s))] \<and>
     ChainNonces s d \<in> {None, Some (of_nat (length (nonces_to d s)))} \<and>
     (ChainNonces s d = None \<longrightarrow> nonces_to d s = []))"

definition keeps_numbered :: "('call, 'm) bridge_st_scheme \<Rightarrow>
    (xt_error, 'a, ('call, 'm) bridge_st_scheme) outcome \<Rightarrow> bool" where
  "keeps_numbered s r \<longleftrightarrow> (\<forall>s'. left_state r = Some s' \<longrightarrow> numbered s \<longrightarrow> numbered s')"

lemma keeps_numbered_simps [simp]:
  "keeps_numbered s (Ok x s') \<longleftrightarrow> (numbered s \<longrightarrow> numbered s')"
  "keeps_numbered s (Err e s') \<longleftrightarrow> (numbered s \<longrightarrow> numbered s')"
  "keeps_numbered s Panic"
  by (auto simp: keeps_numbered_def)

lemma keeps_numbered_andthen:
  assumes "keeps_numbered s r" "\<And>x t. r = Ok x t \<Longrightarrow> keeps_numbered t (f x t)"
  shows "keeps_numbered s (andthen r f)"
  using assms by (cases r) (auto simp: keeps_numbered_def)

lemma numbered_log:
  assumes "ChainNonces s' = ChainNonces s" "bridge_log s' = bridge_log s @ es"
    "\<And>e. e \<in> set es \<Longrightarrow> transfer_key e = []"
  shows "numbered s' = numbered s"
proof -
  have "nonces_to d s' = nonces_to d s" for d
    using assms(3) by (simp add: nonces_to_def assms(2) concat_eq_Nil_conv)
  then show ?thesis by (simp add: numbered_def assms(1))
qed

lemma numbered_deposit:
  "transfer_key e = [] \<Longrightarrow> numbered (bridge_deposit_event e s) = numbered s"
  by (rule numbered_log [of _ _ "[e]"]) (simp_all add: bridge_deposit_event_def)

lemma numbered_same:
  "ChainNonces s' = ChainNonces s \<Longrightarrow> bridge_log s' = bridge_log s \<Longrightarrow> numbered s' = numbered s"
  by (rule numbered_log [of _ _ "[]"]) simp_all

lemma numbered_frames [simp]:
  "numbered (s\<lparr>Votes := f\<rparr>) = numbered s"
  "numbered (s\<lparr>RelayerThreshold := th\<rparr>) = numbered s"
  "numbered (s\<lparr>Relayers := r\<rparr>) = numbered s"
  "numbered (s\<lparr>RelayerCount := k\<rparr>) = numbered s"
  "numbered (s\<lparr>BridgeEvents := es\<rparr>) = numbered s"
  "numbered (s\<lparr>block_number := b\<rparr>) = numbered s"
  by (rule numbered_same; simp)+

lemma emit_transfer_numbered:
  assumes mk: "\<And>n. event_key (mk n) = (d, n)"
  shows "keeps_numbered s (emit_transfer d mk s)"
proof (cases "ChainNonces s d")
  case None
  then show ?thesis by (simp add: emit_transfer_def chain_whitelisted_def)
next
  case (Some n)
  define s' where "s' = bridge_deposit_event (TransferEvent (mk (n + 1)))
    (s\<lparr>ChainNonces := (ChainNonces s)(d \<mapsto> n + 1), BridgeEvents := BridgeEvents s @ [mk (n + 1)]\<rparr>)"
  have eq: "emit_transfer d mk s = Ok () s'"
    using Some by (simp add: emit_transfer_def chain_whitelisted_def bump_nonce_def s'_def Let_def)
  have n1: "nonces_to d' s' = nonces_to d' s @ (if d' = d then [n + 1] else [])" for d'
    by (simp add: nonces_to_def s'_def bridge_deposit_event_def mk)
  have n2: "ChainNonces s' = (ChainNonces s)(d \<mapsto> n + 1)" by (simp add: s'_def)
  have "numbered s'" if "numbered s"
    unfolding numbered_def
  proof
    fix d'
    from that have h: "nonces_to d' s = map of_nat [1..<Suc (length (nonces_to d' s))]"
      "ChainNonces s d' \<in> {None, Some (of_nat (length (nonces_to d' s)))}"
      "ChainNonces s d' = None \<longrightarrow> nonces_to d' s = []"
      unfolding numbered_def by blast+
    then show "nonces_to d' s' = map of_nat [1..<Suc (length (nonces_to d' s'))] \<and>
     ChainNonces s' d' \<in> {None, Some (of_nat (length (nonces_to d' s')))} \<and>
     (ChainNonces s' d' = None \<longrightarrow> nonces_to d' s' = [])"
      using Some by (cases "d' = d") (simp_all add: n1 n2)
  qed
  then show ?thesis by (simp add: eq)
qed

lemma commit_vote_numbered: "keeps_numbered s (commit_vote T who n c p fav s)"
proof (cases "commit_vote T who n c p fav s")
  case (Ok u t)
  then obtain v e where e: "e = (if fav then VoteFor c n who else VoteAgainst c n who)"
    and t: "t = (bridge_deposit_event e s)\<lparr>Votes := (Votes s)((c, n, p) \<mapsto> v)\<rparr>"
    by (rule commit_vote_OkE)
  have "numbered t = numbered (bridge_deposit_event e s)" by (rule numbered_same) (simp_all add: t)
  also have "\<dots> = numbered s" by (rule numbered_deposit) (simp add: e)
  finally show ?thesis using Ok by simp
next
  case (Err e t)
  then show ?thesis by (auto dest: commit_vote_Err)
qed simp

lemma whitelist_numbered: "keeps_numbered s (whitelist T i s)"
proof (cases "i = BridgeChainId T \<or> chain_whitelisted s i")
  case True
  then show ?thesis by (auto simp: whitelist_def)
next
  case False
  define s' where "s' = bridge_deposit_event (ChainWhitelisted i)
    (s\<lparr>ChainNonces := (ChainNonces s)(i \<mapsto> 0)\<rparr>)"
  have n1: "nonces_to d s' = nonces_to d s" for d
    by (simp add: nonces_to_def s'_def bridge_deposit_event_def)
  have n2: "ChainNonces s' = (ChainNonces s)(i \<mapsto> 0)" by (simp add: s'_def)
  have "numbered s'" if "numbered s"
    using that False by (auto simp: numbered_def n1 n2 chain_whitelisted_def)
  then show ?thesis using False by (simp add: whitelist_def s'_def)
qed

lemma admin_numbered:
  "keeps_numbered s (set_relayer_threshold th s)"
  "keeps_numbered s (register_relayer a s)"
  "keeps_numbered s (unregister_relayer a s)"
  by (auto simp: set_relayer_threshold_def register_relayer_def unregister_relayer_def
      numbered_deposit)

locale bridge_host_numbered = bridge_host T
  for T :: "('call, ('call, 'm) bridge_st_scheme) bridge_config" +
  assumes dispatch_numbered:
    "keeps_numbered s (dispatch_call T c (Signed (bridge_account_id T)) s)"
begin

lemma finalize_execution_numbered: "keeps_numbered s (finalize_execution T c n p s)"
proof -
  have "keeps_numbered s (dispatch_call T p (Signed (bridge_account_id T))
      (bridge_deposit_event (ProposalApproved c n) s))"
    using dispatch_numbered [of "bridge_deposit_event (ProposalApproved c n) s" p]
    by (simp add: keeps_numbered_def numbered_deposit)
  then show ?thesis unfolding finalize_execution_def
    by (rule keeps_numbered_andthen) (simp add: numbered_deposit)
qed

lemma try_resolve_numbered: "keeps_numbered s (try_resolve_proposal T n c p s)"
proof -
  have upd: "keeps_numbered s (finalize_execution T c n p (s\<lparr>Votes := f\<rparr>))" for f
    using finalize_execution_numbered [of "s\<lparr>Votes := f\<rparr>" c n p] by (simp add: keeps_numbered_def)
  show ?thesis
    by (auto simp: try_resolve_proposal_def Let_def upd cancel_execution_def
        numbered_deposit split: option.split prod.split proposal_status.split)
qed

lemma vote_numbered:
  "keeps_numbered s (andthen (commit_vote T who n c p fav s) (\<lambda>_ s'. try_resolve_proposal T n c p s'))"
  by (rule keeps_numbered_andthen) (rule commit_vote_numbered, rule try_resolve_numbered)

lemma bridge_exec_numbered: "keeps_numbered s (bridge_exec T op s)"
proof (cases op)
  case (NewBlock n)
  then show ?thesis by (simp add: bridge_on_initialize_def)
qed (auto simp: set_threshold_def whitelist_chain_def add_relayer_def remove_relayer_def
      acknowledge_proposal_def reject_proposal_def eval_vote_state_def transfer_fungible_def
      transfer_nonfungible_def transfer_generic_def vote_for_def vote_against_def
      admin_numbered whitelist_numbered vote_numbered try_resolve_numbered
      emit_transfer_numbered split: option.split)

lemma bridge_reaches_numbered: "bridge_reaches T s t \<Longrightarrow> numbered s \<Longrightarrow> numbered t"
proof (induction rule: bridge_reaches.induct)
  case (reach_step s t op u)
  then show ?case using bridge_exec_numbered [of t op] by (auto simp: keeps_numbered_def)
qed

end

end
