(* ===== verification/Bridge_Claims.thy ===== *)
theory Bridge_Claims
  imports Bridge_Props
begin

text \<open>
  The properties of the bridge pallet, with a small concrete bridge (one relayer, one source
  chain, a dispatch that succeeds and one that fails) on which their hypotheses hold.
\<close>

definition relayer_a :: account_id where "relayer_a = [1]"

definition demo_config :: "(bool, bool bridge_st) bridge_config" where
  "demo_config = \<lparr>committee_origin = (\<lambda>orig. orig = Root), BridgeChainId = 5, ProposalLifetime = 100,
     bridge_account_id = [9],
     dispatch_call = (\<lambda>call orig s. if call then Ok () s else Err (Other ''call failed'') s)\<rparr>"

definition demo_start :: "bool bridge_st" where
  "demo_start = \<lparr>ChainNonces = Map.empty, RelayerThreshold = 1, Relayers = Map.empty, RelayerCount = 0,
     Votes = Map.empty, BridgeEvents = [], block_number = 1, bridge_log = []\<rparr>"

definition demo_bridge :: "bool bridge_st" where
  "demo_bridge = demo_start\<lparr>ChainNonces := [2 \<mapsto> 0], Relayers := [relayer_a \<mapsto> True],
     RelayerCount := 1\<rparr>"

lemma demo_host: "bridge_host demo_config"
  by unfold_locales (simp add: demo_config_def votes_extend_same)

lemma demo_numbered_host: "bridge_host_numbered demo_config"
proof (rule bridge_host_numbered.intro [OF demo_host])
  show "bridge_host_numbered_axioms demo_config" by unfold_locales (simp add: demo_config_def)
qed

lemma demo_start_inv: "bridge_inv demo_start" "numbered demo_start"
  by (simp_all add: bridge_inv_def demo_start_def relayer_set_def is_relayer_def numbered_def
      nonces_to_def)

lemma demo_bridge_inv: "bridge_inv demo_bridge"
proof -
  have "relayer_set demo_bridge = {relayer_a}"
    by (auto simp: relayer_set_def is_relayer_def demo_bridge_def)
  then show ?thesis by (simp add: bridge_inv_def demo_bridge_def demo_start_def)
qed



text \<open>
  C16. A proposal is executed at most once: after it is complete (approved or rejected), whatever
  operations follow, its record never changes again and every further vote on it and every
  evaluation of it is refused before anything is dispatched or written.
\<close>

theorem completed_proposal_is_final:
  assumes "bridge_host T" "bridge_inv s" "bridge_reaches T s t"
    and "Votes s (c, n, p) = Some v" "is_complete v"
  shows "Votes t (c, n, p) = Some v \<and>
    eval_vote_state T (Signed who) n c p t = Err (bridge_err ProposalAlreadyComplete) t \<and>
    (is_relayer t who \<and> chain_whitelisted t c \<longrightarrow>
       acknowledge_proposal T (Signed who) n c r p t = Err (bridge_err ProposalAlreadyComplete) t \<and>
       reject_proposal T (Signed who) n c r p t = Err (bridge_err ProposalAlreadyComplete) t)"
proof -
  have "votes_extend s t" using bridge_host.bridge_reaches_keeps [OF assms(1,3,2)] by simp
  then have "Votes t (c, n, p) = Some v"
    using assms(4,5) by (force simp: votes_extend_def vote_ext_def)
  then show ?thesis using assms(5)
    by (simp add: eval_vote_state_def try_resolve_proposal_def acknowledge_proposal_def
        reject_proposal_def vote_for_def vote_against_def commit_vote_def)
qed

definition demo_failed :: "bool bridge_st" where
  "demo_failed = demo_bridge\<lparr>Votes := [(2, 1, False) \<mapsto>
     \<lparr>votes_for = [relayer_a], votes_against = [], status = Approved, expiry = 101\<rparr>],
     bridge_log := [VoteFor 2 1 relayer_a, ProposalApproved 2 1]\<rparr>"

lemma demo_failed_inv: "bridge_inv demo_failed"
proof (rule bridge_inv_upd [OF demo_bridge_inv, where k = "(2, 1, False)"])
  show "votes_ok \<lparr>votes_for = [relayer_a], votes_against = [], status = Approved, expiry = 101\<rparr>"
    by (simp add: votes_ok_def)
qed (simp_all add: demo_failed_def demo_bridge_def demo_start_def)

theorem completed_proposal_is_final_witness:
  "acknowledge_proposal demo_config (Signed relayer_a) 1 2 [] False demo_failed =
     Err (bridge_err ProposalAlreadyComplete) demo_failed"
  using completed_proposal_is_final [OF demo_host demo_failed_inv reach_start, of 2 1 False
      "\<lparr>votes_for = [relayer_a], votes_against = [], status = Approved, expiry = 101\<rparr>" relayer_a "[]"]
  by (simp add: demo_failed_def demo_bridge_def demo_start_def is_complete_def is_relayer_def
      chain_whitelisted_def)



text \<open>
  A proposal is rejected exactly when it cannot be approved any more: with the voters among the
  current relayers and no wrap-around in the vote arithmetic, resolving rejects if and only if
  the threshold is not met, the threshold can be met by the relayers there are, and no set of
  relayers that contains the supporters and none of the opponents reaches the threshold.
\<close>

theorem rejected_iff_unreachable:
  assumes "finite R" "unat tot = card R" "votes_ok v"
    and "set (votes_for v) \<union> set (votes_against v) \<subseteq> R"
    and "card R + unat th < 2 ^ 32"
  shows "fst (try_to_complete v th tot) = Rejected \<longleftrightarrow>
    length (votes_for v) < unat th \<and> unat th \<le> card R \<and>
    (\<forall>S. set (votes_for v) \<subseteq> S \<and> S \<subseteq> R - set (votes_against v) \<longrightarrow> card S < unat th)"
proof -
  let ?A = "set (votes_against v)"
  have len: "length (votes_against v) = card ?A"
    using assms(3) by (simp add: votes_ok_def distinct_card)
  have cA: "card ?A \<le> card R" using assms(1,4) by (intro card_mono) auto
  have diff: "card (R - ?A) = card R - card ?A"
    using assms(4) by (intro card_Diff_subset) auto
  have u: "unat (of_nat (length (votes_against v)) + th) = card ?A + unat th"
    using cA assms(5) by (simp add: unat_word_ariths unat_of_nat len)
  have key: "tot < of_nat (length (votes_against v)) + th \<longleftrightarrow> card (R - ?A) < unat th"
    using cA by (simp add: word_less_nat_alt u assms(2) diff) linarith
  have "card (R - ?A) < unat th \<longleftrightarrow>
    (\<forall>S. set (votes_for v) \<subseteq> S \<and> S \<subseteq> R - ?A \<longrightarrow> card S < unat th)"
  proof (intro iffI allI impI)
    fix S assume "card (R - ?A) < unat th" "set (votes_for v) \<subseteq> S \<and> S \<subseteq> R - ?A"
    moreover from this have "card S \<le> card (R - ?A)" using assms(1) by (intro card_mono) auto
    ultimately show "card S < unat th" by linarith
  next
    assume all: "\<forall>S. set (votes_for v) \<subseteq> S \<and> S \<subseteq> R - ?A \<longrightarrow> card S < unat th"
    have "set (votes_for v) \<subseteq> R - ?A" using assms(3,4) unfolding votes_ok_def by blast
    with all [THEN spec, of "R - ?A"] show "card (R - ?A) < unat th" by simp
  qed
  moreover have "th \<le> tot \<longleftrightarrow> unat th \<le> card R" by (simp add: word_le_nat_alt assms(2))
  then have "fst (try_to_complete v th tot) = Rejected \<longleftrightarrow>
    \<not> unat th \<le> length (votes_for v) \<and> unat th \<le> card R \<and> card (R - ?A) < unat th"
    unfolding try_to_complete_def key by simp
  ultimately show ?thesis by (simp only: not_le)
qed

theorem rejected_iff_unreachable_witness:
  "fst (try_to_complete \<lparr>votes_for = [], votes_against = [relayer_a], status = Initiated, expiry = 0\<rparr> 1 1) = Rejected
    \<longleftrightarrow> length ([] :: account_id list) < unat (1 :: u32) \<and> unat (1 :: u32) \<le> card {relayer_a} \<and>
    (\<forall>S. set [] \<subseteq> S \<and> S \<subseteq> {relayer_a} - set [relayer_a] \<longrightarrow> card S < unat (1 :: u32))"
  using rejected_iff_unreachable [of "{relayer_a}" 1
      "\<lparr>votes_for = [], votes_against = [relayer_a], status = Initiated, expiry = 0\<rparr>" 1]
  by (simp add: votes_ok_def)

text \<open>
  Outgoing transfers are numbered without gaps or repetition: in every storage the pallet can
  reach, the nonces of the transfer events to a chain are, in order, 1, 2, 3 and so on, and the
  chain's stored nonce is their number, so the next transfer takes the next number (the numbers
  are u64 and wrap only after all of them were used).
\<close>

theorem transfers_are_numbered:
  assumes "bridge_host_numbered T" "numbered s" "bridge_reaches T s t"
  shows "nonces_to d t = map of_nat [1..<Suc (length (nonces_to d t))] \<and>
    (\<forall>n. ChainNonces t d = Some n \<longrightarrow> n = of_nat (length (nonces_to d t)) \<and>
      (\<exists>u. transfer_fungible d rid to amount t = Ok () u \<and>
         nonces_to d u = nonces_to d t @ [of_nat (length (nonces_to d t)) + 1]))"
proof -
  have num: "numbered t"
    by (rule bridge_host_numbered.bridge_reaches_numbered [OF assms(1,3,2)])
  then have "nonces_to d t = map of_nat [1..<Suc (length (nonces_to d t))]"
    and cn: "ChainNonces t d \<in> {None, Some (of_nat (length (nonces_to d t)))}"
    unfolding numbered_def by blast+
  moreover have "\<exists>u. transfer_fungible d rid to amount t = Ok () u \<and>
      nonces_to d u = nonces_to d t @ [n + 1]" if "ChainNonces t d = Some n" for n
    using that by (simp add: transfer_fungible_def emit_transfer_def chain_whitelisted_def
        bump_nonce_def Let_def nonces_to_def bridge_deposit_event_def)
  ultimately show ?thesis using cn by auto
qed

theorem transfers_are_numbered_witness:
  "nonces_to 2 demo_start = map of_nat [1..<Suc (length (nonces_to 2 demo_start))]"
  using transfers_are_numbered [OF demo_numbered_host demo_start_inv(2) reach_start] by blast

text \<open>
  The committee's bookkeeping holds in every reachable storage: the relayer counter the vote
  resolution divides by is the number of registered relayers, the threshold is never zero, and
  no proposal lists a relayer twice or on both sides.
\<close>

theorem bridge_books_balance:
  assumes "bridge_host T" "bridge_inv s" "bridge_reaches T s t"
  shows "finite {a. is_relayer t a} \<and> RelayerCount t = of_nat (card {a. is_relayer t a}) \<and>
    RelayerThreshold t \<noteq> 0 \<and>
    (\<forall>k v. Votes t k = Some v \<longrightarrow> distinct (votes_for v @ votes_against v))"
proof -
  have "bridge_inv t" using bridge_host.bridge_reaches_keeps [OF assms(1,3,2)] by simp
  then show ?thesis by (auto simp: bridge_inv_def relayer_set_def votes_ok_def)
qed

theorem bridge_books_balance_witness:
  "RelayerCount (demo_start\<lparr>Relayers := [relayer_a \<mapsto> True], RelayerCount := 1,
      bridge_log := [RelayerAdded relayer_a]\<rparr>) =
    of_nat (card {a. is_relayer (demo_start\<lparr>Relayers := [relayer_a \<mapsto> True], RelayerCount := 1,
      bridge_log := [RelayerAdded relayer_a]\<rparr>) a})"
proof -
  have "bridge_reaches demo_config demo_start (demo_start\<lparr>Relayers := [relayer_a \<mapsto> True],
      RelayerCount := 1, bridge_log := [RelayerAdded relayer_a]\<rparr>)"
    by (rule reach_step [OF reach_start, of _ "AddRelayer Root relayer_a"])
      (simp add: add_relayer_def register_relayer_def demo_config_def demo_start_def
        is_relayer_def bridge_deposit_event_def)
  from bridge_books_balance [OF demo_host demo_start_inv(1) this] show ?thesis by blast
qed

end
