(* ===== verification/Fixed_Point.thy ===== *)
theory Fixed_Point
  imports Prelude
begin

text \<open>
  The arithmetic of balances: \<open>src/pallets/phala/src/utils/balance_convert.rs\<close>,
  \<open>utils/accumulator.rs\<close> and the dust functions at the end of \<open>stakepool.rs\<close>.

  The number type \<open>U64F64\<close> (64 integer and 64 fractional bits) is the crate \<open>fixed\<close>, which is
  not part of the repository. Its values are their 128 bits (\<open>from_bits\<close> and \<open>to_bits\<close> are the
  identity) and its operations are the parameter \<open>fixed_ops\<close> of every definition that uses
  them. \<open>fixed_arith\<close> states their documented behaviour where the result fits; division by zero
  panics, which is \<open>None\<close>. \<open>u64f64\<close> is a concrete implementation that meets it.
\<close>

section \<open>The fixed point operations the code calls\<close>

type_synonym u64f64 = "128 word"

record fixed_ops =
  fx_from_num :: "u128 \<Rightarrow> u64f64"
  fx_to_num :: "u64f64 \<Rightarrow> u128"
  fx_add :: "u64f64 \<Rightarrow> u64f64 \<Rightarrow> u64f64"
  fx_sub :: "u64f64 \<Rightarrow> u64f64 \<Rightarrow> u64f64"
  fx_mul :: "u64f64 \<Rightarrow> u64f64 \<Rightarrow> u64f64"
  fx_div :: "u64f64 \<Rightarrow> u64f64 \<Rightarrow> u64f64 option"
  fx_checked_div :: "u64f64 \<Rightarrow> u64f64 \<Rightarrow> u64f64 option"
  fx_sat_mul :: "u64f64 \<Rightarrow> u64f64 \<Rightarrow> u64f64"
  fx_sat_div :: "u64f64 \<Rightarrow> u64f64 \<Rightarrow> u64f64"
  fx_sqrt :: "u64f64 \<Rightarrow> u64f64"
  fp_0_8 :: u64f64
  fp_0_7 :: u64f64

abbreviation fp_0 :: u64f64 where "fp_0 \<equiv> 0"
definition fp_1 :: u64f64 where "fp_1 = 2 ^ 64"

locale fixed_arith =
  fixes F :: fixed_ops
  assumes from_num: "unat n < 2 ^ 64 \<Longrightarrow> unat (fx_from_num F n) = unat n * 2 ^ 64"
    and to_num: "unat (fx_to_num F x) = unat x div 2 ^ 64"
    and add: "unat x + unat y < 2 ^ 128 \<Longrightarrow> unat (fx_add F x y) = unat x + unat y"
    and sub: "y \<le> x \<Longrightarrow> unat (fx_sub F x y) = unat x - unat y"
    and mul: "unat x * unat y div 2 ^ 64 < 2 ^ 128 \<Longrightarrow> unat (fx_mul F x y) = unat x * unat y div 2 ^ 64"
    and div_zero: "fx_div F x 0 = None"
    and div_defined: "y \<noteq> 0 \<Longrightarrow> fx_div F x y \<noteq> None"
    and div: "fx_div F x y = Some z \<Longrightarrow> unat x * 2 ^ 64 div unat y < 2 ^ 128 \<Longrightarrow>
      unat z = unat x * 2 ^ 64 div unat y"
    and checked_div: "fx_checked_div F x y =
      (if y = 0 \<or> 2 ^ 128 \<le> unat x * 2 ^ 64 div unat y then None
       else Some (of_nat (unat x * 2 ^ 64 div unat y)))"
    and sat_mul: "unat (fx_sat_mul F x y) = min (unat x * unat y div 2 ^ 64) (2 ^ 128 - 1)"
    and sat_div: "y \<noteq> 0 \<Longrightarrow> unat (fx_sat_div F x y) = min (unat x * 2 ^ 64 div unat y) (2 ^ 128 - 1)"
    and literals: "unat (fp_0_8 F) < 2 ^ 64" "unat (fp_0_7 F) < 2 ^ 64"

text \<open>
  The release build's \<open>from_num\<close> drops the bits that do not fit ("the wrapped value can be
  returned").
\<close>

locale fixed_release = fixed_arith +
  assumes from_num_wraps: "fx_from_num F n = of_nat (unat n * 2 ^ 64)"

definition isqrt :: "nat \<Rightarrow> nat" where
  "isqrt n = foldl (\<lambda>r k. if (r + 2 ^ k) * (r + 2 ^ k) \<le> n then r + 2 ^ k else r) 0 (rev [0..<96])"

definition u64f64 :: fixed_ops where
  "u64f64 = \<lparr>
     fx_from_num = (\<lambda>n. of_nat (unat n * 2 ^ 64)),
     fx_to_num = (\<lambda>x. of_nat (unat x div 2 ^ 64)),
     fx_add = (\<lambda>x y. x + y),
     fx_sub = (\<lambda>x y. x - y),
     fx_mul = (\<lambda>x y. of_nat (unat x * unat y div 2 ^ 64)),
     fx_div = (\<lambda>x y. if y = 0 then None else Some (of_nat (unat x * 2 ^ 64 div unat y))),
     fx_checked_div = (\<lambda>x y. if y = 0 \<or> 2 ^ 128 \<le> unat x * 2 ^ 64 div unat y then None
        else Some (of_nat (unat x * 2 ^ 64 div unat y))),
     fx_sat_mul = (\<lambda>x y. of_nat (min (unat x * unat y div 2 ^ 64) (2 ^ 128 - 1))),
     fx_sat_div = (\<lambda>x y. of_nat (min (unat x * 2 ^ 64 div unat y) (2 ^ 128 - 1))),
     fx_sqrt = (\<lambda>x. of_nat (isqrt (unat x * 2 ^ 64))),
     fp_0_8 = 14757395258967641293,
     fp_0_7 = 12912720851596686131\<rparr>"

lemma unat_of_nat_128: "n < 2 ^ 128 \<Longrightarrow> unat (of_nat n :: 128 word) = n"
  by (simp add: unat_of_nat_small)

interpretation u64f64: fixed_release u64f64
proof (unfold_locales, goal_cases)
  case (1 n)
  then have "unat n * 2 ^ 64 < 2 ^ 128" by simp
  then show ?case by (simp only: u64f64_def fixed_ops.simps unat_of_nat_128)
next
  case (2 x)
  have "unat x div 2 ^ 64 < 2 ^ 128" using unat_lt_2p [of x] by simp
  then show ?case by (simp add: u64f64_def unat_of_nat_128)
qed (auto simp: u64f64_def unat_of_nat_128 unat_plus_small unat_minus_le split: if_splits)

section \<open>Conversion between balances and fixed point numbers\<close>

definition FIXED_1E12 :: u64f64 where
  "FIXED_1E12 = 1000000000000 * 2 ^ 64"

definition balance_from_fixed :: "fixed_ops \<Rightarrow> u64f64 \<Rightarrow> u128" where
  "balance_from_fixed F v = fx_to_num F (fx_sat_mul F v FIXED_1E12)"

definition balance_from_bits :: "fixed_ops \<Rightarrow> u128 \<Rightarrow> u128" where
  "balance_from_bits F bits = balance_from_fixed F bits"

definition balance_to_fixed :: "fixed_ops \<Rightarrow> u128 \<Rightarrow> u64f64" where
  "balance_to_fixed F n = (let v = fx_from_num F n in fx_sat_div F v FIXED_1E12)"

definition bmul :: "fixed_ops \<Rightarrow> u128 \<Rightarrow> u64f64 \<Rightarrow> u128" where
  "bmul F x y = balance_from_fixed F (fx_mul F (balance_to_fixed F x) y)"

definition bdiv :: "fixed_ops \<Rightarrow> u128 \<Rightarrow> u64f64 \<Rightarrow> u128 option" where
  "bdiv F x y = map_option (balance_from_fixed F) (fx_div F (balance_to_fixed F x) y)"

section \<open>The reward accumulator\<close>

definition clear_pending :: "fixed_ops \<Rightarrow> u128 \<Rightarrow> u64f64 \<Rightarrow> u128" where
  "clear_pending F share acc = bmul F share acc"

definition pending :: "fixed_ops \<Rightarrow> u128 \<Rightarrow> u64f64 \<Rightarrow> u128 \<Rightarrow> u128" where
  "pending F share acc debt = bmul F share acc - debt"

definition distribute :: "fixed_ops \<Rightarrow> u128 \<Rightarrow> u64f64 \<Rightarrow> u128 \<Rightarrow> u64f64 option" where
  "distribute F total_share acc v =
     map_option (fx_add F acc) (fx_div F (balance_to_fixed F v) (balance_to_fixed F total_share))"

section \<open>Dust\<close>

definition balance_close_to_zero :: "u128 \<Rightarrow> bool" where
  "balance_close_to_zero n = (n \<le> 1000)"

definition balances_nearly_equal :: "u128 \<Rightarrow> u128 \<Rightarrow> bool" where
  "balances_nearly_equal a b =
     (if a > b then balance_close_to_zero (a - b) else balance_close_to_zero (b - a))"

definition is_nondust_balance :: "u128 \<Rightarrow> bool" where
  "is_nondust_balance n = (\<not> balance_close_to_zero n)"

definition extract_dust :: "u128 \<Rightarrow> u128 \<times> u128" where
  "extract_dust n = (if balance_close_to_zero n then (0, n) else (n, 0))"

lemma extract_dust_sum: "fst (extract_dust n) + snd (extract_dust n) = n"
  by (simp add: extract_dust_def)

lemma extract_dust_le: "fst (extract_dust n) \<le> n" "snd (extract_dust n) \<le> n"
  by (simp_all add: extract_dust_def)

lemma extract_dust_nondust: "fst (extract_dust n) \<noteq> 0 \<longleftrightarrow> is_nondust_balance n"
  by (auto simp: extract_dust_def is_nondust_balance_def balance_close_to_zero_def)

lemma extract_dust_snd: "unat (snd (extract_dust n)) \<le> 1000"
  by (auto simp: extract_dust_def balance_close_to_zero_def word_le_nat_alt)

lemma extract_dust_cases:
  obtains "n \<le> 1000" "extract_dust n = (0, n)" | "n > 1000" "extract_dust n = (n, 0)"
  by (cases "n \<le> 1000") (auto simp: extract_dust_def balance_close_to_zero_def)

section \<open>Laws of the conversion\<close>

lemma unat_FIXED_1E12: "unat FIXED_1E12 = 1000000000000 * 2 ^ 64"
  by (simp add: FIXED_1E12_def)

lemma FIXED_1E12_nonzero [simp]: "FIXED_1E12 \<noteq> 0"
  by (simp add: FIXED_1E12_def)

context fixed_arith
begin

text \<open>A balance below 2^64 pico is its 1e12-th part, rounded down to 64 binary places.\<close>

lemma to_fixed_unat:
  assumes "unat n < 2 ^ 64"
  shows "unat (balance_to_fixed F n) = unat n * 2 ^ 64 div 1000000000000"
proof -
  have "unat n * 2 ^ 64 * 2 ^ 64 div (1000000000000 * 2 ^ 64) = unat n * 2 ^ 64 div 1000000000000"
    by (rule div_mult_mult2) simp
  moreover have "unat n * 2 ^ 64 div 1000000000000 \<le> 2 ^ 128 - 1"
  proof -
    have "unat n * 2 ^ 64 < 2 ^ 64 * 2 ^ 64" using assms by simp
    then have "unat n * 2 ^ 64 \<le> 2 ^ 128 - 1" by simp
    then show ?thesis using div_le_dividend le_trans by blast
  qed
  ultimately show ?thesis
    by (simp only: balance_to_fixed_def Let_def sat_div [OF FIXED_1E12_nonzero] from_num [OF assms]
        unat_FIXED_1E12 min.absorb1)
qed

lemma from_fixed_unat:
  "unat (balance_from_fixed F v) = min (unat v * 1000000000000) (2 ^ 128 - 1) div 2 ^ 64"
proof -
  have "unat v * (1000000000000 * 2 ^ 64) div 2 ^ 64 = unat v * 1000000000000"
    by simp
  then show ?thesis
    by (simp only: balance_from_fixed_def to_num sat_mul unat_FIXED_1E12)
qed

lemma from_fixed_le: "unat (balance_from_fixed F v) \<le> unat v * 1000000000000 div 2 ^ 64"
  unfolding from_fixed_unat by (rule div_le_mono) simp

lemma from_fixed_mono: "v \<le> w \<Longrightarrow> balance_from_fixed F v \<le> balance_from_fixed F w"
  unfolding word_le_nat_alt from_fixed_unat by (rule div_le_mono) (auto simp: min_def)

lemma from_fixed_lt: "unat (balance_from_fixed F v) < 2 ^ 64"
proof -
  have "min (unat v * 1000000000000) (2 ^ 128 - 1) < 2 ^ 64 * 2 ^ 64"
    by (simp add: min_def)
  then show ?thesis unfolding from_fixed_unat by (rule less_mult_imp_div_less)
qed

lemma to_fixed_mono:
  "m \<le> n \<Longrightarrow> unat n < 2 ^ 64 \<Longrightarrow> balance_to_fixed F m \<le> balance_to_fixed F n"
  by (simp add: word_le_nat_alt to_fixed_unat div_le_mono)

lemma to_fixed_zero [simp]: "balance_to_fixed F 0 = 0"
  using to_fixed_unat [of 0] by (simp add: unat_eq_0)

lemma from_fixed_zero [simp]: "balance_from_fixed F 0 = 0"
  using from_fixed_unat [of 0] by (simp add: unat_eq_0)

lemma to_fixed_eq_0_iff: "unat n < 2 ^ 64 \<Longrightarrow> balance_to_fixed F n = 0 \<longleftrightarrow> n = 0"
proof
  assume n: "unat n < 2 ^ 64" and z: "balance_to_fixed F n = 0"
  then have "unat n * 2 ^ 64 div 1000000000000 = 0" using to_fixed_unat [OF n] by simp
  then have "unat n * 2 ^ 64 < 1000000000000" by (simp add: div_eq_0_iff)
  then have "unat n = 0" by simp
  then show "n = 0" by (simp add: unat_eq_0)
qed simp

text \<open>Converting to fixed point and back loses at most one pico.\<close>

lemma from_to_fixed:
  assumes "unat n < 2 ^ 64"
  shows "balance_from_fixed F (balance_to_fixed F n) \<le> n"
    "unat n \<le> unat (balance_from_fixed F (balance_to_fixed F n)) + 1"
proof -
  let ?v = "unat n * 2 ^ 64 div 1000000000000"
  have v: "unat (balance_to_fixed F n) = ?v" by (rule to_fixed_unat [OF assms])
  have up: "?v * 1000000000000 \<le> unat n * 2 ^ 64" by (rule div_times_less_eq_dividend)
  have lo: "unat n * 2 ^ 64 < ?v * 1000000000000 + 1000000000000"
    by (metis add.commute dividend_less_div_times zero_less_numeral)
  have fit: "min (?v * 1000000000000) (2 ^ 128 - 1) = ?v * 1000000000000"
    using up assms by (simp add: min_def)
  have eq: "unat (balance_from_fixed F (balance_to_fixed F n)) = ?v * 1000000000000 div 2 ^ 64"
    by (simp only: from_fixed_unat v fit)
  have "?v * 1000000000000 div 2 ^ 64 \<le> unat n * 2 ^ 64 div 2 ^ 64" by (rule div_le_mono [OF up])
  then show "balance_from_fixed F (balance_to_fixed F n) \<le> n" by (simp add: word_le_nat_alt eq)
  show "unat n \<le> unat (balance_from_fixed F (balance_to_fixed F n)) + 1"
  proof -
    define q where "q = ?v * 1000000000000 div 2 ^ 64"
    have "?v * 1000000000000 < q * 2 ^ 64 + 2 ^ 64" unfolding q_def
      by (metis add.commute dividend_less_div_times zero_less_numeral zero_less_power)
    with lo have "unat n * 2 ^ 64 < q * 2 ^ 64 + 2 ^ 64 + 1000000000000" by linarith
    then have "unat n \<le> q + 1" by simp
    then show ?thesis by (simp only: eq q_def)
  qed
qed

end

end
