(* ===== verification/Phala_Types.thy ===== *)
theory Phala_Types
  imports Fixed_Point
begin

text \<open>
  The data of the Phala pallets: the messages of \<open>src/crates/phala-mq/src/types.rs\<close>, the typed
  payloads of \<open>src/crates/phala-types/src/lib.rs\<close>, and the stored structures of
  \<open>src/pallets/phala/src\<close> (\<open>registry.rs\<close>, \<open>mining.rs\<close>, \<open>stakepool.rs\<close>). Public keys, hashes
  and account identifiers are byte strings.
\<close>

type_synonym worker_key = bytes
type_synonym pool_id = u64
type_synonym block_num = u32

section \<open>Messages\<close>

datatype message_origin =
    PalletOrigin bytes
  | ContractOrigin bytes
  | WorkerOrigin worker_key
  | AccountOrigin bytes
  | MultiLocationOrigin bytes
  | GatekeeperOrigin

definition origin_is_offchain :: "message_origin \<Rightarrow> bool" where
  "origin_is_offchain m = (case m of
     ContractOrigin _ \<Rightarrow> True | WorkerOrigin _ \<Rightarrow> True | GatekeeperOrigin \<Rightarrow> True | _ \<Rightarrow> False)"

definition origin_is_pallet :: "message_origin \<Rightarrow> bool" where
  "origin_is_pallet m = (case m of PalletOrigin _ \<Rightarrow> True | _ \<Rightarrow> False)"

definition origin_is_gatekeeper :: "message_origin \<Rightarrow> bool" where
  "origin_is_gatekeeper m = (case m of GatekeeperOrigin \<Rightarrow> True | _ \<Rightarrow> False)"

definition origin_account :: "message_origin \<Rightarrow> bytes option" where
  "origin_account m = (case m of AccountOrigin a \<Rightarrow> Some a | _ \<Rightarrow> None)"

text \<open>Topics; bytes are written as characters, \<open>^\<close> is 94.\<close>

type_synonym topic = bytes

definition ascii :: "string \<Rightarrow> bytes" where
  "ascii s = map (\<lambda>c. of_nat (of_char c)) s"

definition RESERVED_BYTES :: bytes where
  "RESERVED_BYTES = ascii ''~!@#$%&*_+-=|<>?,./;:'' @ [39]"

definition topic_is_valid :: "topic \<Rightarrow> bool" where
  "topic_is_valid t = (case t of [] \<Rightarrow> False | b # _ \<Rightarrow> b \<notin> set RESERVED_BYTES)"

definition topic_is_offchain :: "topic \<Rightarrow> bool" where
  "topic_is_offchain t = (if \<not> topic_is_valid t then False else hd t \<noteq> 94)"

record message =
  m_sender :: message_origin
  m_destination :: topic
  m_payload :: bytes

record signed_message =
  sm_message :: message
  sm_sequence :: u64
  sm_signature :: bytes

section \<open>Payloads\<close>

datatype worker_event =
    Registered u8
  | BenchStart u32
  | BenchScore u32
  | MiningStart u32 u128 u32
  | MiningStop
  | MiningEnterUnresponsive
  | MiningExitUnresponsive

datatype system_event =
    WorkerEvent worker_key worker_event
  | HeartbeatChallenge u256 u256

text \<open>\<open>MiningReportEvent::Heartbeat\<close>: session, challenge block, challenge time, iterations.\<close>

datatype mining_report_event = Heartbeat u32 u32 u64 u64

record settle_info =
  si_pubkey :: worker_key
  si_v :: u128
  si_payout :: u128
  si_treasury :: u128

record mining_info_update_event =
  offline :: "worker_key list"
  recovered_to_online :: "worker_key list"
  settle :: "settle_info list"

definition update_is_empty :: "mining_info_update_event \<Rightarrow> bool" where
  "update_is_empty e = (offline e = [] \<and> settle e = [] \<and> recovered_to_online e = [])"

datatype gatekeeper_launch = FirstGatekeeper worker_key bytes | MasterPubkeyOnChain bytes

datatype gatekeeper_change = GatekeeperRegistered worker_key bytes

record tokenomic_params =
  pha_rate :: u128
  rho :: u128
  budget_per_block :: u128
  v_max :: u128
  cost_k :: u128
  cost_b :: u128
  slash_rate :: u128
  treasury_ratio :: u128
  heartbeat_window :: u32
  rig_k :: u128
  rig_b :: u128
  re :: u128
  tk_k :: u128
  kappa :: u128

datatype gatekeeper_event =
    NewRandomNumber u32 bytes bytes
  | TokenomicParametersChanged tokenomic_params
  | RepairV

datatype registry_event = BenchReport u64 u64 | MasterPubkey bytes

definition system_event_topic :: topic where "system_event_topic = ascii ''phala/system/event''"
definition gatekeeper_launch_topic :: topic where
  "gatekeeper_launch_topic = ascii ''phala/gatekeeper/launch''"
definition gatekeeper_change_topic :: topic where
  "gatekeeper_change_topic = ascii ''phala/gatekeeper/change''"
definition gatekeeper_event_topic :: topic where
  "gatekeeper_event_topic = ascii ''phala/gatekeeper/event''"
definition mining_report_topic :: topic where "mining_report_topic = ascii ''phala/mining/report''"
definition mining_update_topic :: topic where "mining_update_topic = ascii ''^phala/mining/update''"
definition registry_event_topic :: topic where
  "registry_event_topic = ascii ''^phala/registry/event''"

section \<open>Stored structures\<close>

record worker_info =
  wi_pubkey :: worker_key
  wi_ecdh_pubkey :: bytes
  runtime_version :: u32
  last_updated :: u64
  operator :: "account_id option"
  confidence_level :: u8
  initial_score :: "u32 option"
  features :: "u32 list"

record worker_registration_info =
  ri_version :: u32
  ri_machine_id :: bytes
  ri_pubkey :: worker_key
  ri_ecdh_pubkey :: bytes
  ri_genesis_block_hash :: bytes
  ri_features :: "u32 list"
  ri_operator :: "account_id option"

datatype miner_state = Ready | MiningIdle | MiningActive | MiningUnresponsive | MiningCoolingDown

record benchmark =
  p_init :: u32
  p_instant :: u32
  iterations :: u64
  mining_start_time :: u64
  challenge_time_last :: u64

record miner_info =
  mi_state :: miner_state
  mi_ve :: u128
  mi_v :: u128
  v_updated_at :: u64
  mi_benchmark :: benchmark
  cool_down_start :: u64
  total_reward :: u128

record withdraw_info =
  w_user :: account_id
  w_shares :: u128
  w_start_time :: u64

record pool_info =
  p_pid :: pool_id
  p_owner :: account_id
  payout_commission :: "u32 option"
  owner_reward :: u128
  p_cap :: "u128 option"
  reward_acc :: u64f64
  total_shares :: u128
  total_stake :: u128
  free_stake :: u128
  releasing_stake :: u128
  p_workers :: "worker_key list"
  withdraw_queue :: "withdraw_info list"

record user_stake_info =
  u_user :: account_id
  u_locked :: u128
  u_shares :: u128
  available_rewards :: u128
  reward_debt :: u128

end
