(* ===== verification/Stake_Pool_Info.thy ===== *)
theory Stake_Pool_Info
  imports Phala_Types
begin

text \<open>
  The methods of \<open>PoolInfo\<close> in \<open>src/pallets/phala/src/stakepool.rs\<close>: shares, stake, rewards and
  slashes of one pool and one of its users, before any storage is touched. A panic or a \<open>None\<close>
  of the source is \<open>None\<close>. The debug assertions are not part of the production build.
\<close>

definition share_price :: "fixed_ops \<Rightarrow> pool_info \<Rightarrow> u64f64 option" where
  "share_price F p =
     fx_checked_div F (balance_to_fixed F (total_stake p)) (balance_to_fixed F (total_shares p))"

definition pending_reward :: "fixed_ops \<Rightarrow> pool_info \<Rightarrow> user_stake_info \<Rightarrow> u128" where
  "pending_reward F p u = pending F (u_shares u) (reward_acc p) (reward_debt u)"

definition reset_pending_reward :: "fixed_ops \<Rightarrow> pool_info \<Rightarrow> user_stake_info \<Rightarrow> user_stake_info" where
  "reset_pending_reward F p u = u\<lparr>reward_debt := clear_pending F (u_shares u) (reward_acc p)\<rparr>"

definition settle_user_pending_reward ::
    "fixed_ops \<Rightarrow> pool_info \<Rightarrow> user_stake_info \<Rightarrow> user_stake_info" where
  "settle_user_pending_reward F p u =
     (let r = pending_reward F p u
      in reset_pending_reward F p (u\<lparr>available_rewards := saturating_add (available_rewards u) r\<rparr>))"

definition distribute_reward :: "fixed_ops \<Rightarrow> u128 \<Rightarrow> pool_info \<Rightarrow> pool_info option" where
  "distribute_reward F rewards p =
     (if \<not> is_nondust_balance (total_shares p) then None
      else map_option (\<lambda>acc. p\<lparr>reward_acc := acc\<rparr>)
             (distribute F (total_shares p) (reward_acc p) rewards))"

definition add_stake :: "fixed_ops \<Rightarrow> u128 \<Rightarrow> pool_info \<Rightarrow> user_stake_info \<Rightarrow>
    (pool_info \<times> user_stake_info) option" where
  "add_stake F amount p u =
     (case (case share_price F p of
              Some price \<Rightarrow> (if price \<noteq> fp_0 then bdiv F amount price else Some amount)
            | None \<Rightarrow> Some amount) of
        None \<Rightarrow> None
      | Some shares \<Rightarrow>
          let u' = reset_pending_reward F p
                (u\<lparr>u_shares := saturating_add (u_shares u) shares,
                   u_locked := saturating_add (u_locked u) amount\<rparr>)
          in Some (p\<lparr>total_shares := total_shares p + shares,
                     total_stake := saturating_add (total_stake p) amount,
                     free_stake := saturating_add (free_stake p) amount\<rparr>, u'))"

definition remove_stake :: "fixed_ops \<Rightarrow> u128 \<Rightarrow> pool_info \<Rightarrow> user_stake_info \<Rightarrow>
    ((u128 \<times> u128) \<times> pool_info \<times> user_stake_info) option" where
  "remove_stake F shares p u =
     (case share_price F p of None \<Rightarrow> None | Some price \<Rightarrow>
       let amount = min (min (bmul F shares price) (free_stake p)) (u_locked u) in
       case checked_sub (u_shares u) shares of None \<Rightarrow> None | Some left_shares \<Rightarrow>
       let (user_shares, shares_dust) = extract_dust left_shares in
       case checked_sub (u_locked u) amount of None \<Rightarrow> None | Some left_locked \<Rightarrow>
       let (user_locked, user_dust) = extract_dust left_locked in
       case checked_sub (total_shares p) (shares + shares_dust) of None \<Rightarrow> None | Some total_sh \<Rightarrow>
       let (total_st, _) = extract_dust (total_stake p - amount);
           p' = (if total_st > 0
                 then p\<lparr>free_stake := free_stake p - amount, total_stake := total_stake p - amount\<rparr>
                 else p\<lparr>free_stake := 0, total_stake := 0\<rparr>)\<lparr>total_shares := total_sh\<rparr>;
           u' = reset_pending_reward F p' (u\<lparr>u_shares := user_shares, u_locked := user_locked\<rparr>)
       in Some ((amount, user_dust), p', u'))"

definition slash_pool :: "u128 \<Rightarrow> pool_info \<Rightarrow> pool_info" where
  "slash_pool amount p =
     (let amount = min (total_stake p) amount;
          (new_stake, _) = extract_dust (total_stake p - amount)
      in p\<lparr>total_stake := new_stake\<rparr>)"

definition settle_slash :: "fixed_ops \<Rightarrow> pool_info \<Rightarrow> user_stake_info \<Rightarrow>
    (u128 \<times> user_stake_info) option" where
  "settle_slash F p u =
     (case share_price F p of None \<Rightarrow> None
      | Some price \<Rightarrow>
          let locked = u_locked u;
              new_locked = min (bmul F (u_shares u) price) locked;
              (new_locked, _) = extract_dust new_locked
          in Some (locked - new_locked, u\<lparr>u_locked := new_locked\<rparr>))"

definition pool_remove_worker :: "worker_key \<Rightarrow> pool_info \<Rightarrow> pool_info" where
  "pool_remove_worker worker p = p\<lparr>p_workers := filter (\<lambda>w. w \<noteq> worker) (p_workers p)\<rparr>"

text \<open>The loop of \<open>has_expired_withdrawal\<close>: requests are virtually paid out of the budget.\<close>

fun first_unpaid_expired :: "fixed_ops \<Rightarrow> u64f64 \<Rightarrow> u64 \<Rightarrow> u64 \<Rightarrow> u128 \<Rightarrow> withdraw_info list \<Rightarrow> bool" where
  "first_unpaid_expired F price now grace budget [] = False"
| "first_unpaid_expired F price now grace budget (request # rest) =
     (let amount = bmul F (w_shares request) price
      in if amount > budget then now - w_start_time request > grace
         else first_unpaid_expired F price now grace (budget - amount) rest)"

definition has_expired_withdrawal :: "fixed_ops \<Rightarrow> u64 \<Rightarrow> u64 \<Rightarrow> pool_info \<Rightarrow> bool" where
  "has_expired_withdrawal F now grace p =
     (case share_price F p of
        Some price \<Rightarrow> (if price \<noteq> fp_0
          then first_unpaid_expired F price now grace (free_stake p + releasing_stake p)
                 (withdraw_queue p)
          else False)
      | None \<Rightarrow> False)"

end
