(* ===== verification/Phala_Base.thy ===== *)
theory Phala_Base
  imports Stake_Pool_Info
begin

text \<open>
  The storage and the configuration of the Phala pallets. \<open>chain\<close> has one field per storage
  item, named as the item is; \<open>bank\<close> is the storage of the currency, whose operations, like
  hashing, encoding and the fixed point numbers, belong to other crates and are fields of
  \<open>phala_config\<close>, the counterpart of the pallets' \<open>Config\<close> traits. The callbacks \<open>OnReward\<close>,
  \<open>OnUnbound\<close>, \<open>OnStopped\<close> and the message subscribers are configuration too, as in the source.
\<close>

section \<open>Errors and events\<close>

datatype mq_error = BadSender | BadSequence | BadDestination

datatype registry_error =
    CannotHandleUnknownMessage | InvalidSender | InvalidPubKey | MalformedSignature
  | InvalidSignatureLength | InvalidSignature | UnknownContract | InvalidIASSigningCert
  | InvalidReport | InvalidQuoteStatus | BadIASReport | OutdatedIASReport
  | UnknownQuoteBodyFormat | InvalidRuntimeInfoHash | InvalidRuntimeInfo | InvalidInput
  | InvalidBenchReport | WorkerNotFound | InvalidGatekeeper | InvalidMasterPubkey
  | MasterKeyMismatch | MasterKeyUninitialized | GenesisBlockHashRejected
  | GenesisBlockHashAlreadyExists | GenesisBlockHashNotFound | PRuntimeRejected
  | PRuntimeAlreadyExists | PRuntimeNotFound

datatype mining_error =
    BadSender | InvalidMessage | WorkerNotRegistered | GatekeeperNotRegistered
  | DuplicateBoundMiner | BenchmarkMissing | MinerNotFound | MinerNotBound | MinerNotReady
  | MinerNotMining | WorkerNotBound | CoolDownNotReady | InsufficientStake | TooMuchStake
  | InternalErrorBadTokenomicParameters | DuplicateBoundWorker | BenchmarkTooLow
  | InternalErrorCannotStartWithExistingStake

datatype stakepool_error =
    WorkerNotRegistered | BenchmarkMissing | WorkerExists | WorkerDoesNotExist
  | WorkerInAnotherPool | UnauthorizedOperator | UnauthorizedPoolOwner | InadequateCapacity
  | StakeExceedsCapacity | PoolDoesNotExist | PoolIsBusy | InsufficientContribution
  | InsufficientBalance | PoolStakeNotFound | InsufficientFreeStake | InvalidWithdrawalAmount
  | FailedToBindMinerAndWorker | InternalSubsidyPoolCannotWithdraw | PoolBankrupt
  | NoRewardToClaim | FeatureNotEnabled | WorkersExceedLimit

datatype phala_module_error =
    MqError mq_error
  | RegistryError registry_error
  | MiningError mining_error
  | StakePoolError stakepool_error

type_synonym phala_error = "phala_module_error dispatch_error"

abbreviation mq_err :: "mq_error \<Rightarrow> phala_error" where "mq_err e \<equiv> Module (MqError e)"
abbreviation registry_err :: "registry_error \<Rightarrow> phala_error" where
  "registry_err e \<equiv> Module (RegistryError e)"
abbreviation mining_err :: "mining_error \<Rightarrow> phala_error" where
  "mining_err e \<equiv> Module (MiningError e)"
abbreviation stakepool_err :: "stakepool_error \<Rightarrow> phala_error" where
  "stakepool_err e \<equiv> Module (StakePoolError e)"

datatype mining_pallet_event =
    CoolDownExpirationChanged u64
  | MinerStarted account_id
  | MinerStopped account_id
  | MinerReclaimed account_id u128 u128
  | MinerBound account_id worker_key
  | MinerUnbound account_id worker_key
  | MinerEnterUnresponsive account_id
  | MinerExitUnresponsive account_id
  | MinerSettled account_id u128 u128
  | InternalErrorMinerSettleFailed worker_key
  | SubsidyBudgetHalved
  | InternalErrorWrongHalvingConfigured
  | TokenomicChanged

datatype stakepool_event =
    PoolCreated account_id pool_id
  | PoolCommissionSet pool_id u32
  | PoolCapacitySet pool_id u128
  | PoolWorkerAdded pool_id worker_key
  | Contribution pool_id account_id u128
  | Withdrawal pool_id account_id u128
  | RewardsWithdrawn pool_id account_id u128
  | PoolSlashed pool_id u128
  | SlashSettled pool_id account_id u128
  | RewardDismissedNotInPool worker_key u128
  | RewardDismissedNoShare pool_id u128
  | RewardDismissedDust pool_id u128
  | DustRemoved account_id u128
  | PoolWorkerRemoved pool_id worker_key
  | WithdrawalQueued pool_id account_id u128

section \<open>Storage\<close>

record 'b chain =
  bank :: 'b
  now_millis :: u64
  chain_block :: block_num
  OffchainIngress :: "message_origin \<rightharpoonup> u64"
  QueuedOutboundMessage :: "message list option"
  OutboundMessages :: "message list"
  Gatekeeper :: "worker_key list"
  GatekeeperMasterPubkey :: "bytes option"
  Workers :: "worker_key \<rightharpoonup> worker_info"
  ContractKeys :: "bytes \<rightharpoonup> bytes"
  TopicKey :: "bytes \<rightharpoonup> bytes"
  BenchmarkDuration :: "u32 option"
  PRuntimeAllowList :: "bytes list"
  RelaychainGenesisBlockHashAllowList :: "bytes list"
  TokenomicParameters :: "tokenomic_params option"
  ScheduledTokenomicUpdate :: "tokenomic_params option"
  OnlineMiners :: u32
  ExpectedHeartbeatCount :: "u32 option"
  Miners :: "account_id \<rightharpoonup> miner_info"
  MinerBindings :: "account_id \<rightharpoonup> worker_key"
  WorkerBindings :: "worker_key \<rightharpoonup> account_id"
  CoolDownPeriod :: u64
  NextSessionId :: u32
  MiningStartBlock :: "block_num option"
  MiningHalvingInterval :: "block_num option"
  Stakes :: "account_id \<rightharpoonup> u128"
  StakePools :: "pool_id \<rightharpoonup> pool_info"
  PoolStakers :: "pool_id \<times> account_id \<rightharpoonup> user_stake_info"
  PoolCount :: u64
  WorkerAssignments :: "worker_key \<rightharpoonup> pool_id"
  StakeLedger :: "account_id \<rightharpoonup> u128"
  WithdrawalQueuedPools :: "u64 \<rightharpoonup> pool_id list"
  WithdrawalTimestamps :: "u64 list"
  MiningEnabled :: bool
  SubAccountPreimages :: "account_id \<rightharpoonup> pool_id \<times> worker_key"
  mining_log :: "mining_pallet_event list"
  stakepool_log :: "stakepool_event list"

type_synonym ('b, 'a) result = "(phala_error, 'a, 'b chain) outcome"

section \<open>Configuration\<close>

text \<open>
  The currency: \<open>slash\<close> gives the amount it really removed; a transfer or a withdrawal may fail
  with an error of the currency's pallet.
\<close>

record 'b currency_ops =
  free_balance :: "account_id \<Rightarrow> 'b \<Rightarrow> u128"
  set_lock :: "account_id \<Rightarrow> u128 \<Rightarrow> 'b \<Rightarrow> 'b"
  remove_lock :: "account_id \<Rightarrow> 'b \<Rightarrow> 'b"
  slash :: "account_id \<Rightarrow> u128 \<Rightarrow> 'b \<Rightarrow> u128 \<times> 'b"
  transfer_keep_alive :: "account_id \<Rightarrow> account_id \<Rightarrow> u128 \<Rightarrow> 'b \<Rightarrow> nat + 'b"
  withdraw_allow_death :: "account_id \<Rightarrow> u128 \<Rightarrow> 'b \<Rightarrow> nat + u128 \<times> 'b"

record q32_ops =
  q_from_num :: "u32 \<Rightarrow> u64"
  q_mul :: "u64 \<Rightarrow> u64 \<Rightarrow> u64"
  q_div :: "u64 \<Rightarrow> u64 \<Rightarrow> u64 option"
  q_checked_shl :: "u64 \<Rightarrow> nat \<Rightarrow> u64 option"
  q_to_num :: "u64 \<Rightarrow> u32"

datatype attestation = SgxIas bytes bytes bytes

datatype attestation_error =
    PRuntimeRejected | InvalidIASSigningCert | InvalidReport | InvalidQuoteStatus
  | BadIASReport | OutdatedIASReport | UnknownQuoteBodyFormat | InvalidUserDataHash

record ias_fields =
  mr_enclave :: bytes
  mr_signer :: bytes
  isv_prod_id :: bytes
  isv_svn :: bytes
  report_data :: bytes
  ias_confidence_level :: u8

record 'b phala_config =
  Fx :: fixed_ops
  Q32 :: q32_ops
  Cur :: "'b currency_ops"
  blake2_256 :: "bytes \<Rightarrow> bytes"
  \<comment> \<open>codec\<close>
  enc_pid_key :: "pool_id \<Rightarrow> worker_key \<Rightarrow> bytes"
  dec_sub_account :: "bytes \<Rightarrow> account_id"
  enc_system_event :: "system_event \<Rightarrow> bytes"
  enc_gatekeeper_launch :: "gatekeeper_launch \<Rightarrow> bytes"
  enc_gatekeeper_change :: "gatekeeper_change \<Rightarrow> bytes"
  enc_gatekeeper_event :: "gatekeeper_event \<Rightarrow> bytes"
  enc_registration_info :: "worker_registration_info \<Rightarrow> bytes"
  enc_to_be_signed :: "message \<Rightarrow> u64 \<Rightarrow> bytes"
  enc_mq_tag :: "message_origin \<Rightarrow> u64 \<Rightarrow> bytes"
  into_h256 :: "account_id \<Rightarrow> bytes"
  registry_name :: bytes
  mining_name :: bytes
  \<comment> \<open>mq\<close>
  on_message_received :: "message \<Rightarrow> 'b chain \<Rightarrow> ('b, unit) result"
  should_push_message :: "message \<Rightarrow> bool"
  \<comment> \<open>registry\<close>
  validate_attestation :: "attestation \<Rightarrow> bytes \<Rightarrow> u64 \<Rightarrow> bool \<Rightarrow> bytes list \<Rightarrow>
    (attestation_error + ias_fields) option"
  VerifyPRuntime :: bool
  VerifyRelaychainGenesisBlockHash :: bool
  governance_origin :: "origin \<Rightarrow> bool"
  sig_try_from :: "bytes \<Rightarrow> bytes option"
  sr25519_verify :: "bytes \<Rightarrow> bytes \<Rightarrow> bytes \<Rightarrow> bool"
  \<comment> \<open>mining\<close>
  ExpectedBlockTimeSec :: u32
  MinInitP :: u32
  random_seed :: "'b chain \<Rightarrow> u256"
  mining_wallet :: account_id
  on_reward_hook :: "settle_info list \<Rightarrow> 'b chain \<Rightarrow> ('b, unit) result"
  on_unbound_hook :: "worker_key \<Rightarrow> bool \<Rightarrow> 'b chain \<Rightarrow> ('b, unit) result"
  on_stopped_hook :: "worker_key \<Rightarrow> u128 \<Rightarrow> u128 \<Rightarrow> 'b chain \<Rightarrow> ('b, unit) result"
  on_treasury_settled :: "u128 \<Rightarrow> 'b \<Rightarrow> 'b"
  update_tokenomic_origin :: "origin \<Rightarrow> bool"
  \<comment> \<open>stake pool\<close>
  MinContribution :: u128
  GracePeriod :: u64
  MaxPoolWorkers :: u32
  on_slashed :: "u128 \<Rightarrow> 'b \<Rightarrow> 'b"
  mining_switch_origin :: "origin \<Rightarrow> bool"
  permill_mul :: "u32 \<Rightarrow> u128 \<Rightarrow> u128"

definition now_sec :: "'b chain \<Rightarrow> u64" where
  "now_sec s = now_millis s div 1000"

definition mining_deposit :: "mining_pallet_event \<Rightarrow> 'b chain \<Rightarrow> 'b chain" where
  "mining_deposit e s = s\<lparr>mining_log := mining_log s @ [e]\<rparr>"

definition stakepool_deposit :: "stakepool_event \<Rightarrow> 'b chain \<Rightarrow> 'b chain" where
  "stakepool_deposit e s = s\<lparr>stakepool_log := stakepool_log s @ [e]\<rparr>"

end
