(* ===== verification/Message_Queue.thy ===== *)
theory Message_Queue
  imports Phala_Base
begin

text \<open>
  The on-chain message queue, \<open>src/pallets/phala/src/mq.rs\<close>, and the signed extension that
  checks sequences in the transaction pool, \<open>mq/check_seq.rs\<close>.

  Dispatching a message first hands it to the runtime's subscribers, whose error is ignored
  (what they wrote stays), and then appends it to the outbound messages when the topic is one
  that goes off chain. \<open>check_message\<close>, the signature check of the registry that
  \<open>sync_offchain_message\<close> calls, is here because the queue needs it.
\<close>

section \<open>Dispatch\<close>

definition default_should_push :: "message \<Rightarrow> bool" where
  "default_should_push m = topic_is_offchain (m_destination m)"

definition dispatch_message :: "'b phala_config \<Rightarrow> message \<Rightarrow> 'b chain \<Rightarrow> ('b, unit) result" where
  "dispatch_message T m s =
     (case left_state (on_message_received T m s) of
        None \<Rightarrow> Panic
      | Some s' \<Rightarrow> Ok () (if should_push_message T m
                          then s'\<lparr>OutboundMessages := OutboundMessages s' @ [m]\<rparr> else s'))"

definition push_message_to :: "'b phala_config \<Rightarrow> topic \<Rightarrow> message_origin \<Rightarrow> bytes \<Rightarrow> 'b chain \<Rightarrow>
    ('b, unit) result" where
  "push_message_to T topic sender payload s =
     dispatch_message T \<lparr>m_sender = sender, m_destination = topic, m_payload = payload\<rparr> s"

definition queue_message_to :: "topic \<Rightarrow> message_origin \<Rightarrow> bytes \<Rightarrow> 'b chain \<Rightarrow> 'b chain" where
  "queue_message_to topic sender payload s =
     s\<lparr>QueuedOutboundMessage := Some ((case QueuedOutboundMessage s of Some ms \<Rightarrow> ms | None \<Rightarrow> []) @
        [\<lparr>m_sender = sender, m_destination = topic, m_payload = payload\<rparr>])\<rparr>"

text \<open>\<open>push_message\<close> of the registry and of the mining pallet: bound topic, pallet origin.\<close>

definition registry_push :: "'b phala_config \<Rightarrow> topic \<Rightarrow> bytes \<Rightarrow> 'b chain \<Rightarrow> ('b, unit) result" where
  "registry_push T topic payload = push_message_to T topic (PalletOrigin (registry_name T)) payload"

definition mining_push :: "'b phala_config \<Rightarrow> topic \<Rightarrow> bytes \<Rightarrow> 'b chain \<Rightarrow> ('b, unit) result" where
  "mining_push T topic payload = push_message_to T topic (PalletOrigin (mining_name T)) payload"

definition offchain_ingress :: "message_origin \<Rightarrow> 'b chain \<Rightarrow> u64 option" where
  "offchain_ingress sender s = OffchainIngress s sender"

section \<open>Signature check of the registry\<close>

definition data_be_signed :: "'b phala_config \<Rightarrow> signed_message \<Rightarrow> bytes" where
  "data_be_signed T sm = enc_to_be_signed T (sm_message sm) (sm_sequence sm)"

definition verify_signature :: "'b phala_config \<Rightarrow> bytes \<Rightarrow> signed_message \<Rightarrow> registry_error option" where
  "verify_signature T pubkey sm =
     (let raw_sig = sm_signature sm in
      if length raw_sig \<noteq> 64 then Some InvalidSignatureLength
      else case sig_try_from T raw_sig of
             None \<Rightarrow> Some MalformedSignature
           | Some sig \<Rightarrow>
               (let data = data_be_signed T sm in
                if \<not> sr25519_verify T sig data pubkey then Some InvalidSignature else None))"

definition check_message :: "'b phala_config \<Rightarrow> signed_message \<Rightarrow> 'b chain \<Rightarrow> registry_error option" where
  "check_message T sm s =
     (case m_sender (sm_message sm) of
        WorkerOrigin pubkey \<Rightarrow> verify_signature T pubkey sm
      | ContractOrigin i \<Rightarrow>
          (case ContractKeys s i of None \<Rightarrow> Some UnknownContract
           | Some pubkey \<Rightarrow> verify_signature T pubkey sm)
      | GatekeeperOrigin \<Rightarrow>
          (case GatekeeperMasterPubkey s of None \<Rightarrow> Some MasterKeyUninitialized
           | Some pubkey \<Rightarrow> verify_signature T pubkey sm)
      | _ \<Rightarrow> Some CannotHandleUnknownMessage)"

section \<open>Dispatchable calls and hook\<close>

definition expected_seq :: "message_origin \<Rightarrow> 'b chain \<Rightarrow> u64" where
  "expected_seq sender s = (case OffchainIngress s sender of Some n \<Rightarrow> n | None \<Rightarrow> 0)"

definition sync_offchain_message :: "'b phala_config \<Rightarrow> origin \<Rightarrow> signed_message \<Rightarrow> 'b chain \<Rightarrow>
    ('b, unit) result" where
  "sync_offchain_message T orig sm s =
     (case ensure_signed orig of None \<Rightarrow> Err BadOrigin s | Some _ \<Rightarrow>
      let sender = m_sender (sm_message sm) in
      if \<not> origin_is_offchain sender then Err (mq_err mq_error.BadSender) s
      else if \<not> topic_is_valid (m_destination (sm_message sm)) then Err (mq_err BadDestination) s
      else if sm_sequence sm \<noteq> expected_seq sender s then Err (mq_err BadSequence) s
      else case check_message T sm s of
             Some e \<Rightarrow> Err (registry_err e) s
           | None \<Rightarrow> dispatch_message T (sm_message sm)
               (s\<lparr>OffchainIngress := (OffchainIngress s)(sender \<mapsto> expected_seq sender s + 1)\<rparr>))"

definition push_message :: "'b phala_config \<Rightarrow> origin \<Rightarrow> topic \<Rightarrow> bytes \<Rightarrow> 'b chain \<Rightarrow>
    ('b, unit) result" where
  "push_message T orig destination payload s =
     (case ensure_signed orig of None \<Rightarrow> Err BadOrigin s | Some who \<Rightarrow>
      push_message_to T destination (AccountOrigin (into_h256 T who)) payload s)"

definition force_push_pallet_message :: "'b phala_config \<Rightarrow> origin \<Rightarrow> topic \<Rightarrow> bytes \<Rightarrow> 'b chain \<Rightarrow>
    ('b, unit) result" where
  "force_push_pallet_message T orig destination payload s =
     (if \<not> ensure_root orig then Err BadOrigin s
      else push_message_to T destination (PalletOrigin (ascii ''ForcePushed'')) payload s)"

definition dispatch_messages :: "'b phala_config \<Rightarrow> message list \<Rightarrow> 'b chain \<Rightarrow> ('b, unit) result" where
  "dispatch_messages T = for_each (dispatch_message T)"

definition mq_on_initialize :: "'b phala_config \<Rightarrow> 'b chain \<Rightarrow> ('b, unit) result" where
  "mq_on_initialize T s =
     (let s = s\<lparr>OutboundMessages := []\<rparr> in
      case QueuedOutboundMessage s of
        None \<Rightarrow> Ok () s
      | Some msgs \<Rightarrow> dispatch_messages T msgs (s\<lparr>QueuedOutboundMessage := None\<rparr>))"

section \<open>The sequence check of the transaction pool\<close>

datatype invalid_transaction = Stale | Future

record valid_transaction =
  provides :: "bytes list"
  requires :: "bytes list"

text \<open>\<open>None\<close> is a call other than \<open>sync_offchain_message\<close>, which the extension lets pass.\<close>

definition pre_dispatch :: "signed_message option \<Rightarrow> 'b chain \<Rightarrow> invalid_transaction option" where
  "pre_dispatch call s =
     (case call of None \<Rightarrow> None | Some sm \<Rightarrow>
      let sequence = sm_sequence sm; expected = expected_seq (m_sender (sm_message sm)) s in
      if sequence \<noteq> expected then Some (if sequence < expected then Stale else Future) else None)"

definition mq_tag :: "'b phala_config \<Rightarrow> message_origin \<Rightarrow> u64 \<Rightarrow> bytes" where
  "mq_tag T sender sequence = enc_mq_tag T sender sequence"

definition validate_tx :: "'b phala_config \<Rightarrow> signed_message option \<Rightarrow> 'b chain \<Rightarrow>
    invalid_transaction + valid_transaction" where
  "validate_tx T call s =
     (case call of None \<Rightarrow> Inr \<lparr>provides = [], requires = []\<rparr> | Some sm \<Rightarrow>
      let sender = m_sender (sm_message sm); sequence = sm_sequence sm;
          expected = expected_seq sender s in
      if sequence < expected then Inl Stale
      else Inr \<lparr>provides = [mq_tag T sender sequence],
                requires = (if sequence > expected then [mq_tag T sender (sequence - 1)] else [])\<rparr>)"

end
