(* ===== verification/Registry.thy ===== *)
theory Registry
  imports Message_Queue
begin

text \<open>
  The registry of workers and gatekeepers, \<open>src/pallets/phala/src/registry.rs\<close>, and the part of
  the attestation check that is this repository's own, \<open>utils/attestation.rs\<close>. The certificate
  check, the JSON and base64 parsers and the date parser are other crates: the report that
  \<open>validate_ias_report\<close> works on is the parameter \<open>parsed_report\<close>.
\<close>

section \<open>Attestation\<close>

definition extend_mrenclave :: "bytes \<Rightarrow> bytes \<Rightarrow> bytes \<Rightarrow> bytes \<Rightarrow> bytes" where
  "extend_mrenclave mr_enc mr_sig prod_id svn = mr_enc @ prod_id @ svn @ mr_sig"

text \<open>
  What the parsers give: the certificate verdicts, the decoded quote body (\<open>None\<close> when the field
  is missing or is not base64), the report's time stamp, the quote status (\<open>UNKNOWN\<close> when
  absent) and the advisory list, whose elements may fail to be strings.
\<close>

record ias_env =
  cert_ok :: "bytes \<Rightarrow> bytes \<Rightarrow> bytes \<Rightarrow> u64 \<Rightarrow> bool"
  json_ok :: "bytes \<Rightarrow> bool"
  quote_body_of :: "bytes \<Rightarrow> bytes option"
  timestamp_of :: "bytes \<Rightarrow> int option"
  quote_status_of :: "bytes \<Rightarrow> string"
  advisories_of :: "bytes \<Rightarrow> string option list option"
  level1 :: "string list"
  level2 :: "string list"
  level3 :: "string list"
  level5 :: "string list"
  advisory_whitelist :: "string list"

definition slice :: "nat \<Rightarrow> nat \<Rightarrow> bytes \<Rightarrow> bytes option" where
  "slice a b xs = (if b \<le> length xs then Some (take (b - a) (drop a xs)) else None)"

definition status_level :: "ias_env \<Rightarrow> string \<Rightarrow> u8" where
  "status_level E st =
     (if st \<in> set (level1 E) then 1 else if st \<in> set (level2 E) then 2
      else if st \<in> set (level3 E) then 3 else if st \<in> set (level5 E) then 5 else 128)"

fun filter_advisories :: "ias_env \<Rightarrow> string option list \<Rightarrow> u8 \<Rightarrow> attestation_error + u8" where
  "filter_advisories E [] level = Inr level"
| "filter_advisories E (None # rest) level = Inl attestation_error.BadIASReport"
| "filter_advisories E (Some adv # rest) level =
     filter_advisories E rest (if adv \<in> set (advisory_whitelist E) then level else 4)"

text \<open>
  The result is \<open>None\<close> when a slice of the quote body is out of range, where the source panics.
  \<open>now as i64\<close> reads the 64 bits as a signed number.
\<close>

definition validate_ias_report :: "ias_env \<Rightarrow> bytes \<Rightarrow> bytes \<Rightarrow> bytes \<Rightarrow> u64 \<Rightarrow> bool \<Rightarrow> bytes list \<Rightarrow>
    (attestation_error + ias_fields) option" where
  "validate_ias_report E report signature cert now verify_pruntime allowlist =
     (if \<not> cert_ok E report signature cert now then Some (Inl attestation_error.InvalidIASSigningCert)
      else if \<not> json_ok E report then Some (Inl attestation_error.InvalidReport)
      else case quote_body_of E report of None \<Rightarrow> Some (Inl attestation_error.UnknownQuoteBodyFormat)
      | Some q \<Rightarrow>
        (case (slice 112 144 q, slice 176 208 q, slice 304 306 q, slice 306 308 q) of
           (Some mre, Some mrs, Some prd, Some svn) \<Rightarrow>
             (if verify_pruntime \<and> extend_mrenclave mre mrs prd svn \<notin> set allowlist
              then Some (Inl attestation_error.PRuntimeRejected)
              else case timestamp_of E report of None \<Rightarrow> Some (Inl attestation_error.BadIASReport)
              | Some ts \<Rightarrow>
                if sint now - ts \<ge> 7200 then Some (Inl attestation_error.OutdatedIASReport)
                else let level = status_level E (quote_status_of E report) in
                if level = 128 then Some (Inl attestation_error.InvalidQuoteStatus)
                else (case (if level < 5 then (case advisories_of E report of
                             Some advs \<Rightarrow> filter_advisories E advs level | None \<Rightarrow> Inr level)
                           else Inr level) of
                     Inl e \<Rightarrow> Some (Inl e)
                   | Inr level' \<Rightarrow>
                       map_option (\<lambda>rd. Inr \<lparr>mr_enclave = mre, mr_signer = mrs, isv_prod_id = prd,
                         isv_svn = svn, report_data = rd, ias_confidence_level = level'\<rparr>)
                         (slice 368 432 q)))
         | _ \<Rightarrow> None))"

definition ias_validate :: "ias_env \<Rightarrow> attestation \<Rightarrow> bytes \<Rightarrow> u64 \<Rightarrow> bool \<Rightarrow> bytes list \<Rightarrow>
    (attestation_error + ias_fields) option" where
  "ias_validate E att user_data_hash now verify_pruntime allowlist =
     (case att of SgxIas report signature cert \<Rightarrow>
      (case validate_ias_report E report signature cert now verify_pruntime allowlist of
         None \<Rightarrow> None
       | Some (Inl e) \<Rightarrow> Some (Inl e)
       | Some (Inr fs) \<Rightarrow>
           (if take 32 (report_data fs) \<noteq> user_data_hash then Some (Inl InvalidUserDataHash)
            else Some (Inr fs))))"

definition attestation_to_registry :: "attestation_error \<Rightarrow> registry_error" where
  "attestation_to_registry e = (case e of
     attestation_error.PRuntimeRejected \<Rightarrow> registry_error.PRuntimeRejected
   | attestation_error.InvalidIASSigningCert \<Rightarrow> registry_error.InvalidIASSigningCert
   | attestation_error.InvalidReport \<Rightarrow> registry_error.InvalidReport
   | attestation_error.InvalidQuoteStatus \<Rightarrow> registry_error.InvalidQuoteStatus
   | attestation_error.BadIASReport \<Rightarrow> registry_error.BadIASReport
   | attestation_error.OutdatedIASReport \<Rightarrow> registry_error.OutdatedIASReport
   | attestation_error.UnknownQuoteBodyFormat \<Rightarrow> registry_error.UnknownQuoteBodyFormat
   | InvalidUserDataHash \<Rightarrow> InvalidRuntimeInfoHash)"

section \<open>Administration\<close>

definition push_system_event :: "'b phala_config \<Rightarrow> system_event \<Rightarrow> 'b chain \<Rightarrow> ('b, unit) result" where
  "push_system_event T e = registry_push T system_event_topic (enc_system_event T e)"

definition force_set_benchmark_duration :: "origin \<Rightarrow> u32 \<Rightarrow> 'b chain \<Rightarrow> ('b, unit) result" where
  "force_set_benchmark_duration orig value s =
     (if \<not> ensure_root orig then Err BadOrigin s else Ok () (s\<lparr>BenchmarkDuration := Some value\<rparr>))"

definition force_register_worker :: "'b phala_config \<Rightarrow> origin \<Rightarrow> worker_key \<Rightarrow> bytes \<Rightarrow>
    account_id option \<Rightarrow> 'b chain \<Rightarrow> ('b, unit) result" where
  "force_register_worker T orig pubkey ecdh oper s =
     (if \<not> ensure_root orig then Err BadOrigin s
      else let info = \<lparr>wi_pubkey = pubkey, wi_ecdh_pubkey = ecdh, runtime_version = 0,
                 last_updated = 0, operator = oper, confidence_level = 128,
                 initial_score = None, features = [1, 4]\<rparr>
           in push_system_event T (WorkerEvent pubkey (Registered 128))
                (s\<lparr>Workers := (Workers s)(pubkey \<mapsto> info)\<rparr>))"

definition force_register_topic_pubkey :: "origin \<Rightarrow> bytes \<Rightarrow> bytes \<Rightarrow> 'b chain \<Rightarrow> ('b, unit) result" where
  "force_register_topic_pubkey orig topic pubkey s =
     (if \<not> ensure_root orig then Err BadOrigin s
      else Ok () (s\<lparr>TopicKey := (TopicKey s)(topic \<mapsto> pubkey)\<rparr>))"

definition register_gatekeeper :: "'b phala_config \<Rightarrow> origin \<Rightarrow> worker_key \<Rightarrow> 'b chain \<Rightarrow>
    ('b, unit) result" where
  "register_gatekeeper T orig gatekeeper s =
     (if \<not> governance_origin T orig then Err BadOrigin s
      else if \<not> (Gatekeeper s = [] \<or> GatekeeperMasterPubkey s \<noteq> None)
      then Err (registry_err MasterKeyUninitialized) s
      else if gatekeeper \<in> set (Gatekeeper s) then Ok () s
      else case Workers s gatekeeper of None \<Rightarrow> Err (registry_err WorkerNotFound) s
      | Some info \<Rightarrow>
          let gatekeepers = Gatekeeper s @ [gatekeeper];
              s' = s\<lparr>Gatekeeper := gatekeepers\<rparr>
          in if (of_nat (length gatekeepers) :: u32) = 1
             then registry_push T gatekeeper_launch_topic
                    (enc_gatekeeper_launch T (FirstGatekeeper gatekeeper (wi_ecdh_pubkey info))) s'
             else registry_push T gatekeeper_change_topic
                    (enc_gatekeeper_change T (GatekeeperRegistered gatekeeper (wi_ecdh_pubkey info))) s')"

definition unregister_gatekeeper :: "origin \<Rightarrow> worker_key \<Rightarrow> bytes \<Rightarrow> 'b chain \<Rightarrow> ('b, unit) result" where
  "unregister_gatekeeper orig gatekeeper sig s = Panic"

definition register_worker :: "'b phala_config \<Rightarrow> origin \<Rightarrow> worker_registration_info \<Rightarrow> attestation \<Rightarrow>
    'b chain \<Rightarrow> ('b, unit) result" where
  "register_worker T orig info att s =
     (case ensure_signed orig of None \<Rightarrow> Err BadOrigin s | Some _ \<Rightarrow>
      let now = now_sec s;
          runtime_info_hash = blake2_256 T (enc_registration_info T info) in
      case validate_attestation T att runtime_info_hash now (VerifyPRuntime T) (PRuntimeAllowList s) of
        None \<Rightarrow> Panic
      | Some (Inl e) \<Rightarrow> Err (registry_err (attestation_to_registry e)) s
      | Some (Inr fs) \<Rightarrow>
          if VerifyRelaychainGenesisBlockHash T \<and>
             ri_genesis_block_hash info \<notin> set (RelaychainGenesisBlockHashAllowList s)
          then Err (registry_err GenesisBlockHashRejected) s
          else
            let pubkey = ri_pubkey info;
                w = (case Workers s pubkey of
                       Some old \<Rightarrow> old\<lparr>last_updated := now, operator := ri_operator info\<rparr>
                     | None \<Rightarrow> \<lparr>wi_pubkey = pubkey, wi_ecdh_pubkey = ri_ecdh_pubkey info,
                         runtime_version = ri_version info, last_updated = now,
                         operator = ri_operator info,
                         confidence_level = ias_confidence_level fs,
                         initial_score = None, features = ri_features info\<rparr>)
            in andthen (push_system_event T
                   (WorkerEvent pubkey (Registered (ias_confidence_level fs))) s)
                 (\<lambda>_ s. let s = s\<lparr>Workers := (Workers s)(pubkey \<mapsto> w)\<rparr>;
                            duration = (case BenchmarkDuration s of Some d \<Rightarrow> d | None \<Rightarrow> 0)
                        in push_system_event T (WorkerEvent pubkey (BenchStart duration)) s))"

definition add_pruntime :: "'b phala_config \<Rightarrow> origin \<Rightarrow> bytes \<Rightarrow> 'b chain \<Rightarrow> ('b, unit) result" where
  "add_pruntime T orig h s =
     (if \<not> governance_origin T orig then Err BadOrigin s
      else if h \<in> set (PRuntimeAllowList s) then Err (registry_err PRuntimeAlreadyExists) s
      else Ok () (s\<lparr>PRuntimeAllowList := PRuntimeAllowList s @ [h]\<rparr>))"

definition remove_pruntime :: "'b phala_config \<Rightarrow> origin \<Rightarrow> bytes \<Rightarrow> 'b chain \<Rightarrow> ('b, unit) result" where
  "remove_pruntime T orig h s =
     (if \<not> governance_origin T orig then Err BadOrigin s
      else if h \<notin> set (PRuntimeAllowList s) then Err (registry_err PRuntimeNotFound) s
      else Ok () (s\<lparr>PRuntimeAllowList := filter (\<lambda>x. x \<noteq> h) (PRuntimeAllowList s)\<rparr>))"

definition add_relaychain_genesis_block_hash :: "'b phala_config \<Rightarrow> origin \<Rightarrow> bytes \<Rightarrow> 'b chain \<Rightarrow>
    ('b, unit) result" where
  "add_relaychain_genesis_block_hash T orig h s =
     (if \<not> governance_origin T orig then Err BadOrigin s
      else if h \<in> set (RelaychainGenesisBlockHashAllowList s)
      then Err (registry_err GenesisBlockHashAlreadyExists) s
      else Ok () (s\<lparr>RelaychainGenesisBlockHashAllowList :=
                     RelaychainGenesisBlockHashAllowList s @ [h]\<rparr>))"

definition remove_relaychain_genesis_block_hash :: "'b phala_config \<Rightarrow> origin \<Rightarrow> bytes \<Rightarrow> 'b chain \<Rightarrow>
    ('b, unit) result" where
  "remove_relaychain_genesis_block_hash T orig h s =
     (if \<not> governance_origin T orig then Err BadOrigin s
      else if h \<notin> set (RelaychainGenesisBlockHashAllowList s)
      then Err (registry_err GenesisBlockHashNotFound) s
      else Ok () (s\<lparr>RelaychainGenesisBlockHashAllowList :=
                     filter (\<lambda>x. x \<noteq> h) (RelaychainGenesisBlockHashAllowList s)\<rparr>))"

section \<open>Messages from workers\<close>

text \<open>
  \<open>now\<close> is in milliseconds here. The quotient divides by the whole seconds of the benchmark, so
  a report less than a second after its start divides by zero, which panics in every profile.
\<close>

definition bench_score :: "u64 \<Rightarrow> u64 \<Rightarrow> u64 \<Rightarrow> u32 option" where
  "bench_score now start_time iters =
     (let secs = (now - start_time) div 1000 in
      if secs = 0 then None
      else let score = iters div secs; score = score * 6
           in Some (min 6000 (ucast score)))"

definition registry_on_message :: "'b phala_config \<Rightarrow> message_origin \<Rightarrow> registry_event \<Rightarrow> 'b chain \<Rightarrow>
    ('b, unit) result" where
  "registry_on_message T sender payload s =
     (case sender of
        WorkerOrigin worker \<Rightarrow>
          (case payload of
             BenchReport start_time iters \<Rightarrow>
               (let now = now_millis s in
                if now \<le> start_time then Err (registry_err InvalidBenchReport) s
                else case bench_score now start_time iters of None \<Rightarrow> Panic
                | Some score \<Rightarrow>
                    let s' = (case Workers s worker of
                          Some w \<Rightarrow> s\<lparr>Workers := (Workers s)(worker \<mapsto>
                              w\<lparr>initial_score := Some score, last_updated := now\<rparr>)\<rparr>
                        | None \<Rightarrow> s)
                    in push_system_event T (WorkerEvent worker (BenchScore score)) s')
           | MasterPubkey master \<Rightarrow>
               (if worker \<notin> set (Gatekeeper s) then Err (registry_err InvalidGatekeeper) s
                else case GatekeeperMasterPubkey s of
                       Some saved \<Rightarrow>
                         (if saved \<noteq> master then Err (registry_err MasterKeyMismatch) s else Ok () s)
                     | None \<Rightarrow>
                         registry_push T gatekeeper_launch_topic
                           (enc_gatekeeper_launch T (MasterPubkeyOnChain master))
                           (s\<lparr>GatekeeperMasterPubkey := Some master\<rparr>)))
      | _ \<Rightarrow> Err (registry_err InvalidSender) s)"

end
