(* ===== verification/Mining.thy ===== *)
theory Mining
  imports Registry
begin

text \<open>
  The mining pallet, \<open>src/pallets/phala/src/mining.rs\<close>: the benchmark of a miner, the settlement of
  its V, the bindings between miner accounts and workers, the life cycle
  Ready, MiningIdle, MiningUnresponsive, MiningCoolingDown and the end of a block. The subscribers
  \<open>OnReward\<close>, \<open>OnUnbound\<close> and \<open>OnStopped\<close> are the hooks of the configuration.
\<close>

section \<open>Miners and benchmarks\<close>

definition can_unbind :: "miner_state \<Rightarrow> bool" where
  "can_unbind st = (st = Ready \<or> st = MiningCoolingDown)"

definition can_settle :: "miner_state \<Rightarrow> bool" where
  "can_settle st = (st = MiningIdle \<or> st = MiningActive \<or> st = MiningUnresponsive)"

definition is_mining :: "miner_state \<Rightarrow> bool" where
  "is_mining st = (st = MiningIdle \<or> st = MiningUnresponsive)"

definition benchmark_update :: "u64 \<Rightarrow> u64 \<Rightarrow> u64 \<Rightarrow> benchmark \<Rightarrow> benchmark option" where
  "benchmark_update now iters challenge_time b =
     (if now \<le> challenge_time_last b then None
      else let b = (if iters < iterations b then b\<lparr>iterations := iters\<rparr> else b);
               delta_ts = now - challenge_time_last b;
               delta_iter = iters - iterations b;
               b = b\<lparr>challenge_time_last := challenge_time, iterations := iters\<rparr>;
               p = ucast (delta_iter * 6 div delta_ts) :: u32
           in Some (b\<lparr>p_instant := min p (p_init b * 12 div 10)\<rparr>))"

text \<open>\<open>None\<close> is the division by zero of a miner that never started.\<close>

definition calc_final_stake :: "fixed_ops \<Rightarrow> miner_info \<Rightarrow> u128 \<Rightarrow> (u128 \<times> u128) option" where
  "calc_final_stake F m orig_stake =
     (case fx_div F (mi_v m) (mi_ve m) of None \<Rightarrow> None | Some q \<Rightarrow>
      let return_rate = min q fp_1;
          returned = balance_from_fixed F (fx_mul F return_rate (balance_to_fixed F orig_stake));
          slashed = orig_stake - returned
      in Some (returned, slashed))"

definition stats_on_reward :: "fixed_ops \<Rightarrow> u128 \<Rightarrow> miner_info \<Rightarrow> miner_info" where
  "stats_on_reward F payout_bits m =
     m\<lparr>total_reward := total_reward m + balance_from_bits F payout_bits\<rparr>"

section \<open>Tokenomics\<close>

definition minimal_stake :: "fixed_ops \<Rightarrow> tokenomic_params \<Rightarrow> u32 \<Rightarrow> u128" where
  "minimal_stake F tk p =
     balance_from_fixed F (fx_mul F (tk_k tk) (fx_sqrt F (fx_from_num F (ucast p))))"

definition rig_cost :: "fixed_ops \<Rightarrow> tokenomic_params \<Rightarrow> u32 \<Rightarrow> u64f64" where
  "rig_cost F tk p = fx_add F (fx_mul F (rig_k tk) (fx_from_num F (ucast p))) (rig_b tk)"

definition confidence_score :: "fixed_ops \<Rightarrow> u8 \<Rightarrow> u64f64" where
  "confidence_score F level =
     (let SCORES = [fp_1, fp_1, fp_1, fp_0_8 F, fp_0_7 F]
      in if 1 \<le> level \<and> level \<le> 5 then SCORES ! (unat level - 1) else SCORES ! 0)"

definition tokenomic_ve :: "fixed_ops \<Rightarrow> tokenomic_params \<Rightarrow> u128 \<Rightarrow> u32 \<Rightarrow> u8 \<Rightarrow> u64f64" where
  "tokenomic_ve F tk stake p level =
     (let f1 = fx_from_num F 1;
          score = confidence_score F level;
          tweaked_re = fx_add F (fx_mul F (fx_sub F (re tk) f1) score) f1;
          s = balance_to_fixed F stake;
          c = rig_cost F tk p
      in fx_mul F tweaked_re (fx_add F s c))"

text \<open>
  The target of the heartbeat lottery. \<open>U32F32\<close> is the parameter \<open>Q32\<close>; the product of two
  \<open>U256\<close> panics when it overflows.
\<close>

definition pow_target :: "q32_ops \<Rightarrow> u32 \<Rightarrow> u32 \<Rightarrow> u32 \<Rightarrow> u256 option" where
  "pow_target Q num_tx num_workers secs_per_block =
     (if num_workers = 0 then Some 0
      else if secs_per_block = 0 then None
      else let nw = q_from_num Q num_workers; nt = q_from_num Q num_tx in
        case q_div Q (q_mul Q nw (q_from_num Q 2)) (q_from_num Q (3600 div secs_per_block)) of
          None \<Rightarrow> None
        | Some max_tx \<Rightarrow>
            (case q_div Q (min nt max_tx) nw of None \<Rightarrow> None | Some share \<Rightarrow>
             case q_checked_shl Q share 24 of None \<Rightarrow> None | Some shifted \<Rightarrow>
             let frac = q_to_num Q shifted; unit = drop_bit 24 (- 1 :: u256)
             in if unat unit * unat frac < 2 ^ 256 then Some (unit * ucast frac) else None))"

section \<open>Messages to the workers\<close>

definition push_worker_event :: "'b phala_config \<Rightarrow> worker_key \<Rightarrow> worker_event \<Rightarrow> 'b chain \<Rightarrow>
    ('b, unit) result" where
  "push_worker_event T w e = mining_push T system_event_topic (enc_system_event T (WorkerEvent w e))"

definition push_heartbeat_challenge :: "'b phala_config \<Rightarrow> u256 \<Rightarrow> u256 \<Rightarrow> 'b chain \<Rightarrow>
    ('b, unit) result" where
  "push_heartbeat_challenge T seed online_target =
     mining_push T system_event_topic (enc_system_event T (HeartbeatChallenge seed online_target))"

definition heartbeat_challenge :: "'b phala_config \<Rightarrow> 'b chain \<Rightarrow> ('b, unit) result" where
  "heartbeat_challenge T s =
     (let num_tx = (case ExpectedHeartbeatCount s of Some n \<Rightarrow> n | None \<Rightarrow> 20)
      in case pow_target (Q32 T) num_tx (OnlineMiners s) (ExpectedBlockTimeSec T) of
           None \<Rightarrow> Panic
         | Some target \<Rightarrow> push_heartbeat_challenge T (random_seed T s) target s)"

definition update_tokenomic_parameters :: "'b phala_config \<Rightarrow> tokenomic_params \<Rightarrow> 'b chain \<Rightarrow>
    ('b, unit) result" where
  "update_tokenomic_parameters T tk s =
     andthen (mining_push T gatekeeper_event_topic
                (enc_gatekeeper_event T (TokenomicParametersChanged tk))
                (s\<lparr>TokenomicParameters := Some tk\<rparr>))
       (\<lambda>_ s. Ok () (mining_deposit TokenomicChanged s))"

text \<open>\<open>fp!(0.75)\<close> is exact in 64 fractional bits.\<close>

definition fp_0_75 :: u64f64 where "fp_0_75 = 3 * 2 ^ 62"

definition trigger_subsidy_halving :: "'b phala_config \<Rightarrow> 'b chain \<Rightarrow>
    ('b, unit) result" where
  "trigger_subsidy_halving T s =
     (case TokenomicParameters s of None \<Rightarrow> Err (Other []) s | Some tk \<Rightarrow>
      let new_budget = fx_mul (Fx T) (budget_per_block tk) fp_0_75
      in update_tokenomic_parameters T (tk\<lparr>budget_per_block := new_budget\<rparr>)
           (mining_deposit SubsidyBudgetHalved s))"

section \<open>Bindings\<close>

definition ensure_worker_bound :: "worker_key \<Rightarrow> 'b chain \<Rightarrow> account_id option" where
  "ensure_worker_bound pubkey s = WorkerBindings s pubkey"

definition ensure_miner_bound :: "account_id \<Rightarrow> 'b chain \<Rightarrow> worker_key option" where
  "ensure_miner_bound miner s = MinerBindings s miner"

definition fresh_miner :: "u64 \<Rightarrow> miner_info" where
  "fresh_miner now =
     \<lparr>mi_state = Ready, mi_ve = 0, mi_v = 0, v_updated_at = now,
      mi_benchmark = \<lparr>p_init = 0, p_instant = 0, iterations = 0, mining_start_time = now,
                      challenge_time_last = 0\<rparr>,
      cool_down_start = 0, total_reward = 0\<rparr>"

definition mining_bind :: "account_id \<Rightarrow> worker_key \<Rightarrow> 'b chain \<Rightarrow> ('b, unit) result" where
  "mining_bind miner pubkey s =
     (case Workers s pubkey of None \<Rightarrow> Err (mining_err mining_error.WorkerNotRegistered) s
      | Some worker \<Rightarrow>
      if initial_score worker = None then Err (mining_err mining_error.BenchmarkMissing) s
      else if ensure_miner_bound miner s \<noteq> None then Err (mining_err DuplicateBoundMiner) s
      else if ensure_worker_bound pubkey s \<noteq> None then Err (mining_err DuplicateBoundWorker) s
      else if \<not> (case Miners s miner of Some info \<Rightarrow> mi_state info = Ready | None \<Rightarrow> True)
      then Err (mining_err MinerNotReady) s
      else Ok () (mining_deposit (MinerBound miner pubkey)
        (s\<lparr>MinerBindings := (MinerBindings s)(miner \<mapsto> pubkey),
           WorkerBindings := (WorkerBindings s)(pubkey \<mapsto> miner),
           Miners := (Miners s)(miner \<mapsto> fresh_miner (now_sec s))\<rparr>)))"

section \<open>Start, stop and reclaim\<close>

definition start_mining :: "'b phala_config \<Rightarrow> account_id \<Rightarrow> u128 \<Rightarrow> 'b chain \<Rightarrow>
    ('b, unit) result" where
  "start_mining T miner stake s =
     (case MinerBindings s miner of None \<Rightarrow> Err (mining_err MinerNotFound) s | Some worker \<Rightarrow>
      case Miners s miner of None \<Rightarrow> Panic | Some info \<Rightarrow>
      if mi_state info \<noteq> Ready then Err (mining_err MinerNotReady) s
      else if Stakes s miner \<noteq> None
      then Err (mining_err InternalErrorCannotStartWithExistingStake) s
      else case Workers s worker of None \<Rightarrow> Panic | Some w \<Rightarrow>
      case initial_score w of None \<Rightarrow> Err (mining_err mining_error.BenchmarkMissing) s | Some p \<Rightarrow>
      if p < MinInitP T then Err (mining_err BenchmarkTooLow) s
      else case TokenomicParameters s of
        None \<Rightarrow> Err (mining_err InternalErrorBadTokenomicParameters) s
      | Some tk \<Rightarrow>
      if stake < minimal_stake (Fx T) tk p then Err (mining_err InsufficientStake) s
      else let ve = tokenomic_ve (Fx T) tk stake p (confidence_level w) in
      if ve > v_max tk then Err (mining_err TooMuchStake) s
      else let info' = info\<lparr>mi_state := MiningIdle, mi_ve := ve, mi_v := ve,
                             v_updated_at := now_sec s,
                             mi_benchmark := (mi_benchmark info)\<lparr>p_init := p\<rparr>\<rparr>;
               session = NextSessionId s
      in andthen (push_worker_event T worker (MiningStart session ve p)
             (s\<lparr>Stakes := (Stakes s)(miner \<mapsto> stake),
                Miners := (Miners s)(miner \<mapsto> info'),
                OnlineMiners := OnlineMiners s + 1,
                NextSessionId := session + 1\<rparr>))
           (\<lambda>_ s. Ok () (mining_deposit (MinerStarted miner) s)))"

definition stop_mining :: "'b phala_config \<Rightarrow> account_id \<Rightarrow> 'b chain \<Rightarrow> ('b, unit) result" where
  "stop_mining T miner s =
     (case MinerBindings s miner of None \<Rightarrow> Err (mining_err MinerNotBound) s | Some worker \<Rightarrow>
      case Miners s miner of None \<Rightarrow> Err (mining_err MinerNotFound) s | Some info \<Rightarrow>
      if mi_state info = Ready \<or> mi_state info = MiningCoolingDown
      then Err (mining_err MinerNotMining) s
      else let info' = info\<lparr>mi_state := MiningCoolingDown, cool_down_start := now_sec s\<rparr>;
               s' = s\<lparr>Miners := (Miners s)(miner \<mapsto> info'), OnlineMiners := OnlineMiners s - 1\<rparr>;
               orig_stake = (case Stakes s miner of Some x \<Rightarrow> x | None \<Rightarrow> 0)
      in case calc_final_stake (Fx T) info' orig_stake of None \<Rightarrow> Panic
         | Some (_, slashed) \<Rightarrow>
             andthen (on_stopped_hook T worker orig_stake slashed s')
               (\<lambda>_ s. andthen (push_worker_event T worker MiningStop s)
               (\<lambda>_ s. Ok () (mining_deposit (MinerStopped miner) s))))"

definition unbind_miner :: "'b phala_config \<Rightarrow> account_id \<Rightarrow> bool \<Rightarrow> 'b chain \<Rightarrow>
    ('b, unit) result" where
  "unbind_miner T miner notify s =
     (case ensure_miner_bound miner s of None \<Rightarrow> Err (mining_err MinerNotBound) s | Some worker \<Rightarrow>
      case Miners s miner of None \<Rightarrow> Panic | Some info \<Rightarrow>
      let force = (\<not> can_unbind (mi_state info)) in
      andthen (if force then stop_mining T miner s else Ok () s)
        (\<lambda>_ s. let s = mining_deposit (MinerUnbound miner worker)
                    (s\<lparr>MinerBindings := (MinerBindings s)(miner := None),
                       WorkerBindings := (WorkerBindings s)(worker := None)\<rparr>)
               in if notify then on_unbound_hook T worker force s else Ok () s))"

definition can_reclaim :: "miner_info \<Rightarrow> 'b chain \<Rightarrow> bool" where
  "can_reclaim info s =
     (if mi_state info \<noteq> MiningCoolingDown then False
      else now_sec s - cool_down_start info \<ge> CoolDownPeriod s)"

definition reclaim :: "'b phala_config \<Rightarrow> account_id \<Rightarrow> 'b chain \<Rightarrow> ('b, u128 \<times> u128) result" where
  "reclaim T miner s =
     (case Miners s miner of None \<Rightarrow> Err (mining_err MinerNotFound) s | Some info \<Rightarrow>
      if \<not> can_reclaim info s then Err (mining_err CoolDownNotReady) s
      else let info' = info\<lparr>mi_state := Ready, cool_down_start := 0\<rparr>;
               orig_stake = (case Stakes s miner of Some x \<Rightarrow> x | None \<Rightarrow> 0);
               s' = s\<lparr>Miners := (Miners s)(miner \<mapsto> info'), Stakes := (Stakes s)(miner := None)\<rparr>
      in case calc_final_stake (Fx T) info' orig_stake of None \<Rightarrow> Panic
         | Some (_, slashed) \<Rightarrow>
             Ok (orig_stake, slashed) (mining_deposit (MinerReclaimed miner orig_stake slashed) s'))"

section \<open>Subsidy pool\<close>

definition withdraw_subsidy_pool :: "'b phala_config \<Rightarrow> account_id \<Rightarrow> u128 \<Rightarrow> 'b chain \<Rightarrow>
    ('b, unit) result" where
  "withdraw_subsidy_pool T target value s =
     (case transfer_keep_alive (Cur T) (mining_wallet T) target value (bank s) of
        Inl e \<Rightarrow> Err (External e) s
      | Inr b \<Rightarrow> Ok () (s\<lparr>bank := b\<rparr>))"

definition withdraw_imbalance_from_subsidy_pool :: "'b phala_config \<Rightarrow> u128 \<Rightarrow> 'b chain \<Rightarrow>
    ('b, u128) result" where
  "withdraw_imbalance_from_subsidy_pool T value s =
     (case withdraw_allow_death (Cur T) (mining_wallet T) value (bank s) of
        Inl e \<Rightarrow> Err (External e) s
      | Inr (imbalance, b) \<Rightarrow> Ok imbalance (s\<lparr>bank := b\<rparr>))"

section \<open>Messages\<close>

definition on_mining_message_received :: "message_origin \<Rightarrow> mining_report_event \<Rightarrow> 'b chain \<Rightarrow>
    ('b, unit) result" where
  "on_mining_message_received sender payload s =
     (case sender of
        WorkerOrigin worker \<Rightarrow>
          (case payload of Heartbeat session_id challenge_block challenge_time iters \<Rightarrow>
           case ensure_worker_bound worker s of None \<Rightarrow> Err (mining_err WorkerNotBound) s
           | Some miner \<Rightarrow>
           case Miners s miner of None \<Rightarrow> Panic | Some info \<Rightarrow>
           case Workers s worker of None \<Rightarrow> Panic | Some _ \<Rightarrow>
           case benchmark_update (now_sec s) iters (challenge_time div 1000) (mi_benchmark info) of
             None \<Rightarrow> Panic
           | Some b \<Rightarrow> Ok () (s\<lparr>Miners := (Miners s)(miner \<mapsto> info\<lparr>mi_benchmark := b\<rparr>)\<rparr>))
      | _ \<Rightarrow> Ok () s)"

text \<open>
  One step of the loops over \<open>offline\<close> and \<open>recovered_to_online\<close>: the worker's miner, if it is
  mining, gets the new state, an event and a message.
\<close>

definition set_responsive :: "'b phala_config \<Rightarrow> miner_state \<Rightarrow>
    (account_id \<Rightarrow> mining_pallet_event) \<Rightarrow> worker_event \<Rightarrow> worker_key \<Rightarrow> 'b chain \<Rightarrow>
    ('b, unit) result" where
  "set_responsive T st ev we worker s =
     (case WorkerBindings s worker of None \<Rightarrow> Ok () s | Some account \<Rightarrow>
      case Miners s account of None \<Rightarrow> Ok () s | Some info \<Rightarrow>
      if \<not> is_mining (mi_state info) then Ok () s
      else push_worker_event T worker we (mining_deposit (ev account)
             (s\<lparr>Miners := (Miners s)(account \<mapsto> info\<lparr>mi_state := st\<rparr>)\<rparr>)))"

definition worker_offline :: "'b phala_config \<Rightarrow> worker_key \<Rightarrow> 'b chain \<Rightarrow> ('b, unit) result" where
  "worker_offline T =
     set_responsive T MiningUnresponsive MinerEnterUnresponsive MiningEnterUnresponsive"

definition worker_recovered :: "'b phala_config \<Rightarrow> worker_key \<Rightarrow> 'b chain \<Rightarrow> ('b, unit) result" where
  "worker_recovered T = set_responsive T MiningIdle MinerExitUnresponsive MiningExitUnresponsive"

definition try_handle_settle :: "'b phala_config \<Rightarrow> settle_info \<Rightarrow> u64 \<Rightarrow> 'b chain \<Rightarrow>
    ('b, unit) result" where
  "try_handle_settle T info now s =
     (case WorkerBindings s (si_pubkey info) of None \<Rightarrow> Ok () s | Some account \<Rightarrow>
      case Miners s account of None \<Rightarrow> Err (mining_err MinerNotFound) s | Some m \<Rightarrow>
      let m = stats_on_reward (Fx T) (si_payout info) (m\<lparr>mi_v := si_v info, v_updated_at := now\<rparr>);
          s = s\<lparr>Miners := (Miners s)(account \<mapsto> m)\<rparr>;
          treasury_deposit = balance_from_bits (Fx T) (si_treasury info)
      in andthen (withdraw_imbalance_from_subsidy_pool T treasury_deposit s)
           (\<lambda>imbalance s. Ok () (mining_deposit (MinerSettled account (si_v info) (si_payout info))
              (s\<lparr>bank := on_treasury_settled T imbalance (bank s)\<rparr>))))"

definition handle_settle :: "'b phala_config \<Rightarrow> u64 \<Rightarrow> settle_info \<Rightarrow> 'b chain \<Rightarrow>
    ('b, unit) result" where
  "handle_settle T now info s =
     (case try_handle_settle T info now s of
        Err _ s' \<Rightarrow> Ok () (mining_deposit (InternalErrorMinerSettleFailed (si_pubkey info)) s')
      | r \<Rightarrow> r)"

definition on_gk_message_received :: "'b phala_config \<Rightarrow> message_origin \<Rightarrow>
    mining_info_update_event \<Rightarrow> 'b chain \<Rightarrow> ('b, unit) result" where
  "on_gk_message_received T sender event s =
     (if sender \<noteq> GatekeeperOrigin then Err (mining_err mining_error.BadSender) s
      else if update_is_empty event then Ok () s
      else let now = now_sec s in
        andthen (for_each (worker_offline T) (offline event) s)
        (\<lambda>_ s. andthen (for_each (worker_recovered T) (recovered_to_online event) s)
        (\<lambda>_ s. andthen (for_each (handle_settle T now) (settle event) s)
        (\<lambda>_ s. on_reward_hook T (settle event) s))))"

section \<open>Dispatchable calls\<close>

definition set_cool_down_expiration :: "origin \<Rightarrow> u64 \<Rightarrow> 'b chain \<Rightarrow> ('b, unit) result" where
  "set_cool_down_expiration orig period s =
     (if \<not> ensure_root orig then Err BadOrigin s
      else Ok () (mining_deposit (CoolDownExpirationChanged period) (s\<lparr>CoolDownPeriod := period\<rparr>)))"

definition mining_unbind :: "'b phala_config \<Rightarrow> origin \<Rightarrow> account_id \<Rightarrow> 'b chain \<Rightarrow>
    ('b, unit) result" where
  "mining_unbind T orig miner s =
     (case ensure_signed orig of None \<Rightarrow> Err BadOrigin s | Some who \<Rightarrow>
      case ensure_miner_bound miner s of None \<Rightarrow> Err (mining_err MinerNotBound) s | Some pubkey \<Rightarrow>
      case Workers s pubkey of None \<Rightarrow> Err (mining_err mining_error.WorkerNotRegistered) s
      | Some worker \<Rightarrow>
      if operator worker \<noteq> Some who then Err (mining_err mining_error.BadSender) s
      else unbind_miner T miner True s)"

definition force_heartbeat :: "'b phala_config \<Rightarrow> origin \<Rightarrow> 'b chain \<Rightarrow> ('b, unit) result" where
  "force_heartbeat T orig s =
     (if \<not> ensure_root orig then Err BadOrigin s else push_heartbeat_challenge T 0 (- 1) s)"

definition force_start_mining :: "'b phala_config \<Rightarrow> origin \<Rightarrow> account_id \<Rightarrow> u128 \<Rightarrow> 'b chain \<Rightarrow>
    ('b, unit) result" where
  "force_start_mining T orig miner stake s =
     (if \<not> ensure_root orig then Err BadOrigin s else start_mining T miner stake s)"

definition force_stop_mining :: "'b phala_config \<Rightarrow> origin \<Rightarrow> account_id \<Rightarrow> 'b chain \<Rightarrow>
    ('b, unit) result" where
  "force_stop_mining T orig miner s =
     (if \<not> ensure_root orig then Err BadOrigin s else stop_mining T miner s)"

definition update_tokenomic :: "'b phala_config \<Rightarrow> origin \<Rightarrow> tokenomic_params \<Rightarrow> 'b chain \<Rightarrow>
    ('b, unit) result" where
  "update_tokenomic T orig new_params s =
     (if \<not> update_tokenomic_origin T orig then Err BadOrigin s
      else Ok () (s\<lparr>ScheduledTokenomicUpdate := Some new_params\<rparr>))"

section \<open>Hooks of the block\<close>

definition apply_tokenomic_update :: "'b phala_config \<Rightarrow> 'b chain \<Rightarrow> ('b, unit) result" where
  "apply_tokenomic_update T s =
     (case ScheduledTokenomicUpdate s of None \<Rightarrow> Ok () s
      | Some tk \<Rightarrow> update_tokenomic_parameters T tk (s\<lparr>ScheduledTokenomicUpdate := None\<rparr>))"

definition apply_subsidy :: "'b phala_config \<Rightarrow> block_num \<Rightarrow> 'b chain \<Rightarrow> ('b, unit) result" where
  "apply_subsidy T n s =
     (case MiningHalvingInterval s of None \<Rightarrow> Ok () s | Some interval \<Rightarrow>
      let block_elapsed = n - (case MiningStartBlock s of Some b \<Rightarrow> b | None \<Rightarrow> 0) in
      if interval > 0 \<and> block_elapsed mod interval = interval - 1
      then (case trigger_subsidy_halving T s of
              Err _ s' \<Rightarrow> Ok () (mining_deposit InternalErrorWrongHalvingConfigured s')
            | r \<Rightarrow> r)
      else Ok () s)"

definition mining_on_finalize :: "'b phala_config \<Rightarrow> block_num \<Rightarrow> 'b chain \<Rightarrow> ('b, unit) result" where
  "mining_on_finalize T n s =
     andthen (heartbeat_challenge T s)
       (\<lambda>_ s. andthen (apply_tokenomic_update T s) (\<lambda>_ s. apply_subsidy T n s))"

definition mining_genesis_build :: "'b phala_config \<Rightarrow> u32 \<Rightarrow> tokenomic_params \<Rightarrow> 'b chain \<Rightarrow>
    'b chain" where
  "mining_genesis_build T cool_down_period_sec tk s =
     queue_message_to gatekeeper_event_topic (PalletOrigin (mining_name T))
       (enc_gatekeeper_event T (TokenomicParametersChanged tk))
       (s\<lparr>CoolDownPeriod := ucast cool_down_period_sec, TokenomicParameters := Some tk\<rparr>)"

end
