(* ===== verification/Mining_Props.thy ===== *)
theory Mining_Props
  imports Mining
begin

text \<open>
  Correctness of the mining pallet. \<open>message_host\<close> is the contract with the message queue
  (messages that pallets push for the workers and gatekeepers have no subscriber on the chain),
  \<open>mining_host\<close> adds the contract with the subscribers \<open>OnReward\<close>, \<open>OnUnbound\<close> and
  \<open>OnStopped\<close> (they leave the mining storage alone). Inside them: the invariant of the bindings,
  the stakes and the counter of online miners, and the life cycle of a miner.
\<close>

section \<open>The contract with the queue\<close>

definition offchain_topics :: "topic set" where
  "offchain_topics = {system_event_topic, gatekeeper_launch_topic, gatekeeper_change_topic,
     gatekeeper_event_topic}"

locale message_host =
  fixes T :: "'b phala_config"
  assumes unrouted: "m_destination m \<in> offchain_topics \<Longrightarrow> on_message_received T m s = Ok () s"
begin

definition outbox :: "message \<Rightarrow> 'b chain \<Rightarrow> 'b chain" where
  "outbox m s = (if should_push_message T m then s\<lparr>OutboundMessages := OutboundMessages s @ [m]\<rparr> else s)"

lemma dispatch_unrouted:
  "m_destination m \<in> offchain_topics \<Longrightarrow> dispatch_message T m s = Ok () (outbox m s)"
  by (simp add: dispatch_message_def unrouted outbox_def)

lemma outbox_frame [simp]:
  "Workers (outbox m s) = Workers s" "Miners (outbox m s) = Miners s"
  "MinerBindings (outbox m s) = MinerBindings s" "WorkerBindings (outbox m s) = WorkerBindings s"
  "Stakes (outbox m s) = Stakes s" "OnlineMiners (outbox m s) = OnlineMiners s"
  "StakePools (outbox m s) = StakePools s" "PoolStakers (outbox m s) = PoolStakers s"
  "WorkerAssignments (outbox m s) = WorkerAssignments s" "PoolCount (outbox m s) = PoolCount s"
  "CoolDownPeriod (outbox m s) = CoolDownPeriod s" "now_millis (outbox m s) = now_millis s"
  "OffchainIngress (outbox m s) = OffchainIngress s" "Gatekeeper (outbox m s) = Gatekeeper s"
  "WithdrawalTimestamps (outbox m s) = WithdrawalTimestamps s"
  "WithdrawalQueuedPools (outbox m s) = WithdrawalQueuedPools s"
  "PRuntimeAllowList (outbox m s) = PRuntimeAllowList s"
  "RelaychainGenesisBlockHashAllowList (outbox m s) = RelaychainGenesisBlockHashAllowList s"
  "GatekeeperMasterPubkey (outbox m s) = GatekeeperMasterPubkey s"
  "TokenomicParameters (outbox m s) = TokenomicParameters s" "bank (outbox m s) = bank s"
  "ScheduledTokenomicUpdate (outbox m s) = ScheduledTokenomicUpdate s"
  "StakeLedger (outbox m s) = StakeLedger s"
  by (simp_all add: outbox_def)

lemma mining_push_Ok:
  "topic \<in> offchain_topics \<Longrightarrow> mining_push T topic pl s =
     Ok () (outbox \<lparr>m_sender = PalletOrigin (mining_name T), m_destination = topic, m_payload = pl\<rparr> s)"
  by (simp add: mining_push_def push_message_to_def dispatch_unrouted)

lemma registry_push_Ok:
  "topic \<in> offchain_topics \<Longrightarrow> registry_push T topic pl s =
     Ok () (outbox \<lparr>m_sender = PalletOrigin (registry_name T), m_destination = topic, m_payload = pl\<rparr> s)"
  by (simp add: registry_push_def push_message_to_def dispatch_unrouted)

lemma offchain_topics_simps [simp]:
  "system_event_topic \<in> offchain_topics" "gatekeeper_launch_topic \<in> offchain_topics"
  "gatekeeper_change_topic \<in> offchain_topics" "gatekeeper_event_topic \<in> offchain_topics"
  by (simp_all add: offchain_topics_def)

end

section \<open>The invariant\<close>

definition online :: "'b chain \<Rightarrow> account_id set" where
  "online s = {m. \<exists>info. Miners s m = Some info \<and> can_settle (mi_state info)}"

definition mining_inv :: "'b chain \<Rightarrow> bool" where
  "mining_inv s \<longleftrightarrow>
     (\<forall>m w. MinerBindings s m = Some w \<longleftrightarrow> WorkerBindings s w = Some m) \<and>
     (\<forall>m w. MinerBindings s m = Some w \<longrightarrow> Miners s m \<noteq> None \<and> Workers s w \<noteq> None) \<and>
     (\<forall>m \<in> online s. MinerBindings s m \<noteq> None) \<and>
     (\<forall>m. Stakes s m \<noteq> None \<longleftrightarrow> (\<exists>info. Miners s m = Some info \<and> mi_state info \<noteq> Ready)) \<and>
     finite (dom (Miners s)) \<and>
     OnlineMiners s = of_nat (card (online s))"

definition mining_part :: "'b chain \<Rightarrow> _" where
  "mining_part s = (Miners s, MinerBindings s, WorkerBindings s, Stakes s, OnlineMiners s, Workers s)"

lemma mining_partD:
  assumes "mining_part s' = mining_part s"
  shows "Miners s' = Miners s" "MinerBindings s' = MinerBindings s"
    "WorkerBindings s' = WorkerBindings s" "Stakes s' = Stakes s" "OnlineMiners s' = OnlineMiners s"
    "Workers s' = Workers s"
  using assms by (simp_all add: mining_part_def)

lemma mining_inv_cong:
  assumes "mining_part s' = mining_part s"
  shows "mining_inv s' = mining_inv s"
  using mining_partD [OF assms] by (simp add: mining_inv_def online_def)

lemma mining_inv_deposit [simp]: "mining_inv (mining_deposit e s) = mining_inv s"
  by (rule mining_inv_cong) (simp add: mining_part_def mining_deposit_def)

lemma mining_inv_upd [simp]:
  "mining_inv (s\<lparr>TokenomicParameters := tk\<rparr>) = mining_inv s"
  "mining_inv (s\<lparr>ScheduledTokenomicUpdate := tk\<rparr>) = mining_inv s"
  "mining_inv (s\<lparr>CoolDownPeriod := c\<rparr>) = mining_inv s"
  "mining_inv (s\<lparr>now_millis := n\<rparr>) = mining_inv s"
  by (rule mining_inv_cong, simp add: mining_part_def)+

lemma online_finite: "mining_inv s \<Longrightarrow> finite (online s)"
  by (rule finite_subset [of _ "dom (Miners s)"]) (auto simp: mining_inv_def online_def)

lemma mining_invD:
  assumes inv: "mining_inv s"
  shows "MinerBindings s m = Some w \<Longrightarrow> WorkerBindings s w = Some m"
    and "WorkerBindings s w = Some m \<Longrightarrow> MinerBindings s m = Some w"
    and "MinerBindings s m = Some w \<Longrightarrow> Miners s m \<noteq> None"
    and "MinerBindings s m = Some w \<Longrightarrow> Workers s w \<noteq> None"
    and "Miners s m = Some info \<Longrightarrow> can_settle (mi_state info) \<Longrightarrow> MinerBindings s m \<noteq> None"
    and "Miners s m = Some info \<Longrightarrow> Stakes s m \<noteq> None \<longleftrightarrow> mi_state info \<noteq> Ready"
    and "Miners s m = None \<Longrightarrow> Stakes s m = None"
proof -
  show "MinerBindings s m = Some w \<Longrightarrow> WorkerBindings s w = Some m"
    "WorkerBindings s w = Some m \<Longrightarrow> MinerBindings s m = Some w"
    "MinerBindings s m = Some w \<Longrightarrow> Miners s m \<noteq> None"
    "MinerBindings s m = Some w \<Longrightarrow> Workers s w \<noteq> None"
    "Miners s m = Some info \<Longrightarrow> can_settle (mi_state info) \<Longrightarrow> MinerBindings s m \<noteq> None"
    using inv by (auto simp: mining_inv_def online_def)
  have "Stakes s m \<noteq> None \<longleftrightarrow> (\<exists>info. Miners s m = Some info \<and> mi_state info \<noteq> Ready)"
    using inv unfolding mining_inv_def by blast
  then show "Miners s m = Some info \<Longrightarrow> Stakes s m \<noteq> None \<longleftrightarrow> mi_state info \<noteq> Ready"
    "Miners s m = None \<Longrightarrow> Stakes s m = None" by auto
qed

lemma can_settle_simps [simp]:
  "can_settle MiningIdle" "can_settle MiningActive" "can_settle MiningUnresponsive"
  "\<not> can_settle Ready" "\<not> can_settle MiningCoolingDown"
  by (simp_all add: can_settle_def)

lemma can_settle_iff: "can_settle st \<longleftrightarrow> st \<noteq> Ready \<and> st \<noteq> MiningCoolingDown"
  by (cases st) simp_all

text \<open>One miner's record changes; its stake and the counter change with it.\<close>

lemma mining_inv_set:
  assumes inv: "mining_inv s" and old: "Miners s m = Some info"
    and new: "Miners s' = (Miners s)(m \<mapsto> info')"
    and same: "MinerBindings s' = MinerBindings s" "WorkerBindings s' = WorkerBindings s"
    and workers: "\<And>w. Workers s w \<noteq> None \<Longrightarrow> Workers s' w \<noteq> None"
    and stakes: "\<And>x. x \<noteq> m \<Longrightarrow> Stakes s' x = Stakes s x" "Stakes s' m \<noteq> None \<longleftrightarrow> mi_state info' \<noteq> Ready"
    and bound: "can_settle (mi_state info') \<Longrightarrow> MinerBindings s m \<noteq> None"
    and count: "OnlineMiners s' = OnlineMiners s +
       (if can_settle (mi_state info') then 1 else 0) - (if can_settle (mi_state info) then 1 else 0)"
  shows "mining_inv s'"
proof -
  have fin: "finite (online s)" by (rule online_finite [OF inv])
  have on: "online s' = (if can_settle (mi_state info') then insert m (online s) else online s - {m})"
    by (auto simp: online_def new)
  have mem: "m \<in> online s \<longleftrightarrow> can_settle (mi_state info)" by (simp add: online_def old)
  have cnt: "OnlineMiners s = of_nat (card (online s))" using inv by (simp add: mining_inv_def)
  have c: "OnlineMiners s' = of_nat (card (online s'))"
  proof (cases "can_settle (mi_state info)"; cases "can_settle (mi_state info')")
    assume st: "can_settle (mi_state info)" "can_settle (mi_state info')"
    then have "online s' = online s" using on mem by auto
    then show ?thesis using st count cnt by simp
  next
    assume st: "can_settle (mi_state info)" "\<not> can_settle (mi_state info')"
    then have "card (online s) = Suc (card (online s'))" using card_Suc_Diff1 [OF fin, of m] mem on by simp
    then show ?thesis using st count cnt by simp
  next
    assume st: "\<not> can_settle (mi_state info)" "can_settle (mi_state info')"
    then have "card (online s') = Suc (card (online s))" using fin mem on by simp
    then show ?thesis using st count cnt by simp
  next
    assume st: "\<not> can_settle (mi_state info)" "\<not> can_settle (mi_state info')"
    then have "online s' = online s" using on mem by auto
    then show ?thesis using st count cnt by simp
  qed
  have st: "Stakes s' x \<noteq> None \<longleftrightarrow> (\<exists>i. Miners s' x = Some i \<and> mi_state i \<noteq> Ready)" for x
  proof (cases "x = m")
    case False
    then have "Stakes s' x = Stakes s x" "Miners s' x = Miners s x" using stakes(1) new by auto
    then show ?thesis using inv by (simp only: mining_inv_def)
  qed (use stakes(2) new in simp)
  have b: "\<forall>x \<in> online s'. MinerBindings s' x \<noteq> None"
    using bound inv on same by (auto simp: mining_inv_def split: if_splits)
  have w: "\<forall>x w. MinerBindings s' x = Some w \<longrightarrow> Miners s' x \<noteq> None \<and> Workers s' w \<noteq> None"
    using mining_invD(3,4) [OF inv] same new workers by auto
  have bb: "\<forall>x w. (MinerBindings s' x = Some w) = (WorkerBindings s' w = Some x)"
    and f: "finite (dom (Miners s'))"
    using inv same new by (simp_all add: mining_inv_def)
  show ?thesis unfolding mining_inv_def using bb w b st f c by blast
qed

section \<open>The operations keep it\<close>

lemma mining_bind_keeps: "keeps mining_inv s (mining_bind m w s)"
proof (cases "mining_bind m w s")
  case (Ok u s')
  then obtain wi where w: "Workers s w = Some wi" and unb: "MinerBindings s m = None" "WorkerBindings s w = None"
    and ready: "\<And>i. Miners s m = Some i \<Longrightarrow> mi_state i = Ready"
    and s': "s' = mining_deposit (MinerBound m w)
        (s\<lparr>MinerBindings := (MinerBindings s)(m \<mapsto> w), WorkerBindings := (WorkerBindings s)(w \<mapsto> m),
           Miners := (Miners s)(m \<mapsto> fresh_miner (now_sec s))\<rparr>)"
    by (auto simp: mining_bind_def ensure_miner_bound_def ensure_worker_bound_def
        split: option.splits if_splits)
  have "mining_inv s'" if inv: "mining_inv s"
  proof -
    have st: "Stakes s m = None"
      using mining_invD(6,7) [OF inv, of m] ready by (cases "Miners s m") auto
    have "m \<notin> online s" using mining_invD(5) [OF inv, of m] unb by (auto simp: online_def)
    then have on: "online s' = online s"
      by (auto simp: online_def s' mining_deposit_def fresh_miner_def)
    have b: "\<forall>x v. (MinerBindings s' x = Some v) = (WorkerBindings s' v = Some x)"
    proof (intro allI)
      fix x v
      have "MinerBindings s x \<noteq> Some w" "WorkerBindings s v \<noteq> Some m"
        using mining_invD(1) [OF inv, of x w] mining_invD(2) [OF inv, of v m] unb by auto
      moreover have "(MinerBindings s x = Some v) = (WorkerBindings s v = Some x)"
        using mining_invD(1,2) [OF inv] by blast
      ultimately show "(MinerBindings s' x = Some v) = (WorkerBindings s' v = Some x)"
        by (cases "x = m"; cases "v = w") (simp_all add: s' mining_deposit_def)
    qed
    have k: "\<forall>x v. MinerBindings s' x = Some v \<longrightarrow> Miners s' x \<noteq> None \<and> Workers s' v \<noteq> None"
      using inv w by (auto simp: mining_inv_def s' mining_deposit_def)
    have o: "\<forall>x \<in> online s'. MinerBindings s' x \<noteq> None"
      using inv on by (auto simp: mining_inv_def s' mining_deposit_def)
    have t: "(Stakes s' x \<noteq> None) = (\<exists>i. Miners s' x = Some i \<and> mi_state i \<noteq> Ready)" for x
      using inv st unfolding mining_inv_def
      by (cases "x = m") (simp_all add: s' mining_deposit_def fresh_miner_def)
    have "finite (dom (Miners s'))" "OnlineMiners s' = of_nat (card (online s'))"
      using inv on by (simp_all add: mining_inv_def s' mining_deposit_def)
    then show ?thesis unfolding mining_inv_def using b k o t by blast
  qed
  then show ?thesis by (simp add: Ok)
next
  case (Err e s')
  then have "s' = s" by (auto simp: mining_bind_def split: option.splits if_splits)
  then show ?thesis by (simp add: Err)
qed simp

lemma reclaim_OkE:
  assumes "reclaim T m s = Ok r s'"
  obtains info stake returned where "Miners s m = Some info" "mi_state info = MiningCoolingDown"
    "now_sec s - cool_down_start info \<ge> CoolDownPeriod s"
    "stake = (case Stakes s m of Some x \<Rightarrow> x | None \<Rightarrow> 0)" "fst r = stake"
    "calc_final_stake (Fx T) (info\<lparr>mi_state := Ready, cool_down_start := 0\<rparr>) stake =
       Some (returned, snd r)"
    "s' = mining_deposit (MinerReclaimed m stake (snd r))
       (s\<lparr>Miners := (Miners s)(m \<mapsto> info\<lparr>mi_state := Ready, cool_down_start := 0\<rparr>),
          Stakes := (Stakes s)(m := None)\<rparr>)"
  using assms
  by (auto simp: reclaim_def can_reclaim_def Let_def split: option.splits if_splits prod.splits
      intro!: that)

lemma reclaim_Err: "reclaim T m s = Err e s' \<Longrightarrow> s' = s"
  by (auto simp: reclaim_def Let_def split: option.splits if_splits prod.splits)

lemma reclaim_keeps: "keeps mining_inv s (reclaim T m s)"
proof (cases "reclaim T m s")
  case (Ok r s')
  then obtain info e where m: "Miners s m = Some info" and cd: "mi_state info = MiningCoolingDown"
    and s': "s' = mining_deposit e (s\<lparr>Miners := (Miners s)(m \<mapsto> info\<lparr>mi_state := Ready, cool_down_start := 0\<rparr>),
              Stakes := (Stakes s)(m := None)\<rparr>)"
    by (rule reclaim_OkE) blast
  have "mining_inv s'" if inv: "mining_inv s"
    by (rule mining_inv_set [OF inv m, where info' = "info\<lparr>mi_state := Ready, cool_down_start := 0\<rparr>"])
      (simp_all add: s' cd mining_deposit_def)
  then show ?thesis by (simp add: Ok)
qed (auto dest: reclaim_Err)

lemma on_mining_message_keeps: "keeps mining_inv s (on_mining_message_received sender ev s)"
proof (cases "on_mining_message_received sender ev s")
  case (Ok u s')
  have "mining_inv s'" if inv: "mining_inv s"
  proof (cases "s' = s")
    case False
    then obtain m info b where m: "Miners s m = Some info"
      and s': "s' = s\<lparr>Miners := (Miners s)(m \<mapsto> info\<lparr>mi_benchmark := b\<rparr>)\<rparr>"
      using Ok by (auto simp: on_mining_message_received_def
          split: message_origin.splits mining_report_event.splits option.splits)
    show ?thesis
      by (rule mining_inv_set [OF inv m, where info' = "info\<lparr>mi_benchmark := b\<rparr>"])
        (use mining_invD(5,6) [OF inv m] in \<open>simp_all add: s'\<close>)
  qed (use inv in simp)
  then show ?thesis by (simp add: Ok)
qed (auto simp: on_mining_message_received_def
      split: message_origin.splits mining_report_event.splits option.splits)

section \<open>The contract with the subscribers\<close>

locale mining_host = message_host +
  assumes stopped_hook: "on_stopped_hook T w st sl s = Panic \<or>
      (\<exists>t. on_stopped_hook T w st sl s = Ok () t \<and> mining_part t = mining_part s)"
    and unbound_hook: "on_unbound_hook T w f s = Panic \<or>
      (\<exists>t. on_unbound_hook T w f s = Ok () t \<and> mining_part t = mining_part s)"
    and reward_hook: "on_reward_hook T xs s = Panic \<or>
      (\<exists>t. on_reward_hook T xs s = Ok () t \<and> mining_part t = mining_part s)"
begin

lemma mining_part_outbox [simp]: "mining_part (outbox m s) = mining_part s"
  by (simp add: mining_part_def)

lemma mining_inv_outbox [simp]: "mining_inv (outbox m s) = mining_inv s"
  by (rule mining_inv_cong) simp

lemma push_worker_event_Ok:
  "\<exists>t. push_worker_event T w e s = Ok () t \<and> mining_part t = mining_part s"
  by (simp add: push_worker_event_def mining_push_Ok)

lemma start_mining_cases:
  obtains (err) e where "start_mining T m stake s = Err e s"
  | (panic) "start_mining T m stake s = Panic"
  | (ok) s' worker info info' where "start_mining T m stake s = Ok () s'"
      "MinerBindings s m = Some worker" "Miners s m = Some info" "mi_state info = Ready"
      "Stakes s m = None" "mi_state info' = MiningIdle"
      "mining_part s' = ((Miners s)(m \<mapsto> info'), MinerBindings s, WorkerBindings s,
         (Stakes s)(m \<mapsto> stake), OnlineMiners s + 1, Workers s)"
proof -
  have *: "start_mining T m stake s \<noteq> Panic \<Longrightarrow> \<not> (\<exists>e. start_mining T m stake s = Err e s) \<Longrightarrow> thesis"
  proof -
    assume np: "start_mining T m stake s \<noteq> Panic" and ne: "\<not> (\<exists>e. start_mining T m stake s = Err e s)"
    from np ne obtain worker info w p tk where
      a: "MinerBindings s m = Some worker" "Miners s m = Some info" "mi_state info = Ready"
        "Stakes s m = None" "Workers s worker = Some w" "initial_score w = Some p"
        "\<not> p < MinInitP T" "TokenomicParameters s = Some tk" "\<not> stake < minimal_stake (Fx T) tk p"
        "\<not> tokenomic_ve (Fx T) tk stake p (confidence_level w) > v_max tk"
      unfolding start_mining_def Let_def by (simp split: option.splits if_splits)
    define info' where "info' = info\<lparr>mi_state := MiningIdle,
        mi_ve := tokenomic_ve (Fx T) tk stake p (confidence_level w),
        mi_v := tokenomic_ve (Fx T) tk stake p (confidence_level w), v_updated_at := now_sec s,
        mi_benchmark := (mi_benchmark info)\<lparr>p_init := p\<rparr>\<rparr>"
    define s1 where "s1 = s\<lparr>Stakes := (Stakes s)(m \<mapsto> stake), Miners := (Miners s)(m \<mapsto> info'),
        OnlineMiners := OnlineMiners s + 1, NextSessionId := NextSessionId s + 1\<rparr>"
    obtain t where t: "push_worker_event T worker (MiningStart (NextSessionId s)
          (tokenomic_ve (Fx T) tk stake p (confidence_level w)) p) s1 = Ok () t"
      "mining_part t = mining_part s1"
      using push_worker_event_Ok by blast
    have "start_mining T m stake s = Ok () (mining_deposit (MinerStarted m) t)"
      using a t(1) by (simp add: start_mining_def Let_def info'_def s1_def)
    moreover have "mining_part (mining_deposit (MinerStarted m) t) =
        ((Miners s)(m \<mapsto> info'), MinerBindings s, WorkerBindings s,
         (Stakes s)(m \<mapsto> stake), OnlineMiners s + 1, Workers s)"
      using t(2) by (simp add: mining_part_def mining_deposit_def s1_def)
    moreover have "mi_state info' = MiningIdle" by (simp add: info'_def)
    ultimately show thesis using ok [OF _ a(1-4)] by blast
  qed
  show thesis using err panic * by blast
qed

lemma stop_mining_cases:
  obtains (err) e where "stop_mining T m s = Err e s"
  | (panic) "stop_mining T m s = Panic"
  | (ok) s' worker info where "stop_mining T m s = Ok () s'"
      "MinerBindings s m = Some worker" "Miners s m = Some info" "can_settle (mi_state info)"
      "mining_part s' = ((Miners s)(m \<mapsto> info\<lparr>mi_state := MiningCoolingDown, cool_down_start := now_sec s\<rparr>),
         MinerBindings s, WorkerBindings s, Stakes s, OnlineMiners s - 1, Workers s)"
proof -
  have *: "stop_mining T m s \<noteq> Panic \<Longrightarrow> \<not> (\<exists>e. stop_mining T m s = Err e s) \<Longrightarrow> thesis"
  proof -
    assume np: "stop_mining T m s \<noteq> Panic" and ne: "\<not> (\<exists>e. stop_mining T m s = Err e s)"
    define stake where "stake = (case Stakes s m of Some x \<Rightarrow> x | None \<Rightarrow> 0)"
    from np ne obtain worker info ret sl where
      a: "MinerBindings s m = Some worker" "Miners s m = Some info"
        "\<not> (mi_state info = Ready \<or> mi_state info = MiningCoolingDown)"
        "calc_final_stake (Fx T) (info\<lparr>mi_state := MiningCoolingDown, cool_down_start := now_sec s\<rparr>)
           stake = Some (ret, sl)"
      unfolding stop_mining_def Let_def stake_def by (simp split: option.splits if_splits prod.splits)
    define s1 where "s1 = s\<lparr>Miners := (Miners s)(m \<mapsto>
        info\<lparr>mi_state := MiningCoolingDown, cool_down_start := now_sec s\<rparr>),
        OnlineMiners := OnlineMiners s - 1\<rparr>"
    have eq: "stop_mining T m s = andthen (on_stopped_hook T worker stake sl s1)
        (\<lambda>_ s. andthen (push_worker_event T worker MiningStop s)
        (\<lambda>_ s. Ok () (mining_deposit (MinerStopped m) s)))"
      using a unfolding stop_mining_def Let_def stake_def [symmetric] s1_def by simp
    then obtain t where t: "on_stopped_hook T worker stake sl s1 = Ok () t"
      "mining_part t = mining_part s1"
      using np stopped_hook [of worker stake sl s1] by fastforce
    obtain u where u: "push_worker_event T worker MiningStop t = Ok () u"
      "mining_part u = mining_part t" using push_worker_event_Ok by blast
    have "stop_mining T m s = Ok () (mining_deposit (MinerStopped m) u)"
      by (simp add: eq t(1) u(1))
    moreover have "mining_part (mining_deposit (MinerStopped m) u) =
        ((Miners s)(m \<mapsto> info\<lparr>mi_state := MiningCoolingDown, cool_down_start := now_sec s\<rparr>),
         MinerBindings s, WorkerBindings s, Stakes s, OnlineMiners s - 1, Workers s)"
      using u(2) t(2) by (simp add: mining_part_def mining_deposit_def s1_def)
    ultimately show thesis using ok a by (simp add: can_settle_iff)
  qed
  show thesis using err panic * by blast
qed

lemma start_mining_keeps: "keeps mining_inv s (start_mining T m stake s)"
proof (cases rule: start_mining_cases [of m stake s])
  case (ok s' worker info info')
  note part = ok(7) [unfolded mining_part_def prod.inject]
  have "mining_inv s'" if inv: "mining_inv s"
    by (rule mining_inv_set [OF inv ok(3), where info' = info']) (use part ok in auto)
  then show ?thesis by (simp add: ok)
qed simp_all

lemma stop_mining_keeps: "keeps mining_inv s (stop_mining T m s)"
proof (cases rule: stop_mining_cases [of m s])
  case (ok s' worker info)
  note part = ok(5) [unfolded mining_part_def prod.inject]
  have "mining_inv s'" if inv: "mining_inv s"
  proof (rule mining_inv_set [OF inv ok(3),
        where info' = "info\<lparr>mi_state := MiningCoolingDown, cool_down_start := now_sec s\<rparr>"])
    show "(Stakes s' m \<noteq> None) = (mi_state (info\<lparr>mi_state := MiningCoolingDown,
        cool_down_start := now_sec s\<rparr>) \<noteq> Ready)"
      using mining_invD(6) [OF inv ok(3)] ok(4) part by (auto simp: can_settle_iff)
  qed (use part ok(4) in auto)
  then show ?thesis by (simp add: ok)
qed simp_all

lemma unbind_miner_keeps: "keeps mining_inv s (unbind_miner T m notify s)"
proof (cases "MinerBindings s m"; cases "Miners s m")
  fix w info assume w: "MinerBindings s m = Some w" and m: "Miners s m = Some info"
  define force where "force = (\<not> can_unbind (mi_state info))"
  define r where "r = (if force then stop_mining T m s else Ok () s)"
  define cut where "cut t = mining_deposit (MinerUnbound m w)
      (t\<lparr>MinerBindings := (MinerBindings t)(m := None), WorkerBindings := (WorkerBindings t)(w := None)\<rparr>)"
    for t :: "'a chain"
  have eq: "unbind_miner T m notify s =
      andthen r (\<lambda>_ t. if notify then on_unbound_hook T w force (cut t) else Ok () (cut t))"
    by (simp add: unbind_miner_def ensure_miner_bound_def w m r_def force_def cut_def Let_def)
  have r_ok: "mining_inv t \<and> MinerBindings t m = Some w \<and> (\<exists>i. Miners t m = Some i \<and> \<not> can_settle (mi_state i))"
    if inv: "mining_inv s" and Ok: "r = Ok u t" for u t
  proof (cases force)
    case True
    then have "stop_mining T m s = Ok u t" using Ok by (simp add: r_def)
    then show ?thesis using inv w stop_mining_keeps [of s m]
      by (cases rule: stop_mining_cases [of m s]) (auto simp: mining_part_def)
  next
    case False
    then show ?thesis using inv w m Ok by (auto simp: r_def force_def can_unbind_def)
  qed
  have cut: "mining_inv (cut t)"
    if inv: "mining_inv t" and b: "MinerBindings t m = Some w"
      and i: "Miners t m = Some i" "\<not> can_settle (mi_state i)" for t i
  proof -
    have fields: "Miners (cut t) = Miners t" "Workers (cut t) = Workers t" "Stakes (cut t) = Stakes t"
      "OnlineMiners (cut t) = OnlineMiners t" "online (cut t) = online t"
      "MinerBindings (cut t) = (MinerBindings t)(m := None)"
      "WorkerBindings (cut t) = (WorkerBindings t)(w := None)"
      by (simp_all add: cut_def mining_deposit_def online_def)
    have bb: "(MinerBindings (cut t) x = Some v) = (WorkerBindings (cut t) v = Some x)" for x v
      using mining_invD(1) [OF inv, of x v] mining_invD(2) [OF inv, of v x] mining_invD(1) [OF inv b]
        mining_invD(2) [OF inv, of v m] b unfolding fields
      by (cases "x = m"; cases "v = w") auto
    have on: "MinerBindings (cut t) x \<noteq> None" if "x \<in> online t" for x
    proof -
      have "x \<noteq> m" using that i by (auto simp: online_def)
      moreover have "MinerBindings t x \<noteq> None" using inv that unfolding mining_inv_def by blast
      ultimately show ?thesis by (simp add: fields)
    qed
    have k: "Miners t x \<noteq> None \<and> Workers t v \<noteq> None" if "MinerBindings (cut t) x = Some v" for x v
      using mining_invD(3,4) [OF inv, of x v] that by (simp add: fields split: if_splits)
    have rest: "\<forall>x. (Stakes t x \<noteq> None) = (\<exists>i. Miners t x = Some i \<and> mi_state i \<noteq> Ready)"
      "finite (dom (Miners t))" "OnlineMiners t = of_nat (card (online t))"
      using inv unfolding mining_inv_def by blast+
    show ?thesis unfolding mining_inv_def fields(1-5) using bb on k rest by blast
  qed
  have step: "mining_inv s'" if inv: "mining_inv s" and l: "left_state (unbind_miner T m notify s) = Some s'" for s'
  proof (cases r)
    case (Ok u t)
    then have c: "mining_inv (cut t)" using r_ok [OF inv Ok] cut by blast
    show ?thesis
    proof (cases notify)
      case True
      then have "left_state (on_unbound_hook T w force (cut t)) = Some s'" using l eq Ok by simp
      then have "mining_part s' = mining_part (cut t)" using unbound_hook [of w force "cut t"] by auto
      then show ?thesis using c mining_inv_cong by blast
    next
      case False
      then show ?thesis using l eq Ok c by simp
    qed
  next
    case (Err e t)
    then have "left_state r = Some s'" using l eq by simp
    then show ?thesis using stop_mining_keeps [of s m] inv by (auto simp: r_def keeps_def split: if_splits)
  qed (use l eq in simp)
  then show ?thesis by (auto simp: keeps_def)
qed (simp_all add: unbind_miner_def ensure_miner_bound_def)

lemma set_responsive_keeps:
  assumes "is_mining st"
  shows "keeps mining_inv s (set_responsive T st ev we w s)"
proof (cases "\<exists>m info. WorkerBindings s w = Some m \<and> Miners s m = Some info \<and> is_mining (mi_state info)")
  case True
  then obtain m info where a: "WorkerBindings s w = Some m" "Miners s m = Some info"
    "is_mining (mi_state info)" by blast
  define s1 where "s1 = mining_deposit (ev m) (s\<lparr>Miners := (Miners s)(m \<mapsto> info\<lparr>mi_state := st\<rparr>)\<rparr>)"
  obtain t where t: "push_worker_event T w we s1 = Ok () t" "mining_part t = mining_part s1"
    using push_worker_event_Ok by blast
  have settles: "can_settle st" "can_settle (mi_state info)" "st \<noteq> Ready" "mi_state info \<noteq> Ready"
    using a(3) assms by (auto simp: is_mining_def)
  have "mining_inv s1" if inv: "mining_inv s"
    by (rule mining_inv_set [OF inv a(2), where info' = "info\<lparr>mi_state := st\<rparr>"])
      (use settles mining_invD(5,6) [OF inv a(2)] in \<open>simp_all add: s1_def mining_deposit_def\<close>)
  then have "mining_inv s \<longrightarrow> mining_inv t" using mining_inv_cong [OF t(2)] by simp
  then show ?thesis using a t(1) by (simp add: set_responsive_def s1_def)
qed (auto simp: set_responsive_def split: option.split)

lemma handle_settle_keeps: "keeps mining_inv s (handle_settle T now info s)"
proof (cases "WorkerBindings s (si_pubkey info)")
  case None
  then show ?thesis by (simp add: handle_settle_def try_handle_settle_def)
next
  case (Some m)
  show ?thesis
  proof (cases "Miners s m")
    case None
    then show ?thesis using Some
      by (simp add: handle_settle_def try_handle_settle_def
          mining_inv_deposit)
  next
    case (Some mi)
    define mi' where "mi' = stats_on_reward (Fx T) (si_payout info)
        (mi\<lparr>mi_v := si_v info, v_updated_at := now\<rparr>)"
    have st: "mi_state mi' = mi_state mi" by (simp add: mi'_def stats_on_reward_def)
    have "mining_inv (s\<lparr>Miners := (Miners s)(m \<mapsto> mi')\<rparr>)" if inv: "mining_inv s"
      by (rule mining_inv_set [OF inv Some, where info' = mi'])
        (use st mining_invD(5,6) [OF inv Some] in simp_all)
    moreover have "mining_part s' = mining_part (s\<lparr>Miners := (Miners s)(m \<mapsto> mi')\<rparr>)"
      if "left_state (handle_settle T now info s) = Some s'" for s'
      using that Some \<open>WorkerBindings s (si_pubkey info) = Some m\<close>
      by (auto simp: handle_settle_def try_handle_settle_def Let_def mi'_def [symmetric]
          withdraw_imbalance_from_subsidy_pool_def mining_deposit_def mining_part_def
          split: sum.splits prod.splits)
    ultimately show ?thesis using mining_inv_cong unfolding keeps_def by blast
  qed
qed

lemma on_gk_message_keeps: "keeps mining_inv s (on_gk_message_received T sender ev s)"
proof -
  have r: "keeps mining_inv t (on_reward_hook T xs t)" for t xs
  proof (cases "on_reward_hook T xs t = Panic")
    case False
    then obtain u where "on_reward_hook T xs t = Ok () u" "mining_part u = mining_part t"
      using reward_hook by blast
    then show ?thesis by (simp add: mining_inv_cong [of u t])
  qed simp
  show ?thesis unfolding on_gk_message_received_def Let_def
    by (auto simp: worker_offline_def worker_recovered_def is_mining_def
        intro!: keeps_andthen keeps_for_each set_responsive_keeps handle_settle_keeps r)
qed

lemma update_tokenomic_parameters_keeps: "keeps mining_inv s (update_tokenomic_parameters T tk s)"
  by (simp add: update_tokenomic_parameters_def mining_push_Ok)

lemma push_heartbeat_keeps: "keeps mining_inv s (push_heartbeat_challenge T seed target s)"
  by (simp add: push_heartbeat_challenge_def mining_push_Ok)

lemma mining_on_finalize_keeps: "keeps mining_inv s (mining_on_finalize T n s)"
proof -
  have h: "keeps mining_inv s (heartbeat_challenge T s)" for s
    by (simp add: heartbeat_challenge_def push_heartbeat_keeps Let_def split: option.split)
  have u: "keeps mining_inv s (apply_tokenomic_update T s)" for s
    using update_tokenomic_parameters_keeps [of "s\<lparr>ScheduledTokenomicUpdate := None\<rparr>"]
    by (simp add: apply_tokenomic_update_def keeps_def split: option.split)
  have t: "keeps mining_inv s (trigger_subsidy_halving T s)" for s
    using update_tokenomic_parameters_keeps [of "mining_deposit SubsidyBudgetHalved s"]
    by (simp add: trigger_subsidy_halving_def Let_def keeps_def split: option.split)
  have a: "keeps mining_inv s (apply_subsidy T n s)" for s
    using t [of s] by (auto simp: apply_subsidy_def Let_def split: option.split outcome.split)
  show ?thesis unfolding mining_on_finalize_def by (intro keeps_andthen h u a)
qed

end

section \<open>Operations as steps, reachability\<close>

datatype mining_op =
    Bind account_id worker_key
  | Unbind account_id bool
  | Start account_id u128
  | Stop account_id
  | Reclaim account_id
  | UnbindCall origin account_id
  | ForceStart origin account_id u128
  | ForceStop origin account_id
  | ForceHeartbeat origin
  | SetCoolDown origin u64
  | UpdateTokenomic origin tokenomic_params
  | MinerReport message_origin mining_report_event
  | GatekeeperReport message_origin mining_info_update_event
  | Finalize block_num
  | Tick u64

fun mining_exec :: "'b phala_config \<Rightarrow> mining_op \<Rightarrow> 'b chain \<Rightarrow> ('b, unit) result" where
  "mining_exec T (Bind m w) s = mining_bind m w s"
| "mining_exec T (Unbind m notify) s = unbind_miner T m notify s"
| "mining_exec T (Start m stake) s = start_mining T m stake s"
| "mining_exec T (Stop m) s = stop_mining T m s"
| "mining_exec T (Reclaim m) s = andthen (reclaim T m s) (\<lambda>_ s. Ok () s)"
| "mining_exec T (UnbindCall orig m) s = mining_unbind T orig m s"
| "mining_exec T (ForceStart orig m stake) s = force_start_mining T orig m stake s"
| "mining_exec T (ForceStop orig m) s = force_stop_mining T orig m s"
| "mining_exec T (ForceHeartbeat orig) s = force_heartbeat T orig s"
| "mining_exec T (SetCoolDown orig period) s = set_cool_down_expiration orig period s"
| "mining_exec T (UpdateTokenomic orig tk) s = update_tokenomic T orig tk s"
| "mining_exec T (MinerReport sender ev) s = on_mining_message_received sender ev s"
| "mining_exec T (GatekeeperReport sender ev) s = on_gk_message_received T sender ev s"
| "mining_exec T (Finalize n) s = mining_on_finalize T n s"
| "mining_exec T (Tick t) s = Ok () (s\<lparr>now_millis := t\<rparr>)"

inductive mining_reaches :: "'b phala_config \<Rightarrow> 'b chain \<Rightarrow> 'b chain \<Rightarrow> bool" for T where
  reach_start: "mining_reaches T s s"
| reach_step: "mining_reaches T s t \<Longrightarrow> left_state (mining_exec T op t) = Some u \<Longrightarrow>
    mining_reaches T s u"

context mining_host
begin

lemma mining_exec_keeps: "keeps mining_inv s (mining_exec T op s)"
proof (cases op)
  case (Reclaim m)
  then show ?thesis using reclaim_keeps [of s T m] by (auto intro: keeps_andthen)
next
  case (UnbindCall orig m)
  then show ?thesis using unbind_miner_keeps [of s m True]
    by (simp add: mining_unbind_def split: option.split)
qed (simp_all add: mining_bind_keeps unbind_miner_keeps start_mining_keeps stop_mining_keeps
      set_cool_down_expiration_def update_tokenomic_def force_start_mining_def
      force_stop_mining_def force_heartbeat_def push_heartbeat_keeps
      on_mining_message_keeps on_gk_message_keeps mining_on_finalize_keeps)

lemma mining_reaches_keeps: "mining_reaches T s t \<Longrightarrow> mining_inv s \<Longrightarrow> mining_inv t"
proof (induction rule: mining_reaches.induct)
  case (reach_step s t op u)
  then show ?case using keepsD [OF mining_exec_keeps] by metis
qed

end

section \<open>The life cycle of a miner\<close>

inductive life_step :: "miner_state \<Rightarrow> miner_state \<Rightarrow> bool" where
  stays: "life_step a a"
| starts: "life_step Ready MiningIdle"
| toggles: "is_mining a \<Longrightarrow> is_mining b \<Longrightarrow> life_step a b"
| stops: "can_settle a \<Longrightarrow> life_step a MiningCoolingDown"
| is_reclaimed: "life_step MiningCoolingDown Ready"

inductive_cases life_step_from_cooling: "life_step MiningCoolingDown b"
inductive_cases life_step_from_ready: "life_step Ready b"

text \<open>
  What an operation does to the miners: it keeps each of them, and takes its record from \<open>a\<close> to
  some \<open>b\<close> related by \<open>R\<close>.
\<close>

definition miners_move :: "(account_id \<Rightarrow> miner_info \<Rightarrow> miner_info \<Rightarrow> bool) \<Rightarrow> 'b chain \<Rightarrow> 'b chain \<Rightarrow> bool" where
  "miners_move R s s' \<longleftrightarrow>
     (\<forall>m a. Miners s m = Some a \<longrightarrow> (\<exists>b. Miners s' m = Some b \<and> R m a b))"

definition idles :: "account_id \<Rightarrow> miner_info \<Rightarrow> miner_info \<Rightarrow> bool" where
  "idles m a b \<longleftrightarrow> mi_state b = mi_state a \<or> is_mining (mi_state a) \<and> is_mining (mi_state b)"

lemma miners_move_same: "Miners s' = Miners s \<Longrightarrow> (\<And>m a. R m a a) \<Longrightarrow> miners_move R s s'"
  by (simp add: miners_move_def)

lemma idles_refl [simp]: "idles m a a"
  by (simp add: idles_def)

lemma idles_trans: "miners_move idles s t \<Longrightarrow> miners_move idles t u \<Longrightarrow> miners_move idles s u"
  unfolding miners_move_def idles_def by metis

lemma miners_move_one:
  assumes "Miners s m = Some a" "Miners s' = (Miners s)(m \<mapsto> b)" "R m a b" "\<And>x c. x \<noteq> m \<Longrightarrow> R x c c"
  shows "miners_move R s s'"
  using assms by (auto simp: miners_move_def)

text \<open>The records of the operations that may change the state of a miner.\<close>

definition op_moves :: "mining_op \<Rightarrow> 'b chain \<Rightarrow> account_id \<Rightarrow> miner_info \<Rightarrow> miner_info \<Rightarrow> bool" where
  "op_moves op s m a b \<longleftrightarrow> life_step (mi_state a) (mi_state b) \<and>
     (mi_state a = MiningCoolingDown \<and> mi_state b \<noteq> MiningCoolingDown \<longrightarrow>
        op = Reclaim m \<and> CoolDownPeriod s \<le> now_sec s - cool_down_start a)"

lemma op_moves_refl [simp]: "op_moves op s m a a"
  by (simp add: op_moves_def life_step.intros)

lemma op_moves_idles:
  assumes "miners_move idles s s'"
  shows "miners_move (op_moves op s0) s s'"
proof -
  have "op_moves op s0 m a b" if "idles m a b" for m a b
  proof (cases "mi_state b = mi_state a")
    case True
    then show ?thesis by (simp add: op_moves_def life_step.intros)
  next
    case False
    then have "is_mining (mi_state a)" "is_mining (mi_state b)" using that by (auto simp: idles_def)
    then show ?thesis by (auto simp: op_moves_def is_mining_def intro: life_step.intros)
  qed
  then show ?thesis using assms unfolding miners_move_def by blast
qed

context mining_host
begin

lemma set_responsive_idles:
  assumes "is_mining st"
  shows "steps (miners_move idles) s (set_responsive T st ev we w s)"
proof (cases "\<exists>m info. WorkerBindings s w = Some m \<and> Miners s m = Some info \<and> is_mining (mi_state info)")
  case True
  then obtain m info where a: "WorkerBindings s w = Some m" "Miners s m = Some info"
    "is_mining (mi_state info)" by blast
  define s1 where "s1 = mining_deposit (ev m) (s\<lparr>Miners := (Miners s)(m \<mapsto> info\<lparr>mi_state := st\<rparr>)\<rparr>)"
  obtain t where t: "push_worker_event T w we s1 = Ok () t" "mining_part t = mining_part s1"
    using push_worker_event_Ok by blast
  have "miners_move idles s t"
    by (rule miners_move_one [OF a(2), where b = "info\<lparr>mi_state := st\<rparr>"])
      (use mining_partD(1) [OF t(2)] a(3) assms in \<open>simp_all add: s1_def mining_deposit_def idles_def\<close>)
  then show ?thesis using a t(1) by (simp add: set_responsive_def s1_def)
qed (auto simp: set_responsive_def miners_move_same split: option.split)

lemma handle_settle_idles: "steps (miners_move idles) s (handle_settle T now info s)"
proof (cases "\<exists>m mi. WorkerBindings s (si_pubkey info) = Some m \<and> Miners s m = Some mi")
  case True
  then obtain m mi where a: "WorkerBindings s (si_pubkey info) = Some m" "Miners s m = Some mi" by blast
  define mi' where "mi' = stats_on_reward (Fx T) (si_payout info)
      (mi\<lparr>mi_v := si_v info, v_updated_at := now\<rparr>)"
  have "Miners s' = (Miners s)(m \<mapsto> mi')" if "left_state (handle_settle T now info s) = Some s'" for s'
    using that a
    by (auto simp: handle_settle_def try_handle_settle_def Let_def mi'_def [symmetric]
        withdraw_imbalance_from_subsidy_pool_def mining_deposit_def split: sum.splits prod.splits)
  moreover have "idles m mi mi'" by (simp add: idles_def mi'_def stats_on_reward_def)
  ultimately show ?thesis unfolding steps_def using miners_move_one [OF a(2)] idles_refl by blast
qed (auto simp: handle_settle_def try_handle_settle_def mining_deposit_def miners_move_same
      split: option.split)

lemma on_gk_message_idles: "steps (miners_move idles) s (on_gk_message_received T sender ev s)"
proof -
  have r: "steps (miners_move idles) t (on_reward_hook T xs t)" for t xs
  proof (cases "on_reward_hook T xs t = Panic")
    case False
    then obtain u where "on_reward_hook T xs t = Ok () u" and u: "mining_part u = mining_part t"
      using reward_hook by blast
    then show ?thesis by (simp add: miners_move_same mining_partD(1) [OF u])
  qed simp
  have same: "miners_move idles t t" for t :: "'a chain" by (simp add: miners_move_same)
  have each: "steps (miners_move idles) t (for_each f xs t)"
    if "\<And>x t. steps (miners_move idles) t (f x t)" for f and xs :: "'y list" and t :: "'a chain"
    by (rule steps_for_each [where R = "miners_move idles", OF same idles_trans that])
  have "steps (miners_move idles) s
    (andthen (for_each (worker_offline T) (offline ev) s)
     (\<lambda>_ t. andthen (for_each (worker_recovered T) (recovered_to_online ev) t)
     (\<lambda>_ t. andthen (for_each (handle_settle T (now_sec s)) (settle ev) t)
     (\<lambda>_ t. on_reward_hook T (settle ev) t))))"
    unfolding worker_offline_def worker_recovered_def
    by (intro steps_andthen [where R = "miners_move idles", OF idles_trans] each set_responsive_idles handle_settle_idles r)
      (simp_all add: is_mining_def)
  then show ?thesis by (simp add: on_gk_message_received_def Let_def same)
qed

lemma left_unbound_hook:
  "left_state (on_unbound_hook T w f t) = Some u \<Longrightarrow> Miners u = Miners t"
  using unbound_hook [of w f t] by (auto dest: mining_partD(1))

lemma unbind_miner_Miners:
  assumes "left_state (unbind_miner T m notify s) = Some s'"
  shows "Miners s' = Miners s \<or> (\<exists>t. left_state (stop_mining T m s) = Some t \<and> Miners s' = Miners t)"
proof (cases "\<exists>w info. MinerBindings s m = Some w \<and> Miners s m = Some info")
  case True
  then obtain w info where w: "MinerBindings s m = Some w" "Miners s m = Some info" by blast
  define f where "f = (\<not> can_unbind (mi_state info))"
  have M: "Miners (mining_deposit e (t\<lparr>MinerBindings := x, WorkerBindings := y\<rparr>)) = Miners t"
    for e x y and t :: "'a chain" by (simp add: mining_deposit_def)
  show ?thesis
  proof (cases f)
    case False
    then show ?thesis using assms w
      by (auto simp: unbind_miner_def ensure_miner_bound_def f_def Let_def M dest!: left_unbound_hook
          split: if_splits)
  next
    case True
    then show ?thesis using assms w
      by (cases "stop_mining T m s")
        (auto simp: unbind_miner_def ensure_miner_bound_def f_def Let_def M dest!: left_unbound_hook
          split: if_splits)
  qed
next
  case False
  then have "s' = s" using assms
    by (auto simp: unbind_miner_def ensure_miner_bound_def split: option.splits)
  then show ?thesis by simp
qed

lemma stop_mining_moves: "steps (miners_move (op_moves op s0)) s (stop_mining T m s)"
proof (cases rule: stop_mining_cases [of m s])
  case (ok s' worker info)
  have "miners_move (op_moves op s0) s s'"
    by (rule miners_move_one [OF ok(3),
          where b = "info\<lparr>mi_state := MiningCoolingDown, cool_down_start := now_sec s\<rparr>"])
      (use ok(4,5) in \<open>auto simp: mining_part_def op_moves_def intro: life_step.intros\<close>)
  then show ?thesis using ok(1) by simp
qed (simp_all add: miners_move_same)

lemma start_mining_moves: "steps (miners_move (op_moves op s0)) s (start_mining T m stake s)"
proof (cases rule: start_mining_cases [of m stake s])
  case (ok s' worker info info')
  have "miners_move (op_moves op s0) s s'"
    by (rule miners_move_one [OF ok(3), where b = info'])
      (use ok(4,6,7) in \<open>auto simp: mining_part_def op_moves_def intro: life_step.intros\<close>)
  then show ?thesis using ok(1) by simp
qed (simp_all add: miners_move_same)

lemma unbind_miner_moves: "steps (miners_move (op_moves op s0)) s (unbind_miner T m notify s)"
  unfolding steps_def
proof (intro allI impI)
  fix s' assume l: "left_state (unbind_miner T m notify s) = Some s'"
  from unbind_miner_Miners [OF l] show "miners_move (op_moves op s0) s s'"
    using stop_mining_moves [of op s0 s m]
    by (auto simp: steps_def miners_move_same) (auto simp: miners_move_def)
qed

lemma mining_bind_moves: "steps (miners_move (op_moves op s0)) s (mining_bind m w s)"
proof (cases "mining_bind m w s")
  case (Ok u s')
  then have ready: "\<And>i. Miners s m = Some i \<Longrightarrow> mi_state i = Ready"
    and s': "Miners s' = (Miners s)(m \<mapsto> fresh_miner (now_sec s))"
    by (auto simp: mining_bind_def mining_deposit_def split: option.splits if_splits)
  have "op_moves op s0 m i (fresh_miner n)" if "mi_state i = Ready" for i n
    using that by (auto simp: op_moves_def fresh_miner_def intro: life_step.intros)
  then show ?thesis using ready s' Ok by (auto simp: miners_move_def)
next
  case (Err e s')
  then have "s' = s" by (auto simp: mining_bind_def split: option.splits if_splits)
  then show ?thesis by (simp add: Err miners_move_same)
qed simp

lemma reclaim_moves:
  "steps (miners_move (op_moves (Reclaim m) s)) s (andthen (reclaim T m s) (\<lambda>_ s. Ok () s))"
proof (cases "reclaim T m s")
  case (Ok r s')
  then obtain info e where m: "Miners s m = Some info" and cd: "mi_state info = MiningCoolingDown"
    "now_sec s - cool_down_start info \<ge> CoolDownPeriod s"
    and s': "Miners s' = (Miners s)(m \<mapsto> info\<lparr>mi_state := Ready, cool_down_start := 0\<rparr>)"
    by (rule reclaim_OkE) (auto simp: mining_deposit_def)
  have "miners_move (op_moves (Reclaim m) s) s s'"
    by (rule miners_move_one [OF m s']) (use cd in \<open>auto simp: op_moves_def intro: life_step.intros\<close>)
  then show ?thesis by (simp add: Ok)
next
  case (Err e s')
  then show ?thesis using reclaim_Err [OF Err] by (simp add: miners_move_same)
qed simp

lemma on_mining_message_idles:
  "steps (miners_move idles) s (on_mining_message_received sender ev s)"
proof (cases "on_mining_message_received sender ev s")
  case (Ok u s')
  then have "s' = s \<or> (\<exists>m info b. Miners s m = Some info \<and>
      s' = s\<lparr>Miners := (Miners s)(m \<mapsto> info\<lparr>mi_benchmark := b\<rparr>)\<rparr>)"
    by (auto simp: on_mining_message_received_def
        split: message_origin.splits mining_report_event.splits option.splits)
  then have "miners_move idles s s'" by (auto simp: miners_move_def idles_def)
  then show ?thesis by (simp add: Ok)
qed (auto simp: on_mining_message_received_def miners_move_same
      split: message_origin.splits mining_report_event.splits option.splits)

lemma mining_on_finalize_Miners:
  "left_state (mining_on_finalize T n s) = Some s' \<Longrightarrow> Miners s' = Miners s"
proof -
  let ?R = "\<lambda>s t :: 'a chain. Miners t = Miners s"
  have u: "steps ?R s (update_tokenomic_parameters T tk s)" for s tk
    by (simp add: update_tokenomic_parameters_def mining_push_Ok mining_deposit_def)
  have h: "steps ?R s (heartbeat_challenge T s)" for s
    by (simp add: heartbeat_challenge_def push_heartbeat_challenge_def mining_push_Ok Let_def
        split: option.split)
  have a: "steps ?R s (apply_tokenomic_update T s)" for s
    using u [of "s\<lparr>ScheduledTokenomicUpdate := None\<rparr>"]
    by (simp add: apply_tokenomic_update_def steps_def split: option.split)
  have t: "steps ?R s (trigger_subsidy_halving T s)" for s
    using u [of "mining_deposit SubsidyBudgetHalved s"]
    by (simp add: trigger_subsidy_halving_def Let_def steps_def mining_deposit_def split: option.split)
  have b: "steps ?R s (apply_subsidy T n s)" for s
    using t [of s]
    by (auto simp: apply_subsidy_def Let_def mining_deposit_def split: option.split outcome.split)
  have "steps ?R s (mining_on_finalize T n s)"
    unfolding mining_on_finalize_def by (intro steps_andthen h a b) simp_all
  then show "left_state (mining_on_finalize T n s) = Some s' \<Longrightarrow> Miners s' = Miners s"
    by (simp add: steps_def)
qed

lemma mining_exec_moves: "steps (miners_move (op_moves op s)) s (mining_exec T op s)"
proof -
  have idle: "steps (miners_move (op_moves op s)) s r" if "steps (miners_move idles) s r" for r :: "('a, unit) result"
    using that op_moves_idles unfolding steps_def by blast
  show ?thesis
  proof (cases op)
    case (Finalize n)
    then show ?thesis by (simp add: steps_def mining_on_finalize_Miners miners_move_same)
  next
    case (MinerReport sender ev)
    then show ?thesis using idle [OF on_mining_message_idles] by simp
  next
    case (GatekeeperReport sender ev)
    then show ?thesis using idle [OF on_gk_message_idles] by simp
  next
    case (UnbindCall orig m)
    then show ?thesis
      by (simp add: mining_unbind_def miners_move_same unbind_miner_moves split: option.split)
  qed (simp_all add: mining_bind_moves unbind_miner_moves start_mining_moves stop_mining_moves
      reclaim_moves force_start_mining_def force_stop_mining_def force_heartbeat_def
      push_heartbeat_challenge_def mining_push_Ok set_cool_down_expiration_def update_tokenomic_def
      miners_move_same mining_deposit_def)
qed

end

end
