(* ===== verification/Stakepool.thy ===== *)
theory Stakepool
  imports Mining
begin

text \<open>
  The stake pool pallet, \<open>src/pallets/phala/src/stakepool.rs\<close>: the calls, the withdraw queue, the
  ledger of locked stake and the callbacks the mining pallet notifies.

  The source passes the pool and the user as mutable references; here a function returns them
  next to the storage. The loop that serves the withdraw queue may run forever (a price above
  the free stake makes it spin), so it is a partial function: \<open>None\<close> is a call that does not
  return, and the calls that use the queue are partial for the same reason.
\<close>

section \<open>Accounts and records\<close>

definition pool_sub_account :: "'b phala_config \<Rightarrow> pool_id \<Rightarrow> worker_key \<Rightarrow> account_id" where
  "pool_sub_account T pid pubkey =
     dec_sub_account T (ascii ''spm/'' @ blake2_256 T (enc_pid_key T pid pubkey))"

definition new_pool :: "pool_id \<Rightarrow> account_id \<Rightarrow> pool_info" where
  "new_pool pid owner =
     \<lparr>p_pid = pid, p_owner = owner, payout_commission = None, owner_reward = 0, p_cap = None,
      reward_acc = fp_0, total_shares = 0, total_stake = 0, free_stake = 0, releasing_stake = 0,
      p_workers = [], withdraw_queue = []\<rparr>"

definition new_staker :: "account_id \<Rightarrow> user_stake_info" where
  "new_staker who =
     \<lparr>u_user = who, u_locked = 0, u_shares = 0, available_rewards = 0, reward_debt = 0\<rparr>"

definition put_pool :: "pool_id \<Rightarrow> pool_info \<Rightarrow> 'b chain \<Rightarrow> 'b chain" where
  "put_pool pid p s = s\<lparr>StakePools := (StakePools s)(pid \<mapsto> p)\<rparr>"

definition put_staker :: "pool_id \<Rightarrow> account_id \<Rightarrow> user_stake_info \<Rightarrow> 'b chain \<Rightarrow> 'b chain" where
  "put_staker pid who u s = s\<lparr>PoolStakers := (PoolStakers s)((pid, who) \<mapsto> u)\<rparr>"

section \<open>The ledger\<close>

definition update_lock :: "'b phala_config \<Rightarrow> account_id \<Rightarrow> u128 \<Rightarrow> 'b chain \<Rightarrow> 'b chain" where
  "update_lock T who amount s =
     (if amount = 0 then s\<lparr>bank := remove_lock (Cur T) who (bank s)\<rparr>
      else s\<lparr>bank := set_lock (Cur T) who amount (bank s)\<rparr>)"

definition remove_dust :: "'b phala_config \<Rightarrow> account_id \<Rightarrow> u128 \<Rightarrow> 'b chain \<Rightarrow> 'b chain" where
  "remove_dust T who dust s =
     (if dust \<noteq> 0 then
        let (removed, b) = slash (Cur T) who dust (bank s)
        in stakepool_deposit (DustRemoved who removed) (s\<lparr>bank := on_slashed T removed b\<rparr>)
      else s)"

definition ledger_query :: "account_id \<Rightarrow> 'b chain \<Rightarrow> u128" where
  "ledger_query who s = (case StakeLedger s who of Some b \<Rightarrow> b | None \<Rightarrow> 0)"

definition ledger_accrue :: "'b phala_config \<Rightarrow> account_id \<Rightarrow> u128 \<Rightarrow> 'b chain \<Rightarrow> 'b chain" where
  "ledger_accrue T who amount s =
     (let new_b = saturating_add (ledger_query who s) amount
      in update_lock T who new_b (s\<lparr>StakeLedger := (StakeLedger s)(who \<mapsto> new_b)\<rparr>))"

definition ledger_reduce :: "'b phala_config \<Rightarrow> account_id \<Rightarrow> u128 \<Rightarrow> u128 \<Rightarrow> 'b chain \<Rightarrow>
    'b chain" where
  "ledger_reduce T who amount dust s =
     (let to_remove = amount + dust;
          new_b = saturating_sub (ledger_query who s) to_remove;
          s = update_lock T who new_b (s\<lparr>StakeLedger := (StakeLedger s)(who \<mapsto> new_b)\<rparr>)
      in if dust \<noteq> 0 then remove_dust T who dust s else s)"

section \<open>Slashes and withdrawals\<close>

definition maybe_settle_slash :: "'b phala_config \<Rightarrow> pool_info \<Rightarrow> user_stake_info \<Rightarrow> 'b chain \<Rightarrow>
    user_stake_info \<times> 'b chain" where
  "maybe_settle_slash T p u s =
     (case Stake_Pool_Info.settle_slash (Fx T) p u of
        None \<Rightarrow> (u, s)
      | Some (slashed, u') \<Rightarrow>
          if is_nondust_balance slashed then
            let (removed, b) = slash (Cur T) (u_user u) slashed (bank s);
                s = ledger_reduce T (u_user u) removed 0 (s\<lparr>bank := on_slashed T removed b\<rparr>)
            in (u', stakepool_deposit (SlashSettled (p_pid p) (u_user u) removed) s)
          else (u', s))"

definition maybe_add_withdraw_queue :: "u64 \<Rightarrow> pool_id \<Rightarrow> 'b chain \<Rightarrow> 'b chain" where
  "maybe_add_withdraw_queue start_time pid s =
     (let t = WithdrawalTimestamps s;
          t = (if t = [] then [start_time]
               else if last t < start_time then t @ [start_time] else t);
          s = s\<lparr>WithdrawalTimestamps := t\<rparr>
      in case WithdrawalQueuedPools s start_time of
           Some pool_list \<Rightarrow>
             (if pid \<notin> set pool_list
              then s\<lparr>WithdrawalQueuedPools :=
                       (WithdrawalQueuedPools s)(start_time \<mapsto> pool_list @ [pid])\<rparr>
              else s)
         | None \<Rightarrow> s\<lparr>WithdrawalQueuedPools := (WithdrawalQueuedPools s)(start_time \<mapsto> [pid])\<rparr>)"

text \<open>
  The two halves of \<open>try_withdraw\<close>: what can be paid at once, and the queueing of the rest.
\<close>

definition withdraw_now :: "'b phala_config \<Rightarrow> pool_info \<Rightarrow> user_stake_info \<Rightarrow> u128 \<Rightarrow> 'b chain \<Rightarrow>
    ('b, pool_info \<times> user_stake_info) result" where
  "withdraw_now T p u withdrawing_shares s =
     (if withdrawing_shares > 0 then
        let (u, s) = maybe_settle_slash T p u s
        in case remove_stake (Fx T) withdrawing_shares p u of
             None \<Rightarrow> Panic
           | Some ((reduced, dust), p', u') \<Rightarrow>
               Ok (p', u') (stakepool_deposit (Withdrawal (p_pid p') (u_user u') reduced)
                 (ledger_reduce T (u_user u') reduced dust s))
      else Ok (p, u) s)"

definition queue_withdrawal :: "pool_info \<Rightarrow> user_stake_info \<Rightarrow> u128 \<Rightarrow> 'b chain \<Rightarrow>
    pool_info \<times> 'b chain" where
  "queue_withdrawal p u queued_shares s =
     (if queued_shares > 0 then
        let now = now_sec s;
            q = filter (\<lambda>w. w_user w \<noteq> u_user u) (withdraw_queue p) @
                [\<lparr>w_user = u_user u, w_shares = queued_shares, w_start_time = now\<rparr>];
            p = p\<lparr>withdraw_queue := q\<rparr>;
            s = maybe_add_withdraw_queue now (p_pid p) s
        in (p, stakepool_deposit (WithdrawalQueued (p_pid p) (u_user u) queued_shares) s)
      else (p, s))"

definition try_withdraw :: "'b phala_config \<Rightarrow> pool_info \<Rightarrow> user_stake_info \<Rightarrow> u128 \<Rightarrow> 'b chain \<Rightarrow>
    ('b, pool_info \<times> user_stake_info) result" where
  "try_withdraw T p u shares s =
     (let u = settle_user_pending_reward (Fx T) p u in
      case (case share_price (Fx T) p of
              Some price \<Rightarrow> (if price \<noteq> fp_0 then bdiv (Fx T) (free_stake p) price else Some shares)
            | None \<Rightarrow> Some shares) of
        None \<Rightarrow> Panic
      | Some free_shares \<Rightarrow>
          let withdrawing_shares = fst (extract_dust (min shares free_shares));
              queued_shares = fst (extract_dust (shares - withdrawing_shares))
          in andthen (withdraw_now T p u withdrawing_shares s)
               (\<lambda>(p, u) s.
                  let (p, s) = queue_withdrawal p u queued_shares s
                  in Ok (p, reset_pending_reward (Fx T) p u) s))"

text \<open>
  One round of the loop of \<open>try_process_withdraw_queue\<close> on the request at the front; \<open>price\<close> is
  computed before the loop.
\<close>

definition serve_front :: "'b phala_config \<Rightarrow> u64f64 \<Rightarrow> withdraw_info \<Rightarrow> withdraw_info list \<Rightarrow>
    pool_info \<Rightarrow> 'b chain \<Rightarrow> ('b, pool_info) result" where
  "serve_front T price withdraw rest p s =
     (case PoolStakers s (p_pid p, w_user withdraw) of
        None \<Rightarrow> Ok (p\<lparr>withdraw_queue := rest\<rparr>) s
      | Some u \<Rightarrow>
          let u = settle_user_pending_reward (Fx T) p u in
          case (if price = fp_0 then Some (w_shares withdraw)
                else bdiv (Fx T) (free_stake p) price) of
            None \<Rightarrow> Panic
          | Some free_shares \<Rightarrow>
              let withdrawing_shares = min free_shares (w_shares withdraw);
                  (u, s) = maybe_settle_slash T p u s
              in case remove_stake (Fx T) withdrawing_shares p u of
                   None \<Rightarrow> Panic
                 | Some ((reduced, dust), p, u) \<Rightarrow>
                     let left = fst (extract_dust (w_shares withdraw - withdrawing_shares));
                         s = ledger_reduce T (u_user u) reduced dust s;
                         s = stakepool_deposit (Withdrawal (p_pid p) (u_user u) reduced) s;
                         u = reset_pending_reward (Fx T) p u;
                         s = put_staker (p_pid p) (w_user withdraw) u s
                     in Ok (if left = 0 then p\<lparr>withdraw_queue := rest\<rparr>
                            else p\<lparr>withdraw_queue := withdraw\<lparr>w_shares := left\<rparr> # rest\<rparr>) s)"

partial_function (option) serve_queue :: "'b phala_config \<Rightarrow> u64f64 \<Rightarrow> pool_info \<Rightarrow> 'b chain \<Rightarrow>
    ('b, pool_info) result option" where
  "serve_queue T price p s =
     (if is_nondust_balance (free_stake p) then
        (case withdraw_queue p of
           [] \<Rightarrow> Some (Ok p s)
         | withdraw # rest \<Rightarrow>
             (case serve_front T price withdraw rest p s of
                Ok p s \<Rightarrow> serve_queue T price p s
              | Err e s \<Rightarrow> Some (Err e s)
              | Panic \<Rightarrow> Some Panic))
      else Some (Ok p s))"

definition try_process_withdraw_queue :: "'b phala_config \<Rightarrow> pool_info \<Rightarrow> 'b chain \<Rightarrow>
    ('b, pool_info) result option" where
  "try_process_withdraw_queue T p s =
     (case share_price (Fx T) p of None \<Rightarrow> Some (Ok p s) | Some price \<Rightarrow> serve_queue T price p s)"

section \<open>Rewards, reclaims and the end of a block\<close>

definition handle_pool_new_reward :: "'b phala_config \<Rightarrow> pool_info \<Rightarrow> u128 \<Rightarrow> 'b chain \<Rightarrow>
    ('b, pool_info) result" where
  "handle_pool_new_reward T p rewards s =
     (if rewards > 0 then
        if balance_close_to_zero (total_shares p)
        then Ok p (stakepool_deposit (RewardDismissedNoShare (p_pid p) rewards) s)
        else
          let commission = permill_mul T (case payout_commission p of Some c \<Rightarrow> c | None \<Rightarrow> 0) rewards;
              p = p\<lparr>owner_reward := saturating_add (owner_reward p) commission\<rparr>;
              to_distribute = rewards - commission
          in if is_nondust_balance to_distribute
             then (case distribute_reward (Fx T) to_distribute p of
                     None \<Rightarrow> Panic | Some p' \<Rightarrow> Ok p' s)
             else if to_distribute > 0
             then Ok p (stakepool_deposit (RewardDismissedDust (p_pid p) to_distribute) s)
             else Ok p s
      else Ok p s)"

definition credit_reclaimed :: "pool_id \<Rightarrow> u128 \<Rightarrow> u128 \<Rightarrow> pool_info \<Rightarrow> 'b chain \<Rightarrow>
    pool_info \<times> 'b chain" where
  "credit_reclaimed pid orig_stake slashed p s =
     (let returned = orig_stake - slashed;
          (p, s) = (if slashed \<noteq> 0
                    then (slash_pool slashed p, stakepool_deposit (PoolSlashed pid slashed) s)
                    else (p, s))
      in (p\<lparr>free_stake := saturating_add (free_stake p) returned,
            releasing_stake := saturating_sub (releasing_stake p) returned\<rparr>, s))"

definition handle_reclaim :: "'b phala_config \<Rightarrow> pool_id \<Rightarrow> u128 \<Rightarrow> u128 \<Rightarrow> 'b chain \<Rightarrow>
    ('b, unit) result option" where
  "handle_reclaim T pid orig_stake slashed s =
     (case StakePools s pid of None \<Rightarrow> Some Panic | Some p \<Rightarrow>
      let (p, s) = credit_reclaimed pid orig_stake slashed p s
      in map_option (\<lambda>r. andthen r (\<lambda>p s. Ok () (put_pool pid p s)))
           (try_process_withdraw_queue T p s))"

definition remove_worker_from_pool :: "worker_key \<Rightarrow> 'b chain \<Rightarrow> ('b, unit) result" where
  "remove_worker_from_pool worker s =
     (case WorkerAssignments s worker of None \<Rightarrow> Panic | Some pid \<Rightarrow>
      let s = s\<lparr>WorkerAssignments := (WorkerAssignments s)(worker := None)\<rparr>
      in case StakePools s pid of None \<Rightarrow> Ok () s
         | Some p \<Rightarrow> Ok () (stakepool_deposit (PoolWorkerRemoved pid worker)
             (put_pool pid (pool_remove_worker worker p) s)))"

text \<open>\<open>let _ = stop_mining(..)\<close>: an error is dropped, what it left of the storage stays.\<close>

definition stop_ignoring :: "'b phala_config \<Rightarrow> account_id \<Rightarrow> 'b chain \<Rightarrow> ('b, unit) result" where
  "stop_ignoring T miner s =
     (case left_state (stop_mining T miner s) of None \<Rightarrow> Panic | Some s' \<Rightarrow> Ok () s')"

definition force_shutdown :: "'b phala_config \<Rightarrow> u64 \<Rightarrow> pool_id \<Rightarrow> 'b chain \<Rightarrow>
    ('b, unit) result" where
  "force_shutdown T now pid s =
     (case StakePools s pid of None \<Rightarrow> Panic | Some p \<Rightarrow>
      if has_expired_withdrawal (Fx T) now (GracePeriod T) p
      then for_each (\<lambda>worker. stop_ignoring T (pool_sub_account T pid worker)) (p_workers p) s
      else Ok () s)"

fun force_expired :: "'b phala_config \<Rightarrow> u64 \<Rightarrow> u64 list \<Rightarrow> 'b chain \<Rightarrow> ('b, u64 list) result" where
  "force_expired T now [] s = Ok [] s"
| "force_expired T now (start_time # t) s =
     (if now - start_time \<le> GracePeriod T then Ok (start_time # t) s
      else case WithdrawalQueuedPools s start_time of None \<Rightarrow> Panic | Some pools \<Rightarrow>
        andthen (for_each (force_shutdown T now) pools
                   (s\<lparr>WithdrawalQueuedPools := (WithdrawalQueuedPools s)(start_time := None)\<rparr>))
          (\<lambda>_. force_expired T now t))"

definition maybe_force_withdraw :: "'b phala_config \<Rightarrow> u64 \<Rightarrow> 'b chain \<Rightarrow> ('b, unit) result" where
  "maybe_force_withdraw T now s =
     (if WithdrawalTimestamps s = [] then Ok () s
      else andthen (force_expired T now (WithdrawalTimestamps s) s)
             (\<lambda>t s. Ok () (s\<lparr>WithdrawalTimestamps := t\<rparr>)))"

definition stakepool_on_finalize :: "'b phala_config \<Rightarrow> 'b chain \<Rightarrow> ('b, unit) result" where
  "stakepool_on_finalize T s = maybe_force_withdraw T (now_sec s) s"

section \<open>Callbacks of the mining pallet\<close>

text \<open>A reward for a worker in no pool ends the loop: the source has \<open>return\<close> there.\<close>

fun on_reward :: "'b phala_config \<Rightarrow> settle_info list \<Rightarrow> 'b chain \<Rightarrow> ('b, unit) result" where
  "on_reward T [] s = Ok () s"
| "on_reward T (info # rest) s =
     (let reward = balance_from_fixed (Fx T) (si_payout info) in
      case WorkerAssignments s (si_pubkey info) of
        None \<Rightarrow> Ok () (stakepool_deposit (RewardDismissedNotInPool (si_pubkey info) reward) s)
      | Some pid \<Rightarrow>
          (case StakePools s pid of None \<Rightarrow> Panic | Some p \<Rightarrow>
           andthen (handle_pool_new_reward T p reward s)
             (\<lambda>p s. on_reward T rest (put_pool pid p s))))"

definition on_unbound :: "worker_key \<Rightarrow> bool \<Rightarrow> 'b chain \<Rightarrow> ('b, unit) result" where
  "on_unbound worker force s = remove_worker_from_pool worker s"

definition on_stopped :: "worker_key \<Rightarrow> u128 \<Rightarrow> u128 \<Rightarrow> 'b chain \<Rightarrow> ('b, unit) result" where
  "on_stopped worker orig_stake slashed s =
     (case WorkerAssignments s worker of None \<Rightarrow> Panic | Some pid \<Rightarrow>
      case StakePools s pid of None \<Rightarrow> Panic | Some p \<Rightarrow>
      let returned = orig_stake - slashed
      in Ok () (put_pool pid (p\<lparr>releasing_stake := saturating_add (releasing_stake p) returned\<rparr>) s))"

section \<open>Dispatchable calls\<close>

definition create_pool :: "origin \<Rightarrow> 'b chain \<Rightarrow> ('b, unit) result" where
  "create_pool orig s =
     (case ensure_signed orig of None \<Rightarrow> Err BadOrigin s | Some owner \<Rightarrow>
      let pid = PoolCount s;
          s = put_pool pid (new_pool pid owner) s
      in Ok () (stakepool_deposit (PoolCreated owner pid) (s\<lparr>PoolCount := pid + 1\<rparr>)))"

definition add_worker :: "'b phala_config \<Rightarrow> origin \<Rightarrow> pool_id \<Rightarrow> worker_key \<Rightarrow> 'b chain \<Rightarrow>
    ('b, unit) result" where
  "add_worker T orig pid pubkey s =
     (case ensure_signed orig of None \<Rightarrow> Err BadOrigin s | Some owner \<Rightarrow>
      case Workers s pubkey of None \<Rightarrow> Err (stakepool_err WorkerNotRegistered) s | Some w \<Rightarrow>
      if operator w \<noteq> Some owner then Err (stakepool_err UnauthorizedOperator) s
      else if initial_score w = None then Err (stakepool_err BenchmarkMissing) s
      else case StakePools s pid of None \<Rightarrow> Err (stakepool_err PoolDoesNotExist) s | Some p \<Rightarrow>
      if p_owner p \<noteq> owner then Err (stakepool_err UnauthorizedPoolOwner) s
      else if pubkey \<in> set (p_workers p) then Err (stakepool_err WorkerExists) s
      else if \<not> length (p_workers p) + 1 \<le> unat (MaxPoolWorkers T)
      then Err (stakepool_err WorkersExceedLimit) s
      else let miner = pool_sub_account T pid pubkey in
        andthen (map_err (\<lambda>_. stakepool_err FailedToBindMinerAndWorker)
                   (mining_bind miner pubkey s))
          (\<lambda>_ s. let s = put_pool pid (p\<lparr>p_workers := p_workers p @ [pubkey]\<rparr>) s;
                     s = s\<lparr>WorkerAssignments := (WorkerAssignments s)(pubkey \<mapsto> pid)\<rparr>
                 in Ok () (stakepool_deposit (PoolWorkerAdded pid pubkey) s)))"

definition remove_worker :: "'b phala_config \<Rightarrow> origin \<Rightarrow> pool_id \<Rightarrow> worker_key \<Rightarrow> 'b chain \<Rightarrow>
    ('b, unit) result" where
  "remove_worker T orig pid worker s =
     (case ensure_signed orig of None \<Rightarrow> Err BadOrigin s | Some who \<Rightarrow>
      case StakePools s pid of None \<Rightarrow> Err (stakepool_err PoolDoesNotExist) s | Some p \<Rightarrow>
      if p_owner p \<noteq> who then Err (stakepool_err UnauthorizedPoolOwner) s
      else case WorkerAssignments s worker of
        None \<Rightarrow> Err (stakepool_err WorkerDoesNotExist) s
      | Some lookup_pid \<Rightarrow>
          if pid \<noteq> lookup_pid then Err (stakepool_err WorkerInAnotherPool) s
          else andthen (unbind_miner T (pool_sub_account T pid worker) False s)
                 (\<lambda>_. remove_worker_from_pool worker))"

definition set_cap :: "origin \<Rightarrow> pool_id \<Rightarrow> u128 \<Rightarrow> 'b chain \<Rightarrow> ('b, unit) result" where
  "set_cap orig pid cap s =
     (case ensure_signed orig of None \<Rightarrow> Err BadOrigin s | Some owner \<Rightarrow>
      case StakePools s pid of None \<Rightarrow> Err (stakepool_err PoolDoesNotExist) s | Some p \<Rightarrow>
      if p_owner p \<noteq> owner then Err (stakepool_err UnauthorizedPoolOwner) s
      else if \<not> total_stake p \<le> cap then Err (stakepool_err InadequateCapacity) s
      else Ok () (stakepool_deposit (PoolCapacitySet pid cap)
                    (put_pool pid (p\<lparr>p_cap := Some cap\<rparr>) s)))"

definition set_payout_pref :: "origin \<Rightarrow> pool_id \<Rightarrow> u32 \<Rightarrow> 'b chain \<Rightarrow> ('b, unit) result" where
  "set_payout_pref orig pid commission s =
     (case ensure_signed orig of None \<Rightarrow> Err BadOrigin s | Some owner \<Rightarrow>
      case StakePools s pid of None \<Rightarrow> Err (stakepool_err PoolDoesNotExist) s | Some p \<Rightarrow>
      if p_owner p \<noteq> owner then Err (stakepool_err UnauthorizedPoolOwner) s
      else Ok () (stakepool_deposit (PoolCommissionSet pid commission)
                    (put_pool pid (p\<lparr>payout_commission := Some commission\<rparr>) s)))"

text \<open>The owner's part and the staker's part of \<open>claim_rewards\<close>, before anything is stored.\<close>

definition collect_rewards :: "fixed_ops \<Rightarrow> account_id \<Rightarrow> pool_info \<Rightarrow> user_stake_info option \<Rightarrow>
    u128 \<times> pool_info \<times> user_stake_info option" where
  "collect_rewards F who p user =
     (let (rewards, p) = (if who = p_owner p then (owner_reward p, p\<lparr>owner_reward := 0\<rparr>) else (0, p))
      in case user of
           None \<Rightarrow> (rewards, p, None)
         | Some u \<Rightarrow>
             let u = settle_user_pending_reward F p u
             in (rewards + available_rewards u, p, Some (u\<lparr>available_rewards := 0\<rparr>)))"

definition claim_rewards :: "'b phala_config \<Rightarrow> origin \<Rightarrow> pool_id \<Rightarrow> account_id \<Rightarrow> 'b chain \<Rightarrow>
    ('b, unit) result" where
  "claim_rewards T orig pid target s =
     (case ensure_signed orig of None \<Rightarrow> Err BadOrigin s | Some who \<Rightarrow>
      case StakePools s pid of None \<Rightarrow> Err (stakepool_err PoolDoesNotExist) s | Some p \<Rightarrow>
      let (rewards, p, user) = collect_rewards (Fx T) who p (PoolStakers s (pid, who)) in
      if \<not> rewards > 0 then Err (stakepool_err NoRewardToClaim) s
      else andthen (map_err (\<lambda>_. stakepool_err InternalSubsidyPoolCannotWithdraw)
                      (withdraw_subsidy_pool T target rewards s))
        (\<lambda>_ s. let s = put_pool pid p s;
                   s = (case user of Some u \<Rightarrow> put_staker pid who u s | None \<Rightarrow> s)
               in Ok () (stakepool_deposit (RewardsWithdrawn pid who rewards) s)))"

definition contribute :: "'b phala_config \<Rightarrow> origin \<Rightarrow> pool_id \<Rightarrow> u128 \<Rightarrow> 'b chain \<Rightarrow>
    ('b, unit) result option" where
  "contribute T orig pid a s =
     (case ensure_signed orig of None \<Rightarrow> Some (Err BadOrigin s) | Some who \<Rightarrow>
      if a < MinContribution T then Some (Err (stakepool_err InsufficientContribution) s)
      else if free_balance (Cur T) who (bank s) - ledger_query who s < a
      then Some (Err (stakepool_err InsufficientBalance) s)
      else case StakePools s pid of
        None \<Rightarrow> Some (Err (stakepool_err PoolDoesNotExist) s)
      | Some p \<Rightarrow>
      if (case p_cap p of Some cap \<Rightarrow> saturating_sub cap (total_stake p) < a | None \<Rightarrow> False)
      then Some (Err (stakepool_err StakeExceedsCapacity) s)
      else if \<not> (total_shares p = 0 \<or> total_stake p > 0)
      then Some (Err (stakepool_err PoolBankrupt) s)
      else
        let (u, s) = (case PoolStakers s (pid, who) of
              Some u \<Rightarrow> maybe_settle_slash T p (settle_user_pending_reward (Fx T) p u) s
            | None \<Rightarrow> (new_staker who, s))
        in case add_stake (Fx T) a p u of
             None \<Rightarrow> Some Panic
           | Some (p, u) \<Rightarrow>
               let s = ledger_accrue T who a (put_staker pid who u s)
               in map_option (\<lambda>r. andthen r (\<lambda>p s.
                    Ok () (stakepool_deposit (Contribution pid who a) (put_pool pid p s))))
                  (try_process_withdraw_queue T p s))"

definition withdraw :: "'b phala_config \<Rightarrow> origin \<Rightarrow> pool_id \<Rightarrow> u128 \<Rightarrow> 'b chain \<Rightarrow>
    ('b, unit) result" where
  "withdraw T orig pid shares s =
     (case ensure_signed orig of None \<Rightarrow> Err BadOrigin s | Some who \<Rightarrow>
      case PoolStakers s (pid, who) of None \<Rightarrow> Err (stakepool_err PoolStakeNotFound) s | Some u \<Rightarrow>
      if \<not> (is_nondust_balance shares \<and> shares \<le> u_shares u)
      then Err (stakepool_err InvalidWithdrawalAmount) s
      else case StakePools s pid of None \<Rightarrow> Err (stakepool_err PoolDoesNotExist) s | Some p \<Rightarrow>
        andthen (try_withdraw T p u shares s)
          (\<lambda>(p, u) s. Ok () (put_pool pid p (put_staker pid who u s))))"

definition pool_start_mining :: "'b phala_config \<Rightarrow> origin \<Rightarrow> pool_id \<Rightarrow> worker_key \<Rightarrow> u128 \<Rightarrow>
    'b chain \<Rightarrow> ('b, unit) result" where
  "pool_start_mining T orig pid worker stake s =
     (case ensure_signed orig of None \<Rightarrow> Err BadOrigin s | Some owner \<Rightarrow>
      if \<not> MiningEnabled s then Err (stakepool_err FeatureNotEnabled) s
      else case StakePools s pid of None \<Rightarrow> Err (stakepool_err PoolDoesNotExist) s | Some p \<Rightarrow>
      if p_owner p \<noteq> owner then Err (stakepool_err UnauthorizedPoolOwner) s
      else if free_stake p < stake then Err (stakepool_err InsufficientFreeStake) s
      else if worker \<notin> set (p_workers p) then Err (stakepool_err WorkerDoesNotExist) s
      else let miner = pool_sub_account T pid worker in
        andthen (start_mining T miner stake s)
          (\<lambda>_ s. let s = put_pool pid (p\<lparr>free_stake := free_stake p - stake\<rparr>) s
                 in Ok () (s\<lparr>SubAccountPreimages := (SubAccountPreimages s)(miner \<mapsto> (pid, worker))\<rparr>)))"

definition pool_stop_mining :: "'b phala_config \<Rightarrow> origin \<Rightarrow> pool_id \<Rightarrow> worker_key \<Rightarrow> 'b chain \<Rightarrow>
    ('b, unit) result" where
  "pool_stop_mining T orig pid worker s =
     (case ensure_signed orig of None \<Rightarrow> Err BadOrigin s | Some owner \<Rightarrow>
      if \<not> MiningEnabled s then Err (stakepool_err FeatureNotEnabled) s
      else case StakePools s pid of None \<Rightarrow> Err (stakepool_err PoolDoesNotExist) s | Some p \<Rightarrow>
      if p_owner p \<noteq> owner then Err (stakepool_err UnauthorizedPoolOwner) s
      else if worker \<notin> set (p_workers p) then Err (stakepool_err WorkerDoesNotExist) s
      else stop_mining T (pool_sub_account T pid worker) s)"

definition reclaim_pool_worker :: "'b phala_config \<Rightarrow> origin \<Rightarrow> pool_id \<Rightarrow> worker_key \<Rightarrow>
    'b chain \<Rightarrow> ('b, unit) result option" where
  "reclaim_pool_worker T orig pid worker s =
     (case ensure_signed orig of None \<Rightarrow> Some (Err BadOrigin s) | Some _ \<Rightarrow>
      case StakePools s pid of None \<Rightarrow> Some (Err (stakepool_err PoolDoesNotExist) s) | Some _ \<Rightarrow>
      let sub_account = pool_sub_account T pid worker in
      case reclaim T sub_account s of
        Err e s \<Rightarrow> Some (Err e s)
      | Panic \<Rightarrow> Some Panic
      | Ok (orig_stake, slashed) s \<Rightarrow>
          map_option (\<lambda>r. andthen r (\<lambda>_ s.
              Ok () (s\<lparr>SubAccountPreimages := (SubAccountPreimages s)(sub_account := None)\<rparr>)))
            (handle_reclaim T pid orig_stake slashed s))"

definition set_mining_enable :: "'b phala_config \<Rightarrow> origin \<Rightarrow> bool \<Rightarrow> 'b chain \<Rightarrow>
    ('b, unit) result" where
  "set_mining_enable T orig enable s =
     (if \<not> mining_switch_origin T orig then Err BadOrigin s
      else Ok () (s\<lparr>MiningEnabled := enable\<rparr>))"

definition reconcile_withdraw_queue :: "origin \<Rightarrow> pool_id \<Rightarrow> account_id \<Rightarrow> 'b chain \<Rightarrow>
    ('b, unit) result" where
  "reconcile_withdraw_queue orig pid account s =
     (case ensure_signed orig of None \<Rightarrow> Err BadOrigin s | Some _ \<Rightarrow>
      case StakePools s pid of None \<Rightarrow> Err (stakepool_err PoolDoesNotExist) s | Some p \<Rightarrow>
      case PoolStakers s (pid, account) of None \<Rightarrow> Err (stakepool_err PoolStakeNotFound) s
      | Some u \<Rightarrow>
      let available_shares = fst (extract_dust (u_shares u)); q = withdraw_queue p in
      case find_index (\<lambda>req. w_user req = account \<and> w_shares req > available_shares) q of
        None \<Rightarrow> Ok () s
      | Some idx \<Rightarrow>
          let q' = (if available_shares = 0 then remove_at idx q
                    else q[idx := (q ! idx)\<lparr>w_shares := available_shares\<rparr>])
          in Ok () (put_pool pid (p\<lparr>withdraw_queue := q'\<rparr>) s))"

section \<open>The hooks of the runtime\<close>

text \<open>The runtimes set \<open>OnReward\<close>, \<open>OnUnbound\<close> and \<open>OnStopped\<close> to this pallet.\<close>

definition with_stakepool :: "'b phala_config \<Rightarrow> 'b phala_config" where
  "with_stakepool T = T\<lparr>on_reward_hook := on_reward T, on_unbound_hook := on_unbound,
                        on_stopped_hook := on_stopped\<rparr>"

end
