(* ===== verification/Phala_Runtime.thy ===== *)
theory Phala_Runtime
  imports Mining_Props Stakepool
begin

text \<open>
  The Phala pallets wired together as in the runtimes (\<open>src/runtime/khala/src/lib.rs\<close> and
  \<open>msg_routing.rs\<close>): the stake pool is the mining pallet's subscriber, and the messages on the
  three on-chain topics go to the handlers of the registry and of the mining pallet.
\<close>

section \<open>Message routing\<close>

record codec =
  dec_registry_event :: "bytes \<Rightarrow> registry_event option"
  dec_mining_update :: "bytes \<Rightarrow> mining_info_update_event option"
  dec_mining_report :: "bytes \<Rightarrow> mining_report_event option"

definition try_dispatch :: "topic \<Rightarrow> (bytes \<Rightarrow> 'p option) \<Rightarrow>
    (message_origin \<Rightarrow> 'p \<Rightarrow> 'b chain \<Rightarrow> ('b, unit) result) \<Rightarrow> message \<Rightarrow> 'b chain \<Rightarrow>
    ('b, unit) result" where
  "try_dispatch topic decode func m s =
     (if m_destination m = topic then
        case decode (m_payload m) of
          None \<Rightarrow> Err (Other ''MessageCodecError'') s
        | Some payload \<Rightarrow> func (m_sender m) payload s
      else Ok () s)"

definition route_message :: "codec \<Rightarrow> 'b phala_config \<Rightarrow> message \<Rightarrow> 'b chain \<Rightarrow> ('b, unit) result" where
  "route_message C T m s =
     andthen (try_dispatch registry_event_topic (dec_registry_event C) (registry_on_message T) m s)
     (\<lambda>_ s. andthen
        (try_dispatch mining_update_topic (dec_mining_update C) (on_gk_message_received T) m s)
     (\<lambda>_ s. try_dispatch mining_report_topic (dec_mining_report C) on_mining_message_received m s))"

text \<open>
  The handlers push messages themselves, so the configuration of the runtime is recursive. Their
  messages go to topics without a handler: the inner configuration routes nothing, and
  \<open>runtime_routes\<close> shows that this is the recursive one.
\<close>

definition quiet :: "'b phala_config \<Rightarrow> 'b phala_config" where
  "quiet T = (with_stakepool T)\<lparr>on_message_received := \<lambda>m s. Ok () s,
                               should_push_message := default_should_push\<rparr>"

definition runtime :: "codec \<Rightarrow> 'b phala_config \<Rightarrow> 'b phala_config" where
  "runtime C T = (quiet T)\<lparr>on_message_received := route_message C (quiet T)\<rparr>"

lemma topics_distinct [simp]:
  "t \<in> offchain_topics \<Longrightarrow> t \<noteq> registry_event_topic"
  "t \<in> offchain_topics \<Longrightarrow> t \<noteq> mining_update_topic"
  "t \<in> offchain_topics \<Longrightarrow> t \<noteq> mining_report_topic"
proof -
  have "registry_event_topic \<notin> offchain_topics \<and> mining_update_topic \<notin> offchain_topics \<and>
      mining_report_topic \<notin> offchain_topics" by code_simp
  then show "t \<in> offchain_topics \<Longrightarrow> t \<noteq> registry_event_topic"
    "t \<in> offchain_topics \<Longrightarrow> t \<noteq> mining_update_topic"
    "t \<in> offchain_topics \<Longrightarrow> t \<noteq> mining_report_topic" by auto
qed

lemma route_unrouted: "m_destination m \<in> offchain_topics \<Longrightarrow> route_message C T m s = Ok () s"
  by (simp add: route_message_def try_dispatch_def)

lemma runtime_simps [simp]:
  "on_message_received (runtime C T) = route_message C (quiet T)"
  "should_push_message (runtime C T) = default_should_push"
  "on_reward_hook (runtime C T) = on_reward T" "on_unbound_hook (runtime C T) = on_unbound"
  "on_stopped_hook (runtime C T) = on_stopped"
  by (simp_all add: runtime_def quiet_def with_stakepool_def)

section \<open>The stake pool as a subscriber\<close>

lemma put_pool_frame [simp]: "mining_part (put_pool pid p s) = mining_part s"
  by (simp add: mining_part_def put_pool_def)

lemma stakepool_deposit_frame [simp]: "mining_part (stakepool_deposit e s) = mining_part s"
  by (simp add: mining_part_def stakepool_deposit_def)

lemma on_stopped_frame:
  "on_stopped w st sl s = Panic \<or> (\<exists>t. on_stopped w st sl s = Ok () t \<and> mining_part t = mining_part s)"
  by (simp add: on_stopped_def Let_def split: option.split)

lemma on_unbound_frame:
  "on_unbound w f s = Panic \<or> (\<exists>t. on_unbound w f s = Ok () t \<and> mining_part t = mining_part s)"
  by (auto simp: on_unbound_def remove_worker_from_pool_def Let_def mining_part_def put_pool_def
      stakepool_deposit_def split: option.split)

lemma handle_pool_new_reward_frame:
  "handle_pool_new_reward T p r s = Panic \<or>
     (\<exists>p' t. handle_pool_new_reward T p r s = Ok p' t \<and> mining_part t = mining_part s)"
  by (simp add: handle_pool_new_reward_def Let_def split: option.split)

lemma on_reward_frame:
  "on_reward T xs s = Panic \<or> (\<exists>t. on_reward T xs s = Ok () t \<and> mining_part t = mining_part s)"
proof (induction xs arbitrary: s)
  case (Cons info xs)
  show ?case
  proof (cases "WorkerAssignments s (si_pubkey info)")
    case (Some pid)
    show ?thesis
    proof (cases "StakePools s pid")
      case (Some p)
      obtain p' t where "handle_pool_new_reward T p (balance_from_fixed (Fx T) (si_payout info)) s = Panic \<or>
          handle_pool_new_reward T p (balance_from_fixed (Fx T) (si_payout info)) s = Ok p' t \<and>
          mining_part t = mining_part s"
        using handle_pool_new_reward_frame by metis
      then show ?thesis
        using Cons [of "put_pool pid p' t"] Some \<open>WorkerAssignments s (si_pubkey info) = Some pid\<close>
        by auto
    qed (simp add: \<open>WorkerAssignments s (si_pubkey info) = Some pid\<close>)
  qed simp
qed simp

interpretation rt: mining_host "runtime C T" for C :: codec and T :: "'b phala_config"
  by unfold_locales
    (simp_all add: route_unrouted on_stopped_frame on_unbound_frame on_reward_frame)

interpretation qt: message_host "quiet T" for T :: "'b phala_config"
  by unfold_locales (simp add: quiet_def)

section \<open>The routing is the recursive one\<close>

lemma mining_push_quiet:
  "t \<in> offchain_topics \<Longrightarrow> mining_push (quiet T) t pl s = mining_push (runtime C T) t pl s"
  by (simp add: rt.mining_push_Ok qt.mining_push_Ok rt.outbox_def qt.outbox_def)
    (simp add: runtime_def quiet_def with_stakepool_def)

lemma registry_push_quiet:
  "t \<in> offchain_topics \<Longrightarrow> registry_push (quiet T) t pl s = registry_push (runtime C T) t pl s"
  by (simp add: rt.registry_push_Ok qt.registry_push_Ok rt.outbox_def qt.outbox_def)
    (simp add: runtime_def quiet_def with_stakepool_def)

lemma quiet_fields [simp]:
  "Fx (quiet T) = Fx T" "Cur (quiet T) = Cur T" "mining_wallet (quiet T) = mining_wallet T"
  "on_treasury_settled (quiet T) = on_treasury_settled T"
  "on_reward_hook (quiet T) = on_reward T"
  "enc_system_event (quiet T) = enc_system_event T"
  "enc_gatekeeper_launch (quiet T) = enc_gatekeeper_launch T"
  by (simp_all add: quiet_def with_stakepool_def)

lemma runtime_fields [simp]:
  "Fx (runtime C T) = Fx T" "Cur (runtime C T) = Cur T" "mining_wallet (runtime C T) = mining_wallet T"
  "on_treasury_settled (runtime C T) = on_treasury_settled T"
  "enc_system_event (runtime C T) = enc_system_event T"
  "enc_gatekeeper_launch (runtime C T) = enc_gatekeeper_launch T"
  "permill_mul (runtime C T) = permill_mul T" "GracePeriod (runtime C T) = GracePeriod T"
  "enc_pid_key (runtime C T) = enc_pid_key T" "blake2_256 (runtime C T) = blake2_256 T"
  "dec_sub_account (runtime C T) = dec_sub_account T" "on_slashed (runtime C T) = on_slashed T"
  by (simp_all add: runtime_def quiet_def with_stakepool_def)

lemma push_quiet:
  "push_worker_event (quiet T) = push_worker_event (runtime C T)"
  "push_system_event (quiet T) = push_system_event (runtime C T)"
  "registry_push (quiet T) gatekeeper_launch_topic = registry_push (runtime C T) gatekeeper_launch_topic"
  by (intro ext, simp add: push_worker_event_def push_system_event_def
      mining_push_quiet [where C = C] registry_push_quiet [where C = C])+

lemma handlers_quiet:
  "registry_on_message (quiet T) = registry_on_message (runtime C T)"
  "worker_offline (quiet T) = worker_offline (runtime C T)"
  "worker_recovered (quiet T) = worker_recovered (runtime C T)"
  "handle_settle (quiet T) = handle_settle (runtime C T)"
proof -
  note push = push_quiet [where C = C]
  show "registry_on_message (quiet T) = registry_on_message (runtime C T)"
    unfolding registry_on_message_def push quiet_fields runtime_fields ..
  show "worker_offline (quiet T) = worker_offline (runtime C T)"
    "worker_recovered (quiet T) = worker_recovered (runtime C T)"
    unfolding worker_offline_def worker_recovered_def set_responsive_def push by (rule refl)+
  show "handle_settle (quiet T) = handle_settle (runtime C T)"
    unfolding handle_settle_def try_handle_settle_def withdraw_imbalance_from_subsidy_pool_def
      quiet_fields runtime_fields ..
qed

lemma route_quiet: "route_message C (quiet T) = route_message C (runtime C T)"
proof -
  have "on_gk_message_received (quiet T) = on_gk_message_received (runtime C T)"
    unfolding on_gk_message_received_def handlers_quiet(2-4) [where C = C] quiet_fields
      runtime_simps ..
  then show ?thesis unfolding route_message_def handlers_quiet(1) [where C = C] by simp
qed

end
