(* ===== verification/Pool_Props.thy ===== *)
theory Pool_Props
  imports Stake_Pool_Info
begin

text \<open>
  Correctness of the methods of one pool: what the shares are worth, how much one distribution of
  rewards can pay out, and the books of adding and removing stake. The rounding of the fixed
  point conversions is bounded here once, in \<open>fixed_arith\<close>.
\<close>

section \<open>Rounding of a share times a rate\<close>

definition bits_of :: "nat \<Rightarrow> nat" where
  "bits_of n = n * 2 ^ 64 div 1000000000000"

lemma bits_of_mono: "m \<le> n \<Longrightarrow> bits_of m \<le> bits_of n"
  by (simp add: bits_of_def div_le_mono)

lemma bits_of_le: "bits_of n * 1000000000000 \<le> n * 2 ^ 64"
  unfolding bits_of_def by (rule div_times_less_eq_dividend)

lemma bits_of_lt: "n * 2 ^ 64 < bits_of n * 1000000000000 + 1000000000000"
  unfolding bits_of_def by (metis add.commute dividend_less_div_times zero_less_numeral)

lemma bits_of_add: "bits_of m + bits_of n \<le> bits_of (m + n)"
proof -
  have "(bits_of m + bits_of n) * 1000000000000 \<le> (m + n) * 2 ^ 64"
    using bits_of_le [of m] bits_of_le [of n] by (simp only: add_mult_distrib)
  also have "\<dots> < bits_of (m + n) * 1000000000000 + 1000000000000" by (rule bits_of_lt)
  finally show ?thesis by simp
qed

lemma bits_of_sum: "sum_list (map bits_of xs) \<le> bits_of (sum_list xs)"
proof (induction xs)
  case (Cons x xs)
  then show ?case using bits_of_add [of x "sum_list xs"] by simp
qed (simp add: bits_of_def)

text \<open>The value of \<open>s\<close> shares at the rate \<open>a\<close>, as \<open>bmul\<close> computes it without overflow.\<close>

definition value_of :: "nat \<Rightarrow> nat \<Rightarrow> nat" where
  "value_of s a = (bits_of s * a div 2 ^ 64) * 1000000000000 div 2 ^ 64"

lemma cancel_unit: "0 < P \<Longrightarrow> x * P * K \<le> s * P * a \<Longrightarrow> x * K \<le> s * (a :: nat)"
proof -
  assume "0 < P" "x * P * K \<le> s * P * a"
  then have "P * (x * K) \<le> P * (s * a)" by (simp only: ac_simps)
  then show ?thesis using \<open>0 < P\<close> by simp
qed

lemma two_divs_le: "(y div P * K div P) * (P * P) \<le> y * (K :: nat)"
proof -
  have "(y div P * K div P) * P * P \<le> y div P * K * P"
    by (intro mult_le_mono1) (rule div_times_less_eq_dividend)
  also have "\<dots> = y div P * P * K" by (simp only: ac_simps)
  also have "\<dots> \<le> y * K" by (intro mult_le_mono1) (rule div_times_less_eq_dividend)
  finally show ?thesis by (simp only: ac_simps)
qed

lemma value_of_le: "value_of s a * 2 ^ 128 \<le> bits_of s * a * 1000000000000"
  using two_divs_le [of "bits_of s * a" "2 ^ 64" 1000000000000] by (simp add: value_of_def)

lemma value_of_ge: "bits_of s * a * 1000000000000 \<le> value_of s a * 2 ^ 128 + 2 ^ 129"
proof -
  define x where "x = bits_of s * a div 2 ^ 64"
  have v: "value_of s a = x * 1000000000000 div 2 ^ 64" by (simp add: value_of_def x_def)
  have x: "bits_of s * a < x * 2 ^ 64 + 2 ^ 64" unfolding x_def
    by (metis add.commute dividend_less_div_times zero_less_numeral zero_less_power)
  have y: "x * 1000000000000 < value_of s a * 2 ^ 64 + 2 ^ 64" unfolding v
    by (metis add.commute dividend_less_div_times zero_less_numeral zero_less_power)
  have "bits_of s * a * 1000000000000 \<le> (x * 2 ^ 64 + 2 ^ 64) * 1000000000000"
    using x by (intro mult_le_mono1) simp
  then show ?thesis using y by (simp add: algebra_simps)
qed

lemma value_of_mono: "a \<le> b \<Longrightarrow> value_of s a \<le> value_of s b"
  unfolding value_of_def by (intro div_le_mono mult_le_mono1 mult_le_mono2)

lemma value_of_mono_share: "s \<le> t \<Longrightarrow> value_of s a \<le> value_of t a"
  unfolding value_of_def by (intro div_le_mono mult_le_mono1 bits_of_mono)

lemma value_of_times: "value_of s a * 2 ^ 64 \<le> s * a"
proof -
  have "value_of s a * 2 ^ 128 \<le> bits_of s * 1000000000000 * a"
    using value_of_le [of s a] by (simp only: ac_simps)
  also have "\<dots> \<le> s * 2 ^ 64 * a" by (rule mult_le_mono1) (rule bits_of_le)
  finally have "value_of s a * 2 ^ 64 * 2 ^ 64 \<le> s * 2 ^ 64 * a" by simp
  then show ?thesis by (rule cancel_unit [rotated]) simp
qed

context fixed_arith
begin

lemma to_fixed_bits: "unat n < 2 ^ 64 \<Longrightarrow> unat (balance_to_fixed F n) = bits_of (unat n)"
  by (simp add: to_fixed_unat bits_of_def)

lemma bmul_value:
  assumes s: "unat s < 2 ^ 64" and fit: "unat s * unat a < 2 ^ 128"
  shows "unat (bmul F s a) = value_of (unat s) (unat a)"
proof -
  define x where "x = bits_of (unat s) * unat a div 2 ^ 64"
  have "bits_of (unat s) * 1000000000000 * unat a \<le> unat s * 2 ^ 64 * unat a"
    by (rule mult_le_mono1) (rule bits_of_le)
  moreover have "x * 2 ^ 64 * 1000000000000 \<le> bits_of (unat s) * unat a * 1000000000000"
    unfolding x_def by (rule mult_le_mono1) (rule div_times_less_eq_dividend)
  moreover have "bits_of (unat s) * 1000000000000 * unat a = bits_of (unat s) * unat a * 1000000000000"
    by (simp only: ac_simps)
  ultimately have "x * 2 ^ 64 * 1000000000000 \<le> unat s * 2 ^ 64 * unat a" by linarith
  then have x: "x * 1000000000000 \<le> unat s * unat a" by (rule cancel_unit [rotated]) simp
  then have xs: "x < 2 ^ 128" "x * 1000000000000 \<le> 2 ^ 128 - 1" using fit by auto
  have "unat (fx_mul F (balance_to_fixed F s) a) = x"
    using mul [of "balance_to_fixed F s" a] xs(1) by (simp only: to_fixed_bits [OF s] x_def)
  then show ?thesis
    using xs(2) by (simp only: bmul_def from_fixed_unat value_of_def x_def min.absorb1)
qed

end

section \<open>Shares and rewards of all the stakers together\<close>

lemma sum_value_le:
  assumes "sum_list ss \<le> S" "bits_of S * q \<le> bits_of v * 2 ^ 64"
  shows "(\<Sum>s\<leftarrow>ss. value_of s q) \<le> v"
proof -
  have "(\<Sum>s\<leftarrow>ss. value_of s q) * 2 ^ 128 \<le> sum_list (map bits_of ss) * q * 1000000000000"
  proof (induction ss)
    case (Cons s ss)
    then show ?case using value_of_le [of s q] by (simp add: algebra_simps)
  qed simp
  also have "\<dots> \<le> bits_of S * q * 1000000000000"
    using bits_of_sum [of ss] bits_of_mono [OF assms(1)] by (intro mult_le_mono1) linarith
  also have "\<dots> \<le> bits_of v * 2 ^ 64 * 1000000000000" by (rule mult_le_mono1) (rule assms(2))
  also have "\<dots> \<le> v * 2 ^ 64 * 2 ^ 64"
    using bits_of_le [of v] by (simp add: ac_simps)
  finally show ?thesis by simp
qed

lemma sum_gain_le:
  assumes "sum_list ss \<le> S" "bits_of S * d \<le> bits_of v * 2 ^ 64"
  shows "(\<Sum>s\<leftarrow>ss. value_of s (a + d) - value_of s a) \<le> v + 2 * length ss"
proof -
  have one: "(value_of s (a + d) - value_of s a) * 2 ^ 128 \<le> bits_of s * d * 1000000000000 + 2 ^ 129" for s
  proof -
    have "value_of s (a + d) * 2 ^ 128 \<le> bits_of s * a * 1000000000000 + bits_of s * d * 1000000000000"
      using value_of_le [of s "a + d"] by (simp add: algebra_simps)
    moreover have "(value_of s (a + d) - value_of s a) * 2 ^ 128 =
        value_of s (a + d) * 2 ^ 128 - value_of s a * 2 ^ 128" by (rule diff_mult_distrib)
    ultimately show ?thesis using value_of_ge [of s a] by linarith
  qed
  have "(\<Sum>s\<leftarrow>ss. value_of s (a + d) - value_of s a) * 2 ^ 128
      \<le> sum_list (map bits_of ss) * d * 1000000000000 + length ss * 2 ^ 129"
  proof (induction ss)
    case (Cons s ss)
    then show ?case using one [of s] by (simp add: algebra_simps)
  qed simp
  also have "sum_list (map bits_of ss) * d * 1000000000000 \<le> bits_of S * d * 1000000000000"
    using bits_of_sum [of ss] bits_of_mono [OF assms(1)] by (intro mult_le_mono1) linarith
  also have "bits_of S * d * 1000000000000 \<le> bits_of v * 2 ^ 64 * 1000000000000"
    by (rule mult_le_mono1) (rule assms(2))
  also have "bits_of v * 2 ^ 64 * 1000000000000 \<le> v * 2 ^ 64 * 2 ^ 64"
    using bits_of_le [of v] by (simp add: ac_simps)
  finally have "(\<Sum>s\<leftarrow>ss. value_of s (a + d) - value_of s a) * 2 ^ 128 \<le> (v + 2 * length ss) * 2 ^ 128"
    by (simp add: algebra_simps)
  then show ?thesis by simp
qed

context fixed_arith
begin

lemma share_price_bits:
  assumes "share_price F p = Some price" "unat (total_shares p) < 2 ^ 64" "unat (total_stake p) < 2 ^ 64"
  shows "unat price = bits_of (unat (total_stake p)) * 2 ^ 64 div bits_of (unat (total_shares p))"
proof -
  have "\<not> 2 ^ 128 \<le> bits_of (unat (total_stake p)) * 2 ^ 64 div bits_of (unat (total_shares p))"
    and "price = of_nat (bits_of (unat (total_stake p)) * 2 ^ 64 div bits_of (unat (total_shares p)))"
    using assms(1) by (auto simp: share_price_def checked_div to_fixed_bits [OF assms(2)]
        to_fixed_bits [OF assms(3)] split: if_splits)
  then show ?thesis by (simp only: unat_of_nat_128 not_le)
qed

text \<open>The stakers' shares are never worth more than the stake of the pool.\<close>

lemma shares_backed:
  assumes price: "share_price F p = Some price"
    and small: "unat (total_shares p) < 2 ^ 64" "unat (total_stake p) < 2 ^ 64"
    and fit: "unat (total_shares p) * unat price < 2 ^ 128"
    and sum: "(\<Sum>u\<leftarrow>us. unat (u_shares u)) \<le> unat (total_shares p)"
  shows "(\<Sum>u\<leftarrow>us. unat (bmul F (u_shares u) price)) \<le> unat (total_stake p)"
proof -
  have val: "unat (bmul F (u_shares u) price) = value_of (unat (u_shares u)) (unat price)"
    if "u \<in> set us" for u
  proof (rule bmul_value)
    have le: "unat (u_shares u) \<le> unat (total_shares p)"
      using that sum member_le_sum_list [of "unat (u_shares u)" "map (\<lambda>u. unat (u_shares u)) us"] by auto
    then show "unat (u_shares u) < 2 ^ 64" using small by linarith
    show "unat (u_shares u) * unat price < 2 ^ 128"
      using mult_le_mono1 [OF le, of "unat price"] fit by linarith
  qed
  have "bits_of (unat (total_shares p)) * unat price \<le> bits_of (unat (total_stake p)) * 2 ^ 64"
    unfolding share_price_bits [OF price small] by (rule times_div_less_eq_dividend)
  then have "(\<Sum>s\<leftarrow>map (\<lambda>u. unat (u_shares u)) us. value_of s (unat price)) \<le> unat (total_stake p)"
    by (intro sum_value_le) (use sum in auto)
  moreover have "(\<Sum>u\<leftarrow>us. unat (bmul F (u_shares u) price)) =
      (\<Sum>u\<leftarrow>us. value_of (unat (u_shares u)) (unat price))"
    by (rule arg_cong [of _ _ sum_list]) (rule map_cong [OF refl val])
  ultimately show ?thesis by (simp add: comp_def)
qed

lemma distribute_reward_acc:
  assumes dist: "distribute_reward F v p = Some p'"
    and small: "unat (total_shares p) < 2 ^ 64" "unat v < 2 ^ 64" "unat (reward_acc p) < 2 ^ 127"
  obtains d where "unat (reward_acc p') = unat (reward_acc p) + d" "p' = p\<lparr>reward_acc := reward_acc p'\<rparr>"
    "bits_of (unat (total_shares p)) * d \<le> bits_of (unat v) * 2 ^ 64"
proof -
  let ?T = "bits_of (unat (total_shares p))" and ?V = "bits_of (unat v)"
  from dist obtain z where nd: "is_nondust_balance (total_shares p)"
    and z: "fx_div F (balance_to_fixed F v) (balance_to_fixed F (total_shares p)) = Some z"
    and p': "p' = p\<lparr>reward_acc := fx_add F (reward_acc p) z\<rparr>"
    by (auto simp: distribute_reward_def distribute_def split: if_splits)
  have T: "2 ^ 34 \<le> ?T"
  proof -
    have "1001 \<le> unat (total_shares p)"
      using nd by (simp add: is_nondust_balance_def balance_close_to_zero_def word_le_nat_alt)
    then have "bits_of 1001 \<le> ?T" by (rule bits_of_mono)
    then show ?thesis by (simp add: bits_of_def)
  qed
  have V: "?V < 2 ^ 89"
  proof -
    have "?V * 1000000000000 < 2 ^ 64 * 2 ^ 64" using bits_of_le [of "unat v"] small(2) by simp
    then show ?thesis by simp
  qed
  have "?V * 2 ^ 64 div ?T \<le> ?V * 2 ^ 64 div 2 ^ 34" using T by (intro div_le_mono2) simp_all
  also have "\<dots> < 2 ^ 127" using V by simp
  finally have q: "?V * 2 ^ 64 div ?T < 2 ^ 127" .
  have zn: "unat z = ?V * 2 ^ 64 div ?T"
    using div [OF z] q by (simp add: to_fixed_bits [OF small(1)] to_fixed_bits [OF small(2)])
  have "unat (fx_add F (reward_acc p) z) = unat (reward_acc p) + unat z"
    by (rule add) (use q zn small(3) in simp)
  then show thesis using that [of "unat z"] p' zn by (simp add: times_div_less_eq_dividend)
qed

text \<open>
  One distribution of \<open>v\<close> among settled stakers: what they can claim adds up to \<open>v\<close> and at most
  two pico of rounding for each of them.
\<close>

lemma distribution_solvent:
  assumes dist: "distribute_reward F v p = Some p'"
    and small: "unat (total_shares p) < 2 ^ 64" "unat v < 2 ^ 64" "unat (reward_acc p) < 2 ^ 127"
    and fit: "unat (total_shares p) * unat (reward_acc p') < 2 ^ 128"
    and sum: "(\<Sum>u\<leftarrow>us. unat (u_shares u)) \<le> unat (total_shares p)"
  shows "(\<Sum>u\<leftarrow>us. unat (pending_reward F p' (reset_pending_reward F p u))) \<le> unat v + 2 * length us"
proof -
  obtain d where acc: "unat (reward_acc p') = unat (reward_acc p) + d"
    and d: "bits_of (unat (total_shares p)) * d \<le> bits_of (unat v) * 2 ^ 64"
    by (rule distribute_reward_acc [OF dist small])
  have val: "unat (pending_reward F p' (reset_pending_reward F p u)) =
      value_of (unat (u_shares u)) (unat (reward_acc p) + d) - value_of (unat (u_shares u)) (unat (reward_acc p))"
    if "u \<in> set us" for u
  proof -
    have le: "unat (u_shares u) \<le> unat (total_shares p)"
      using that sum member_le_sum_list [of "unat (u_shares u)" "map (\<lambda>u. unat (u_shares u)) us"] by auto
    have s: "unat (u_shares u) < 2 ^ 64" using le small by linarith
    have f': "unat (u_shares u) * unat (reward_acc p') < 2 ^ 128"
      using mult_le_mono1 [OF le, of "unat (reward_acc p')"] fit by linarith
    have f: "unat (u_shares u) * unat (reward_acc p) < 2 ^ 128"
      using mult_le_mono2 [of "unat (reward_acc p)" "unat (reward_acc p')" "unat (u_shares u)"] acc f'
      by linarith
    have "bmul F (u_shares u) (reward_acc p) \<le> bmul F (u_shares u) (reward_acc p')"
      by (simp add: word_le_nat_alt bmul_value [OF s f] bmul_value [OF s f'] value_of_mono acc)
    then show ?thesis
      by (simp add: pending_reward_def reset_pending_reward_def pending_def clear_pending_def
          unat_minus_le bmul_value [OF s f] bmul_value [OF s f'] acc)
  qed
  have "(\<Sum>s\<leftarrow>map (\<lambda>u. unat (u_shares u)) us. value_of s (unat (reward_acc p) + d)
      - value_of s (unat (reward_acc p))) \<le> unat v + 2 * length us"
    using sum_gain_le [OF _ d, of "map (\<lambda>u. unat (u_shares u)) us"] sum by simp
  moreover have "(\<Sum>u\<leftarrow>us. unat (pending_reward F p' (reset_pending_reward F p u))) =
      (\<Sum>u\<leftarrow>us. value_of (unat (u_shares u)) (unat (reward_acc p) + d)
        - value_of (unat (u_shares u)) (unat (reward_acc p)))"
    by (rule arg_cong [of _ _ sum_list]) (rule map_cong [OF refl val])
  ultimately show ?thesis by (simp add: comp_def)
qed

end

section \<open>Books of adding and removing stake\<close>

lemma remove_stake_SomeE:
  assumes "remove_stake F shares p u = Some ((amount, dust), p', u')"
  obtains shares_dust where
    "amount \<le> free_stake p" "amount \<le> u_locked u"
    "unat (u_locked u) = unat (u_locked u') + unat amount + unat dust" "unat dust \<le> 1000"
    "unat (u_shares u) = unat (u_shares u') + (unat shares + shares_dust)"
    "unat (total_shares p) = unat (total_shares p') + (unat shares + shares_dust)"
    "shares_dust \<le> 1000" "u_shares u' = 0 \<or> is_nondust_balance (u_shares u')"
    "total_stake p' = total_stake p - amount \<and> free_stake p' = free_stake p - amount \<or>
     total_stake p' = 0 \<and> free_stake p' = 0 \<and> total_stake p - amount \<le> 1000"
    "p' = p\<lparr>total_shares := total_shares p', total_stake := total_stake p', free_stake := free_stake p'\<rparr>"
    "u_user u' = u_user u" "available_rewards u' = available_rewards u"
    "pending_reward F p' u' = 0"
proof -
  from assms obtain price where price: "share_price F p = Some price"
    by (auto simp: remove_stake_def split: option.splits)
  define a where "a = min (min (bmul F shares price) (free_stake p)) (u_locked u)"
  obtain sh sd where sd: "extract_dust (u_shares u - shares) = (sh, sd)" by fastforce
  obtain lk ld where ld: "extract_dust (u_locked u - a) = (lk, ld)" by fastforce
  obtain ts td where td: "extract_dust (total_stake p - a) = (ts, td)" by fastforce
  define q where "q = (if ts > 0
      then p\<lparr>free_stake := free_stake p - a, total_stake := total_stake p - a\<rparr>
      else p\<lparr>free_stake := 0, total_stake := 0\<rparr>)\<lparr>total_shares := total_shares p - (shares + sd)\<rparr>"
  note unfolded = assms [unfolded remove_stake_def price option.case Let_def a_def [symmetric]
      checked_sub_def]
  have le: "shares \<le> u_shares u" "a \<le> u_locked u" "shares + sd \<le> total_shares p"
    using unfolded by (auto simp: sd ld td split: if_splits)
  have res: "amount = a" "dust = ld" "p' = q"
    "u' = reset_pending_reward F q (u\<lparr>u_shares := sh, u_locked := lk\<rparr>)"
    using unfolded le by (auto simp: sd ld td q_def)
  have sd': "unat (u_shares u - shares) = unat sh + unat sd" "unat sd \<le> 1000"
      "sh = 0 \<or> is_nondust_balance sh"
    using extract_dust_snd [of "u_shares u - shares"] extract_dust_nondust [of "u_shares u - shares"] sd
    by (auto simp: extract_dust_def is_nondust_balance_def split: if_splits)
  have ld': "unat (u_locked u - a) = unat lk + unat ld" "unat ld \<le> 1000"
    using extract_dust_snd [of "u_locked u - a"] ld by (auto simp: extract_dust_def split: if_splits)
  have shd: "unat (shares + sd) = unat shares + unat sd"
  proof (rule unat_plus_small)
    have "unat shares + unat sd \<le> unat (u_shares u)"
      using sd'(1) le(1) by (simp add: unat_minus_le word_le_nat_alt)
    then show "unat shares + unat sd < 2 ^ LENGTH(128)" using unat_lt_2p [of "u_shares u"] by linarith
  qed
  have "total_stake p - a \<le> 1000" if "\<not> ts > 0"
  proof -
    have "ts = 0" using that by (simp add: word_gt_0)
    then show ?thesis using td by (auto simp: extract_dust_def balance_close_to_zero_def split: if_splits)
  qed
  then have stake: "total_stake q = total_stake p - a \<and> free_stake q = free_stake p - a \<or>
     total_stake q = 0 \<and> free_stake q = 0 \<and> total_stake p - a \<le> 1000"
    by (cases "ts > 0") (simp_all add: q_def)
  show thesis
  proof (rule that [of "unat sd"])
    show "amount \<le> free_stake p" "amount \<le> u_locked u" by (simp_all add: res a_def min_le_iff_disj)
    show "unat (u_locked u) = unat (u_locked u') + unat amount + unat dust" "unat dust \<le> 1000"
      using ld' le(2) by (simp_all add: res reset_pending_reward_def unat_minus_le word_le_nat_alt)
    show "unat (u_shares u) = unat (u_shares u') + (unat shares + unat sd)"
      using sd' le(1) by (simp add: res reset_pending_reward_def unat_minus_le word_le_nat_alt)
    show "unat (total_shares p) = unat (total_shares p') + (unat shares + unat sd)"
      using le(3) shd by (simp add: res q_def unat_minus_le word_le_nat_alt)
    show "unat sd \<le> 1000" "u_shares u' = 0 \<or> is_nondust_balance (u_shares u')"
      using sd' by (simp_all add: res reset_pending_reward_def)
    show "total_stake p' = total_stake p - amount \<and> free_stake p' = free_stake p - amount \<or>
     total_stake p' = 0 \<and> free_stake p' = 0 \<and> total_stake p - amount \<le> 1000"
      using stake by (simp add: res)
    show "p' = p\<lparr>total_shares := total_shares p', total_stake := total_stake p', free_stake := free_stake p'\<rparr>"
      by (simp add: res q_def)
    show "u_user u' = u_user u" "available_rewards u' = available_rewards u"
      "pending_reward F p' u' = 0"
      by (simp_all add: res reset_pending_reward_def pending_reward_def pending_def clear_pending_def)
  qed
qed

lemma add_stake_SomeE:
  assumes "add_stake F a p u = Some (p', u')"
  obtains shares where
    "(case share_price F p of Some price \<Rightarrow> (if price \<noteq> fp_0 then bdiv F a price else Some a)
      | None \<Rightarrow> Some a) = Some shares"
    "u_shares u' = saturating_add (u_shares u) shares" "total_shares p' = total_shares p + shares"
    "u_locked u' = saturating_add (u_locked u) a" "total_stake p' = saturating_add (total_stake p) a"
    "free_stake p' = saturating_add (free_stake p) a" "u_user u' = u_user u"
    "p' = p\<lparr>total_shares := total_shares p', total_stake := total_stake p', free_stake := free_stake p'\<rparr>"
    "pending_reward F p' u' = 0"
proof -
  obtain shares where s: "(case share_price F p of
      Some price \<Rightarrow> (if price \<noteq> fp_0 then bdiv F a price else Some a) | None \<Rightarrow> Some a) = Some shares"
    using assms by (auto simp: add_stake_def split: option.splits)
  have r: "p' = p\<lparr>total_shares := total_shares p + shares, total_stake := saturating_add (total_stake p) a,
      free_stake := saturating_add (free_stake p) a\<rparr>"
    "u' = reset_pending_reward F p (u\<lparr>u_shares := saturating_add (u_shares u) shares,
      u_locked := saturating_add (u_locked u) a\<rparr>)"
    using assms unfolding add_stake_def s option.case Let_def by auto
  show thesis
    by (rule that [OF s])
      (simp_all add: r reset_pending_reward_def pending_reward_def pending_def clear_pending_def)
qed

end
