(* ===== verification/Stake_Props.thy ===== *)
theory Stake_Props
  imports Phala_Runtime Pool_Props
begin

text \<open>
  Correctness of the stake pool pallet on the storage: the shares of a pool are the sum of its
  stakers' shares, the withdraw queue holds one request per staker and no dust, and the loop that
  serves it ends. \<open>pools_frame\<close> is what the rest of the system does to the pools.
\<close>

section \<open>The invariant\<close>

definition staked :: "'b chain \<Rightarrow> pool_id \<Rightarrow> nat" where
  "staked s pid = (\<Sum>k | k \<in> dom (PoolStakers s) \<and> fst k = pid. unat (u_shares (the (PoolStakers s k))))"

definition queue_ok :: "'b chain \<Rightarrow> pool_id \<Rightarrow> withdraw_info list \<Rightarrow> bool" where
  "queue_ok s pid q \<longleftrightarrow> distinct (map w_user q) \<and>
     (\<forall>w \<in> set q. is_nondust_balance (w_shares w) \<and> PoolStakers s (pid, w_user w) \<noteq> None)"

definition stake_inv :: "'b chain \<Rightarrow> bool" where
  "stake_inv s \<longleftrightarrow> finite (dom (PoolStakers s)) \<and>
     (\<forall>pid p. StakePools s pid = Some p \<longrightarrow> p_pid p = pid \<and> pid < PoolCount s \<and>
        unat (total_shares p) = staked s pid \<and> queue_ok s pid (withdraw_queue p)) \<and>
     (\<forall>pid who u. PoolStakers s (pid, who) = Some u \<longrightarrow> u_user u = who \<and> StakePools s pid \<noteq> None)"

lemma stake_invD:
  assumes "stake_inv s"
  shows "finite (dom (PoolStakers s))"
    and "StakePools s pid = Some p \<Longrightarrow> p_pid p = pid"
    and "StakePools s pid = Some p \<Longrightarrow> pid < PoolCount s"
    and "StakePools s pid = Some p \<Longrightarrow> unat (total_shares p) = staked s pid"
    and "StakePools s pid = Some p \<Longrightarrow> queue_ok s pid (withdraw_queue p)"
    and "PoolStakers s (pid, who) = Some u \<Longrightarrow> u_user u = who"
    and "PoolStakers s (pid, who) = Some u \<Longrightarrow> StakePools s pid \<noteq> None"
  using assms unfolding stake_inv_def by blast+

text \<open>What the operations outside the stake ledger may change of the pools.\<close>

definition pool_same :: "pool_info \<Rightarrow> pool_info \<Rightarrow> bool" where
  "pool_same p p' \<longleftrightarrow> p_pid p' = p_pid p \<and> total_shares p' = total_shares p \<and>
     withdraw_queue p' = withdraw_queue p"

definition pools_frame :: "'b chain \<Rightarrow> 'b chain \<Rightarrow> bool" where
  "pools_frame s s' \<longleftrightarrow> PoolStakers s' = PoolStakers s \<and> PoolCount s' = PoolCount s \<and>
     (\<forall>pid. rel_option pool_same (StakePools s pid) (StakePools s' pid))"

lemma pool_same_refl [simp]: "pool_same p p"
  by (simp add: pool_same_def)

lemma pools_frame_same:
  "StakePools s' = StakePools s \<Longrightarrow> PoolStakers s' = PoolStakers s \<Longrightarrow> PoolCount s' = PoolCount s \<Longrightarrow>
     pools_frame s s'"
  by (simp add: pools_frame_def option.rel_refl)

lemma pools_frame_refl [simp]: "pools_frame s s"
  by (rule pools_frame_same) simp_all

lemma pools_frame_trans: "pools_frame s t \<Longrightarrow> pools_frame t u \<Longrightarrow> pools_frame s u"
proof -
  have "rel_option pool_same a b \<Longrightarrow> rel_option pool_same b c \<Longrightarrow> rel_option pool_same a c" for a b c
    by (cases a; cases b; cases c) (auto simp: pool_same_def)
  then show "pools_frame s t \<Longrightarrow> pools_frame t u \<Longrightarrow> pools_frame s u"
    unfolding pools_frame_def by metis
qed

lemma pools_frame_put:
  "StakePools s pid = Some p \<Longrightarrow> pool_same p p' \<Longrightarrow> pools_frame s (put_pool pid p' s)"
  by (auto simp: pools_frame_def put_pool_def option.rel_refl)

lemma staked_cong: "PoolStakers s' = PoolStakers s \<Longrightarrow> staked s' = staked s"
  by (rule ext) (simp add: staked_def)

lemma stake_inv_frame:
  assumes f: "pools_frame s s'" and inv: "stake_inv s"
  shows "stake_inv s'"
proof -
  have eq: "PoolStakers s' = PoolStakers s" "PoolCount s' = PoolCount s"
    and rel: "\<And>pid. rel_option pool_same (StakePools s pid) (StakePools s' pid)"
    using f by (simp_all add: pools_frame_def)
  have q: "queue_ok s' pid q = queue_ok s pid q" for pid q by (simp add: queue_ok_def eq)
  have pools: "p_pid p' = pid \<and> pid < PoolCount s' \<and> unat (total_shares p') = staked s' pid \<and>
      queue_ok s' pid (withdraw_queue p')" if p': "StakePools s' pid = Some p'" for pid p'
  proof -
    obtain p where p: "StakePools s pid = Some p" "pool_same p p'"
      using rel [of pid] p' by (auto simp: option_rel_Some2)
    then show ?thesis using stake_invD(2-5) [OF inv p(1)]
      by (simp add: pool_same_def q eq staked_cong [OF eq(1)])
  qed
  have "StakePools s' pid \<noteq> None" if "StakePools s pid \<noteq> None" for pid
    using rel [of pid] that by (cases "StakePools s pid"; cases "StakePools s' pid") auto
  then have stakers: "u_user u = who \<and> StakePools s' pid \<noteq> None"
    if "PoolStakers s' (pid, who) = Some u" for pid who u
    using that stake_invD(6,7) [OF inv] by (simp add: eq)
  show ?thesis unfolding stake_inv_def
    using stake_invD(1) [OF inv] pools stakers by (simp add: eq)
qed

section \<open>One pool and one staker change\<close>

definition held :: "'b chain \<Rightarrow> pool_id \<Rightarrow> account_id \<Rightarrow> nat" where
  "held s pid who = (case PoolStakers s (pid, who) of Some u \<Rightarrow> unat (u_shares u) | None \<Rightarrow> 0)"

lemma staked_put:
  assumes fin: "finite (dom (PoolStakers s))"
    and new: "PoolStakers s' = (PoolStakers s)((pid, who) \<mapsto> u)"
  shows "staked s' pid + held s pid who = staked s pid + unat (u_shares u)"
    and "q \<noteq> pid \<Longrightarrow> staked s' q = staked s q"
proof -
  define K where "K = {k. k \<in> dom (PoolStakers s) \<and> fst k = pid} - {(pid, who)}"
  have finK: "finite K" "(pid, who) \<notin> K" using fin by (simp_all add: K_def)
  have old: "staked s pid = (\<Sum>k\<in>K. unat (u_shares (the (PoolStakers s k)))) + held s pid who"
  proof (cases "PoolStakers s (pid, who)")
    case None
    then have "{k. k \<in> dom (PoolStakers s) \<and> fst k = pid} = K" by (auto simp: K_def)
    then show ?thesis by (simp add: staked_def held_def None)
  next
    case (Some v)
    then have "{k. k \<in> dom (PoolStakers s) \<and> fst k = pid} = insert (pid, who) K" by (auto simp: K_def)
    then show ?thesis using finK Some by (simp add: staked_def held_def)
  qed
  have "{k. k \<in> dom (PoolStakers s') \<and> fst k = pid} = insert (pid, who) K"
    by (auto simp: K_def new)
  moreover have "(\<Sum>k\<in>K. unat (u_shares (the (PoolStakers s' k)))) =
      (\<Sum>k\<in>K. unat (u_shares (the (PoolStakers s k))))"
    by (rule sum.cong) (auto simp: K_def new)
  ultimately have "staked s' pid = unat (u_shares u) + (\<Sum>k\<in>K. unat (u_shares (the (PoolStakers s k))))"
    using finK by (simp add: staked_def new)
  then show "staked s' pid + held s pid who = staked s pid + unat (u_shares u)" using old by simp
  show "q \<noteq> pid \<Longrightarrow> staked s' q = staked s q"
    unfolding staked_def by (rule sum.cong) (auto simp: new)
qed

lemma stake_inv_update:
  assumes inv: "stake_inv s" and p: "StakePools s pid = Some p"
    and pools: "StakePools s' = (StakePools s)(pid \<mapsto> p')"
    and stakers: "PoolStakers s' = (PoolStakers s)((pid, who) \<mapsto> u')"
    and count: "PoolCount s' = PoolCount s"
    and ids: "p_pid p' = pid" "u_user u' = who"
    and sum: "unat (total_shares p') + held s pid who = unat (total_shares p) + unat (u_shares u')"
    and queue: "queue_ok s' pid (withdraw_queue p')"
  shows "stake_inv s'"
proof -
  note fin = stake_invD(1) [OF inv]
  have other: "queue_ok s' q ws" if "queue_ok s q ws" for q ws
    using that by (auto simp: queue_ok_def stakers)
  have "p_pid r = q \<and> q < PoolCount s' \<and> unat (total_shares r) = staked s' q \<and>
      queue_ok s' q (withdraw_queue r)" if r: "StakePools s' q = Some r" for q r
  proof (cases "q = pid")
    case True
    then have "r = p'" using r pools by simp
    then show ?thesis
      using True ids queue count stake_invD(3,4) [OF inv p] sum staked_put(1) [OF fin stakers] by simp
  next
    case False
    then have "StakePools s q = Some r" using r pools by simp
    then show ?thesis
      using stake_invD(2-5) [OF inv] other staked_put(2) [OF fin stakers False] count by simp
  qed
  moreover have "u_user u = w \<and> StakePools s' q \<noteq> None" if "PoolStakers s' (q, w) = Some u" for q w u
    using that stake_invD(6,7) [OF inv] ids(2) by (auto simp: stakers pools split: if_splits)
  moreover have "finite (dom (PoolStakers s'))" using fin by (simp add: stakers)
  ultimately show ?thesis unfolding stake_inv_def by blast
qed

section \<open>Frames of the helpers\<close>

definition stake_part :: "'b chain \<Rightarrow> _" where
  "stake_part s = (StakePools s, PoolStakers s, PoolCount s)"

lemma stake_part_simps [simp]:
  "stake_part (stakepool_deposit e s) = stake_part s"
  "stake_part (mining_deposit e' s) = stake_part s"
  "stake_part (update_lock T who a s) = stake_part s"
  "stake_part (remove_dust T who a s) = stake_part s"
  "stake_part (ledger_accrue T who a s) = stake_part s"
  "stake_part (ledger_reduce T who a d s) = stake_part s"
  "stake_part (maybe_add_withdraw_queue t pid s) = stake_part s"
  by (simp_all add: stake_part_def stakepool_deposit_def mining_deposit_def update_lock_def
      remove_dust_def ledger_accrue_def ledger_reduce_def maybe_add_withdraw_queue_def Let_def
      split: prod.split option.split)

lemma stake_partD:
  assumes "stake_part s' = stake_part s"
  shows "StakePools s' = StakePools s" "PoolStakers s' = PoolStakers s" "PoolCount s' = PoolCount s"
  using assms by (simp_all add: stake_part_def)

lemma stake_part_frame: "stake_part s' = stake_part s \<Longrightarrow> pools_frame s s'"
  by (rule pools_frame_same) (simp_all add: stake_part_def)

lemma stake_inv_cong:
  fixes s s' :: "'b chain"
  assumes "stake_part s' = stake_part s"
  shows "stake_inv s' = stake_inv s"
  using stake_inv_frame [OF stake_part_frame [OF assms]]
    stake_inv_frame [OF stake_part_frame [OF assms [symmetric]]] by blast

lemma stake_inv_deposit [simp]: "stake_inv (stakepool_deposit e s) = stake_inv s"
  by (rule stake_inv_cong) simp

lemma stake_part_put_cong:
  assumes "stake_part s' = stake_part s"
  shows "stake_part (put_pool pid p s') = stake_part (put_pool pid p s)"
    and "stake_part (put_staker pid who u s') = stake_part (put_staker pid who u s)"
  using assms by (simp_all add: stake_part_def put_pool_def put_staker_def)

lemma settle_user_simps [simp]:
  "u_shares (settle_user_pending_reward F p u) = u_shares u"
  "u_user (settle_user_pending_reward F p u) = u_user u"
  "u_shares (reset_pending_reward F p u) = u_shares u"
  "u_user (reset_pending_reward F p u) = u_user u"
  by (simp_all add: settle_user_pending_reward_def reset_pending_reward_def Let_def)

lemma maybe_settle_slash_frame:
  assumes "maybe_settle_slash T p u s = (u', s')"
  shows "u_shares u' = u_shares u" "u_user u' = u_user u" "stake_part s' = stake_part s"
proof -
  have s: "settle_slash (Fx T) p u = Some (sl, v) \<Longrightarrow> u_shares v = u_shares u \<and> u_user v = u_user u" for sl v
    by (auto simp: settle_slash_def Let_def split: option.splits prod.splits)
  have b: "stake_part (s\<lparr>bank := b\<rparr>) = stake_part s" for b by (simp add: stake_part_def)
  show "u_shares u' = u_shares u" "u_user u' = u_user u" "stake_part s' = stake_part s"
    using assms s
    by (auto simp: maybe_settle_slash_def Let_def b split: option.splits prod.splits if_splits)
qed

section \<open>Serving the withdraw queue\<close>

lemma serve_front_cases:
  assumes ok: "serve_front T price w rest p s = Ok p' s'"
  obtains (gone) "PoolStakers s (p_pid p, w_user w) = None" "p' = p\<lparr>withdraw_queue := rest\<rparr>" "s' = s"
  | (served) u u' free ws d where "PoolStakers s (p_pid p, w_user w) = Some u"
      "(if price = fp_0 then Some (w_shares w) else bdiv (Fx T) (free_stake p) price) = Some free"
      "ws = min free (w_shares w)"
      "unat (u_shares u) = unat (u_shares u') + (unat ws + d)"
      "unat (total_shares p) = unat (total_shares p') + (unat ws + d)"
      "u_user u' = u_user u" "p_pid p' = p_pid p" "unat (free_stake p') \<le> unat (free_stake p)"
      "withdraw_queue p' = (if fst (extract_dust (w_shares w - ws)) = 0 then rest
         else w\<lparr>w_shares := fst (extract_dust (w_shares w - ws))\<rparr> # rest)"
      "stake_part s' = stake_part (put_staker (p_pid p) (w_user w) u' s)"
proof (cases "PoolStakers s (p_pid p, w_user w)")
  case None
  have "serve_front T price w rest p s = Ok (p\<lparr>withdraw_queue := rest\<rparr>) s"
    by (simp add: serve_front_def None)
  then have "p' = p\<lparr>withdraw_queue := rest\<rparr>" "s' = s" using ok by simp_all
  then show ?thesis by (rule gone [OF None])
next
  case (Some u)
  define u0 where "u0 = settle_user_pending_reward (Fx T) p u"
  obtain free where free: "(if price = fp_0 then Some (w_shares w) else bdiv (Fx T) (free_stake p) price) = Some free"
    using ok Some by (auto simp: serve_front_def Let_def split: option.splits)
  define ws where "ws = min free (w_shares w)"
  obtain u1 s1 where sl: "maybe_settle_slash T p u0 s = (u1, s1)" by fastforce
  note sf = maybe_settle_slash_frame [OF sl]
  note unfolded = ok [unfolded serve_front_def Some option.case u0_def [symmetric] Let_def free
      ws_def [symmetric] sl prod.case]
  obtain reduced dust p2 u2 where rs: "remove_stake (Fx T) ws p u1 = Some ((reduced, dust), p2, u2)"
    using unfolded by (auto split: option.splits)
  define left where "left = fst (extract_dust (w_shares w - ws))"
  have "(if left = 0 then p2\<lparr>withdraw_queue := rest\<rparr>
        else p2\<lparr>withdraw_queue := w\<lparr>w_shares := left\<rparr> # rest\<rparr>) = p'"
    and "put_staker (p_pid p2) (w_user w) (reset_pending_reward (Fx T) p2 u2)
        (stakepool_deposit (Withdrawal (p_pid p2) (u_user u2) reduced)
          (ledger_reduce T (u_user u2) reduced dust s1)) = s'"
    using unfolded unfolding left_def by (simp_all add: rs split del: if_split)
  note p' = this(1) [symmetric] and s' = this(2) [symmetric]
  from rs show thesis
  proof (rule remove_stake_SomeE)
    fix d
    assume books: "unat (u_shares u1) = unat (u_shares u2) + (unat ws + d)"
      "unat (total_shares p) = unat (total_shares p2) + (unat ws + d)"
      and p2: "p2 = p\<lparr>total_shares := total_shares p2, total_stake := total_stake p2,
                      free_stake := free_stake p2\<rparr>"
      and uu: "u_user u2 = u_user u1" and amount: "reduced \<le> free_stake p"
      and st: "total_stake p2 = total_stake p - reduced \<and> free_stake p2 = free_stake p - reduced \<or>
         total_stake p2 = 0 \<and> free_stake p2 = 0 \<and> total_stake p - reduced \<le> 1000"
    have pid: "p_pid p2 = p_pid p" by (subst p2) simp
    have fr: "unat (free_stake p2) \<le> unat (free_stake p)"
      using st amount by (auto simp: unat_minus_le)
    have sp: "stake_part s' = stake_part (put_staker (p_pid p) (w_user w) (reset_pending_reward (Fx T) p2 u2) s)"
      unfolding s' pid by (rule stake_part_put_cong(2)) (simp add: sf(3))
    show thesis
      by (rule served [OF Some free ws_def, where u' = "reset_pending_reward (Fx T) p2 u2"])
        (use books sf uu pid sp fr in \<open>simp_all add: u0_def p' left_def\<close>)
  qed
qed

lemma serve_front_no_Err: "serve_front T price w rest p s \<noteq> Err e s'"
  by (auto simp: serve_front_def Let_def split: option.splits prod.splits)

lemma queue_ok_cong: "PoolStakers s' = PoolStakers s \<Longrightarrow> queue_ok s' pid q = queue_ok s pid q"
  by (simp add: queue_ok_def)

lemma serve_front_keeps:
  assumes ok: "serve_front T price w rest p s = Ok p' s'" and q: "withdraw_queue p = w # rest"
    and inv: "stake_inv (put_pool (p_pid p) p s)"
  shows "p_pid p' = p_pid p \<and> stake_inv (put_pool (p_pid p) p' s')"
proof -
  let ?pid = "p_pid p" and ?S = "put_pool (p_pid p) p s"
  have P: "StakePools ?S ?pid = Some p" by (simp add: put_pool_def)
  have qok: "queue_ok s ?pid (w # rest)"
    using stake_invD(5) [OF inv P] by (simp add: q queue_ok_def put_pool_def)
  have wi: "PoolStakers s (?pid, w_user w) \<noteq> None" using qok by (simp add: queue_ok_def)
  from ok show ?thesis
  proof (cases rule: serve_front_cases)
    case gone
    then show ?thesis using wi by simp
  next
    case (served u u' free ws d)
    note sp = stake_partD [OF served(10)]
    have fields: "StakePools (put_pool ?pid p' s') = (StakePools ?S)(?pid \<mapsto> p')"
      "PoolStakers (put_pool ?pid p' s') = (PoolStakers ?S)((?pid, w_user w) \<mapsto> u')"
      "PoolCount (put_pool ?pid p' s') = PoolCount ?S"
      using sp by (simp_all add: put_pool_def put_staker_def)
    have user: "u_user u = w_user w"
      using stake_invD(6) [OF inv, of ?pid "w_user w" u] served(1) by (simp add: put_pool_def)
    have "queue_ok s ?pid (withdraw_queue p')"
      using qok extract_dust_nondust [of "w_shares w - ws"]
      by (auto simp: served(9) queue_ok_def extract_dust_def is_nondust_balance_def)
    then have queue: "queue_ok (put_pool ?pid p' s') ?pid (withdraw_queue p')"
      using fields(2) by (auto simp: queue_ok_def put_pool_def)
    have "stake_inv (put_pool ?pid p' s')"
      by (rule stake_inv_update [OF inv P fields])
        (use served(1,4-7) user queue in \<open>simp_all add: held_def put_pool_def\<close>)
    then show ?thesis using served(7) by simp
  qed
qed

lemma serve_queue_keeps:
  "serve_queue T price p s = Some r \<Longrightarrow> stake_inv (put_pool (p_pid p) p s) \<Longrightarrow> r = Ok p' s' \<Longrightarrow>
     p_pid p' = p_pid p \<and> stake_inv (put_pool (p_pid p) p' s')"
proof (induct arbitrary: p' s' rule: serve_queue.raw_induct [rotated, consumes 1, case_names step])
  case (step f T price p s r)
  show ?case
  proof (cases "is_nondust_balance (free_stake p) \<and> withdraw_queue p \<noteq> []")
    case True
    then obtain w rest where q: "withdraw_queue p = w # rest" by (cases "withdraw_queue p") auto
    obtain p1 s1 where ok: "serve_front T price w rest p s = Ok p1 s1"
      and rec: "f T price p1 s1 = Some r"
      using step(2,4) True q by (auto split: outcome.splits simp: serve_front_no_Err)
    note k = serve_front_keeps [OF ok q step(3)]
    then show ?thesis using step(1) [OF rec _ step(4)] by simp
  next
    case False
    then have "r = Ok p s" using step(2) by (auto split: if_splits list.splits)
    then show ?thesis using step(3,4) by simp
  qed
qed

lemma try_process_keeps:
  "try_process_withdraw_queue T p s = Some (Ok p' s') \<Longrightarrow> stake_inv (put_pool (p_pid p) p s) \<Longrightarrow>
     p_pid p' = p_pid p \<and> stake_inv (put_pool (p_pid p) p' s')"
  by (auto simp: try_process_withdraw_queue_def split: option.splits dest: serve_queue_keeps)

lemma serve_queue_no_Err: "serve_queue T price p s = Some r \<Longrightarrow> r \<noteq> Err e t"
proof (induct rule: serve_queue.raw_induct [rotated, consumes 1, case_names step])
  case (step f T price p s r)
  then show ?case by (auto simp: serve_front_no_Err split: if_splits list.splits outcome.splits)
qed

lemma try_process_no_Err: "try_process_withdraw_queue T p s \<noteq> Some (Err e t)"
  using serve_queue_no_Err
  by (fastforce simp: try_process_withdraw_queue_def split: option.splits)

end
