(* ===== verification/Runtime_Frame.thy ===== *)
theory Runtime_Frame
  imports Phala_Runtime
begin

text \<open>
  What the calls, messages and hooks of the runtime leave alone. A relation \<open>R\<close> between the
  storage before and after is a frame of the mining pallet when it ignores that pallet's own
  storage and holds across the stake pool's callbacks; the locales derive from this that \<open>R\<close> holds
  across every operation. Each use is an interpretation with a relation of its own: the shares of
  the pools, the sequence numbers of the messages, the storage of the registry.
\<close>

section \<open>Own storage\<close>

text \<open>
  Everything but the records, stakes and parameters of the mining pallet, the bank, the outbox and
  the logs. The bindings of miners and workers are kept apart: only binding and unbinding write them.
\<close>

definition other_part :: "'b chain \<Rightarrow> _" where
  "other_part s = (now_millis s, MinerBindings s, WorkerBindings s, OffchainIngress s, Gatekeeper s, GatekeeperMasterPubkey s,
     Workers s, ContractKeys s, TopicKey s, BenchmarkDuration s, PRuntimeAllowList s,
     RelaychainGenesisBlockHashAllowList s, StakePools s, PoolStakers s, PoolCount s,
     WorkerAssignments s, StakeLedger s, WithdrawalQueuedPools s, WithdrawalTimestamps s,
     MiningEnabled s, SubAccountPreimages s)"

text \<open>Everything but the storage of the registry, the outbox and the mining pallet's log.\<close>

definition beyond_registry :: "'b chain \<Rightarrow> _" where
  "beyond_registry s = (bank s, now_millis s, OffchainIngress s, Miners s, MinerBindings s,
     WorkerBindings s, Stakes s, OnlineMiners s, StakePools s, PoolStakers s, PoolCount s,
     WorkerAssignments s, StakeLedger s, WithdrawalQueuedPools s, WithdrawalTimestamps s,
     MiningEnabled s, SubAccountPreimages s)"

lemma other_part_deposit [simp]: "other_part (mining_deposit e s) = other_part s"
  by (simp add: other_part_def mining_deposit_def)

section \<open>Frames of the mining pallet\<close>

locale pallet_frame =
  fixes R :: "'b chain \<Rightarrow> 'b chain \<Rightarrow> bool" and C :: codec and T :: "'b phala_config"
  assumes R_trans: "R s t \<Longrightarrow> R t u \<Longrightarrow> R s u"
    and R_own: "other_part t = other_part s \<Longrightarrow> R s t"
    and stopped_frame: "steps R s (on_stopped w st sl s)"
    and reward_frame: "steps R s (on_reward T xs s)"
begin

lemma R_refl [simp]: "R s s"
  by (rule R_own) simp

lemma frame_andthen:
  assumes "steps R s r" "\<And>x t. r = Ok x t \<Longrightarrow> steps R t (f x t)"
  shows "steps R s (andthen r f)"
  by (rule steps_andthen [OF _ assms]) (rule R_trans)

lemma frame_for_each:
  assumes "\<And>x s. x \<in> set xs \<Longrightarrow> steps R s (f x s)"
  shows "steps R s (for_each f xs s)"
  by (rule steps_for_each [OF _ _ assms]) (auto intro: R_trans)

lemma after: "R s t \<Longrightarrow> steps R t r \<Longrightarrow> steps R s r"
  unfolding steps_def using R_trans by blast

lemma own_after: "other_part t = other_part s \<Longrightarrow> steps R t r \<Longrightarrow> steps R s r"
  by (rule after) (rule R_own)

lemma push_frame:
  "steps R s (push_worker_event (runtime C T) w e s)"
  "steps R s (push_heartbeat_challenge (runtime C T) seed target s)"
  "t \<in> offchain_topics \<Longrightarrow> steps R s (mining_push (runtime C T) t pl s)"
  "t \<in> offchain_topics \<Longrightarrow> steps R s (registry_push (runtime C T) t pl s)"
  by (simp_all add: push_worker_event_def push_heartbeat_challenge_def rt.mining_push_Ok
      rt.registry_push_Ok R_own other_part_def rt.outbox_def)

lemma stop_mining_frame: "steps R s (stop_mining (runtime C T) m s)"
proof -
  have upd: "steps R s r" if "steps R (s\<lparr>Miners := M, OnlineMiners := n\<rparr>) r"
    for M n and r :: "('b, unit) result"
    by (rule own_after [OF _ that]) (simp add: other_part_def)
  show ?thesis unfolding stop_mining_def Let_def runtime_simps
    by (auto intro!: upd frame_andthen stopped_frame push_frame R_own split: option.split)
qed

lemma start_mining_frame: "steps R s (start_mining (runtime C T) m stake s)"
proof (cases rule: rt.start_mining_cases [of C T m stake s])
  case (ok s' worker info info')
  have upd: "steps R s r"
    if "steps R (s\<lparr>Stakes := S, Miners := M, OnlineMiners := n, NextSessionId := k\<rparr>) r"
    for S M n k and r :: "('b, unit) result"
    by (rule own_after [OF _ that]) (simp add: other_part_def)
  show ?thesis unfolding start_mining_def Let_def
    by (auto intro!: upd frame_andthen push_frame R_own split: option.split)
qed simp_all

lemma reclaim_frame: "steps R s (reclaim T' m s)"
proof (cases "reclaim T' m s")
  case (Ok r t)
  then have "other_part t = other_part s"
    by (rule reclaim_OkE) (simp add: other_part_def mining_deposit_def)
  then show ?thesis by (simp add: Ok R_own)
next
  case (Err e t)
  then show ?thesis using reclaim_Err [OF Err] by simp
qed simp

lemma on_mining_message_frame: "steps R s (on_mining_message_received sender ev s)"
  by (auto simp: on_mining_message_received_def other_part_def intro!: R_own
      split: message_origin.split mining_report_event.split option.split)

lemma set_responsive_frame: "steps R s (set_responsive (runtime C T) st ev we w s)"
proof -
  have upd: "steps R s (push_worker_event (runtime C T) w we
      (mining_deposit (ev m) (s\<lparr>Miners := M\<rparr>)))" for m M
    by (rule own_after [OF _ push_frame(1)]) (simp add: other_part_def mining_deposit_def)
  show ?thesis unfolding set_responsive_def by (auto intro!: upd split: option.split)
qed

lemma handle_settle_frame: "steps R s (handle_settle T' now info s)"
proof -
  have "other_part t = other_part s" if "left_state (handle_settle T' now info s) = Some t" for t
    using that
    by (auto simp: handle_settle_def try_handle_settle_def withdraw_imbalance_from_subsidy_pool_def
        Let_def other_part_def mining_deposit_def split: option.splits sum.splits prod.splits)
  then show ?thesis by (simp add: steps_def R_own)
qed

lemma on_gk_message_frame: "steps R s (on_gk_message_received (runtime C T) sender ev s)"
  unfolding on_gk_message_received_def Let_def worker_offline_def worker_recovered_def runtime_simps
  by (auto intro!: frame_andthen frame_for_each set_responsive_frame handle_settle_frame reward_frame)

lemma update_tokenomic_frame: "steps R s (update_tokenomic_parameters (runtime C T) tk s)"
  by (simp add: update_tokenomic_parameters_def rt.mining_push_Ok R_own other_part_def mining_deposit_def rt.outbox_def)

lemma mining_on_finalize_frame: "steps R s (mining_on_finalize (runtime C T) n s)"
proof -
  have h: "steps R s (heartbeat_challenge (runtime C T) s)" for s
    by (simp add: heartbeat_challenge_def push_frame Let_def split: option.split)
  have u: "steps R s (apply_tokenomic_update (runtime C T) s)" for s
  proof (cases "ScheduledTokenomicUpdate s")
    case (Some tk)
    have "steps R s (update_tokenomic_parameters (runtime C T) tk (s\<lparr>ScheduledTokenomicUpdate := None\<rparr>))"
      by (rule own_after [OF _ update_tokenomic_frame]) (simp add: other_part_def)
    then show ?thesis using Some by (simp add: apply_tokenomic_update_def)
  qed (simp add: apply_tokenomic_update_def)
  have t: "steps R s (trigger_subsidy_halving (runtime C T) s)" for s
  proof (cases "TokenomicParameters s")
    case (Some tk)
    have "steps R s (update_tokenomic_parameters (runtime C T) tk' (mining_deposit SubsidyBudgetHalved s))" for tk'
      by (rule own_after [OF _ update_tokenomic_frame]) simp
    then show ?thesis using Some by (simp add: trigger_subsidy_halving_def Let_def)
  qed (simp add: trigger_subsidy_halving_def)
  have d: "R s (mining_deposit e u)" if "R s u" for s e u
    using that R_own [of "mining_deposit e u" u] by (auto intro: R_trans)
  have a: "steps R s (apply_subsidy (runtime C T) n s)" for s
    using t [of s] by (auto simp: apply_subsidy_def Let_def d split: option.split outcome.split)
  show ?thesis unfolding mining_on_finalize_def by (intro frame_andthen h u a)
qed

lemma mining_call_frames:
  "steps R s (force_heartbeat (runtime C T) orig s)"
  "steps R s (force_start_mining (runtime C T) orig m st s)"
  "steps R s (force_stop_mining (runtime C T) orig m s)"
  "steps R s (set_cool_down_expiration orig p s)"
  "steps R s (update_tokenomic T' orig tk s)"
  unfolding force_heartbeat_def force_start_mining_def force_stop_mining_def
    set_cool_down_expiration_def update_tokenomic_def
  by (auto simp: mining_deposit_def other_part_def intro!: push_frame start_mining_frame
      stop_mining_frame R_own split: option.split)

lemma stop_ignoring_frame: "steps R s (stop_ignoring (runtime C T) m s)"
  using stop_mining_frame [of s m] by (simp add: stop_ignoring_def steps_def split: option.split)

lemma force_shutdown_frame: "steps R s (force_shutdown (runtime C T) now pid s)"
  unfolding force_shutdown_def
  by (auto intro!: frame_for_each stop_ignoring_frame split: option.split)

end

section \<open>Frames of binding and unbinding\<close>

locale binding_frame = pallet_frame R C T
  for R :: "'b chain \<Rightarrow> 'b chain \<Rightarrow> bool" and C :: codec and T :: "'b phala_config" +
  assumes removed_frame: "steps R s (remove_worker_from_pool w s)"
    and R_bindings: "R s (s\<lparr>MinerBindings := mb, WorkerBindings := wb\<rparr>)"
begin

lemma unbind_miner_frame: "steps R s (unbind_miner (runtime C T) m notify s)"
proof -
  have cut: "steps R s r" if "steps R (mining_deposit e (s\<lparr>MinerBindings := M, WorkerBindings := W\<rparr>)) r"
    for e M W and r :: "('b, unit) result" and s
    by (rule after [OF R_bindings [where mb = M and wb = W] own_after [OF _ that]]) simp
  have last: "steps R t
      (let t = mining_deposit e (t\<lparr>MinerBindings := M, WorkerBindings := W\<rparr>)
       in if notify then on_unbound_hook (runtime C T) w f t else Ok () t)" for e M W w f t
    unfolding Let_def
    by (rule cut [where e = e and M = M and W = W]) (simp add: on_unbound_def removed_frame)
  show ?thesis unfolding unbind_miner_def Let_def [of "\<not> _"]
    by (auto intro!: frame_andthen stop_mining_frame last split: option.split)
qed

lemma mining_bind_frame: "steps R s (mining_bind m w s)"
proof -
  have upd: "R s (mining_deposit e (s\<lparr>MinerBindings := mb, WorkerBindings := wb, Miners := M\<rparr>))" for e mb wb M
    by (rule R_trans [OF R_bindings [where mb = mb and wb = wb] R_own]) (simp add: other_part_def mining_deposit_def)
  show ?thesis by (auto simp: mining_bind_def upd split: option.split)
qed

lemma mining_unbind_frame: "steps R s (mining_unbind (runtime C T) orig m s)"
  by (auto simp: mining_unbind_def unbind_miner_frame split: option.split)

end

section \<open>Frames of the messages\<close>

text \<open>
  What the handlers of the three routed topics leave alone, the message queue does, as long as the
  two queues themselves do not matter.
\<close>

locale queue_frame =
  fixes R :: "'b chain \<Rightarrow> 'b chain \<Rightarrow> bool" and C :: codec and T :: "'b phala_config"
  assumes queue_trans: "R s t \<Longrightarrow> R t u \<Longrightarrow> R s u"
    and queue_refl: "R s s"
    and queue_own: "R s (s\<lparr>OutboundMessages := x\<rparr>)" "R s (s\<lparr>QueuedOutboundMessage := y\<rparr>)"
    and registry_handler: "steps R s (registry_on_message (runtime C T) sender e1 s)"
    and gk_handler: "steps R s (on_gk_message_received (runtime C T) sender e2 s)"
    and report_handler: "steps R s (on_mining_message_received sender e3 s)"
begin

lemma queue_andthen:
  assumes "steps R s r" "\<And>x t. r = Ok x t \<Longrightarrow> steps R t (f x t)"
  shows "steps R s (andthen r f)"
  by (rule steps_andthen [OF _ assms]) (rule queue_trans)

lemma queue_after: "R s t \<Longrightarrow> steps R t r \<Longrightarrow> steps R s r"
  unfolding steps_def using queue_trans by blast

lemma route_message_frame: "steps R s (route_message C (runtime C T) m s)"
  unfolding route_message_def try_dispatch_def
  by (auto simp: queue_refl intro!: queue_andthen registry_handler gk_handler report_handler split: option.split)

lemma dispatch_frame: "steps R s (dispatch_message (runtime C T) m s)"
proof -
  have "steps R s (on_message_received (runtime C T) m s)"
    unfolding runtime_simps route_quiet [of C T] by (rule route_message_frame)
  then show ?thesis
    by (auto simp: dispatch_message_def steps_def intro: queue_trans queue_own split: option.split)
qed

lemma push_frames:
  "steps R s (push_message (runtime C T) orig t pl s)"
  "steps R s (force_push_pallet_message (runtime C T) orig t pl s)"
  by (auto simp: push_message_def force_push_pallet_message_def push_message_to_def dispatch_frame
      queue_refl split: option.split)

lemma mq_on_initialize_frame: "steps R s (mq_on_initialize (runtime C T) s)"
proof -
  have each: "steps R u (for_each (dispatch_message (runtime C T)) ms u)" for ms u
    by (rule steps_for_each [OF queue_refl queue_trans]) (auto intro: dispatch_frame)
  have upd: "steps R u r" if "steps R (u\<lparr>OutboundMessages := x, QueuedOutboundMessage := y\<rparr>) r"
    for u x y and r :: "('b, unit) result"
    by (rule queue_after [OF queue_trans [OF queue_own] that])
  show ?thesis
    unfolding mq_on_initialize_def Let_def dispatch_messages_def
    by (auto simp: queue_own upd [OF each] split: option.split)
qed

text \<open>An accepted message moves the sequence of its sender; the rest is a dispatch.\<close>

lemma sync_frame:
  assumes "\<And>u i. R u (u\<lparr>OffchainIngress := i\<rparr>)"
  shows "steps R s (sync_offchain_message (runtime C T) orig sm s)"
  unfolding sync_offchain_message_def Let_def
  by (auto simp: queue_refl queue_after [OF assms dispatch_frame] split: option.split)

end

section \<open>Frames of the registry\<close>

locale message_frame = pallet_frame R C T
  for R :: "'b chain \<Rightarrow> 'b chain \<Rightarrow> bool" and C :: codec and T :: "'b phala_config" +
  assumes R_registry: "beyond_registry t = beyond_registry s \<Longrightarrow> R s t"
begin

lemma registry_on_message_frame: "steps R s (registry_on_message (runtime C T) sender ev s)"
proof -
  have W: "steps R s (push_system_event (runtime C T) e
      (case Workers s w of Some x \<Rightarrow> s\<lparr>Workers := f x\<rparr> | None \<Rightarrow> s))" for e w f
    by (simp add: push_system_event_def rt.registry_push_Ok R_registry beyond_registry_def rt.outbox_def split: option.split)
  have G: "steps R s (registry_push (runtime C T) gatekeeper_launch_topic pl
      (s\<lparr>GatekeeperMasterPubkey := x\<rparr>))" for pl x
    by (simp add: rt.registry_push_Ok R_registry beyond_registry_def rt.outbox_def)
  show ?thesis unfolding registry_on_message_def Let_def
    by (simp add: G W split: message_origin.split registry_event.split option.split)
qed

lemma registry_frames:
  "steps R s (force_set_benchmark_duration orig d s)"
  "steps R s (force_register_worker (runtime C T) orig w ec oper s)"
  "steps R s (force_register_topic_pubkey orig t k s)"
  "steps R s (register_gatekeeper (runtime C T) orig g s)"
  "steps R s (register_worker (runtime C T) orig i a s)"
  "steps R s (add_pruntime T' orig h s)"
  "steps R s (remove_pruntime T' orig h s)"
  "steps R s (add_relaychain_genesis_block_hash T' orig h s)"
  "steps R s (remove_relaychain_genesis_block_hash T' orig h s)"
  unfolding force_set_benchmark_duration_def force_register_worker_def
    force_register_topic_pubkey_def register_gatekeeper_def register_worker_def add_pruntime_def
    remove_pruntime_def add_relaychain_genesis_block_hash_def
    remove_relaychain_genesis_block_hash_def push_system_event_def Let_def
  by (auto simp: rt.registry_push_Ok beyond_registry_def rt.outbox_def intro!: R_registry split: option.split sum.split)

end

sublocale message_frame \<subseteq> queue_frame
  by unfold_locales
    (auto simp: other_part_def registry_on_message_frame on_gk_message_frame on_mining_message_frame
      intro: R_trans R_own)

section \<open>Frames of the end of a block\<close>

locale block_frame = pallet_frame R C T
  for R :: "'b chain \<Rightarrow> 'b chain \<Rightarrow> bool" and C :: codec and T :: "'b phala_config" +
  assumes R_queued: "R s (s\<lparr>WithdrawalQueuedPools := q\<rparr>)" "R s (s\<lparr>WithdrawalTimestamps := t\<rparr>)"
begin

lemma force_expired_frame: "steps R s (force_expired (runtime C T) now ts s)"
proof (induction ts arbitrary: s)
  case (Cons t ts)
  have upd: "steps R s r"
    if "steps R (s\<lparr>WithdrawalQueuedPools := q\<rparr>) r" for q and r :: "('b, u64 list) result"
    by (rule after [OF R_queued(1) that])
  have "steps R s (andthen (for_each (force_shutdown (runtime C T) now) pools
      (s\<lparr>WithdrawalQueuedPools := q\<rparr>)) (\<lambda>_. force_expired (runtime C T) now ts))" for pools q
    by (rule upd [where q = q]) (intro frame_andthen frame_for_each force_shutdown_frame Cons)
  then show ?case by (auto split: option.split)
qed simp

lemma stakepool_on_finalize_frame: "steps R s (stakepool_on_finalize (runtime C T) s)"
  unfolding stakepool_on_finalize_def maybe_force_withdraw_def
  by (auto intro!: frame_andthen force_expired_frame R_queued)

end

end
