(* ===== verification/Stake_Calls.thy ===== *)
theory Stake_Calls
  imports Stake_Props Runtime_Frame
begin

text \<open>
  Every call of the running system keeps the invariant of the stake pools. The mining pallet, the
  messages and the block hooks only touch what \<open>pools_frame\<close> allows; the calls of the stake
  pool pallet are taken one by one.
\<close>

section \<open>The rest of the system\<close>

lemma stop_hook_frame: "steps pools_frame s (on_stopped w st sl s)"
  by (auto simp: on_stopped_def Let_def pool_same_def intro!: pools_frame_put split: option.split)

lemma deposit_frame: "pools_frame s t \<Longrightarrow> pools_frame s (stakepool_deposit e t)"
  by (erule pools_frame_trans) (simp add: stake_part_frame)

lemma remove_worker_from_pool_frame: "steps pools_frame s (remove_worker_from_pool w s)"
proof (cases "WorkerAssignments s w")
  case (Some pid)
  define s1 where "s1 = s\<lparr>WorkerAssignments := (WorkerAssignments s)(w := None)\<rparr>"
  have s1: "pools_frame s s1" by (rule pools_frame_same) (simp_all add: s1_def)
  show ?thesis
  proof (cases "StakePools s1 pid")
    case None
    then show ?thesis using Some s1 by (simp add: remove_worker_from_pool_def Let_def s1_def)
  next
    case P: (Some p)
    have "pools_frame s1 (put_pool pid (pool_remove_worker w p) s1)"
      by (rule pools_frame_put [OF P]) (simp add: pool_same_def pool_remove_worker_def)
    then have "pools_frame s (stakepool_deposit (PoolWorkerRemoved pid w)
        (put_pool pid (pool_remove_worker w p) s1))"
      by (intro deposit_frame pools_frame_trans [OF s1])
    then show ?thesis using P Some by (simp add: remove_worker_from_pool_def Let_def s1_def)
  qed
qed (simp add: remove_worker_from_pool_def)

lemma new_reward_frame:
  "handle_pool_new_reward T p r s = Ok p' t \<Longrightarrow> pool_same p p' \<and> stake_part t = stake_part s"
  by (auto simp: handle_pool_new_reward_def distribute_reward_def pool_same_def Let_def
      split: if_splits option.splits)

lemma on_reward_pools: "steps pools_frame s (on_reward T xs s)"
proof (induction xs arbitrary: s)
  case (Cons info xs)
  let ?r = "balance_from_fixed (Fx T) (si_payout info)"
  show ?case
  proof (cases "WorkerAssignments s (si_pubkey info)")
    case None
    then show ?thesis by (simp add: deposit_frame Let_def)
  next
    case (Some pid)
    show ?thesis
    proof (cases "StakePools s pid")
      case P: (Some p)
      show ?thesis
      proof (cases "handle_pool_new_reward T p ?r s")
        case (Ok p' t)
        note f = new_reward_frame [OF Ok]
        have "pools_frame s t" using f by (simp add: stake_part_frame)
        moreover have "StakePools t pid = Some p" using f P by (simp add: stake_part_def)
        then have "pools_frame t (put_pool pid p' t)" using f by (blast intro: pools_frame_put)
        ultimately have "pools_frame s (put_pool pid p' t)" by (rule pools_frame_trans)
        moreover have "steps pools_frame (put_pool pid p' t) (on_reward T xs (put_pool pid p' t))"
          by (rule Cons)
        ultimately have "steps pools_frame s (on_reward T xs (put_pool pid p' t))"
          unfolding steps_def using pools_frame_trans by blast
        then show ?thesis using Some P Ok by (simp add: Let_def)
      next
        case (Err e t)
        then show ?thesis using handle_pool_new_reward_frame [of T p ?r s] by auto
      qed (use Some P in \<open>simp add: Let_def\<close>)
    qed (use Some in \<open>simp add: Let_def\<close>)
  qed
qed simp

interpretation pf: message_frame pools_frame C T for C :: codec and T :: "'b phala_config"
  by unfold_locales
    (auto simp: other_part_def beyond_registry_def stop_hook_frame remove_worker_from_pool_frame
      on_reward_pools intro: pools_frame_trans pools_frame_same)

interpretation pu: binding_frame pools_frame C T for C :: codec and T :: "'b phala_config"
  by unfold_locales (simp_all add: pools_frame_same remove_worker_from_pool_frame)

interpretation pb: block_frame pools_frame C T for C :: codec and T :: "'b phala_config"
  by unfold_locales (simp_all add: pools_frame_same)

section \<open>The calls of the stake pool pallet\<close>

lemma keeps_frame: "steps pools_frame s r \<Longrightarrow> keeps stake_inv s r"
  unfolding steps_def keeps_def using stake_inv_frame by blast

lemma create_pool_keeps:
  assumes "PoolCount s + 1 \<noteq> 0"
  shows "keeps stake_inv s (create_pool orig s)"
proof (cases "ensure_signed orig")
  case (Some owner)
  let ?pid = "PoolCount s"
  define s' where "s' = stakepool_deposit (PoolCreated owner ?pid)
      ((put_pool ?pid (new_pool ?pid owner) s)\<lparr>PoolCount := ?pid + 1\<rparr>)"
  have fields: "StakePools s' = (StakePools s)(?pid \<mapsto> new_pool ?pid owner)"
    "PoolStakers s' = PoolStakers s" "PoolCount s' = PoolCount s + 1"
    by (simp_all add: s'_def stakepool_deposit_def put_pool_def)
  have lt: "pid < PoolCount s + 1" if "pid \<le> PoolCount s" for pid
    using that unatSuc [of "PoolCount s"] assms
    by (simp add: word_less_nat_alt word_le_nat_alt add.commute)
  have "stake_inv s'" if inv: "stake_inv s"
  proof -
    have none: "StakePools s ?pid = None"
      using stake_invD(3) [OF inv, of ?pid] by (cases "StakePools s ?pid") auto
    have nostakers: "PoolStakers s (?pid, who) = None" for who
      using stake_invD(7) [OF inv, of ?pid who] none by (cases "PoolStakers s (?pid, who)") auto
    have "{k. k \<in> dom (PoolStakers s) \<and> fst k = ?pid} = {}" using nostakers by auto
    then have zero: "staked s ?pid = 0" by (simp only: staked_def) simp
    have q: "queue_ok s' = queue_ok s" by (intro ext) (simp add: queue_ok_def fields)
    have "p_pid p = pid \<and> pid < PoolCount s' \<and> unat (total_shares p) = staked s' pid \<and>
        queue_ok s' pid (withdraw_queue p)" if p: "StakePools s' pid = Some p" for pid p
    proof (cases "pid = ?pid")
      case True
      then have "p = new_pool ?pid owner" using p by (simp add: fields)
      then show ?thesis using True zero lt
        by (simp add: new_pool_def staked_cong [OF fields(2)] fields(3) queue_ok_def)
    next
      case False
      then have "StakePools s pid = Some p" using p by (simp add: fields)
      then show ?thesis using stake_invD(2-5) [OF inv] lt
        by (simp add: staked_cong [OF fields(2)] q fields(3) less_imp_le)
    qed
    moreover have "u_user u = who \<and> StakePools s' pid \<noteq> None"
      if "PoolStakers s' (pid, who) = Some u" for pid who u
      using that stake_invD(6,7) [OF inv] by (simp add: fields)
    ultimately show ?thesis unfolding stake_inv_def using stake_invD(1) [OF inv] fields(2) by simp
  qed
  then show ?thesis using Some by (simp add: create_pool_def Let_def s'_def put_pool_def)
qed (simp add: create_pool_def)

lemma add_worker_frame: "steps pools_frame s (add_worker T orig pid w s)"
proof -
  have *: "steps pools_frame t (Ok () (stakepool_deposit e ((put_pool pid (p\<lparr>p_workers := ws\<rparr>) t)
      \<lparr>WorkerAssignments := wa\<rparr>)))" if "StakePools t pid = Some p" for t p ws e wa
  proof -
    have "pools_frame t (put_pool pid (p\<lparr>p_workers := ws\<rparr>) t)"
      by (rule pools_frame_put [OF that]) (simp add: pool_same_def)
    moreover have "pools_frame u (stakepool_deposit e (u\<lparr>WorkerAssignments := wa\<rparr>))" for u
      by (rule stake_part_frame) (simp add: stake_part_def stakepool_deposit_def)
    ultimately have "pools_frame t (stakepool_deposit e ((put_pool pid (p\<lparr>p_workers := ws\<rparr>) t)
      \<lparr>WorkerAssignments := wa\<rparr>))" by (rule pools_frame_trans)
    then show ?thesis by simp
  qed
  have bind: "StakePools t = StakePools s" if "mining_bind m w s = Ok () t" for m t
    using that by (auto simp: mining_bind_def mining_deposit_def split: option.splits if_splits)
  have frame: "steps pools_frame s (map_err g (mining_bind m w s))" for g m
    using pu.mining_bind_frame [of s m w] by (cases "mining_bind m w s") simp_all
  show ?thesis unfolding add_worker_def Let_def
    by (auto intro!: pf.frame_andthen frame * simp: bind split: option.split)
qed

lemma remove_worker_frame: "steps pools_frame s (remove_worker (runtime C T) orig pid w s)"
  unfolding remove_worker_def
  by (auto intro!: pf.frame_andthen pu.unbind_miner_frame remove_worker_from_pool_frame split: option.split)

lemma settings_frame:
  "steps pools_frame s (set_cap orig pid cap s)"
  "steps pools_frame s (set_payout_pref orig pid c s)"
  "steps pools_frame s (set_mining_enable T orig b s)"
  unfolding set_cap_def set_payout_pref_def set_mining_enable_def
  by (auto intro!: deposit_frame pools_frame_put pools_frame_same simp: pool_same_def
      split: option.split)

end
