(* ===== verification/Stake_Reach.thy ===== *)
theory Stake_Reach
  imports Stake_Calls
begin

text \<open>
  The calls that move stake: claiming, contributing, withdrawing, reclaiming and reconciling keep
  the books, and with them every reachable storage has an orderly ledger.
\<close>

lemma held_le_staked: "stake_inv s \<Longrightarrow> held s pid who \<le> staked s pid"
proof (cases "PoolStakers s (pid, who)")
  case (Some u)
  assume inv: "stake_inv s"
  have "unat (u_shares (the (PoolStakers s (pid, who)))) \<le> staked s pid"
    unfolding staked_def
    by (rule member_le_sum) (use Some stake_invD(1) [OF inv] in auto)
  then show ?thesis using Some by (simp add: held_def)
qed (simp add: held_def)

section \<open>Claiming\<close>

lemma collect_rewards_same:
  assumes "collect_rewards F who p user = (r, p', user')"
  shows "pool_same p p'"
    and "user = None \<Longrightarrow> user' = None"
    and "user = Some u \<Longrightarrow> \<exists>u'. user' = Some u' \<and> u_shares u' = u_shares u \<and> u_user u' = u_user u"
  using assms by (auto simp: collect_rewards_def Let_def pool_same_def split: if_splits option.splits)

lemma claim_rewards_keeps: "keeps stake_inv s (claim_rewards T orig pid target s)"
proof (cases "claim_rewards T orig pid target s")
  case (Ok x s')
  then obtain who p rewards p' user t where who: "ensure_signed orig = Some who"
    and p: "StakePools s pid = Some p"
    and c: "collect_rewards (Fx T) who p (PoolStakers s (pid, who)) = (rewards, p', user)"
    and w: "withdraw_subsidy_pool T target rewards s = Ok () t"
    and s': "s' = stakepool_deposit (RewardsWithdrawn pid who rewards)
       (case user of Some u \<Rightarrow> put_staker pid who u (put_pool pid p' t) | None \<Rightarrow> put_pool pid p' t)"
    by (auto simp: claim_rewards_def Let_def andthen_eq_OkE split: option.splits prod.splits if_splits
        elim!: andthen_eq_OkE)
  have t: "stake_part t = stake_part s"
    using w by (auto simp: withdraw_subsidy_pool_def stake_part_def split: sum.splits)
  note same = collect_rewards_same [OF c]
  have "stake_inv s'" if inv: "stake_inv s"
  proof (cases "PoolStakers s (pid, who)")
    case None
    then have "s' = stakepool_deposit (RewardsWithdrawn pid who rewards) (put_pool pid p' t)"
      using same(2) s' by simp
    moreover have "pools_frame s (put_pool pid p' t)"
      using pools_frame_trans [OF stake_part_frame [OF t]] pools_frame_put [of t pid p p'] same(1) p t
      by (simp add: stake_part_def)
    ultimately show ?thesis using stake_inv_frame [OF _ inv] deposit_frame by blast
  next
    case (Some u)
    then obtain u' where u': "user = Some u'" "u_shares u' = u_shares u" "u_user u' = u_user u"
      using same(3) by blast
    note sp = stake_partD [OF t]
    show ?thesis
    proof (rule stake_inv_update [OF inv p])
      show "StakePools s' = (StakePools s)(pid \<mapsto> p')"
        "PoolStakers s' = (PoolStakers s)((pid, who) \<mapsto> u')" "PoolCount s' = PoolCount s"
        by (simp_all add: s' u' sp stakepool_deposit_def put_staker_def put_pool_def)
      then show "queue_ok s' pid (withdraw_queue p')"
        using stake_invD(5) [OF inv p] same(1) by (auto simp: queue_ok_def pool_same_def)
      show "p_pid p' = pid" "u_user u' = who"
        "unat (total_shares p') + held s pid who = unat (total_shares p) + unat (u_shares u')"
        using same(1) stake_invD(2) [OF inv p] stake_invD(6) [OF inv Some] u' Some
        by (simp_all add: pool_same_def held_def)
    qed
  qed
  then show ?thesis by (simp add: Ok)
next
  case (Err e s')
  then have "s' = s" by (auto simp: claim_rewards_def Let_def withdraw_subsidy_pool_def
        split: option.splits prod.splits if_splits sum.splits)
  then show ?thesis by (simp add: Err)
qed simp

section \<open>Withdrawing\<close>

lemma withdraw_now_OkE:
  assumes "withdraw_now T p u ws s = Ok (p', u') s'"
  obtains d where "unat (u_shares u) = unat (u_shares u') + d"
    "unat (total_shares p) = unat (total_shares p') + d" "u_user u' = u_user u"
    "p_pid p' = p_pid p" "withdraw_queue p' = withdraw_queue p" "stake_part s' = stake_part s"
proof (cases "ws > 0")
  case True
  obtain u1 s1 where sl: "maybe_settle_slash T p u s = (u1, s1)" by fastforce
  note sf = maybe_settle_slash_frame [OF sl]
  from assms True obtain reduced dust where rs: "remove_stake (Fx T) ws p u1 = Some ((reduced, dust), p', u')"
    and s': "s' = stakepool_deposit (Withdrawal (p_pid p') (u_user u') reduced)
                 (ledger_reduce T (u_user u') reduced dust s1)"
    by (auto simp: withdraw_now_def sl split: option.splits)
  from rs show thesis
  proof (rule remove_stake_SomeE)
    fix d
    assume "unat (u_shares u1) = unat (u_shares u') + (unat ws + d)"
      "unat (total_shares p) = unat (total_shares p') + (unat ws + d)" "u_user u' = u_user u1"
      and p': "p' = p\<lparr>total_shares := total_shares p', total_stake := total_stake p',
                      free_stake := free_stake p'\<rparr>"
    moreover have "p_pid p' = p_pid p" "withdraw_queue p' = withdraw_queue p"
      by (subst p', simp)+
    ultimately show thesis using that [of "unat ws + d"] sf s' by simp
  qed
next
  case False
  then show thesis using assms that [of 0] by (simp add: withdraw_now_def)
qed

lemma queue_withdrawal_ok:
  assumes "queue_withdrawal p u q s = (p', s')"
  shows "p_pid p' = p_pid p" "total_shares p' = total_shares p" "stake_part s' = stake_part s"
    and "queue_ok t pid (withdraw_queue p) \<Longrightarrow> PoolStakers t (pid, u_user u) \<noteq> None \<Longrightarrow>
      q = 0 \<or> is_nondust_balance q \<Longrightarrow> queue_ok t pid (withdraw_queue p')"
proof -
  show "p_pid p' = p_pid p" "total_shares p' = total_shares p" "stake_part s' = stake_part s"
    using assms by (auto simp: queue_withdrawal_def Let_def split: if_splits)
  show "queue_ok t pid (withdraw_queue p')" if "queue_ok t pid (withdraw_queue p)"
    "PoolStakers t (pid, u_user u) \<noteq> None" "q = 0 \<or> is_nondust_balance q"
  proof (cases "q > 0")
    case True
    then have nd: "is_nondust_balance q" using that(3) by auto
    have "withdraw_queue p' = filter (\<lambda>w. w_user w \<noteq> u_user u) (withdraw_queue p) @
        [\<lparr>w_user = u_user u, w_shares = q, w_start_time = now_sec s\<rparr>]"
      using assms True by (auto simp: queue_withdrawal_def Let_def)
    then show ?thesis using that nd by (auto simp: queue_ok_def distinct_map_filter)
  qed (use assms that in \<open>simp add: queue_withdrawal_def\<close>)
qed

lemma try_withdraw_OkE:
  fixes s :: "'b chain"
  assumes "try_withdraw T p u shares s = Ok (p', u') s'"
  obtains d where "unat (u_shares u) = unat (u_shares u') + d"
    "unat (total_shares p) = unat (total_shares p') + d" "u_user u' = u_user u"
    "p_pid p' = p_pid p" "stake_part s' = stake_part s"
    "\<And>pid. queue_ok s pid (withdraw_queue p) \<Longrightarrow> PoolStakers s (pid, u_user u) \<noteq> None \<Longrightarrow>
       queue_ok s pid (withdraw_queue p')"
proof -
  define u0 where "u0 = settle_user_pending_reward (Fx T) p u"
  obtain free where free: "(case share_price (Fx T) p of
        Some price \<Rightarrow> (if price \<noteq> fp_0 then bdiv (Fx T) (free_stake p) price else Some shares)
      | None \<Rightarrow> Some shares) = Some free"
    using assms by (auto simp: try_withdraw_def Let_def split: option.splits)
  define ws where "ws = fst (extract_dust (min shares free))"
  define qs where "qs = fst (extract_dust (shares - ws))"
  have eq: "try_withdraw T p u shares s = andthen (withdraw_now T p u0 ws s)
      (\<lambda>(p, u) s. let (p, s) = queue_withdrawal p u qs s in Ok (p, reset_pending_reward (Fx T) p u) s)"
    unfolding try_withdraw_def Let_def u0_def [symmetric] free option.case ws_def [symmetric]
      qs_def [symmetric] by simp
  then obtain p1 u1 s1 where now: "withdraw_now T p u0 ws s = Ok (p1, u1) s1"
    using assms by (cases "withdraw_now T p u0 ws s") auto
  obtain p2 s2 where q: "queue_withdrawal p1 u1 qs s1 = (p2, s2)" by fastforce
  have "Ok (p2, reset_pending_reward (Fx T) p2 u1) s2 = (Ok (p', u') s' :: ('b, _) result)"
    using assms unfolding eq now by (auto simp: q)
  then have res: "p' = p2" "u' = reset_pending_reward (Fx T) p2 u1" "s' = s2" by blast+
  have qnd: "qs = 0 \<or> is_nondust_balance qs"
    by (auto simp: qs_def extract_dust_def is_nondust_balance_def)
  from now show thesis
  proof (rule withdraw_now_OkE)
    fix d
    assume "unat (u_shares u0) = unat (u_shares u1) + d"
      "unat (total_shares p) = unat (total_shares p1) + d" "u_user u1 = u_user u0"
      "p_pid p1 = p_pid p" "withdraw_queue p1 = withdraw_queue p" "stake_part s1 = stake_part s"
    then show thesis
      using that [of d] queue_withdrawal_ok(1-3) [OF q] queue_withdrawal_ok(4) [OF q, where t = s] qnd
      by (simp add: res u0_def)
  qed
qed

lemma withdraw_keeps: "keeps stake_inv s (withdraw T orig pid shares s)"
proof (cases "withdraw T orig pid shares s")
  case (Ok x s')
  then obtain who u p p' u' t where u: "PoolStakers s (pid, who) = Some u"
    and p: "StakePools s pid = Some p" and tw: "try_withdraw T p u shares s = Ok (p', u') t"
    and s': "s' = put_pool pid p' (put_staker pid who u' t)"
    by (auto simp: withdraw_def split: option.splits if_splits elim!: andthen_eq_OkE)
  have "stake_inv s'" if inv: "stake_inv s"
    using tw
  proof (rule try_withdraw_OkE)
    fix d
    assume d: "unat (u_shares u) = unat (u_shares u') + d"
      "unat (total_shares p) = unat (total_shares p') + d" "u_user u' = u_user u"
      "p_pid p' = p_pid p" and t: "stake_part t = stake_part s"
      and q: "\<And>pid. queue_ok s pid (withdraw_queue p) \<Longrightarrow> PoolStakers s (pid, u_user u) \<noteq> None \<Longrightarrow>
         queue_ok s pid (withdraw_queue p')"
    note sp = stake_partD [OF t]
    have user: "u_user u = who" by (rule stake_invD(6) [OF inv u])
    have "queue_ok s pid (withdraw_queue p')" using q [OF stake_invD(5) [OF inv p]] u user by simp
    show ?thesis
    proof (rule stake_inv_update [OF inv p])
      show "StakePools s' = (StakePools s)(pid \<mapsto> p')"
        "PoolStakers s' = (PoolStakers s)((pid, who) \<mapsto> u')" "PoolCount s' = PoolCount s"
        by (simp_all add: s' sp put_staker_def put_pool_def)
      then show "queue_ok s' pid (withdraw_queue p')"
        using \<open>queue_ok s pid (withdraw_queue p')\<close> by (auto simp: queue_ok_def)
      show "p_pid p' = pid" "u_user u' = who"
        "unat (total_shares p') + held s pid who = unat (total_shares p) + unat (u_shares u')"
        using d user stake_invD(2) [OF inv p] u by (simp_all add: held_def)
    qed
  qed
  then show ?thesis by (simp add: Ok)
next
  case (Err e s')
  have "withdraw_now T p u ws s \<noteq> Err e t" for p u ws s t
    by (auto simp: withdraw_now_def split: option.splits prod.splits)
  then have "try_withdraw T p u shares s \<noteq> Err e t" for p u t
    by (auto simp: try_withdraw_def Let_def andthen_def split: option.splits outcome.splits prod.splits)
  then have "s' = s" using Err
    by (auto simp: withdraw_def andthen_def split: option.splits if_splits outcome.splits)
  then show ?thesis by (simp add: Err)
qed simp

section \<open>Contributing and reclaiming\<close>

text \<open>
  A contribution is in range when neither the pool's shares nor the new ones can overflow 128
  bits; the balances of the chain are far below.
\<close>

definition contribution_fits :: "pool_id \<Rightarrow> u128 \<Rightarrow> 'b chain \<Rightarrow> bool" where
  "contribution_fits pid a s \<longleftrightarrow> (case StakePools s pid of
     Some p \<Rightarrow> unat (total_shares p) + max (unat a) (2 ^ 64) < 2 ^ 128 | None \<Rightarrow> True)"

lemma new_shares_bound:
  assumes fx: "fixed_arith F"
    and sh: "(case share_price F p of Some price \<Rightarrow> (if price \<noteq> fp_0 then bdiv F a price else Some a)
      | None \<Rightarrow> Some a) = Some shares"
  shows "unat shares \<le> max (unat a) (2 ^ 64)"
proof -
  have "unat (balance_from_fixed F v) \<le> 2 ^ 64" for v
    using fixed_arith.from_fixed_lt [OF fx, of v] by simp
  then show ?thesis using sh
    by (auto simp: bdiv_def max.coboundedI1 max.coboundedI2 split: option.splits if_splits)
qed

lemma new_staker_simps [simp]: "u_shares (new_staker who) = 0" "u_user (new_staker who) = who"
  by (simp_all add: new_staker_def)

lemma contribute_keeps:
  assumes fx: "fixed_arith (Fx T)" and fits: "contribution_fits pid a s"
    and res: "contribute T orig pid a s = Some r"
  shows "keeps stake_inv s r"
proof (cases "\<exists>e. r = Err e s")
  case False
  obtain who where who: "ensure_signed orig = Some who"
    using res False by (cases "ensure_signed orig") (auto simp: contribute_def)
  have c1: "\<not> a < MinContribution T"
    using res False by (auto simp: contribute_def who)
  have c2: "\<not> free_balance (Cur T) who (bank s) - ledger_query who s < a"
    using res False c1 by (auto simp: contribute_def who)
  obtain p where p: "StakePools s pid = Some p"
    using res False c1 c2 by (cases "StakePools s pid") (auto simp: contribute_def who)
  define u0 where "u0 = (case PoolStakers s (pid, who) of
      Some u \<Rightarrow> settle_user_pending_reward (Fx T) p u | None \<Rightarrow> new_staker who)"
  obtain u1 s1 where us: "(case PoolStakers s (pid, who) of
      Some u \<Rightarrow> maybe_settle_slash T p (settle_user_pending_reward (Fx T) p u) s
    | None \<Rightarrow> (new_staker who, s)) = (u1, s1)" by fastforce
  have cap: "\<not> (case p_cap p of Some cap \<Rightarrow> saturating_sub cap (total_stake p) < a | None \<Rightarrow> False)"
    "total_shares p = 0 \<or> total_stake p > 0"
    using res False c1 c2 p by (auto simp: contribute_def who split: if_splits)
  note unfolded = res [unfolded contribute_def who option.case p us prod.case Let_def
      if_not_P [OF c1] if_not_P [OF c2] if_not_P [OF cap(1)]]
  show ?thesis
  proof (cases "add_stake (Fx T) a p u1")
    case None
    then show ?thesis using unfolded cap(2) by simp
  next
    case (Some pu)
    obtain p2 u2 where pu: "pu = (p2, u2)" by fastforce
    note add = Some [unfolded pu]
    define s2 where "s2 = ledger_accrue T who a (put_staker pid who u2 s1)"
    obtain q where q: "try_process_withdraw_queue T p2 s2 = Some q"
      and r: "r = andthen q (\<lambda>p t. Ok () (stakepool_deposit (Contribution pid who a) (put_pool pid p t)))"
      using unfolded cap(2) by (auto simp: add s2_def)
    have "stake_inv t" if inv: "stake_inv s" and l: "left_state r = Some t" for t
    proof -
      note pinv = stake_invD(2-5) [OF inv p]
      have u1: "u_shares u1 = u_shares u0" "u_user u1 = u_user u0" and s1: "stake_part s1 = stake_part s"
        using us maybe_settle_slash_frame [of T p _ s u1 s1]
        by (auto simp: u0_def split: option.splits)
      have u0: "unat (u_shares u0) = held s pid who" "u_user u0 = who"
        using stake_invD(6) [OF inv, of pid who] by (auto simp: u0_def held_def split: option.splits)
      from add obtain shares where
        sh: "(case share_price (Fx T) p of
            Some price \<Rightarrow> (if price \<noteq> fp_0 then bdiv (Fx T) a price else Some a)
          | None \<Rightarrow> Some a) = Some shares"
        and upd: "u_shares u2 = saturating_add (u_shares u1) shares"
          "total_shares p2 = total_shares p + shares" "u_user u2 = u_user u1"
        and p2: "p2 = p\<lparr>total_shares := total_shares p2, total_stake := total_stake p2,
                        free_stake := free_stake p2\<rparr>"
        by (rule add_stake_SomeE)
      have same: "p_pid p2 = p_pid p" "withdraw_queue p2 = withdraw_queue p"
        by (subst p2, simp)+
      have bound: "unat (total_shares p) + unat shares < 2 ^ 128"
        using fits p new_shares_bound [OF fx sh] by (simp add: contribution_fits_def)
      then have total: "unat (total_shares p2) = unat (total_shares p) + unat shares"
        by (simp add: upd unat_plus_small)
      have "unat (u_shares u1) \<le> unat (total_shares p)"
        using u1 u0 held_le_staked [OF inv, of pid who] pinv(3) by simp
      then have user: "unat (u_shares u2) = unat (u_shares u1) + unat shares"
        using bound by (simp add: upd unat_saturating_add)
      have sp: "stake_part s2 = stake_part (put_staker pid who u2 s)"
        unfolding s2_def using stake_part_put_cong(2) [OF s1] by simp
      note sp' = stake_partD [OF sp]
      have "stake_inv (put_pool pid p2 s2)"
      proof (rule stake_inv_update [OF inv p])
        show "StakePools (put_pool pid p2 s2) = (StakePools s)(pid \<mapsto> p2)"
          "PoolStakers (put_pool pid p2 s2) = (PoolStakers s)((pid, who) \<mapsto> u2)"
          "PoolCount (put_pool pid p2 s2) = PoolCount s"
          using sp' by (simp_all add: put_pool_def put_staker_def)
        then show "queue_ok (put_pool pid p2 s2) pid (withdraw_queue p2)"
          using pinv(4) same by (auto simp: queue_ok_def)
        show "p_pid p2 = pid" "u_user u2 = who"
          "unat (total_shares p2) + held s pid who = unat (total_shares p) + unat (u_shares u2)"
          using same pinv(1) upd u1 u0 total user by simp_all
      qed
      then have start: "stake_inv (put_pool (p_pid p2) p2 s2)" using same pinv(1) by simp
      show ?thesis
      proof (cases q)
        case (Ok p3 s3)
        have "p_pid p3 = p_pid p2 \<and> stake_inv (put_pool (p_pid p2) p3 s3)"
          by (rule try_process_keeps [OF q [unfolded Ok] start])
        moreover have "t = stakepool_deposit (Contribution pid who a) (put_pool pid p3 s3)"
          using l r Ok by simp
        ultimately show ?thesis using same pinv(1) by simp
      next
        case (Err e s3)
        then show ?thesis using q try_process_no_Err by metis
      qed (use l r in simp)
    qed
    then show ?thesis by (simp add: keeps_def)
  qed
qed auto

lemma credit_reclaimed_same:
  "credit_reclaimed pid orig sl p s = (p', s') \<Longrightarrow> pool_same p p' \<and> stake_part s' = stake_part s"
  by (auto simp: credit_reclaimed_def slash_pool_def pool_same_def Let_def
      split: if_splits prod.splits)

lemma handle_reclaim_keeps:
  assumes res: "handle_reclaim T pid orig sl s = Some r"
  shows "keeps stake_inv s r"
proof (cases "StakePools s pid")
  case None
  then show ?thesis using res by (auto simp: handle_reclaim_def)
next
  case (Some p)
  obtain p1 s1 where c: "credit_reclaimed pid orig sl p s = (p1, s1)" by fastforce
  note same = credit_reclaimed_same [OF c]
  obtain q where q: "try_process_withdraw_queue T p1 s1 = Some q"
    and r: "r = andthen q (\<lambda>p s. Ok () (put_pool pid p s))"
    using res Some by (auto simp: handle_reclaim_def c)
  have "stake_inv t" if inv: "stake_inv s" and l: "left_state r = Some t" for t
  proof -
    have pid: "p_pid p1 = pid" using same stake_invD(2) [OF inv Some] by (simp add: pool_same_def)
    have P: "StakePools s1 pid = Some p" using same Some by (simp add: stake_part_def)
    have "pools_frame s (put_pool pid p1 s1)"
      using same by (blast intro: pools_frame_trans stake_part_frame pools_frame_put [OF P])
    then have start: "stake_inv (put_pool (p_pid p1) p1 s1)"
      using stake_inv_frame [OF _ inv] pid by simp
    show ?thesis
    proof (cases q)
      case (Ok p3 s3)
      have "stake_inv (put_pool (p_pid p1) p3 s3)"
        using try_process_keeps [OF q [unfolded Ok] start] by simp
      then show ?thesis using l r Ok pid by simp
    next
      case (Err e s3)
      then show ?thesis using q try_process_no_Err by metis
    qed (use l r in simp)
  qed
  then show ?thesis by (simp add: keeps_def)
qed

lemma reclaim_pool_worker_keeps:
  assumes res: "reclaim_pool_worker T orig pid w s = Some r"
  shows "keeps stake_inv s r"
proof -
  let ?a = "pool_sub_account T pid w"
  have fr: "keeps stake_inv s (reclaim T ?a s)" by (rule keeps_frame) (rule pf.reclaim_frame)
  have drop: "stake_inv (s\<lparr>SubAccountPreimages := m\<rparr>) = stake_inv s" for m and s :: "'a chain"
    by (rule stake_inv_cong) (simp add: stake_part_def)
  show ?thesis
  proof (cases "ensure_signed orig = None \<or> StakePools s pid = None")
    case True
    then show ?thesis using res by (auto simp: reclaim_pool_worker_def split: option.splits)
  next
    case False
    show ?thesis
    proof (cases "reclaim T ?a s")
      case (Ok x t)
      obtain o' sl where x: "x = (o', sl)" by fastforce
      obtain h where h: "handle_reclaim T pid o' sl t = Some h"
        and r: "r = andthen h (\<lambda>_ s. Ok () (s\<lparr>SubAccountPreimages := (SubAccountPreimages s)(?a := None)\<rparr>))"
        using res False Ok by (auto simp: reclaim_pool_worker_def Let_def x split: option.splits)
      have "stake_inv s \<longrightarrow> stake_inv t" using fr Ok by simp
      moreover have "keeps stake_inv t r" unfolding r
        by (rule keeps_andthen [OF handle_reclaim_keeps [OF h]]) (simp add: drop)
      ultimately show ?thesis unfolding keeps_def by blast
    next
      case (Err e t)
      then show ?thesis using res False fr
        by (auto simp: reclaim_pool_worker_def Let_def split: option.splits)
    next
      case Panic
      then show ?thesis using res False
        by (auto simp: reclaim_pool_worker_def Let_def split: option.splits)
    qed
  qed
qed

lemma queue_ok_remove_at: "queue_ok s pid q \<Longrightarrow> queue_ok s pid (remove_at i q)"
proof -
  assume q: "queue_ok s pid q"
  have "distinct (map w_user (take i q @ drop (Suc i) q))"
  proof (cases "i < length q")
    case True
    then have "distinct (map w_user (take i q @ q ! i # drop (Suc i) q))"
      using q by (simp add: queue_ok_def id_take_nth_drop [symmetric])
    then show ?thesis by auto
  qed (use q in \<open>simp add: queue_ok_def\<close>)
  then show ?thesis using q set_remove_at_subset [of i q] by (auto simp: queue_ok_def remove_at_def)
qed

lemma queue_ok_update:
  assumes "queue_ok s pid q" "i < length q" "is_nondust_balance n"
  shows "queue_ok s pid (q[i := (q ! i)\<lparr>w_shares := n\<rparr>])"
proof -
  have "map w_user (q[i := (q ! i)\<lparr>w_shares := n\<rparr>]) = map w_user q"
    using assms(2) by (simp add: map_update) (metis list_update_id nth_map)
  then show ?thesis using assms set_update_subset_insert [of q i "(q ! i)\<lparr>w_shares := n\<rparr>"]
    by (auto simp: queue_ok_def)
qed

lemma reconcile_keeps: "keeps stake_inv s (reconcile_withdraw_queue orig pid account s)"
proof (cases "reconcile_withdraw_queue orig pid account s")
  case (Ok x t)
  have "stake_inv t" if inv: "stake_inv s"
  proof (cases "t = s")
    case False
    then obtain p u i q' where p: "StakePools s pid = Some p"
      and i: "find_index (\<lambda>req. w_user req = account \<and> w_shares req > fst (extract_dust (u_shares u)))
          (withdraw_queue p) = Some i"
      and q': "q' = (if fst (extract_dust (u_shares u)) = 0 then remove_at i (withdraw_queue p)
          else (withdraw_queue p)[i := (withdraw_queue p ! i)\<lparr>w_shares := fst (extract_dust (u_shares u))\<rparr>])"
      and t: "t = put_pool pid (p\<lparr>withdraw_queue := q'\<rparr>) s"
      and u: "PoolStakers s (pid, account) = Some u"
      using Ok by (auto simp: reconcile_withdraw_queue_def Let_def split: option.splits if_splits)
    note qok = stake_invD(5) [OF inv p]
    have "queue_ok s pid q'"
      using find_index_Some [OF i] qok extract_dust_nondust [of "u_shares u"]
        queue_ok_remove_at [OF qok, of i]
        queue_ok_update [OF qok, of i "fst (extract_dust (u_shares u))"]
      by (auto simp: q' extract_dust_def)
    then have qt: "queue_ok t pid q'" by (simp add: queue_ok_def t put_pool_def)
    show ?thesis
      by (rule stake_inv_update [OF inv p, where p' = "p\<lparr>withdraw_queue := q'\<rparr>" and u' = u and who = account])
        (use u qt stake_invD(2,6) [OF inv] p in \<open>auto simp: t put_pool_def held_def fun_upd_triv\<close>)
  qed (use inv in simp)
  then show ?thesis by (simp add: Ok)
qed (auto simp: reconcile_withdraw_queue_def Let_def split: option.splits if_splits)

lemma pool_start_mining_frame:
  "steps pools_frame s (pool_start_mining (runtime C T) orig pid w stake s)"
proof -
  have *: "steps pools_frame t (Ok () ((put_pool pid (p\<lparr>free_stake := n\<rparr>) t)\<lparr>SubAccountPreimages := m\<rparr>))"
    if p: "StakePools s pid = Some p" and ok: "start_mining (runtime C T) a stake s = Ok x t"
    for p n m t a x
  proof -
    have "pools_frame s t" using pf.start_mining_frame [of s C T a stake] ok by simp
    then have "rel_option pool_same (Some p) (StakePools t pid)"
      using p unfolding pools_frame_def by metis
    then obtain p' where p': "StakePools t pid = Some p'" "pool_same p p'"
      by (auto simp: option_rel_Some1)
    have "pools_frame t (put_pool pid (p\<lparr>free_stake := n\<rparr>) t)"
      by (rule pools_frame_put [OF p'(1)]) (use p'(2) in \<open>simp add: pool_same_def\<close>)
    moreover have "pools_frame u (u\<lparr>SubAccountPreimages := m\<rparr>)" for u :: "'a chain"
      by (rule pools_frame_same) simp_all
    ultimately have "pools_frame t ((put_pool pid (p\<lparr>free_stake := n\<rparr>) t)\<lparr>SubAccountPreimages := m\<rparr>)"
      by (rule pools_frame_trans)
    then show ?thesis by simp
  qed
  show ?thesis unfolding pool_start_mining_def Let_def
    by (auto intro!: pf.frame_andthen pf.start_mining_frame *
        split: option.split)
qed

lemma pool_stop_mining_frame: "steps pools_frame s (pool_stop_mining (runtime C T) orig pid w s)"
  unfolding pool_stop_mining_def by (auto intro!: pf.stop_mining_frame split: option.split)

end
