(* ===== verification/Phala_System.thy ===== *)
theory Phala_System
  imports Stake_Reach
begin

text \<open>
  The Phala pallets as one system: an operation is a dispatchable call of one of the four pallets
  or a hook of the block, executed on the configuration of the runtime. Reachability and the
  frames that say which pallet's storage an operation leaves alone.
\<close>

section \<open>Operations, steps, reachability\<close>

datatype phala_op =
    \<comment> \<open>message queue\<close>
    SyncMessage origin signed_message
  | PushMessage origin topic bytes
  | ForcePush origin topic bytes
  | InitBlock
    \<comment> \<open>registry\<close>
  | SetBenchmarkDuration origin u32
  | ForceRegisterWorker origin worker_key bytes "account_id option"
  | RegisterTopicPubkey origin bytes bytes
  | RegisterGatekeeper origin worker_key
  | RegisterWorker origin worker_registration_info attestation
  | AddPRuntime origin bytes
  | RemovePRuntime origin bytes
  | AddGenesisHash origin bytes
  | RemoveGenesisHash origin bytes
    \<comment> \<open>mining\<close>
  | MiningUnbind origin account_id
  | ForceHeartbeat origin
  | ForceStart origin account_id u128
  | ForceStop origin account_id
  | SetCoolDown origin u64
  | UpdateTokenomic origin tokenomic_params
  | FinalizeMining block_num
    \<comment> \<open>stake pool\<close>
  | CreatePool origin
  | AddWorker origin pool_id worker_key
  | RemoveWorker origin pool_id worker_key
  | SetCap origin pool_id u128
  | SetPayoutPref origin pool_id u32
  | ClaimRewards origin pool_id account_id
  | Contribute origin pool_id u128
  | Withdraw origin pool_id u128
  | StartMining origin pool_id worker_key u128
  | StopMining origin pool_id worker_key
  | ReclaimWorker origin pool_id worker_key
  | SetMiningEnable origin bool
  | ReconcileQueue origin pool_id account_id
  | FinalizeStakePool
    \<comment> \<open>the time stamp of a new block\<close>
  | NewTimestamp u64

fun phala_exec :: "codec \<Rightarrow> 'b phala_config \<Rightarrow> phala_op \<Rightarrow> 'b chain \<Rightarrow> ('b, unit) result option" where
  "phala_exec C T (SyncMessage orig sm) s = Some (sync_offchain_message (runtime C T) orig sm s)"
| "phala_exec C T (PushMessage orig t pl) s = Some (push_message (runtime C T) orig t pl s)"
| "phala_exec C T (ForcePush orig t pl) s = Some (force_push_pallet_message (runtime C T) orig t pl s)"
| "phala_exec C T InitBlock s = Some (mq_on_initialize (runtime C T) s)"
| "phala_exec C T (SetBenchmarkDuration orig d) s = Some (force_set_benchmark_duration orig d s)"
| "phala_exec C T (ForceRegisterWorker orig w ec op) s =
     Some (force_register_worker (runtime C T) orig w ec op s)"
| "phala_exec C T (RegisterTopicPubkey orig t k) s = Some (force_register_topic_pubkey orig t k s)"
| "phala_exec C T (RegisterGatekeeper orig g) s = Some (register_gatekeeper (runtime C T) orig g s)"
| "phala_exec C T (RegisterWorker orig i a) s = Some (register_worker (runtime C T) orig i a s)"
| "phala_exec C T (AddPRuntime orig h) s = Some (add_pruntime (runtime C T) orig h s)"
| "phala_exec C T (RemovePRuntime orig h) s = Some (remove_pruntime (runtime C T) orig h s)"
| "phala_exec C T (AddGenesisHash orig h) s =
     Some (add_relaychain_genesis_block_hash (runtime C T) orig h s)"
| "phala_exec C T (RemoveGenesisHash orig h) s =
     Some (remove_relaychain_genesis_block_hash (runtime C T) orig h s)"
| "phala_exec C T (MiningUnbind orig m) s = Some (mining_unbind (runtime C T) orig m s)"
| "phala_exec C T (ForceHeartbeat orig) s = Some (force_heartbeat (runtime C T) orig s)"
| "phala_exec C T (ForceStart orig m st) s = Some (force_start_mining (runtime C T) orig m st s)"
| "phala_exec C T (ForceStop orig m) s = Some (force_stop_mining (runtime C T) orig m s)"
| "phala_exec C T (SetCoolDown orig p) s = Some (set_cool_down_expiration orig p s)"
| "phala_exec C T (UpdateTokenomic orig tk) s = Some (update_tokenomic (runtime C T) orig tk s)"
| "phala_exec C T (FinalizeMining n) s = Some (mining_on_finalize (runtime C T) n s)"
| "phala_exec C T (CreatePool orig) s = Some (create_pool orig s)"
| "phala_exec C T (AddWorker orig pid w) s = Some (add_worker (runtime C T) orig pid w s)"
| "phala_exec C T (RemoveWorker orig pid w) s = Some (remove_worker (runtime C T) orig pid w s)"
| "phala_exec C T (SetCap orig pid cap) s = Some (set_cap orig pid cap s)"
| "phala_exec C T (SetPayoutPref orig pid c) s = Some (set_payout_pref orig pid c s)"
| "phala_exec C T (ClaimRewards orig pid target) s = Some (claim_rewards (runtime C T) orig pid target s)"
| "phala_exec C T (Contribute orig pid a) s = contribute (runtime C T) orig pid a s"
| "phala_exec C T (Withdraw orig pid sh) s = Some (withdraw (runtime C T) orig pid sh s)"
| "phala_exec C T (StartMining orig pid w st) s =
     Some (pool_start_mining (runtime C T) orig pid w st s)"
| "phala_exec C T (StopMining orig pid w) s = Some (pool_stop_mining (runtime C T) orig pid w s)"
| "phala_exec C T (ReclaimWorker orig pid w) s = reclaim_pool_worker (runtime C T) orig pid w s"
| "phala_exec C T (SetMiningEnable orig b) s = Some (set_mining_enable (runtime C T) orig b s)"
| "phala_exec C T (ReconcileQueue orig pid a) s = Some (reconcile_withdraw_queue orig pid a s)"
| "phala_exec C T FinalizeStakePool s = Some (stakepool_on_finalize (runtime C T) s)"
| "phala_exec C T (NewTimestamp t) s = Some (Ok () (s\<lparr>now_millis := t\<rparr>))"

text \<open>
  The bounds within which a step is taken: fewer than 2^64 pools, contributions that cannot
  overflow the shares, and a clock that does not run backwards. A call that does not return takes
  no step, nor does one that panics.
\<close>

definition op_fits :: "phala_op \<Rightarrow> 'b chain \<Rightarrow> bool" where
  "op_fits op s = (case op of
     CreatePool _ \<Rightarrow> PoolCount s + 1 \<noteq> 0
   | Contribute _ pid a \<Rightarrow> contribution_fits pid a s
   | NewTimestamp t \<Rightarrow> now_millis s \<le> t
   | _ \<Rightarrow> True)"

inductive phala_reaches :: "codec \<Rightarrow> 'b phala_config \<Rightarrow> 'b chain \<Rightarrow> 'b chain \<Rightarrow> bool"
  for C T where
  reach_start: "phala_reaches C T s s"
| reach_step: "phala_reaches C T s t \<Longrightarrow> op_fits op t \<Longrightarrow> phala_exec C T op t = Some r \<Longrightarrow>
    left_state r = Some u \<Longrightarrow> phala_reaches C T s u"

text \<open>What each step keeps holds of every reachable storage.\<close>

lemma phala_reaches_keeps:
  assumes "\<And>op s r. op_fits op s \<Longrightarrow> phala_exec C T op s = Some r \<Longrightarrow> keeps P s r"
  shows "phala_reaches C T s t \<Longrightarrow> P s \<Longrightarrow> P t"
proof (induction rule: phala_reaches.induct)
  case (reach_step s t op r u)
  then have "P t" by blast
  then show ?case using keepsD [OF assms [OF reach_step.hyps(2,3)]] reach_step.hyps(4) by blast
qed

section \<open>The ledger of the pools\<close>

lemma phala_exec_stake_inv:
  assumes fx: "fixed_arith (Fx T)"
    and fits: "op_fits op s" and ex: "phala_exec C T op s = Some r"
  shows "keeps stake_inv s r"
proof -
  have fx': "fixed_arith (Fx (runtime C T))" using fx by simp
  have time: "pools_frame s (s\<lparr>now_millis := n\<rparr>)" for n by (rule pools_frame_same) simp_all
  note exact = claim_rewards_keeps withdraw_keeps reconcile_keeps reclaim_pool_worker_keeps
    contribute_keeps [OF fx'] create_pool_keeps
  have ingress: "pools_frame u (u\<lparr>OffchainIngress := i\<rparr>)" for u :: "'b chain" and i
    by (rule pools_frame_same) simp_all
  note frames = pf.push_frames pf.sync_frame [OF ingress] pf.mq_on_initialize_frame pf.registry_frames
    pf.mining_call_frames pu.mining_unbind_frame pf.mining_on_finalize_frame pb.stakepool_on_finalize_frame
    add_worker_frame remove_worker_frame settings_frame pool_start_mining_frame
    pool_stop_mining_frame
  note framed = frames [THEN keeps_frame]
  show ?thesis
    using ex fits
    by (cases op) (auto simp: op_fits_def exact framed time [THEN stake_inv_frame])
qed

lemma phala_reaches_stake_inv:
  assumes "fixed_arith (Fx T)" "phala_reaches C T s t" "stake_inv s"
  shows "stake_inv t"
  by (rule phala_reaches_keeps [where P = stake_inv, OF phala_exec_stake_inv [OF assms(1)] assms(2,3)])

end
