(* ===== verification/Phala_Demo.thy ===== *)
theory Phala_Demo
  imports Phala_System
begin

text \<open>
  A small chain on which the claims about the Phala pallets are witnessed: a currency that keeps
  one balance per account, the fixed point numbers of \<open>Fixed_Point\<close>, codecs that are injective on
  the values used, and a genesis storage with one funded account and two registered workers.
\<close>

section \<open>Configuration\<close>

definition demo_currency :: "(account_id \<Rightarrow> u128) currency_ops" where
  "demo_currency = \<lparr>
     free_balance = (\<lambda>who b. b who),
     set_lock = (\<lambda>_ _ b. b),
     remove_lock = (\<lambda>_ b. b),
     slash = (\<lambda>who x b. let r = min x (b who) in (r, b(who := b who - r))),
     transfer_keep_alive = (\<lambda>src dest x b. if b src < x then Inl 0
       else let b = b(src := b src - x) in Inr (b(dest := b dest + x))),
     withdraw_allow_death = (\<lambda>who x b. if b who < x then Inl 0 else Inr (x, b(who := b who - x)))\<rparr>"

definition demo_q32 :: q32_ops where
  "demo_q32 = \<lparr>
     q_from_num = (\<lambda>n. of_nat (unat n * 2 ^ 32)),
     q_mul = (\<lambda>x y. of_nat (unat x * unat y div 2 ^ 32)),
     q_div = (\<lambda>x y. if y = 0 then None else Some (of_nat (unat x * 2 ^ 32 div unat y))),
     q_checked_shl = (\<lambda>x n. if n < 64 then Some (push_bit n x) else None),
     q_to_num = (\<lambda>x. ucast (drop_bit 32 x))\<rparr>"

definition demo :: "(account_id \<Rightarrow> u128) phala_config" where
  "demo = \<lparr>
     Fx = u64f64, Q32 = demo_q32, Cur = demo_currency,
     blake2_256 = (\<lambda>x. x),
     enc_pid_key = (\<lambda>pid w. replicate (unat pid) 0 @ 1 # w),
     dec_sub_account = (\<lambda>x. x),
     enc_system_event = (\<lambda>_. []), enc_gatekeeper_launch = (\<lambda>_. []),
     enc_gatekeeper_change = (\<lambda>_. []), enc_gatekeeper_event = (\<lambda>_. []),
     enc_registration_info = (\<lambda>_. []),
     enc_to_be_signed = (\<lambda>m n. ucast n # m_payload m),
     enc_mq_tag = (\<lambda>_ n. [ucast n]),
     into_h256 = (\<lambda>x. x),
     registry_name = ascii ''PhalaRegistry'', mining_name = ascii ''PhalaMining'',
     on_message_received = (\<lambda>_ s. Ok () s),
     should_push_message = default_should_push,
     validate_attestation = (\<lambda>_ _ _ _ _. Some (Inl PRuntimeRejected)),
     VerifyPRuntime = True, VerifyRelaychainGenesisBlockHash = True,
     governance_origin = (\<lambda>o'. o' = Root),
     sig_try_from = Some,
     sr25519_verify = (\<lambda>sig data key. sig = key @ data),
     ExpectedBlockTimeSec = 12, MinInitP = 1,
     random_seed = (\<lambda>_. 0), mining_wallet = ascii ''wallet'',
     on_reward_hook = (\<lambda>_ s. Ok () s), on_unbound_hook = (\<lambda>_ _ s. Ok () s),
     on_stopped_hook = (\<lambda>_ _ _ s. Ok () s),
     on_treasury_settled = (\<lambda>_ b. b), update_tokenomic_origin = (\<lambda>o'. o' = Root),
     MinContribution = 1000000000000, GracePeriod = 604800, MaxPoolWorkers = 100,
     on_slashed = (\<lambda>_ b. b), mining_switch_origin = (\<lambda>o'. o' = Root),
     permill_mul = (\<lambda>c x. of_nat (unat c * unat x div 1000000))\<rparr>"

definition demo_codec :: codec where
  "demo_codec = \<lparr>
     dec_registry_event = (\<lambda>b. if length b = 2 then Some (BenchReport (ucast (b ! 0)) (ucast (b ! 1))) else None),
     dec_mining_update = (\<lambda>_. None),
     dec_mining_report = (\<lambda>b. if b = [] then None else Some (Heartbeat 0 0 0 (ucast (hd b))))\<rparr>"

abbreviation demo_rt :: "(account_id \<Rightarrow> u128) phala_config" where
  "demo_rt \<equiv> runtime demo_codec demo"

lemma demo_fx [simp]: "Fx demo = u64f64" and demo_cur [simp]: "Cur demo = demo_currency"
  by (simp_all add: demo_def)

lemma demo_rt_fields [simp]:
  "MinContribution demo_rt = 1000000000000" "GracePeriod demo_rt = 604800" "MaxPoolWorkers demo_rt = 100"
  "governance_origin demo_rt = (\<lambda>o'. o' = Root)" "Q32 demo_rt = demo_q32" "MinInitP demo_rt = 1"
  "registry_name demo_rt = ascii ''PhalaRegistry''" "enc_gatekeeper_launch demo = (\<lambda>_. [])"
  by (simp_all add: runtime_def quiet_def with_stakepool_def demo_def)

lemma demo_currency_fields [simp]:
  "free_balance demo_currency who b = b who" "set_lock demo_currency who x b = b"
  "remove_lock demo_currency who b = b"
  "slash demo_currency who x b = (let r = min x (b who) in (r, b(who := b who - r)))"
  by (simp_all add: demo_currency_def)

lemma bmul_zero_rate [simp]: "bmul u64f64 n 0 = 0"
proof -
  have "fx_mul u64f64 x 0 = 0" for x using u64f64.mul [of x 0] by (simp add: unat_eq_0)
  then show ?thesis by (simp add: bmul_def)
qed

lemma new_pool_fields [simp]:
  "p_pid (new_pool pid who) = pid" "p_owner (new_pool pid who) = who" "p_cap (new_pool pid who) = None"
  "total_shares (new_pool pid who) = 0" "total_stake (new_pool pid who) = 0"
  "free_stake (new_pool pid who) = 0" "releasing_stake (new_pool pid who) = 0"
  "reward_acc (new_pool pid who) = 0" "withdraw_queue (new_pool pid who) = []"
  "p_workers (new_pool pid who) = []" "owner_reward (new_pool pid who) = 0"
  by (simp_all add: new_pool_def)

lemma zeros_then_one:
  "replicate n (0 :: u8) @ 1 # v = replicate m 0 @ 1 # w \<longleftrightarrow> n = m \<and> v = w"
proof (induction n arbitrary: m)
  case 0
  then show ?case by (cases m) auto
next
  case (Suc n)
  then show ?case by (cases m) auto
qed

lemma demo_sub_accounts: "inj (\<lambda>(pid, w). pool_sub_account demo pid w)"
  by (auto simp: inj_def pool_sub_account_def demo_def zeros_then_one) (simp add: word_unat_eq_iff)

section \<open>Storage\<close>

definition worker_a :: worker_key where "worker_a = [1]"
definition worker_b :: worker_key where "worker_b = [2]"
definition staker_a :: account_id where "staker_a = [10]"
definition staker_b :: account_id where "staker_b = [11]"

definition demo_worker :: "worker_key \<Rightarrow> worker_info" where
  "demo_worker w = \<lparr>wi_pubkey = w, wi_ecdh_pubkey = [], runtime_version = 0, last_updated = 0,
     operator = Some staker_a, confidence_level = 1, initial_score = Some 100, features = []\<rparr>"

definition genesis :: "(account_id \<Rightarrow> u128) chain" where
  "genesis = \<lparr>
     bank = (\<lambda>who. if who = staker_a then 10 ^ 16 else 0),
     now_millis = 0, chain_block = 0,
     OffchainIngress = Map.empty, QueuedOutboundMessage = None, OutboundMessages = [],
     Gatekeeper = [], GatekeeperMasterPubkey = None,
     Workers = [worker_a \<mapsto> demo_worker worker_a, worker_b \<mapsto> demo_worker worker_b],
     ContractKeys = Map.empty, TopicKey = Map.empty, BenchmarkDuration = None,
     PRuntimeAllowList = [], RelaychainGenesisBlockHashAllowList = [],
     TokenomicParameters = None, ScheduledTokenomicUpdate = None,
     OnlineMiners = 0, ExpectedHeartbeatCount = None,
     Miners = Map.empty, MinerBindings = Map.empty, WorkerBindings = Map.empty,
     CoolDownPeriod = 604800, NextSessionId = 0, MiningStartBlock = None,
     MiningHalvingInterval = None, Stakes = Map.empty,
     StakePools = Map.empty, PoolStakers = Map.empty, PoolCount = 0,
     WorkerAssignments = Map.empty, StakeLedger = Map.empty,
     WithdrawalQueuedPools = Map.empty, WithdrawalTimestamps = [],
     MiningEnabled = True, SubAccountPreimages = Map.empty,
     mining_log = [], stakepool_log = []\<rparr>"

lemma genesis_fields [simp]:
  "Workers genesis worker_a = Some (demo_worker worker_a)" "Workers genesis worker_b = Some (demo_worker worker_b)"
  "Gatekeeper genesis = []" "GatekeeperMasterPubkey genesis = None" "OutboundMessages genesis = []"
  by (simp_all add: genesis_def worker_a_def worker_b_def)

lemma genesis_mining_inv: "mining_inv genesis"
  by (simp add: mining_inv_def online_def genesis_def)

lemma genesis_stake_inv: "stake_inv genesis"
  by (simp add: stake_inv_def genesis_def)

end
