(* ===== verification/Stake_Ends.thy ===== *)
theory Stake_Ends
  imports Stake_Reach
begin

text \<open>
  The loop that serves the withdraw queue of a pool ends: each round takes a request off the queue
  or pays out a positive number of its shares. The bounds on the share price say when a nondust
  amount of free stake is worth at least one share.
\<close>

context fixed_arith
begin

lemma bits_of_nondust: "1001 \<le> n \<Longrightarrow> 18465190817 \<le> bits_of n"
  using bits_of_mono [of 1001 n] by (simp add: bits_of_def)

lemma from_fixed_pos: "18446745 \<le> unat v \<Longrightarrow> balance_from_fixed F v \<noteq> 0"
proof
  assume v: "18446745 \<le> unat v" and z: "balance_from_fixed F v = 0"
  have "(2 ^ 64 :: nat) \<le> min (unat v * 1000000000000) (2 ^ 128 - 1)" using v by simp
  then have "(2 ^ 64 :: nat) div 2 ^ 64 \<le> unat (balance_from_fixed F v)"
    unfolding from_fixed_unat by (rule div_le_mono)
  then show False using z by simp
qed

lemma bdiv_pos:
  assumes free: "is_nondust_balance free" "unat free < 2 ^ 64"
    and price: "2 ^ 25 \<le> unat price" "unat price \<le> 2 ^ 70"
    and d: "bdiv F free price = Some n"
  shows "n \<noteq> 0"
proof -
  from d obtain z where z: "fx_div F (balance_to_fixed F free) price = Some z"
    and n: "n = balance_from_fixed F z" by (auto simp: bdiv_def)
  let ?b = "bits_of (unat free)"
  have "1001 \<le> unat free"
    using free(1) by (simp add: is_nondust_balance_def balance_close_to_zero_def word_le_nat_alt)
  then have lo: "18465190817 \<le> ?b" by (rule bits_of_nondust)
  have "?b * 1000000000000 < 2 ^ 64 * 2 ^ 64" using bits_of_le [of "unat free"] free(2) by simp
  then have "?b * 2 ^ 64 div 2 ^ 25 < 2 ^ 128" by simp
  moreover have "?b * 2 ^ 64 div unat price \<le> ?b * 2 ^ 64 div 2 ^ 25"
    using price(1) by (intro div_le_mono2) simp_all
  ultimately have fit: "?b * 2 ^ 64 div unat price < 2 ^ 128" by linarith
  have pos: "0 < unat price" by (rule less_le_trans [OF _ price(1)]) simp
  have "18465190817 * 2 ^ 64 div 2 ^ 70 \<le> ?b * 2 ^ 64 div 2 ^ 70" using lo by (intro div_le_mono) simp
  also have "\<dots> \<le> ?b * 2 ^ 64 div unat price"
    by (rule div_le_mono2 [OF pos price(2)])
  also have "\<dots> = unat z"
    using div [OF z] fit by (simp add: to_fixed_bits [OF free(2)])
  finally have "18446745 \<le> unat z" by simp
  then show ?thesis unfolding n by (rule from_fixed_pos)
qed

end

definition queue_weight :: "withdraw_info list \<Rightarrow> nat" where
  "queue_weight q = (\<Sum>w\<leftarrow>q. unat (w_shares w) + 1)"

lemma serve_front_lighter:
  assumes fx: "fixed_arith (Fx T)"
    and price: "price = 0 \<or> 2 ^ 25 \<le> unat price \<and> unat price \<le> 2 ^ 70"
    and free: "is_nondust_balance (free_stake p)" "unat (free_stake p) < 2 ^ 64"
    and ok: "serve_front T price w rest p s = Ok p' s'"
  shows "queue_weight (withdraw_queue p') < queue_weight (w # rest)"
    and "unat (free_stake p') \<le> unat (free_stake p)"
proof -
  from ok have "queue_weight (withdraw_queue p') < queue_weight (w # rest) \<and>
      unat (free_stake p') \<le> unat (free_stake p)"
  proof (cases rule: serve_front_cases)
    case gone
    then show ?thesis by (simp add: queue_weight_def)
  next
    case (served u u' fs ws d)
    let ?left = "fst (extract_dust (w_shares w - ws))"
    have ws: "ws \<le> w_shares w" by (simp add: served(3))
    have "unat ?left < unat (w_shares w)" if "?left \<noteq> 0"
    proof -
      have left: "?left = w_shares w - ws" "w_shares w - ws \<noteq> 0"
        using that by (auto simp: extract_dust_def split: if_splits)
      have "price \<noteq> 0"
      proof
        assume "price = 0"
        then have "ws = w_shares w" using served(2,3) by simp
        then show False using left(2) by simp
      qed
      then have "fs \<noteq> 0"
        using fixed_arith.bdiv_pos [OF fx free] price served(2) by auto
      moreover have "ws = fs" using left(2) served(3) by (auto simp: min_def split: if_splits)
      ultimately have "0 < unat ws" by (simp add: unat_gt_0)
      then show ?thesis unfolding left(1) using ws unat_minus_le [OF ws] by (simp add: word_le_nat_alt)
    qed
    then show ?thesis using served(8,9) by (simp add: queue_weight_def)
  qed
  then show "queue_weight (withdraw_queue p') < queue_weight (w # rest)"
    "unat (free_stake p') \<le> unat (free_stake p)" by blast+
qed

lemma serve_queue_ends:
  assumes fx: "fixed_arith (Fx T)"
    and price: "price = 0 \<or> 2 ^ 25 \<le> unat price \<and> unat price \<le> 2 ^ 70"
  shows "unat (free_stake p) < 2 ^ 64 \<Longrightarrow> \<exists>r. serve_queue T price p s = Some r"
proof (induction "queue_weight (withdraw_queue p)" arbitrary: p s rule: less_induct)
  case less
  show ?case
  proof (cases "is_nondust_balance (free_stake p) \<and> withdraw_queue p \<noteq> []")
    case True
    then obtain w rest where q: "withdraw_queue p = w # rest" by (cases "withdraw_queue p") auto
    show ?thesis
    proof (cases "serve_front T price w rest p s")
      case (Ok p' s')
      note lighter = serve_front_lighter [OF fx price _ less.prems Ok]
      have "\<exists>r. serve_queue T price p' s' = Some r"
        by (rule less.hyps) (use lighter True q less.prems in auto)
      then show ?thesis using True by (simp add: serve_queue.simps [of T price p s] q Ok)
    qed (use True in \<open>simp_all add: serve_queue.simps [of T price p s] q\<close>)
  next
    case False
    then show ?thesis by (auto simp: serve_queue.simps [of T price p s] split: list.split)
  qed
qed

text \<open>When the loop ends without a panic it has used up the free stake or the queue.\<close>

lemma serve_queue_done:
  "serve_queue T price p s = Some r \<Longrightarrow> r = Ok p' s' \<Longrightarrow>
     \<not> is_nondust_balance (free_stake p') \<or> withdraw_queue p' = []"
proof (induct rule: serve_queue.raw_induct [rotated, consumes 1, case_names step])
  case (step f T price p s r)
  then show ?case by (auto simp: serve_front_no_Err split: if_splits list.splits outcome.splits)
qed

end
