(* ===== verification/Stake_Claims.thy ===== *)
theory Stake_Claims
  imports Phala_Demo Stake_Ends
begin

text \<open>
  Claims about the stake pool: the ledger of shares in every reachable storage, what the shares
  and the rewards are worth, the books of a withdrawal, and the loop that serves the queue.
\<close>

section \<open>The ledger\<close>

text \<open>
  C1. The books of the pools: whatever calls, messages and block hooks follow from a storage in
  order, the total shares of every pool are exactly the sum of its stakers' shares, its withdraw
  queue holds at most one request per staker, no request is dust, and everyone in the queue is a
  staker of the pool.
\<close>

theorem pool_books_balance:
  assumes "fixed_arith (Fx T)" "stake_inv s" "phala_reaches C T s t"
    and "StakePools t pid = Some p"
  shows "unat (total_shares p) = staked t pid \<and> distinct (map w_user (withdraw_queue p)) \<and>
    (\<forall>w \<in> set (withdraw_queue p). is_nondust_balance (w_shares w) \<and>
       PoolStakers t (pid, w_user w) \<noteq> None)"
proof -
  have "stake_inv t" by (rule phala_reaches_stake_inv [OF assms(1,3,2)])
  then show ?thesis using stake_invD(4,5) [OF _ assms(4)] by (auto simp: queue_ok_def)
qed

definition demo_pooled :: "(account_id \<Rightarrow> u128) chain" where
  "demo_pooled = stakepool_deposit (PoolCreated staker_a 0)
     ((put_pool 0 (new_pool 0 staker_a) genesis)\<lparr>PoolCount := 1\<rparr>)"

lemma demo_pooled_reached: "phala_reaches C T genesis demo_pooled"
proof -
  have "phala_exec C T (CreatePool (Signed staker_a)) genesis = Some (Ok () demo_pooled)"
    by (simp add: create_pool_def demo_pooled_def genesis_def Let_def)
  then show ?thesis
    by (rule reach_step [OF reach_start, rotated]) (simp_all add: op_fits_def genesis_def)
qed

definition pool_1 :: pool_info where
  "pool_1 = (new_pool 0 staker_a)\<lparr>total_shares := 2000000000000, total_stake := 2000000000000,
     free_stake := 2000000000000\<rparr>"

definition user_1 :: user_stake_info where
  "user_1 = (new_staker staker_a)\<lparr>u_shares := 2000000000000, u_locked := 2000000000000\<rparr>"

lemma pool_1_fields [simp]:
  "total_shares pool_1 = 2000000000000" "total_stake pool_1 = 2000000000000"
  "free_stake pool_1 = 2000000000000" "reward_acc pool_1 = 0" "withdraw_queue pool_1 = []"
  "p_pid pool_1 = 0" "releasing_stake pool_1 = 0"
  by (simp_all add: pool_1_def)

lemma user_1_fields [simp]:
  "u_shares user_1 = 2000000000000" "u_locked user_1 = 2000000000000" "u_user user_1 = staker_a"
  by (simp_all add: user_1_def new_staker_def)

definition demo_staked :: "(account_id \<Rightarrow> u128) chain" where
  "demo_staked = stakepool_deposit (Contribution 0 staker_a 2000000000000) (put_pool 0 pool_1
     ((put_staker 0 staker_a user_1 demo_pooled)\<lparr>StakeLedger := [staker_a \<mapsto> 2000000000000]\<rparr>))"

lemma empty_pool_no_price [simp]: "share_price u64f64 (new_pool pid who) = None"
  by (simp add: share_price_def new_pool_def u64f64.checked_div)

lemma demo_contributes:
  "contribute demo_rt (Signed staker_a) 0 2000000000000 demo_pooled = Some (Ok () demo_staked)"
proof -
  have served: "try_process_withdraw_queue demo_rt pool_1 s = Some (Ok pool_1 s)" for s
    by (simp add: try_process_withdraw_queue_def serve_queue.simps [of demo_rt _ pool_1] split: option.split)
  have add: "add_stake u64f64 2000000000000 (new_pool 0 staker_a) (new_staker staker_a) = Some (pool_1, user_1)"
    by (simp add: add_stake_def pool_1_def user_1_def reset_pending_reward_def clear_pending_def)
      (simp add: new_staker_def)
  show ?thesis
    by (simp add: contribute_def served add demo_staked_def demo_pooled_def genesis_def ledger_query_def
        ledger_accrue_def update_lock_def put_pool_def put_staker_def stakepool_deposit_def Let_def)
qed

lemma demo_staked_reached: "phala_reaches demo_codec demo genesis demo_staked"
proof -
  have exec: "phala_exec demo_codec demo (Contribute (Signed staker_a) 0 2000000000000) demo_pooled =
      Some (Ok () demo_staked)" by (simp add: demo_contributes)
  show ?thesis
    by (rule reach_step [OF demo_pooled_reached _ exec])
      (simp_all add: op_fits_def contribution_fits_def demo_pooled_def put_pool_def stakepool_deposit_def)
qed

lemma demo_staked_pool: "StakePools demo_staked 0 = Some pool_1"
  by (simp add: demo_staked_def put_pool_def stakepool_deposit_def)

theorem pool_books_balance_witness: "staked demo_staked 0 = 2000000000000"
  using pool_books_balance [OF _ genesis_stake_inv demo_staked_reached demo_staked_pool]
    u64f64.fixed_arith_axioms by simp

section \<open>What shares and rewards are worth\<close>

text \<open>
  C17. Rewards are backed: when a reward \<open>v\<close> is distributed over a pool, what its settled stakers can
  claim from it adds up to at most \<open>v\<close>, give or take the two pico of rounding of each staker. The
  bounds keep the 128 bit fixed point numbers from wrapping.
\<close>

theorem rewards_are_backed:
  assumes "fixed_arith F" "distribute_reward F v p = Some p'"
    and "unat (total_shares p) < 2 ^ 64" "unat v < 2 ^ 64" "unat (reward_acc p) < 2 ^ 127"
    and "unat (total_shares p) * unat (reward_acc p') < 2 ^ 128"
    and "(\<Sum>u\<leftarrow>us. unat (u_shares u)) \<le> unat (total_shares p)"
  shows "(\<Sum>u\<leftarrow>us. unat (pending_reward F p' (reset_pending_reward F p u))) \<le> unat v + 2 * length us"
  by (rule fixed_arith.distribution_solvent [OF assms])

lemma to_fixed_pha:
  "balance_to_fixed u64f64 1000000000000 = 2 ^ 64" "balance_to_fixed u64f64 2000000000000 = 2 ^ 65"
  using u64f64.to_fixed_unat [of 1000000000000] u64f64.to_fixed_unat [of 2000000000000]
  by (simp_all add: word_unat_eq_iff)

lemma demo_distribution:
  "distribute_reward u64f64 1000000000000 pool_1 = Some (pool_1\<lparr>reward_acc := 2 ^ 63\<rparr>)"
  by (simp add: distribute_reward_def distribute_def to_fixed_pha is_nondust_balance_def
      balance_close_to_zero_def) (simp add: u64f64_def)

theorem rewards_are_backed_witness:
  "unat (pending_reward u64f64 (pool_1\<lparr>reward_acc := 2 ^ 63\<rparr>) (reset_pending_reward u64f64 pool_1 user_1))
     \<le> 1000000000002"
  using rewards_are_backed [OF u64f64.fixed_arith_axioms demo_distribution, of "[user_1]"]
  by simp

text \<open>
  C18. Shares are backed: at the share price of a pool, the shares of all its stakers together are
  worth no more than the stake of the pool, so the rounding never pays out stake that is not there.
\<close>

theorem shares_are_backed:
  assumes "fixed_arith F" "share_price F p = Some price"
    and "unat (total_shares p) < 2 ^ 64" "unat (total_stake p) < 2 ^ 64"
    and "unat (total_shares p) * unat price < 2 ^ 128"
    and "(\<Sum>u\<leftarrow>us. unat (u_shares u)) \<le> unat (total_shares p)"
  shows "(\<Sum>u\<leftarrow>us. unat (bmul F (u_shares u) price)) \<le> unat (total_stake p)"
  by (rule fixed_arith.shares_backed [OF assms])

lemma pool_1_price: "share_price u64f64 pool_1 = Some (2 ^ 64)"
  by (simp add: share_price_def to_fixed_pha u64f64.checked_div)

theorem shares_are_backed_witness: "unat (bmul u64f64 2000000000000 (2 ^ 64)) \<le> 2000000000000"
  using shares_are_backed [OF u64f64.fixed_arith_axioms pool_1_price, of "[user_1]"]
  by simp

section \<open>Withdrawing\<close>

text \<open>
  The books of a withdrawal: the amount paid is covered by the free stake of the pool and by
  what the user has locked, the user's locked stake falls by the amount and a dust of at most 1000
  pico, the user and the pool lose the same number of shares (the ones asked for and a dust of at
  most 1000), no dust of shares remains with the user, the pool's stake and free stake fall by the
  amount or are cleared when only dust would remain, and no reward is pending afterwards.
\<close>

theorem remove_stake_books:
  assumes "remove_stake F shares p u = Some ((amount, dust), p', u')"
  shows "amount \<le> free_stake p \<and> amount \<le> u_locked u \<and>
    unat (u_locked u) = unat (u_locked u') + unat amount + unat dust \<and> unat dust \<le> 1000 \<and>
    (\<exists>d \<le> 1000. unat (u_shares u) = unat (u_shares u') + (unat shares + d) \<and>
       unat (total_shares p) = unat (total_shares p') + (unat shares + d)) \<and>
    (u_shares u' = 0 \<or> is_nondust_balance (u_shares u')) \<and>
    (total_stake p' = total_stake p - amount \<and> free_stake p' = free_stake p - amount \<or>
     total_stake p' = 0 \<and> free_stake p' = 0 \<and> total_stake p - amount \<le> 1000) \<and>
    pending_reward F p' u' = 0"
  by (rule remove_stake_SomeE [OF assms]) blast

lemma bmul_one_pha: "bmul u64f64 1000000000000 18446744073709551616 = 1000000000000"
proof -
  have "fx_mul u64f64 18446744073709551616 18446744073709551616 = 18446744073709551616"
    by (simp add: u64f64_def)
  moreover have "balance_from_fixed u64f64 18446744073709551616 = 1000000000000"
    using u64f64.from_fixed_unat [of 18446744073709551616] by (simp add: word_unat_eq_iff)
  ultimately show ?thesis by (simp add: bmul_def to_fixed_pha)
qed

theorem remove_stake_books_witness:
  "\<exists>p' u'. remove_stake u64f64 1000000000000 pool_1 user_1 = Some ((1000000000000, 0), p', u') \<and>
     unat (u_locked user_1) = unat (u_locked u') + 1000000000000 \<and>
     pending_reward u64f64 p' u' = 0"
proof -
  obtain p' u' where r: "remove_stake u64f64 1000000000000 pool_1 user_1 = Some ((1000000000000, 0), p', u')"
    by (simp add: remove_stake_def pool_1_price bmul_one_pha checked_sub_def extract_dust_def
        balance_close_to_zero_def Let_def)
  show ?thesis using r remove_stake_books [OF r] by auto
qed

section \<open>The withdraw queue\<close>



end
