(* ===== verification/Pool_Outside.thy ===== *)
theory Pool_Outside
  imports Stake_Props
begin

text \<open>
  What the stake pool pallet itself never writes: the storage of the other three pallets. A
  relation that ignores the pallet's own storage and holds across the five operations of the
  mining pallet it calls holds across all of its calls.
\<close>

section \<open>The storage outside the pallet\<close>

definition outside_pool :: "'b chain \<Rightarrow> _" where
  "outside_pool s = (now_millis s, chain_block s, OffchainIngress s, QueuedOutboundMessage s,
     OutboundMessages s, Gatekeeper s, GatekeeperMasterPubkey s, Workers s, ContractKeys s,
     TopicKey s, BenchmarkDuration s, PRuntimeAllowList s, RelaychainGenesisBlockHashAllowList s,
     TokenomicParameters s, ScheduledTokenomicUpdate s, OnlineMiners s, ExpectedHeartbeatCount s,
     Miners s, MinerBindings s, WorkerBindings s, CoolDownPeriod s, NextSessionId s,
     MiningStartBlock s, MiningHalvingInterval s, Stakes s, mining_log s)"

lemma outside_pool_upd [simp]:
  "outside_pool (s\<lparr>bank := b\<rparr>) = outside_pool s"
  "outside_pool (s\<lparr>StakePools := ps\<rparr>) = outside_pool s"
  "outside_pool (s\<lparr>PoolStakers := us\<rparr>) = outside_pool s"
  "outside_pool (s\<lparr>PoolCount := n\<rparr>) = outside_pool s"
  "outside_pool (s\<lparr>WorkerAssignments := wa\<rparr>) = outside_pool s"
  "outside_pool (s\<lparr>StakeLedger := l\<rparr>) = outside_pool s"
  "outside_pool (s\<lparr>WithdrawalQueuedPools := q\<rparr>) = outside_pool s"
  "outside_pool (s\<lparr>WithdrawalTimestamps := t\<rparr>) = outside_pool s"
  "outside_pool (s\<lparr>MiningEnabled := e\<rparr>) = outside_pool s"
  "outside_pool (s\<lparr>SubAccountPreimages := m\<rparr>) = outside_pool s"
  "outside_pool (s\<lparr>stakepool_log := es\<rparr>) = outside_pool s"
  by (simp_all add: outside_pool_def)

lemma outside_pool_helpers [simp]:
  "outside_pool (stakepool_deposit e s) = outside_pool s"
  "outside_pool (put_pool pid p s) = outside_pool s"
  "outside_pool (put_staker pid who u s) = outside_pool s"
  "outside_pool (update_lock T who a s) = outside_pool s"
  "outside_pool (remove_dust T who a s) = outside_pool s"
  "outside_pool (ledger_accrue T who a s) = outside_pool s"
  "outside_pool (ledger_reduce T who a d s) = outside_pool s"
  "outside_pool (maybe_add_withdraw_queue t pid s) = outside_pool s"
  by (simp_all add: stakepool_deposit_def put_pool_def put_staker_def update_lock_def
      remove_dust_def ledger_accrue_def ledger_reduce_def maybe_add_withdraw_queue_def Let_def
      split: prod.split option.split)

abbreviation within_pool :: "'b chain \<Rightarrow> 'b chain \<Rightarrow> bool" where
  "within_pool s t \<equiv> outside_pool t = outside_pool s"

lemma maybe_settle_slash_outside:
  "maybe_settle_slash T p u s = (u', s') \<Longrightarrow> outside_pool s' = outside_pool s"
  by (auto simp: maybe_settle_slash_def Let_def split: option.splits prod.splits if_splits)

lemma serve_front_outside: "steps within_pool s (serve_front T price w rest p s)"
  by (auto simp: serve_front_def Let_def maybe_settle_slash_outside split: option.split prod.split)

lemma serve_queue_outside: "serve_queue T price p s = Some r \<Longrightarrow> steps within_pool s r"
proof (induct rule: serve_queue.raw_induct [rotated, consumes 1, case_names step])
  case (step f T price p s r)
  show ?case
  proof (cases "is_nondust_balance (free_stake p) \<and> withdraw_queue p \<noteq> []")
    case True
    then obtain w rest where q: "withdraw_queue p = w # rest" by (cases "withdraw_queue p") auto
    have front: "steps within_pool s (serve_front T price w rest p s)" by (rule serve_front_outside)
    show ?thesis
    proof (cases "serve_front T price w rest p s")
      case (Ok p' s')
      then have "steps within_pool s' r" using step True q by auto
      then show ?thesis using front Ok by (simp add: steps_def)
    qed (use step True q front in auto)
  next
    case False
    then have "r = Ok p s" using step by (auto split: if_splits list.splits)
    then show ?thesis by simp
  qed
qed

lemma try_process_outside:
  "try_process_withdraw_queue T p s = Some r \<Longrightarrow> steps within_pool s r"
  by (auto simp: try_process_withdraw_queue_def serve_queue_outside split: option.splits)

lemma try_withdraw_outside: "steps within_pool s (try_withdraw T p u shares s)"
proof -
  have now: "steps within_pool s (withdraw_now T p u ws s)" for p u ws and s :: "'a chain"
    by (auto simp: withdraw_now_def maybe_settle_slash_outside split: option.split prod.split)
  have queue: "outside_pool (snd (queue_withdrawal p u q s)) = outside_pool s" for p u q and s :: "'a chain"
    by (simp add: queue_withdrawal_def Let_def)
  have "steps within_pool s (let (p, s) = queue_withdrawal p u q s in Ok (f p) s)"
    for p u q f and s :: "'a chain"
    using queue [of p u q s] by (simp add: split_beta)
  then show ?thesis
    by (auto simp: try_withdraw_def Let_def intro!: steps_andthen [OF _ now] split: option.split)
qed

lemma hooks_outside:
  "steps within_pool s (on_stopped w st sl s)"
  "steps within_pool s (remove_worker_from_pool w s)"
  "steps within_pool s (handle_pool_new_reward T p r s)"
  by (auto simp: on_stopped_def remove_worker_from_pool_def handle_pool_new_reward_def Let_def
      split: option.split)

lemma on_reward_outside: "steps within_pool s (on_reward T xs s)"
proof (induction xs arbitrary: s)
  case (Cons info xs)
  have "steps within_pool s (andthen (handle_pool_new_reward T p r s)
      (\<lambda>p s. on_reward T xs (put_pool pid p s)))" for p r pid
  proof (rule steps_andthen [OF _ hooks_outside(3)])
    show "steps within_pool t (on_reward T xs (put_pool pid x t))" for x and t :: "'a chain"
      using Cons [of "put_pool pid x t"] by (simp add: steps_def)
  qed simp
  then show ?case by (simp add: Let_def split: option.split)
qed simp

lemma credit_reclaimed_outside:
  "credit_reclaimed pid st sl p s = (p', s') \<Longrightarrow> outside_pool s' = outside_pool s"
  by (auto simp: credit_reclaimed_def Let_def split: if_splits)

lemma handle_reclaim_outside: "handle_reclaim T pid st sl s = Some r \<Longrightarrow> steps within_pool s r"
proof -
  assume r: "handle_reclaim T pid st sl s = Some r"
  show "steps within_pool s r"
  proof (cases "StakePools s pid")
    case (Some p)
    obtain p1 s1 where c: "credit_reclaimed pid st sl p s = (p1, s1)" by fastforce
    then obtain q where q: "try_process_withdraw_queue T p1 s1 = Some q"
      and r': "r = andthen q (\<lambda>p s. Ok () (put_pool pid p s))"
      using r Some by (auto simp: handle_reclaim_def)
    show ?thesis
      using try_process_outside [OF q] credit_reclaimed_outside [OF c] unfolding r'
      by (cases q) simp_all
  qed (use r in \<open>simp add: handle_reclaim_def\<close>)
qed

section \<open>The calls of the pallet\<close>

lemma settings_outside:
  "steps within_pool s (create_pool orig s)"
  "steps within_pool s (set_cap orig pid cap s)"
  "steps within_pool s (set_payout_pref orig pid c s)"
  "steps within_pool s (set_mining_enable T orig b s)"
  "steps within_pool s (reconcile_withdraw_queue orig pid a s)"
  by (auto simp: create_pool_def set_cap_def set_payout_pref_def set_mining_enable_def
      reconcile_withdraw_queue_def Let_def split: option.split)

lemma claim_rewards_outside: "steps within_pool s (claim_rewards T orig pid target s)"
  by (auto simp: claim_rewards_def withdraw_subsidy_pool_def Let_def
      split: option.split prod.split sum.split)

lemma served_outside:
  fixes s s1 :: "'b chain"
  assumes "try_process_withdraw_queue T p s1 = Some q" "outside_pool s1 = outside_pool s"
  shows "steps within_pool s (andthen q (\<lambda>p s. Ok () (stakepool_deposit e (put_pool pid p s))))"
  using try_process_outside [OF assms(1)] assms(2) by (cases q) simp_all

lemma contribute_outside: "contribute T orig pid a s = Some r \<Longrightarrow> steps within_pool s r"
  by (auto simp: contribute_def Let_def maybe_settle_slash_outside
      split: option.splits if_splits prod.splits intro!: served_outside)

lemma withdraw_outside: "steps within_pool s (withdraw T orig pid shares s)"
proof -
  have "steps within_pool s (andthen (try_withdraw T p u shares s)
      (\<lambda>(p, u) s. Ok () (put_pool pid p (put_staker pid who u s))))" for p u who
    by (rule steps_andthen [OF _ try_withdraw_outside]) (simp_all add: split_beta)
  then show ?thesis by (auto simp: withdraw_def split: option.split)
qed

text \<open>The stake pool as a client of the mining pallet.\<close>

locale pool_host =
  fixes R :: "'b chain \<Rightarrow> 'b chain \<Rightarrow> bool" and T :: "'b phala_config"
  assumes host_trans: "R s t \<Longrightarrow> R t u \<Longrightarrow> R s u"
    and host_within: "within_pool s t \<Longrightarrow> R s t"
    and host_bind: "steps R s (mining_bind m w s)"
    and host_unbind: "steps R s (unbind_miner T m notify s)"
    and host_start: "steps R s (start_mining T m stake s)"
    and host_stop: "steps R s (stop_mining T m s)"
    and host_reclaim: "steps R s (reclaim T m s)"
begin

lemma within_steps: "steps within_pool s r \<Longrightarrow> steps R s r"
  unfolding steps_def using host_within by blast

lemma host_andthen:
  assumes "steps R s r" "\<And>x t. r = Ok x t \<Longrightarrow> steps R t (f x t)"
  shows "steps R s (andthen r f)"
  by (rule steps_andthen [OF _ assms]) (rule host_trans)

lemma worker_calls:
  "steps R s (add_worker T orig pid w s)"
  "steps R s (remove_worker T orig pid w s)"
  "steps R s (pool_start_mining T orig pid w stake s)"
  "steps R s (pool_stop_mining T orig pid w s)"
proof -
  have refl: "R t t" for t by (rule host_within) simp
  have bind: "steps R s (map_err g (mining_bind m w s))" for g m
    using host_bind [of s m w] by (cases "mining_bind m w s") simp_all
  show "steps R s (add_worker T orig pid w s)"
    unfolding add_worker_def Let_def
    by (auto simp: refl intro!: host_andthen bind host_within split: option.split)
  show "steps R s (remove_worker T orig pid w s)"
    unfolding remove_worker_def
    by (auto simp: refl host_andthen [OF host_unbind within_steps [OF hooks_outside(2)]] split: option.split)
  show "steps R s (pool_start_mining T orig pid w stake s)"
    unfolding pool_start_mining_def Let_def
    by (auto simp: refl intro!: host_andthen host_start host_within split: option.split)
  show "steps R s (pool_stop_mining T orig pid w s)"
    unfolding pool_stop_mining_def by (auto simp: refl host_stop split: option.split)
qed

lemma reclaim_call: "reclaim_pool_worker T orig pid w s = Some r \<Longrightarrow> steps R s r"
proof -
  assume r: "reclaim_pool_worker T orig pid w s = Some r"
  have refl: "R t t" for t by (rule host_within) simp
  let ?m = "pool_sub_account T pid w"
  show "steps R s r"
  proof (cases "\<exists>e. r = Err e s \<or> r = Panic")
    case False
    then obtain u v where signed: "ensure_signed orig = Some u" and pool: "StakePools s pid = Some v"
      using r by (auto simp: reclaim_pool_worker_def split: option.splits)
    note unfolded = r [unfolded reclaim_pool_worker_def signed pool option.case Let_def]
    show ?thesis
    proof (cases "reclaim T ?m s")
      case (Ok x t)
      obtain st sl where x: "x = (st, sl)" by fastforce
      from unfolded Ok x obtain q where q: "handle_reclaim T pid st sl t = Some q"
        and r': "r = andthen q (\<lambda>_ s. Ok () (s\<lparr>SubAccountPreimages := (SubAccountPreimages s)(?m := None)\<rparr>))"
        by auto
      have "steps R t r" unfolding r'
        by (rule host_andthen) (auto intro: within_steps handle_reclaim_outside [OF q] host_within)
      moreover have "R s t" using host_reclaim [of s ?m] Ok by simp
      ultimately show ?thesis unfolding steps_def using host_trans by blast
    next
      case (Err e t)
      then show ?thesis using unfolded host_reclaim [of s ?m] by auto
    qed (use unfolded in auto)
  qed (auto simp: refl)
qed

lemmas pool_call_steps = settings_outside [THEN within_steps] claim_rewards_outside [THEN within_steps]
  withdraw_outside [THEN within_steps] worker_calls
lemmas pool_call_partial = contribute_outside [THEN within_steps] reclaim_call

end

end
