(* ===== verification/Phala_Reach.thy ===== *)
theory Phala_Reach
  imports Phala_System Pool_Outside
begin

text \<open>
  Invariants of the whole system: the miners and their bindings, the sequence numbers of the
  off-chain messages, and the lists the registry keeps. Each is carried through all operations by
  the frames of \<open>Runtime_Frame\<close> and \<open>Pool_Outside\<close>.
\<close>

lemma keeps_steps: "keeps P s r = steps (\<lambda>s t. P s \<longrightarrow> P t) s r"
  by (auto simp: keeps_def steps_def)

section \<open>The miners\<close>

lemma mining_part_outside:
  fixes s t :: "'b chain"
  shows "outside_pool t = outside_pool s \<Longrightarrow> mining_part t = mining_part s"
  by (simp add: outside_pool_def mining_part_def)

lemma mining_inv_workers:
  fixes s t :: "'b chain"
  assumes "mining_inv s" "Miners t = Miners s" "MinerBindings t = MinerBindings s"
    "WorkerBindings t = WorkerBindings s" "Stakes t = Stakes s" "OnlineMiners t = OnlineMiners s"
    and "\<And>w. Workers s w \<noteq> None \<Longrightarrow> Workers t w \<noteq> None"
  shows "mining_inv t"
  using assms(1,7) by (simp add: mining_inv_def online_def assms(2-6)) blast

lemma registry_on_message_mining:
  "keeps mining_inv s (registry_on_message (runtime C T) sender ev s)"
proof -
  have W: "keeps mining_inv s (push_system_event (runtime C T) e
      (case Workers s w of Some x \<Rightarrow> s\<lparr>Workers := (Workers s)(w \<mapsto> f x)\<rparr> | None \<Rightarrow> s))" for e w f
    by (auto simp: push_system_event_def rt.registry_push_Ok intro: mining_inv_workers split: option.split)
  have G: "keeps mining_inv s (registry_push (runtime C T) gatekeeper_launch_topic pl
      (s\<lparr>GatekeeperMasterPubkey := x\<rparr>))" for pl x
    by (auto simp: rt.registry_push_Ok intro: mining_inv_workers)
  show ?thesis unfolding registry_on_message_def Let_def
    by (simp add: G W split: message_origin.split registry_event.split option.split)
qed

lemma registry_mining:
  "keeps mining_inv s (force_set_benchmark_duration orig d s)"
  "keeps mining_inv s (force_register_worker (runtime C T) orig w ec oper s)"
  "keeps mining_inv s (force_register_topic_pubkey orig t k s)"
  "keeps mining_inv s (register_gatekeeper (runtime C T) orig g s)"
  "keeps mining_inv s (register_worker (runtime C T) orig i a s)"
  "keeps mining_inv s (add_pruntime T' orig h s)"
  "keeps mining_inv s (remove_pruntime T' orig h s)"
  "keeps mining_inv s (add_relaychain_genesis_block_hash T' orig h s)"
  "keeps mining_inv s (remove_relaychain_genesis_block_hash T' orig h s)"
  unfolding force_set_benchmark_duration_def force_register_worker_def
    force_register_topic_pubkey_def register_gatekeeper_def register_worker_def add_pruntime_def
    remove_pruntime_def add_relaychain_genesis_block_hash_def
    remove_relaychain_genesis_block_hash_def push_system_event_def Let_def
  by (auto simp: rt.registry_push_Ok intro: mining_inv_workers split: option.split sum.split)

interpretation mi: pool_host "\<lambda>s t. mining_inv s \<longrightarrow> mining_inv t" "runtime C T"
  for C :: codec and T :: "'b phala_config"
proof (unfold_locales, goal_cases)
  case (2 s t)
  then show ?case using mining_inv_cong [OF mining_part_outside] by blast
qed (simp_all add: keeps_steps [symmetric] mining_bind_keeps rt.unbind_miner_keeps
    rt.start_mining_keeps rt.stop_mining_keeps reclaim_keeps)

interpretation mq: queue_frame "\<lambda>s t. mining_inv s \<longrightarrow> mining_inv t" C T
  for C :: codec and T :: "'b phala_config"
  by unfold_locales
    (auto simp: keeps_steps [symmetric] registry_on_message_mining rt.on_gk_message_keeps
      on_mining_message_keeps intro: mining_inv_workers)

lemma stakepool_on_finalize_mining: "keeps mining_inv s (stakepool_on_finalize (runtime C T) s)"
proof -
  have upd: "mining_inv (u\<lparr>WithdrawalQueuedPools := q\<rparr>) = mining_inv u"
    "mining_inv (u\<lparr>WithdrawalTimestamps := ts\<rparr>) = mining_inv u" for u :: "'a chain" and q ts
    by (rule mining_inv_cong [OF mining_part_outside], simp)+
  have stop: "keeps mining_inv u (stop_ignoring (runtime C T) m u)" for m u
    using rt.stop_mining_keeps [of u C T m] by (simp add: stop_ignoring_def keeps_def split: option.split)
  have shut: "keeps mining_inv u (force_shutdown (runtime C T) now pid u)" for now pid u
    by (auto simp: force_shutdown_def intro!: keeps_for_each stop split: option.split)
  have each: "keeps mining_inv u (for_each (force_shutdown (runtime C T) now) pools (u\<lparr>WithdrawalQueuedPools := q\<rparr>))"
    for now pools u q
    using keeps_for_each [where f = "force_shutdown (runtime C T) now" and xs = pools and P = mining_inv
        and s = "u\<lparr>WithdrawalQueuedPools := q\<rparr>", OF shut]
    by (simp add: keeps_def upd)
  have expired: "keeps mining_inv u (force_expired (runtime C T) now ts u)" for now ts u
    by (induction ts arbitrary: u) (auto intro!: keeps_andthen each split: option.split)
  show ?thesis unfolding stakepool_on_finalize_def maybe_force_withdraw_def
    by (auto simp: upd intro!: keeps_andthen expired)
qed

lemma mining_calls_mining:
  "keeps mining_inv s (mining_unbind (runtime C T) orig m s)"
  "keeps mining_inv s (force_heartbeat (runtime C T) orig s)"
  "keeps mining_inv s (force_start_mining (runtime C T) orig m st s)"
  "keeps mining_inv s (force_stop_mining (runtime C T) orig m s)"
  "keeps mining_inv s (set_cool_down_expiration orig p s)"
  "keeps mining_inv s (update_tokenomic T' orig tk s)"
  "keeps mining_inv s (mining_on_finalize (runtime C T) n s)"
  using rt.unbind_miner_keeps [of s C T m True] rt.push_heartbeat_keeps rt.start_mining_keeps
    rt.stop_mining_keeps rt.mining_on_finalize_keeps
  by (auto simp: mining_unbind_def force_heartbeat_def force_start_mining_def force_stop_mining_def
      set_cool_down_expiration_def update_tokenomic_def split: option.split)

lemma phala_exec_mining_inv:
  assumes ex: "phala_exec C T op s = Some r"
  shows "keeps mining_inv s r"
proof -
  have ingress: "mining_inv u \<longrightarrow> mining_inv (u\<lparr>OffchainIngress := i\<rparr>)" for u :: "'b chain" and i
    by (auto intro: mining_inv_workers)
  note facts = mq.push_frames mq.mq_on_initialize_frame mq.sync_frame [OF ingress]
    mi.pool_call_steps
  note framed = facts [folded keeps_steps] registry_mining mining_calls_mining stakepool_on_finalize_mining
  note partial = mi.pool_call_partial [folded keeps_steps]
  show ?thesis
    using ex by (cases op) (auto simp: framed partial)
qed

lemma phala_reaches_mining_inv:
  assumes "phala_reaches C T s t" "mining_inv s"
  shows "mining_inv t"
  by (rule phala_reaches_keeps [where P = mining_inv, OF phala_exec_mining_inv assms])

section \<open>Sequence numbers\<close>

definition same_ingress :: "'b chain \<Rightarrow> 'b chain \<Rightarrow> bool" where
  "same_ingress s t \<longleftrightarrow> OffchainIngress t = OffchainIngress s"

lemma same_ingress_trans: "same_ingress s t \<Longrightarrow> same_ingress t u \<Longrightarrow> same_ingress s u"
  by (simp add: same_ingress_def)

lemma same_ingressI:
  fixes s t :: "'b chain"
  shows "other_part t = other_part s \<Longrightarrow> same_ingress s t"
    "beyond_registry t = beyond_registry s \<Longrightarrow> same_ingress s t"
    "outside_pool t = outside_pool s \<Longrightarrow> same_ingress s t"
  by (simp_all add: same_ingress_def other_part_def beyond_registry_def outside_pool_def)

lemma within_pool_ingress: "steps within_pool s r \<Longrightarrow> steps same_ingress s r"
  unfolding steps_def using same_ingressI(3) by blast

interpretation ig: message_frame same_ingress C T for C :: codec and T :: "'b phala_config"
  by unfold_locales
    (erule (1) same_ingress_trans | erule same_ingressI | rule within_pool_ingress hooks_outside on_reward_outside)+

interpretation iu: binding_frame same_ingress C T for C :: codec and T :: "'b phala_config"
  by unfold_locales (rule within_pool_ingress hooks_outside | simp add: same_ingress_def)+

interpretation ib: block_frame same_ingress C T for C :: codec and T :: "'b phala_config"
  by unfold_locales (simp_all add: same_ingress_def)

interpretation ip: pool_host same_ingress "runtime C T" for C :: codec and T :: "'b phala_config"
  by unfold_locales
    (erule (1) same_ingress_trans, erule same_ingressI | rule iu.mining_bind_frame iu.unbind_miner_frame
      ig.start_mining_frame ig.stop_mining_frame ig.reclaim_frame)+

lemma expected_seq_cong: "same_ingress s t \<Longrightarrow> expected_seq x t = expected_seq x s"
  by (simp add: expected_seq_def same_ingress_def)

text \<open>A message that is accepted carries the expected number and moves it on by one.\<close>

lemma sync_ingress:
  assumes "left_state (sync_offchain_message (runtime C T) orig sm s) = Some t"
  shows "(\<exists>u. sync_offchain_message (runtime C T) orig sm s = Ok () u) \<and>
      sm_sequence sm = expected_seq (m_sender (sm_message sm)) s \<and>
      OffchainIngress t = (OffchainIngress s)(m_sender (sm_message sm) \<mapsto> sm_sequence sm + 1) \<or>
    (\<exists>e. sync_offchain_message (runtime C T) orig sm s = Err e s) \<and> t = s"
proof -
  let ?x = "m_sender (sm_message sm)"
  let ?s = "s\<lparr>OffchainIngress := (OffchainIngress s)(?x \<mapsto> expected_seq ?x s + 1)\<rparr>"
  have dispatch: "left_state (dispatch_message (runtime C T) m ?s) = Some t \<Longrightarrow>
      (\<exists>u. dispatch_message (runtime C T) m ?s = Ok () u) \<and> OffchainIngress t = OffchainIngress ?s" for m
    using stepsD [OF ig.dispatch_frame [of ?s C T m]]
    by (auto simp: dispatch_message_def same_ingress_def split: option.splits)
  show ?thesis
    using assms dispatch [of "sm_message sm"]
    by (auto simp: sync_offchain_message_def Let_def split: option.splits if_splits)
qed

lemma phala_exec_ingress:
  assumes ex: "phala_exec C T op s = Some r" and other: "\<And>orig sm. op \<noteq> SyncMessage orig sm"
  shows "steps same_ingress s r"
proof -
  have time: "same_ingress s (s\<lparr>now_millis := n\<rparr>)" for n by (simp add: same_ingress_def)
  show ?thesis
    using ex other
    by (cases op) (auto simp: time ig.push_frames ig.mq_on_initialize_frame ig.registry_frames
      ig.mining_call_frames iu.mining_unbind_frame ig.mining_on_finalize_frame ib.stakepool_on_finalize_frame
      ip.pool_call_steps ip.pool_call_partial)
qed

section \<open>The lists of the registry\<close>

definition registry_inv :: "'b chain \<Rightarrow> bool" where
  "registry_inv s \<longleftrightarrow> distinct (PRuntimeAllowList s) \<and>
     distinct (RelaychainGenesisBlockHashAllowList s) \<and> distinct (Gatekeeper s) \<and>
     (\<forall>g \<in> set (Gatekeeper s). Workers s g \<noteq> None) \<and>
     (\<forall>w info p. Workers s w = Some info \<longrightarrow> initial_score info = Some p \<longrightarrow> p \<le> 6000)"

text \<open>
  How the registry may change: workers and gatekeepers are never removed, and the master key is
  written once.
\<close>

definition registry_grows :: "'b chain \<Rightarrow> 'b chain \<Rightarrow> bool" where
  "registry_grows s t \<longleftrightarrow> (registry_inv s \<longrightarrow> registry_inv t) \<and>
     (\<forall>w. Workers s w \<noteq> None \<longrightarrow> Workers t w \<noteq> None) \<and>
     set (Gatekeeper s) \<subseteq> set (Gatekeeper t) \<and>
     (\<forall>k. GatekeeperMasterPubkey s = Some k \<longrightarrow> GatekeeperMasterPubkey t = Some k)"

definition registry_part :: "'b chain \<Rightarrow> _" where
  "registry_part s = (PRuntimeAllowList s, RelaychainGenesisBlockHashAllowList s, Gatekeeper s,
     GatekeeperMasterPubkey s, Workers s)"

lemma registry_grows_same:
  fixes s t :: "'b chain"
  shows "registry_part t = registry_part s \<Longrightarrow> registry_grows s t"
  by (simp add: registry_grows_def registry_inv_def registry_part_def)

lemma registry_grows_trans: "registry_grows s t \<Longrightarrow> registry_grows t u \<Longrightarrow> registry_grows s u"
  by (auto simp: registry_grows_def)

lemma within_pool_registry:
  fixes r :: "('e, 'a, 'b chain) outcome"
  shows "steps within_pool s r \<Longrightarrow> steps registry_grows s r"
  by (auto simp: steps_def outside_pool_def registry_part_def intro: registry_grows_same)

lemma bench_score_le: "bench_score now start iters = Some p \<Longrightarrow> p \<le> 6000"
  by (auto simp: bench_score_def Let_def split: if_splits)

lemma registry_on_message_grows:
  "steps registry_grows s (registry_on_message (runtime C T) sender ev s)"
proof -
  have push: "steps registry_grows u r"
    if "steps registry_grows t r" "registry_grows u t" for u t and r :: "('a, unit) result"
    using that registry_grows_trans unfolding steps_def by blast
  have P: "steps registry_grows u (push_system_event (runtime C T) e u)" for u e
    by (simp add: push_system_event_def rt.registry_push_Ok registry_grows_same registry_part_def)
  have W: "registry_grows s (s\<lparr>Workers := (Workers s)(w \<mapsto> x\<lparr>initial_score := Some p, last_updated := n\<rparr>)\<rparr>)"
    if "p \<le> 6000" "Workers s w = Some x" for w x p n
    using that by (auto simp: registry_grows_def registry_inv_def)
  have G: "steps registry_grows s (registry_push (runtime C T) gatekeeper_launch_topic pl
      (s\<lparr>GatekeeperMasterPubkey := x\<rparr>))" if "GatekeeperMasterPubkey s = None" for pl x
    using that by (simp add: rt.registry_push_Ok registry_grows_def registry_inv_def)
  show ?thesis unfolding registry_on_message_def Let_def
    by (auto simp: G P registry_grows_same push [OF P W] dest!: bench_score_le
        split: message_origin.split registry_event.split option.split)
qed

lemma registry_calls_grow:
  "steps registry_grows s (force_set_benchmark_duration orig d s)"
  "steps registry_grows s (force_register_worker (runtime C T) orig w ec oper s)"
  "steps registry_grows s (force_register_topic_pubkey orig t k s)"
  "steps registry_grows s (register_gatekeeper (runtime C T) orig g s)"
  "steps registry_grows s (register_worker (runtime C T) orig i a s)"
  "steps registry_grows s (add_pruntime T' orig h s)"
  "steps registry_grows s (remove_pruntime T' orig h s)"
  "steps registry_grows s (add_relaychain_genesis_block_hash T' orig h s)"
  "steps registry_grows s (remove_relaychain_genesis_block_hash T' orig h s)"
  unfolding force_set_benchmark_duration_def force_register_worker_def
    force_register_topic_pubkey_def register_gatekeeper_def register_worker_def add_pruntime_def
    remove_pruntime_def add_relaychain_genesis_block_hash_def
    remove_relaychain_genesis_block_hash_def push_system_event_def Let_def
  by (auto simp: rt.registry_push_Ok registry_grows_def registry_inv_def split: option.splits sum.splits)

lemma registry_growsI:
  fixes s t :: "'b chain"
  shows "other_part t = other_part s \<Longrightarrow> registry_grows s t"
    "outside_pool t = outside_pool s \<Longrightarrow> registry_grows s t"
  by (rule registry_grows_same, simp add: other_part_def outside_pool_def registry_part_def)+

interpretation rf: pallet_frame registry_grows C T for C :: codec and T :: "'b phala_config"
  by unfold_locales
    (erule (1) registry_grows_trans, erule registry_growsI |
      rule within_pool_registry hooks_outside on_reward_outside)+

interpretation ru: binding_frame registry_grows C T for C :: codec and T :: "'b phala_config"
proof (unfold_locales, goal_cases)
  case (1 s w)
  show ?case by (rule within_pool_registry) (rule hooks_outside)
next
  case (2 s mb wb)
  show ?case by (rule registry_grows_same) (simp add: registry_part_def)
qed

interpretation rb: block_frame registry_grows C T for C :: codec and T :: "'b phala_config"
  by unfold_locales (rule registry_growsI(2), simp)+

interpretation rq: queue_frame registry_grows C T for C :: codec and T :: "'b phala_config"
proof (unfold_locales, goal_cases)
  case (1 s t u)
  then show ?case by (rule registry_grows_trans)
qed (simp_all add: registry_part_def registry_on_message_grows rf.on_gk_message_frame
    rf.on_mining_message_frame registry_grows_same)

interpretation rp: pool_host registry_grows "runtime C T" for C :: codec and T :: "'b phala_config"
  by unfold_locales
    (erule (1) registry_grows_trans, erule registry_growsI | rule ru.mining_bind_frame
      ru.unbind_miner_frame rf.start_mining_frame rf.stop_mining_frame rf.reclaim_frame)+

lemma phala_exec_registry:
  assumes ex: "phala_exec C T op s = Some r"
  shows "steps registry_grows s r"
proof -
  have ingress: "registry_grows u (u\<lparr>OffchainIngress := i\<rparr>)" "registry_grows u (u\<lparr>now_millis := n\<rparr>)"
    for u :: "'b chain" and i n by (rule registry_grows_same; simp add: registry_part_def)+
  show ?thesis
    using ex
    by (cases op) (auto simp: ingress rq.push_frames rq.mq_on_initialize_frame rq.sync_frame [OF ingress(1)]
        registry_calls_grow rf.mining_call_frames ru.mining_unbind_frame rf.mining_on_finalize_frame
        rb.stakepool_on_finalize_frame rp.pool_call_steps rp.pool_call_partial)
qed

lemma phala_reaches_registry: "phala_reaches C T s t \<Longrightarrow> registry_grows s t"
proof (induction rule: phala_reaches.induct)
  case (reach_step s t op r u)
  then show ?case using stepsD [OF phala_exec_registry] registry_grows_trans by blast
qed (simp add: registry_grows_same)

end
