(* ===== verification/Mining_Claims.thy ===== *)
theory Mining_Claims
  imports Phala_Demo Phala_Reach
begin

text \<open>
  Claims about the mining pallet: the bindings and the count of online miners in every reachable
  storage, the life cycle of a miner, its settlement, its score and the halving of the subsidy.
\<close>

section \<open>Miners and workers\<close>

text \<open>
  C3. The miners in order: in every storage the system reaches from one in order, miners and workers
  are bound one to one, a bound miner has a record and its worker is registered, a miner that is
  mining is bound, a stake is recorded exactly for the miners that are not \<open>Ready\<close>, and
  \<open>OnlineMiners\<close> is the number of miners that are mining.
\<close>

theorem miners_are_in_order:
  assumes "phala_reaches C T s t" "mining_inv s"
  shows "(MinerBindings t m = Some w \<longleftrightarrow> WorkerBindings t w = Some m) \<and>
    (MinerBindings t m = Some w \<longrightarrow> Miners t m \<noteq> None \<and> Workers t w \<noteq> None) \<and>
    (\<forall>info. Miners t m = Some info \<and> can_settle (mi_state info) \<longrightarrow> MinerBindings t m \<noteq> None) \<and>
    (Stakes t m \<noteq> None \<longleftrightarrow> (\<exists>info. Miners t m = Some info \<and> mi_state info \<noteq> Ready)) \<and>
    OnlineMiners t = of_nat (card {m. \<exists>info. Miners t m = Some info \<and> can_settle (mi_state info)})"
proof -
  have inv: "mining_inv t" by (rule phala_reaches_mining_inv [OF assms])
  then show ?thesis unfolding mining_inv_def online_def by blast
qed

text \<open>A pool with a bound worker, then with a miner at work, then with one that cools down.\<close>

definition miner_a :: account_id where "miner_a = pool_sub_account demo 0 worker_a"

definition demo_tokenomic :: tokenomic_params where
  "demo_tokenomic = \<lparr>pha_rate = fp_1, rho = fp_1, budget_per_block = 8 * fp_1, v_max = 30000 * fp_1,
     cost_k = 0, cost_b = 0, slash_rate = 0, treasury_ratio = 0, heartbeat_window = 10, rig_k = 0,
     rig_b = 0, re = fp_1, tk_k = 0, kappa = fp_1\<rparr>"

definition mining_miner :: miner_info where
  "mining_miner = (fresh_miner 0)\<lparr>mi_state := MiningIdle, mi_ve := fp_1, mi_v := fp_1\<rparr>"

definition demo_mining :: "(account_id \<Rightarrow> u128) chain" where
  "demo_mining = genesis\<lparr>Miners := [miner_a \<mapsto> mining_miner], MinerBindings := [miner_a \<mapsto> worker_a],
     WorkerBindings := [worker_a \<mapsto> miner_a], Stakes := [miner_a \<mapsto> 1000000000000],
     OnlineMiners := 1, StakePools := [0 \<mapsto> (new_pool 0 staker_a)\<lparr>p_workers := [worker_a]\<rparr>],
     WorkerAssignments := [worker_a \<mapsto> 0], PoolCount := 1\<rparr>"

lemma demo_online: "online demo_mining = {miner_a}"
  by (auto simp: online_def demo_mining_def mining_miner_def split: if_splits)

lemma demo_mining_inv: "mining_inv demo_mining"
  unfolding mining_inv_def demo_online
  by (auto simp: demo_mining_def genesis_def mining_miner_def split: if_splits)

theorem miners_are_in_order_witness:
  "WorkerBindings demo_mining worker_a = Some miner_a \<and> OnlineMiners demo_mining = of_nat (card {miner_a})"
  using miners_are_in_order [OF phala_reaches.reach_start demo_mining_inv, of miner_a worker_a]
    demo_online by (simp add: demo_mining_def online_def)

text \<open>
  C27. The life cycle: an operation of the mining pallet never forgets a miner and moves its state
  only along \<open>Ready\<close> to \<open>MiningIdle\<close>, between \<open>MiningIdle\<close> and \<open>MiningUnresponsive\<close>, from a mining
  state to \<open>MiningCoolingDown\<close> and from there back to \<open>Ready\<close>; and the last step is taken only by
  reclaiming that very miner after the cool down period.
\<close>

theorem miner_life_cycle:
  assumes "mining_host T" "left_state (mining_exec T op s) = Some t" "Miners s m = Some a"
  shows "\<exists>b. Miners t m = Some b \<and> life_step (mi_state a) (mi_state b) \<and>
    (mi_state a = MiningCoolingDown \<and> mi_state b \<noteq> MiningCoolingDown \<longrightarrow>
       op = Reclaim m \<and> CoolDownPeriod s \<le> now_sec s - cool_down_start a)"
  using stepsD [OF mining_host.mining_exec_moves [OF assms(1)] assms(2)] assms(3)
  unfolding miners_move_def op_moves_def by blast

lemma demo_rt_host: "mining_host demo_rt"
  by (rule rt.mining_host_axioms)

lemma demo_heartbeat:
  "left_state (mining_exec demo_rt (Tick 5000) demo_mining) = Some (demo_mining\<lparr>now_millis := 5000\<rparr>)"
  by simp

theorem miner_life_cycle_witness:
  "\<exists>b. Miners (demo_mining\<lparr>now_millis := 5000\<rparr>) miner_a = Some b \<and> life_step MiningIdle (mi_state b)"
  using miner_life_cycle [OF demo_rt_host demo_heartbeat, of miner_a mining_miner]
  by (auto simp: demo_mining_def mining_miner_def)

section \<open>Settlement\<close>

context fixed_arith
begin

lemma min_rate_le: "unat (min q fp_1) \<le> 2 ^ 64"
  by (simp add: fp_1_def min_def word_le_nat_alt)

lemma returned_le:
  assumes small: "unat stake < 2 ^ 64"
  shows "balance_from_fixed F (fx_mul F (min q fp_1) (balance_to_fixed F stake)) \<le> stake"
proof -
  let ?b = "balance_to_fixed F stake"
  have "unat (min q fp_1) * unat ?b div 2 ^ 64 \<le> 2 ^ 64 * unat ?b div 2 ^ 64"
    by (intro div_le_mono mult_le_mono1 min_rate_le)
  then have le: "unat (min q fp_1) * unat ?b div 2 ^ 64 \<le> unat ?b" by simp
  also have "\<dots> < 2 ^ 128" using unat_lt_2p [of ?b] by simp
  finally have "unat (fx_mul F (min q fp_1) ?b) = unat (min q fp_1) * unat ?b div 2 ^ 64" by (rule mul)
  then have "fx_mul F (min q fp_1) ?b \<le> ?b" using le by (simp add: word_le_nat_alt)
  then have "balance_from_fixed F (fx_mul F (min q fp_1) ?b) \<le> balance_from_fixed F ?b"
    by (rule from_fixed_mono)
  then show ?thesis using from_to_fixed(1) [OF small] by (rule order_trans)
qed

lemma times_one [simp]: "fx_mul F fp_1 b = b"
proof -
  have "unat (fx_mul F fp_1 b) = unat fp_1 * unat b div 2 ^ 64"
    using unat_lt_2p [of b] by (intro mul) (simp add: fp_1_def)
  then show ?thesis by (simp add: fp_1_def word_unat_eq_iff)
qed

lemma settled_stake:
  assumes small: "unat stake < 2 ^ 64" and c: "calc_final_stake F m stake = Some (returned, slashed)"
  shows "unat returned + unat slashed = unat stake"
    and "mi_ve m \<le> mi_v m \<Longrightarrow> unat (mi_v m) * 2 ^ 64 div unat (mi_ve m) < 2 ^ 128 \<Longrightarrow> unat slashed \<le> 1"
proof -
  obtain q where q: "fx_div F (mi_v m) (mi_ve m) = Some q"
    and r: "returned = balance_from_fixed F (fx_mul F (min q fp_1) (balance_to_fixed F stake))"
    and sl: "slashed = stake - returned"
    using c by (auto simp: calc_final_stake_def Let_def split: option.splits)
  have le: "returned \<le> stake" unfolding r by (rule returned_le [OF small])
  then show "unat returned + unat slashed = unat stake"
    by (simp add: sl unat_minus_le word_le_nat_alt)
  assume v: "mi_ve m \<le> mi_v m" "unat (mi_v m) * 2 ^ 64 div unat (mi_ve m) < 2 ^ 128"
  have ve: "mi_ve m \<noteq> 0" using q div_zero by auto
  have "2 ^ 64 \<le> unat (mi_v m) * 2 ^ 64 div unat (mi_ve m)"
  proof -
    have "unat (mi_ve m) * 2 ^ 64 \<le> unat (mi_v m) * 2 ^ 64" using v(1) by (simp add: word_le_nat_alt)
    then have "unat (mi_ve m) * 2 ^ 64 div unat (mi_ve m) \<le> unat (mi_v m) * 2 ^ 64 div unat (mi_ve m)"
      by (rule div_le_mono)
    then show ?thesis using ve by (simp add: unat_gt_0)
  qed
  then have "fp_1 \<le> q" using div [OF q v(2)] by (simp add: fp_1_def word_le_nat_alt)
  then have "returned = balance_from_fixed F (balance_to_fixed F stake)" by (simp add: r min_absorb2)
  then show "unat slashed \<le> 1" using from_to_fixed [OF small] le by (simp add: sl unat_minus_le)
qed

end

text \<open>
  Settling a stake: what is returned and what is slashed add up to the stake, whatever the miner's
  \<open>V\<close>; and a miner whose \<open>V\<close> has not fallen below its initial \<open>Ve\<close> is slashed by at most the one
  pico that the conversion to fixed point may lose.
\<close>

theorem final_stake_adds_up:
  assumes "fixed_arith F" "unat stake < 2 ^ 64"
    and "calc_final_stake F m stake = Some (returned, slashed)"
  shows "unat returned + unat slashed = unat stake \<and>
    (mi_ve m \<le> mi_v m \<and> unat (mi_v m) * 2 ^ 64 div unat (mi_ve m) < 2 ^ 128 \<longrightarrow> unat slashed \<le> 1)"
  using fixed_arith.settled_stake [OF assms] by blast

lemma demo_settles:
  "calc_final_stake u64f64 (mining_miner\<lparr>mi_v := 2 ^ 63\<rparr>) 1000000000000 =
     Some (500000000000, 500000000000)"
proof -
  have "fx_div u64f64 (2 ^ 63) (2 ^ 64) = Some (2 ^ 63)" by (simp add: u64f64_def)
  moreover have "fx_mul u64f64 (2 ^ 63) (2 ^ 64) = 2 ^ 63" by (simp add: u64f64_def)
  moreover have "balance_to_fixed u64f64 1000000000000 = 2 ^ 64"
    using u64f64.to_fixed_unat [of 1000000000000] by (simp add: word_unat_eq_iff)
  moreover have "balance_from_fixed u64f64 (2 ^ 63) = 500000000000"
    using u64f64.from_fixed_unat [of "2 ^ 63"] by (simp add: word_unat_eq_iff)
  moreover have "min (2 ^ 63) fp_1 = (2 ^ 63 :: u64f64)" by (simp add: fp_1_def min_def)
  ultimately show ?thesis by (simp add: calc_final_stake_def mining_miner_def fp_1_def)
qed

theorem final_stake_adds_up_witness:
  "unat (500000000000 :: u128) + unat (500000000000 :: u128) = unat (1000000000000 :: u128) \<and>
   calc_final_stake u64f64 (mining_miner\<lparr>mi_v := 2 ^ 63\<rparr>) 1000000000000 =
     Some (500000000000, 500000000000)"
  using final_stake_adds_up [OF u64f64.fixed_arith_axioms _ demo_settles] demo_settles by simp

section \<open>Score and subsidy\<close>

text \<open>
  The instant score: an accepted heartbeat is newer than the last one, leaves the initial score
  alone, records the challenge it answers, and sets the instant score to at most 120 percent of the
  initial score (the registry keeps scores below 6001, so the product fits 32 bits).
\<close>

theorem instant_score_is_bounded:
  assumes "benchmark_update now iters challenge b = Some b'" "p_init b \<le> 6000"
  shows "challenge_time_last b < now \<and> p_init b' = p_init b \<and>
    unat (p_instant b') \<le> unat (p_init b) * 12 div 10 \<and>
    challenge_time_last b' = challenge \<and> iterations b' = iters"
proof -
  have now: "challenge_time_last b < now" using assms(1) by (auto simp: benchmark_update_def split: if_splits)
  have "unat (p_init b * 12 div 10) = unat (p_init b) * 12 div 10"
    using assms(2) by (simp add: unat_div unat_times_small word_le_nat_alt)
  moreover have "p_instant b' \<le> p_init b * 12 div 10 \<and> p_init b' = p_init b \<and>
      challenge_time_last b' = challenge \<and> iterations b' = iters"
    using assms(1) now by (auto simp: benchmark_update_def Let_def split: if_splits)
  ultimately show ?thesis using now by (simp add: word_le_nat_alt)
qed

definition benchmark_1 :: benchmark where
  "benchmark_1 = \<lparr>p_init = 100, p_instant = 0, iterations = 1000, mining_start_time = 0,
     challenge_time_last = 10\<rparr>"

theorem instant_score_is_bounded_witness:
  "\<exists>b'. benchmark_update 20 1500 19 benchmark_1 = Some b' \<and> unat (p_instant b') \<le> 120"
proof -
  obtain b' where b: "benchmark_update 20 1500 19 benchmark_1 = Some b'"
    by (simp add: benchmark_update_def benchmark_1_def)
  show ?thesis using b instant_score_is_bounded [OF b] by (simp add: benchmark_1_def)
qed

context message_host
begin

lemma update_tokenomic_Ok:
  "\<exists>t. update_tokenomic_parameters T tk s = Ok () t \<and> TokenomicParameters t = Some tk \<and>
     MiningHalvingInterval t = MiningHalvingInterval s \<and> MiningStartBlock t = MiningStartBlock s"
  by (simp add: update_tokenomic_parameters_def mining_push_Ok mining_deposit_def outbox_def)

lemma heartbeat_params:
  assumes "heartbeat_challenge T s = Ok () t"
  shows "TokenomicParameters t = TokenomicParameters s"
    "ScheduledTokenomicUpdate t = ScheduledTokenomicUpdate s"
    "MiningHalvingInterval t = MiningHalvingInterval s" "MiningStartBlock t = MiningStartBlock s"
  using assms
  by (auto simp: heartbeat_challenge_def push_heartbeat_challenge_def mining_push_Ok Let_def outbox_def
      split: option.splits)

lemma subsidy_budget:
  assumes fx: "fixed_arith (Fx T)" and tk: "TokenomicParameters s = Some tk"
    and ok: "apply_subsidy T n s = Ok () t"
  shows "\<exists>b. TokenomicParameters t = Some (tk\<lparr>budget_per_block := b\<rparr>) \<and>
    unat b = (case MiningHalvingInterval s of
       Some k \<Rightarrow> if 0 < k \<and> (n - (case MiningStartBlock s of Some b \<Rightarrow> b | None \<Rightarrow> 0)) mod k = k - 1
         then unat (budget_per_block tk) * 3 div 4 else unat (budget_per_block tk)
     | None \<Rightarrow> unat (budget_per_block tk))"
proof -
  define b where "b = fx_mul (Fx T) (budget_per_block tk) fp_0_75"
  have three: "unat fp_0_75 = 3 * 2 ^ 62" by (simp add: fp_0_75_def)
  have "unat (budget_per_block tk) * unat fp_0_75 div 2 ^ 64 = unat (budget_per_block tk) * 3 div 4"
    unfolding three by simp
  then have b: "unat b = unat (budget_per_block tk) * 3 div 4"
    using fixed_arith.mul [OF fx, of "budget_per_block tk" fp_0_75] unat_lt_2p [of "budget_per_block tk"]
    by (simp add: b_def)
  obtain u where u: "trigger_subsidy_halving T s = Ok () u"
    "TokenomicParameters u = Some (tk\<lparr>budget_per_block := b\<rparr>)"
    using update_tokenomic_Ok by (auto simp: trigger_subsidy_halving_def tk b_def)
  have same: "\<exists>b. TokenomicParameters s = Some (tk\<lparr>budget_per_block := b\<rparr>) \<and> unat b = unat (budget_per_block tk)"
    by (rule exI [of _ "budget_per_block tk"]) (simp add: tk)
  show ?thesis using ok b u same by (auto simp: apply_subsidy_def Let_def split: option.splits if_splits)
qed

end

text \<open>
  C32. The subsidy: at the end of a block the scheduled tokenomic parameters, if any, replace the
  current ones, and on the last block of a halving interval, and on no other, the budget per block
  becomes three quarters of what it was, rounded down to the last bit.
\<close>

theorem subsidy_is_cut_on_schedule:
  assumes "message_host T" "fixed_arith (Fx T)"
    and "TokenomicParameters s = Some tk0"
    and "mining_on_finalize T n s = Ok () t"
  shows "let tk = (case ScheduledTokenomicUpdate s of Some tk \<Rightarrow> tk | None \<Rightarrow> tk0);
      start = (case MiningStartBlock s of Some b \<Rightarrow> b | None \<Rightarrow> 0)
    in \<exists>b. TokenomicParameters t = Some (tk\<lparr>budget_per_block := b\<rparr>) \<and>
      unat b = (case MiningHalvingInterval s of
         Some k \<Rightarrow> if 0 < k \<and> (n - start) mod k = k - 1
           then unat (budget_per_block tk) * 3 div 4 else unat (budget_per_block tk)
       | None \<Rightarrow> unat (budget_per_block tk))"
proof -
  obtain s1 s2 where h: "heartbeat_challenge T s = Ok () s1" and a: "apply_tokenomic_update T s1 = Ok () s2"
    and f: "apply_subsidy T n s2 = Ok () t"
    using assms(4) by (auto simp: mining_on_finalize_def andthen_Ok_iff)
  note p = message_host.heartbeat_params [OF assms(1) h]
  have "TokenomicParameters s2 = Some (case ScheduledTokenomicUpdate s of Some tk \<Rightarrow> tk | None \<Rightarrow> tk0) \<and>
      MiningHalvingInterval s2 = MiningHalvingInterval s \<and> MiningStartBlock s2 = MiningStartBlock s"
  proof (cases "ScheduledTokenomicUpdate s")
    case (Some tk)
    then show ?thesis using a p message_host.update_tokenomic_Ok [OF assms(1), of tk "s1\<lparr>ScheduledTokenomicUpdate := None\<rparr>"]
      by (auto simp: apply_tokenomic_update_def)
  qed (use a p assms(3) in \<open>simp add: apply_tokenomic_update_def\<close>)
  then have s2: "TokenomicParameters s2 = Some (case ScheduledTokenomicUpdate s of Some tk \<Rightarrow> tk | None \<Rightarrow> tk0)"
    "MiningHalvingInterval s2 = MiningHalvingInterval s" "MiningStartBlock s2 = MiningStartBlock s"
    by blast+
  show ?thesis using message_host.subsidy_budget [OF assms(1,2) s2(1) f] unfolding s2(2,3) Let_def .
qed

definition last_block :: "(account_id \<Rightarrow> u128) chain" where
  "last_block = genesis\<lparr>TokenomicParameters := Some demo_tokenomic, MiningHalvingInterval := Some 10\<rparr>"

lemma demo_finalizes: "\<exists>t. mining_on_finalize demo_rt 9 last_block = Ok () t"
proof -
  have "pow_target demo_q32 20 0 12 = Some 0" by (simp add: pow_target_def)
  moreover have "ExpectedBlockTimeSec demo_rt = 12"
    by (simp add: runtime_def quiet_def with_stakepool_def demo_def)
  ultimately have "\<exists>u. heartbeat_challenge demo_rt last_block = Ok () u"
    by (simp add: heartbeat_challenge_def push_heartbeat_challenge_def rt.mining_push_Ok last_block_def
        genesis_def)
  then obtain u where h: "heartbeat_challenge demo_rt last_block = Ok () u" ..
  note p = message_host.heartbeat_params [OF rt.message_host_axioms h]
  have "\<exists>t. update_tokenomic_parameters demo_rt tk v = Ok () t" for tk v
    using message_host.update_tokenomic_Ok [OF rt.message_host_axioms] by blast
  then have "\<exists>t. trigger_subsidy_halving demo_rt u = Ok () t"
    by (simp add: trigger_subsidy_halving_def p last_block_def)
  then have "\<exists>t. apply_subsidy demo_rt 9 u = Ok () t"
    by (auto simp: apply_subsidy_def p last_block_def genesis_def)
  then show ?thesis
    by (simp add: mining_on_finalize_def h apply_tokenomic_update_def p) (simp add: last_block_def genesis_def)
qed

theorem subsidy_is_cut_on_schedule_witness:
  "\<exists>t b. mining_on_finalize demo_rt 9 last_block = Ok () t \<and>
     TokenomicParameters t = Some (demo_tokenomic\<lparr>budget_per_block := b\<rparr>) \<and> unat b = 6 * 2 ^ 64"
proof -
  obtain t where t: "mining_on_finalize demo_rt 9 last_block = Ok () t" using demo_finalizes ..
  show ?thesis
    using t subsidy_is_cut_on_schedule [OF rt.message_host_axioms _ _ t, of demo_tokenomic]
    by (auto simp: u64f64.fixed_arith_axioms last_block_def genesis_def demo_tokenomic_def fp_1_def)
qed

section \<open>Starting a miner\<close>


definition demo_ready :: "(account_id \<Rightarrow> u128) chain" where
  "demo_ready = genesis\<lparr>Miners := [miner_a \<mapsto> fresh_miner 0], MinerBindings := [miner_a \<mapsto> worker_a],
     WorkerBindings := [worker_a \<mapsto> miner_a], TokenomicParameters := Some demo_tokenomic,
     StakePools := [0 \<mapsto> (new_pool 0 staker_a)\<lparr>p_workers := [worker_a], free_stake := 2000000000000\<rparr>],
     WorkerAssignments := [worker_a \<mapsto> 0], PoolCount := 1\<rparr>"

lemma demo_minimal_stake: "minimal_stake u64f64 demo_tokenomic p = 0"
proof -
  have "fx_mul u64f64 0 x = 0" for x using u64f64.mul [of 0 x] by (simp add: unat_eq_0)
  then show ?thesis by (simp add: minimal_stake_def demo_tokenomic_def)
qed

lemma demo_ve: "tokenomic_ve u64f64 demo_tokenomic 1000000000000 100 1 = fp_1"
proof -
  have zero: "fx_mul u64f64 0 x = 0" for x using u64f64.mul [of 0 x] by (simp add: unat_eq_0)
  have pha: "balance_to_fixed u64f64 1000000000000 = fp_1"
    using u64f64.to_fixed_unat [of 1000000000000] by (simp add: word_unat_eq_iff fp_1_def)
  have ops: "fx_add u64f64 x y = x + y" "fx_sub u64f64 x y = x - y" "fx_from_num u64f64 1 = fp_1" for x y
    by (simp_all add: u64f64_def fp_1_def)
  show ?thesis
    by (simp add: tokenomic_ve_def rig_cost_def Let_def ops zero pha)
      (simp add: demo_tokenomic_def zero)
qed

lemma demo_ready_fields:
  "StakePools demo_ready 0 = Some ((new_pool 0 staker_a)\<lparr>p_workers := [worker_a], free_stake := 2000000000000\<rparr>)"
  "MiningEnabled demo_ready"
  by (simp_all add: demo_ready_def genesis_def)

lemma demo_miner_account: "pool_sub_account demo_rt 0 worker_a = miner_a"
  by (simp add: pool_sub_account_def miner_a_def)

lemma demo_start_mining: "\<exists>t. start_mining demo_rt miner_a 1000000000000 demo_ready = Ok () t"
  by (simp add: start_mining_def Let_def push_worker_event_def rt.mining_push_Ok demo_ready_def
      demo_worker_def demo_minimal_stake demo_ve fresh_miner_def)
    (simp add: demo_tokenomic_def fp_1_def genesis_def demo_worker_def worker_a_def)

lemma demo_starts:
  "\<exists>t. pool_start_mining demo_rt (Signed staker_a) 0 worker_a 1000000000000 demo_ready = Ok () t"
proof -
  obtain u where "start_mining demo_rt miner_a 1000000000000 demo_ready = Ok () u"
    using demo_start_mining ..
  then show ?thesis
    by (simp add: pool_start_mining_def Let_def demo_ready_fields demo_miner_account)
qed


end
