(* ===== verification/Block_End.thy ===== *)
theory Block_End
  imports Phala_Reach
begin

text \<open>
  Why the end of a block does not panic. The hook of the stake pool stops the miners of pools whose
  withdrawals have waited too long; the source backs this with \<open>expect\<close>s ("Pool list must exist",
  "Stake pool must exist", "Worker must be in a pool"). \<open>tidy\<close> is the invariant behind them, and
  every operation keeps it.
\<close>

section \<open>The invariant\<close>

definition assigned :: "'b phala_config \<Rightarrow> 'b chain \<Rightarrow> bool" where
  "assigned T s \<longleftrightarrow> (\<forall>m w. MinerBindings s m = Some w \<longrightarrow>
     (\<exists>pid. WorkerAssignments s w = Some pid \<and> StakePools s pid \<noteq> None \<and> m = pool_sub_account T pid w))"

definition clock_ok :: "u64 list \<Rightarrow> 'b chain \<Rightarrow> bool" where
  "clock_ok ts s \<longleftrightarrow> sorted_wrt (<) ts \<and> (\<forall>t \<in> set ts. t \<le> now_sec s) \<and>
     set ts = dom (WithdrawalQueuedPools s) \<and>
     (\<forall>t ps. WithdrawalQueuedPools s t = Some ps \<longrightarrow> set ps \<subseteq> dom (StakePools s))"

definition tidy :: "'b phala_config \<Rightarrow> 'b chain \<Rightarrow> bool" where
  "tidy T s \<longleftrightarrow> assigned T s \<and> clock_ok (WithdrawalTimestamps s) s"

text \<open>Most operations leave alone all that \<open>tidy\<close> looks at, and remove no pool.\<close>

definition steady_part :: "'b chain \<Rightarrow> _" where
  "steady_part s = (MinerBindings s, WorkerBindings s, WorkerAssignments s, WithdrawalQueuedPools s,
     WithdrawalTimestamps s, now_millis s)"

definition steady :: "'b chain \<Rightarrow> 'b chain \<Rightarrow> bool" where
  "steady s t \<longleftrightarrow> steady_part t = steady_part s \<and> dom (StakePools s) \<subseteq> dom (StakePools t)"

lemma steady_refl [simp]: "steady s s"
  by (simp add: steady_def)

lemma steady_trans: "steady s t \<Longrightarrow> steady t u \<Longrightarrow> steady s u"
  by (auto simp: steady_def)

lemma assigned_grows:
  assumes "assigned T s" "MinerBindings t = MinerBindings s" "WorkerAssignments t = WorkerAssignments s"
    and "dom (StakePools s) \<subseteq> dom (StakePools t)"
  shows "assigned T t"
  using assms(1,4) unfolding assigned_def assms(2,3) by blast

lemma clock_grows:
  assumes "clock_ok ts s" "WithdrawalQueuedPools t = WithdrawalQueuedPools s" "now_sec s \<le> now_sec t"
    and "dom (StakePools s) \<subseteq> dom (StakePools t)"
  shows "clock_ok ts t"
  using assms(1,3,4) unfolding clock_ok_def assms(2) by (meson order_trans)

lemma steadyD:
  assumes "steady s t"
  shows "MinerBindings t = MinerBindings s" "WorkerBindings t = WorkerBindings s"
    "WorkerAssignments t = WorkerAssignments s" "WithdrawalQueuedPools t = WithdrawalQueuedPools s"
    "WithdrawalTimestamps t = WithdrawalTimestamps s" "now_sec t = now_sec s"
    "dom (StakePools s) \<subseteq> dom (StakePools t)"
  using assms by (simp_all add: steady_def steady_part_def now_sec_def)

lemma steady_tidy:
  assumes st: "steady s t" and tidy: "tidy T s"
  shows "tidy T t"
proof -
  note d = steadyD [OF st]
  have "assigned T t" using tidy by (intro assigned_grows [OF _ d(1,3,7)]) (simp add: tidy_def)
  moreover have "clock_ok (WithdrawalTimestamps s) t"
    using tidy by (intro clock_grows [OF _ d(4) _ d(7)]) (simp_all add: tidy_def d(6))
  ultimately show ?thesis by (simp add: tidy_def d(5))
qed

section \<open>The pallet's own functions\<close>

definition calm_part :: "'b chain \<Rightarrow> _" where
  "calm_part s = (steady_part s, StakePools s)"

abbreviation calm :: "'b chain \<Rightarrow> 'b chain \<Rightarrow> bool" where
  "calm s t \<equiv> calm_part t = calm_part s"

lemma calm_upd [simp]:
  "calm_part (s\<lparr>bank := b\<rparr>) = calm_part s" "calm_part (s\<lparr>PoolStakers := us\<rparr>) = calm_part s"
  "calm_part (s\<lparr>StakeLedger := l\<rparr>) = calm_part s" "calm_part (s\<lparr>MiningEnabled := e\<rparr>) = calm_part s"
  "calm_part (s\<lparr>SubAccountPreimages := m\<rparr>) = calm_part s"
  "calm_part (s\<lparr>stakepool_log := es\<rparr>) = calm_part s" "calm_part (s\<lparr>PoolCount := n\<rparr>) = calm_part s"
  by (simp_all add: calm_part_def steady_part_def)

lemma calm_helpers [simp]:
  "calm_part (stakepool_deposit e s) = calm_part s" "calm_part (put_staker pid who u s) = calm_part s"
  "calm_part (update_lock T who a s) = calm_part s" "calm_part (remove_dust T who a s) = calm_part s"
  "calm_part (ledger_accrue T who a s) = calm_part s"
  "calm_part (ledger_reduce T who a d s) = calm_part s"
  by (simp_all add: stakepool_deposit_def put_staker_def update_lock_def
      remove_dust_def ledger_accrue_def ledger_reduce_def Let_def split: prod.split)

lemma calm_settle: "maybe_settle_slash T p u s = (u', s') \<Longrightarrow> calm s s'"
  by (auto simp: maybe_settle_slash_def Let_def split: option.splits prod.splits if_splits)

lemma calm_steady: "calm s t \<Longrightarrow> steady s t"
  by (simp add: steady_def calm_part_def)

lemma calm_steps: "steps calm s r \<Longrightarrow> steps steady s r"
  unfolding steps_def using calm_steady by blast

lemma put_pool_steady: "steady s (put_pool pid p s)"
  by (auto simp: steady_def put_pool_def steady_part_def)

lemma put_pool_after: "steady s t \<Longrightarrow> steady s (put_pool pid p t)"
  by (rule steady_trans [OF _ put_pool_steady])

lemma serve_front_calm: "steps calm s (serve_front T price w rest p s)"
  by (auto simp: serve_front_def Let_def calm_settle split: option.split prod.split)

lemma serve_queue_calm: "serve_queue T price p s = Some r \<Longrightarrow> steps calm s r"
proof (induct rule: serve_queue.raw_induct [rotated, consumes 1, case_names step])
  case (step f T price p s r)
  show ?case
  proof (cases "is_nondust_balance (free_stake p) \<and> withdraw_queue p \<noteq> []")
    case True
    then obtain w rest where q: "withdraw_queue p = w # rest" by (cases "withdraw_queue p") auto
    have front: "steps calm s (serve_front T price w rest p s)" by (rule serve_front_calm)
    show ?thesis
    proof (cases "serve_front T price w rest p s")
      case (Ok p' s')
      then have "steps calm s' r" using step True q by auto
      then show ?thesis using front Ok by (simp add: steps_def)
    qed (use step True q front in auto)
  next
    case False
    then have "r = Ok p s" using step by (auto split: if_splits list.splits)
    then show ?thesis by simp
  qed
qed

lemma try_process_calm: "try_process_withdraw_queue T p s = Some r \<Longrightarrow> steps calm s r"
  by (auto simp: try_process_withdraw_queue_def serve_queue_calm split: option.splits)

lemma served_steady:
  fixes s s1 :: "'b chain"
  assumes "try_process_withdraw_queue T p s1 = Some q" "calm s s1"
  shows "steps steady s (andthen q (\<lambda>p s. Ok () (stakepool_deposit e (put_pool pid p s))))"
proof (cases q)
  case (Ok p' t)
  have "calm s t" using try_process_calm [OF assms(1)] assms(2) Ok by simp
  then have "steady s (put_pool pid p' t)" by (intro put_pool_after calm_steady)
  then have "steady s (stakepool_deposit e (put_pool pid p' t))"
    by (rule steady_trans) (rule calm_steady, simp)
  then show ?thesis by (simp add: Ok)
qed (use try_process_calm [OF assms(1)] assms(2) in \<open>auto intro: calm_steady\<close>)

lemma contribute_steady: "contribute T orig pid a s = Some r \<Longrightarrow> steps steady s r"
  by (auto simp: contribute_def Let_def calm_settle
      split: option.splits if_splits prod.splits intro!: served_steady)

lemma new_reward_calm: "steps calm s (handle_pool_new_reward T p r s)"
  by (simp add: handle_pool_new_reward_def Let_def split: option.split)

lemma stopped_steady: "steps steady s (on_stopped w st sl s)"
  by (simp add: on_stopped_def Let_def put_pool_steady split: option.split)

lemma on_reward_steady: "steps steady s (on_reward T xs s)"
proof (induction xs arbitrary: s)
  case (Cons info xs)
  have "steps steady s (andthen (handle_pool_new_reward T p r s)
      (\<lambda>p s. on_reward T xs (put_pool pid p s)))" for p r pid
  proof (rule steps_andthen [OF steady_trans calm_steps [OF new_reward_calm]])
    show "steps steady t (on_reward T xs (put_pool pid x t))" for x and t :: "'a chain"
      using Cons [of "put_pool pid x t"] put_pool_steady [of t pid x]
      unfolding steps_def using steady_trans by blast
  qed assumption
  moreover have "steady s (stakepool_deposit e s)" for e by (rule calm_steady) simp
  ultimately show ?case by (simp add: Let_def split: option.split)
qed simp

section \<open>Frames\<close>

lemma steady_own: "other_part t = other_part s \<Longrightarrow> steady s t"
  "beyond_registry t = beyond_registry s \<Longrightarrow> steady s t" for s t :: "'b chain"
  by (simp_all add: steady_def steady_part_def other_part_def beyond_registry_def)

interpretation st: message_frame steady C T for C :: codec and T :: "'b phala_config"
  by unfold_locales
    (erule (1) steady_trans | erule steady_own | rule stopped_steady on_reward_steady)+

text \<open>The calls of the stake pool that leave bindings, assignments and clock alone.\<close>

lemma settings_steady:
  "steps steady s (create_pool orig s)"
  "steps steady s (set_cap orig pid cap s)"
  "steps steady s (set_payout_pref orig pid c s)"
  "steps steady s (set_mining_enable T orig b s)"
  "steps steady s (reconcile_withdraw_queue orig pid a s)"
proof -
  have dep: "steady s (stakepool_deposit e t)" if "steady s t" for e t
    by (rule steady_trans [OF that calm_steady]) simp
  have upd: "steady s (t\<lparr>PoolCount := n\<rparr>)" "steady s (t\<lparr>MiningEnabled := b\<rparr>)" if "steady s t" for t n b
    by (rule steady_trans [OF that calm_steady], simp)+
  show "steps steady s (create_pool orig s)" "steps steady s (set_cap orig pid cap s)"
    "steps steady s (set_payout_pref orig pid c s)" "steps steady s (set_mining_enable T orig b s)"
    "steps steady s (reconcile_withdraw_queue orig pid a s)"
    by (auto simp: create_pool_def set_cap_def set_payout_pref_def set_mining_enable_def
        reconcile_withdraw_queue_def Let_def put_pool_steady dep upd split: option.split)
qed

lemma claim_rewards_steady: "steps steady s (claim_rewards T orig pid target s)"
proof -
  have bank: "steady s (s\<lparr>bank := b\<rparr>)" for b by (rule calm_steady) simp
  have "steady s (stakepool_deposit e (put_pool pid p (s\<lparr>bank := b\<rparr>)))"
    "steady s (stakepool_deposit e (put_staker pid who u (put_pool pid p (s\<lparr>bank := b\<rparr>))))" for e p b who u
    by (rule steady_trans [OF put_pool_after [OF bank] calm_steady], simp)+
  then show ?thesis
    by (simp add: claim_rewards_def withdraw_subsidy_pool_def Let_def split: option.split prod.split sum.split)
qed

lemma handle_reclaim_steady: "handle_reclaim T pid st sl s = Some r \<Longrightarrow> steps steady s r"
proof -
  assume r: "handle_reclaim T pid st sl s = Some r"
  show "steps steady s r"
  proof (cases "StakePools s pid")
    case (Some p)
    obtain p1 s1 where c: "credit_reclaimed pid st sl p s = (p1, s1)" by fastforce
    then obtain q where q: "try_process_withdraw_queue T p1 s1 = Some q"
      and r': "r = andthen q (\<lambda>p s. Ok () (put_pool pid p s))"
      using r Some by (auto simp: handle_reclaim_def)
    have s1: "calm s s1" using c by (auto simp: credit_reclaimed_def Let_def split: if_splits)
    show ?thesis using try_process_calm [OF q] s1 unfolding r'
      by (cases q) (auto intro: put_pool_after calm_steady)
  qed (use r in \<open>simp add: handle_reclaim_def\<close>)
qed

lemma worker_calls_steady:
  "steps steady s (pool_start_mining (runtime C T) orig pid w stake s)"
  "steps steady s (pool_stop_mining (runtime C T) orig pid w s)"
proof -
  have "steady t ((put_pool pid p t)\<lparr>SubAccountPreimages := M\<rparr>)" for p M t
    by (rule steady_trans [OF put_pool_steady calm_steady]) simp
  then show "steps steady s (pool_start_mining (runtime C T) orig pid w stake s)"
    unfolding pool_start_mining_def Let_def
    by (auto intro!: st.frame_andthen st.start_mining_frame split: option.split)
  show "steps steady s (pool_stop_mining (runtime C T) orig pid w s)"
    unfolding pool_stop_mining_def by (auto simp: st.stop_mining_frame split: option.split)
qed

lemma reclaim_worker_steady:
  "reclaim_pool_worker (runtime C T) orig pid w s = Some r \<Longrightarrow> steps steady s r"
proof -
  assume r: "reclaim_pool_worker (runtime C T) orig pid w s = Some r"
  let ?T = "runtime C T" let ?m = "pool_sub_account ?T pid w"
  show "steps steady s r"
  proof (cases "\<exists>e. r = Err e s \<or> r = Panic")
    case False
    then obtain u v where signed: "ensure_signed orig = Some u" and pool: "StakePools s pid = Some v"
      using r by (auto simp: reclaim_pool_worker_def split: option.splits)
    note unfolded = r [unfolded reclaim_pool_worker_def signed pool option.case Let_def]
    show ?thesis
    proof (cases "reclaim ?T ?m s")
      case (Ok x t)
      obtain st sl where x: "x = (st, sl)" by fastforce
      from unfolded Ok x obtain q where q: "handle_reclaim ?T pid st sl t = Some q"
        and r': "r = andthen q (\<lambda>_ s. Ok () (s\<lparr>SubAccountPreimages := (SubAccountPreimages s)(?m := None)\<rparr>))"
        by auto
      have "steps steady t r" unfolding r'
        by (rule st.frame_andthen [OF handle_reclaim_steady [OF q]]) (auto intro: calm_steady)
      moreover have "steady s t" using st.reclaim_frame [of s ?T ?m] Ok by simp
      ultimately show ?thesis by (rule st.after [rotated])
    next
      case (Err e t)
      then show ?thesis using unfolded st.reclaim_frame [of s ?T ?m] by auto
    qed (use unfolded in auto)
  qed auto
qed

section \<open>Binding and unbinding\<close>

lemma pool_sub_account_runtime [simp]: "pool_sub_account (runtime C T) = pool_sub_account T"
  by (intro ext) (simp add: pool_sub_account_def)

lemma add_worker_tidy:
  assumes mi: "mining_inv s"
  shows "keeps (tidy T) s (add_worker (runtime C T) orig pid w s)"
proof (cases "\<exists>e. add_worker (runtime C T) orig pid w s = Err e s \<or> add_worker (runtime C T) orig pid w s = Panic")
  case False
  let ?m = "pool_sub_account T pid w"
  have bind: "mining_bind m w s = Ok x t \<Longrightarrow> MinerBindings t = (MinerBindings s)(m \<mapsto> w) \<and>
      WorkerBindings s w = None \<and> WorkerAssignments t = WorkerAssignments s \<and> StakePools t = StakePools s \<and>
      WithdrawalQueuedPools t = WithdrawalQueuedPools s \<and> WithdrawalTimestamps t = WithdrawalTimestamps s \<and>
      now_millis t = now_millis s" for m x t
    by (auto simp: mining_bind_def mining_deposit_def ensure_worker_bound_def split: option.splits if_splits)
  have berr: "mining_bind m w s = Err e t \<Longrightarrow> t = s" for m e t
    by (auto simp: mining_bind_def split: option.splits if_splits)
  obtain p u where p: "StakePools s pid = Some p" and b: "mining_bind ?m w s = Ok () u"
    and r: "add_worker (runtime C T) orig pid w s = Ok () (stakepool_deposit (PoolWorkerAdded pid w)
      ((put_pool pid (p\<lparr>p_workers := p_workers p @ [w]\<rparr>) u)\<lparr>WorkerAssignments :=
        (WorkerAssignments (put_pool pid (p\<lparr>p_workers := p_workers p @ [w]\<rparr>) u))(w \<mapsto> pid)\<rparr>))"
    using False by (cases "mining_bind ?m w s")
      (auto simp: add_worker_def Let_def split: option.splits if_splits dest: berr)
  note f = bind [OF b]
  have new: "MinerBindings s m \<noteq> Some w" for m using f mining_invD(1) [OF mi] by auto
  have "tidy T t" if tidy: "tidy T s" and t: "t = stakepool_deposit (PoolWorkerAdded pid w)
      ((put_pool pid (p\<lparr>p_workers := p_workers p @ [w]\<rparr>) u)\<lparr>WorkerAssignments :=
        (WorkerAssignments (put_pool pid (p\<lparr>p_workers := p_workers p @ [w]\<rparr>) u))(w \<mapsto> pid)\<rparr>)" for t
  proof -
    have fields: "MinerBindings t = (MinerBindings s)(?m \<mapsto> w)"
      "WorkerAssignments t = (WorkerAssignments s)(w \<mapsto> pid)"
      "StakePools t = (StakePools s)(pid \<mapsto> p\<lparr>p_workers := p_workers p @ [w]\<rparr>)"
      "WithdrawalQueuedPools t = WithdrawalQueuedPools s" "WithdrawalTimestamps t = WithdrawalTimestamps s"
      "now_sec t = now_sec s"
      using f by (simp_all add: t stakepool_deposit_def put_pool_def now_sec_def)
    have "\<exists>pid. WorkerAssignments t v = Some pid \<and> StakePools t pid \<noteq> None \<and> m = pool_sub_account T pid v"
      if m: "MinerBindings t m = Some v" for m v
    proof (cases "m = ?m")
      case True
      then show ?thesis using m by (auto simp: fields)
    next
      case other: False
      then have "MinerBindings s m = Some v" using m by (simp add: fields)
      then obtain q where "WorkerAssignments s v = Some q" "StakePools s q \<noteq> None"
        "m = pool_sub_account T q v" and "v \<noteq> w"
        using tidy new unfolding tidy_def assigned_def by blast
      then show ?thesis by (auto simp: fields intro!: exI [of _ q])
    qed
    then have "assigned T t" unfolding assigned_def by blast
    moreover have "clock_ok (WithdrawalTimestamps s) t"
      by (rule clock_grows [of _ s]) (use tidy in \<open>auto simp: tidy_def fields\<close>)
    ultimately show ?thesis by (simp add: tidy_def fields)
  qed
  then show ?thesis by (simp add: r)
qed auto

text \<open>Unbinding, and the removal of a worker from its pool.\<close>

lemma unbind_miner_cases:
  assumes "left_state (unbind_miner (runtime C T) m notify s) = Some t"
  obtains (steady) "steady s t" "notify \<or> \<not> (\<exists>x. unbind_miner (runtime C T) m notify s = Ok x t)"
  | (unbound) w u v where "MinerBindings s m = Some w" "steady s u"
      "v = mining_deposit (MinerUnbound m w)
         (u\<lparr>MinerBindings := (MinerBindings u)(m := None), WorkerBindings := (WorkerBindings u)(w := None)\<rparr>)"
      "if notify then left_state (remove_worker_from_pool w v) = Some t else t = v"
proof (cases "MinerBindings s m")
  case None
  then have "unbind_miner (runtime C T) m notify s = Err (mining_err MinerNotBound) s"
    by (simp add: unbind_miner_def ensure_miner_bound_def)
  then show ?thesis using assms steady by auto
next
  case (Some w)
  obtain info where info: "Miners s m = Some info"
    using assms Some by (cases "Miners s m") (auto simp: unbind_miner_def ensure_miner_bound_def)
  define r where "r = (if \<not> can_unbind (mi_state info) then stop_mining (runtime C T) m s else Ok () s)"
  have rs: "steps steady s r" by (simp add: r_def st.stop_mining_frame)
  have eq: "unbind_miner (runtime C T) m notify s = andthen r (\<lambda>_ u.
      let v = mining_deposit (MinerUnbound m w)
         (u\<lparr>MinerBindings := (MinerBindings u)(m := None), WorkerBindings := (WorkerBindings u)(w := None)\<rparr>)
      in if notify then remove_worker_from_pool w v else Ok () v)"
    by (simp add: unbind_miner_def ensure_miner_bound_def Some info r_def on_unbound_def Let_def)
  show ?thesis
  proof (cases r)
    case (Ok x u)
    then show ?thesis
      using assms rs by (intro unbound [OF Some _ refl, of u]) (auto simp: eq Let_def split: if_splits)
  next
    case (Err e u)
    then show ?thesis using assms rs by (intro steady) (auto simp: eq)
  qed (use assms in \<open>simp add: eq\<close>)
qed

lemma removed_from_pool:
  assumes "left_state (remove_worker_from_pool w v) = Some t"
  shows "WorkerAssignments t = (WorkerAssignments v)(w := None)" "MinerBindings t = MinerBindings v"
    "WithdrawalQueuedPools t = WithdrawalQueuedPools v" "WithdrawalTimestamps t = WithdrawalTimestamps v"
    "now_sec t = now_sec v" "dom (StakePools v) \<subseteq> dom (StakePools t)"
  using assms
  by (auto simp: remove_worker_from_pool_def Let_def stakepool_deposit_def put_pool_def now_sec_def
      split: option.splits)

lemma unbound_fields:
  assumes "v = mining_deposit (MinerUnbound m w)
      (u\<lparr>MinerBindings := (MinerBindings u)(m := None), WorkerBindings := wb\<rparr>)"
  shows "MinerBindings v = (MinerBindings u)(m := None)" "WorkerAssignments v = WorkerAssignments u"
    "WithdrawalQueuedPools v = WithdrawalQueuedPools u" "WithdrawalTimestamps v = WithdrawalTimestamps u"
    "now_sec v = now_sec u" "StakePools v = StakePools u"
  by (simp_all add: assms mining_deposit_def now_sec_def)

lemma unassign_tidy:
  assumes tidy: "tidy T s" and mi: "mining_inv s" and bound: "MinerBindings s m = Some w"
    and t: "MinerBindings t = (MinerBindings s)(m := None)"
      "WorkerAssignments t = WorkerAssignments s \<or> WorkerAssignments t = (WorkerAssignments s)(w := None)"
      "WithdrawalQueuedPools t = WithdrawalQueuedPools s" "WithdrawalTimestamps t = WithdrawalTimestamps s"
      "now_sec t = now_sec s" "dom (StakePools s) \<subseteq> dom (StakePools t)"
  shows "tidy T t"
proof -
  have "WorkerAssignments t v = WorkerAssignments s v" if "MinerBindings t m' = Some v" for m' v
  proof -
    have "MinerBindings s m' = Some v" "m' \<noteq> m" using that by (auto simp: t(1) split: if_splits)
    then have "WorkerBindings s v = Some m'" "WorkerBindings s w = Some m"
      using bound mining_invD(1) [OF mi] by blast+
    then have "v \<noteq> w" using \<open>m' \<noteq> m\<close> by auto
    then show ?thesis using t(2) by auto
  qed
  then have "assigned T t" using tidy t(6) unfolding tidy_def assigned_def
    by (metis (no_types, lifting) domIff fun_upd_apply option.distinct(1) subset_iff t(1))
  moreover have "clock_ok (WithdrawalTimestamps s) t"
    by (rule clock_grows [OF _ t(3) _ t(6)]) (use tidy t(5) in \<open>simp_all add: tidy_def\<close>)
  ultimately show ?thesis by (simp add: tidy_def t(4))
qed

lemma mining_unbind_tidy:
  assumes mi: "mining_inv s"
  shows "keeps (tidy T) s (mining_unbind (runtime C T) orig m s)"
proof -
  have "tidy T t" if tidy: "tidy T s" and l: "left_state (unbind_miner (runtime C T) m True s) = Some t" for t
    using l
  proof (cases rule: unbind_miner_cases)
    case (unbound w u v)
    note d = steadyD [OF unbound(2)]
    have rm: "left_state (remove_worker_from_pool w v) = Some t" using unbound(4) by simp
    note r = removed_from_pool [OF rm]
    show ?thesis
      by (rule unassign_tidy [OF tidy mi unbound(1)])
        (use d r unbound_fields [OF unbound(3)] in auto)
  qed (use tidy steady_tidy in blast)
  then show ?thesis by (auto simp: mining_unbind_def keeps_def split: option.split)
qed

text \<open>
  \<open>remove_worker\<close> unbinds the account it derives from pool and worker, and takes that worker out of
  the pool: the two are the same worker because the derived accounts are distinct.
\<close>

lemma remove_worker_tidy:
  assumes mi: "mining_inv s" and inj: "inj (\<lambda>(pid, w). pool_sub_account T pid w)"
  shows "keeps (tidy T) s (remove_worker (runtime C T) orig pid worker s)"
proof -
  let ?m = "pool_sub_account T pid worker"
  let ?r = "andthen (unbind_miner (runtime C T) ?m False s) (\<lambda>_. remove_worker_from_pool worker)"
  have "tidy T t" if tidy: "tidy T s" and l: "left_state ?r = Some t" for t
  proof (cases "unbind_miner (runtime C T) ?m False s")
    case (Ok x t0)
    then have l0: "left_state (unbind_miner (runtime C T) ?m False s) = Some t0" by simp
    have rm: "left_state (remove_worker_from_pool worker t0) = Some t" using l Ok by simp
    note r = removed_from_pool [OF rm]
    from l0 show ?thesis
    proof (cases rule: unbind_miner_cases)
      case steady
      then show ?thesis using Ok by auto
    next
      case (unbound w u v)
      have "w = worker"
      proof -
        obtain q where "?m = pool_sub_account T q w"
          using tidy unbound(1) unfolding tidy_def assigned_def by blast
        then show ?thesis using injD [OF inj, of "(pid, worker)" "(q, w)"] by simp
      qed
      note d = steadyD [OF unbound(2)]
      have t0: "t0 = v" using unbound(4) by simp
      show ?thesis
        by (rule unassign_tidy [OF tidy mi unbound(1)])
          (use d \<open>w = worker\<close> r t0 unbound_fields [OF unbound(3)] in auto)
    qed
  next
    case (Err e t0)
    then have "left_state (unbind_miner (runtime C T) ?m False s) = Some t" using l by simp
    then show ?thesis
    proof (cases rule: unbind_miner_cases)
      case (unbound w u v)
      note d = steadyD [OF unbound(2)]
      show ?thesis
        by (rule unassign_tidy [OF tidy mi unbound(1)])
          (use d unbound(4) unbound_fields [OF unbound(3)] in auto)
    qed (use tidy steady_tidy in blast)
  qed (use l in simp)
  then show ?thesis by (auto simp: remove_worker_def keeps_def split: option.split)
qed

section \<open>The clock of the withdraw queue\<close>

lemma maybe_add_fields:
  "MinerBindings (maybe_add_withdraw_queue now pid s) = MinerBindings s"
  "WorkerAssignments (maybe_add_withdraw_queue now pid s) = WorkerAssignments s"
  "StakePools (maybe_add_withdraw_queue now pid s) = StakePools s"
  "now_sec (maybe_add_withdraw_queue now pid s) = now_sec s"
  "WithdrawalTimestamps (maybe_add_withdraw_queue now pid s) =
     (let t = WithdrawalTimestamps s in if t = [] then [now] else if last t < now then t @ [now] else t)"
  "WithdrawalQueuedPools (maybe_add_withdraw_queue now pid s) = (WithdrawalQueuedPools s)(now \<mapsto>
     (case WithdrawalQueuedPools s now of
        Some ps \<Rightarrow> if pid \<in> set ps then ps else ps @ [pid] | None \<Rightarrow> [pid]))"
  by (auto simp: maybe_add_withdraw_queue_def Let_def now_sec_def split: option.split)

lemma maybe_add_tidy:
  assumes tidy: "tidy T s" and pid: "StakePools s pid \<noteq> None"
  shows "tidy T (maybe_add_withdraw_queue (now_sec s) pid s)"
proof -
  let ?now = "now_sec s" and ?ts = "WithdrawalTimestamps s"
  let ?s = "maybe_add_withdraw_queue ?now pid s"
  have c: "clock_ok ?ts s" using tidy by (simp add: tidy_def)
  have last: "t \<le> last ?ts" if "t \<in> set ?ts" for t
  proof -
    have "?ts = butlast ?ts @ [last ?ts]" using that by (cases ?ts) auto
    moreover have "sorted_wrt (<) ?ts" using c by (simp add: clock_ok_def)
    ultimately have "\<forall>x \<in> set (butlast ?ts). x < last ?ts" by (metis sorted_wrt_append list.set_intros(1))
    then show ?thesis using that \<open>?ts = butlast ?ts @ [last ?ts]\<close>
      by (metis Un_iff empty_iff insert_iff less_imp_le list.set(1,2) order_refl set_append)
  qed
  have le: "last ?ts \<le> ?now" if "?ts \<noteq> []"
    using c last_in_set [OF that] unfolding clock_ok_def by blast
  have sorted: "sorted_wrt (<) (WithdrawalTimestamps ?s)"
  proof (cases "?ts \<noteq> [] \<and> last ?ts < ?now")
    case True
    have "\<forall>x \<in> set ?ts. x < ?now"
    proof
      fix x assume "x \<in> set ?ts"
      then have "x \<le> last ?ts" by (rule last)
      then show "x < ?now" using True by (blast intro: le_less_trans)
    qed
    then show ?thesis using True c by (simp add: maybe_add_fields Let_def sorted_wrt_append clock_ok_def)
  next
    case False
    then show ?thesis using c by (auto simp: maybe_add_fields Let_def clock_ok_def)
  qed
  have set: "set (WithdrawalTimestamps ?s) = insert ?now (set ?ts)"
  proof (cases "?ts = [] \<or> last ?ts < ?now")
    case False
    then have "last ?ts = ?now" using le by fastforce
    then have "?now \<in> set ?ts" using False last_in_set by metis
    then show ?thesis using False by (auto simp: maybe_add_fields Let_def)
  qed (auto simp: maybe_add_fields Let_def)
  have "clock_ok (WithdrawalTimestamps ?s) ?s"
    unfolding clock_ok_def set maybe_add_fields(3,4)
  proof (intro conjI allI impI ballI)
    show "sorted_wrt (<) (WithdrawalTimestamps ?s)" by (rule sorted)
    show "t \<le> ?now" if "t \<in> insert ?now (set ?ts)" for t using that c by (auto simp: clock_ok_def)
    show "insert ?now (set ?ts) = dom (WithdrawalQueuedPools ?s)"
      using c by (simp add: clock_ok_def maybe_add_fields)
    show "set ps \<subseteq> dom (StakePools s)" if "WithdrawalQueuedPools ?s t = Some ps" for t ps
    proof -
      have old: "WithdrawalQueuedPools s t = Some qs \<Longrightarrow> set qs \<subseteq> dom (StakePools s)" for t qs
        using c by (simp add: clock_ok_def)
      show ?thesis using that pid old [of ?now] old [of t]
        by (auto simp: maybe_add_fields split: if_splits option.splits)
    qed
  qed
  moreover have "assigned T ?s"
    using tidy by (auto simp: tidy_def assigned_def maybe_add_fields)
  ultimately show ?thesis by (simp add: tidy_def)
qed

lemma withdraw_tidy:
  assumes inv: "stake_inv s"
  shows "keeps (tidy T) s (withdraw T' orig pid shares s)"
proof (cases "withdraw T' orig pid shares s")
  case (Ok x s')
  then obtain who u p p' u' t where p: "StakePools s pid = Some p"
    and tw: "try_withdraw T' p u shares s = Ok (p', u') t"
    and s': "s' = put_pool pid p' (put_staker pid who u' t)"
    by (auto simp: withdraw_def split: option.splits if_splits elim!: andthen_eq_OkE)
  have "tidy T s'" if tidy: "tidy T s"
  proof -
    have now: "withdraw_now T' p u ws s = Ok (p1, u1) s1 \<Longrightarrow> calm s s1 \<and> p_pid p1 = p_pid p" for p u ws p1 u1 s1
    proof -
      assume w: "withdraw_now T' p u ws s = Ok (p1, u1) s1"
      then have "p_pid p1 = p_pid p" by (rule withdraw_now_OkE)
      then show ?thesis using w
        by (auto simp: withdraw_now_def calm_settle split: if_splits option.splits prod.splits)
    qed
    have queue: "tidy T s2" if "queue_withdrawal p1 u1 q s1 = (p2, s2)" "calm s s1" "p_pid p1 = p_pid p"
      for p1 u1 q s1 p2 s2
    proof -
      have t1: "tidy T s1" by (rule steady_tidy [OF calm_steady [OF that(2)] tidy])
      have "StakePools s1 (p_pid p1) \<noteq> None"
        using that(2,3) p stake_invD(2) [OF inv p] by (simp add: calm_part_def)
      then have "tidy T (maybe_add_withdraw_queue (now_sec s1) (p_pid p1) s1)" by (rule maybe_add_tidy [OF t1])
      moreover have "tidy T (stakepool_deposit e v)" if "tidy T v" for e v
        by (rule steady_tidy [OF calm_steady that]) simp
      ultimately show ?thesis using that(1) t1 by (auto simp: queue_withdrawal_def Let_def split: if_splits)
    qed
    have "tidy T t"
    proof -
      obtain ws qs p1 u1 s1 where "withdraw_now T' p (settle_user_pending_reward (Fx T') p u) ws s = Ok (p1, u1) s1"
        and q: "queue_withdrawal p1 u1 qs s1 = (p', t)"
        using tw by (auto simp: try_withdraw_def Let_def split: option.splits prod.splits elim!: andthen_eq_OkE)
      then show ?thesis using now queue by blast
    qed
    then have "tidy T (put_staker pid who u' t)" by (rule steady_tidy [OF calm_steady, rotated]) simp
    then show ?thesis unfolding s' by (rule steady_tidy [OF put_pool_steady])
  qed
  then show ?thesis by (simp add: Ok)
next
  case (Err e s')
  have "withdraw_now T' p u ws s \<noteq> Err e t" for p u ws s t
    by (auto simp: withdraw_now_def split: option.splits prod.splits)
  then have "try_withdraw T' p u shares s \<noteq> Err e t" for p u t
    by (auto simp: try_withdraw_def Let_def andthen_def split: option.splits outcome.splits prod.splits)
  then have "s' = s" using Err
    by (auto simp: withdraw_def andthen_def split: option.splits if_splits outcome.splits)
  then show ?thesis by (simp add: Err)
qed simp

section \<open>The hook at the end of a block\<close>

definition stoppable :: "'b phala_config \<Rightarrow> 'b chain \<Rightarrow> bool" where
  "stoppable T s \<longleftrightarrow> assigned T s \<and>
     (\<forall>m info. Miners s m = Some info \<longrightarrow> can_settle (mi_state info) \<longrightarrow> mi_ve info \<noteq> 0)"

lemma stop_mining_no_panic:
  assumes fx: "fixed_arith (Fx T)" and ok: "stoppable T s"
  shows "stop_mining (runtime C T) m s \<noteq> Panic"
proof (cases "\<exists>e. stop_mining (runtime C T) m s = Err e s")
  case False
  then obtain w info where w: "MinerBindings s m = Some w" and info: "Miners s m = Some info"
    and st: "\<not> (mi_state info = Ready \<or> mi_state info = MiningCoolingDown)"
    unfolding stop_mining_def by (auto split: option.splits if_splits)
  define info' where "info' = info\<lparr>mi_state := MiningCoolingDown, cool_down_start := now_sec s\<rparr>"
  define s1 where "s1 = s\<lparr>Miners := (Miners s)(m \<mapsto> info'), OnlineMiners := OnlineMiners s - 1\<rparr>"
  define stake where "stake = (case Stakes s m of Some x \<Rightarrow> x | None \<Rightarrow> 0)"
  have "mi_ve info' \<noteq> 0"
    using ok info st by (auto simp: stoppable_def can_settle_iff info'_def)
  then obtain q where "fx_div (Fx T) (mi_v info') (mi_ve info') = Some q"
    using fixed_arith.div_defined [OF fx] by blast
  then obtain ret sl where c: "calc_final_stake (Fx T) info' stake = Some (ret, sl)"
    by (simp add: calc_final_stake_def Let_def)
  obtain pid p where "WorkerAssignments s1 w = Some pid" "StakePools s1 pid = Some p"
    using ok w unfolding stoppable_def assigned_def s1_def by fastforce
  then obtain t where h: "on_stopped w stake sl s1 = Ok () t" by (simp add: on_stopped_def Let_def)
  obtain u where "push_worker_event (runtime C T) w MiningStop t = Ok () u"
    using rt.push_worker_event_Ok by blast
  then have "stop_mining (runtime C T) m s = Ok () (mining_deposit (MinerStopped m) u)"
    using w info st c h unfolding stop_mining_def Let_def info'_def s1_def stake_def by simp
  then show ?thesis by simp
qed auto

lemma stop_ignoring_goes:
  assumes fx: "fixed_arith (Fx T)" and ok: "stoppable T s"
  shows "\<exists>t. stop_ignoring (runtime C T) m s = Ok () t \<and> steady s t \<and> stoppable T t"
proof -
  obtain t where t: "left_state (stop_mining (runtime C T) m s) = Some t"
    using stop_mining_no_panic [OF fx ok] by (cases "stop_mining (runtime C T) m s") fastforce+
  have steady: "steady s t" by (rule stepsD [OF st.stop_mining_frame t])
  have "assigned T t"
    using ok steadyD [OF steady] by (auto simp: stoppable_def intro: assigned_grows)
  moreover have "mi_ve info \<noteq> 0" if "Miners t m' = Some info" "can_settle (mi_state info)" for m' info
  proof (cases rule: rt.stop_mining_cases [of C T m s])
    case (err e)
    then show ?thesis using t that ok by (auto simp: stoppable_def)
  next
    case panic
    then show ?thesis using t by simp
  next
    case (ok s' worker info0)
    then show ?thesis using t that \<open>stoppable T s\<close>
      by (auto simp: mining_part_def stoppable_def split: if_splits)
  qed
  ultimately show ?thesis using t steady by (auto simp: stop_ignoring_def stoppable_def)
qed

lemma for_each_goes:
  assumes "\<And>x s. x \<in> set xs \<Longrightarrow> P s \<Longrightarrow> \<exists>t. f x s = Ok () t \<and> R s t \<and> P t"
    and "\<And>s. R s s" "\<And>s t u. R s t \<Longrightarrow> R t u \<Longrightarrow> R s u"
  shows "P s \<Longrightarrow> \<exists>t. for_each f xs s = Ok () t \<and> R s t \<and> P t"
  using assms(1)
proof (induction xs arbitrary: s)
  case (Cons x xs)
  obtain t where t: "f x s = Ok () t" "R s t" "P t" using Cons.prems by (meson list.set_intros(1))
  obtain u where "for_each f xs t = Ok () u" "R t u" "P u" using Cons t(3) by (meson list.set_intros(2))
  then show ?case using t assms(3) by auto
qed (use assms(2) in auto)

lemma force_shutdown_goes:
  assumes fx: "fixed_arith (Fx T)" and ok: "stoppable T s" and pool: "pid \<in> dom (StakePools s)"
  shows "\<exists>t. force_shutdown (runtime C T) now pid s = Ok () t \<and> steady s t \<and> stoppable T t"
proof -
  obtain p where p: "StakePools s pid = Some p" using pool by auto
  have "\<exists>t. for_each (\<lambda>w. stop_ignoring (runtime C T) (pool_sub_account (runtime C T) pid w)) (p_workers p) s = Ok () t \<and>
      steady s t \<and> stoppable T t"
    by (rule for_each_goes [where P = "stoppable T", OF _ _ _ ok])
      (auto intro: stop_ignoring_goes [OF fx] steady_trans)
  then show ?thesis using ok by (auto simp: force_shutdown_def p)
qed

lemma force_expired_goes:
  assumes fx: "fixed_arith (Fx T)"
  shows "stoppable T s \<Longrightarrow> clock_ok ts s \<Longrightarrow>
    \<exists>ts' t. force_expired (runtime C T) now ts s = Ok ts' t \<and> clock_ok ts' t \<and> stoppable T t \<and>
      (ts' \<noteq> [] \<longrightarrow> now - hd ts' \<le> GracePeriod (runtime C T))"
proof (induction ts arbitrary: s)
  case (Cons x ts)
  show ?case
  proof (cases "now - x \<le> GracePeriod (runtime C T)")
    case True
    then show ?thesis using Cons.prems by simp
  next
    case False
    have c: "clock_ok (x # ts) s" by (rule Cons.prems)
    then have "x \<in> dom (WithdrawalQueuedPools s)" unfolding clock_ok_def by (metis list.set_intros(1))
    then obtain ps where ps: "WithdrawalQueuedPools s x = Some ps" by blast
    then have sub: "set ps \<subseteq> dom (StakePools s)" using c by (simp add: clock_ok_def)
    define s1 where "s1 = s\<lparr>WithdrawalQueuedPools := (WithdrawalQueuedPools s)(x := None)\<rparr>"
    have P1: "stoppable T s1 \<and> set ps \<subseteq> dom (StakePools s1)"
      using Cons.prems(1) sub by (simp add: s1_def stoppable_def assigned_def)
    have "\<exists>t. for_each (force_shutdown (runtime C T) now) ps s1 = Ok () t \<and> steady s1 t \<and>
        (stoppable T t \<and> set ps \<subseteq> dom (StakePools t))"
    proof (rule for_each_goes [where P = "\<lambda>s. stoppable T s \<and> set ps \<subseteq> dom (StakePools s)", OF _ _ _ P1])
      fix pid and u :: "'a chain"
      assume "pid \<in> set ps" and P: "stoppable T u \<and> set ps \<subseteq> dom (StakePools u)"
      then obtain t where "force_shutdown (runtime C T) now pid u = Ok () t" "steady u t" "stoppable T t"
        using force_shutdown_goes [OF fx] by blast
      then show "\<exists>t. force_shutdown (runtime C T) now pid u = Ok () t \<and> steady u t \<and>
          (stoppable T t \<and> set ps \<subseteq> dom (StakePools t))"
        using P steadyD(7) by blast
    qed (auto intro: steady_trans)
    then obtain t where t: "for_each (force_shutdown (runtime C T) now) ps s1 = Ok () t" "steady s1 t"
      "stoppable T t" by blast
    have "clock_ok ts s1"
      using c by (auto simp: clock_ok_def s1_def now_sec_def dom_def split: if_splits)
    then have "clock_ok ts t"
      by (rule clock_grows) (use steadyD [OF t(2)] in simp_all)
    then show ?thesis
      using Cons.IH [OF t(3)] False ps t(1) by (simp add: s1_def)
  qed
qed simp

lemma stakepool_on_finalize_goes:
  assumes fx: "fixed_arith (Fx T)" and tidy: "tidy T s"
    and ve: "\<forall>m info. Miners s m = Some info \<and> can_settle (mi_state info) \<longrightarrow> mi_ve info \<noteq> 0"
  shows "\<exists>t. stakepool_on_finalize (runtime C T) s = Ok () t \<and> tidy T t \<and>
    (WithdrawalTimestamps t \<noteq> [] \<longrightarrow>
       now_sec s - hd (WithdrawalTimestamps t) \<le> GracePeriod (runtime C T))"
proof (cases "WithdrawalTimestamps s = []")
  case True
  then show ?thesis using tidy by (simp add: stakepool_on_finalize_def maybe_force_withdraw_def)
next
  case False
  have "stoppable T s" using tidy ve by (simp add: stoppable_def tidy_def)
  moreover have "clock_ok (WithdrawalTimestamps s) s" using tidy by (simp add: tidy_def)
  ultimately obtain ts' t where t: "force_expired (runtime C T) (now_sec s) (WithdrawalTimestamps s) s = Ok ts' t"
      "clock_ok ts' t" "stoppable T t"
      "ts' \<noteq> [] \<longrightarrow> now_sec s - hd ts' \<le> GracePeriod (runtime C T)"
    using force_expired_goes [OF fx] by blast
  have "tidy T (t\<lparr>WithdrawalTimestamps := ts'\<rparr>)"
    using t(2,3) by (simp add: tidy_def stoppable_def assigned_def clock_ok_def now_sec_def)
  then show ?thesis using t(1,4) False
    by (simp add: stakepool_on_finalize_def maybe_force_withdraw_def)
qed

section \<open>All operations\<close>

text \<open>
  The hook keeps \<open>tidy\<close> even when a miner without \<open>Ve\<close> makes it panic: then nothing is stored. So
  one lemma on the storage it leaves is enough.
\<close>

lemma force_expired_clock:
  "left_state (force_expired (runtime C T) now ts s) = Some t \<Longrightarrow> assigned T s \<Longrightarrow> clock_ok ts s \<Longrightarrow>
     \<exists>ts'. force_expired (runtime C T) now ts s = Ok ts' t \<and> assigned T t \<and> clock_ok ts' t"
proof (induction ts arbitrary: s)
  case (Cons x ts)
  show ?case
  proof (cases "now - x \<le> GracePeriod (runtime C T)")
    case True
    then show ?thesis using Cons.prems by simp
  next
    case False
    have c: "clock_ok (x # ts) s" by (rule Cons.prems)
    then have "x \<in> dom (WithdrawalQueuedPools s)" unfolding clock_ok_def by (metis list.set_intros(1))
    then obtain ps where ps: "WithdrawalQueuedPools s x = Some ps" by blast
    define s1 where "s1 = s\<lparr>WithdrawalQueuedPools := (WithdrawalQueuedPools s)(x := None)\<rparr>"
    let ?r = "for_each (force_shutdown (runtime C T) now) ps s1"
    have frame: "steps steady s1 ?r" by (intro st.frame_for_each st.force_shutdown_frame)
    have noerr: "?r \<noteq> Err e u" for e u
    proof -
      have stop: "stop_ignoring (runtime C T) m v \<noteq> Err e u" for m e and u v :: "'a chain"
        by (auto simp: stop_ignoring_def split: option.split)
      have each: "for_each f xs v \<noteq> Err e u" if "\<And>x v e u. f x v \<noteq> Err e u"
        for f and xs :: "'x list" and e :: phala_error and u v :: "'a chain"
        using that by (induction xs arbitrary: v) (auto simp: andthen_def split: outcome.split)
      have "force_shutdown (runtime C T) now pid v \<noteq> Err e u" for pid e and u v :: "'a chain"
        by (auto simp: force_shutdown_def each stop split: option.split)
      then show ?thesis by (rule each)
    qed
    obtain u where u: "?r = Ok () u" and rest: "left_state (force_expired (runtime C T) now ts u) = Some t"
      using Cons.prems(1) False ps noerr by (cases ?r) (auto simp: s1_def)
    have st: "steady s1 u" using frame u by simp
    have "clock_ok ts s1"
      using c by (auto simp: clock_ok_def s1_def now_sec_def dom_def split: if_splits)
    then have "clock_ok ts u" by (rule clock_grows) (use steadyD [OF st] in simp_all)
    moreover have "assigned T u"
      using Cons.prems(2) steadyD [OF st] by (intro assigned_grows [of T s1 u]) (auto simp: s1_def assigned_def)
    ultimately show ?thesis using Cons.IH [OF rest] False ps u by (simp add: s1_def)
  qed
qed simp

lemma tidy_timestamps:
  assumes "assigned T u" "clock_ok ts u"
  shows "tidy T (u\<lparr>WithdrawalTimestamps := ts\<rparr>)"
proof -
  have "clock_ok ts (u\<lparr>WithdrawalTimestamps := ts\<rparr>)"
    by (rule clock_grows [OF assms(2)]) (simp_all add: now_sec_def)
  then show ?thesis using assms(1) by (simp add: tidy_def assigned_def)
qed

lemma stakepool_on_finalize_tidy: "keeps (tidy T) s (stakepool_on_finalize (runtime C T) s)"
proof (cases "WithdrawalTimestamps s = []")
  case False
  have "tidy T t" if tidy: "tidy T s" and t: "left_state (stakepool_on_finalize (runtime C T) s) = Some t" for t
  proof -
    let ?r = "force_expired (runtime C T) (now_sec s) (WithdrawalTimestamps s) s"
    obtain u where u: "left_state ?r = Some u"
      using t False by (cases ?r) (auto simp: stakepool_on_finalize_def maybe_force_withdraw_def)
    obtain ts' where "?r = Ok ts' u" "assigned T u" "clock_ok ts' u"
      using force_expired_clock [OF u] tidy unfolding tidy_def by blast
    then show ?thesis using t False
      by (auto simp: stakepool_on_finalize_def maybe_force_withdraw_def tidy_timestamps)
  qed
  then show ?thesis by (simp add: keeps_def)
qed (simp add: stakepool_on_finalize_def maybe_force_withdraw_def)

lemma steps_tidy: "steps steady s r \<Longrightarrow> keeps (tidy T) s r"
  unfolding steps_def keeps_def using steady_tidy by blast

lemma phala_exec_tidy:
  assumes inj: "inj (\<lambda>(pid, w). pool_sub_account T pid w)" and mi: "mining_inv s" and si: "stake_inv s"
    and fits: "op_fits op s" and ex: "phala_exec C T op s = Some r"
  shows "keeps (tidy T) s r"
proof -
  have ingress: "steady u (u\<lparr>OffchainIngress := i\<rparr>)" for u :: "'b chain" and i
    by (simp add: steady_def steady_part_def)
  have time: "tidy T s \<longrightarrow> tidy T (s\<lparr>now_millis := n\<rparr>)" if "now_millis s \<le> n" for n
  proof
    assume tidy: "tidy T s"
    have later: "now_sec s \<le> now_sec (s\<lparr>now_millis := n\<rparr>)"
      using that by (simp add: now_sec_def word_le_nat_alt unat_div div_le_mono)
    have "clock_ok (WithdrawalTimestamps s) (s\<lparr>now_millis := n\<rparr>)"
      by (rule clock_grows [OF _ _ later]) (use tidy in \<open>simp_all add: tidy_def\<close>)
    then show "tidy T (s\<lparr>now_millis := n\<rparr>)" using tidy by (simp add: tidy_def assigned_def)
  qed
  note frames = st.push_frames st.sync_frame [OF ingress] st.mq_on_initialize_frame st.registry_frames
    st.mining_call_frames st.mining_on_finalize_frame settings_steady claim_rewards_steady
    worker_calls_steady
  note framed = frames [THEN steps_tidy]
  note partial = contribute_steady [THEN steps_tidy] reclaim_worker_steady [THEN steps_tidy]
  note exact = add_worker_tidy [OF mi] remove_worker_tidy [OF mi inj] mining_unbind_tidy [OF mi]
    withdraw_tidy [OF si] stakepool_on_finalize_tidy
  show ?thesis
  proof (cases op)
    case (Contribute orig pid a)
    then show ?thesis using ex by (intro partial(1)) simp
  next
    case (ReclaimWorker orig pid w)
    then show ?thesis using ex by (intro partial(2)) simp
  next
    case (NewTimestamp n)
    then have "r = Ok () (s\<lparr>now_millis := n\<rparr>)" "now_millis s \<le> n" using ex fits by (simp_all add: op_fits_def)
    then show ?thesis using time [of n] by simp
  qed (use ex in \<open>auto simp: framed exact\<close>)
qed

text \<open>The three invariants together, over every run.\<close>

lemma phala_reaches_all:
  assumes fx: "fixed_arith (Fx T)" and inj: "inj (\<lambda>(pid, w). pool_sub_account T pid w)"
    and reach: "phala_reaches C T s t" and start: "mining_inv s" "stake_inv s" "tidy T s"
  shows "mining_inv t \<and> stake_inv t \<and> tidy T t"
proof (rule phala_reaches_keeps [where P = "\<lambda>s. mining_inv s \<and> stake_inv s \<and> tidy T s", OF _ reach])
  fix op u r
  assume fits: "op_fits op u" and ex: "phala_exec C T op u = Some r"
  have "keeps (tidy T) u r" if "mining_inv u" "stake_inv u"
    by (rule phala_exec_tidy [OF inj that fits ex])
  then show "keeps (\<lambda>s. mining_inv s \<and> stake_inv s \<and> tidy T s) u r"
    using phala_exec_mining_inv [OF ex] phala_exec_stake_inv [OF fx fits ex]
    unfolding keeps_def by blast
qed (use start in blast)

end
