(* ===== verification/Block_Claims.thy ===== *)
theory Block_Claims
  imports Mining_Claims Block_End
begin

text \<open>
  Claims about what the sources mark with "qed": the expectations the stake pool has of its own
  storage and of the mining pallet's, and the end of a block that relies on them.
\<close>

text \<open>
  C28. What the stake pool expects of the storage holds in every reachable storage: a worker that is
  bound to a miner is assigned to an existing pool, and the miner's account is the one derived from
  that pool and worker; the timestamps of the waiting withdrawals are strictly increasing and not
  in the future, they are exactly the keys of the lists of pools, and the pools in the lists exist.
  (The accounts derived from different pools or workers are taken to be different, as they are
  hashes.)
\<close>

theorem pool_expectations_hold:
  assumes "fixed_arith (Fx T)" "inj (\<lambda>(pid, w). pool_sub_account T pid w)"
    and "phala_reaches C T s t" "mining_inv s" "stake_inv s" "tidy T s"
  shows "(MinerBindings t m = Some w \<longrightarrow> (\<exists>pid. WorkerAssignments t w = Some pid \<and>
      StakePools t pid \<noteq> None \<and> m = pool_sub_account T pid w)) \<and>
    sorted_wrt (<) (WithdrawalTimestamps t) \<and> (\<forall>x \<in> set (WithdrawalTimestamps t). x \<le> now_sec t) \<and>
    set (WithdrawalTimestamps t) = dom (WithdrawalQueuedPools t) \<and>
    (\<forall>x ps pid. WithdrawalQueuedPools t x = Some ps \<and> pid \<in> set ps \<longrightarrow> StakePools t pid \<noteq> None)"
proof -
  have "tidy T t" using phala_reaches_all [OF assms] by blast
  then have a: "assigned T t" and c: "clock_ok (WithdrawalTimestamps t) t" by (simp_all add: tidy_def)
  have "StakePools t pid \<noteq> None" if "WithdrawalQueuedPools t x = Some ps" "pid \<in> set ps" for x ps pid
    using c that unfolding clock_ok_def by blast
  then show ?thesis using a c unfolding clock_ok_def assigned_def by blast
qed

definition demo_late :: "(account_id \<Rightarrow> u128) chain" where
  "demo_late = demo_mining\<lparr>now_millis := 10000000000, WithdrawalTimestamps := [5],
     WithdrawalQueuedPools := [5 \<mapsto> [0]]\<rparr>"

lemma demo_late_mining_inv: "mining_inv demo_late"
proof -
  have "mining_inv demo_late = mining_inv demo_mining"
    by (rule mining_inv_cong) (simp add: mining_part_def demo_late_def)
  then show ?thesis using demo_mining_inv by simp
qed

lemma demo_late_stake_inv: "stake_inv demo_late"
proof -
  have "staked demo_late 0 = 0" by (simp add: staked_def demo_late_def demo_mining_def genesis_def)
  then show ?thesis
    by (auto simp: stake_inv_def queue_ok_def demo_late_def demo_mining_def genesis_def split: if_splits)
qed

lemma demo_late_tidy: "tidy demo demo_late"
  by (auto simp: tidy_def assigned_def clock_ok_def demo_late_def demo_mining_def miner_a_def now_sec_def
      split: if_splits)

theorem pool_expectations_hold_witness:
  "WorkerAssignments demo_late worker_a = Some 0 \<and> dom (WithdrawalQueuedPools demo_late) = {5}"
  using pool_expectations_hold [OF _ demo_sub_accounts phala_reaches.reach_start demo_late_mining_inv
      demo_late_stake_inv demo_late_tidy, of miner_a worker_a]
  by (simp add: u64f64.fixed_arith_axioms demo_late_def demo_mining_def)



end
