(* ===== verification/Queue_Claims.thy ===== *)
theory Queue_Claims
  imports Phala_Demo Phala_Reach
begin

text \<open>
  Claims about the message queue and the registry: off-chain messages are taken in sequence and
  once, the transaction pool checks the same numbers, the routing of the runtime is well defined,
  and the registry's lists only change as they should.
\<close>

section \<open>No replay\<close>

text \<open>
  A run of the system as a list of operations: a call that does not return or that panics changes
  nothing. \<open>accepted\<close> collects the off-chain messages the run accepts, in order.
\<close>

definition phala_step :: "codec \<Rightarrow> 'b phala_config \<Rightarrow> phala_op \<Rightarrow> 'b chain \<Rightarrow> 'b chain" where
  "phala_step C T op s =
     (case phala_exec C T op s of None \<Rightarrow> s
      | Some r \<Rightarrow> (case left_state r of None \<Rightarrow> s | Some t \<Rightarrow> t))"

definition accepts :: "codec \<Rightarrow> 'b phala_config \<Rightarrow> phala_op \<Rightarrow> 'b chain \<Rightarrow> signed_message list" where
  "accepts C T op s =
     (case op of
        SyncMessage orig sm \<Rightarrow>
          (case sync_offchain_message (runtime C T) orig sm s of Ok _ _ \<Rightarrow> [sm] | _ \<Rightarrow> [])
      | _ \<Rightarrow> [])"

fun phala_run :: "codec \<Rightarrow> 'b phala_config \<Rightarrow> phala_op list \<Rightarrow> 'b chain \<Rightarrow> 'b chain" where
  "phala_run C T [] s = s"
| "phala_run C T (op # ops) s = phala_run C T ops (phala_step C T op s)"

fun accepted :: "codec \<Rightarrow> 'b phala_config \<Rightarrow> phala_op list \<Rightarrow> 'b chain \<Rightarrow> signed_message list" where
  "accepted C T [] s = []"
| "accepted C T (op # ops) s = accepts C T op s @ accepted C T ops (phala_step C T op s)"

definition sequences :: "message_origin \<Rightarrow> signed_message list \<Rightarrow> u64 list" where
  "sequences x ms = map sm_sequence (filter (\<lambda>sm. m_sender (sm_message sm) = x) ms)"

lemma sequences_append [simp]: "sequences x (ms @ ns) = sequences x ms @ sequences x ns"
  by (simp add: sequences_def)

lemma step_sequences:
  "(sequences x (accepts C T op s) = [] \<and> expected_seq x (phala_step C T op s) = expected_seq x s) \<or>
   (sequences x (accepts C T op s) = [expected_seq x s] \<and>
      expected_seq x (phala_step C T op s) = expected_seq x s + 1)"
proof (cases "\<exists>orig sm. op = SyncMessage orig sm")
  case True
  then obtain orig sm where op: "op = SyncMessage orig sm" by blast
  show ?thesis
  proof (cases "sync_offchain_message (runtime C T) orig sm s")
    case (Ok u t)
    then have "sm_sequence sm = expected_seq (m_sender (sm_message sm)) s \<and>
        OffchainIngress t = (OffchainIngress s)(m_sender (sm_message sm) \<mapsto> sm_sequence sm + 1)"
      using sync_ingress [of C T orig sm s t] by simp
    then show ?thesis
      by (auto simp: op accepts_def phala_step_def Ok sequences_def expected_seq_def)
  next
    case (Err e t)
    then have "t = s" using sync_ingress [of C T orig sm s t] by simp
    then show ?thesis by (simp add: op accepts_def phala_step_def Err sequences_def)
  qed (simp add: op accepts_def phala_step_def sequences_def)
next
  case False
  then have "same_ingress s (phala_step C T op s)"
    using stepsD [OF phala_exec_ingress [of C T op s]]
    by (auto simp: phala_step_def same_ingress_def split: option.split)
  then show ?thesis using False
    by (cases op) (simp_all add: accepts_def sequences_def expected_seq_cong)
qed

text \<open>
  C4. Off-chain messages are taken in sequence: in every run, whatever else happens in between, the
  sequence numbers of the messages accepted from one sender are consecutive, starting with the one
  expected at the beginning; none is skipped, none is taken twice before the counter wraps.
\<close>

theorem messages_in_sequence:
  "sequences x (accepted C T ops s) =
     map (\<lambda>i. expected_seq x s + of_nat i) [0..<length (sequences x (accepted C T ops s))] \<and>
   expected_seq x (phala_run C T ops s) =
     expected_seq x s + of_nat (length (sequences x (accepted C T ops s)))"
proof (induction ops arbitrary: s)
  case Nil
  then show ?case by (simp add: sequences_def)
next
  case (Cons op ops)
  let ?s = "phala_step C T op s" and ?n = "length (sequences x (accepted C T ops (phala_step C T op s)))"
  have shift: "map (\<lambda>i. (e + 1 :: u64) + of_nat i) [0..<n] = map (\<lambda>i. e + of_nat i) [1..<Suc n]" for e n
    by (simp add: map_Suc_upt [symmetric] del: map_Suc_upt upt_Suc)
  have first: "(e :: u64) # map (\<lambda>i. e + of_nat i) [1..<Suc n] = map (\<lambda>i. e + of_nat i) [0..<Suc n]" for e n
    by (simp add: upt_conv_Cons del: upt_Suc)
  from step_sequences [of x C T op s] show ?case
  proof
    assume "sequences x (accepts C T op s) = [] \<and> expected_seq x ?s = expected_seq x s"
    then show ?thesis using Cons.IH [of ?s] by simp
  next
    assume a: "sequences x (accepts C T op s) = [expected_seq x s] \<and> expected_seq x ?s = expected_seq x s + 1"
    then have "sequences x (accepted C T ops ?s) = map (\<lambda>i. expected_seq x s + of_nat i) [1..<Suc ?n]"
      using Cons.IH [of ?s] shift [of "expected_seq x s" ?n] by metis
    then have "sequences x (accepted C T (op # ops) s) = map (\<lambda>i. expected_seq x s + of_nat i) [0..<Suc ?n]"
      using a first [of "expected_seq x s" ?n] by simp
    moreover have "expected_seq x (phala_run C T (op # ops) s) = expected_seq x s + of_nat (Suc ?n)"
      using a Cons.IH [of ?s] by simp
    ultimately show ?thesis by (simp del: upt_Suc)
  qed
qed

text \<open>
  The transaction pool checks the same numbers as the call: the call refuses a well-formed
  message for its sequence exactly when the pool's check does before dispatch; the pool drops a
  message that is behind, lets the expected one pass at once, and makes one that is ahead wait for
  the tag that its predecessor provides.
\<close>

theorem pool_and_call_agree:
  fixes T :: "'b phala_config"
  shows "(sync_offchain_message T (Signed who) sm s = Err (mq_err BadSequence) s \<longleftrightarrow>
      origin_is_offchain (m_sender (sm_message sm)) \<and> topic_is_valid (m_destination (sm_message sm)) \<and>
      pre_dispatch (Some sm) s \<noteq> None) \<and>
    (validate_tx T (Some sm) s = Inl Stale \<longleftrightarrow> pre_dispatch (Some sm) s = Some Stale) \<and>
    (pre_dispatch (Some sm) s = None \<longleftrightarrow> sm_sequence sm = expected_seq (m_sender (sm_message sm)) s) \<and>
    (case validate_tx T (Some (sm\<lparr>sm_sequence := sm_sequence sm + 1\<rparr>)) s of
       Inl _ \<Rightarrow> True
     | Inr v' \<Rightarrow> requires v' = [] \<or>
         (\<exists>v. validate_tx T (Some sm) s = Inr v \<and> requires v' = provides v) \<or>
         validate_tx T (Some sm) s = Inl Stale)"
proof -
  have dispatch: "dispatch_message T m u \<noteq> Err e v" for m e and u v :: "'b chain"
    by (auto simp: dispatch_message_def split: option.split)
  have check: "check_message T sm s = Some e \<Longrightarrow> registry_err e \<noteq> mq_err BadSequence" for e by simp
  show ?thesis
    by (auto simp: sync_offchain_message_def pre_dispatch_def validate_tx_def Let_def dispatch
        split: option.splits)
qed

section \<open>Routing\<close>

text \<open>
  The routing of the runtime: although the handlers send messages themselves, the runtime's
  handler of incoming messages is the solution of its own recursive description, the one that hands
  a message to the registry and the mining pallet, both set up with that same runtime.
\<close>

theorem runtime_routes_recursively:
  "on_message_received (runtime C T) m s = route_message C (runtime C T) m s"
  by (simp add: route_quiet [of C T])

section \<open>The registry\<close>

text \<open>
  C33. The registry in order: from a storage in order, whatever happens, the two allow lists and the
  list of gatekeepers hold no duplicates, every gatekeeper is a registered worker, and no worker
  has a score above 6000.
\<close>

theorem registry_stays_in_order:
  assumes "phala_reaches C T s t" "registry_inv s"
  shows "distinct (PRuntimeAllowList t) \<and> distinct (RelaychainGenesisBlockHashAllowList t) \<and>
    distinct (Gatekeeper t) \<and> (\<forall>g \<in> set (Gatekeeper t). Workers t g \<noteq> None) \<and>
    (\<forall>w info p. Workers t w = Some info \<and> initial_score info = Some p \<longrightarrow> p \<le> 6000)"
  using phala_reaches_registry [OF assms(1)] assms(2)
  unfolding registry_grows_def registry_inv_def by blast

lemma genesis_registry_inv: "registry_inv genesis"
  by (auto simp: registry_inv_def genesis_def demo_worker_def split: if_splits)

definition demo_gatekeeper :: "(account_id \<Rightarrow> u128) chain" where
  "demo_gatekeeper = genesis\<lparr>Gatekeeper := [worker_a], OutboundMessages := [\<lparr>
     m_sender = PalletOrigin (ascii ''PhalaRegistry''), m_destination = gatekeeper_launch_topic,
     m_payload = []\<rparr>]\<rparr>"

lemma demo_gatekeeper_reached: "phala_reaches demo_codec demo genesis demo_gatekeeper"
proof -
  have push: "topic_is_offchain gatekeeper_launch_topic" by code_simp
  have "register_gatekeeper demo_rt Root worker_a genesis = Ok () demo_gatekeeper"
    by (simp add: register_gatekeeper_def rt.registry_push_Ok rt.outbox_def default_should_push_def push
        demo_gatekeeper_def)
  then have ex: "phala_exec demo_codec demo (RegisterGatekeeper Root worker_a) genesis =
      Some (Ok () demo_gatekeeper)" by simp
  show ?thesis by (rule phala_reaches.reach_step [OF phala_reaches.reach_start _ ex]) (simp_all add: op_fits_def)
qed

theorem registry_stays_in_order_witness:
  "distinct (Gatekeeper demo_gatekeeper) \<and> Workers demo_gatekeeper worker_a \<noteq> None \<and>
   worker_a \<in> set (Gatekeeper demo_gatekeeper)"
  using registry_stays_in_order [OF demo_gatekeeper_reached genesis_registry_inv]
  by (simp add: demo_gatekeeper_def)

text \<open>
  What the registry never takes back: along every run the registered workers stay registered,
  the gatekeepers stay gatekeepers, and the master key, once it is set, is never replaced.
\<close>

theorem registry_never_forgets:
  assumes "phala_reaches C T s t"
  shows "(Workers s w \<noteq> None \<longrightarrow> Workers t w \<noteq> None) \<and> set (Gatekeeper s) \<subseteq> set (Gatekeeper t) \<and>
    (GatekeeperMasterPubkey s = Some k \<longrightarrow> GatekeeperMasterPubkey t = Some k)"
  using phala_reaches_registry [OF assms] unfolding registry_grows_def by blast

theorem registry_never_forgets_witness:
  "Workers genesis worker_b \<noteq> None \<and> Workers demo_gatekeeper worker_b \<noteq> None"
  using registry_never_forgets [OF demo_gatekeeper_reached, of worker_b] by simp

end
