(* ===== verification/Xt_Chain.thy ===== *)
theory Xt_Chain
  imports Bridge
begin

text \<open>
  The data, storage and configuration of the three pallets that build on the bridge:
  \<open>assets_wrapper.rs\<close>, \<open>bridge_transfer/mod.rs\<close> and \<open>xcm/\<close> in \<open>src/pallets/xtransfer/src\<close>.

  Locations and assets are the types of the crate \<open>xcm\<close> (version 2) with the constructors the
  sources match on; the interior of a location (\<open>Here\<close>, \<open>X1\<close> to \<open>X8\<close>) is the list of its
  junctions. \<open>xt_chain\<close> extends the storage of the bridge; \<open>ledger\<close> is the storage of the
  pallets outside the repository (balances, assets, XCM queues), reached only through the
  operations of \<open>xt_config\<close>.
\<close>

section \<open>Locations and assets\<close>

datatype network_id = NetworkAny | NetworkNamed bytes

datatype junction =
    Parachain u32
  | AccountId32 network_id bytes
  | GeneralIndex u128
  | GeneralKey bytes
  | OtherJunction bytes

record multi_location =
  parents :: u8
  interior :: "junction list"

definition at_location :: "u8 \<Rightarrow> junction list \<Rightarrow> multi_location" where
  "at_location p js = \<lparr>parents = p, interior = js\<rparr>"

abbreviation here_location :: multi_location where "here_location \<equiv> at_location 0 []"
abbreviation parent_location :: multi_location where "parent_location \<equiv> at_location 1 []"

lemma at_location_simps [simp]:
  "parents (at_location p js) = p" "interior (at_location p js) = js"
  "at_location p js = at_location q ks \<longleftrightarrow> p = q \<and> js = ks"
  by (simp_all add: at_location_def)

datatype xcm_asset_id = Concrete multi_location | Abstract bytes

datatype fungibility = Fungible u128 | NonFungible bytes

record multi_asset =
  ma_id :: xcm_asset_id
  ma_fun :: fungibility

definition fungible_at :: "multi_location \<Rightarrow> u128 \<Rightarrow> multi_asset" where
  "fungible_at loc amount = \<lparr>ma_id = Concrete loc, ma_fun = Fungible amount\<rparr>"

lemma fungible_at_simps [simp]:
  "ma_id (fungible_at l a) = Concrete l" "ma_fun (fungible_at l a) = Fungible a"
  by (simp_all add: fungible_at_def)

datatype multi_asset_filter = WildAll | Definite "multi_asset list"

datatype instruction =
    WithdrawAsset "multi_asset list"
  | BuyExecution multi_asset u64
  | DepositAsset multi_asset_filter u32 multi_location
  | DepositReserveAsset multi_asset_filter u32 multi_location "instruction list"
  | InitiateReserveWithdraw multi_asset_filter multi_location "instruction list"
  | OtherInstruction bytes

datatype xcm_error = FailedToTransactAsset string | XcmUnimplemented | XcmOtherError nat

datatype match_error = MatchAssetNotFound | AmountToBalanceConversionFailed

section \<open>Registered assets\<close>

datatype xtransfer_asset = XTransferAsset (asset_location: multi_location)

datatype x_bridge_config =
    Xcmp
  | ChainBridge (cb_chain_id: u8) (cb_resource_id: resource_id) (cb_reserve_account: bytes)
      (cb_is_mintable: bool)

record x_bridge =
  xb_config :: x_bridge_config
  xb_metadata :: bytes

record asset_properties =
  ap_name :: bytes
  ap_symbol :: bytes
  ap_decimals :: u8

record asset_registry_info =
  ri_location :: multi_location
  ri_reserve_location :: "multi_location option"
  ri_enabled_bridges :: "x_bridge list"
  ri_properties :: asset_properties

text \<open>The \<open>Event\<close>s of the asset wrapper, the bridge transfer and the XCM transfer pallet.\<close>

datatype xt_event =
    AssetRegistered asset_id xtransfer_asset
  | AssetUnRegistered asset_id xtransfer_asset
  | ChainbridgeEnabled asset_id u8 resource_id
  | ChainbridgeDisabled asset_id u8 resource_id
  | FeeUpdated bridge_chain_id u128 u32
  | Deposited xtransfer_asset account_id u128
  | Forwarded xtransfer_asset multi_location u128
  | AssetTransfered multi_asset multi_location multi_location
  | XcmDeposited multi_asset multi_location
  | XcmWithdrawn multi_asset multi_location

section \<open>Storage and configuration\<close>

record ('call, 'x) xt_chain = "'call bridge_st" +
  IdByAssets :: "xtransfer_asset \<rightharpoonup> asset_id"
  AssetByIds :: "asset_id \<rightharpoonup> xtransfer_asset"
  AssetByResourceIds :: "resource_id \<rightharpoonup> xtransfer_asset"
  RegistryInfoByIds :: "asset_id \<rightharpoonup> asset_registry_info"
  BridgeFee :: "bridge_chain_id \<rightharpoonup> u128 \<times> u32"
  ledger :: 'x
  xt_log :: "xt_event list"

type_synonym ('x, 'e, 'a) on_ledger = "'x \<Rightarrow> ('e, 'a, 'x) outcome"

text \<open>
  The XCM executor is generic in the transactor it moves assets with. A run of it is a program of
  calls of the transactor (\<open>TransactAsset\<close>), each followed by what the executor does with the result,
  and of steps on the storage outside the repository; it ends with whether the message was
  executed completely.
\<close>

datatype check_op = CanCheckIn | CheckIn | CheckOut

datatype 'x xcm_run =
    Finished bool
  | RunDeposit multi_asset multi_location "xcm_error option \<Rightarrow> 'x xcm_run"
  | RunWithdraw multi_asset multi_location "xcm_error + multi_asset list \<Rightarrow> 'x xcm_run"
  | RunCheck check_op multi_location multi_asset "xcm_error option \<Rightarrow> 'x xcm_run"
  | RunOutside "'x \<Rightarrow> 'x \<times> 'x xcm_run"

record 'x xt_config =
  \<comment> \<open>origins\<close>
  assets_committee_origin :: "origin \<Rightarrow> bool"
  execute_xcm_origin :: "origin \<Rightarrow> multi_location option"
  \<comment> \<open>\<open>pallet_assets\<close>\<close>
  assets_force_create :: "origin \<Rightarrow> asset_id \<Rightarrow> account_id \<Rightarrow> bool \<Rightarrow> u128 \<Rightarrow> ('x, xt_error, unit) on_ledger"
  assets_force_set_metadata :: "origin \<Rightarrow> asset_id \<Rightarrow> bytes \<Rightarrow> bytes \<Rightarrow> u8 \<Rightarrow> bool \<Rightarrow>
    ('x, xt_error, unit) on_ledger"
  assets_transfer :: "asset_id \<Rightarrow> account_id \<Rightarrow> account_id \<Rightarrow> u128 \<Rightarrow> bool \<Rightarrow> ('x, xt_error, unit) on_ledger"
  assets_burn_from :: "asset_id \<Rightarrow> account_id \<Rightarrow> u128 \<Rightarrow> ('x, xt_error, unit) on_ledger"
  assets_mint_into :: "asset_id \<Rightarrow> account_id \<Rightarrow> u128 \<Rightarrow> ('x, xt_error, unit) on_ledger"
  reducible_balance :: "asset_id \<Rightarrow> account_id \<Rightarrow> bool \<Rightarrow> 'x \<Rightarrow> u128"
  to_asset_balance :: "u128 \<Rightarrow> asset_id \<Rightarrow> 'x \<Rightarrow> u128 option"
  \<comment> \<open>\<open>Currency\<close> and its fee handler\<close>
  free_balance_of :: "account_id \<Rightarrow> 'x \<Rightarrow> u128"
  currency_withdraw :: "account_id \<Rightarrow> u128 \<Rightarrow> ('x, xt_error, unit) on_ledger"
  currency_transfer :: "account_id \<Rightarrow> account_id \<Rightarrow> u128 \<Rightarrow> ('x, xt_error, unit) on_ledger"
  deposit_creating :: "account_id \<Rightarrow> u128 \<Rightarrow> 'x \<Rightarrow> 'x"
  on_fee_pay :: "u128 \<Rightarrow> 'x \<Rightarrow> 'x"
  \<comment> \<open>the adapters of \<open>xcm_builder\<close>, given the matcher they are built with\<close>
  native_deposit :: "(multi_asset \<Rightarrow> u128 option) \<Rightarrow> multi_asset \<Rightarrow> multi_location \<Rightarrow>
    ('x, xcm_error, unit) on_ledger"
  native_withdraw :: "(multi_asset \<Rightarrow> u128 option) \<Rightarrow> multi_asset \<Rightarrow> multi_location \<Rightarrow>
    ('x, xcm_error, multi_asset list) on_ledger"
  assets_deposit :: "(multi_asset \<Rightarrow> match_error + asset_id \<times> u128) \<Rightarrow> multi_asset \<Rightarrow> multi_location \<Rightarrow>
    ('x, xcm_error, unit) on_ledger"
  assets_withdraw :: "(multi_asset \<Rightarrow> match_error + asset_id \<times> u128) \<Rightarrow> multi_asset \<Rightarrow> multi_location \<Rightarrow>
    ('x, xcm_error, multi_asset list) on_ledger"
  native_check :: "check_op \<Rightarrow> multi_location \<Rightarrow> multi_asset \<Rightarrow> ('x, xcm_error, unit) on_ledger"
  assets_check :: "check_op \<Rightarrow> multi_location \<Rightarrow> multi_asset \<Rightarrow> ('x, xcm_error, unit) on_ledger"
  \<comment> \<open>the XCM executor, the weigher, and functions on assets and locations\<close>
  xcm_execute :: "multi_location \<Rightarrow> instruction list \<Rightarrow> u64 \<Rightarrow> u64 \<Rightarrow> 'x xcm_run"
  message_weight :: "instruction list \<Rightarrow> u64 option"
  reanchored :: "multi_asset \<Rightarrow> multi_location \<Rightarrow> multi_asset option"
  asset_contains :: "multi_asset \<Rightarrow> multi_asset \<Rightarrow> bool"
  fee_assets_contain :: "multi_asset \<Rightarrow> bool"
  location_hash :: "multi_location \<Rightarrow> bytes"
  decode_location :: "bytes \<Rightarrow> multi_location option"
  error_message :: "xt_error \<Rightarrow> string"
  \<comment> \<open>constants of the runtime\<close>
  wrapper_min_balance :: u128
  parachain_id :: u32
  native_execution_price :: u128
  execution_price_info :: "(xcm_asset_id \<times> u128) list"
  treasury_account :: account_id
  default_xcm_fee :: u128

definition xt_deposit_event :: "xt_event \<Rightarrow> ('call, 'x) xt_chain \<Rightarrow> ('call, 'x) xt_chain" where
  "xt_deposit_event e s = s\<lparr>xt_log := xt_log s @ [e]\<rparr>"

definition with_ledger :: "('x, 'e, 'a) on_ledger \<Rightarrow> ('call, 'x) xt_chain \<Rightarrow>
    ('e, 'a, ('call, 'x) xt_chain) outcome" where
  "with_ledger f s = (case f (ledger s) of
       Ok x l \<Rightarrow> Ok x (s\<lparr>ledger := l\<rparr>) | Err e l \<Rightarrow> Err e (s\<lparr>ledger := l\<rparr>) | Panic \<Rightarrow> Panic)"

lemma with_ledger_Ok_iff:
  "with_ledger f s = Ok x t \<longleftrightarrow> (\<exists>l. f (ledger s) = Ok x l \<and> t = s\<lparr>ledger := l\<rparr>)"
  by (cases "f (ledger s)") (auto simp: with_ledger_def)

lemma with_ledger_left:
  "left_state (with_ledger f s) = Some t \<Longrightarrow> \<exists>l. t = s\<lparr>ledger := l\<rparr>"
  by (cases "f (ledger s)") (auto simp: with_ledger_def)

end
