(* ===== verification/Assets_Wrapper.thy ===== *)
theory Assets_Wrapper
  imports Xt_Chain
begin

text \<open>
  The registry of foreign assets, \<open>src/pallets/xtransfer/src/assets_wrapper.rs\<close>: where an asset
  lives, which local asset identifier stands for it, and under which resource identifiers the
  bridge knows it. Creating the asset and its metadata is \<open>pallet_assets\<close>, a parameter.
\<close>

section \<open>Locations and resource identifiers\<close>

definition CB_ASSET_KEY :: bytes where
  "CB_ASSET_KEY = [0x63, 0x62]"

definition into_account :: "'x xt_config \<Rightarrow> multi_location \<Rightarrow> bytes" where
  "into_account X loc = location_hash X loc"

definition into_rid :: "'x xt_config \<Rightarrow> xtransfer_asset \<Rightarrow> u8 \<Rightarrow> resource_id" where
  "into_rid X asset chain = (location_hash X (asset_location asset))[0 := chain]"

definition junctions_reserve :: "junction list \<Rightarrow> multi_location option" where
  "junctions_reserve js =
     (case js of
        GeneralKey cb_key # GeneralIndex chain # _ \<Rightarrow>
          (if cb_key = CB_ASSET_KEY then Some (at_location 0 [GeneralKey cb_key, GeneralIndex chain])
           else None)
      | _ \<Rightarrow> None)"

definition location_reserve :: "multi_location \<Rightarrow> multi_location option" where
  "location_reserve loc =
     (if parents loc = 1 then
        (case interior loc of
           Parachain i # rest \<Rightarrow>
             (case junctions_reserve rest of Some r \<Rightarrow> Some r | None \<Rightarrow> Some (at_location 1 [Parachain i]))
         | _ \<Rightarrow> Some parent_location)
      else if parents loc = 0 then
        (case junctions_reserve (interior loc) of Some r \<Rightarrow> Some r | None \<Rightarrow> Some here_location)
      else None)"

definition asset_reserve :: "xtransfer_asset \<Rightarrow> multi_location option" where
  "asset_reserve asset = location_reserve (asset_location asset)"

text \<open>The reserve location of a chain behind the bridge, which the sources write out at each use.\<close>

definition bridge_reserve :: "u8 \<Rightarrow> multi_location" where
  "bridge_reserve chain = at_location 0 [GeneralKey CB_ASSET_KEY, GeneralIndex (ucast chain)]"

section \<open>Calls\<close>

definition force_register_asset :: "'x xt_config \<Rightarrow> origin \<Rightarrow> xtransfer_asset \<Rightarrow> asset_id \<Rightarrow>
    asset_properties \<Rightarrow> account_id \<Rightarrow> ('call, 'x) xt_chain \<Rightarrow>
    (xt_error, unit, ('call, 'x) xt_chain) outcome" where
  "force_register_asset X orig asset i props owner s0 = transactional s0
     (if \<not> assets_committee_origin X orig then Err BadOrigin s0
      else if IdByAssets s0 asset \<noteq> None then Err (wrapper_err AssetAlreadyExist) s0
      else if AssetByIds s0 i \<noteq> None then Err (wrapper_err AssetAlreadyExist) s0
      else andthen (with_ledger (assets_force_create X orig i owner True (wrapper_min_balance X)) s0)
       (\<lambda>_ s. let s = s\<lparr>IdByAssets := (IdByAssets s)(asset \<mapsto> i)\<rparr>;
                  s = s\<lparr>AssetByIds := (AssetByIds s)(i \<mapsto> asset)\<rparr>;
                  s = s\<lparr>RegistryInfoByIds := (RegistryInfoByIds s)(i \<mapsto>
                        \<lparr>ri_location = asset_location asset, ri_reserve_location = asset_reserve asset,
                         ri_enabled_bridges = [\<lparr>xb_config = Xcmp, xb_metadata = []\<rparr>],
                         ri_properties = props\<rparr>)\<rparr>
              in andthen (with_ledger (assets_force_set_metadata X orig i (ap_name props)
                            (ap_symbol props) (ap_decimals props) False) s)
       (\<lambda>_ s. Ok () (xt_deposit_event (AssetRegistered i asset) s))))"

text \<open>The resource identifiers a registry entry was bound to.\<close>

definition bound_rids :: "x_bridge list \<Rightarrow> resource_id list" where
  "bound_rids bs = [cb_resource_id (xb_config b). b \<leftarrow> bs, xb_config b \<noteq> Xcmp]"

definition force_unregister_asset :: "'x xt_config \<Rightarrow> origin \<Rightarrow> asset_id \<Rightarrow>
    ('call, 'x) xt_chain \<Rightarrow> (xt_error, unit, ('call, 'x) xt_chain) outcome" where
  "force_unregister_asset X orig i s0 = transactional s0
     (if \<not> assets_committee_origin X orig then Err BadOrigin s0
      else case AssetByIds s0 i of None \<Rightarrow> Err (wrapper_err wrapper_error.AssetNotRegistered) s0
      | Some asset \<Rightarrow>
        case RegistryInfoByIds s0 i of None \<Rightarrow> Err (wrapper_err wrapper_error.AssetNotRegistered) s0
        | Some info \<Rightarrow>
          let s = s0\<lparr>AssetByIds := (AssetByIds s0)(i := None)\<rparr>;
              s = s\<lparr>IdByAssets := (IdByAssets s)(asset := None)\<rparr>;
              s = s\<lparr>AssetByResourceIds :=
                    fold (\<lambda>rid m. m(rid := None)) (bound_rids (ri_enabled_bridges info)) (AssetByResourceIds s)\<rparr>;
              s = s\<lparr>RegistryInfoByIds := (RegistryInfoByIds s)(i := None)\<rparr>
          in Ok () (xt_deposit_event (AssetUnRegistered i asset) s))"

definition wrapper_set_metadata :: "'x xt_config \<Rightarrow> origin \<Rightarrow> asset_id \<Rightarrow> asset_properties \<Rightarrow>
    ('call, 'x) xt_chain \<Rightarrow> (xt_error, unit, ('call, 'x) xt_chain) outcome" where
  "wrapper_set_metadata X orig i props s0 = transactional s0
     (if \<not> assets_committee_origin X orig then Err BadOrigin s0
      else case RegistryInfoByIds s0 i of None \<Rightarrow> Err (wrapper_err wrapper_error.AssetNotRegistered) s0
      | Some info \<Rightarrow>
          with_ledger (assets_force_set_metadata X orig i (ap_name props) (ap_symbol props)
              (ap_decimals props) False)
            (s0\<lparr>RegistryInfoByIds := (RegistryInfoByIds s0)(i \<mapsto> info\<lparr>ri_properties := props\<rparr>)\<rparr>))"

definition force_enable_chainbridge :: "'x xt_config \<Rightarrow> origin \<Rightarrow> asset_id \<Rightarrow> u8 \<Rightarrow> bool \<Rightarrow> bytes \<Rightarrow>
    ('call, 'x) xt_chain \<Rightarrow> (xt_error, unit, ('call, 'x) xt_chain) outcome" where
  "force_enable_chainbridge X orig i chain is_mintable metadata s0 = transactional s0
     (if \<not> assets_committee_origin X orig then Err BadOrigin s0
      else case AssetByIds s0 i of None \<Rightarrow> Err (wrapper_err wrapper_error.AssetNotRegistered) s0
      | Some asset \<Rightarrow>
        case RegistryInfoByIds s0 i of None \<Rightarrow> Err (wrapper_err wrapper_error.AssetNotRegistered) s0
        | Some info \<Rightarrow>
          let rid = into_rid X asset chain
          in if AssetByResourceIds s0 rid \<noteq> None then Err (wrapper_err BridgeAlreadyEnabled) s0
             else let s = s0\<lparr>AssetByResourceIds := (AssetByResourceIds s0)(rid \<mapsto> asset)\<rparr>;
                      entry = \<lparr>xb_config = ChainBridge chain rid (into_account X (bridge_reserve chain)) is_mintable,
                               xb_metadata = metadata\<rparr>;
                      info = info\<lparr>ri_enabled_bridges := ri_enabled_bridges info @ [entry]\<rparr>;
                      s = s\<lparr>RegistryInfoByIds := (RegistryInfoByIds s)(i \<mapsto> info)\<rparr>
                  in Ok () (xt_deposit_event (ChainbridgeEnabled i chain rid) s))"

definition is_bridge_entry :: "u8 \<Rightarrow> resource_id \<Rightarrow> x_bridge \<Rightarrow> bool" where
  "is_bridge_entry chain rid b =
     (case xb_config b of ChainBridge cid r _ _ \<Rightarrow> cid = chain \<and> r = rid | Xcmp \<Rightarrow> False)"

definition force_disable_chainbridge :: "'x xt_config \<Rightarrow> origin \<Rightarrow> asset_id \<Rightarrow> u8 \<Rightarrow>
    ('call, 'x) xt_chain \<Rightarrow> (xt_error, unit, ('call, 'x) xt_chain) outcome" where
  "force_disable_chainbridge X orig i chain s0 = transactional s0
     (if \<not> assets_committee_origin X orig then Err BadOrigin s0
      else case AssetByIds s0 i of None \<Rightarrow> Err (wrapper_err wrapper_error.AssetNotRegistered) s0
      | Some asset \<Rightarrow>
        case RegistryInfoByIds s0 i of None \<Rightarrow> Err (wrapper_err wrapper_error.AssetNotRegistered) s0
        | Some info \<Rightarrow>
          let rid = into_rid X asset chain
          in if AssetByResourceIds s0 rid = None then Err (wrapper_err BridgeAlreadyDisabled) s0
             else let s = s0\<lparr>AssetByResourceIds := (AssetByResourceIds s0)(rid := None)\<rparr>;
                      info = (case find_index (is_bridge_entry chain rid) (ri_enabled_bridges info) of
                          Some idx \<Rightarrow> info\<lparr>ri_enabled_bridges := remove_at idx (ri_enabled_bridges info)\<rparr>
                        | None \<Rightarrow> info);
                      s = s\<lparr>RegistryInfoByIds := (RegistryInfoByIds s)(i \<mapsto> info)\<rparr>
                  in Ok () (xt_deposit_event (ChainbridgeDisabled i chain rid) s))"

section \<open>Lookups\<close>

definition lookup_id :: "('call, 'x) xt_chain \<Rightarrow> xtransfer_asset \<Rightarrow> asset_id option" where
  "lookup_id s asset = IdByAssets s asset"

definition lookup_asset :: "('call, 'x) xt_chain \<Rightarrow> asset_id \<Rightarrow> xtransfer_asset option" where
  "lookup_asset s i = AssetByIds s i"

definition lookup_by_resource_id :: "('call, 'x) xt_chain \<Rightarrow> resource_id \<Rightarrow> xtransfer_asset option" where
  "lookup_by_resource_id s rid = AssetByResourceIds s rid"

definition asset_decimals :: "('call, 'x) xt_chain \<Rightarrow> asset_id \<Rightarrow> u8 option" where
  "asset_decimals s i = map_option (\<lambda>m. ap_decimals (ri_properties m)) (RegistryInfoByIds s i)"

end
