(* ===== verification/Xcm_Helper.thy ===== *)
theory Xcm_Helper
  imports Assets_Wrapper
begin

text \<open>
  The fees of a bridge transfer (the pure part of \<open>bridge_transfer/mod.rs\<close>) and the transactor
  the XCM executor deposits and withdraws with, \<open>src/pallets/xtransfer/src/xcm/xcm_helper.rs\<close>. A
  deposit to a location behind the bridge is charged a fee and leaves the chain as a bridge
  transfer; every other deposit goes to the adapter of the native currency or of the assets.
\<close>

section \<open>Native and concrete assets\<close>

definition is_native_asset_id :: "'x xt_config \<Rightarrow> multi_location \<Rightarrow> bool" where
  "is_native_asset_id X loc = (loc \<in> set [here_location, at_location 1 [Parachain (parachain_id X)]])"

definition native_asset_id :: "'x xt_config \<Rightarrow> multi_location" where
  "native_asset_id X = at_location 1 [Parachain (parachain_id X)]"

definition is_native_asset :: "'x xt_config \<Rightarrow> multi_asset \<Rightarrow> bool" where
  "is_native_asset X a = (case (ma_id a, ma_fun a) of
     (Concrete loc, Fungible _) \<Rightarrow> is_native_asset_id X loc | _ \<Rightarrow> False)"

definition native_asset_matcher :: "'x xt_config \<Rightarrow> multi_asset \<Rightarrow> u128 option" where
  "native_asset_matcher X a = (case (ma_id a, ma_fun a) of
     (Concrete _, Fungible amount) \<Rightarrow> (if is_native_asset X a then Some amount else None)
   | _ \<Rightarrow> None)"

definition concrete_assets_matcher :: "('call, 'x) xt_chain \<Rightarrow> multi_asset \<Rightarrow>
    match_error + asset_id \<times> u128" where
  "concrete_assets_matcher s a = (case (ma_fun a, ma_id a) of
     (Fungible amount, Concrete loc) \<Rightarrow>
       (case lookup_id s (XTransferAsset loc) of None \<Rightarrow> Inl MatchAssetNotFound
        | Some i \<Rightarrow> Inr (i, amount))
   | _ \<Rightarrow> Inl MatchAssetNotFound)"

definition concrete_asset_id :: "multi_asset \<Rightarrow> multi_location option" where
  "concrete_asset_id a = (case (ma_id a, ma_fun a) of (Concrete loc, Fungible _) \<Rightarrow> Some loc | _ \<Rightarrow> None)"

definition concrete_asset_origin :: "multi_asset \<Rightarrow> multi_location option" where
  "concrete_asset_origin a = (case concrete_asset_id a of None \<Rightarrow> None | Some loc \<Rightarrow>
     if parents loc = 1 then
       (case interior loc of Parachain i # _ \<Rightarrow> Some (at_location 1 [Parachain i]) | _ \<Rightarrow> Some parent_location)
     else if parents loc = 0 then
       (case interior loc of Parachain i # _ \<Rightarrow> Some (at_location 0 [Parachain i]) | [] \<Rightarrow> Some loc | _ \<Rightarrow> None)
     else None)"

definition filter_asset_location :: "multi_asset \<Rightarrow> multi_location \<Rightarrow> bool" where
  "filter_asset_location a orig = (case concrete_asset_origin a of
     Some loc \<Rightarrow> if loc = orig then True else False | None \<Rightarrow> False)"

section \<open>Fees\<close>

definition pow10 :: "nat \<Rightarrow> u128" where
  "pow10 n = (if 10 ^ n < (2 :: nat) ^ 128 then 10 ^ n else - 1)"

definition to_e12 :: "u128 \<Rightarrow> u8 \<Rightarrow> u128" where
  "to_e12 amount decimals =
     (if decimals > 12 then amount div pow10 (unat decimals - 12)
      else saturating_mul amount (pow10 (12 - unat decimals)))"

definition from_e12 :: "u128 \<Rightarrow> u8 \<Rightarrow> u128" where
  "from_e12 amount decimals =
     (if decimals > 12 then saturating_mul amount (pow10 (unat decimals - 12))
      else amount div pow10 (12 - unat decimals))"

definition bridge_fee :: "('call, 'x) xt_chain \<Rightarrow> bridge_chain_id \<Rightarrow> u128 \<times> u32" where
  "bridge_fee s dest_id = (case BridgeFee s dest_id of Some f \<Rightarrow> f | None \<Rightarrow> (0, 0))"

definition estimate_fee_in_pha :: "('call, 'x) xt_chain \<Rightarrow> bridge_chain_id \<Rightarrow> u128 \<Rightarrow> u128" where
  "estimate_fee_in_pha s dest_id amount =
     (let (min_fee, fee_scale) = bridge_fee s dest_id;
          fee_estimated = amount * ucast fee_scale div 1000
      in if fee_estimated > min_fee then fee_estimated else min_fee)"

text \<open>A native execution price of zero would make the division panic.\<close>

definition convert_fee_from_pha :: "'x xt_config \<Rightarrow> u128 \<Rightarrow> u128 \<Rightarrow> u8 \<Rightarrow>
    ('call, 'x) xt_chain \<Rightarrow> ('e, u128, ('call, 'x) xt_chain) outcome" where
  "convert_fee_from_pha X fee_in_pha price decimals s =
     (if native_execution_price X = 0 then Panic
      else Ok (from_e12 (fee_in_pha * price div native_execution_price X) decimals) s)"

definition get_fee :: "'x xt_config \<Rightarrow> bridge_chain_id \<Rightarrow> multi_asset \<Rightarrow>
    ('call, 'x) xt_chain \<Rightarrow> ('e, u128 option, ('call, 'x) xt_chain) outcome" where
  "get_fee X chain_id a s = (case (ma_id a, ma_fun a) of
     (Concrete loc, Fungible amount) \<Rightarrow>
       (case lookup_id s (XTransferAsset loc) of None \<Rightarrow> Ok None s
        | Some i \<Rightarrow>
          let decimals = (case asset_decimals s i of Some d \<Rightarrow> d | None \<Rightarrow> 12);
              fee_in_pha = estimate_fee_in_pha s chain_id (to_e12 amount decimals)
          in if is_native_asset X a then Ok (Some fee_in_pha) s
             else let prices = execution_price_info X
                  in case find_index (\<lambda>(fee_asset, _). fee_asset = Concrete loc) prices of
                       None \<Rightarrow> Ok None s
                     | Some idx \<Rightarrow> andthen (convert_fee_from_pha X fee_in_pha (snd (prices ! idx)) decimals s)
                         (\<lambda>fee s. Ok (Some fee) s))
   | _ \<Rightarrow> Ok None s)"

section \<open>The transactor\<close>

definition account_location :: "account_id \<Rightarrow> multi_location" where
  "account_location who = at_location 0 [AccountId32 NetworkAny who]"

definition adapter_deposit :: "'x xt_config \<Rightarrow> multi_asset \<Rightarrow> multi_location \<Rightarrow>
    ('call, 'x) xt_chain \<Rightarrow> (xcm_error, unit, ('call, 'x) xt_chain) outcome" where
  "adapter_deposit X what who s =
     (if is_native_asset X what then with_ledger (native_deposit X (native_asset_matcher X) what who) s
      else with_ledger (assets_deposit X (concrete_assets_matcher s) what who) s)"

definition forward_to_bridge :: "'x xt_config \<Rightarrow> multi_asset \<Rightarrow> bytes \<Rightarrow> u128 \<Rightarrow> bytes \<Rightarrow>
    ('call, 'x) xt_chain \<Rightarrow> (xcm_error, unit, ('call, 'x) xt_chain) outcome" where
  "forward_to_bridge X what cb_key dest recipient s =
     (if cb_key \<noteq> CB_ASSET_KEY then Err (FailedToTransactAsset ''DismatchPath'') s
      else case (ma_fun what, ma_id what) of
        (Fungible amount, Concrete loc) \<Rightarrow>
          (if \<not> unat dest < 256 then Err (FailedToTransactAsset ''ChainIdConversionFailed'') s
           else let dest_id = ucast dest :: u8 in
             andthen (get_fee X dest_id what s) (\<lambda>fee s.
             case fee of None \<Rightarrow> Err (FailedToTransactAsset ''FailedGetFee'') s
             | Some fee \<Rightarrow>
               if \<not> amount > fee then Err (FailedToTransactAsset ''Insufficient'') s
               else andthen (map_err (\<lambda>_. FailedToTransactAsset ''FeeTransferFailed'')
                      (adapter_deposit X (fungible_at loc fee) (account_location (treasury_account X)) s))
                (\<lambda>_ s. let transfering_amount = amount - fee;
                           transfering_asset = fungible_at loc transfering_amount;
                           dest_reserve = bridge_reserve dest_id
                       in case location_reserve loc of
                            None \<Rightarrow> Err (FailedToTransactAsset ''FailedGetreserve'') s
                          | Some reserve \<Rightarrow>
                            andthen (if reserve \<noteq> dest_reserve
                                then map_err (\<lambda>_. FailedToTransactAsset ''ReserveTransferFailed'')
                                  (adapter_deposit X transfering_asset
                                     (account_location (into_account X dest_reserve)) s)
                                else Ok () s)
                            (\<lambda>_ s. let rid = (if is_native_asset X transfering_asset
                                              then into_rid X (XTransferAsset here_location) dest_id
                                              else into_rid X (XTransferAsset loc) dest_id)
                                   in map_err (\<lambda>e. FailedToTransactAsset (error_message X e))
                                        (transfer_fungible dest_id rid recipient
                                           (ucast transfering_amount) s)))))
      | _ \<Rightarrow> Err XcmUnimplemented s)"

definition deposit_asset :: "'x xt_config \<Rightarrow> multi_asset \<Rightarrow> multi_location \<Rightarrow>
    ('call, 'x) xt_chain \<Rightarrow> (xcm_error, unit, ('call, 'x) xt_chain) outcome" where
  "deposit_asset X what who s =
     andthen
       (case interior who of
          [GeneralKey cb_key, GeneralIndex dest, GeneralKey recipient] \<Rightarrow>
            (if parents who = 0 then forward_to_bridge X what cb_key dest recipient s
             else adapter_deposit X what who s)
        | _ \<Rightarrow> adapter_deposit X what who s)
       (\<lambda>_ s. Ok () (xt_deposit_event (XcmDeposited what who) s))"

definition withdraw_asset :: "'x xt_config \<Rightarrow> multi_asset \<Rightarrow> multi_location \<Rightarrow>
    ('call, 'x) xt_chain \<Rightarrow> (xcm_error, multi_asset list, ('call, 'x) xt_chain) outcome" where
  "withdraw_asset X what who s =
     andthen
       (if is_native_asset X what then with_ledger (native_withdraw X (native_asset_matcher X) what who) s
        else with_ledger (assets_withdraw X (concrete_assets_matcher s) what who) s)
       (\<lambda>assets s. Ok assets (xt_deposit_event (XcmWithdrawn what who) s))"

definition check_asset :: "'x xt_config \<Rightarrow> check_op \<Rightarrow> multi_location \<Rightarrow> multi_asset \<Rightarrow>
    ('call, 'x) xt_chain \<Rightarrow> (xcm_error, unit, ('call, 'x) xt_chain) outcome" where
  "check_asset X op loc what s =
     (if is_native_asset X what then with_ledger (native_check X op loc what) s
      else with_ledger (assets_check X op loc what) s)"

definition take_revenue :: "'x xt_config \<Rightarrow> multi_asset \<Rightarrow> ('call, 'x) xt_chain \<Rightarrow>
    ('call, 'x) xt_chain option" where
  "take_revenue X revenue s =
     left_state (deposit_asset X revenue (account_location (treasury_account X)) s)"

end
