(* ===== verification/Xcm_Transfer.thy ===== *)
theory Xcm_Transfer
  imports Xcm_Helper
begin

text \<open>
  Transfers to other parachains and the relay chain,
  \<open>src/pallets/xtransfer/src/xcm/xcm_transfer.rs\<close>: the XCM message for an asset and a
  destination depends on where the asset is reserved, and the executor runs it here. The executor,
  the weigher and the re-anchoring of an asset are parameters; \<open>run_xcm\<close> runs the executor on the
  transactor of \<open>Xcm_Helper\<close>.
\<close>

section \<open>The session\<close>

datatype transfer_type = FromNative | ToReserve | ToNonReserve

record xcm_session =
  xs_asset :: multi_asset
  xs_fee :: multi_asset
  xs_origin :: multi_location
  xs_dest_location :: multi_location
  xs_recipient :: account_id
  xs_dest_weight :: u64

definition session_kind :: "'x xt_config \<Rightarrow> xcm_session \<Rightarrow> transfer_type option" where
  "session_kind X m = (case concrete_asset_origin (xs_asset m) of None \<Rightarrow> None
     | Some reserve \<Rightarrow> Some (if is_native_asset_id X reserve then FromNative
         else if reserve = xs_dest_location m then ToReserve else ToNonReserve))"

definition buy_execution_on :: "'x xt_config \<Rightarrow> xcm_session \<Rightarrow> multi_location \<Rightarrow>
    xt_error + instruction" where
  "buy_execution_on X m loc = (case reanchored X (xs_fee m) loc of
     None \<Rightarrow> Inl (xcm_err CannotReanchor)
   | Some fees \<Rightarrow> Inr (BuyExecution fees (xs_dest_weight m)))"

definition invert_based_reserve :: "multi_location \<Rightarrow> multi_location \<Rightarrow> multi_location" where
  "invert_based_reserve reserve loc =
     (if reserve = parent_location then at_location 0 (interior loc) else loc)"

definition session_message :: "'x xt_config \<Rightarrow> xcm_session \<Rightarrow> xt_error + instruction list" where
  "session_message X m =
     (let beneficiary = account_location (xs_recipient m);
          (withdraw, max_assets) =
            (if asset_contains X (xs_asset m) (xs_fee m) then (WithdrawAsset [xs_asset m], 1)
             else (WithdrawAsset [xs_asset m, xs_fee m], 2));
          deposit = DepositAsset WildAll max_assets beneficiary
      in case session_kind X m of
           None \<Rightarrow> Inl (xcm_err UnknownTransfer)
         | Some FromNative \<Rightarrow>
             (case buy_execution_on X m (xs_dest_location m) of Inl e \<Rightarrow> Inl e | Inr buy \<Rightarrow>
              Inr [withdraw, DepositReserveAsset WildAll max_assets (xs_dest_location m) [buy, deposit]])
         | Some ToReserve \<Rightarrow>
             (case buy_execution_on X m (xs_dest_location m) of Inl e \<Rightarrow> Inl e | Inr buy \<Rightarrow>
              Inr [withdraw, InitiateReserveWithdraw WildAll (xs_dest_location m) [buy, deposit]])
         | Some ToNonReserve \<Rightarrow>
             (case concrete_asset_origin (xs_asset m) of None \<Rightarrow> Inl (xcm_err UnknownTransfer)
              | Some reserve \<Rightarrow>
                (case buy_execution_on X m reserve of Inl e \<Rightarrow> Inl e | Inr buy \<Rightarrow>
                 case buy_execution_on X m (xs_dest_location m) of Inl e \<Rightarrow> Inl e | Inr buy' \<Rightarrow>
                 Inr [withdraw, InitiateReserveWithdraw WildAll reserve
                   [buy, DepositReserveAsset WildAll max_assets
                           (invert_based_reserve reserve (xs_dest_location m)) [buy', deposit]]])))"

text \<open>A run of the executor on the transactor of this chain: whether it was complete.\<close>

primrec run_xcm :: "'x xt_config \<Rightarrow> 'x xcm_run \<Rightarrow> ('call, 'x) xt_chain \<Rightarrow>
    (xt_error, bool, ('call, 'x) xt_chain) outcome" where
  "run_xcm X (Finished complete) = (\<lambda>s. Ok complete s)"
| "run_xcm X (RunDeposit what who k) = (\<lambda>s. case deposit_asset X what who s of
      Ok _ s' \<Rightarrow> run_xcm X (k None) s' | Err e s' \<Rightarrow> run_xcm X (k (Some e)) s' | Panic \<Rightarrow> Panic)"
| "run_xcm X (RunWithdraw what who k) = (\<lambda>s. case withdraw_asset X what who s of
      Ok assets s' \<Rightarrow> run_xcm X (k (Inr assets)) s' | Err e s' \<Rightarrow> run_xcm X (k (Inl e)) s' | Panic \<Rightarrow> Panic)"
| "run_xcm X (RunCheck op loc what k) = (\<lambda>s. case check_asset X op loc what s of
      Ok _ s' \<Rightarrow> run_xcm X (k None) s' | Err e s' \<Rightarrow> run_xcm X (k (Some e)) s' | Panic \<Rightarrow> Panic)"
| "run_xcm X (RunOutside f) = (\<lambda>s. case map_prod id (run_xcm X) (f (ledger s)) of
      (l, go) \<Rightarrow> go (s\<lparr>ledger := l\<rparr>))"

definition session_execute :: "'x xt_config \<Rightarrow> xcm_session \<Rightarrow> instruction list \<Rightarrow>
    ('call, 'x) xt_chain \<Rightarrow> (xt_error, unit, ('call, 'x) xt_chain) outcome" where
  "session_execute X m msg s =
     (case message_weight X msg of None \<Rightarrow> Err (xcm_err UnweighableMessage) s
      | Some weight \<Rightarrow>
          andthen (run_xcm X (xcm_execute X (xs_origin m) msg weight weight) s)
            (\<lambda>complete s. if complete then Ok () s else Err (xcm_err ExecutionFailed) s))"

section \<open>Transfers\<close>

definition transfer_fee :: "'x xt_config \<Rightarrow> multi_asset \<Rightarrow> multi_asset option" where
  "transfer_fee X a =
     (if fee_assets_contain X a \<or> is_native_asset X a
      then (case ma_fun a of Fungible amount \<Rightarrow> Some \<lparr>ma_id = ma_id a, ma_fun = Fungible (amount div 2)\<rparr>
            | _ \<Rightarrow> None)
      else Some (fungible_at (native_asset_id X) (default_xcm_fee X)))"

definition do_transfer_multiasset :: "'x xt_config \<Rightarrow> multi_location \<Rightarrow> multi_asset \<Rightarrow>
    multi_location \<Rightarrow> u64 \<Rightarrow> ('call, 'x) xt_chain \<Rightarrow> (xt_error, unit, ('call, 'x) xt_chain) outcome" where
  "do_transfer_multiasset X orig a dest dest_weight s =
     (if dest = here_location then Err (xcm_err IllegalDestination) s
      else case rev (interior dest) of
        AccountId32 _ recipient # rest \<Rightarrow>
          (case transfer_fee X a of None \<Rightarrow> Err (xcm_err AssetNotFound) s
           | Some fee \<Rightarrow>
             let m = \<lparr>xs_asset = a, xs_fee = fee, xs_origin = orig,
                      xs_dest_location = at_location (parents dest) (rev rest),
                      xs_recipient = recipient, xs_dest_weight = dest_weight\<rparr>
             in case session_message X m of Inl e \<Rightarrow> Err e s
                | Inr msg \<Rightarrow> andthen (session_execute X m msg s)
                    (\<lambda>_ s. Ok () (xt_deposit_event (AssetTransfered a orig dest) s)))
      | _ \<Rightarrow> Err (xcm_err IllegalDestination) s)"

definition xcm_transfer_asset :: "'x xt_config \<Rightarrow> origin \<Rightarrow> xtransfer_asset \<Rightarrow>
    multi_location \<Rightarrow> u128 \<Rightarrow> u64 \<Rightarrow> ('call, 'x) xt_chain \<Rightarrow>
    (xt_error, unit, ('call, 'x) xt_chain) outcome" where
  "xcm_transfer_asset X orig asset dest amount dest_weight s0 = transactional s0
     (case execute_xcm_origin X orig of None \<Rightarrow> Err BadOrigin s0
      | Some loc \<Rightarrow> do_transfer_multiasset X loc (fungible_at (asset_location asset) amount) dest
                      dest_weight s0)"

definition xcm_transfer_native :: "'x xt_config \<Rightarrow> origin \<Rightarrow>
    multi_location \<Rightarrow> u128 \<Rightarrow> u64 \<Rightarrow> ('call, 'x) xt_chain \<Rightarrow>
    (xt_error, unit, ('call, 'x) xt_chain) outcome" where
  "xcm_transfer_native X orig dest amount dest_weight s0 = transactional s0
     (case execute_xcm_origin X orig of None \<Rightarrow> Err BadOrigin s0
      | Some loc \<Rightarrow> do_transfer_multiasset X loc (fungible_at here_location amount) dest
                      dest_weight s0)"

end
