(* ===== verification/Bridge_Transfer.thy ===== *)
theory Bridge_Transfer
  imports Xcm_Transfer
begin

text \<open>
  Transfers over the bridge, \<open>src/pallets/xtransfer/src/bridge_transfer/mod.rs\<close>: a user sends an
  asset or the native token to a chain behind the bridge, and the bridge account settles a
  transfer that came from one.
\<close>

section \<open>Resource identifiers\<close>

definition get_chainid :: "resource_id \<Rightarrow> bridge_chain_id" where
  "get_chainid rid = rid ! 0"

definition gen_pha_rid :: "'x xt_config \<Rightarrow> bridge_chain_id \<Rightarrow> resource_id" where
  "gen_pha_rid X chain_id = into_rid X (XTransferAsset here_location) chain_id"

definition rid_to_location :: "'x xt_config \<Rightarrow> resource_id \<Rightarrow> ('call, 'x) xt_chain \<Rightarrow>
    (xt_error, multi_location, ('call, 'x) xt_chain) outcome" where
  "rid_to_location X rid s =
     (if rid = gen_pha_rid X (get_chainid rid) then Ok here_location s
      else case lookup_by_resource_id s rid of
        None \<Rightarrow> Err (transfer_err AssetConversionFailed) s
      | Some asset \<Rightarrow> Ok (asset_location asset) s)"

definition rid_to_assetid :: "'x xt_config \<Rightarrow> resource_id \<Rightarrow> ('call, 'x) xt_chain \<Rightarrow>
    (xt_error, asset_id, ('call, 'x) xt_chain) outcome" where
  "rid_to_assetid X rid s =
     (if rid = gen_pha_rid X (get_chainid rid) then Err (transfer_err transfer_error.AssetNotRegistered) s
      else case lookup_by_resource_id s rid of
        None \<Rightarrow> Err (transfer_err AssetConversionFailed) s
      | Some asset \<Rightarrow>
          (case lookup_id s asset of None \<Rightarrow> Err (transfer_err transfer_error.AssetNotRegistered) s
           | Some i \<Rightarrow> Ok i s))"

text \<open>The conversion and the \<open>map_err\<close> the calls repeat.\<close>

definition convert_balance :: "'x xt_config \<Rightarrow> u128 \<Rightarrow> asset_id \<Rightarrow> ('call, 'x) xt_chain \<Rightarrow>
    (xt_error, u128, ('call, 'x) xt_chain) outcome" where
  "convert_balance X amount i s = (case to_asset_balance X amount i (ledger s) of
     None \<Rightarrow> Err (transfer_err BalanceConversionFailed) s | Some b \<Rightarrow> Ok b s)"

definition transact_asset :: "('x, xt_error, unit) on_ledger \<Rightarrow> ('call, 'x) xt_chain \<Rightarrow>
    (xt_error, unit, ('call, 'x) xt_chain) outcome" where
  "transact_asset f s = map_err (\<lambda>_. transfer_err transfer_error.FailedToTransactAsset) (with_ledger f s)"

section \<open>Calls of users and of the committee\<close>

definition update_fee :: "('call, 's) bridge_config \<Rightarrow> origin \<Rightarrow> u128 \<Rightarrow> u32 \<Rightarrow> bridge_chain_id \<Rightarrow>
    ('call, 'x) xt_chain \<Rightarrow> (xt_error, unit, ('call, 'x) xt_chain) outcome" where
  "update_fee T orig min_fee fee_scale dest_id s =
     (if \<not> committee_origin T orig then Err BadOrigin s
      else if \<not> fee_scale \<le> 1000 then Err (transfer_err InvalidFeeOption) s
      else Ok () (xt_deposit_event (FeeUpdated dest_id min_fee fee_scale)
             (s\<lparr>BridgeFee := (BridgeFee s)(dest_id \<mapsto> (min_fee, fee_scale))\<rparr>)))"

text \<open>What happens once the checks of \<open>transfer_assets\<close> are done: the fee is paid, the rest is burned
  or moved to the reserve account, and the event for the relayers is emitted.\<close>

definition settle_outgoing :: "'x xt_config \<Rightarrow> account_id \<Rightarrow> asset_id \<Rightarrow> multi_location \<Rightarrow>
    resource_id \<Rightarrow> bridge_chain_id \<Rightarrow> bytes \<Rightarrow> u128 \<Rightarrow> u128 \<Rightarrow> ('call, 'x) xt_chain \<Rightarrow>
    (xt_error, unit, ('call, 'x) xt_chain) outcome" where
  "settle_outgoing X sender i reserve rid dest_id recipient amount fee s =
     andthen (convert_balance X fee i s) (\<lambda>fee_amount s.
     andthen (transact_asset (assets_transfer X i sender (treasury_account X) fee_amount False) s) (\<lambda>_ s.
     let remain_asset = amount - fee in
     andthen (convert_balance X remain_asset i s) (\<lambda>asset_amount s.
     andthen (if reserve = bridge_reserve dest_id
              then transact_asset (assets_burn_from X i sender asset_amount) s
              else transact_asset (assets_transfer X i sender
                     (into_account X (bridge_reserve dest_id)) asset_amount False) s) (\<lambda>_ s.
     transfer_fungible dest_id rid recipient (ucast remain_asset) s))))"

definition transfer_assets :: "'x xt_config \<Rightarrow> origin \<Rightarrow> xtransfer_asset \<Rightarrow> bridge_chain_id \<Rightarrow>
    bytes \<Rightarrow> u128 \<Rightarrow> ('call, 'x) xt_chain \<Rightarrow> (xt_error, unit, ('call, 'x) xt_chain) outcome" where
  "transfer_assets X orig asset dest_id recipient amount s0 = transactional s0
     (case ensure_signed orig of None \<Rightarrow> Err BadOrigin s0
      | Some sender \<Rightarrow>
      case asset_reserve asset of None \<Rightarrow> Err (transfer_err CannotDetermineReservedLocation) s0
      | Some reserve \<Rightarrow>
        if \<not> chain_whitelisted s0 dest_id then Err (transfer_err InvalidDestination) s0
        else if BridgeFee s0 dest_id = None then Err (transfer_err FeeOptionsMissing) s0
        else case lookup_id s0 asset of
          None \<Rightarrow> Err (transfer_err transfer_error.AssetNotRegistered) s0
        | Some i \<Rightarrow>
          let rid = into_rid X asset dest_id in
          case rid_to_assetid X rid s0 of
            Ok _ _ \<Rightarrow>
              andthen (convert_balance X amount i s0) (\<lambda>asset_amount s.
              if \<not> reducible_balance X i sender False (ledger s) \<ge> asset_amount
              then Err (transfer_err InsufficientBalance) s
              else andthen (get_fee X dest_id (fungible_at (asset_location asset) amount) s) (\<lambda>fee s.
                case fee of None \<Rightarrow> Err (transfer_err CannotPayAsFee) s
                | Some fee \<Rightarrow>
                    if \<not> amount > fee then Err (transfer_err InsufficientBalance) s
                    else settle_outgoing X sender i reserve rid dest_id recipient amount fee s))
          | _ \<Rightarrow> Err (transfer_err AssetConversionFailed) s0)"

definition bridge_transfer_native :: "'x xt_config \<Rightarrow> ('call, 's) bridge_config \<Rightarrow> origin \<Rightarrow>
    u128 \<Rightarrow> bytes \<Rightarrow> bridge_chain_id \<Rightarrow> ('call, 'x) xt_chain \<Rightarrow>
    (xt_error, unit, ('call, 'x) xt_chain) outcome" where
  "bridge_transfer_native X T orig amount recipient dest_id s0 = transactional s0
     (case ensure_signed orig of None \<Rightarrow> Err BadOrigin s0
      | Some sender \<Rightarrow>
        if \<not> chain_whitelisted s0 dest_id then Err (transfer_err InvalidDestination) s0
        else if BridgeFee s0 dest_id = None then Err (transfer_err FeeOptionsMissing) s0
        else let fee = estimate_fee_in_pha s0 dest_id amount in
          if \<not> free_balance_of X sender (ledger s0) \<ge> amount + fee
          then Err (transfer_err InsufficientBalance) s0
          else andthen (with_ledger (currency_withdraw X sender fee) s0) (\<lambda>_ s.
            let s = s\<lparr>ledger := on_fee_pay X fee (ledger s)\<rparr> in
            andthen (with_ledger (currency_transfer X sender (bridge_account_id T) amount) s) (\<lambda>_ s.
            transfer_fungible dest_id (gen_pha_rid X dest_id) recipient (ucast amount) s)))"

section \<open>Settling a transfer from another chain\<close>

definition temporary_account :: "'x xt_config \<Rightarrow> account_id" where
  "temporary_account X = into_account X (at_location 0 [GeneralKey
     [98, 114, 105, 100, 103, 101, 95, 116, 114, 97, 110, 115, 102, 101, 114]])"

text \<open>Taking the amount out of the reserve, when the asset is not reserved on the source chain.\<close>

definition release_reserve :: "'x xt_config \<Rightarrow> account_id \<Rightarrow> resource_id \<Rightarrow> u128 \<Rightarrow>
    ('call, 'x) xt_chain \<Rightarrow> (xt_error, unit, ('call, 'x) xt_chain) outcome" where
  "release_reserve X bridge_account rid amount s =
     (if rid = gen_pha_rid X (get_chainid rid)
      then with_ledger (currency_withdraw X bridge_account amount) s
      else andthen (rid_to_assetid X rid s) (\<lambda>i s.
           andthen (convert_balance X amount i s) (\<lambda>asset_amount s.
           transact_asset (assets_burn_from X i (into_account X (bridge_reserve (get_chainid rid)))
             asset_amount) s)))"

definition credit_account :: "'x xt_config \<Rightarrow> resource_id \<Rightarrow> account_id \<Rightarrow> u128 \<Rightarrow>
    ('call, 'x) xt_chain \<Rightarrow> (xt_error, unit, ('call, 'x) xt_chain) outcome" where
  "credit_account X rid who amount s =
     (if rid = gen_pha_rid X (get_chainid rid)
      then Ok () (s\<lparr>ledger := deposit_creating X who amount (ledger s)\<rparr>)
      else andthen (rid_to_assetid X rid s) (\<lambda>i s.
           andthen (convert_balance X amount i s) (\<lambda>asset_amount s.
           transact_asset (assets_mint_into X i who asset_amount) s)))"

definition settle_to_dest :: "'x xt_config \<Rightarrow> multi_location \<Rightarrow> multi_location \<Rightarrow> resource_id \<Rightarrow>
    u128 \<Rightarrow> ('call, 'x) xt_chain \<Rightarrow> (xt_error, unit, ('call, 'x) xt_chain) outcome" where
  "settle_to_dest X loc dest rid amount s =
     (let forward = andthen (credit_account X rid (temporary_account X) amount s) (\<lambda>_ s.
            andthen (do_transfer_multiasset X (account_location (temporary_account X))
                       (fungible_at loc amount) dest 6000000000 s) (\<lambda>_ s.
            Ok () (xt_deposit_event (Forwarded (XTransferAsset loc) dest amount) s)))
      in case interior dest of
           [AccountId32 _ who] \<Rightarrow>
             (if parents dest = 0 then
                andthen (credit_account X rid who amount s) (\<lambda>_ s.
                Ok () (xt_deposit_event (Deposited (XTransferAsset loc) who amount) s))
              else if parents dest = 1 then forward
              else Err (transfer_err DestUnrecognized) s)
         | [Parachain _, AccountId32 _ _] \<Rightarrow>
             (if parents dest = 1 then forward else Err (transfer_err DestUnrecognized) s)
         | _ \<Rightarrow> Err (transfer_err DestUnrecognized) s)"

definition bridge_transfer :: "'x xt_config \<Rightarrow> ('call, 's) bridge_config \<Rightarrow> origin \<Rightarrow>
    bytes \<Rightarrow> u128 \<Rightarrow> resource_id \<Rightarrow> ('call, 'x) xt_chain \<Rightarrow>
    (xt_error, unit, ('call, 'x) xt_chain) outcome" where
  "bridge_transfer X T orig dest amount rid s =
     (case ensure_bridge T orig of None \<Rightarrow> Err BadOrigin s
      | Some bridge_account \<Rightarrow>
      case decode_location X dest of None \<Rightarrow> Err (transfer_err DestUnrecognized) s
      | Some dest_location \<Rightarrow>
      andthen (rid_to_location X rid s) (\<lambda>loc s.
      case location_reserve loc of None \<Rightarrow> Err (transfer_err CannotDetermineReservedLocation) s
      | Some reserve \<Rightarrow>
      andthen (if reserve \<noteq> bridge_reserve (get_chainid rid)
               then release_reserve X bridge_account rid amount s else Ok () s) (\<lambda>_ s.
      settle_to_dest X loc dest_location rid amount s)))"

end
