(* ===== verification/Xt_Runtime.thy ===== *)
theory Xt_Runtime
  imports Bridge_Transfer Bridge_Props
begin

text \<open>
  The cross-chain pallets wired together as in \<open>src/runtime/khala/src/lib.rs\<close>: a call of any of
  them is dispatched, and the proposals of the bridge are such calls, so that executing an
  approved proposal may dispatch a call that itself votes on a proposal. What a frame of the
  transactor leaves alone, every operation leaves alone.
\<close>

section \<open>Dispatch\<close>

datatype 'o xt_call =
    CallSetThreshold u32
  | CallWhitelistChain bridge_chain_id
  | CallAddRelayer account_id
  | CallRemoveRelayer account_id
  | CallAcknowledge deposit_nonce bridge_chain_id resource_id "'o xt_call"
  | CallReject deposit_nonce bridge_chain_id resource_id "'o xt_call"
  | CallEvalVoteState deposit_nonce bridge_chain_id "'o xt_call"
  | CallRegisterAsset xtransfer_asset asset_id asset_properties account_id
  | CallUnregisterAsset asset_id
  | CallSetMetadata asset_id asset_properties
  | CallEnableChainbridge asset_id u8 bool bytes
  | CallDisableChainbridge asset_id u8
  | CallUpdateFee u128 u32 bridge_chain_id
  | CallTransferAssets xtransfer_asset bridge_chain_id bytes u128
  | CallTransferNative u128 bytes bridge_chain_id
  | CallBridgeTransfer bytes u128 resource_id
  | CallXcmTransferAsset xtransfer_asset multi_location u128 u64
  | CallXcmTransferNative multi_location u128 u64
  | CallElsewhere 'o

type_synonym ('o, 'x) xt_runtime = "('o xt_call, 'x) xt_chain"

text \<open>
  What the runtime adds to the configurations of the pallets: the dispatch of the calls of all
  other pallets, which reaches only the storage outside. The field \<open>dispatch_call\<close> of the
  bridge's own configuration is set by \<open>xt_bridge\<close>.
\<close>

record ('o, 'x) xt_wiring =
  xt_pallets :: "'x xt_config"
  xt_base :: "('o xt_call, ('o, 'x) xt_runtime) bridge_config"
  dispatch_elsewhere :: "'o \<Rightarrow> origin \<Rightarrow> ('x, xt_error, unit) on_ledger"

primrec xt_dispatch :: "('o, 'x) xt_wiring \<Rightarrow> 'o xt_call \<Rightarrow> origin \<Rightarrow> ('o, 'x) xt_runtime \<Rightarrow>
    (xt_error, unit, ('o, 'x) xt_runtime) outcome" where
  "xt_dispatch W (CallSetThreshold th) = (\<lambda>orig. set_threshold (xt_base W) orig th)"
| "xt_dispatch W (CallWhitelistChain i) = (\<lambda>orig. whitelist_chain (xt_base W) orig i)"
| "xt_dispatch W (CallAddRelayer v) = (\<lambda>orig. add_relayer (xt_base W) orig v)"
| "xt_dispatch W (CallRemoveRelayer v) = (\<lambda>orig. remove_relayer (xt_base W) orig v)"
| "xt_dispatch W (CallAcknowledge n c r p) = (\<lambda>orig. acknowledge_proposal
     ((xt_base W)\<lparr>dispatch_call := \<lambda>_. xt_dispatch W p\<rparr>) orig n c r p)"
| "xt_dispatch W (CallReject n c r p) = (\<lambda>orig. reject_proposal
     ((xt_base W)\<lparr>dispatch_call := \<lambda>_. xt_dispatch W p\<rparr>) orig n c r p)"
| "xt_dispatch W (CallEvalVoteState n c p) = (\<lambda>orig. eval_vote_state
     ((xt_base W)\<lparr>dispatch_call := \<lambda>_. xt_dispatch W p\<rparr>) orig n c p)"
| "xt_dispatch W (CallRegisterAsset a i ps owner) = (\<lambda>orig. force_register_asset (xt_pallets W) orig a i ps owner)"
| "xt_dispatch W (CallUnregisterAsset i) = (\<lambda>orig. force_unregister_asset (xt_pallets W) orig i)"
| "xt_dispatch W (CallSetMetadata i ps) = (\<lambda>orig. wrapper_set_metadata (xt_pallets W) orig i ps)"
| "xt_dispatch W (CallEnableChainbridge i c mintable md) =
     (\<lambda>orig. force_enable_chainbridge (xt_pallets W) orig i c mintable md)"
| "xt_dispatch W (CallDisableChainbridge i c) = (\<lambda>orig. force_disable_chainbridge (xt_pallets W) orig i c)"
| "xt_dispatch W (CallUpdateFee m k d) = (\<lambda>orig. update_fee (xt_base W) orig m k d)"
| "xt_dispatch W (CallTransferAssets a d to amount) =
     (\<lambda>orig. transfer_assets (xt_pallets W) orig a d to amount)"
| "xt_dispatch W (CallTransferNative amount to d) =
     (\<lambda>orig. bridge_transfer_native (xt_pallets W) (xt_base W) orig amount to d)"
| "xt_dispatch W (CallBridgeTransfer dest amount rid) =
     (\<lambda>orig. bridge_transfer (xt_pallets W) (xt_base W) orig dest amount rid)"
| "xt_dispatch W (CallXcmTransferAsset a dest amount w) =
     (\<lambda>orig. xcm_transfer_asset (xt_pallets W) orig a dest amount w)"
| "xt_dispatch W (CallXcmTransferNative dest amount w) =
     (\<lambda>orig. xcm_transfer_native (xt_pallets W) orig dest amount w)"
| "xt_dispatch W (CallElsewhere c) = (\<lambda>orig. with_ledger (dispatch_elsewhere W c orig))"

definition xt_bridge :: "('o, 'x) xt_wiring \<Rightarrow> ('o xt_call, ('o, 'x) xt_runtime) bridge_config" where
  "xt_bridge W = (xt_base W)\<lparr>dispatch_call := xt_dispatch W\<rparr>"

lemma xt_bridge_simps [simp]:
  "dispatch_call (xt_bridge W) = xt_dispatch W"
  "bridge_account_id (xt_bridge W) = bridge_account_id (xt_base W)"
  "committee_origin (xt_bridge W) = committee_origin (xt_base W)"
  "BridgeChainId (xt_bridge W) = BridgeChainId (xt_base W)"
  "ProposalLifetime (xt_bridge W) = ProposalLifetime (xt_base W)"
  by (simp_all add: xt_bridge_def)

text \<open>Voting on a proposal dispatches no call but the proposal's own.\<close>

lemma resolve_dispatches_own:
  "try_resolve_proposal (B\<lparr>dispatch_call := \<lambda>_. g p\<rparr>) n c p s = try_resolve_proposal (B\<lparr>dispatch_call := g\<rparr>) n c p s"
  by (simp add: try_resolve_proposal_def finalize_execution_def Let_def
      split: option.split proposal_status.split prod.split)

lemma commit_vote_dispatch: "commit_vote (B\<lparr>dispatch_call := g\<rparr>) who n c p b s = commit_vote B who n c p b s"
  by (simp add: commit_vote_def Let_def split: option.split)

lemma vote_dispatches_own:
  "acknowledge_proposal (B\<lparr>dispatch_call := \<lambda>_. g p\<rparr>) orig n c r p = acknowledge_proposal (B\<lparr>dispatch_call := g\<rparr>) orig n c r p"
  "reject_proposal (B\<lparr>dispatch_call := \<lambda>_. g p\<rparr>) orig n c r p = reject_proposal (B\<lparr>dispatch_call := g\<rparr>) orig n c r p"
  "eval_vote_state (B\<lparr>dispatch_call := \<lambda>_. g p\<rparr>) orig n c p = eval_vote_state (B\<lparr>dispatch_call := g\<rparr>) orig n c p"
  by (intro ext; simp add: acknowledge_proposal_def reject_proposal_def eval_vote_state_def vote_for_def
      vote_against_def resolve_dispatches_own commit_vote_dispatch split: option.split)+

lemma xt_dispatch_votes:
  "xt_dispatch W (CallAcknowledge n c r p) orig = acknowledge_proposal (xt_bridge W) orig n c r p"
  "xt_dispatch W (CallReject n c r p) orig = reject_proposal (xt_bridge W) orig n c r p"
  "xt_dispatch W (CallEvalVoteState n c p) orig = eval_vote_state (xt_bridge W) orig n c p"
  by (simp_all add: vote_dispatches_own [where g = "xt_dispatch W"] xt_bridge_def)

section \<open>Operations of the chain\<close>

text \<open>
  A step of the chain: a dispatched call, the start of a block, an XCM message that arrived and is
  run by the executor, or a step of a pallet outside.
\<close>

datatype ('o, 'x) xt_op =
    Dispatch "'o xt_call" origin
  | BlockStart block_number
  | IncomingXcm "'x xcm_run"
  | Outside "'x \<Rightarrow> 'x"

fun xt_exec :: "('o, 'x) xt_wiring \<Rightarrow> ('o, 'x) xt_op \<Rightarrow> ('o, 'x) xt_runtime \<Rightarrow>
    (xt_error, unit, ('o, 'x) xt_runtime) outcome" where
  "xt_exec W (Dispatch c orig) s = xt_dispatch W c orig s"
| "xt_exec W (BlockStart n) s = Ok () (bridge_on_initialize (s\<lparr>block_number := n\<rparr>))"
| "xt_exec W (IncomingXcm r) s = andthen (run_xcm (xt_pallets W) r s) (\<lambda>_ s. Ok () s)"
| "xt_exec W (Outside f) s = Ok () (s\<lparr>ledger := f (ledger s)\<rparr>)"

inductive xt_reaches :: "('o, 'x) xt_wiring \<Rightarrow> ('o, 'x) xt_runtime \<Rightarrow> ('o, 'x) xt_runtime \<Rightarrow> bool"
  for W where
  xt_start: "xt_reaches W s s"
| xt_step: "xt_reaches W s t \<Longrightarrow> left_state (xt_exec W op t) = Some u \<Longrightarrow> xt_reaches W s u"

lemma xt_reaches_keeps:
  assumes "xt_reaches W s t" and "\<And>s op. steps R s (xt_exec W op s)"
    and "\<And>s. R s s" and "\<And>s t u. R s t \<Longrightarrow> R t u \<Longrightarrow> R s u"
  shows "R s t"
  using assms(1)
proof (induction rule: xt_reaches.induct)
  case (xt_step s t op u)
  then show ?case using stepsD [OF assms(2)] assms(4) by blast
qed (rule assms(3))

section \<open>Frames of the transactor\<close>

lemma steps_map_err [simp]: "steps R s (map_err g r) = steps R s r"
  by (cases r) simp_all

lemma steps_transactional:
  "R s s \<Longrightarrow> steps R s r \<Longrightarrow> steps R s (transactional s r)"
  by (cases r) simp_all

locale transactor_frame =
  fixes R :: "('call, 'x) xt_chain \<Rightarrow> ('call, 'x) xt_chain \<Rightarrow> bool"
  assumes same: "R s s"
    and trans: "R s t \<Longrightarrow> R t u \<Longrightarrow> R s u"
    and ledger_free: "R s (s\<lparr>ledger := l\<rparr>)"
    and log_free: "R s (xt_deposit_event e s)"
    and emit: "steps R s (transfer_fungible d rid to amount s)"
begin

lemma st_andthen:
  "steps R s r \<Longrightarrow> (\<And>x t. r = Ok x t \<Longrightarrow> steps R t (f x t)) \<Longrightarrow> steps R s (andthen r f)"
  using steps_andthen [where R = R] trans by blast

lemma st_transactional: "steps R s r \<Longrightarrow> steps R s (transactional s r)"
  using steps_transactional [where R = R] same by blast

lemma with_ledger_R: "steps R s (with_ledger f s)"
  by (cases "f (ledger s)") (simp_all add: with_ledger_def ledger_free)

lemma get_fee_R: "steps R s (get_fee X d a s)"
  by (auto simp: get_fee_def convert_fee_from_pha_def Let_def same
      split: xcm_asset_id.split fungibility.split option.split)

lemma adapter_deposit_R: "steps R s (adapter_deposit X a loc s)"
  by (simp add: adapter_deposit_def with_ledger_R)

lemma forward_to_bridge_R: "steps R s (forward_to_bridge X a k d to s)"
  unfolding forward_to_bridge_def Let_def
  by (auto intro!: st_andthen get_fee_R simp: adapter_deposit_R emit same
      split: fungibility.split xcm_asset_id.split option.split)

lemma deposit_asset_R: "steps R s (deposit_asset X a who s)"
  unfolding deposit_asset_def
  by (rule st_andthen)
    (auto simp: forward_to_bridge_R adapter_deposit_R log_free split: list.split junction.split)

lemma withdraw_asset_R: "steps R s (withdraw_asset X a who s)"
  unfolding withdraw_asset_def by (rule st_andthen) (auto simp: with_ledger_R log_free)

lemma check_asset_R: "steps R s (check_asset X op loc a s)"
  by (simp add: check_asset_def with_ledger_R)

lemma st_trans: "R s t \<Longrightarrow> steps R t r \<Longrightarrow> steps R s r"
  unfolding steps_def using trans by blast

lemma run_xcm_R: "steps R s (run_xcm X r s)"
proof (induction r arbitrary: s)
  case (RunDeposit a who k)
  have k: "steps R t (run_xcm X (k e) t)" for e t by (rule RunDeposit) simp
  show ?case using deposit_asset_R [of s X a who]
    by (cases "deposit_asset X a who s") (auto intro: st_trans [OF _ k])
next
  case (RunWithdraw a who k)
  have k: "steps R t (run_xcm X (k e) t)" for e t by (rule RunWithdraw) simp
  show ?case using withdraw_asset_R [of s X a who]
    by (cases "withdraw_asset X a who s") (auto intro: st_trans [OF _ k])
next
  case (RunCheck op loc a k)
  have k: "steps R t (run_xcm X (k e) t)" for e t by (rule RunCheck) simp
  show ?case using check_asset_R [of s X op loc a]
    by (cases "check_asset X op loc a s") (auto intro: st_trans [OF _ k])
next
  case (RunOutside f)
  obtain l r where f: "f (ledger s) = (l, r)" by fastforce
  have "f (ledger s) \<in> range f" by simp
  then have "steps R (s\<lparr>ledger := l\<rparr>) (run_xcm X r (s\<lparr>ledger := l\<rparr>))"
    by (rule RunOutside) (simp add: f)
  then show ?case using st_trans [OF ledger_free [of s l]] by (simp add: f)
qed (simp add: same)

lemma do_transfer_R: "steps R s (do_transfer_multiasset X orig a dest w s)"
  unfolding do_transfer_multiasset_def session_execute_def Let_def
  by (auto intro!: st_andthen simp: run_xcm_R same log_free
      split: list.split junction.split option.split sum.split)

lemma xcm_transfers_R:
  "steps R s (xcm_transfer_asset X orig asset dest amount w s)"
  "steps R s (xcm_transfer_native X orig dest amount w s)"
  by (auto simp: xcm_transfer_asset_def xcm_transfer_native_def do_transfer_R same
      intro!: st_transactional split: option.split)

lemma convert_balance_R: "steps R s (convert_balance X amount i s)"
  by (simp add: convert_balance_def same split: option.split)

lemma transact_asset_R: "steps R s (transact_asset f s)"
  by (simp add: transact_asset_def with_ledger_R)

lemma rid_R: "steps R s (rid_to_assetid X rid s)" "steps R s (rid_to_location X rid s)"
  by (auto simp: rid_to_assetid_def rid_to_location_def same split: option.split)

lemmas parts_R = convert_balance_R transact_asset_R rid_R get_fee_R emit with_ledger_R do_transfer_R

lemma settle_outgoing_R: "steps R s (settle_outgoing X sender i reserve rid d to amount fee s)"
  unfolding settle_outgoing_def Let_def by (intro st_andthen) (auto simp: parts_R)

lemma transfer_assets_R: "steps R s (transfer_assets X orig asset d to amount s)"
  unfolding transfer_assets_def Let_def
  by (rule st_transactional)
    (auto intro!: st_andthen simp: parts_R settle_outgoing_R same split: option.split outcome.split)

lemma bridge_transfer_native_R: "steps R s (bridge_transfer_native X T orig amount to d s)"
proof -
  have fee: "steps R s (andthen (with_ledger f (s\<lparr>ledger := l\<rparr>)) g)"
    if "\<And>t. steps R t (g () t)" for f l and s and g :: "unit \<Rightarrow> _ \<Rightarrow> (xt_error, unit, _) outcome"
  proof -
    have "steps R (s\<lparr>ledger := l\<rparr>) (andthen (with_ledger f (s\<lparr>ledger := l\<rparr>)) g)"
      by (rule st_andthen) (auto simp: with_ledger_R that)
    then show ?thesis using ledger_free [of s l] by (auto simp: steps_def intro: trans)
  qed
  show ?thesis unfolding bridge_transfer_native_def Let_def
    by (rule st_transactional)
      (auto intro!: st_andthen fee simp: parts_R same split: option.split)
qed

lemma credit_account_R: "steps R s (credit_account X rid who amount s)"
  unfolding credit_account_def by (auto intro!: st_andthen simp: parts_R ledger_free)

lemma release_reserve_R: "steps R s (release_reserve X acc rid amount s)"
  unfolding release_reserve_def by (auto intro!: st_andthen simp: parts_R)

lemma settle_to_dest_R: "steps R s (settle_to_dest X loc dest rid amount s)"
  unfolding settle_to_dest_def Let_def
  by (auto intro!: st_andthen simp: parts_R credit_account_R same log_free
      split: list.split junction.split)

lemma bridge_transfer_R: "steps R s (bridge_transfer X T orig dest amount rid s)"
  unfolding bridge_transfer_def
  by (auto intro!: st_andthen simp: parts_R release_reserve_R settle_to_dest_R same split: option.split)

end

end
