(* ===== verification/Xt_Frame.thy ===== *)
theory Xt_Frame
  imports Xt_Runtime
begin

text \<open>
  What holds across every operation of the wired cross-chain pallets. \<open>dispatch_frame\<close> carries a
  relation through the dispatch of calls, which is recursive in the proposals, and \<open>bridge_blind\<close>
  discharges its assumptions for the relations that do not look at the bridge's storage. The
  interpretations are the relations the claims rest on; with them the wired runtime meets the
  contracts \<open>bridge_host\<close> and \<open>bridge_host_numbered\<close> of the bridge pallet.
\<close>

section \<open>Relations across a dispatch\<close>

text \<open>The configuration of the bridge while one proposal with the dispatch \<open>g\<close> is voted on.\<close>

abbreviation dispatching :: "('call, 's) bridge_config \<Rightarrow> (origin \<Rightarrow> 's \<Rightarrow> (xt_error, unit, 's) outcome) \<Rightarrow>
    ('call, 's) bridge_config" where
  "dispatching T g \<equiv> T\<lparr>dispatch_call := \<lambda>_. g\<rparr>"

locale dispatch_frame = transactor_frame R
  for R :: "('o, 'x) xt_runtime \<Rightarrow> ('o, 'x) xt_runtime \<Rightarrow> bool" +
  fixes W :: "('o, 'x) xt_wiring"
  assumes admin: "steps R s (set_relayer_threshold th s)" "steps R s (whitelist T i s)"
      "steps R s (register_relayer a s)" "steps R s (unregister_relayer a s)"
    and block: "R s (bridge_on_initialize (s\<lparr>block_number := n\<rparr>))"
    and votes: "(\<And>t. steps R t (g (Signed (bridge_account_id T)) t)) \<Longrightarrow>
        steps R s (acknowledge_proposal (dispatching T g) orig nn c r p s)"
      "(\<And>t. steps R t (g (Signed (bridge_account_id T)) t)) \<Longrightarrow>
        steps R s (reject_proposal (dispatching T g) orig nn c r p s)"
      "(\<And>t. steps R t (g (Signed (bridge_account_id T)) t)) \<Longrightarrow>
        steps R s (eval_vote_state (dispatching T g) orig nn c p s)"
    and registry: "steps R s (force_register_asset (xt_pallets W) orig asset k ps owner s)"
      "steps R s (force_unregister_asset (xt_pallets W) orig k s)"
      "steps R s (wrapper_set_metadata (xt_pallets W) orig k ps s)"
      "steps R s (force_enable_chainbridge (xt_pallets W) orig k ch mintable md s)"
      "steps R s (force_disable_chainbridge (xt_pallets W) orig k ch s)"
    and fee: "steps R s (update_fee T orig m sc d s)"
begin

lemma dispatch_R: "steps R s (xt_dispatch W call orig s)"
proof (induction call arbitrary: orig s)
  case (CallAcknowledge n c r p)
  show ?case by (simp add: votes(1) CallAcknowledge)
next
  case (CallReject n c r p)
  show ?case by (simp add: votes(2) CallReject)
next
  case (CallEvalVoteState n c p)
  show ?case by (simp add: votes(3) CallEvalVoteState)
qed (simp_all add: set_threshold_def whitelist_chain_def add_relayer_def remove_relayer_def admin
    registry fee transfer_assets_R bridge_transfer_native_R bridge_transfer_R xcm_transfers_R
    with_ledger_R same)

lemma exec_R: "steps R s (xt_exec W op s)"
  by (cases op) (auto intro!: st_andthen simp: dispatch_R block run_xcm_R ledger_free same)

lemma reaches_R: "xt_reaches W s t \<Longrightarrow> R s t"
  by (erule xt_reaches_keeps) (rule exec_R, rule same, erule (1) trans)

end

section \<open>Relations that do not look at the bridge\<close>

locale bridge_blind =
  fixes R :: "('o, 'x) xt_runtime \<Rightarrow> ('o, 'x) xt_runtime \<Rightarrow> bool"
  assumes blind_same: "R s s"
    and blind_trans: "R s t \<Longrightarrow> R t u \<Longrightarrow> R s u"
    and blind: "R s (s\<lparr>ChainNonces := a\<rparr>)" "R s (s\<lparr>RelayerThreshold := b\<rparr>)" "R s (s\<lparr>Relayers := c\<rparr>)"
      "R s (s\<lparr>RelayerCount := d\<rparr>)" "R s (s\<lparr>Votes := e\<rparr>)" "R s (s\<lparr>BridgeEvents := f\<rparr>)"
      "R s (s\<lparr>block_number := g\<rparr>)" "R s (s\<lparr>bridge_log := h\<rparr>)" "R s (s\<lparr>ledger := l\<rparr>)"
      "R s (s\<lparr>xt_log := k\<rparr>)"
begin

lemma st: "R s t \<Longrightarrow> steps R t r \<Longrightarrow> steps R s r"
  unfolding steps_def using blind_trans by blast

lemma deposit: "R s (bridge_deposit_event ev s)" "R s (xt_deposit_event ev' s)"
  by (simp_all add: bridge_deposit_event_def xt_deposit_event_def blind)

lemma then_deposit: "R s t \<Longrightarrow> R s (bridge_deposit_event ev t)"
  using blind_trans [OF _ deposit(1)] by blast

lemma admin:
  "steps R s (set_relayer_threshold th s)" "steps R s (whitelist T i s)"
  "steps R s (register_relayer a s)" "steps R s (unregister_relayer a s)"
  using blind_trans [OF blind(3) blind(4)]
  by (auto simp: set_relayer_threshold_def whitelist_def register_relayer_def unregister_relayer_def
      blind_same blind intro!: then_deposit)

lemma block: "R s (bridge_on_initialize (s\<lparr>block_number := n\<rparr>))"
  using blind_trans [OF blind(7) blind(6)] by (simp add: bridge_on_initialize_def)

lemma emit: "steps R s (transfer_fungible d rid to amount s)"
  using blind_trans [OF blind(1) blind(6)]
  by (auto simp: transfer_fungible_def emit_transfer_def bump_nonce_def Let_def blind_same
      intro!: then_deposit)

lemma st_andthen:
  "steps R s r \<Longrightarrow> (\<And>x t. r = Ok x t \<Longrightarrow> steps R t (f x t)) \<Longrightarrow> steps R s (andthen r f)"
  using steps_andthen [where R = R] blind_trans by blast

lemma commit: "steps R s (commit_vote T who n c p fav s)"
  by (auto simp: commit_vote_def Let_def blind_same
      intro!: blind_trans [OF deposit(1) blind(5)] split: option.split)

lemma resolve:
  assumes g: "\<And>t. steps R t (g (Signed (bridge_account_id T)) t)"
  shows "steps R s (try_resolve_proposal (dispatching T g) n c p s)"
proof -
  have fin: "steps R t (finalize_execution (dispatching T g) c n p t)" for t
    unfolding finalize_execution_def
    by (rule st_andthen) (auto simp: deposit intro: st [OF deposit(1) g])
  have "steps R s (finalize_execution (dispatching T g) c n p (s\<lparr>Votes := v\<rparr>))" for v
    by (rule st [OF blind(5) fin])
  then show ?thesis
    by (auto simp: try_resolve_proposal_def cancel_execution_def Let_def blind_same blind
        intro!: then_deposit split: option.split prod.split proposal_status.split)
qed

lemma votes:
  assumes g: "\<And>t. steps R t (g (Signed (bridge_account_id T)) t)"
  shows "steps R s (acknowledge_proposal (dispatching T g) orig n c r p s)"
    "steps R s (reject_proposal (dispatching T g) orig n c r p s)"
    "steps R s (eval_vote_state (dispatching T g) orig n c p s)"
  by (auto simp: acknowledge_proposal_def reject_proposal_def eval_vote_state_def vote_for_def
      vote_against_def blind_same resolve [where T = T and g = g, OF g] commit intro!: st_andthen split: option.split)

end

section \<open>Relations that do not look at the asset wrapper\<close>

locale wrapper_blind =
  fixes R :: "('call, 'x) xt_chain \<Rightarrow> ('call, 'x) xt_chain \<Rightarrow> bool"
  assumes free_same: "R s s"
    and free_trans: "R s t \<Longrightarrow> R t u \<Longrightarrow> R s u"
    and free: "R s (s\<lparr>IdByAssets := a\<rparr>)" "R s (s\<lparr>AssetByIds := b\<rparr>)" "R s (s\<lparr>AssetByResourceIds := c\<rparr>)"
      "R s (s\<lparr>RegistryInfoByIds := d\<rparr>)" "R s (s\<lparr>ledger := l\<rparr>)" "R s (s\<lparr>xt_log := k\<rparr>)"
begin

lemma add_free:
  "R s t \<Longrightarrow> R s (t\<lparr>IdByAssets := a\<rparr>)" "R s t \<Longrightarrow> R s (t\<lparr>AssetByIds := b\<rparr>)"
  "R s t \<Longrightarrow> R s (t\<lparr>AssetByResourceIds := c\<rparr>)" "R s t \<Longrightarrow> R s (t\<lparr>RegistryInfoByIds := d\<rparr>)"
  "R s t \<Longrightarrow> R s (xt_deposit_event e t)"
  using free_trans free unfolding xt_deposit_event_def by blast+

lemma with_ledger_free: "steps R s (with_ledger f s)"
  by (cases "f (ledger s)") (simp_all add: with_ledger_def free)

lemma st_andthen_free:
  "steps R s r \<Longrightarrow> (\<And>x t. r = Ok x t \<Longrightarrow> steps R t (f x t)) \<Longrightarrow> steps R s (andthen r f)"
  using steps_andthen [where R = R] free_trans by blast

lemma st_free: "R s t \<Longrightarrow> steps R t r \<Longrightarrow> steps R s r"
  unfolding steps_def using free_trans by blast

lemma st_transactional_free: "steps R s r \<Longrightarrow> steps R s (transactional s r)"
  using steps_transactional [where R = R] free_same by blast

lemma then_ledger_free:
  assumes "R s t" "\<And>u. R s u \<Longrightarrow> R s (k u)"
  shows "steps R s (andthen (with_ledger f t) (\<lambda>_ u. Ok () (k u)))"
proof (cases "f (ledger t)")
  case (Ok x l)
  have "R s (t\<lparr>ledger := l\<rparr>)" using free_trans [OF assms(1) free(5)] .
  then show ?thesis by (simp add: with_ledger_def Ok assms(2))
next
  case (Err e l)
  have "R s (t\<lparr>ledger := l\<rparr>)" using free_trans [OF assms(1) free(5)] .
  then show ?thesis by (simp add: with_ledger_def Err)
qed (simp add: with_ledger_def)

lemma registry:
  "steps R s (force_register_asset X orig asset k ps owner s)"
  "steps R s (force_unregister_asset X orig k s)"
  "steps R s (wrapper_set_metadata X orig k ps s)"
  "steps R s (force_enable_chainbridge X orig k ch mintable md s)"
  "steps R s (force_disable_chainbridge X orig k ch s)"
proof -
  have plain: "R s t \<Longrightarrow> steps R s (Ok () t)" for s t by simp
  show "steps R s (force_register_asset X orig asset k ps owner s)"
    unfolding force_register_asset_def Let_def
    by (rule st_transactional_free)
      (auto simp: free_same with_ledger_free intro!: st_andthen_free then_ledger_free add_free)
  show "steps R s (force_unregister_asset X orig k s)"
    unfolding force_unregister_asset_def Let_def
    by (rule st_transactional_free) (auto simp: free_same intro!: add_free split: option.split)
  have "steps R s (with_ledger f (s\<lparr>RegistryInfoByIds := m\<rparr>))" for f m
    by (rule st_free [OF free(4) with_ledger_free])
  then show "steps R s (wrapper_set_metadata X orig k ps s)"
    unfolding wrapper_set_metadata_def
    by (intro st_transactional_free) (auto simp: free_same split: option.split)
  show "steps R s (force_enable_chainbridge X orig k ch mintable md s)"
    unfolding force_enable_chainbridge_def Let_def
    by (rule st_transactional_free) (auto simp: free_same intro!: add_free split: option.split)
  show "steps R s (force_disable_chainbridge X orig k ch s)"
    unfolding force_disable_chainbridge_def Let_def
    by (rule st_transactional_free) (auto simp: free_same intro!: add_free split: option.split)
qed

end

section \<open>The bridge in the wired runtime\<close>

definition bridge_rel :: "('call, 'm) bridge_st_scheme \<Rightarrow> ('call, 'm) bridge_st_scheme \<Rightarrow> bool" where
  "bridge_rel s t \<longleftrightarrow> (bridge_inv s \<longrightarrow> bridge_inv t \<and> votes_extend s t)"

definition numbered_rel :: "('call, 'm) bridge_st_scheme \<Rightarrow> ('call, 'm) bridge_st_scheme \<Rightarrow> bool" where
  "numbered_rel s t \<longleftrightarrow> (numbered s \<longrightarrow> numbered t)"

lemma keeps_bridge_steps: "keeps_bridge s r = steps bridge_rel s r"
  by (auto simp: keeps_bridge_def steps_def bridge_rel_def)

lemma keeps_numbered_steps: "keeps_numbered s r = steps numbered_rel s r"
  by (auto simp: keeps_numbered_def steps_def numbered_rel_def)

lemma bridge_rel_same: "Votes t = Votes s \<Longrightarrow> Relayers t = Relayers s \<Longrightarrow> RelayerCount t = RelayerCount s \<Longrightarrow>
    RelayerThreshold t = RelayerThreshold s \<Longrightarrow> bridge_rel s t"
  unfolding bridge_rel_def using bridge_inv_cong votes_extend_same by blast

lemma bridge_rel_trans: "bridge_rel s t \<Longrightarrow> bridge_rel t u \<Longrightarrow> bridge_rel s u"
  unfolding bridge_rel_def using votes_extend_trans by blast

lemma numbered_rel_same: "ChainNonces t = ChainNonces s \<Longrightarrow> bridge_log t = bridge_log s \<Longrightarrow> numbered_rel s t"
  unfolding numbered_rel_def using numbered_same by blast

lemma numbered_rel_trans: "numbered_rel s t \<Longrightarrow> numbered_rel t u \<Longrightarrow> numbered_rel s u"
  by (simp add: numbered_rel_def)

lemma dispatching_host:
  assumes "\<And>t. steps bridge_rel t (g (Signed (bridge_account_id T)) t)"
  shows "bridge_host (dispatching T g)"
  by unfold_locales (simp add: keeps_bridge_steps assms)

lemma dispatching_numbered:
  assumes "\<And>t. steps bridge_rel t (g (Signed (bridge_account_id T)) t)"
    "\<And>t. steps numbered_rel t (g (Signed (bridge_account_id T)) t)"
  shows "bridge_host_numbered (dispatching T g)"
proof (rule bridge_host_numbered.intro)
  show "bridge_host_numbered_axioms (dispatching T g)"
    by unfold_locales (simp add: keeps_numbered_steps assms)
qed (rule dispatching_host, rule assms)

interpretation bw: wrapper_blind bridge_rel
  by unfold_locales (erule (1) bridge_rel_trans | rule bridge_rel_same; simp)+

interpretation bf: dispatch_frame bridge_rel W for W :: "('o, 'x) xt_wiring"
proof (unfold_locales, goal_cases)
  case (5 s d rid to amount)
  then show ?case using emit_transfer_keeps
    by (simp add: keeps_bridge_steps [symmetric] transfer_fungible_def)
next
  case (11 g T s orig nn c r p)
  then show ?case using bridge_host.bridge_exec_keeps [OF dispatching_host, of g T s "Acknowledge orig nn c r p"]
    by (simp add: keeps_bridge_steps)
next
  case (12 g T s orig nn c r p)
  then show ?case using bridge_host.bridge_exec_keeps [OF dispatching_host, of g T s "Reject orig nn c r p"]
    by (simp add: keeps_bridge_steps)
next
  case (13 g T s orig nn c p)
  then show ?case using bridge_host.bridge_exec_keeps [OF dispatching_host, of g T s "EvalVoteState orig nn c p"]
    by (simp add: keeps_bridge_steps)
next
  case (19 s T orig m sc d)
  then show ?case
    by (auto simp: update_fee_def xt_deposit_event_def intro!: bridge_rel_same)
qed (erule (1) bridge_rel_trans | rule bw.registry
    | simp add: keeps_bridge_steps [symmetric] set_relayer_threshold_keeps whitelist_keeps
        register_relayer_keeps unregister_relayer_keeps
    | rule bridge_rel_same; simp add: xt_deposit_event_def bridge_on_initialize_def)+

interpretation xb: bridge_host "xt_bridge W" for W :: "('o, 'x) xt_wiring"
  by unfold_locales (simp add: keeps_bridge_steps bf.dispatch_R)

interpretation nw: wrapper_blind numbered_rel
  by unfold_locales (erule (1) numbered_rel_trans | rule numbered_rel_same; simp)+

text \<open>
  Dispatching inside a vote must keep the bridge's books too, so the relation for the numbering
  of the transfers carries both.
\<close>

definition numbered_books :: "('call, 'm) bridge_st_scheme \<Rightarrow> ('call, 'm) bridge_st_scheme \<Rightarrow> bool" where
  "numbered_books s t \<longleftrightarrow> bridge_rel s t \<and> numbered_rel s t"

lemma numbered_books_steps:
  "steps numbered_books s r \<longleftrightarrow> steps bridge_rel s r \<and> steps numbered_rel s r"
  by (auto simp: steps_def numbered_books_def)

lemma numbered_books_trans: "numbered_books s t \<Longrightarrow> numbered_books t u \<Longrightarrow> numbered_books s u"
  unfolding numbered_books_def using bridge_rel_trans numbered_rel_trans by blast

interpretation nf: dispatch_frame numbered_books W for W :: "('o, 'x) xt_wiring"
proof (unfold_locales, goal_cases)
  case (5 s d rid to amount)
  then show ?case using emit_transfer_numbered [of "\<lambda>n. FungibleTransfer d n rid amount to" d s] bf.emit
    by (simp add: numbered_books_steps keeps_numbered_steps [symmetric] transfer_fungible_def)
next
  case (11 g T s orig nn c r p)
  then show ?case
    using bridge_host_numbered.bridge_exec_numbered [OF dispatching_numbered, of g T s "Acknowledge orig nn c r p"]
      bf.votes(1) [of g T]
    by (simp add: numbered_books_steps keeps_numbered_steps)
next
  case (12 g T s orig nn c r p)
  then show ?case
    using bridge_host_numbered.bridge_exec_numbered [OF dispatching_numbered, of g T s "Reject orig nn c r p"]
      bf.votes(2) [of g T]
    by (simp add: numbered_books_steps keeps_numbered_steps)
next
  case (13 g T s orig nn c p)
  then show ?case
    using bridge_host_numbered.bridge_exec_numbered [OF dispatching_numbered, of g T s "EvalVoteState orig nn c p"]
      bf.votes(3) [of g T]
    by (simp add: numbered_books_steps keeps_numbered_steps)
next
  case (19 s T orig m sc d)
  have "numbered_rel s (s\<lparr>BridgeFee := f, xt_log := k\<rparr>)" for f k by (rule numbered_rel_same) simp_all
  then have "steps numbered_rel s (update_fee T orig m sc d s)"
    by (auto simp: update_fee_def xt_deposit_event_def nw.free_same)
  then show ?case using bf.fee by (simp add: numbered_books_steps)
next
  case (10 s n)
  have "numbered_rel s (bridge_on_initialize (s\<lparr>block_number := n\<rparr>))"
    by (rule numbered_rel_same) (simp_all add: bridge_on_initialize_def)
  then show ?case using bf.block by (simp add: numbered_books_def)
qed (erule (1) numbered_books_trans | (simp only: numbered_books_steps bf.registry nw.registry; fail)
    | simp add: numbered_books_steps numbered_books_def bf.same bf.ledger_free bf.log_free bf.admin
        nw.free_same nw.free nw.add_free keeps_numbered_steps [symmetric]
        admin_numbered whitelist_numbered)+

lemma dispatch_numbered: "steps numbered_rel s (xt_dispatch W c orig s)"
  using nf.dispatch_R [of s W c orig] by (simp only: numbered_books_steps)

interpretation xn: bridge_host_numbered "xt_bridge W" for W :: "('o, 'x) xt_wiring"
  by unfold_locales (simp add: keeps_numbered_steps dispatch_numbered)

lemma xt_reaches_bridge: "xt_reaches W s t \<Longrightarrow> bridge_inv s \<Longrightarrow> bridge_inv t \<and> votes_extend s t"
  using bf.reaches_R by (auto simp: bridge_rel_def)

lemma xt_reaches_numbered: "xt_reaches W s t \<Longrightarrow> numbered s \<Longrightarrow> numbered t"
  using nf.reaches_R by (auto simp: numbered_books_def numbered_rel_def)

section \<open>The fee options\<close>

definition fees_ok :: "('call, 'x) xt_chain \<Rightarrow> bool" where
  "fees_ok s \<longleftrightarrow> (\<forall>d m k. BridgeFee s d = Some (m, k) \<longrightarrow> k \<le> 1000)"

definition fees_rel :: "('call, 'x) xt_chain \<Rightarrow> ('call, 'x) xt_chain \<Rightarrow> bool" where
  "fees_rel s t \<longleftrightarrow> (fees_ok s \<longrightarrow> fees_ok t)"

lemma fees_rel_same: "BridgeFee t = BridgeFee s \<Longrightarrow> fees_rel s t"
  by (simp add: fees_rel_def fees_ok_def)

lemma fees_rel_trans: "fees_rel s t \<Longrightarrow> fees_rel t u \<Longrightarrow> fees_rel s u"
  by (simp add: fees_rel_def)

interpretation fb: bridge_blind fees_rel
  by unfold_locales (erule (1) fees_rel_trans | rule fees_rel_same; simp)+

interpretation fw: wrapper_blind fees_rel
  by unfold_locales (erule (1) fees_rel_trans | rule fees_rel_same; simp)+

interpretation ff: dispatch_frame fees_rel W for W :: "('o, 'x) xt_wiring"
proof (unfold_locales, goal_cases)
  case (19 s T orig m sc d)
  then show ?case
    by (auto simp: update_fee_def xt_deposit_event_def fees_rel_def fees_ok_def)
qed (erule (1) fees_rel_trans | rule fb.blind_same fb.blind fb.deposit fb.emit fb.admin fb.block
    fb.votes fw.registry | assumption)+

lemma xt_reaches_fees: "xt_reaches W s t \<Longrightarrow> fees_ok s \<Longrightarrow> fees_ok t"
  using ff.reaches_R by (auto simp: fees_rel_def)

end
