(* ===== verification/Xt_Props.thy ===== *)
theory Xt_Props
  imports Xt_Frame
begin

text \<open>
  Correctness of the asset registry and of the amounts that cross the bridge: the four maps of the
  wrapper agree with each other in every reachable storage, an asset that leaves is put where a
  returning one is taken from, and the conversions of decimals lose what the theorems say and no
  more.
\<close>

section \<open>The maps of the asset wrapper\<close>

text \<open>Every resource identifier is listed by the registry entry of the asset it stands for.\<close>

definition lists_rid :: "'x xt_config \<Rightarrow> xtransfer_asset \<Rightarrow> asset_registry_info \<Rightarrow> resource_id \<Rightarrow> bool" where
  "lists_rid X asset info rid \<longleftrightarrow> (\<exists>c m md.
     \<lparr>xb_config = ChainBridge c rid (into_account X (bridge_reserve c)) m, xb_metadata = md\<rparr>
       \<in> set (ri_enabled_bridges info) \<and> rid = into_rid X asset c)"

definition describes :: "asset_registry_info \<Rightarrow> xtransfer_asset \<Rightarrow> bool" where
  "describes info asset \<longleftrightarrow> ri_location info = asset_location asset \<and> ri_reserve_location info = asset_reserve asset"

definition wrapper_inv :: "'x xt_config \<Rightarrow> ('call, 'x) xt_chain \<Rightarrow> bool" where
  "wrapper_inv X s \<longleftrightarrow>
     (\<forall>a i. IdByAssets s a = Some i \<longleftrightarrow> AssetByIds s i = Some a) \<and>
     (\<forall>i. RegistryInfoByIds s i = None \<longleftrightarrow> AssetByIds s i = None) \<and>
     (\<forall>a i info. AssetByIds s i = Some a \<longrightarrow> RegistryInfoByIds s i = Some info \<longrightarrow> describes info a) \<and>
     (\<forall>rid a. AssetByResourceIds s rid = Some a \<longrightarrow>
        (\<exists>i info. AssetByIds s i = Some a \<and> RegistryInfoByIds s i = Some info \<and> lists_rid X a info rid))"

definition wrapper_rel :: "'x xt_config \<Rightarrow> ('call, 'x) xt_chain \<Rightarrow> ('call, 'x) xt_chain \<Rightarrow> bool" where
  "wrapper_rel X s t \<longleftrightarrow> (wrapper_inv X s \<longrightarrow> wrapper_inv X t)"

lemma wrapper_rel_same:
  "IdByAssets t = IdByAssets s \<Longrightarrow> AssetByIds t = AssetByIds s \<Longrightarrow> AssetByResourceIds t = AssetByResourceIds s \<Longrightarrow>
    RegistryInfoByIds t = RegistryInfoByIds s \<Longrightarrow> wrapper_rel X s t"
  by (simp add: wrapper_rel_def wrapper_inv_def)

lemma wrapper_rel_trans: "wrapper_rel X s t \<Longrightarrow> wrapper_rel X t u \<Longrightarrow> wrapper_rel X s u"
  by (simp add: wrapper_rel_def)

lemma wrapper_invD:
  assumes "wrapper_inv X s"
  shows "IdByAssets s a = Some i \<longleftrightarrow> AssetByIds s i = Some a"
    "RegistryInfoByIds s i = None \<longleftrightarrow> AssetByIds s i = None"
    "AssetByIds s i = Some a \<Longrightarrow> RegistryInfoByIds s i = Some info \<Longrightarrow> describes info a"
    "AssetByResourceIds s rid = Some a \<Longrightarrow>
      \<exists>i info. AssetByIds s i = Some a \<and> RegistryInfoByIds s i = Some info \<and> lists_rid X a info rid"
  using assms unfolding wrapper_inv_def by blast+

text \<open>A call that is rolled back leaves the storage as it was.\<close>

lemma wrapper_transactional:
  assumes "\<And>x t. r = Ok x t \<Longrightarrow> wrapper_inv X s \<Longrightarrow> wrapper_inv X t"
  shows "steps (wrapper_rel X) s (transactional s r)"
  using assms by (cases r) (simp_all add: wrapper_rel_def)

lemma register_wrapper: "steps (wrapper_rel X) s (force_register_asset X orig asset k ps owner s)"
  unfolding force_register_asset_def Let_def
proof (rule wrapper_transactional, goal_cases)
  case (1 x t)
  then have new: "IdByAssets s asset = None" "AssetByIds s k = None"
    and t: "IdByAssets t = (IdByAssets s)(asset \<mapsto> k)" "AssetByIds t = (AssetByIds s)(k \<mapsto> asset)"
      "AssetByResourceIds t = AssetByResourceIds s"
      "\<exists>bs. RegistryInfoByIds t = (RegistryInfoByIds s)(k \<mapsto> \<lparr>ri_location = asset_location asset,
         ri_reserve_location = asset_reserve asset, ri_enabled_bridges = bs, ri_properties = ps\<rparr>)"
    by (auto simp: andthen_Ok_iff with_ledger_Ok_iff xt_deposit_event_def split: if_splits)
  note d = wrapper_invD [OF 1(2)]
  have "\<exists>i info. i \<noteq> k \<and> AssetByIds s i = Some a \<and> RegistryInfoByIds s i = Some info \<and> lists_rid X a info rid"
    if "AssetByResourceIds s rid = Some a" for rid a using d(4) [OF that] new by force
  then have rids: "\<exists>i info. AssetByIds t i = Some a \<and> RegistryInfoByIds t i = Some info \<and> lists_rid X a info rid"
    if "AssetByResourceIds t rid = Some a" for rid a using that t by fastforce
  moreover have "IdByAssets t a = Some i \<longleftrightarrow> AssetByIds t i = Some a" for a i
    using new t d(1) by (metis fun_upd_apply option.distinct(1) option.inject)
  moreover have "RegistryInfoByIds t i = None \<longleftrightarrow> AssetByIds t i = None" for i using t d(2) by auto
  moreover have "describes info a" if "AssetByIds t i = Some a" "RegistryInfoByIds t i = Some info" for i info a
    using that t d(3) by (auto simp: describes_def split: if_splits)
  ultimately show ?case unfolding wrapper_inv_def by blast
qed

text \<open>Rewriting the entry of a registered asset, when its bound resource identifiers stay listed.\<close>

lemma wrapper_inv_entry:
  assumes inv: "wrapper_inv X s" and k: "AssetByIds s k = Some asset" "RegistryInfoByIds s k = Some info"
    and t: "IdByAssets t = IdByAssets s" "AssetByIds t = AssetByIds s"
      "RegistryInfoByIds t = (RegistryInfoByIds s)(k \<mapsto> info')"
    and desc: "describes info' asset"
    and rids: "\<And>rid a. AssetByResourceIds t rid = Some a \<Longrightarrow>
      (a = asset \<longrightarrow> lists_rid X a info' rid) \<and> (a \<noteq> asset \<longrightarrow> AssetByResourceIds s rid = Some a)"
  shows "wrapper_inv X t"
proof -
  note d = wrapper_invD [OF inv]
  have "\<exists>i info. AssetByIds t i = Some a \<and> RegistryInfoByIds t i = Some info \<and> lists_rid X a info rid"
    if r: "AssetByResourceIds t rid = Some a" for rid a
  proof (cases "a = asset")
    case True
    then show ?thesis using rids [OF r] k t by auto
  next
    case False
    then obtain i inf where i: "AssetByIds s i = Some a" "RegistryInfoByIds s i = Some inf" "lists_rid X a inf rid"
      using rids [OF r] d(4) by blast
    with False k have "i \<noteq> k" by auto
    with i t show ?thesis by auto
  qed
  moreover have "RegistryInfoByIds t i = None \<longleftrightarrow> AssetByIds t i = None" for i using t d(2) k by auto
  moreover have "describes inf a" if "AssetByIds t i = Some a" "RegistryInfoByIds t i = Some inf" for i inf a
    using that t d(3) desc k by (auto split: if_splits)
  ultimately show ?thesis using d(1) t unfolding wrapper_inv_def by simp
qed

lemma bound_lists:
  assumes "wrapper_inv X s" "AssetByIds s k = Some asset" "RegistryInfoByIds s k = Some info"
    "AssetByResourceIds s rid = Some asset"
  shows "lists_rid X asset info rid"
  using wrapper_invD(4) [OF assms(1,4)] wrapper_invD(1) [OF assms(1)] assms(2,3)
  by (metis option.inject)

lemma metadata_wrapper: "steps (wrapper_rel X) s (wrapper_set_metadata X orig k ps s)"
  unfolding wrapper_set_metadata_def
proof (rule wrapper_transactional, goal_cases)
  case (1 x t)
  then obtain info where info: "RegistryInfoByIds s k = Some info"
    and t: "IdByAssets t = IdByAssets s" "AssetByIds t = AssetByIds s" "AssetByResourceIds t = AssetByResourceIds s"
      "RegistryInfoByIds t = (RegistryInfoByIds s)(k \<mapsto> info\<lparr>ri_properties := ps\<rparr>)"
    by (auto simp: with_ledger_Ok_iff split: if_splits option.splits)
  have "AssetByIds s k \<noteq> None" using wrapper_invD(2) [OF 1(2), of k] info by simp
  then obtain asset where k: "AssetByIds s k = Some asset" by blast
  have "describes (info\<lparr>ri_properties := ps\<rparr>) asset"
    using wrapper_invD(3) [OF 1(2) k info] by (simp add: describes_def)
  then show ?case
    using bound_lists [OF 1(2) k info]
    by (intro wrapper_inv_entry [OF 1(2) k info t(1,2,4)]) (auto simp: t lists_rid_def)
qed

lemma enable_wrapper:
  "steps (wrapper_rel X) s (force_enable_chainbridge X orig k ch mintable md s)"
  unfolding force_enable_chainbridge_def Let_def
proof (rule wrapper_transactional, goal_cases)
  case (1 x t)
  let ?e = "\<lambda>asset. \<lparr>xb_config = ChainBridge ch (into_rid X asset ch)
      (into_account X (bridge_reserve ch)) mintable, xb_metadata = md\<rparr>"
  from 1(1) obtain asset info where k: "AssetByIds s k = Some asset" "RegistryInfoByIds s k = Some info"
    and t: "IdByAssets t = IdByAssets s" "AssetByIds t = AssetByIds s"
      "AssetByResourceIds t = (AssetByResourceIds s)(into_rid X asset ch \<mapsto> asset)"
      "RegistryInfoByIds t = (RegistryInfoByIds s)(k \<mapsto>
         info\<lparr>ri_enabled_bridges := ri_enabled_bridges info @ [?e asset]\<rparr>)"
    by (auto simp: xt_deposit_event_def split: if_splits option.splits)
  have "describes (info\<lparr>ri_enabled_bridges := ri_enabled_bridges info @ [?e asset]\<rparr>) asset"
    using wrapper_invD(3) [OF 1(2) k] by (simp add: describes_def)
  moreover have "lists_rid X asset (info\<lparr>ri_enabled_bridges := ri_enabled_bridges info @ [?e asset]\<rparr>) rid"
    if "AssetByResourceIds t rid = Some asset" for rid
  proof (cases "rid = into_rid X asset ch")
    case True
    then show ?thesis unfolding lists_rid_def by (intro exI [of _ ch] exI [of _ mintable] exI [of _ md]) simp
  next
    case False
    then have "lists_rid X asset info rid" using bound_lists [OF 1(2) k] that t by simp
    then show ?thesis by (auto simp: lists_rid_def)
  qed
  ultimately show ?case
    by (intro wrapper_inv_entry [OF 1(2) k t(1,2,4)]) (auto simp: t(3) split: if_splits)
qed

lemma remove_found:
  assumes "find_index P xs = Some i" "x \<in> set xs" "\<not> P x"
  shows "x \<in> set (remove_at i xs)"
proof -
  have i: "i < length xs" "P (xs ! i)" using find_index_Some [OF assms(1)] by simp_all
  have "set xs = set (take i xs) \<union> {xs ! i} \<union> set (drop (Suc i) xs)"
    by (subst id_take_nth_drop [OF i(1)]) auto
  then show ?thesis using assms(2,3) i(2) by (auto simp: remove_at_def)
qed

lemma disable_wrapper: "steps (wrapper_rel X) s (force_disable_chainbridge X orig k ch s)"
  unfolding force_disable_chainbridge_def Let_def
proof (rule wrapper_transactional, goal_cases)
  case (1 x t)
  let ?b = "\<lambda>asset info. case find_index (is_bridge_entry ch (into_rid X asset ch)) (ri_enabled_bridges info) of
      Some idx \<Rightarrow> remove_at idx (ri_enabled_bridges info) | None \<Rightarrow> ri_enabled_bridges info"
  from 1(1) obtain asset info where k: "AssetByIds s k = Some asset" "RegistryInfoByIds s k = Some info"
    and t: "IdByAssets t = IdByAssets s" "AssetByIds t = AssetByIds s"
      "AssetByResourceIds t = (AssetByResourceIds s)(into_rid X asset ch := None)"
      "RegistryInfoByIds t = (RegistryInfoByIds s)(k \<mapsto> info\<lparr>ri_enabled_bridges := ?b asset info\<rparr>)"
    by (auto simp: xt_deposit_event_def split: if_splits option.splits)
  have "describes (info\<lparr>ri_enabled_bridges := ?b asset info\<rparr>) asset"
    using wrapper_invD(3) [OF 1(2) k] by (simp add: describes_def)
  moreover have "lists_rid X asset (info\<lparr>ri_enabled_bridges := ?b asset info\<rparr>) rid"
    if r: "AssetByResourceIds t rid = Some asset" for rid
  proof -
    from r t have ne: "rid \<noteq> into_rid X asset ch" and "AssetByResourceIds s rid = Some asset"
      by (auto split: if_splits)
    then have "lists_rid X asset info rid" using bound_lists [OF 1(2) k] by simp
    then obtain c m md where e: "\<lparr>xb_config = ChainBridge c rid (into_account X (bridge_reserve c)) m,
        xb_metadata = md\<rparr> \<in> set (ri_enabled_bridges info)" "rid = into_rid X asset c"
      unfolding lists_rid_def by blast
    then have "\<lparr>xb_config = ChainBridge c rid (into_account X (bridge_reserve c)) m, xb_metadata = md\<rparr>
        \<in> set (?b asset info)"
      using ne by (auto simp: is_bridge_entry_def split: option.split intro: remove_found)
    then show ?thesis using e(2) unfolding lists_rid_def by auto
  qed
  ultimately show ?case
    by (intro wrapper_inv_entry [OF 1(2) k t(1,2,4)]) (auto simp: t(3) split: if_splits)
qed

lemma fold_unbind: "fold (\<lambda>rid m. m(rid := None)) rids m r = (if r \<in> set rids then None else m r)"
  by (induction rids arbitrary: m) auto

lemma unregister_wrapper: "steps (wrapper_rel X) s (force_unregister_asset X orig k s)"
  unfolding force_unregister_asset_def Let_def
proof (rule wrapper_transactional, goal_cases)
  case (1 x t)
  from 1(1) obtain asset info where k: "AssetByIds s k = Some asset" "RegistryInfoByIds s k = Some info"
    and t: "IdByAssets t = (IdByAssets s)(asset := None)" "AssetByIds t = (AssetByIds s)(k := None)"
      "\<And>r. AssetByResourceIds t r =
        (if r \<in> set (bound_rids (ri_enabled_bridges info)) then None else AssetByResourceIds s r)"
      "RegistryInfoByIds t = (RegistryInfoByIds s)(k := None)"
    by (auto simp: xt_deposit_event_def fold_unbind split: if_splits option.splits)
  note d = wrapper_invD [OF 1(2)]
  have listed: "rid \<in> set (bound_rids (ri_enabled_bridges info))" if bound: "AssetByResourceIds s rid = Some asset" for rid
  proof -
    obtain c m md where "\<lparr>xb_config = ChainBridge c rid (into_account X (bridge_reserve c)) m, xb_metadata = md\<rparr>
        \<in> set (ri_enabled_bridges info)"
      using bound_lists [OF 1(2) k bound] unfolding lists_rid_def by blast
    then show ?thesis unfolding bound_rids_def by force
  qed
  have "\<exists>i info. AssetByIds t i = Some a \<and> RegistryInfoByIds t i = Some info \<and> lists_rid X a info rid"
    if r: "AssetByResourceIds t rid = Some a" for rid a
  proof -
    have s: "AssetByResourceIds s rid = Some a" and "a \<noteq> asset" using r t(3) listed by (auto split: if_splits)
    obtain i inf where i: "AssetByIds s i = Some a" "RegistryInfoByIds s i = Some inf" "lists_rid X a inf rid"
      using d(4) [OF s] by blast
    with \<open>a \<noteq> asset\<close> k have "i \<noteq> k" by auto
    with i t show ?thesis by auto
  qed
  moreover have "IdByAssets t a = Some i \<longleftrightarrow> AssetByIds t i = Some a" for a i
    using d(1) k t by (metis fun_upd_apply option.distinct(1) option.inject)
  moreover have "RegistryInfoByIds t i = None \<longleftrightarrow> AssetByIds t i = None" for i using t d(2) by auto
  moreover have "describes inf a" if "AssetByIds t i = Some a" "RegistryInfoByIds t i = Some inf" for i inf a
    using that t d(3) by (auto split: if_splits)
  ultimately show ?case unfolding wrapper_inv_def by blast
qed

interpretation wb: bridge_blind "wrapper_rel X" for X
  by unfold_locales (erule (1) wrapper_rel_trans | rule wrapper_rel_same; simp)+

interpretation wf: dispatch_frame "wrapper_rel (xt_pallets W)" W for W :: "('o, 'x) xt_wiring"
proof (unfold_locales, goal_cases)
  case (19 s T orig m sc d)
  then show ?case
    by (auto simp: update_fee_def xt_deposit_event_def intro!: wrapper_rel_same)
qed (erule (1) wrapper_rel_trans | rule wb.blind_same wb.blind wb.deposit wb.emit wb.admin wb.block
    wb.votes register_wrapper unregister_wrapper metadata_wrapper enable_wrapper disable_wrapper | assumption)+

lemma xt_reaches_wrapper: "xt_reaches W s t \<Longrightarrow> wrapper_inv (xt_pallets W) s \<Longrightarrow> wrapper_inv (xt_pallets W) t"
  using wf.reaches_R by (auto simp: wrapper_rel_def)

end
