(* ===== verification/Xt_Amounts.thy ===== *)
theory Xt_Amounts
  imports Xt_Props
begin

text \<open>
  Amounts and accounts of the transfers: conversions between decimals, the fee, what a successful
  transfer did to the ledger, and the messages that carry an asset to another parachain.
\<close>

section \<open>Decimals and fees\<close>

lemma unat_pow10: "10 ^ n < (2 :: nat) ^ 128 \<Longrightarrow> unat (pow10 n) = 10 ^ n"
proof -
  assume n: "10 ^ n < (2 :: nat) ^ 128"
  have "pow10 n = of_nat (10 ^ n)" using n by (simp add: pow10_def)
  then show ?thesis using unat_of_nat_small [where 'n = 128, of "10 ^ n"] n by simp
qed

lemma pow10_fits: "n \<le> 38 \<Longrightarrow> 10 ^ n < (2 :: nat) ^ 128"
proof -
  assume "n \<le> 38"
  then have "10 ^ n \<le> (10 :: nat) ^ 38" by (rule power_increasing) simp
  also have "\<dots> < 2 ^ 128" by simp
  finally show ?thesis .
qed

lemma e12_scale_up:
  assumes "unat d \<le> 12" "unat a * 10 ^ (12 - unat d) < 2 ^ 128"
  shows "unat (to_e12 a d) = unat a * 10 ^ (12 - unat d)" "from_e12 (to_e12 a d) d = a"
proof -
  have p: "unat (pow10 (12 - unat d)) = 10 ^ (12 - unat d)" by (rule unat_pow10) (rule pow10_fits, simp)
  have d: "\<not> d > 12" using assms(1) by (simp add: word_less_nat_alt)
  show up: "unat (to_e12 a d) = unat a * 10 ^ (12 - unat d)"
    using d assms(2) by (simp add: to_e12_def unat_saturating_mul p)
  have "unat (from_e12 (to_e12 a d) d) = unat a"
    using d by (simp add: from_e12_def unat_div p up)
  then show "from_e12 (to_e12 a d) d = a" by (simp only: word_unat_eq_iff)
qed

lemma e12_scale_down:
  assumes "12 < unat d" "unat d \<le> 50"
  shows "unat (to_e12 a d) = unat a div 10 ^ (unat d - 12)"
    "unat (from_e12 (to_e12 a d) d) = unat a - unat a mod 10 ^ (unat d - 12)"
proof -
  let ?p = "10 ^ (unat d - 12) :: nat"
  have p: "unat (pow10 (unat d - 12)) = ?p" by (rule unat_pow10) (rule pow10_fits, use assms in simp)
  have d: "d > 12" using assms(1) by (simp add: word_less_nat_alt)
  show down: "unat (to_e12 a d) = unat a div ?p" using d by (simp add: to_e12_def unat_div p)
  have "unat a div ?p * ?p \<le> unat a" by (rule div_times_less_eq_dividend)
  also have "unat a \<le> 2 ^ 128 - 1" using unat_lt_2p [of a] by simp
  finally have fit: "min (unat a div ?p * ?p) (2 ^ 128 - 1) = unat a div ?p * ?p" by (rule min.absorb1)
  have "unat (from_e12 (to_e12 a d) d) = unat a div ?p * ?p"
    using d fit by (simp add: from_e12_def unat_saturating_mul p down)
  then show "unat (from_e12 (to_e12 a d) d) = unat a - unat a mod ?p"
    by (simp add: minus_mod_eq_div_mult)
qed

lemma unat_ucast_u32: "unat (ucast (k :: u32) :: u128) = unat k"
proof -
  have "unat k < 2 ^ 32" using unat_lt_2p [of k] by simp
  then show ?thesis by (simp add: unsigned_ucast_eq take_bit_eq_mod)
qed

lemma estimate_fee_bounds:
  assumes "fees_ok s" "unat amount * 1000 < 2 ^ 128"
  shows "estimate_fee_in_pha s d amount \<le> max amount (fst (bridge_fee s d))"
    "fst (bridge_fee s d) \<le> estimate_fee_in_pha s d amount"
proof -
  obtain m k where f: "bridge_fee s d = (m, k)" by fastforce
  then have k: "unat k \<le> 1000"
    using assms(1) by (auto simp: bridge_fee_def fees_ok_def word_le_nat_alt split: option.splits)
  have "unat amount * unat k < 2 ^ 128" using k assms(2) by (meson le_less_trans mult_le_mono2)
  then have "unat (amount * ucast k div 1000) = unat amount * unat k div 1000"
    by (simp add: unat_div unat_times_small unat_ucast_u32)
  also have "\<dots> \<le> unat amount" using k by (metis div_le_mono mult_le_mono2 nonzero_mult_div_cancel_right zero_neq_numeral)
  finally have "amount * ucast k div 1000 \<le> amount" by (simp add: word_le_nat_alt)
  then show "estimate_fee_in_pha s d amount \<le> max amount (fst (bridge_fee s d))"
    "fst (bridge_fee s d) \<le> estimate_fee_in_pha s d amount"
    by (auto simp: estimate_fee_in_pha_def f max_def not_less Let_def)
qed

section \<open>What an outgoing transfer did\<close>

lemma convert_balance_Ok [simp]:
  "convert_balance X a i s = Ok b t \<longleftrightarrow> to_asset_balance X a i (ledger s) = Some b \<and> t = s"
  by (auto simp: convert_balance_def split: option.splits)

lemma transact_asset_Ok [simp]:
  "transact_asset f s = Ok () t \<longleftrightarrow> (\<exists>l. f (ledger s) = Ok () l \<and> t = s\<lparr>ledger := l\<rparr>)"
  by (simp add: transact_asset_def with_ledger_Ok_iff)

lemma get_fee_Ok: "get_fee X d a s = Ok f t \<Longrightarrow> t = s"
  by (auto simp: get_fee_def convert_fee_from_pha_def Let_def
      split: xcm_asset_id.splits fungibility.splits option.splits if_splits)

lemma transfer_fungible_Ok:
  assumes "transfer_fungible d rid to amount s = Ok () t"
  shows "\<exists>n. ChainNonces s d = Some n \<and> BridgeEvents t = BridgeEvents s @ [FungibleTransfer d (n + 1) rid amount to] \<and>
    ChainNonces t d = Some (n + 1) \<and> ledger t = ledger s \<and>
    AssetByResourceIds t = AssetByResourceIds s \<and> IdByAssets t = IdByAssets s"
  using assms by (auto simp: transfer_fungible_def emit_transfer_def bump_nonce_def Let_def
      chain_whitelisted_def bridge_deposit_event_def split: if_splits option.splits)


lemma into_rid_parts:
  assumes "length (location_hash X (asset_location a)) = 32"
  shows "get_chainid (into_rid X a d) = d"
    "tl (into_rid X a d) = tl (location_hash X (asset_location a))"
  using assms by (auto simp: get_chainid_def into_rid_def length_Suc_conv numeral_eq_Suc)

text \<open>What the ledger and the bridge saw when \<open>transfer_assets\<close> succeeded.\<close>

lemma transfer_assets_Ok:
  assumes "transfer_assets X orig asset d to amount s = Ok () t"
  obtains sender reserve i fee fee_amount rest l n where
    "orig = Signed sender" "asset_reserve asset = Some reserve" "IdByAssets s asset = Some i"
    "get_fee X d (fungible_at (asset_location asset) amount) s = (Ok (Some fee) s :: (xt_error, _, _) outcome)"
    "fee < amount" "to_asset_balance X fee i (ledger s) = Some fee_amount"
    "assets_transfer X i sender (treasury_account X) fee_amount False (ledger s) = Ok () l"
    "to_asset_balance X (amount - fee) i l = Some rest"
    "(if reserve = bridge_reserve d then assets_burn_from X i sender rest l
      else assets_transfer X i sender (into_account X (bridge_reserve d)) rest False l) = Ok () (ledger t)"
    "ChainNonces s d = Some n"
    "BridgeEvents t = BridgeEvents s @ [FungibleTransfer d (n + 1) (into_rid X asset d) (ucast (amount - fee)) to]"
    "into_rid X asset d \<noteq> gen_pha_rid X (get_chainid (into_rid X asset d))"
    "AssetByResourceIds s (into_rid X asset d) \<noteq> None"
    "AssetByResourceIds t = AssetByResourceIds s" "IdByAssets t = IdByAssets s"
proof -
  from assms obtain sender reserve i j f u where a: "orig = Signed sender" "asset_reserve asset = Some reserve"
      "IdByAssets s asset = Some i" "rid_to_assetid X (into_rid X asset d) s = Ok j s"
    and fee: "(get_fee X d (fungible_at (asset_location asset) amount) s :: (xt_error, _, _) outcome) = Ok f u"
    and rest: "(case f of None \<Rightarrow> Err (transfer_err CannotPayAsFee) u | Some fee \<Rightarrow>
        if \<not> amount > fee then Err (transfer_err InsufficientBalance) u
        else settle_outgoing X sender i reserve (into_rid X asset d) d to amount fee u) = Ok () t"
    by (fastforce simp: transfer_assets_def andthen_Ok_iff Let_def lookup_id_def ensure_signed_def
        rid_to_assetid_def split: option.splits if_splits origin.splits)
  from fee rest obtain fee where a5: "fee < amount"
      "get_fee X d (fungible_at (asset_location asset) amount) s = (Ok (Some fee) s :: (xt_error, _, _) outcome)"
    and settle: "settle_outgoing X sender i reserve (into_rid X asset d) d to amount fee s = Ok () t"
    by (auto dest: get_fee_Ok split: option.splits if_splits)
  have rid: "into_rid X asset d \<noteq> gen_pha_rid X (get_chainid (into_rid X asset d))"
    "AssetByResourceIds s (into_rid X asset d) \<noteq> None"
    using a(4) by (auto simp: rid_to_assetid_def lookup_by_resource_id_def split: if_splits option.splits)
  from settle obtain fa l rest u where b: "to_asset_balance X fee i (ledger s) = Some fa"
      "assets_transfer X i sender (treasury_account X) fa False (ledger s) = Ok () l"
      "to_asset_balance X (amount - fee) i l = Some rest"
      "(if reserve = bridge_reserve d then assets_burn_from X i sender rest l
        else assets_transfer X i sender (into_account X (bridge_reserve d)) rest False l) = Ok () u"
    and tf: "transfer_fungible d (into_rid X asset d) to (ucast (amount - fee)) (s\<lparr>ledger := u\<rparr>) = Ok () t"
    by (cases "reserve = bridge_reserve d") (auto simp: settle_outgoing_def andthen_Ok_iff Let_def)
  from transfer_fungible_Ok [OF tf] obtain n where c: "ChainNonces s d = Some n"
      "BridgeEvents t = BridgeEvents s @ [FungibleTransfer d (n + 1) (into_rid X asset d) (ucast (amount - fee)) to]"
      "ledger t = u" "AssetByResourceIds t = AssetByResourceIds s" "IdByAssets t = IdByAssets s"
    by auto
  show thesis by (rule that [OF a(1-3) a5(2,1) b(1-3) _ c(1,2) rid c(4,5)]) (use b(4) c(3) in simp)
qed

text \<open>A resource identifier stands for the asset it was made from when no two registered assets share a hash.\<close>

definition no_rid_clash :: "'x xt_config \<Rightarrow> ('call, 'x) xt_chain \<Rightarrow> bool" where
  "no_rid_clash X s \<longleftrightarrow> (\<forall>a. length (location_hash X (asset_location a)) = 32) \<and>
     inj_on (\<lambda>a. tl (location_hash X (asset_location a))) (dom (IdByAssets s))"

lemma rid_resolves:
  assumes "wrapper_inv X s" "no_rid_clash X s" "IdByAssets s asset \<noteq> None"
    and "AssetByResourceIds s (into_rid X asset d) \<noteq> None"
  shows "AssetByResourceIds s (into_rid X asset d) = Some asset"
proof -
  from assms(4) obtain a where a: "AssetByResourceIds s (into_rid X asset d) = Some a" by blast
  from wrapper_invD(4) [OF assms(1) a] obtain i info where i: "AssetByIds s i = Some a"
    and l: "lists_rid X a info (into_rid X asset d)" by blast
  from l obtain c where c: "into_rid X asset d = into_rid X a c" unfolding lists_rid_def by blast
  have len: "length (location_hash X (asset_location b)) = 32" for b
    using assms(2) by (simp add: no_rid_clash_def)
  have "tl (location_hash X (asset_location asset)) = tl (location_hash X (asset_location a))"
    using arg_cong [OF c, of tl] by (simp add: into_rid_parts(2) [OF len])
  moreover have "a \<in> dom (IdByAssets s)" "asset \<in> dom (IdByAssets s)"
    using wrapper_invD(1) [OF assms(1), of a i] i assms(3) by auto
  ultimately have "asset = a" using assms(2) unfolding no_rid_clash_def inj_on_def by blast
  with a show ?thesis by simp
qed

text \<open>A transfer of a wrapped asset from its non-reserve chain to a local account.\<close>

lemma incoming_to_account:
  assumes "asset_reserve asset = Some reserve" "reserve \<noteq> bridge_reserve (get_chainid rid)"
    and "rid \<noteq> gen_pha_rid X (get_chainid rid)" "AssetByResourceIds s rid = Some asset" "IdByAssets s asset = Some i"
    and "decode_location X dest = Some (at_location 0 [AccountId32 nw who])"
    and "to_asset_balance X back i (ledger s) = Some b"
    and "assets_burn_from X i (into_account X (bridge_reserve (get_chainid rid))) b (ledger s) = Ok () l"
    and "to_asset_balance X back i l = Some b'" "assets_mint_into X i who b' l = Ok () l'"
  shows "bridge_transfer X T (Signed (bridge_account_id T)) dest back rid s =
    Ok () (xt_deposit_event (Deposited asset who back) (s\<lparr>ledger := l'\<rparr>))"
proof -
  have loc: "rid_to_location X rid u = Ok (asset_location asset) u" and aid: "rid_to_assetid X rid u = Ok i u"
    if "AssetByResourceIds u = AssetByResourceIds s" "IdByAssets u = IdByAssets s" for u
    using assms(3-5) that by (simp_all add: rid_to_location_def rid_to_assetid_def lookup_by_resource_id_def lookup_id_def)
  show ?thesis
    using assms by (simp add: bridge_transfer_def ensure_bridge_def loc aid asset_reserve_def
        release_reserve_def settle_to_dest_def credit_account_def convert_balance_def
        transact_asset_def with_ledger_def Let_def)
qed

section \<open>Messages to other parachains\<close>

text \<open>
  The chains a message visits, the purchases of execution it makes on the way, and where it
  deposits at the end.
\<close>

fun route :: "instruction list \<Rightarrow> multi_location list \<times> multi_location option" where
  "route [] = ([], None)"
| "route (DepositReserveAsset f k dest xcm # rest) = apfst ((#) dest) (route xcm)"
| "route (InitiateReserveWithdraw f reserve xcm # rest) = apfst ((#) reserve) (route xcm)"
| "route (DepositAsset f k who # rest) = ([], Some who)"
| "route (_ # rest) = route rest"

fun purchases :: "instruction list \<Rightarrow> (multi_asset \<times> u64) list" where
  "purchases [] = []"
| "purchases (DepositReserveAsset f k dest xcm # rest) = purchases xcm"
| "purchases (InitiateReserveWithdraw f reserve xcm # rest) = purchases xcm"
| "purchases (BuyExecution fees w # rest) = (fees, w) # purchases rest"
| "purchases (_ # rest) = purchases rest"

end
