(* ===== verification/Xt_Claims.thy ===== *)
theory Xt_Claims
  imports Xt_Amounts
begin

text \<open>
  Claims about the wired cross-chain pallets, with a small chain on which their hypotheses hold:
  one relayer, one chain behind the bridge, one foreign asset with its reserve on the relay chain,
  and a ledger that keeps a balance per account.
\<close>

section \<open>A small chain\<close>

record coin_ledger =
  coins :: "account_id \<Rightarrow> u128"
  tokens :: "asset_id \<Rightarrow> account_id \<Rightarrow> u128"

definition take_from :: "'k \<Rightarrow> u128 \<Rightarrow> ('k \<Rightarrow> u128) \<Rightarrow> ('k \<Rightarrow> u128) option" where
  "take_from k v f = (if v \<le> f k then Some (f(k := f k - v)) else None)"

definition give_to :: "'k \<Rightarrow> u128 \<Rightarrow> ('k \<Rightarrow> u128) \<Rightarrow> ('k \<Rightarrow> u128)" where
  "give_to k v f = f(k := f k + v)"

definition coin_take :: "account_id \<Rightarrow> u128 \<Rightarrow> (coin_ledger, xt_error, unit) on_ledger" where
  "coin_take a v l = (case take_from a v (coins l) of
     None \<Rightarrow> Err (Other ''funds'') l | Some f \<Rightarrow> Ok () (l\<lparr>coins := f\<rparr>))"

definition token_take :: "asset_id \<Rightarrow> account_id \<Rightarrow> u128 \<Rightarrow> (coin_ledger, xt_error, unit) on_ledger" where
  "token_take i a v l = (case take_from a v (tokens l i) of
     None \<Rightarrow> Err (Other ''funds'') l | Some f \<Rightarrow> Ok () (l\<lparr>tokens := (tokens l)(i := f)\<rparr>))"

definition coin_give :: "account_id \<Rightarrow> u128 \<Rightarrow> coin_ledger \<Rightarrow> coin_ledger" where
  "coin_give a v l = l\<lparr>coins := give_to a v (coins l)\<rparr>"

definition token_give :: "asset_id \<Rightarrow> account_id \<Rightarrow> u128 \<Rightarrow> coin_ledger \<Rightarrow> coin_ledger" where
  "token_give i a v l = l\<lparr>tokens := (tokens l)(i := give_to a v (tokens l i))\<rparr>"

definition small_pallets :: "coin_ledger xt_config" where
  "small_pallets = \<lparr>
     assets_committee_origin = (\<lambda>orig. orig = Root),
     execute_xcm_origin = (\<lambda>orig. map_option account_location (ensure_signed orig)),
     assets_force_create = (\<lambda>_ _ _ _ _ l. Ok () l),
     assets_force_set_metadata = (\<lambda>_ _ _ _ _ _ l. Ok () l),
     assets_transfer = (\<lambda>i a b v _ l. andthen (token_take i a v l) (\<lambda>_ l. Ok () (token_give i b v l))),
     assets_burn_from = token_take,
     assets_mint_into = (\<lambda>i a v l. Ok () (token_give i a v l)),
     reducible_balance = (\<lambda>i a _ l. tokens l i a),
     to_asset_balance = (\<lambda>v i l. Some v),
     free_balance_of = (\<lambda>a l. coins l a),
     currency_withdraw = coin_take,
     currency_transfer = (\<lambda>a b v l. andthen (coin_take a v l) (\<lambda>_ l. Ok () (coin_give b v l))),
     deposit_creating = coin_give,
     on_fee_pay = (\<lambda>v l. coin_give [20] v l),
     native_deposit = (\<lambda>m a who l. case (m a, interior who) of
        (Some v, [AccountId32 _ w]) \<Rightarrow> Ok () (coin_give w v l) | _ \<Rightarrow> Err XcmUnimplemented l),
     native_withdraw = (\<lambda>m a who l. Ok [a] l),
     assets_deposit = (\<lambda>m a who l. case (m a, interior who) of
        (Inr (i, v), [AccountId32 _ w]) \<Rightarrow> Ok () (token_give i w v l) | _ \<Rightarrow> Err XcmUnimplemented l),
     assets_withdraw = (\<lambda>m a who l. Ok [a] l),
     native_check = (\<lambda>_ _ _ l. Ok () l), assets_check = (\<lambda>_ _ _ l. Ok () l),
     xcm_execute = (\<lambda>_ _ _ _. Finished True),
     message_weight = (\<lambda>_. Some 1),
     reanchored = (\<lambda>a loc. Some a),
     asset_contains = (\<lambda>a b. ma_id a = ma_id b),
     fee_assets_contain = (\<lambda>_. False),
     location_hash = (\<lambda>loc. [0, parents loc, of_nat (length (interior loc))] @ replicate 29 0),
     decode_location = (\<lambda>b. if b = [0] then Some (at_location 0 [AccountId32 NetworkAny [7]])
        else if b = [2] then Some (at_location 2 []) else None),
     error_message = (\<lambda>_. ''error''),
     wrapper_min_balance = 1, parachain_id = 2004, native_execution_price = 1,
     execution_price_info = [(Concrete parent_location, 1)],
     treasury_account = [20], default_xcm_fee = 1\<rparr>"

definition small_wiring :: "(unit, coin_ledger) xt_wiring" where
  "small_wiring = \<lparr>xt_pallets = small_pallets,
     xt_base = \<lparr>committee_origin = (\<lambda>orig. orig = Root), BridgeChainId = 1, ProposalLifetime = 100,
       bridge_account_id = [9], dispatch_call = (\<lambda>_ _ _. Panic)\<rparr>,
     dispatch_elsewhere = (\<lambda>_ _ l. Ok () l)\<rparr>"

definition ksm :: xtransfer_asset where "ksm = XTransferAsset parent_location"

definition ksm_properties :: asset_properties where
  "ksm_properties = \<lparr>ap_name = [75], ap_symbol = [75], ap_decimals = 12\<rparr>"

definition ksm_rid :: resource_id where "ksm_rid = [2, 1, 0] @ replicate 29 0"

definition xt_genesis :: "(unit, coin_ledger) xt_runtime" where
  "xt_genesis = \<lparr>ChainNonces = [2 \<mapsto> 0], RelayerThreshold = 1, Relayers = [[1] \<mapsto> True], RelayerCount = 1,
     Votes = Map.empty, BridgeEvents = [], block_number = 1, bridge_log = [],
     IdByAssets = Map.empty, AssetByIds = Map.empty, AssetByResourceIds = Map.empty,
     RegistryInfoByIds = Map.empty, BridgeFee = [2 \<mapsto> (1, 10)],
     ledger = \<lparr>coins = (\<lambda>_. 500), tokens = (\<lambda>_ _. 500)\<rparr>, xt_log = []\<rparr>"

definition xt_ready :: "(unit, coin_ledger) xt_runtime" where
  "xt_ready = xt_genesis\<lparr>IdByAssets := [ksm \<mapsto> 1], AssetByIds := [1 \<mapsto> ksm],
     AssetByResourceIds := [ksm_rid \<mapsto> ksm],
     RegistryInfoByIds := [1 \<mapsto> \<lparr>ri_location = parent_location, ri_reserve_location = Some parent_location,
       ri_enabled_bridges = [\<lparr>xb_config = Xcmp, xb_metadata = []\<rparr>,
         \<lparr>xb_config = ChainBridge 2 ksm_rid (into_account small_pallets (bridge_reserve 2)) True, xb_metadata = []\<rparr>],
       ri_properties = ksm_properties\<rparr>]\<rparr>"

lemma small_wiring_simps [simp]:
  "xt_pallets small_wiring = small_pallets" "bridge_account_id (xt_base small_wiring) = [9]"
  "ProposalLifetime (xt_base small_wiring) = 100"
  by (simp_all add: small_wiring_def)

lemma small_hash [simp]:
  "location_hash small_pallets loc = [0, parents loc, of_nat (length (interior loc))] @ replicate 29 0"
  by (simp add: small_pallets_def)

lemma small_pallets_simps [simp]:
  "assets_committee_origin small_pallets orig \<longleftrightarrow> orig = Root"
  "assets_force_create small_pallets orig i owner b m = Ok ()"
  "assets_force_set_metadata small_pallets orig i nm sm dec b = Ok ()"
  "assets_transfer small_pallets i a a' v k l = andthen (token_take i a v l) (\<lambda>_ l. Ok () (token_give i a' v l))"
  "assets_burn_from small_pallets = token_take"
  "assets_mint_into small_pallets i a v l = Ok () (token_give i a v l)"
  "reducible_balance small_pallets i a k l = tokens l i a"
  "to_asset_balance small_pallets v i l = Some v"
  "currency_withdraw small_pallets = coin_take"
  "deposit_creating small_pallets = coin_give"
  "decode_location small_pallets dest = (if dest = [0] then Some (at_location 0 [AccountId32 NetworkAny [7]])
     else if dest = [2] then Some (at_location 2 []) else None)"
  "parachain_id small_pallets = 2004" "native_execution_price small_pallets = 1"
  "execution_price_info small_pallets = [(Concrete parent_location, 1)]"
  "treasury_account small_pallets = [20]" "reanchored small_pallets ma loc = Some ma"
  "asset_contains small_pallets ma mb \<longleftrightarrow> ma_id ma = ma_id mb"
  by (simp_all add: small_pallets_def)

lemma ready_simps [simp]:
  "ChainNonces xt_ready = [2 \<mapsto> 0]" "RelayerThreshold xt_ready = 1" "Votes xt_ready = Map.empty"
  "IdByAssets xt_ready = [ksm \<mapsto> 1]" "AssetByIds xt_ready = [1 \<mapsto> ksm]" "AssetByResourceIds xt_ready = [ksm_rid \<mapsto> ksm]"
  "BridgeFee xt_ready = [2 \<mapsto> (1, 10)]" "ledger xt_ready = \<lparr>coins = (\<lambda>_. 500), tokens = (\<lambda>_ _. 500)\<rparr>"
  "BridgeEvents xt_ready = []" "block_number xt_ready = 1" "Relayers xt_ready = [[1] \<mapsto> True]"
  "RegistryInfoByIds xt_ready = [1 \<mapsto> \<lparr>ri_location = parent_location, ri_reserve_location = Some parent_location,
       ri_enabled_bridges = [\<lparr>xb_config = Xcmp, xb_metadata = []\<rparr>,
         \<lparr>xb_config = ChainBridge 2 ksm_rid (into_account small_pallets (bridge_reserve 2)) True, xb_metadata = []\<rparr>],
       ri_properties = ksm_properties\<rparr>]"
  by (simp_all add: xt_ready_def xt_genesis_def)

lemma genesis_wrapper: "wrapper_inv small_pallets xt_genesis"
  by (simp add: wrapper_inv_def xt_genesis_def)

lemma genesis_bridge: "bridge_inv xt_genesis"
proof -
  have "relayer_set xt_genesis = {[1]}" by (auto simp: relayer_set_def is_relayer_def xt_genesis_def)
  then show ?thesis by (simp add: bridge_inv_def xt_genesis_def)
qed

lemma ksm_rid: "into_rid small_pallets ksm 2 = ksm_rid"
  by (simp add: into_rid_def ksm_def ksm_rid_def)

lemma ksm_reserve: "asset_reserve ksm = Some parent_location"
  by (simp add: asset_reserve_def ksm_def location_reserve_def)

section \<open>The asset registry\<close>

text \<open>
  C15. The maps of the asset registry agree in every storage the runtime reaches: assets and asset
  identifiers correspond one to one, a resource identifier stands only for a registered asset and is
  derived from it and a chain (so the bridge transfer never finds an asset it cannot identify), and
  unregistering an asset leaves nothing that resolves to it.
\<close>

theorem asset_registry_is_coherent:
  assumes "wrapper_inv (xt_pallets W) s" "xt_reaches W s t"
  shows "(\<forall>a i. lookup_id t a = Some i \<longleftrightarrow> lookup_asset t i = Some a) \<and>
    (\<forall>rid a. lookup_by_resource_id t rid = Some a \<longrightarrow> (\<exists>i c. lookup_id t a = Some i \<and>
       asset_decimals t i \<noteq> None \<and> rid = into_rid (xt_pallets W) a c \<and>
       (rid \<noteq> gen_pha_rid (xt_pallets W) (get_chainid rid) \<longrightarrow> rid_to_assetid (xt_pallets W) rid t = Ok i t))) \<and>
    (\<forall>orig i a u. lookup_asset t i = Some a \<and> force_unregister_asset (xt_pallets W) orig i t = Ok () u \<longrightarrow>
       lookup_id u a = None \<and> (\<forall>rid. lookup_by_resource_id u rid \<noteq> Some a))"
proof (intro conjI allI impI)
  have inv: "wrapper_inv (xt_pallets W) t" by (rule xt_reaches_wrapper [OF assms(2,1)])
  note d = wrapper_invD [OF inv]
  show "lookup_id t a = Some i \<longleftrightarrow> lookup_asset t i = Some a" for a i
    using d(1) by (simp add: lookup_id_def lookup_asset_def)
  show "\<exists>i c. lookup_id t a = Some i \<and> asset_decimals t i \<noteq> None \<and> rid = into_rid (xt_pallets W) a c \<and>
      (rid \<noteq> gen_pha_rid (xt_pallets W) (get_chainid rid) \<longrightarrow> rid_to_assetid (xt_pallets W) rid t = Ok i t)"
    if "lookup_by_resource_id t rid = Some a" for rid a
    using that d(1) d(4) [of rid a]
    by (fastforce simp: lookup_id_def lookup_by_resource_id_def asset_decimals_def rid_to_assetid_def lists_rid_def)
  fix orig i a u
  assume h: "lookup_asset t i = Some a \<and> force_unregister_asset (xt_pallets W) orig i t = Ok () u"
  then have "left_state (xt_exec W (Dispatch (CallUnregisterAsset i) orig) t) = Some u" by simp
  then have iu: "wrapper_inv (xt_pallets W) u"
    using xt_reaches_wrapper [OF xt_step [OF xt_start] inv] by blast
  have none: "IdByAssets u a = None"
    using h by (auto simp: force_unregister_asset_def lookup_asset_def xt_deposit_event_def Let_def
        split: if_splits option.splits)
  then have "AssetByResourceIds u rid \<noteq> Some a" for rid
    using wrapper_invD(1) [OF iu, of a] wrapper_invD(4) [OF iu, of rid a] by auto
  then show "lookup_id u a = None" "lookup_by_resource_id u rid \<noteq> Some a" for rid
    using none by (simp_all add: lookup_id_def lookup_by_resource_id_def)
qed

lemma ready_registered:
  "\<exists>t. xt_exec small_wiring (Dispatch (CallRegisterAsset ksm 1 ksm_properties [5]) Root) xt_genesis = Ok () t \<and>
     IdByAssets t ksm = Some 1"
  by (simp add: force_register_asset_def with_ledger_def small_pallets_def xt_genesis_def
      xt_deposit_event_def Let_def)

theorem asset_registry_is_coherent_witness:
  "\<exists>t. xt_reaches small_wiring xt_genesis t \<and> lookup_asset t 1 = Some ksm"
proof -
  obtain t where t: "xt_exec small_wiring (Dispatch (CallRegisterAsset ksm 1 ksm_properties [5]) Root) xt_genesis
      = Ok () t" "IdByAssets t ksm = Some 1" using ready_registered by blast
  have r: "xt_reaches small_wiring xt_genesis t"
    by (rule xt_step [OF xt_start, of _ "Dispatch (CallRegisterAsset ksm 1 ksm_properties [5]) Root"])
      (simp only: t(1) left_state.simps)
  have "wrapper_inv (xt_pallets small_wiring) xt_genesis" using genesis_wrapper by simp
  from asset_registry_is_coherent [OF this r] t(2) r show ?thesis by (auto simp: lookup_id_def)
qed


section \<open>Transfers out and back\<close>

text \<open>
  C13. A successful transfer of an asset over the bridge takes exactly the amount from the sender: the fee
  goes to the treasury, and the rest, which is positive, is burned when the asset goes home to its
  reserve chain and moved to the reserve account of the destination otherwise; the relayers are
  told, once and under the next number, to pay out exactly that rest. A refused transfer changes
  nothing.
\<close>

theorem transfer_assets_books:
  assumes "transfer_assets X orig asset d to amount s = r"
  shows "(\<exists>t sender reserve i fee fee_amount rest l n. r = Ok () t \<and> orig = Signed sender \<and>
      asset_reserve asset = Some reserve \<and> lookup_id s asset = Some i \<and>
      get_fee X d (fungible_at (asset_location asset) amount) s = (Ok (Some fee) s :: (xt_error, _, _) outcome) \<and>
      0 < amount - fee \<and> unat fee + unat (amount - fee) = unat amount \<and>
      to_asset_balance X fee i (ledger s) = Some fee_amount \<and>
      assets_transfer X i sender (treasury_account X) fee_amount False (ledger s) = Ok () l \<and>
      to_asset_balance X (amount - fee) i l = Some rest \<and>
      (if reserve = bridge_reserve d then assets_burn_from X i sender rest l
       else assets_transfer X i sender (into_account X (bridge_reserve d)) rest False l) = Ok () (ledger t) \<and>
      ChainNonces s d = Some n \<and>
      BridgeEvents t = BridgeEvents s @ [FungibleTransfer d (n + 1) (into_rid X asset d) (ucast (amount - fee)) to]) \<or>
    (\<exists>e. r = Err e s) \<or> r = Panic"
proof (cases r)
  case (Ok x t)
  with assms have ok: "transfer_assets X orig asset d to amount s = Ok () t" by simp
  from ok obtain sender reserve i fee fee_amount rest l n where h:
    "orig = Signed sender" "asset_reserve asset = Some reserve" "IdByAssets s asset = Some i"
    "get_fee X d (fungible_at (asset_location asset) amount) s = (Ok (Some fee) s :: (xt_error, _, _) outcome)"
    "fee < amount" "to_asset_balance X fee i (ledger s) = Some fee_amount"
    "assets_transfer X i sender (treasury_account X) fee_amount False (ledger s) = Ok () l"
    "to_asset_balance X (amount - fee) i l = Some rest"
    "(if reserve = bridge_reserve d then assets_burn_from X i sender rest l
      else assets_transfer X i sender (into_account X (bridge_reserve d)) rest False l) = Ok () (ledger t)"
    "ChainNonces s d = Some n"
    "BridgeEvents t = BridgeEvents s @ [FungibleTransfer d (n + 1) (into_rid X asset d) (ucast (amount - fee)) to]"
    by (rule transfer_assets_Ok)
  have u: "unat (amount - fee) = unat amount - unat fee" "unat fee < unat amount"
    using h(5) by (simp_all add: unat_minus_le word_less_nat_alt less_imp_le)
  have "0 < amount - fee" "unat fee + unat (amount - fee) = unat amount"
    using u by (simp_all add: word_less_nat_alt)
  then show ?thesis using h Ok by (intro disjI1) (auto simp: lookup_id_def)
next
  case (Err e t)
  then have "t = s"
    using assms transactional_Err [of s _ e t] by (simp add: transfer_assets_def)
  then show ?thesis using Err by simp
qed simp

definition small_user :: account_id where "small_user = [7]"

lemma small_fee: "get_fee small_pallets 2 (fungible_at parent_location 200) xt_ready = Ok (Some 2) xt_ready"
  by (simp add: get_fee_def lookup_id_def asset_decimals_def is_native_asset_def is_native_asset_id_def
      convert_fee_from_pha_def estimate_fee_in_pha_def bridge_fee_def to_e12_def from_e12_def pow10_def
      saturating_mul_def Let_def ksm_def ksm_properties_def)

lemma ksm_fee: "get_fee small_pallets 2 (fungible_at (asset_location ksm) 200) xt_ready = Ok (Some 2) xt_ready"
  using small_fee by (simp add: ksm_def)

lemma ready_wrapper: "wrapper_inv small_pallets xt_ready"
proof -
  have "lists_rid small_pallets ksm \<lparr>ri_location = parent_location, ri_reserve_location = Some parent_location,
       ri_enabled_bridges = [\<lparr>xb_config = Xcmp, xb_metadata = []\<rparr>,
         \<lparr>xb_config = ChainBridge 2 ksm_rid (into_account small_pallets (bridge_reserve 2)) True, xb_metadata = []\<rparr>],
       ri_properties = ksm_properties\<rparr> ksm_rid"
    by (auto simp: lists_rid_def ksm_rid)
  moreover have "describes \<lparr>ri_location = parent_location, ri_reserve_location = Some parent_location,
       ri_enabled_bridges = bs, ri_properties = ps\<rparr> ksm" for bs ps
    by (simp add: describes_def ksm_reserve) (simp add: ksm_def)
  ultimately show ?thesis by (simp add: wrapper_inv_def)
qed

lemma ready_clash: "no_rid_clash small_pallets xt_ready"
  by (simp add: no_rid_clash_def)

lemma small_transfer:
  "\<exists>t. transfer_assets small_pallets (Signed [7]) ksm 2 [3] 200 xt_ready = Ok () t \<and>
     IdByAssets t = [ksm \<mapsto> 1] \<and> tokens (ledger t) 1 (into_account small_pallets (bridge_reserve 2)) = 698"
proof -
  have rid: "rid_to_assetid small_pallets ksm_rid xt_ready = Ok 1 xt_ready"
    by (simp add: rid_to_assetid_def gen_pha_rid_def into_rid_def lookup_by_resource_id_def lookup_id_def
        ksm_rid_def)
  have "\<exists>t. settle_outgoing small_pallets [7] 1 parent_location ksm_rid 2 [3] 200 2 xt_ready = Ok () t \<and>
     IdByAssets t = [ksm \<mapsto> 1] \<and> tokens (ledger t) 1 (into_account small_pallets (bridge_reserve 2)) = 698"
    by (simp add: settle_outgoing_def bridge_deposit_event_def into_account_def convert_balance_def transact_asset_def with_ledger_def token_take_def
        take_from_def token_give_def give_to_def bridge_reserve_def transfer_fungible_def emit_transfer_def
        chain_whitelisted_def bump_nonce_def)
  then show ?thesis
    by (simp add: transfer_assets_def ksm_reserve chain_whitelisted_def lookup_id_def ksm_rid rid ksm_fee
        convert_balance_def)
qed

theorem transfer_assets_books_witness:
  "\<exists>t. transfer_assets small_pallets (Signed [7]) ksm 2 [3] 200 xt_ready = Ok () t \<and>
     BridgeEvents t = [FungibleTransfer 2 1 ksm_rid 198 [3]]"
proof -
  obtain t where t: "transfer_assets small_pallets (Signed [7]) ksm 2 [3] 200 xt_ready = Ok () t"
    using small_transfer by blast
  then show ?thesis
    using transfer_assets_books [OF t] by (auto simp: ksm_rid ksm_fee)
qed

text \<open>
  C25. What leaves can come back: after a transfer of an asset to a chain that is not its reserve, the
  rest of the amount sits in the reserve account of that chain, and a transfer back under the same
  resource identifier to a local account burns from that account and mints the same asset to the
  recipient. It goes through whenever these two ledger operations do.
\<close>

theorem transfer_comes_back:
  assumes "transfer_assets X orig asset d to amount s = Ok () t"
    and "wrapper_inv X s" "no_rid_clash X s" "asset_reserve asset \<noteq> Some (bridge_reserve d)"
  shows "\<exists>i sender rest l. lookup_id t asset = Some i \<and> orig = Signed sender \<and>
    assets_transfer X i sender (into_account X (bridge_reserve d)) rest False l = Ok () (ledger t) \<and>
    (\<forall>dest nw who back b b' u v. decode_location X dest = Some (at_location 0 [AccountId32 nw who]) \<and>
       to_asset_balance X back i (ledger t) = Some b \<and>
       assets_burn_from X i (into_account X (bridge_reserve d)) b (ledger t) = Ok () u \<and>
       to_asset_balance X back i u = Some b' \<and> assets_mint_into X i who b' u = Ok () v \<longrightarrow>
       bridge_transfer X T (Signed (bridge_account_id T)) dest back (into_rid X asset d) t =
         Ok () (xt_deposit_event (Deposited asset who back) (t\<lparr>ledger := v\<rparr>)))"
proof -
  from assms(1) obtain sender reserve i rest l where h:
    "orig = Signed sender" "asset_reserve asset = Some reserve" "IdByAssets s asset = Some i"
    "(if reserve = bridge_reserve d then assets_burn_from X i sender rest l
      else assets_transfer X i sender (into_account X (bridge_reserve d)) rest False l) = Ok () (ledger t)"
    "into_rid X asset d \<noteq> gen_pha_rid X (get_chainid (into_rid X asset d))"
    "AssetByResourceIds s (into_rid X asset d) \<noteq> None"
    "AssetByResourceIds t = AssetByResourceIds s" "IdByAssets t = IdByAssets s"
    by (rule transfer_assets_Ok)
  have res: "reserve \<noteq> bridge_reserve d" using assms(4) h(2) by auto
  have chain: "get_chainid (into_rid X asset d) = d"
    using assms(3) by (intro into_rid_parts(1)) (simp add: no_rid_clash_def)
  have "AssetByResourceIds s (into_rid X asset d) = Some asset"
    by (rule rid_resolves [OF assms(2,3) _ h(6)]) (simp add: h(3))
  then show ?thesis
    using h res incoming_to_account [where rid = "into_rid X asset d" and s = t and X = X and T = T, OF h(2)]
    by (intro exI [of _ i] exI [of _ sender] exI [of _ rest] exI [of _ l])
      (simp add: chain lookup_id_def)
qed

theorem transfer_comes_back_witness:
  "\<exists>t u. transfer_assets small_pallets (Signed [7]) ksm 2 [3] 200 xt_ready = Ok () t \<and>
     bridge_transfer small_pallets (xt_bridge small_wiring) (Signed [9]) [0] 100 ksm_rid t = Ok () u \<and>
     xt_log u = xt_log t @ [Deposited ksm [7] 100]"
proof -
  obtain t where t: "transfer_assets small_pallets (Signed [7]) ksm 2 [3] 200 xt_ready = Ok () t"
      "IdByAssets t = [ksm \<mapsto> 1]" "tokens (ledger t) 1 (into_account small_pallets (bridge_reserve 2)) = 698"
    using small_transfer by blast
  have "asset_reserve ksm \<noteq> Some (bridge_reserve 2)" by (simp add: ksm_reserve bridge_reserve_def)
  note ret = transfer_comes_back [where T = "xt_bridge small_wiring", OF t(1) ready_wrapper ready_clash this]
  obtain i where i: "lookup_id t ksm = Some i"
    and go: "\<And>u v. assets_burn_from small_pallets i (into_account small_pallets (bridge_reserve 2)) 100 (ledger t) = Ok () u
      \<Longrightarrow> assets_mint_into small_pallets i [7] 100 u = Ok () v \<Longrightarrow>
      bridge_transfer small_pallets (xt_bridge small_wiring) (Signed [9]) [0] 100 ksm_rid t =
         Ok () (xt_deposit_event (Deposited ksm [7] 100) (t\<lparr>ledger := v\<rparr>))"
    using ret by (auto simp: ksm_rid)
  have "i = 1" using i t(2) by (simp add: lookup_id_def)
  then have "\<exists>u. token_take i (into_account small_pallets (bridge_reserve 2)) 100 (ledger t) = Ok () u"
    using t(3) by (simp add: token_take_def take_from_def)
  then show ?thesis using t(1) go by (fastforce simp: xt_deposit_event_def)
qed


text \<open>
  A transfer from another chain that cannot be delivered is lost: when the proposal of an incoming
  transfer of the native token names a destination the pallet does not recognise, the vote that
  approves it fails, but the amount has already been withdrawn from the bridge account, and the
  proposal stays approved for good, so that it can never be executed again.
\<close>

theorem unroutable_transfer_burns_reserve:
  assumes "bridge_inv s" "is_relayer s who" "chain_whitelisted s c"
    and "Votes s (c, n, CallBridgeTransfer dest amount rid) = None" "RelayerThreshold s = 1"
    and "\<not> is_expired (default_votes\<lparr>expiry := block_number s + ProposalLifetime (xt_base W)\<rparr>) (block_number s)"
    and "rid = gen_pha_rid (xt_pallets W) d" "length (location_hash (xt_pallets W) here_location) = 32"
    and "decode_location (xt_pallets W) dest = Some loc" "\<not> parents loc \<le> 1"
    and "currency_withdraw (xt_pallets W) (bridge_account_id (xt_base W)) amount (ledger s) = Ok () l"
  shows "\<exists>u. xt_dispatch W (CallAcknowledge n c r (CallBridgeTransfer dest amount rid)) (Signed who) s =
      Err (transfer_err DestUnrecognized) u \<and> ledger u = l \<and>
    (\<forall>t. xt_reaches W u t \<longrightarrow> (\<exists>v. Votes t (c, n, CallBridgeTransfer dest amount rid) = Some v \<and> status v = Approved))"
proof -
  let ?X = "xt_pallets W" and ?p = "CallBridgeTransfer dest amount rid :: 'a xt_call"
  have chain: "get_chainid (gen_pha_rid ?X d) = d"
    unfolding gen_pha_rid_def by (rule into_rid_parts(1)) (simp add: assms(8))
  have par: "parents loc \<noteq> 0" "parents loc \<noteq> 1" using assms(10) by auto
  have nowhere: "settle_to_dest ?X x loc rid amount z = Err (transfer_err DestUnrecognized) z" for x z
    using par by (auto simp: settle_to_dest_def Let_def split: list.split junction.split)
  have lost: "bridge_transfer ?X (xt_base W) (Signed (bridge_account_id (xt_base W))) dest amount rid z =
      Err (transfer_err DestUnrecognized) (z\<lparr>ledger := l\<rparr>)" if "ledger z = ledger s" for z :: "('a, 'b) xt_runtime"
    using assms(7,9,11) chain nowhere that
    by (simp add: bridge_transfer_def ensure_bridge_def rid_to_location_def location_reserve_def
        junctions_reserve_def bridge_reserve_def release_reserve_def with_ledger_def)
  define v where "v = \<lparr>votes_for = [who], votes_against = [], status = Approved,
      expiry = block_number s + ProposalLifetime (xt_base W)\<rparr>"
  define u where "u = s\<lparr>Votes := (Votes s)((c, n, ?p) \<mapsto> v), ledger := l,
      bridge_log := bridge_log s @ [VoteFor c n who, ProposalApproved c n]\<rparr>"
  have eq: "xt_dispatch W (CallAcknowledge n c r ?p) (Signed who) s = Err (transfer_err DestUnrecognized) u"
    using assms(2-6)
    by (simp add: acknowledge_proposal_def vote_for_def commit_vote_def try_resolve_proposal_def
        default_votes_def is_complete_def has_voted_def try_to_complete_def finalize_execution_def
        bridge_deposit_event_def is_expired_def lost u_def v_def)
  have "bridge_inv u"
    using bf.exec_R [of s W "Dispatch (CallAcknowledge n c r ?p) (Signed who)"] assms(1)
    unfolding xt_exec.simps eq steps_simps bridge_rel_def by blast
  then have "votes_extend u t" if "xt_reaches W u t" for t using xt_reaches_bridge [OF that] by simp
  moreover have "Votes u (c, n, ?p) = Some v" by (simp add: u_def)
  ultimately have "\<exists>v. Votes t (c, n, ?p) = Some v \<and> status v = Approved" if "xt_reaches W u t" for t
    using that unfolding votes_extend_def vote_ext_def by (force simp: v_def is_complete_def)
  then show ?thesis using eq by (intro exI [of _ u]) (simp add: u_def)
qed

lemma ready_bridge: "bridge_inv xt_ready"
proof -
  have "bridge_inv xt_ready = bridge_inv xt_genesis"
    by (rule bridge_inv_cong) (simp_all add: xt_ready_def)
  then show ?thesis using genesis_bridge by simp
qed

theorem unroutable_transfer_burns_reserve_witness:
  "\<exists>u. xt_dispatch small_wiring (CallAcknowledge 1 2 [] (CallBridgeTransfer [2] 100 (gen_pha_rid small_pallets 2)))
      (Signed [1]) xt_ready = Err (transfer_err DestUnrecognized) u \<and> coins (ledger u) [9] = 400"
proof -
  have take: "coin_take [9] 100 (ledger xt_ready) = Ok () ((ledger xt_ready)\<lparr>coins := (coins (ledger xt_ready))([9] := 400)\<rparr>)"
    by (simp add: coin_take_def take_from_def)
  have "\<exists>u. xt_dispatch small_wiring (CallAcknowledge 1 2 [] (CallBridgeTransfer [2] 100 (gen_pha_rid small_pallets 2)))
      (Signed [1]) xt_ready = Err (transfer_err DestUnrecognized) u \<and>
      ledger u = (ledger xt_ready)\<lparr>coins := (coins (ledger xt_ready))([9] := 400)\<rparr> \<and>
      (\<forall>t. xt_reaches small_wiring u t \<longrightarrow> (\<exists>v. Votes t (2, 1,
        CallBridgeTransfer [2] 100 (gen_pha_rid small_pallets 2)) = Some v \<and> status v = Approved))"
  proof (rule unroutable_transfer_burns_reserve [OF ready_bridge, where d = 2 and loc = "at_location 2 []"])
    show "currency_withdraw (xt_pallets small_wiring) (bridge_account_id (xt_base small_wiring)) 100 (ledger xt_ready)
        = Ok () ((ledger xt_ready)\<lparr>coins := (coins (ledger xt_ready))([9] := 400)\<rparr>)"
      using take by (simp del: ready_simps)
  qed (simp_all add: is_relayer_def chain_whitelisted_def default_votes_def is_expired_def word_le_nat_alt)
  then show ?thesis by fastforce
qed

section \<open>Fees and decimals\<close>

text \<open>
  The fee of a bridge transfer is bounded: the stored scale never exceeds one thousandth parts of
  1000 in any storage the runtime reaches, so the fee in PHA is at least the minimal fee of the
  destination and at most the larger of that and the amount itself, as long as the product of the
  amount with the scale fits 128 bits.
\<close>

theorem bridge_fee_is_bounded:
  assumes "fees_ok s" "xt_reaches W s t" "unat amount * 1000 < 2 ^ 128"
  shows "fst (bridge_fee t d) \<le> estimate_fee_in_pha t d amount \<and>
    estimate_fee_in_pha t d amount \<le> max amount (fst (bridge_fee t d)) \<and> snd (bridge_fee t d) \<le> 1000"
proof -
  have ok: "fees_ok t" by (rule xt_reaches_fees [OF assms(2,1)])
  then have "snd (bridge_fee t d) \<le> 1000"
    by (cases "BridgeFee t d") (auto simp: bridge_fee_def fees_ok_def)
  then show ?thesis using estimate_fee_bounds [OF ok assms(3)] by blast
qed

theorem bridge_fee_is_bounded_witness: "estimate_fee_in_pha xt_ready 2 200 \<le> 200"
proof -
  have "fees_ok xt_ready" by (simp add: fees_ok_def word_le_nat_alt)
  moreover have "\<not> (200 :: u128) \<le> 1" by (simp add: word_le_nat_alt)
  ultimately show ?thesis using bridge_fee_is_bounded [OF _ xt_start [of small_wiring], of xt_ready 200 2]
    by (simp add: bridge_fee_def max_def split: if_splits)
qed

text \<open>
  Converting an amount to the 12 decimals of PHA and back is exact for assets with at most 12
  decimals whose scaled amount fits 128 bits, and for assets with more decimals (up to 50) it
  rounds down to the next multiple of the unit that 12 decimals can express.
\<close>

theorem decimals_round_trip:
  assumes "unat d \<le> 50" "unat d \<le> 12 \<longrightarrow> unat amount * 10 ^ (12 - unat d) < 2 ^ 128"
  shows "unat (from_e12 (to_e12 amount d) d) = unat amount - unat amount mod 10 ^ (unat d - 12) \<and>
    (unat d \<le> 12 \<longrightarrow> from_e12 (to_e12 amount d) d = amount)"
proof (cases "unat d \<le> 12")
  case True
  then show ?thesis using e12_scale_up [of d amount] assms by simp
next
  case False
  then show ?thesis using e12_scale_down [of d amount] assms by simp
qed

theorem decimals_round_trip_witness:
  "from_e12 (to_e12 (7 :: u128) 10) 10 = 7 \<and> unat (from_e12 (to_e12 1234567 18) 18) = 1000000"
  using decimals_round_trip [of 10 7] decimals_round_trip [of 18 1234567] by simp


section \<open>XCM\<close>

lemma with_ledger_parts:
  assumes "with_ledger f s = Ok x t"
  shows "ChainNonces t = ChainNonces s" "BridgeEvents t = BridgeEvents s" "xt_log t = xt_log s"
  using assms by (auto simp: with_ledger_Ok_iff)

lemma adapter_deposit_parts:
  assumes "adapter_deposit X a who s = Ok () t"
  shows "ChainNonces t = ChainNonces s" "BridgeEvents t = BridgeEvents s" "xt_log t = xt_log s"
  using assms with_ledger_parts unfolding adapter_deposit_def by (metis (full_types))+

lemma transfer_fungible_log:
  "transfer_fungible d rid to amount s = Ok () t \<Longrightarrow> xt_log t = xt_log s"
  by (auto simp: transfer_fungible_def emit_transfer_def bump_nonce_def Let_def bridge_deposit_event_def
      split: if_splits)

lemma forward_to_bridge_Ok:
  assumes "forward_to_bridge X what k d to s = Ok () t"
  obtains loc amount fee s1 s2 reserve where "what = fungible_at loc amount" "k = CB_ASSET_KEY" "unat d < 256"
    "get_fee X (ucast d) what s = (Ok (Some fee) s :: (xcm_error, _, _) outcome)" "fee < amount"
    "adapter_deposit X (fungible_at loc fee) (account_location (treasury_account X)) s = Ok () s1"
    "location_reserve loc = Some reserve"
    "(if reserve = bridge_reserve (ucast d) then Ok () s1 else adapter_deposit X (fungible_at loc (amount - fee))
        (account_location (into_account X (bridge_reserve (ucast d)))) s1) = Ok () s2"
    "transfer_fungible (ucast d) (into_rid X (XTransferAsset (if is_native_asset_id X loc then here_location else loc))
        (ucast d)) to (ucast (amount - fee)) s2 = Ok () t"
proof -
  from assms obtain loc amount where what: "ma_id what = Concrete loc" "ma_fun what = Fungible amount"
    and kd: "k = CB_ASSET_KEY" "unat d < 256"
    by (auto simp: forward_to_bridge_def split: if_splits fungibility.splits xcm_asset_id.splits)
  then have w: "what = fungible_at loc amount" by (simp add: fungible_at_def)
  from assms what kd obtain f u where fee: "(get_fee X (ucast d) what s :: (xcm_error, _, _) outcome) = Ok f u"
    by (auto simp: forward_to_bridge_def andthen_Ok_iff Let_def)
  have u: "u = s" by (rule get_fee_Ok [OF fee])
  from assms what kd fee u obtain fee s1 where f: "f = Some fee" "fee < amount"
    and s1: "adapter_deposit X (fungible_at loc fee) (account_location (treasury_account X)) s = Ok () s1"
    by (auto simp: forward_to_bridge_def andthen_Ok_iff Let_def split: option.splits if_splits)
  from assms what kd fee u f s1 obtain reserve s2 where r: "location_reserve loc = Some reserve"
    and s2: "(if reserve = bridge_reserve (ucast d) then Ok () s1 else adapter_deposit X (fungible_at loc (amount - fee))
        (account_location (into_account X (bridge_reserve (ucast d)))) s1) = Ok () s2"
    and tf: "transfer_fungible (ucast d) (into_rid X (XTransferAsset (if is_native_asset_id X loc then here_location else loc))
        (ucast d)) to (ucast (amount - fee)) s2 = Ok () t"
    by (cases "location_reserve loc = Some (bridge_reserve (ucast d))"; cases "is_native_asset_id X loc")
      (auto simp: forward_to_bridge_def andthen_Ok_iff Let_def is_native_asset_def split: option.splits if_splits)
  show thesis by (rule that [OF w kd _ f(2) s1 r s2 tf]) (use fee u f in simp)
qed

text \<open>
  An XCM deposit to a location behind the bridge leaves the chain as one bridge transfer: the asset is
  concrete and fungible, the fee goes to the treasury, the positive rest is credited to the reserve
  account of the destination unless the asset goes home, and the relayers are told, under the next
  number, to pay out exactly that rest; the native token goes by its local location.
\<close>

theorem xcm_deposit_crosses_bridge:
  assumes "deposit_asset X what (at_location 0 [GeneralKey k, GeneralIndex d, GeneralKey to]) s = Ok () t"
  shows "\<exists>loc amount fee n s1 s2. what = fungible_at loc amount \<and> k = CB_ASSET_KEY \<and> unat d < 256 \<and>
    get_fee X (ucast d) what s = (Ok (Some fee) s :: (xcm_error, _, _) outcome) \<and> fee < amount \<and>
    adapter_deposit X (fungible_at loc fee) (account_location (treasury_account X)) s = Ok () s1 \<and>
    (if location_reserve loc = Some (bridge_reserve (ucast d)) then s2 = s1
     else adapter_deposit X (fungible_at loc (amount - fee))
       (account_location (into_account X (bridge_reserve (ucast d)))) s1 = Ok () s2) \<and> ledger t = ledger s2 \<and>
    ChainNonces s (ucast d) = Some n \<and> ChainNonces t (ucast d) = Some (n + 1) \<and>
    BridgeEvents t = BridgeEvents s @ [FungibleTransfer (ucast d) (n + 1)
      (into_rid X (XTransferAsset (if is_native_asset_id X loc then here_location else loc)) (ucast d))
      (ucast (amount - fee)) to] \<and>
    xt_log t = xt_log s @ [XcmDeposited what (at_location 0 [GeneralKey k, GeneralIndex d, GeneralKey to])]"
proof -
  from assms obtain u where fw: "forward_to_bridge X what k d to s = Ok () u"
    and t: "t = xt_deposit_event (XcmDeposited what (at_location 0 [GeneralKey k, GeneralIndex d, GeneralKey to])) u"
    by (auto simp: deposit_asset_def andthen_Ok_iff)
  from fw obtain loc amount fee s1 s2 reserve where h: "what = fungible_at loc amount" "k = CB_ASSET_KEY" "unat d < 256"
    "get_fee X (ucast d) what s = (Ok (Some fee) s :: (xcm_error, _, _) outcome)" "fee < amount"
    "adapter_deposit X (fungible_at loc fee) (account_location (treasury_account X)) s = Ok () s1"
    and r: "location_reserve loc = Some reserve"
    and s2: "(if reserve = bridge_reserve (ucast d) then Ok () s1 else adapter_deposit X (fungible_at loc (amount - fee))
        (account_location (into_account X (bridge_reserve (ucast d)))) s1) = Ok () s2"
    and tf: "transfer_fungible (ucast d) (into_rid X (XTransferAsset (if is_native_asset_id X loc then here_location else loc))
        (ucast d)) to (ucast (amount - fee)) s2 = Ok () u"
    by (rule forward_to_bridge_Ok)
  have parts: "ChainNonces s2 = ChainNonces s" "BridgeEvents s2 = BridgeEvents s" "xt_log s2 = xt_log s"
    using adapter_deposit_parts [OF h(6)] s2 adapter_deposit_parts [of X _ _ s1 s2] by (auto split: if_splits)
  from transfer_fungible_Ok [OF tf] obtain n where "ChainNonces s2 (ucast d) = Some n"
    "BridgeEvents u = BridgeEvents s2 @ [FungibleTransfer (ucast d) (n + 1) (into_rid X
       (XTransferAsset (if is_native_asset_id X loc then here_location else loc)) (ucast d)) (ucast (amount - fee)) to]"
    "ChainNonces u (ucast d) = Some (n + 1)" "ledger u = ledger s2" by auto
  then show ?thesis using h r s2 parts transfer_fungible_log [OF tf]
    by (intro exI [of _ loc] exI [of _ amount] exI [of _ fee] exI [of _ n] exI [of _ s1] exI [of _ s2])
      (auto simp: t xt_deposit_event_def split: if_splits)
qed

lemma small_xcm_deposit:
  "\<exists>t. deposit_asset small_pallets (fungible_at parent_location 200)
     (at_location 0 [GeneralKey [99, 98], GeneralIndex 2, GeneralKey [3]]) xt_ready = Ok () t"
proof -
  have dep: "adapter_deposit small_pallets (fungible_at parent_location v) (account_location w) z =
      Ok () (z\<lparr>ledger := token_give 1 w v (ledger z)\<rparr>)" if "IdByAssets z = [ksm \<mapsto> 1]"
    for v w and z :: "(unit, coin_ledger) xt_runtime"
    using that by (simp add: adapter_deposit_def is_native_asset_def is_native_asset_id_def with_ledger_def
        account_location_def ksm_def)
      (simp add: small_pallets_def concrete_assets_matcher_def lookup_id_def)
  show ?thesis
    by (simp add: deposit_asset_def forward_to_bridge_def CB_ASSET_KEY_def small_fee dep word_less_nat_alt
        location_reserve_def bridge_reserve_def Let_def transfer_fungible_def emit_transfer_def
        chain_whitelisted_def bump_nonce_def)
qed

theorem xcm_deposit_crosses_bridge_witness:
  "\<exists>t n r. deposit_asset small_pallets (fungible_at parent_location 200)
     (at_location 0 [GeneralKey [99, 98], GeneralIndex 2, GeneralKey [3]]) xt_ready = Ok () t \<and>
     BridgeEvents t = [FungibleTransfer 2 n r 198 [3]]"
proof -
  obtain t where t: "deposit_asset small_pallets (fungible_at parent_location 200)
     (at_location 0 [GeneralKey [99, 98], GeneralIndex 2, GeneralKey [3]]) xt_ready = Ok () t"
    using small_xcm_deposit by blast
  have loc: "fungible_at parent_location 200 = fungible_at l a \<longleftrightarrow> l = parent_location \<and> a = 200" for l a
    by (auto simp: fungible_at_def)
  show ?thesis using t xcm_deposit_crosses_bridge [OF t] by (auto simp: loc small_fee)
qed


definition execution_chains :: "'x xt_config \<Rightarrow> xcm_session \<Rightarrow> multi_location list" where
  "execution_chains X m = (case concrete_asset_origin (xs_asset m) of
     None \<Rightarrow> []
   | Some reserve \<Rightarrow> if is_native_asset_id X reserve \<or> reserve = xs_dest_location m
       then [xs_dest_location m] else [reserve, xs_dest_location m])"

text \<open>
  The XCM message of a transfer follows the reserve of the asset. It is refused only when the reserve is
  unknown or the fee cannot be re-anchored on a chain where execution is bought; otherwise it
  withdraws the asset (and the fee, when the asset does not contain it), visits the destination, and
  before it the reserve chain when that is a third one (from the relay chain the destination is
  named relative to it), buys execution on each of them with the fee re-anchored there, and deposits
  to the recipient.
\<close>

theorem message_follows_reserve:
  "case session_message X m of
     Inl e \<Rightarrow> (concrete_asset_origin (xs_asset m) = None \<and> e = xcm_err UnknownTransfer) \<or>
       (list_ex (\<lambda>loc. reanchored X (xs_fee m) loc = None) (execution_chains X m) \<and> e = xcm_err CannotReanchor)
   | Inr msg \<Rightarrow> (\<exists>fees. hd msg = WithdrawAsset (if asset_contains X (xs_asset m) (xs_fee m) then [xs_asset m]
          else [xs_asset m, xs_fee m]) \<and>
       route msg = (case execution_chains X m of
            [reserve, dest] \<Rightarrow> [reserve, if reserve = parent_location then at_location 0 (interior dest) else dest]
          | locs \<Rightarrow> locs, Some (account_location (xs_recipient m))) \<and>
       map Some fees = map (reanchored X (xs_fee m)) (execution_chains X m) \<and>
       purchases msg = map (\<lambda>fee. (fee, xs_dest_weight m)) fees)"
proof (cases "concrete_asset_origin (xs_asset m)")
  case None
  then show ?thesis by (simp add: session_message_def session_kind_def Let_def split: prod.split)
next
  case (Some reserve)
  show ?thesis
  proof (cases "is_native_asset_id X reserve \<or> reserve = xs_dest_location m")
    case True
    then have chains: "execution_chains X m = [xs_dest_location m]" by (simp add: execution_chains_def Some)
    show ?thesis
      using True by (cases "is_native_asset_id X reserve"; cases "reanchored X (xs_fee m) (xs_dest_location m)")
        (auto simp: session_message_def session_kind_def Some chains buy_execution_on_def Let_def
          intro: exI [of _ "[_]"])
  next
    case False
    then have chains: "execution_chains X m = [reserve, xs_dest_location m]" by (simp add: execution_chains_def Some)
    have kind: "session_kind X m = Some ToNonReserve" using False by (simp add: session_kind_def Some)
    show ?thesis
    proof (cases "reanchored X (xs_fee m) reserve = None \<or> reanchored X (xs_fee m) (xs_dest_location m) = None")
      case True
      then show ?thesis
        by (auto simp: session_message_def kind Some chains buy_execution_on_def Let_def split: option.split)
    next
      case False
      then obtain f g where f: "reanchored X (xs_fee m) reserve = Some f"
        "reanchored X (xs_fee m) (xs_dest_location m) = Some g" by auto
      then show ?thesis
        by (auto simp: session_message_def kind Some chains buy_execution_on_def invert_based_reserve_def Let_def
            intro!: exI [of _ "[f, g]"])
    qed
  qed
qed

section \<open>The bridge in the wired runtime\<close>

text \<open>
  C26. What the bridge pallet promises survives the wiring: whatever calls are dispatched (proposals that vote
  on proposals included), whatever XCM messages arrive and however the executor uses the transactor,
  in every storage the runtime reaches the transfers to each chain are numbered 1, 2, 3 and so on,
  a proposal that was complete has kept its record, and the relayer count is right.
\<close>

theorem bridge_promises_survive_wiring:
  assumes "bridge_inv s" "numbered s" "xt_reaches W s t"
  shows "nonces_to d t = map of_nat [1..<Suc (length (nonces_to d t))] \<and>
    ChainNonces t d \<in> {None, Some (of_nat (length (nonces_to d t)))} \<and>
    (\<forall>k v. Votes s k = Some v \<and> is_complete v \<longrightarrow> Votes t k = Some v) \<and>
    RelayerCount t = of_nat (card {a. is_relayer t a})"
proof -
  have "bridge_inv t" "votes_extend s t" using xt_reaches_bridge [OF assms(3,1)] by simp_all
  moreover have "numbered t" by (rule xt_reaches_numbered [OF assms(3,2)])
  ultimately show ?thesis
    by (force simp: numbered_def bridge_inv_def relayer_set_def votes_extend_def vote_ext_def)
qed

lemma genesis_numbered: "numbered xt_genesis"
  by (simp add: numbered_def nonces_to_def xt_genesis_def)

theorem bridge_promises_survive_wiring_witness:
  "\<exists>t. xt_reaches small_wiring xt_genesis t \<and> RelayerCount t = of_nat (card {a. is_relayer t a}) \<and>
     is_relayer t [4]"
proof -
  have "\<exists>t. xt_exec small_wiring (Dispatch (CallAddRelayer [4]) Root) xt_genesis = Ok () t \<and> is_relayer t [4]"
    by (simp add: add_relayer_def register_relayer_def small_wiring_def is_relayer_def xt_genesis_def
        bridge_deposit_event_def)
  then obtain t where t: "xt_exec small_wiring (Dispatch (CallAddRelayer [4]) Root) xt_genesis = Ok () t"
    "is_relayer t [4]" by blast
  have r: "xt_reaches small_wiring xt_genesis t"
    by (rule xt_step [OF xt_start, of _ "Dispatch (CallAddRelayer [4]) Root"]) (simp only: t(1) left_state.simps)
  from bridge_promises_survive_wiring [OF genesis_bridge genesis_numbered r] r t(2) show ?thesis by blast
qed

text \<open>
  Proposals dispatch as the runtime does: although the model's dispatcher is defined by recursion on the
  call and hands each vote only the dispatch of its own proposal, voting through it is voting with
  the full dispatcher of the runtime.
\<close>

theorem proposals_dispatch_runtime_calls:
  "xt_dispatch W (CallAcknowledge n c r p) orig s = bridge_exec (xt_bridge W) (Acknowledge orig n c r p) s \<and>
   xt_dispatch W (CallReject n c r p) orig s = bridge_exec (xt_bridge W) (Reject orig n c r p) s \<and>
   xt_dispatch W (CallEvalVoteState n c p) orig s = bridge_exec (xt_bridge W) (EvalVoteState orig n c p) s \<and>
   dispatch_call (xt_bridge W) p orig s = xt_dispatch W p orig s"
  by (simp only: xt_dispatch_votes bridge_exec.simps xt_bridge_simps simp_thms)

end
