(* ===== verification/Egress.thy ===== *)
theory Egress
  imports Message_Queue "HOL-Library.List_Lexorder" "HOL-Library.Product_Lexorder"
begin

text \<open>
  The egress queue of a worker, \<open>src/crates/phala-mq/src/send_queue.rs\<close>: messages for the chain are
  numbered per sender, signed with their number and kept until the chain has taken them. The map
  of channels is shared behind a lock, so a method is one step on it. The loop of the RPC extension
  that tells a relayer the next free number, \<open>src/crates/phala-node-rpc-ext/src/mq_seq.rs\<close>, is here
  too.
\<close>

section \<open>The order of the senders\<close>

text \<open>The derived order of \<open>MessageOrigin\<close>: by constructor, then by the bytes; the map of channels is kept in it.\<close>

fun origin_key :: "message_origin \<Rightarrow> nat \<times> bytes" where
  "origin_key (PalletOrigin b) = (0, b)"
| "origin_key (ContractOrigin b) = (1, b)"
| "origin_key (WorkerOrigin b) = (2, b)"
| "origin_key (AccountOrigin b) = (3, b)"
| "origin_key (MultiLocationOrigin b) = (4, b)"
| "origin_key GatekeeperOrigin = (5, [])"

lemma origin_key_eq [simp]: "origin_key x = origin_key y \<longleftrightarrow> x = y"
  by (cases x; cases y) simp_all

instantiation message_origin :: linorder
begin

definition less_eq_message_origin :: "message_origin \<Rightarrow> message_origin \<Rightarrow> bool" where
  "less_eq_message_origin x y \<longleftrightarrow> origin_key x \<le> origin_key y"

definition less_message_origin :: "message_origin \<Rightarrow> message_origin \<Rightarrow> bool" where
  "less_message_origin x y \<longleftrightarrow> origin_key x < origin_key y"

instance
proof
  fix x y z :: message_origin
  show "x < y \<longleftrightarrow> x \<le> y \<and> \<not> y \<le> x" unfolding less_eq_message_origin_def less_message_origin_def by (rule less_le_not_le)
  show "x \<le> x" by (simp add: less_eq_message_origin_def)
  show "x \<le> y \<Longrightarrow> y \<le> z \<Longrightarrow> x \<le> z" unfolding less_eq_message_origin_def by (rule order.trans)
  show "x \<le> y \<Longrightarrow> y \<le> x \<Longrightarrow> x = y" unfolding less_eq_message_origin_def by (auto dest: order.antisym)
  show "x \<le> y \<or> y \<le> x" unfolding less_eq_message_origin_def by (rule linear)
qed

end

section \<open>The queue\<close>

record egress_channel =
  ch_sequence :: u64
  ch_messages :: "signed_message list"
  ch_dummy :: bool

type_synonym send_queue = "message_origin \<rightharpoonup> egress_channel"

definition default_channel :: egress_channel where
  "default_channel = \<lparr>ch_sequence = 0, ch_messages = [], ch_dummy = False\<rparr>"

definition channel_entry :: "send_queue \<Rightarrow> message_origin \<Rightarrow> egress_channel" where
  "channel_entry q sender = (case q sender of Some e \<Rightarrow> e | None \<Rightarrow> default_channel)"

definition enqueue_message :: "message_origin \<Rightarrow> (u64 \<Rightarrow> signed_message) \<Rightarrow> send_queue \<Rightarrow> send_queue" where
  "enqueue_message sender mk q =
     (let entry = channel_entry q sender;
          entry = (if \<not> ch_dummy entry
                   then entry\<lparr>ch_messages := ch_messages entry @ [mk (ch_sequence entry)]\<rparr> else entry)
      in q(sender \<mapsto> entry\<lparr>ch_sequence := ch_sequence entry + 1\<rparr>))"

definition set_dummy_mode :: "message_origin \<Rightarrow> bool \<Rightarrow> send_queue \<Rightarrow> send_queue" where
  "set_dummy_mode sender dummy q = q(sender \<mapsto> (channel_entry q sender)\<lparr>ch_dummy := dummy\<rparr>)"

definition queue_messages :: "send_queue \<Rightarrow> message_origin \<Rightarrow> signed_message list" where
  "queue_messages q sender = (case q sender of Some e \<Rightarrow> ch_messages e | None \<Rightarrow> [])"

definition purge :: "(message_origin \<Rightarrow> u64) \<Rightarrow> send_queue \<Rightarrow> send_queue" where
  "purge next_sequence_for q = (\<lambda>k. map_option (\<lambda>v. let seq = next_sequence_for k in
     v\<lparr>ch_messages := filter (\<lambda>msg. sm_sequence msg \<ge> seq) (ch_messages v)\<rparr>) (q k))"

definition all_messages :: "send_queue \<Rightarrow> signed_message list" where
  "all_messages q = concat (map (queue_messages q) (sorted_list_of_set (dom q)))"

definition all_messages_grouped :: "send_queue \<Rightarrow> message_origin \<rightharpoonup> signed_message list" where
  "all_messages_grouped q = (\<lambda>k. map_option ch_messages (q k))"

definition count_messages :: "send_queue \<Rightarrow> u64" where
  "count_messages q = sum_list (map (\<lambda>k. of_nat (length (queue_messages q k))) (sorted_list_of_set (dom q)))"

lemma all_messages_counted: "count_messages q = of_nat (length (all_messages q))"
proof -
  have "sum_list (map (\<lambda>k. of_nat (length (queue_messages q k))) ks) =
      (of_nat (length (concat (map (queue_messages q) ks))) :: u64)" for ks
    by (induction ks) simp_all
  then show ?thesis by (simp add: count_messages_def all_messages_def)
qed

lemma all_messages_set:
  assumes "finite (dom q)"
  shows "set (all_messages q) = (\<Union>k. set (queue_messages q k))"
proof -
  have "k \<in> dom q" if "m \<in> set (queue_messages q k)" for m k
    using that by (cases "q k") (simp_all add: queue_messages_def domI)
  then have "(\<Union>k \<in> dom q. set (queue_messages q k)) = (\<Union>k. set (queue_messages q k))" by blast
  then show ?thesis using assms by (simp add: all_messages_def)
qed

text \<open>Signing; the signer is the sender's, its signature function a parameter.\<close>

record signing_message =
  sg_message :: message
  sg_signer :: "bytes \<Rightarrow> bytes"

definition sign_with_sequence :: "'b phala_config \<Rightarrow> signing_message \<Rightarrow> u64 \<Rightarrow> signed_message" where
  "sign_with_sequence T m sequence =
     \<lparr>sm_message = sg_message m, sm_sequence = sequence,
      sm_signature = sg_signer m (enc_to_be_signed T (sg_message m) sequence)\<rparr>"

definition prepare_with_data :: "message_origin \<Rightarrow> (bytes \<Rightarrow> bytes) \<Rightarrow> bytes \<Rightarrow> topic \<Rightarrow> signing_message" where
  "prepare_with_data sender signer payload to =
     \<lparr>sg_message = \<lparr>m_sender = sender, m_destination = to, m_payload = payload\<rparr>, sg_signer = signer\<rparr>"

definition push_data :: "'b phala_config \<Rightarrow> message_origin \<Rightarrow> (bytes \<Rightarrow> bytes) \<Rightarrow> bytes \<Rightarrow> topic \<Rightarrow>
    send_queue \<Rightarrow> send_queue" where
  "push_data T sender signer payload to q =
     enqueue_message sender (sign_with_sequence T (prepare_with_data sender signer payload to)) q"

section \<open>The next free number\<close>

text \<open>
  \<open>get_mq_seq\<close> walks the ready transactions of the pool, given by the tags each provides, and counts
  on from the number stored on the chain. The inner loop stops at the first tag that matches.
\<close>

definition count_tx :: "'b phala_config \<Rightarrow> message_origin \<Rightarrow> bytes list \<Rightarrow> u64 \<Rightarrow> u64" where
  "count_tx T sender tags seq = (if mq_tag T sender seq \<in> set tags then seq + 1 else seq)"

definition get_mq_seq :: "'b phala_config \<Rightarrow> message_origin \<Rightarrow> bytes list list \<Rightarrow> 'b chain \<Rightarrow> u64" where
  "get_mq_seq T sender ready s = foldl (\<lambda>seq tags. count_tx T sender tags seq) (expected_seq sender s) ready"

end
