(* ===== verification/Egress_Claims.thy ===== *)
theory Egress_Claims
  imports Egress Queue_Claims
begin

text \<open>
  The egress queue of a worker and the chain together: whatever the order in which messages are
  pushed, relayed (also repeatedly, or too early) and purged, the chain takes exactly the pushed
  messages, each once and in order, and the queue keeps those the chain still needs.
\<close>

section \<open>A worker and the chain\<close>

text \<open>
  A step: the worker \<open>x\<close> pushes data, somebody relays the message at a position of its queue to the
  chain, the queue is purged up to the number the chain expects, or the chain runs any operation.
\<close>

datatype egress_op =
    PushData bytes topic
  | Relay origin nat
  | PurgeQueue
  | OnChain phala_op

fun egress_step :: "codec \<Rightarrow> 'b phala_config \<Rightarrow> message_origin \<Rightarrow> (bytes \<Rightarrow> bytes) \<Rightarrow> egress_op \<Rightarrow>
    send_queue \<times> 'b chain \<Rightarrow> send_queue \<times> 'b chain" where
  "egress_step C T x sg (PushData payload to) (q, s) = (push_data T x sg payload to q, s)"
| "egress_step C T x sg (Relay orig i) (q, s) =
     (if i < length (queue_messages q x)
      then (q, phala_step C T (SyncMessage orig (queue_messages q x ! i)) s) else (q, s))"
| "egress_step C T x sg PurgeQueue (q, s) = (purge (\<lambda>k. expected_seq k s) q, s)"
| "egress_step C T x sg (OnChain op) (q, s) = (q, phala_step C T op s)"

text \<open>What a step pushed, and what the chain took from \<open>x\<close> in it.\<close>

fun pushed :: "'b phala_config \<Rightarrow> message_origin \<Rightarrow> (bytes \<Rightarrow> bytes) \<Rightarrow> egress_op \<Rightarrow>
    send_queue \<times> 'b chain \<Rightarrow> signed_message list" where
  "pushed T x sg (PushData payload to) (q, s) =
     [sign_with_sequence T (prepare_with_data x sg payload to) (ch_sequence (channel_entry q x))]"
| "pushed T x sg _ (q, s) = []"

fun taken :: "codec \<Rightarrow> 'b phala_config \<Rightarrow> message_origin \<Rightarrow> egress_op \<Rightarrow> send_queue \<times> 'b chain \<Rightarrow>
    signed_message list" where
  "taken C T x (Relay orig i) (q, s) =
     (if i < length (queue_messages q x) then accepts C T (SyncMessage orig (queue_messages q x ! i)) s else [])"
| "taken C T x (OnChain op) (q, s) = filter (\<lambda>sm. m_sender (sm_message sm) = x) (accepts C T op s)"
| "taken C T x _ (q, s) = []"

fun egress_run :: "codec \<Rightarrow> 'b phala_config \<Rightarrow> message_origin \<Rightarrow> (bytes \<Rightarrow> bytes) \<Rightarrow> egress_op list \<Rightarrow>
    send_queue \<times> 'b chain \<Rightarrow> signed_message list \<Rightarrow> signed_message list \<Rightarrow>
    (send_queue \<times> 'b chain) \<times> signed_message list \<times> signed_message list" where
  "egress_run C T x sg [] z sent got = (z, sent, got)"
| "egress_run C T x sg (op # ops) z sent got =
     egress_run C T x sg ops (egress_step C T x sg op z) (sent @ pushed T x sg op z) (got @ taken C T x op z)"

text \<open>Nobody else can sign for \<open>x\<close>: the chain's own steps bring no message of \<open>x\<close>.\<close>

definition no_forgery :: "message_origin \<Rightarrow> egress_op \<Rightarrow> bool" where
  "no_forgery x op = (case op of OnChain (SyncMessage orig sm) \<Rightarrow> m_sender (sm_message sm) \<noteq> x | _ \<Rightarrow> True)"

section \<open>The invariant\<close>

definition egress_inv :: "message_origin \<Rightarrow> send_queue \<Rightarrow> 'b chain \<Rightarrow> signed_message list \<Rightarrow>
    signed_message list \<Rightarrow> bool" where
  "egress_inv x q s sent got \<longleftrightarrow>
     (\<forall>i < length sent. sm_sequence (sent ! i) = of_nat i \<and> m_sender (sm_message (sent ! i)) = x) \<and>
     \<not> ch_dummy (channel_entry q x) \<and> ch_sequence (channel_entry q x) = of_nat (length sent) \<and>
     (\<exists>k n. k \<le> n \<and> n \<le> length sent \<and> queue_messages q x = drop k sent \<and> got = take n sent \<and>
        expected_seq x s = of_nat n)"

lemma egress_invI:
  "\<forall>i < length sent. sm_sequence (sent ! i) = of_nat i \<and> m_sender (sm_message (sent ! i)) = x \<Longrightarrow>
   \<not> ch_dummy (channel_entry q x) \<Longrightarrow> ch_sequence (channel_entry q x) = of_nat (length sent) \<Longrightarrow>
   queue_messages q x = drop k sent \<Longrightarrow> k \<le> n \<Longrightarrow> n \<le> length sent \<Longrightarrow> got = take n sent \<Longrightarrow>
   expected_seq x s = of_nat n \<Longrightarrow> egress_inv x q s sent got"
  unfolding egress_inv_def by blast

lemma queue_messages_entry: "queue_messages q x = ch_messages (channel_entry q x)"
  by (simp add: queue_messages_def channel_entry_def default_channel_def split: option.split)

lemma channel_entry_upd [simp]: "channel_entry (q(x \<mapsto> e)) x = e"
  by (simp add: channel_entry_def)

lemma push_data_entry:
  "\<not> ch_dummy (channel_entry q x) \<Longrightarrow> channel_entry (push_data T x sg payload to q) x =
    (channel_entry q x)\<lparr>ch_messages := queue_messages q x @
        [sign_with_sequence T (prepare_with_data x sg payload to) (ch_sequence (channel_entry q x))],
      ch_sequence := ch_sequence (channel_entry q x) + 1\<rparr>"
  by (simp add: push_data_def enqueue_message_def queue_messages_entry Let_def)

lemma push_keeps:
  assumes inv: "egress_inv x q s sent got"
  shows "egress_inv x (push_data T x sg payload to q) s
    (sent @ pushed T x sg (PushData payload to) (q, s)) got"
proof -
  let ?m = "sign_with_sequence T (prepare_with_data x sg payload to) (ch_sequence (channel_entry q x))"
  from inv obtain k n where k: "k \<le> n" "n \<le> length sent" "queue_messages q x = drop k sent" "got = take n sent"
      "expected_seq x s = of_nat n"
    and nums: "\<forall>i < length sent. sm_sequence (sent ! i) = of_nat i \<and> m_sender (sm_message (sent ! i)) = x"
    and seq: "ch_sequence (channel_entry q x) = of_nat (length sent)" and d: "\<not> ch_dummy (channel_entry q x)"
    unfolding egress_inv_def by blast
  have "sm_sequence ?m = of_nat (length sent)" "m_sender (sm_message ?m) = x"
    by (simp_all add: sign_with_sequence_def prepare_with_data_def seq)
  then have nums': "\<forall>i < length (sent @ [?m]). sm_sequence ((sent @ [?m]) ! i) = of_nat i \<and>
      m_sender (sm_message ((sent @ [?m]) ! i)) = x"
    using nums by (auto simp: nth_append less_Suc_eq)
  have "queue_messages (push_data T x sg payload to q) x = drop k (sent @ [?m])"
    using k by (simp add: queue_messages_entry push_data_entry [OF d])
  then have "\<exists>k n. k \<le> n \<and> n \<le> length (sent @ [?m]) \<and>
      queue_messages (push_data T x sg payload to q) x = drop k (sent @ [?m]) \<and> got = take n (sent @ [?m]) \<and>
      expected_seq x s = of_nat n"
    using k by (intro exI [of _ k] exI [of _ n]) simp
  then show ?thesis unfolding egress_inv_def pushed.simps
    using nums' d seq by (simp add: push_data_entry [OF d])
qed

lemma filter_numbered:
  assumes "\<forall>i < length ms. f (ms ! i) = (of_nat (a + i) :: u64)" "a + length ms < 2 ^ 64" "n \<le> a + length ms"
  shows "filter (\<lambda>m. f m \<ge> (of_nat n :: u64)) ms = drop (n - a) ms"
  using assms
proof (induction ms arbitrary: a)
  case (Cons m ms)
  have "f m = of_nat a" using Cons.prems(1) by force
  moreover have "(of_nat n :: u64) \<le> of_nat a \<longleftrightarrow> n \<le> a"
    using Cons.prems(2,3) by (simp add: word_le_nat_alt unat_of_nat_small)
  moreover have "filter (\<lambda>m. f m \<ge> (of_nat n :: u64)) ms = drop (n - Suc a) ms"
    using Cons.prems by (intro Cons.IH) force+
  ultimately show ?case by (cases "n \<le> a") (auto simp: Suc_diff_Suc drop_Cons' not_le)
qed simp

lemma purge_keeps:
  assumes inv: "egress_inv x q s sent got" and len: "length sent < 2 ^ 64"
  shows "egress_inv x (purge (\<lambda>k. expected_seq k s) q) s sent got"
proof -
  from inv obtain k n where k: "k \<le> n" "n \<le> length sent" "queue_messages q x = drop k sent" "got = take n sent"
      "expected_seq x s = of_nat n"
    and nums: "\<forall>i < length sent. sm_sequence (sent ! i) = of_nat i \<and> m_sender (sm_message (sent ! i)) = x"
    unfolding egress_inv_def by blast
  have "queue_messages (purge (\<lambda>k. expected_seq k s) q) x =
      filter (\<lambda>m. sm_sequence m \<ge> expected_seq x s) (queue_messages q x)"
    by (cases "q x") (simp_all add: queue_messages_def purge_def)
  also have "\<dots> = drop (n - k) (drop k sent)"
    unfolding k(3,5) using k(1,2) nums len by (intro filter_numbered) (simp_all add: add.commute)
  also have "\<dots> = drop n sent" using k(1) by simp
  finally have "queue_messages (purge (\<lambda>k. expected_seq k s) q) x = drop n sent" .
  moreover have "ch_dummy (channel_entry (purge (\<lambda>k. expected_seq k s) q) x) = ch_dummy (channel_entry q x)"
    "ch_sequence (channel_entry (purge (\<lambda>k. expected_seq k s) q) x) = ch_sequence (channel_entry q x)"
    by (cases "q x"; simp add: channel_entry_def purge_def Let_def)+
  ultimately show ?thesis using inv k unfolding egress_inv_def by auto
qed

lemma relay_keeps:
  assumes inv: "egress_inv x q s sent got" and len: "length sent < 2 ^ 64" and i: "i < length (queue_messages q x)"
  shows "egress_inv x q (phala_step C T (SyncMessage orig (queue_messages q x ! i)) s) sent
    (got @ accepts C T (SyncMessage orig (queue_messages q x ! i)) s)"
proof -
  let ?sm = "queue_messages q x ! i" and ?op = "SyncMessage orig (queue_messages q x ! i)"
  from inv obtain k n where k: "k \<le> n" "n \<le> length sent" "queue_messages q x = drop k sent" "got = take n sent"
      "expected_seq x s = of_nat n"
    and nums: "\<forall>i < length sent. sm_sequence (sent ! i) = of_nat i \<and> m_sender (sm_message (sent ! i)) = x"
    and rest: "\<not> ch_dummy (channel_entry q x)" "ch_sequence (channel_entry q x) = of_nat (length sent)"
    unfolding egress_inv_def by blast
  have ki: "k + i < length sent" "?sm = sent ! (k + i)" using i k(3) by simp_all
  then have sm: "sm_sequence ?sm = of_nat (k + i)" "m_sender (sm_message ?sm) = x" using nums by simp_all
  have acc: "accepts C T ?op s = [] \<or> accepts C T ?op s = [?sm]"
    by (auto simp: accepts_def split: outcome.split)
  from step_sequences [of x C T ?op s] acc sm(2)
  have "(accepts C T ?op s = [] \<and> expected_seq x (phala_step C T ?op s) = of_nat n) \<or>
      (accepts C T ?op s = [?sm] \<and> sm_sequence ?sm = of_nat n \<and>
       expected_seq x (phala_step C T ?op s) = of_nat (Suc n))"
    by (auto simp: sequences_def k(5) add.commute)
  then show ?thesis
  proof
    assume a: "accepts C T ?op s = [?sm] \<and> sm_sequence ?sm = of_nat n \<and>
       expected_seq x (phala_step C T ?op s) = of_nat (Suc n)"
    have same: "(of_nat (k + i) :: u64) = of_nat n" using a sm(1) by (metis (no_types))
    have u: "unat (of_nat j :: u64) = j" if "j \<le> length sent" for j
      using that len by (intro unat_of_nat_small) simp
    have eq: "n = k + i"
      using u [OF less_imp_le [OF ki(1)]] u [OF k(2)] unfolding same by (metis (no_types))
    have got: "got @ [?sm] = take (Suc n) sent" using ki k(4) eq by (simp add: take_Suc_conv_app_nth)
    have acc: "got @ accepts C T ?op s = take (Suc n) sent" using a got by simp
    have "k \<le> Suc n" "Suc n \<le> length sent" using eq ki(1) by simp_all
    then show ?thesis using a by (intro egress_invI [OF nums rest k(3) _ _ acc]) simp_all
  qed (use k nums rest in \<open>auto simp: egress_inv_def\<close>)
qed

lemma chain_keeps:
  assumes inv: "egress_inv x q s sent got" and "no_forgery x (OnChain op)"
  shows "egress_inv x q (phala_step C T op s) sent
    (got @ filter (\<lambda>sm. m_sender (sm_message sm) = x) (accepts C T op s))"
proof -
  have none: "filter (\<lambda>sm. m_sender (sm_message sm) = x) (accepts C T op s) = []"
    using assms(2) by (cases op) (auto simp: no_forgery_def accepts_def split: outcome.split)
  then have "expected_seq x (phala_step C T op s) = expected_seq x s"
    using step_sequences [of x C T op s] by (auto simp: sequences_def)
  then show ?thesis using inv none by (simp add: egress_inv_def)
qed


lemma egress_step_keeps:
  assumes inv: "egress_inv x q s sent got" and len: "length (sent @ pushed T x sg op (q, s)) < 2 ^ 64"
    and ok: "no_forgery x op" and z: "egress_step C T x sg op (q, s) = (q', s')"
  shows "egress_inv x q' s' (sent @ pushed T x sg op (q, s)) (got @ taken C T x op (q, s))"
proof (cases op)
  case (PushData payload to)
  then show ?thesis using push_keeps [OF inv, of T sg payload to] z by simp
next
  case (Relay orig i)
  then show ?thesis using relay_keeps [OF inv, of i C T orig] inv len z by (auto split: if_splits)
next
  case PurgeQueue
  with z have "q' = purge (\<lambda>k. expected_seq k s) q" "s' = s" by auto
  then show ?thesis using purge_keeps [OF inv] len PurgeQueue by simp
next
  case (OnChain c)
  with z have "q' = q" "s' = phala_step C T c s" by auto
  then show ?thesis using chain_keeps [OF inv, of c C T] ok OnChain by simp
qed

lemma egress_run_grows:
  "egress_run C T x sg ops z sent got = (z', sent', got') \<Longrightarrow> length sent \<le> length sent'"
proof (induction ops arbitrary: z sent got)
  case (Cons op ops)
  have "length (sent @ pushed T x sg op z) \<le> length sent'"
    using Cons.prems by (intro Cons.IH) simp
  then show ?case by simp
qed simp

lemma egress_run_keeps:
  assumes "egress_run C T x sg ops (q, s) sent got = ((q', s'), sent', got')" "list_all (no_forgery x) ops"
    and "length sent' < 2 ^ 64" "egress_inv x q s sent got"
  shows "egress_inv x q' s' sent' got'"
  using assms
proof (induction ops arbitrary: q s sent got)
  case (Cons op ops)
  obtain q1 s1 where z: "egress_step C T x sg op (q, s) = (q1, s1)" by fastforce
  from Cons.prems(1) have run: "egress_run C T x sg ops (q1, s1) (sent @ pushed T x sg op (q, s))
      (got @ taken C T x op (q, s)) = ((q', s'), sent', got')" by (simp add: z)
  have "length (sent @ pushed T x sg op (q, s)) < 2 ^ 64"
    using egress_run_grows [OF run] Cons.prems(3) by simp
  then have "egress_inv x q1 s1 (sent @ pushed T x sg op (q, s)) (got @ taken C T x op (q, s))"
    using egress_step_keeps [OF Cons.prems(4) _ _ z] Cons.prems(2) by simp
  then show ?case using Cons.IH [OF run] Cons.prems(2,3) by simp
qed simp

text \<open>
  C5. Delivery is exactly once and in order: start a worker with an empty queue and let it push any
  data, let anybody relay messages of its queue to the chain at any time, in any order and any number
  of times, purge the queue against the chain in between, and let the chain run anything else (nobody
  else can sign for the worker). Then what the chain took from the worker is, in order, the first
  messages it pushed, as many as the chain's counter says, and every later message is still in the
  queue, the next expected one included, so that relaying can always go on.
\<close>

theorem delivery_is_exactly_once:
  assumes "q x = None" "expected_seq x s = 0" "list_all (no_forgery x) ops"
    and "egress_run C T x sg ops (q, s) [] [] = ((q', s'), sent, got)" "length sent < 2 ^ 64"
  shows "got = take (unat (expected_seq x s')) sent \<and> unat (expected_seq x s') \<le> length sent \<and>
    (\<forall>i. unat (expected_seq x s') \<le> i \<and> i < length sent \<longrightarrow>
       sent ! i \<in> set (queue_messages q' x) \<and> sm_sequence (sent ! i) = of_nat i)"
proof -
  have "egress_inv x q s [] []"
    by (rule egress_invI [of _ _ _ 0 0]) (simp_all add: assms(1,2) channel_entry_def default_channel_def queue_messages_def)
  from egress_run_keeps [OF assms(4,3,5) this]
  obtain k n where k: "k \<le> n" "n \<le> length sent" "queue_messages q' x = drop k sent" "got = take n sent"
      "expected_seq x s' = of_nat n"
    and nums: "\<forall>i < length sent. sm_sequence (sent ! i) = of_nat i \<and> m_sender (sm_message (sent ! i)) = x"
    unfolding egress_inv_def by blast
  have n: "unat (expected_seq x s') = n"
    unfolding k(5) by (rule unat_of_nat_small) (use k(2) assms(5) in simp)
  have "sent ! i \<in> set (drop k sent)" if "k \<le> i" "i < length sent" for i
    using that nth_mem [of "i - k" "drop k sent"] by simp
  then show ?thesis using k nums unfolding n by auto
qed

theorem delivery_is_exactly_once_witness:
  "\<exists>q' s' sent got. egress_run demo_codec demo (WorkerOrigin worker_a) (\<lambda>data. replicate 64 0)
     [PushData [1] [94], Relay (Signed staker_a) 0, PushData [2] [94], Relay (Signed staker_a) 1, PurgeQueue]
     (Map.empty, genesis) [] [] = ((q', s'), sent, got) \<and> length sent = 2 \<and>
     got = take (unat (expected_seq (WorkerOrigin worker_a) s')) sent"
proof -
  let ?ops = "[PushData [1] [94], Relay (Signed staker_a) 0, PushData [2] [94], Relay (Signed staker_a) 1, PurgeQueue]"
  obtain q' s' sent got where run: "egress_run demo_codec demo (WorkerOrigin worker_a) (\<lambda>data. replicate 64 0)
     ?ops (Map.empty, genesis) [] [] = ((q', s'), sent, got)"
    by (metis prod.exhaust)
  then have len: "length sent = 2" by (auto split: if_splits)
  have "expected_seq (WorkerOrigin worker_a) genesis = 0" by (simp add: expected_seq_def genesis_def)
  with delivery_is_exactly_once [OF _ _ _ run] len run show ?thesis by (auto simp: no_forgery_def)
qed

section \<open>The number a relayer is told\<close>

lemma get_mq_seq_snoc:
  "get_mq_seq T x (ready @ [tags]) s = count_tx T x tags (get_mq_seq T x ready s)"
  by (simp add: get_mq_seq_def)

text \<open>Transactions are ready only behind those that provide the tags they require.\<close>

definition ready_in_order :: "'b phala_config \<Rightarrow> message_origin \<Rightarrow> u64 \<Rightarrow> bytes list list \<Rightarrow> bool" where
  "ready_in_order T x e ready \<longleftrightarrow> (\<forall>p j. p < length ready \<and> j < length ready \<and> mq_tag T x (e + of_nat j + 1) \<in> set (ready ! p) \<longrightarrow>
     (\<exists>p' < p. mq_tag T x (e + of_nat j) \<in> set (ready ! p')))"

lemma ready_in_order_prefix:
  assumes "ready_in_order T x e (ready @ [tags])"
  shows "ready_in_order T x e ready"
  unfolding ready_in_order_def
proof (intro allI impI, elim conjE)
  fix p j
  assume p: "p < length ready" and j: "j < length ready" "mq_tag T x (e + of_nat j + 1) \<in> set (ready ! p)"
  then obtain p' where "p' < p" "mq_tag T x (e + of_nat j) \<in> set ((ready @ [tags]) ! p')"
    using assms [unfolded ready_in_order_def, rule_format, of p j] by (auto simp: nth_append)
  then show "\<exists>p' < p. mq_tag T x (e + of_nat j) \<in> set (ready ! p')" using p by (auto simp: nth_append)
qed

lemma counted:
  assumes "ready_in_order T x (expected_seq x s) ready"
  shows "\<exists>k \<le> length ready. get_mq_seq T x ready s = expected_seq x s + of_nat k \<and>
    (\<forall>tags \<in> set ready. mq_tag T x (expected_seq x s + of_nat k) \<notin> set tags) \<and>
    (0 < k \<longrightarrow> (\<exists>tags \<in> set ready. mq_tag T x (expected_seq x s + of_nat k - 1) \<in> set tags))"
  using assms
proof (induction ready rule: rev_induct)
  case (snoc tags ready)
  let ?e = "expected_seq x s"
  from snoc obtain k where k: "k \<le> length ready" "get_mq_seq T x ready s = ?e + of_nat k"
    and free: "\<forall>tags \<in> set ready. mq_tag T x (?e + of_nat k) \<notin> set tags"
    and prev: "0 < k \<longrightarrow> (\<exists>tags \<in> set ready. mq_tag T x (?e + of_nat k - 1) \<in> set tags)"
    using ready_in_order_prefix [OF snoc.prems] by blast
  show ?case
  proof (cases "mq_tag T x (?e + of_nat k) \<in> set tags")
    case True
    have "mq_tag T x (?e + of_nat k + 1) \<notin> set t" if t: "t \<in> set (ready @ [tags])" for t
    proof
      assume "mq_tag T x (?e + of_nat k + 1) \<in> set t"
      then obtain p where "p < length (ready @ [tags])" "mq_tag T x (?e + of_nat k + 1) \<in> set ((ready @ [tags]) ! p)"
        using t by (metis in_set_conv_nth)
      then obtain p' where "p' < p" "p < Suc (length ready)" "mq_tag T x (?e + of_nat k) \<in> set ((ready @ [tags]) ! p')"
        using snoc.prems [unfolded ready_in_order_def, rule_format, of p k] k(1) by auto
      then have "p' < length ready" "mq_tag T x (?e + of_nat k) \<in> set (ready ! p')" by (auto simp: nth_append)
      with free show False by auto
    qed
    then show ?thesis using True k
      by (intro exI [of _ "Suc k"]) (auto simp: get_mq_seq_snoc count_tx_def add.commute add.left_commute)
  next
    case False
    then show ?thesis using k free prev
      by (intro exI [of _ k]) (auto simp: get_mq_seq_snoc count_tx_def)
  qed
qed (simp add: get_mq_seq_def)

text \<open>
  The number the RPC tells a relayer is the next free one: with the ready transactions in the order of
  their dependencies, no ready transaction provides the number's tag, and a message with that number
  is valid for the pool with everything it requires already provided.
\<close>

theorem told_sequence_is_free:
  assumes "ready_in_order T x (expected_seq x s) ready" "unat (expected_seq x s) + length ready < 2 ^ 64"
    and "m_sender (sm_message sm) = x" "sm_sequence sm = get_mq_seq T x ready s"
  shows "(\<forall>tags \<in> set ready. mq_tag T x (get_mq_seq T x ready s) \<notin> set tags) \<and>
    (\<exists>v. validate_tx T (Some sm) s = Inr v \<and> set (requires v) \<subseteq> (\<Union>tags \<in> set ready. set tags))"
proof -
  let ?e = "expected_seq x s"
  obtain k where k: "k \<le> length ready" "get_mq_seq T x ready s = ?e + of_nat k"
    and free: "\<forall>tags \<in> set ready. mq_tag T x (?e + of_nat k) \<notin> set tags"
    and prev: "0 < k \<longrightarrow> (\<exists>tags \<in> set ready. mq_tag T x (?e + of_nat k - 1) \<in> set tags)"
    using counted [OF assms(1)] by blast
  have uk: "unat (of_nat k :: u64) = k" by (rule unat_of_nat_small) (use k(1) assms(2) in simp)
  then have u: "unat (?e + of_nat k) = unat ?e + k"
    using k(1) assms(2) by (subst unat_plus_small) simp_all
  then have "\<not> ?e + of_nat k < ?e" "?e + of_nat k > ?e \<longleftrightarrow> 0 < k"
    by (simp_all add: word_less_nat_alt)
  then show ?thesis using free prev k(2) assms(3,4)
    by (auto simp: validate_tx_def Let_def)
qed

theorem told_sequence_is_free_witness:
  "\<exists>ready sm v. ready = [[mq_tag demo (WorkerOrigin worker_a) 0]] \<and> sm_sequence sm = 1 \<and>
     get_mq_seq demo (WorkerOrigin worker_a) ready genesis = 1 \<and> validate_tx demo (Some sm) genesis = Inr v \<and>
     set (requires v) \<subseteq> {mq_tag demo (WorkerOrigin worker_a) 0}"
proof -
  let ?x = "WorkerOrigin worker_a" and ?ready = "[[mq_tag demo (WorkerOrigin worker_a) 0]]"
  let ?sm = "\<lparr>sm_message = \<lparr>m_sender = ?x, m_destination = [94], m_payload = [1]\<rparr>, sm_sequence = 1, sm_signature = []\<rparr>"
  have e: "expected_seq ?x genesis = 0" by (simp add: expected_seq_def genesis_def)
  have g: "get_mq_seq demo ?x ?ready genesis = 1" by (simp add: get_mq_seq_def count_tx_def e)
  have "mq_tag demo ?x 1 \<noteq> mq_tag demo ?x 0" by (simp add: mq_tag_def demo_def)
  then have "ready_in_order demo ?x (expected_seq ?x genesis) ?ready" unfolding ready_in_order_def e
  proof (intro allI impI, elim conjE)
    fix p j
    assume "p < length ?ready" "j < length ?ready" "mq_tag demo ?x (0 + of_nat j + 1) \<in> set (?ready ! p)"
    then show "\<exists>p' < p. mq_tag demo ?x (0 + of_nat j) \<in> set (?ready ! p')"
      using \<open>mq_tag demo ?x 1 \<noteq> mq_tag demo ?x 0\<close> by simp
  qed
  from told_sequence_is_free [OF this, of ?sm] e g show ?thesis
    by (intro exI [of _ ?ready] exI [of _ ?sm]) auto
qed

end
