(* ===== verification/Chain_Selection.thy ===== *)
theory Chain_Selection
  imports Prelude
begin

text \<open>
  The chain selection of the relay chain node, \<open>relay_chain_selection.rs\<close> and the part of
  \<open>grandpa_support.rs\<close> it walks with (both under \<open>src/polkadot/node/service/src/\<close>): which block to
  vote for in GRANDPA. The database of headers, the other subsystems (asked through the overseer) and
  the longest chain rule of Substrate are parameters. What a request leaves behind is a log: the two
  gauges and the messages sent. A run is \<open>None\<close> when it does not end, as the walk through a database
  whose headers form a cycle does not.
\<close>

section \<open>Blocks and their database\<close>

type_synonym block_hash = "256 word"

record header =
  parent_hash :: block_hash
  number :: u32

record 'e header_provider =
  fetch_header :: "block_hash \<Rightarrow> 'e + header option"
  fetch_number :: "block_hash \<Rightarrow> 'e + u32 option"
  header_hash :: "header \<Rightarrow> block_hash"

datatype 'e lookup_failure =
    MissingHeader block_hash
  | MissingNumber block_hash
  | LookupFailed block_hash 'e
  | WalkFailed 'e

datatype selection_error =
    LeavesCanceled
  | BestLeafContainingCanceled
  | DetermineUndisputedChainCanceled
  | ApprovedAncestorCanceled
  | EmptyLeaves

datatype 'e consensus_error = ChainLookup "'e lookup_failure" | OtherError selection_error | Foreign nat

section \<open>The other subsystems\<close>

record 'd approved_ancestor =
  aa_hash :: block_hash
  aa_number :: u32
  aa_descriptions :: "'d list"

datatype 'd overseer_message =
    LeavesMsg
  | BestLeafContaining block_hash
  | ApprovedAncestor block_hash u32
  | DetermineUndisputedChain "u32 \<times> block_hash" "'d list"

text \<open>The answers; \<open>None\<close> at the outside when the answering subsystem drops the request.\<close>

record 'd overseer =
  leaves_answer :: "block_hash list option"
  best_leaf_answer :: "block_hash \<Rightarrow> block_hash option option"
  approved_answer :: "block_hash \<Rightarrow> u32 \<Rightarrow> 'd approved_ancestor option option"
  undisputed_answer :: "u32 \<times> block_hash \<Rightarrow> 'd list \<Rightarrow> (u32 \<times> block_hash) option"

record 'd vote_log =
  approval_checking_finality_lag :: "u32 option"
  disputes_finality_lag :: "u32 option"
  sent_messages :: "'d overseer_message list"

type_synonym ('e, 'a, 'd) run = "('e consensus_error, 'a, 'd vote_log) outcome option"

definition then_run :: "('e, 'a, 'd) run \<Rightarrow> ('a \<Rightarrow> 'd vote_log \<Rightarrow> ('e, 'b, 'd) run) \<Rightarrow> ('e, 'b, 'd) run" where
  "then_run r f = (case r of None \<Rightarrow> None
     | Some (Ok x s) \<Rightarrow> f x s | Some (Err e s) \<Rightarrow> Some (Err e s) | Some Panic \<Rightarrow> Some Panic)"

lemma then_run_simps [simp, outcome_simps]:
  "then_run (Some (Ok x s)) f = f x s"
  "then_run (Some (Err e s)) f = Some (Err e s)"
  "then_run (Some Panic) f = Some Panic"
  "then_run None f = None"
  by (simp_all add: then_run_def)

definition send_msg :: "'d overseer_message \<Rightarrow> 'd vote_log \<Rightarrow> 'd vote_log" where
  "send_msg m s = s\<lparr>sent_messages := sent_messages s @ [m]\<rparr>"

definition note_approval_checking_finality_lag :: "u32 \<Rightarrow> 'd vote_log \<Rightarrow> 'd vote_log" where
  "note_approval_checking_finality_lag lag s = s\<lparr>approval_checking_finality_lag := Some lag\<rparr>"

definition note_disputes_finality_lag :: "u32 \<Rightarrow> 'd vote_log \<Rightarrow> 'd vote_log" where
  "note_disputes_finality_lag lag s = s\<lparr>disputes_finality_lag := Some lag\<rparr>"

section \<open>Walking back\<close>

partial_function (option) walk_back :: "'e header_provider \<Rightarrow> u32 \<Rightarrow> block_hash \<Rightarrow> header \<Rightarrow> 's \<Rightarrow>
    ('e, block_hash \<times> u32, 's) outcome option" where
  "walk_back B target_number target_hash target_header s =
     (if number target_header < target_number then Some Panic
      else if number target_header = target_number then Some (Ok (target_hash, target_number) s)
      else case fetch_header B (parent_hash target_header) of
             Inl e \<Rightarrow> Some (Err e s)
           | Inr None \<Rightarrow> Some Panic
           | Inr (Some h) \<Rightarrow> walk_back B target_number (parent_hash target_header) h s)"

definition walk_backwards_to_target_block :: "'e header_provider \<Rightarrow> u32 \<Rightarrow> header \<Rightarrow> 's \<Rightarrow>
    ('e, block_hash \<times> u32, 's) outcome option" where
  "walk_backwards_to_target_block B target_number current_header s =
     walk_back B target_number (header_hash B current_header) current_header s"

text \<open>The voting rule that pauses at a block; an error of the walk counts as no restriction.\<close>

definition restrict_vote :: "'e header_provider \<Rightarrow> u32 \<times> u32 \<Rightarrow> header \<Rightarrow> header \<Rightarrow> header \<Rightarrow>
    (unit, (block_hash \<times> u32) option, unit) outcome option" where
  "restrict_vote B pause base best_target current_target =
     (if number current_target > fst pause then
        if number best_target > fst pause + snd pause then Some (Ok None ())
        else if number base \<ge> fst pause then Some (Ok (Some (header_hash B base, number base)) ())
        else case walk_backwards_to_target_block B (fst pause) current_target () of
               None \<Rightarrow> None
             | Some (Ok r _) \<Rightarrow> Some (Ok (Some r) ())
             | Some (Err _ _) \<Rightarrow> Some (Ok None ())
             | Some Panic \<Rightarrow> Some Panic
      else Some (Ok None ()))"

section \<open>The selection that listens to the other subsystems\<close>

record ('e, 'd) selector =
  backend :: "'e header_provider"
  overseer_of :: "'d overseer"
  disputes_enabled :: bool

definition MAX_FINALITY_LAG :: u32 where "MAX_FINALITY_LAG = 500"

definition block_header :: "('e, 'd) selector \<Rightarrow> block_hash \<Rightarrow> 'd vote_log \<Rightarrow> ('e, header, 'd) run" where
  "block_header S hash s = (case fetch_header (backend S) hash of
       Inr (Some header) \<Rightarrow> Some (Ok header s)
     | Inr None \<Rightarrow> Some (Err (ChainLookup (MissingHeader hash)) s)
     | Inl e \<Rightarrow> Some (Err (ChainLookup (LookupFailed hash e)) s))"

definition block_number_of :: "('e, 'd) selector \<Rightarrow> block_hash \<Rightarrow> 'd vote_log \<Rightarrow> ('e, u32, 'd) run" where
  "block_number_of S hash s = (case fetch_number (backend S) hash of
       Inr (Some n) \<Rightarrow> Some (Ok n s)
     | Inr None \<Rightarrow> Some (Err (ChainLookup (MissingNumber hash)) s)
     | Inl e \<Rightarrow> Some (Err (ChainLookup (LookupFailed hash e)) s))"

text \<open>The walk, with its error as a failed lookup.\<close>

definition walk_to :: "('e, 'd) selector \<Rightarrow> u32 \<Rightarrow> header \<Rightarrow> 'd vote_log \<Rightarrow> ('e, block_hash \<times> u32, 'd) run" where
  "walk_to S n h s = map_option (map_err (\<lambda>e. ChainLookup (WalkFailed e)))
     (walk_backwards_to_target_block (backend S) n h s)"

definition selector_leaves :: "('e, 'd) selector \<Rightarrow> 'd vote_log \<Rightarrow> ('e, block_hash list, 'd) run" where
  "selector_leaves S s =
     (let s = send_msg LeavesMsg s
      in case leaves_answer (overseer_of S) of
           None \<Rightarrow> Some (Err (OtherError LeavesCanceled) s)
         | Some leaves \<Rightarrow> Some (Ok leaves s))"

definition selector_best_chain :: "('e, 'd) selector \<Rightarrow> 'd vote_log \<Rightarrow> ('e, header, 'd) run" where
  "selector_best_chain S s =
     then_run (selector_leaves S s) (\<lambda>leaves s.
       case leaves of [] \<Rightarrow> Some (Err (OtherError EmptyLeaves) s)
       | best_leaf # _ \<Rightarrow> block_header S best_leaf s)"

text \<open>Step 4 of \<open>finality_target_with_longest_chain\<close>: the bound on the lag.\<close>

definition apply_safeguard :: "('e, 'd) selector \<Rightarrow> block_hash \<Rightarrow> u32 \<Rightarrow> block_hash \<Rightarrow> u32 \<Rightarrow> u32 \<Rightarrow>
    block_hash \<Rightarrow> 'd vote_log \<Rightarrow> ('e, block_hash, 'd) run" where
  "apply_safeguard S target_hash target_number initial_leaf initial_leaf_number lag subchain_head s =
     (if lag > MAX_FINALITY_LAG then
        let safe_target = initial_leaf_number - MAX_FINALITY_LAG
        in if safe_target \<le> target_number then Some (Ok target_hash s)
           else then_run (block_header S initial_leaf s) (\<lambda>initial_leaf_header s.
                then_run (walk_to S safe_target initial_leaf_header s) (\<lambda>(forced_target, _) s.
                  Some (Ok forced_target s)))
      else Some (Ok subchain_head s))"

text \<open>Step 3: nothing disputed; a mismatch or a dropped request falls back to the target.\<close>

definition apply_disputes :: "('e, 'd) selector \<Rightarrow> block_hash \<Rightarrow> u32 \<Rightarrow> block_hash \<Rightarrow> u32 \<Rightarrow>
    block_hash \<Rightarrow> u32 \<Rightarrow> 'd list \<Rightarrow> 'd vote_log \<Rightarrow> ('e, block_hash, 'd) run" where
  "apply_disputes S target_hash target_number initial_leaf initial_leaf_number subchain_head
       subchain_number descriptions s =
     (let lag = saturating_sub initial_leaf_number subchain_number;
          s = note_approval_checking_finality_lag lag s
      in if disputes_enabled S then
           if Some (of_nat (length descriptions)) \<noteq> checked_sub subchain_number target_number
           then Some (Ok target_hash s)
           else let s = send_msg (DetermineUndisputedChain (target_number, target_hash) descriptions) s
                in case undisputed_answer (overseer_of S) (target_number, target_hash) descriptions of
                     Some (subchain_number, subchain_head) \<Rightarrow>
                       let lag_disputes = saturating_sub initial_leaf_number subchain_number
                       in apply_safeguard S target_hash target_number initial_leaf initial_leaf_number
                            lag_disputes subchain_head (note_disputes_finality_lag lag_disputes s)
                   | None \<Rightarrow> Some (Ok target_hash s)
         else apply_safeguard S target_hash target_number initial_leaf initial_leaf_number lag subchain_head s)"

text \<open>Step 2: everything approved.\<close>

definition apply_approvals :: "('e, 'd) selector \<Rightarrow> block_hash \<Rightarrow> u32 \<Rightarrow> block_hash \<Rightarrow> 'd vote_log \<Rightarrow>
    ('e, block_hash, 'd) run" where
  "apply_approvals S target_hash target_number initial_leaf s =
     then_run (block_number_of S initial_leaf s) (\<lambda>initial_leaf_number s.
     let s = send_msg (ApprovedAncestor initial_leaf target_number) s
     in case approved_answer (overseer_of S) initial_leaf target_number of
          None \<Rightarrow> Some (Err (OtherError ApprovedAncestorCanceled) s)
        | Some None \<Rightarrow> apply_disputes S target_hash target_number initial_leaf initial_leaf_number
                         target_hash target_number [] s
        | Some (Some a) \<Rightarrow> apply_disputes S target_hash target_number initial_leaf initial_leaf_number
                         (aa_hash a) (aa_number a) (aa_descriptions a) s)"

text \<open>Step 1: the maximal number asked for.\<close>

definition apply_max_number :: "('e, 'd) selector \<Rightarrow> block_hash \<Rightarrow> u32 option \<Rightarrow> block_hash \<Rightarrow>
    'd vote_log \<Rightarrow> ('e, block_hash, 'd) run" where
  "apply_max_number S target_hash maybe_max_number subchain_head s =
     then_run (block_number_of S target_hash s) (\<lambda>target_number s.
     case maybe_max_number of
       None \<Rightarrow> apply_approvals S target_hash target_number subchain_head s
     | Some max_num \<Rightarrow>
         if max_num \<le> target_number then Some (Ok target_hash s)
         else then_run (block_header S subchain_head s) (\<lambda>subchain_header s.
              if number subchain_header \<le> max_num
              then apply_approvals S target_hash target_number subchain_head s
              else then_run (walk_to S max_num subchain_header s) (\<lambda>(ancestor_hash, _) s.
                   apply_approvals S target_hash target_number ancestor_hash s)))"

definition finality_target_with_longest_chain :: "('e, 'd) selector \<Rightarrow> block_hash \<Rightarrow> block_hash \<Rightarrow>
    u32 option \<Rightarrow> 'd vote_log \<Rightarrow> ('e, block_hash, 'd) run" where
  "finality_target_with_longest_chain S target_hash best_leaf maybe_max_number s =
     (if disputes_enabled S then
        let s = send_msg (BestLeafContaining target_hash) s
        in case best_leaf_answer (overseer_of S) target_hash of
             None \<Rightarrow> Some (Err (OtherError BestLeafContainingCanceled) s)
           | Some None \<Rightarrow> Some (Ok target_hash s)
           | Some (Some best) \<Rightarrow> apply_max_number S target_hash maybe_max_number best s
      else if best_leaf = target_hash then Some (Ok target_hash s)
      else apply_max_number S target_hash maybe_max_number best_leaf s)"

section \<open>The selection of the node\<close>

record 'e longest_chain =
  lc_leaves :: "'e consensus_error + block_hash list"
  lc_best_chain :: "'e consensus_error + header"
  lc_finality_target :: "block_hash \<Rightarrow> u32 option \<Rightarrow> 'e consensus_error + block_hash"

datatype ('e, 'd) disputes_awareness = DisputesAware "('e, 'd) selector" | NotAware

record ('e, 'd) select_relay_chain =
  longest_rule :: "'e longest_chain"
  selection :: "('e, 'd) disputes_awareness"

definition from_longest :: "'e consensus_error + 'a \<Rightarrow> 'd vote_log \<Rightarrow> ('e, 'a, 'd) run" where
  "from_longest r s = (case r of Inl e \<Rightarrow> Some (Err e s) | Inr x \<Rightarrow> Some (Ok x s))"

definition relay_leaves :: "('e, 'd) select_relay_chain \<Rightarrow> 'd vote_log \<Rightarrow> ('e, block_hash list, 'd) run" where
  "relay_leaves R s = (case selection R of
       DisputesAware S \<Rightarrow> selector_leaves S s | NotAware \<Rightarrow> from_longest (lc_leaves (longest_rule R)) s)"

definition relay_best_chain :: "('e, 'd) select_relay_chain \<Rightarrow> 'd vote_log \<Rightarrow> ('e, header, 'd) run" where
  "relay_best_chain R s = (case selection R of
       DisputesAware S \<Rightarrow> selector_best_chain S s
     | NotAware \<Rightarrow> from_longest (lc_best_chain (longest_rule R)) s)"

definition finality_target :: "('e, 'd) select_relay_chain \<Rightarrow> block_hash \<Rightarrow> u32 option \<Rightarrow> 'd vote_log \<Rightarrow>
    ('e, block_hash, 'd) run" where
  "finality_target R target_hash maybe_max_number s =
     then_run (from_longest (lc_finality_target (longest_rule R) target_hash maybe_max_number) s)
       (\<lambda>longest_chain_best s. case selection R of
          DisputesAware S \<Rightarrow> finality_target_with_longest_chain S target_hash longest_chain_best maybe_max_number s
        | NotAware \<Rightarrow> Some (Ok longest_chain_best s))"

end
