(* ===== verification/Selection_Claims.thy ===== *)
theory Selection_Claims
  imports Chain_Selection
begin

text \<open>
  The vote of a relay chain node: with a database that stores blocks contiguously and the other
  subsystems answering as they promise, a request for a finality target always ends without a
  panic, and the vote lies between the target and the leaf within every bound.
\<close>

section \<open>A database that stores blocks contiguously\<close>

definition contiguous :: "'e header_provider \<Rightarrow> bool" where
  "contiguous B \<longleftrightarrow> (\<forall>b h. fetch_header B b = Inr (Some h) \<longrightarrow>
     header_hash B h = b \<and> fetch_number B b = Inr (Some (number h)) \<and>
     (0 < number h \<longrightarrow> (\<exists>p. fetch_header B (parent_hash h) = Inr (Some p) \<and> number h = number p + 1)))"

definition at_height :: "'e header_provider \<Rightarrow> block_hash \<Rightarrow> u32 \<Rightarrow> bool" where
  "at_height B b n \<longleftrightarrow> (\<exists>h. fetch_header B b = Inr (Some h) \<and> number h = n)"

definition parent_of :: "'e header_provider \<Rightarrow> block_hash \<Rightarrow> block_hash \<Rightarrow> bool" where
  "parent_of B a b \<longleftrightarrow> (\<exists>h. fetch_header B b = Inr (Some h) \<and> 0 < number h \<and> parent_hash h = a)"

abbreviation ancestor :: "'e header_provider \<Rightarrow> block_hash \<Rightarrow> block_hash \<Rightarrow> bool" where
  "ancestor B \<equiv> (parent_of B)\<^sup>*\<^sup>*"

lemma at_height_inj: "at_height B b n \<Longrightarrow> at_height B b m \<Longrightarrow> n = m"
  by (auto simp: at_height_def)

lemma contiguousD:
  assumes "contiguous B" "fetch_header B b = Inr (Some h)"
  shows "header_hash B h = b" "fetch_number B b = Inr (Some (number h))"
    and "0 < number h \<Longrightarrow> \<exists>p. fetch_header B (parent_hash h) = Inr (Some p) \<and> number h = number p + 1"
  using assms unfolding contiguous_def by blast+

lemma at_height_number: "contiguous B \<Longrightarrow> at_height B b n \<Longrightarrow> fetch_number B b = Inr (Some n)"
  unfolding at_height_def using contiguousD(2) by blast

lemma word_pred:
  assumes "0 < (n :: u32)"
  shows "unat (n - 1) = unat n - 1" "n - 1 < n"
proof -
  have ne: "n \<noteq> 0" using assms by auto
  show eq: "unat (n - 1) = unat n - 1" by (rule unat_minus_one [OF ne])
  have "unat n \<noteq> 0" using ne by (simp add: unat_eq_0)
  then show "n - 1 < n" unfolding word_less_nat_alt eq by simp
qed

lemma parent_height:
  assumes "contiguous B" "parent_of B a b" "at_height B b n"
  shows "0 < n" "at_height B a (n - 1)"
proof -
  from assms(2) obtain h where h: "fetch_header B b = Inr (Some h)" "0 < number h" "parent_hash h = a"
    unfolding parent_of_def by blast
  have n: "number h = n" using assms(3) h(1) by (simp add: at_height_def)
  then show "0 < n" using h(2) by simp
  from contiguousD(3) [OF assms(1) h(1,2)] obtain p where "fetch_header B a = Inr (Some p)" "number h = number p + 1"
    unfolding h(3) by blast
  then show "at_height B a (n - 1)" using n by (simp add: at_height_def)
qed

lemma parent_unique: "parent_of B a c \<Longrightarrow> parent_of B b c \<Longrightarrow> a = b"
  unfolding parent_of_def by auto

lemma ancestor_linear:
  assumes "ancestor B a c" "ancestor B b c"
  shows "ancestor B a b \<or> ancestor B b a"
  using assms
proof (induction c rule: rtranclp_induct)
  case (step y z)
  from \<open>ancestor B b z\<close> show ?case
  proof (cases rule: rtranclp.cases)
    case rtrancl_refl
    then show ?thesis using step.hyps by (meson rtranclp.rtrancl_into_rtrancl)
  next
    case (rtrancl_into_rtrancl y')
    then have "y' = y" using parent_unique step.hyps(2) by metis
    then show ?thesis using rtrancl_into_rtrancl step.IH by simp
  qed
qed simp

lemma ancestor_height:
  assumes "contiguous B" "ancestor B a b" "at_height B b n"
  shows "\<exists>m. at_height B a m \<and> m \<le> n \<and> (m = n \<longrightarrow> a = b)"
  using assms(2,3)
proof (induction b arbitrary: n rule: rtranclp_induct)
  case base
  then show ?case by auto
next
  case (step y z)
  have y: "0 < n" "at_height B y (n - 1)" using parent_height [OF assms(1) step.hyps(2) step.prems] by blast+
  from step.IH [OF y(2)] obtain m where "at_height B a m" "m \<le> n - 1" by blast
  moreover have "m < n" using \<open>m \<le> n - 1\<close> word_pred(2) [OF y(1)] by simp
  ultimately show ?case by (intro exI [of _ m]) auto
qed

text \<open>Of two blocks on the same chain the lower one is the ancestor.\<close>

lemma ancestor_by_height:
  assumes "contiguous B" "ancestor B a c" "ancestor B b c" "at_height B a m" "at_height B b n" "m \<le> n"
  shows "ancestor B a b"
proof (cases "ancestor B a b")
  case False
  then have ba: "ancestor B b a" using ancestor_linear [OF assms(2,3)] by blast
  from ancestor_height [OF assms(1) ba assms(4)] obtain k where "at_height B b k" "k \<le> m" "k = m \<longrightarrow> b = a" by blast
  then have "b = a" using at_height_inj [OF assms(5)] assms(6) by auto
  then show ?thesis by simp
qed

lemma walk_back_goes:
  assumes "contiguous B" "fetch_header B b = Inr (Some h)" "n \<le> number h"
  shows "\<exists>a. walk_back B n b h s = Some (Ok (a, n) s) \<and> ancestor B a b \<and> at_height B a n"
  using assms(2,3)
proof (induction "unat (number h - n)" arbitrary: b h)
  case 0
  then have "number h = n" by (simp add: unat_eq_0)
  then show ?case using 0(2) by (subst walk_back.simps) (auto simp: at_height_def)
next
  case (Suc k)
  have ne: "number h \<noteq> n" using Suc(2) by auto
  then have lt: "n < number h" using Suc.prems(2) by simp
  then have pos: "0 < number h" by (simp add: word_less_nat_alt)
  from contiguousD(3) [OF assms(1) Suc.prems(1) pos] obtain p
    where p: "fetch_header B (parent_hash h) = Inr (Some p)" "number h = number p + 1" by blast
  have pn: "number p = number h - 1" using p(2) by simp
  have le: "n \<le> number p" using lt unfolding pn word_le_nat_alt word_less_nat_alt word_pred(1) [OF pos] by simp
  have "unat (number p - n) = k"
    using Suc(2) unat_minus_le [OF le] unat_minus_le [OF less_imp_le [OF lt]] word_pred(1) [OF pos] pn by simp
  from Suc(1) [OF this [symmetric] p(1) le] obtain a
    where a: "walk_back B n (parent_hash h) p s = Some (Ok (a, n) s)" "ancestor B a (parent_hash h)" "at_height B a n"
    by blast
  have "parent_of B (parent_hash h) b" using Suc.prems(1) pos by (auto simp: parent_of_def)
  then have "ancestor B a b" using a(2) by (meson rtranclp.rtrancl_into_rtrancl)
  moreover have "walk_back B n b h s = walk_back B n (parent_hash h) p s"
    using lt ne p(1) by (subst walk_back.simps) (auto dest: less_asym)
  ultimately show ?case using a(1,3) by auto
qed

text \<open>The voting rule: while the pause lasts, a vote above the pause block becomes that block or the base.\<close>

lemma restrict_vote_pauses:
  assumes "contiguous B" "fetch_header B b = Inr (Some current)" "fst pause < number current"
    and "\<not> fst pause + snd pause < number best"
  shows "\<exists>v k. restrict_vote B pause base best current = Some (Ok (Some (v, k)) ()) \<and>
    (if fst pause \<le> number base then v = header_hash B base \<and> k = number base
     else ancestor B v b \<and> at_height B v (fst pause) \<and> k = fst pause)"
proof (cases "fst pause \<le> number base")
  case False
  from walk_back_goes [OF assms(1,2) less_imp_le [OF assms(3)], of "()"] obtain a
    where "walk_back B (fst pause) b current () = Some (Ok (a, fst pause) ())" "ancestor B a b" "at_height B a (fst pause)"
    by blast
  then show ?thesis using False assms(3,4)
    by (simp add: restrict_vote_def walk_backwards_to_target_block_def contiguousD(1) [OF assms(1,2)])
qed (use assms(3,4) in \<open>simp add: restrict_vote_def\<close>)

section \<open>What the other subsystems promise\<close>

text \<open>
  The best leaf contains the block asked for. The approved ancestor is an ancestor of the block
  asked about, not below the number asked for, and described block by block up to itself. The end of the
  undisputed chain is its base or one of the described blocks. \<open>f\<close> reads the hash of a description.
\<close>

definition overseer_promises :: "('d \<Rightarrow> block_hash) \<Rightarrow> ('e, 'd) selector \<Rightarrow> bool" where
  "overseer_promises f S \<longleftrightarrow>
     (\<forall>t b. best_leaf_answer (overseer_of S) t = Some (Some b) \<longrightarrow>
        ancestor (backend S) t b \<and> (\<exists>n. at_height (backend S) b n)) \<and>
     (\<forall>l n a. approved_answer (overseer_of S) l n = Some (Some a) \<longrightarrow>
        ancestor (backend S) (aa_hash a) l \<and> at_height (backend S) (aa_hash a) (aa_number a) \<and> n \<le> aa_number a \<and>
        (\<forall>d \<in> set (aa_descriptions a). ancestor (backend S) (f d) (aa_hash a) \<and>
           (\<exists>m. at_height (backend S) (f d) m \<and> n \<le> m))) \<and>
     (\<forall>base ds n h. undisputed_answer (overseer_of S) base ds = Some (n, h) \<longrightarrow>
        at_height (backend S) h n \<and> (h = snd base \<or> h \<in> f ` set ds))"

text \<open>What makes a vote for \<open>h\<close> safe, the leaf being constrained to \<open>leaf\<close> at number \<open>n\<close>.\<close>

definition safe_vote :: "('e, 'd) selector \<Rightarrow> block_hash \<Rightarrow> u32 \<Rightarrow> block_hash \<Rightarrow> u32 \<Rightarrow> block_hash \<Rightarrow> bool" where
  "safe_vote S target tn leaf n h \<longleftrightarrow>
     ancestor (backend S) target h \<and> ancestor (backend S) h leaf \<and>
     (\<exists>m. at_height (backend S) h m \<and> m \<le> n \<and> n - m \<le> 500 \<and>
        (n - m = 500 \<or> (\<exists>a. approved_answer (overseer_of S) leaf tn = Some (Some a) \<and>
           ancestor (backend S) h (aa_hash a))))"

lemma block_header_goes:
  "fetch_header (backend S) b = Inr (Some h) \<Longrightarrow> block_header S b s = Some (Ok h s)"
  by (simp add: block_header_def)

lemma block_number_goes:
  "contiguous (backend S) \<Longrightarrow> at_height (backend S) b n \<Longrightarrow> block_number_of S b s = Some (Ok n s)"
  by (simp add: block_number_of_def at_height_number)

lemma walk_to_goes:
  assumes "contiguous (backend S)" "fetch_header (backend S) b = Inr (Some h)" "n \<le> number h"
  shows "\<exists>a. walk_to S n h s = Some (Ok (a, n) s) \<and> ancestor (backend S) a b \<and> at_height (backend S) a n"
  using walk_back_goes [OF assms, of s]
  by (auto simp: walk_to_def walk_backwards_to_target_block_def contiguousD(1) [OF assms(1,2)])

lemma safeguard_goes:
  assumes B: "contiguous (backend S)" and t: "at_height (backend S) target tn" "ancestor (backend S) target leaf"
    and leaf: "at_height (backend S) leaf n"
    and h: "ancestor (backend S) target h" "ancestor (backend S) h leaf" "at_height (backend S) h m"
    and app: "h = target \<or> (\<exists>a. approved_answer (overseer_of S) leaf tn = Some (Some a) \<and>
       ancestor (backend S) h (aa_hash a))"
    and lag: "lag = saturating_sub n m"
  shows "\<exists>v s'. apply_safeguard S target tn leaf n lag h s = Some (Ok v s') \<and>
    (v = target \<or> safe_vote S target tn leaf n v)"
proof -
  have "m \<le> n" using ancestor_height [OF B h(2) leaf] h(3) at_height_inj by blast
  then have lag: "lag = n - m" by (simp add: lag saturating_sub_def)
  show ?thesis
  proof (cases "lag > 500")
    case False
    then have "h = target \<or> safe_vote S target tn leaf n h"
      using app h \<open>m \<le> n\<close> lag by (auto simp: safe_vote_def not_less)
    then show ?thesis using False by (simp add: apply_safeguard_def MAX_FINALITY_LAG_def)
  next
    case True
    have big: "500 \<le> n"
      using True \<open>m \<le> n\<close> unfolding lag word_less_nat_alt word_le_nat_alt by (simp add: unat_minus_le word_le_nat_alt)
    show ?thesis
    proof (cases "n - 500 \<le> tn")
      case True
      then show ?thesis using \<open>lag > 500\<close> by (simp add: apply_safeguard_def MAX_FINALITY_LAG_def Let_def)
    next
      case False
      obtain lh where lh: "fetch_header (backend S) leaf = Inr (Some lh)" "number lh = n"
        using leaf by (auto simp: at_height_def)
      have le: "n - 500 \<le> number lh" using big unfolding lh(2) word_le_nat_alt by (simp add: unat_minus_le word_le_nat_alt)
      obtain a where a: "walk_to S (n - 500) lh s = Some (Ok (a, n - 500) s)" "ancestor (backend S) a leaf"
          "at_height (backend S) a (n - 500)"
        using walk_to_goes [OF B lh(1) le, of s] by blast
      have "ancestor (backend S) target a"
        using ancestor_by_height [OF B t(2) a(2) t(1) a(3)] False by simp
      then have "safe_vote S target tn leaf n a"
        using a(2,3) le unfolding safe_vote_def lh(2) by (intro conjI exI [of _ "n - 500"]) simp_all
      then show ?thesis using \<open>lag > 500\<close> False a(1)
        by (simp add: apply_safeguard_def MAX_FINALITY_LAG_def Let_def block_header_goes [OF lh(1)])
    qed
  qed
qed

lemma disputes_go:
  assumes B: "contiguous (backend S)" and O: "overseer_promises f S"
    and t: "at_height (backend S) target tn" "ancestor (backend S) target leaf"
    and leaf: "at_height (backend S) leaf n"
    and h: "at_height (backend S) h m" "(h = target \<and> ds = []) \<or> (\<exists>a. approved_answer (overseer_of S) leaf tn = Some (Some a) \<and>
        aa_hash a = h \<and> aa_number a = m \<and> aa_descriptions a = ds)"
  shows "\<exists>v s'. apply_disputes S target tn leaf n h m ds s = Some (Ok v s') \<and>
    (v = target \<or> safe_vote S target tn leaf n v)"
proof -
  have below: "ancestor (backend S) target x \<and> ancestor (backend S) x leaf" if "x = target \<or>
      (ancestor (backend S) x h \<and> (\<exists>k. at_height (backend S) x k \<and> tn \<le> k))" for x
  proof (cases "x = target")
    case False
    with that obtain k where x: "ancestor (backend S) x h" "at_height (backend S) x k" "tn \<le> k" by blast
    have "ancestor (backend S) h leaf" using h(2) O t(2) unfolding overseer_promises_def by blast
    with x(1) have "ancestor (backend S) x leaf" by simp
    then show ?thesis using ancestor_by_height [OF B t(2) _ t(1) x(2,3)] by simp
  qed (use t(2) in simp)
  have hh: "h = target \<or> (ancestor (backend S) h h \<and> (\<exists>k. at_height (backend S) h k \<and> tn \<le> k))"
    using h O unfolding overseer_promises_def by blast
  have app: "x = target \<or> (\<exists>a. approved_answer (overseer_of S) leaf tn = Some (Some a) \<and>
      ancestor (backend S) x (aa_hash a))" if "x = target \<or> (h \<noteq> target \<or> ds \<noteq> [] ) \<and> ancestor (backend S) x h" for x
    using that h(2) by blast
  show ?thesis
  proof (cases "disputes_enabled S \<and> Some (of_nat (length ds)) = checked_sub m tn")
    case False
    show ?thesis
    proof (cases "disputes_enabled S")
      case True
      then show ?thesis using False by (simp add: apply_disputes_def Let_def)
    next
      case False
      then show ?thesis unfolding apply_disputes_def Let_def if_not_P [OF False]
        using below [OF hh] h(1) app [of h] by (intro safeguard_goes [OF B t leaf]) blast+
    qed
  next
    case True
    show ?thesis
    proof (cases "undisputed_answer (overseer_of S) (tn, target) ds")
      case None
      then show ?thesis using True by (simp add: apply_disputes_def Let_def)
    next
      case (Some r)
      obtain k x where r: "r = (k, x)" by fastforce
      have u: "\<forall>base ds n h. undisputed_answer (overseer_of S) base ds = Some (n, h) \<longrightarrow>
          at_height (backend S) h n \<and> (h = snd base \<or> h \<in> f ` set ds)"
        using O unfolding overseer_promises_def by blast
      have x: "at_height (backend S) x k" "x = target \<or> x \<in> f ` set ds"
        using u [rule_format, OF Some [unfolded r]] by simp_all
      have xs: "x = target \<or> (ancestor (backend S) x h \<and> (\<exists>k. at_height (backend S) x k \<and> tn \<le> k))"
        using x(2) h(2) O unfolding overseer_promises_def by fastforce
      have xa: "x = target \<or> (\<exists>a. approved_answer (overseer_of S) leaf tn = Some (Some a) \<and> ancestor (backend S) x (aa_hash a))"
        using xs x(2) h(2) by fastforce
      have "apply_disputes S target tn leaf n h m ds s = apply_safeguard S target tn leaf n (saturating_sub n k) x
          (note_disputes_finality_lag (saturating_sub n k) (send_msg (DetermineUndisputedChain (tn, target) ds)
             (note_approval_checking_finality_lag (saturating_sub n m) s)))"
        using True Some unfolding r by (simp add: apply_disputes_def Let_def)
      then show ?thesis using safeguard_goes [OF B t leaf _ _ x(1) xa refl] below [OF xs] by simp
    qed
  qed
qed

lemma approvals_go:
  assumes B: "contiguous (backend S)" and O: "overseer_promises f S"
    and t: "at_height (backend S) target tn" "ancestor (backend S) target leaf"
    and leaf: "at_height (backend S) leaf n"
  shows "(\<exists>v s'. apply_approvals S target tn leaf s = Some (Ok v s') \<and> (v = target \<or> safe_vote S target tn leaf n v)) \<or>
    (approved_answer (overseer_of S) leaf tn = None \<and>
     (\<exists>s'. apply_approvals S target tn leaf s = Some (Err (OtherError ApprovedAncestorCanceled) s')))"
proof (cases "approved_answer (overseer_of S) leaf tn")
  case None
  then show ?thesis by (simp add: apply_approvals_def block_number_goes [OF B leaf] Let_def)
next
  case (Some x)
  show ?thesis
  proof (cases x)
    case None
    then show ?thesis using Some disputes_go [OF B O t leaf t(1), of "[]" "send_msg (ApprovedAncestor leaf tn) s"]
      by (simp add: apply_approvals_def block_number_goes [OF B leaf] Let_def)
  next
    case (Some a)
    have "at_height (backend S) (aa_hash a) (aa_number a)"
      using O \<open>_ = Some x\<close> Some unfolding overseer_promises_def by blast
    then show ?thesis using \<open>_ = Some x\<close> Some
        disputes_go [OF B O t leaf, of "aa_hash a" "aa_number a" "aa_descriptions a" "send_msg (ApprovedAncestor leaf tn) s"]
      by (simp add: apply_approvals_def block_number_goes [OF B leaf] Let_def)
  qed
qed

text \<open>The leaf a request looks at: the best one containing the target, or that of the longest chain.\<close>

definition leaf_asked :: "('e, 'd) selector \<Rightarrow> block_hash \<Rightarrow> block_hash \<Rightarrow> block_hash" where
  "leaf_asked S target best_leaf = (if disputes_enabled S
     then (case best_leaf_answer (overseer_of S) target of Some (Some b) \<Rightarrow> b | _ \<Rightarrow> target) else best_leaf)"

definition vote_within :: "('e, 'd) selector \<Rightarrow> block_hash \<Rightarrow> u32 \<Rightarrow> block_hash \<Rightarrow> u32 option \<Rightarrow> block_hash \<Rightarrow> bool" where
  "vote_within S target tn best_leaf maybe_max v \<longleftrightarrow> v = target \<or>
     (\<exists>leaf n. ancestor (backend S) leaf (leaf_asked S target best_leaf) \<and> at_height (backend S) leaf n \<and>
        (case maybe_max of None \<Rightarrow> leaf = leaf_asked S target best_leaf | Some b \<Rightarrow> n \<le> b) \<and>
        safe_vote S target tn leaf n v)"

definition only_canceled :: "('e, 'd) selector \<Rightarrow> block_hash \<Rightarrow> u32 \<Rightarrow> 'e consensus_error \<Rightarrow> bool" where
  "only_canceled S target tn e \<longleftrightarrow>
     (e = OtherError BestLeafContainingCanceled \<and> best_leaf_answer (overseer_of S) target = None) \<or>
     (e = OtherError ApprovedAncestorCanceled \<and> (\<exists>leaf. approved_answer (overseer_of S) leaf tn = None))"

lemma max_number_goes:
  assumes B: "contiguous (backend S)" and O: "overseer_promises f S"
    and t: "at_height (backend S) target tn" "ancestor (backend S) target head" and head: "at_height (backend S) head k"
    and asked: "head = leaf_asked S target best_leaf"
  shows "(\<exists>v s'. apply_max_number S target maybe_max head s = Some (Ok v s') \<and> vote_within S target tn best_leaf maybe_max v) \<or>
    (\<exists>e s'. apply_max_number S target maybe_max head s = Some (Err e s') \<and> only_canceled S target tn e)"
proof -
  have leaf: ?thesis if "apply_max_number S target maybe_max head s = apply_approvals S target tn leaf s0"
      "ancestor (backend S) leaf head" "at_height (backend S) leaf n"
      "case maybe_max of None \<Rightarrow> leaf = head | Some b \<Rightarrow> n \<le> b \<and> tn \<le> n" for leaf n s0
  proof -
    have "ancestor (backend S) target leaf"
      using that(2,4) t(2) ancestor_by_height [OF B t(2) that(2) t(1) that(3)] by (cases maybe_max) auto
    from approvals_go [OF B O t(1) this that(3), of s0] that show ?thesis
      unfolding vote_within_def only_canceled_def asked [symmetric] by (cases maybe_max) auto
  qed
  note start = apply_max_number_def block_number_goes [OF B t(1)]
  show ?thesis
  proof (cases maybe_max)
    case None
    then show ?thesis using head by (intro leaf [of head s k]) (simp_all add: start)
  next
    case (Some b)
    obtain h where h: "fetch_header (backend S) head = Inr (Some h)" "number h = k"
      using head by (auto simp: at_height_def)
    have tk: "tn \<le> k" using ancestor_height [OF B t(2) head] t(1) at_height_inj by blast
    consider "b \<le> tn" | "tn < b" "k \<le> b" | "tn < b" "b < k" by fastforce
    then show ?thesis
    proof cases
      case 1
      then show ?thesis using Some by (simp add: start vote_within_def)
    next
      case 2
      then have "\<not> b \<le> tn" by simp
      then show ?thesis using 2 Some head tk h
        by (intro leaf [of head s k]) (simp_all add: start block_header_goes)
    next
      case 3
      obtain a where a: "walk_to S b h s = Some (Ok (a, b) s)" "ancestor (backend S) a head" "at_height (backend S) a b"
        using walk_to_goes [OF B h(1), of b s] 3(2) h(2) by (metis less_imp_le)
      have "\<not> b \<le> tn" "\<not> k \<le> b" using 3 by simp_all
      then show ?thesis using a Some 3 h
        by (intro leaf [of a s b]) (simp_all add: start block_header_goes [OF h(1)])
    qed
  qed
qed


text \<open>A chain of a thousand blocks; nothing above block 20 is approved.\<close>

definition demo_blocks :: "nat header_provider" where
  "demo_blocks = \<lparr>fetch_header = (\<lambda>b. Inr (if b \<le> 1000 then Some \<lparr>parent_hash = b - 1, number = ucast b\<rparr> else None)),
     fetch_number = (\<lambda>b. Inr (if b \<le> 1000 then Some (ucast b) else None)), header_hash = (\<lambda>h. ucast (number h))\<rparr>"

definition demo_selector :: "(nat, block_hash) selector" where
  "demo_selector = \<lparr>backend = demo_blocks,
     overseer_of = \<lparr>leaves_answer = Some [900], best_leaf_answer = (\<lambda>t. Some (if t = 19 then Some 900 else None)),
       approved_answer = (\<lambda>l n. Some (if l = 900 \<and> n = 19
         then Some \<lparr>aa_hash = 20, aa_number = 20, aa_descriptions = [20]\<rparr> else None)),
       undisputed_answer = (\<lambda>(n, b) ds. if n = 19 \<and> b = 19 \<and> ds = [20] then Some (20, 20) else None)\<rparr>,
     disputes_enabled = True\<rparr>"

lemma demo_fetch [simp]:
  "fetch_header demo_blocks b = Inr (if b \<le> 1000 then Some \<lparr>parent_hash = b - 1, number = ucast b\<rparr> else None)"
  "fetch_number demo_blocks b = Inr (if b \<le> 1000 then Some (ucast b) else None)"
  "header_hash demo_blocks h = ucast (number h)"
  by (simp_all add: demo_blocks_def)

lemma small_block_number: "b \<le> 1000 \<Longrightarrow> unat (ucast (b :: block_hash) :: u32) = unat b"
  by (simp add: unsigned_ucast_eq word_le_nat_alt take_bit_nat_eq_self)

lemma demo_contiguous: "contiguous demo_blocks"
  unfolding contiguous_def
proof (intro allI impI)
  fix b h
  assume "fetch_header demo_blocks b = Inr (Some h)"
  then have b: "b \<le> 1000" and h: "h = \<lparr>parent_hash = b - 1, number = ucast b\<rparr>" by (simp_all split: if_splits)
  have hash: "ucast (ucast b :: u32) = b"
  proof -
    have "unat (ucast (ucast b :: u32) :: block_hash) = unat b"
      using b small_block_number [OF b]
      by (subst unsigned_ucast_eq) (simp add: take_bit_nat_eq_self word_le_nat_alt)
    then show ?thesis by (simp only: word_unat_eq_iff)
  qed
  have "b - 1 \<le> 1000 \<and> (ucast b :: u32) = ucast (b - 1) + 1" if "0 < (ucast b :: u32)"
  proof -
    have nz: "b \<noteq> 0" using that by auto
    then have m: "unat (b - 1) = unat b - 1" "unat b \<noteq> 0" by (simp_all add: unat_minus_one unat_eq_0)
    then have le: "b - 1 \<le> 1000" using b by (simp add: word_le_nat_alt)
    moreover have "unat (ucast (b - 1) + 1 :: u32) = unat b"
      using m b by (subst unat_plus_small) (simp_all add: small_block_number [OF le] word_le_nat_alt)
    ultimately show ?thesis by (simp add: word_unat_eq_iff small_block_number [OF b])
  qed
  then show "header_hash demo_blocks h = b \<and> fetch_number demo_blocks b = Inr (Some (number h)) \<and>
      (0 < number h \<longrightarrow> (\<exists>p. fetch_header demo_blocks (parent_hash h) = Inr (Some p) \<and> number h = number p + 1))"
    using b hash by (simp add: h)
qed

lemma demo_ancestor: "a \<le> b \<Longrightarrow> b \<le> 1000 \<Longrightarrow> ancestor demo_blocks (of_nat a) (of_nat b)"
proof (induction b)
  case (Suc b)
  show ?case
  proof (cases "a = Suc b")
    case False
    then have "ancestor demo_blocks (of_nat a) (of_nat b)" using Suc by simp
    moreover have le: "of_nat (Suc b) \<le> (1000 :: block_hash)" using Suc.prems(2)
      unfolding word_le_nat_alt by (subst unat_of_nat_small) simp_all
    moreover have "(0 :: u32) < ucast (of_nat (Suc b) :: block_hash)"
      unfolding word_less_nat_alt small_block_number [OF le]
      using Suc.prems(2) by (subst unat_of_nat_small) simp_all
    then have "parent_of demo_blocks (of_nat b) (of_nat (Suc b))"
      using le by (simp add: parent_of_def del: of_nat_Suc) simp
    ultimately show ?thesis by (meson rtranclp.rtrancl_into_rtrancl)
  qed simp
qed simp


end
