(* ===== verification/Dispatcher.thy ===== *)
theory Dispatcher
  imports Phala_Types "HOL-Library.AList"
begin

text \<open>
  How a worker takes messages from the chain: the channels of \<open>src/crates/phala-mq/src/simple_mpsc.rs\<close>
  and the dispatcher of \<open>src/crates/phala-mq/src/dispatcher.rs\<close>. The two ends of a channel share it
  behind a lock, so the channels are a store, an end is an index into it, and a method is one step.
  Sequence numbers and counters have the width of the sources (\<open>usize\<close> is \<open>u64\<close>).
\<close>

section \<open>Channels\<close>

record 'a raw_channel =
  deque :: "'a list"
  sender_count :: u64
  receiver_gone :: bool

type_synonym 'a channels = "'a raw_channel list"

datatype send_error = ReceiverGone
datatype receive_error = SenderGone

definition new_channel :: "'a channels \<Rightarrow> nat \<times> 'a channels" where
  "new_channel st = (length st, st @ [\<lparr>deque = [], sender_count = 1, receiver_gone = False\<rparr>])"

definition send :: "nat \<Rightarrow> 'a \<Rightarrow> 'a channels \<Rightarrow> (send_error + unit) \<times> 'a channels" where
  "send c v st = (if receiver_gone (st ! c) then (Inl ReceiverGone, st)
     else (Inr (), st[c := (st ! c)\<lparr>deque := deque (st ! c) @ [v]\<rparr>]))"

definition sender_clear :: "nat \<Rightarrow> 'a channels \<Rightarrow> u64 \<times> 'a channels" where
  "sender_clear c st = (of_nat (length (deque (st ! c))), st[c := (st ! c)\<lparr>deque := []\<rparr>])"

definition clone_sender :: "nat \<Rightarrow> 'a channels \<Rightarrow> 'a channels" where
  "clone_sender c st = st[c := (st ! c)\<lparr>sender_count := sender_count (st ! c) + 1\<rparr>]"

definition drop_sender :: "nat \<Rightarrow> 'a channels \<Rightarrow> 'a channels" where
  "drop_sender c st = st[c := (st ! c)\<lparr>sender_count := sender_count (st ! c) - 1\<rparr>]"

definition try_next :: "nat \<Rightarrow> 'a channels \<Rightarrow> (receive_error + 'a option) \<times> 'a channels" where
  "try_next c st = (case deque (st ! c) of
       v # vs \<Rightarrow> (Inr (Some v), st[c := (st ! c)\<lparr>deque := vs\<rparr>])
     | [] \<Rightarrow> (if sender_count (st ! c) = 0 then (Inl SenderGone, st) else (Inr None, st)))"

definition drain :: "nat \<Rightarrow> 'a channels \<Rightarrow> 'a list \<times> 'a channels" where
  "drain c st = (deque (st ! c), st[c := (st ! c)\<lparr>deque := []\<rparr>])"

definition receiver_clear :: "nat \<Rightarrow> 'a channels \<Rightarrow> 'a channels" where
  "receiver_clear c st = st[c := (st ! c)\<lparr>deque := []\<rparr>]"

definition peek_ind :: "nat \<Rightarrow> (u64 \<times> 'a) channels \<Rightarrow> receive_error + u64 option" where
  "peek_ind c st = (case deque (st ! c) of
       v # vs \<Rightarrow> Inr (Some (fst v))
     | [] \<Rightarrow> (if sender_count (st ! c) = 0 then Inl SenderGone else Inr None))"

definition drop_receiver :: "nat \<Rightarrow> 'a channels \<Rightarrow> 'a channels" where
  "drop_receiver c st = st[c := (st ! c)\<lparr>receiver_gone := True\<rparr>]"

section \<open>The dispatcher\<close>

record dispatcher =
  channel_store :: "(u64 \<times> message) channels"
  subscribers :: "(topic \<times> nat list) list"
  local_index :: u64

definition new_dispatcher :: "(u64 \<times> message) channels \<Rightarrow> dispatcher" where
  "new_dispatcher st = \<lparr>channel_store = st, subscribers = [], local_index = 0\<rparr>"

definition subscribe :: "topic \<Rightarrow> dispatcher \<Rightarrow> nat \<times> dispatcher" where
  "subscribe path d =
     (let (c, st) = new_channel (channel_store d);
          entry = (case map_of (subscribers d) path of Some cs \<Rightarrow> cs | None \<Rightarrow> [])
      in (c, d\<lparr>channel_store := st, subscribers := AList.update path (entry @ [c]) (subscribers d)\<rparr>))"

text \<open>\<open>retain\<close> over the senders of a topic: a sender whose receiver is gone is dropped.\<close>

fun offer :: "u64 \<times> message \<Rightarrow> nat list \<Rightarrow> (u64 \<times> message) channels \<Rightarrow> nat list \<times> u64 \<times> (u64 \<times> message) channels" where
  "offer v [] st = ([], 0, st)"
| "offer v (c # cs) st =
     (case send c v st of
        (Inl ReceiverGone, st) \<Rightarrow> offer v cs (drop_sender c st)
      | (Inr _, st) \<Rightarrow> (case offer v cs st of (kept, count, st) \<Rightarrow> (c # kept, count + 1, st)))"

definition dispatch :: "message \<Rightarrow> dispatcher \<Rightarrow> u64 \<times> dispatcher" where
  "dispatch m d =
     (let sn = local_index d; d = d\<lparr>local_index := local_index d + 1\<rparr>
      in case map_of (subscribers d) (m_destination m) of
           None \<Rightarrow> (0, d)
         | Some receivers \<Rightarrow>
             (case offer (sn, m) receivers (channel_store d) of (kept, count, st) \<Rightarrow>
                (count, d\<lparr>channel_store := st, subscribers := AList.update (m_destination m) kept (subscribers d)\<rparr>)))"

definition reset_local_index :: "dispatcher \<Rightarrow> dispatcher" where
  "reset_local_index d = d\<lparr>local_index := 0\<rparr>"

definition clear_dispatcher :: "dispatcher \<Rightarrow> u64 \<times> dispatcher" where
  "clear_dispatcher d =
     (let (count, st) = foldl (\<lambda>(count, st) c. let (n, st) = sender_clear c st in (count + n, st))
            (0, channel_store d) (concat (map snd (subscribers d)))
      in (count, d\<lparr>channel_store := st\<rparr>))"

section \<open>Typed receivers and selection\<close>

datatype typed_receive_error = TypedSenderGone | CodecError

definition typed_try_next :: "(bytes \<Rightarrow> 'm option) \<Rightarrow> nat \<Rightarrow> (u64 \<times> message) channels \<Rightarrow>
    (typed_receive_error + (u64 \<times> 'm \<times> message_origin) option) \<times> (u64 \<times> message) channels" where
  "typed_try_next dec c st =
     (case try_next c st of
        (Inl SenderGone, st) \<Rightarrow> (Inl TypedSenderGone, st)
      | (Inr None, st) \<Rightarrow> (Inr None, st)
      | (Inr (Some (sn, msg)), st) \<Rightarrow>
          (case dec (m_payload msg) of None \<Rightarrow> (Inl CodecError, st)
           | Some typed \<Rightarrow> (Inr (Some (sn, typed, m_sender msg)), st)))"

text \<open>
  The macro \<open>select!\<close> over its arms: the first pass finds the arm with the least sequence number at
  its front, the second takes the message of that arm. The result names the arm whose block runs.
\<close>

fun select_min :: "(receive_error + u64 option) list \<Rightarrow> nat \<Rightarrow> u64 option \<times> nat \<Rightarrow> u64 option \<times> nat" where
  "select_min [] ind acc = acc"
| "select_min (p # ps) ind (least, least_ind) = select_min ps (Suc ind)
     (case p of
        Inr (Some sn) \<Rightarrow> (case least of None \<Rightarrow> (Some sn, ind)
           | Some old \<Rightarrow> if sn < old then (Some sn, ind) else (least, least_ind))
      | Inl _ \<Rightarrow> (Some 0, ind)
      | Inr None \<Rightarrow> (least, least_ind))"

definition select_arm :: "(nat \<times> (bytes \<Rightarrow> 'm option)) list \<Rightarrow> (u64 \<times> message) channels \<Rightarrow>
    (nat \<times> (typed_receive_error + u64 \<times> 'm \<times> message_origin)) option \<times> (u64 \<times> message) channels" where
  "select_arm arms st =
     (case select_min (map (\<lambda>(c, _). peek_ind c st) arms) 0 (None, 0) of
        (None, _) \<Rightarrow> (None, st)
      | (Some _, ind) \<Rightarrow>
          (case typed_try_next (snd (arms ! ind)) (fst (arms ! ind)) st of
             (Inl e, st) \<Rightarrow> (Some (ind, Inl e), st)
           | (Inr (Some m), st) \<Rightarrow> (Some (ind, Inr m), st)
           | (Inr None, st) \<Rightarrow> (None, st)))"

end
