(* ===== verification/Dispatcher_Claims.thy ===== *)
theory Dispatcher_Claims
  imports Dispatcher
begin

text \<open>
  The dispatcher against its specification: one log of all messages, of which every mailbox reads
  the part with its topic since it was opened. The specification knows no channels, no counters of senders
  and no lists of subscribers.
\<close>

section \<open>The log\<close>

record mailbox =
  mb_topic :: topic
  mb_from :: nat
  mb_taken :: nat
  mb_open :: bool

record mail_log =
  entries :: "(u64 \<times> message) list"
  boxes :: "mailbox list"

definition mail_of :: "mail_log \<Rightarrow> mailbox \<Rightarrow> (u64 \<times> message) list" where
  "mail_of L b = filter (\<lambda>e. m_destination (snd e) = mb_topic b) (drop (mb_from b) (entries L))"

definition unread :: "mail_log \<Rightarrow> nat \<Rightarrow> (u64 \<times> message) list" where
  "unread L c = drop (mb_taken (boxes L ! c)) (mail_of L (boxes L ! c))"

definition take_mail :: "nat \<Rightarrow> nat \<Rightarrow> mail_log \<Rightarrow> mail_log" where
  "take_mail n c L = L\<lparr>boxes := (boxes L)[c := (boxes L ! c)\<lparr>mb_taken := mb_taken (boxes L ! c) + n\<rparr>]\<rparr>"

definition box_open :: "mail_log \<Rightarrow> nat \<Rightarrow> bool" where
  "box_open L c \<longleftrightarrow> c < length (boxes L) \<and> mb_open (boxes L ! c)"

text \<open>What a selection takes: the earliest entry of the log at the front of one of its mailboxes.\<close>

definition front :: "mail_log \<Rightarrow> nat \<Rightarrow> (u64 \<times> message) option" where
  "front L c = (case unread L c of [] \<Rightarrow> None | e # _ \<Rightarrow> Some e)"

definition next_event :: "mail_log \<Rightarrow> nat list \<Rightarrow> (nat \<times> (u64 \<times> message)) option" where
  "next_event L cs = (case List.find (\<lambda>e. \<exists>c \<in> set cs. front L c = Some e) (entries L) of
       None \<Rightarrow> None
     | Some e \<Rightarrow> map_option (\<lambda>i. (i, e)) (find_index (\<lambda>c. front L c = Some e) cs))"

section \<open>Runs of both\<close>

datatype 'm bus_op =
    Subscribe topic
  | Dispatch message
  | Receive nat
  | Drain nat
  | DropReceiver nat
  | ClearAll
  | Select "(nat \<times> (bytes \<Rightarrow> 'm option)) list"

datatype 'm bus_out =
    Subscribed nat
  | Delivered u64
  | Received "receive_error + (u64 \<times> message) option"
  | Drained "(u64 \<times> message) list"
  | Selected "(nat \<times> (typed_receive_error + u64 \<times> 'm \<times> message_origin)) option"
  | NoOutput

text \<open>Only the owner of a receiver can use it, so a receiver that was dropped is not used any more.\<close>

definition alive :: "dispatcher \<Rightarrow> nat \<Rightarrow> bool" where
  "alive d c \<longleftrightarrow> c < length (channel_store d) \<and> \<not> receiver_gone (channel_store d ! c)"

fun bus_step :: "'m bus_op \<Rightarrow> dispatcher \<Rightarrow> 'm bus_out \<times> dispatcher" where
  "bus_step (Subscribe p) d = (case subscribe p d of (c, d) \<Rightarrow> (Subscribed c, d))"
| "bus_step (Dispatch m) d = (case dispatch m d of (n, d) \<Rightarrow> (Delivered n, d))"
| "bus_step (Receive c) d = (if alive d c
     then (case try_next c (channel_store d) of (r, st) \<Rightarrow> (Received r, d\<lparr>channel_store := st\<rparr>)) else (NoOutput, d))"
| "bus_step (Drain c) d = (if alive d c
     then (case drain c (channel_store d) of (r, st) \<Rightarrow> (Drained r, d\<lparr>channel_store := st\<rparr>)) else (NoOutput, d))"
| "bus_step (DropReceiver c) d = (NoOutput,
     if alive d c then d\<lparr>channel_store := drop_receiver c (channel_store d)\<rparr> else d)"
| "bus_step ClearAll d = (NoOutput, snd (clear_dispatcher d))"
| "bus_step (Select arms) d = (if list_all (\<lambda>(c, _). alive d c) arms
     then (case select_arm arms (channel_store d) of (r, st) \<Rightarrow> (Selected r, d\<lparr>channel_store := st\<rparr>)) else (NoOutput, d))"

fun log_step :: "'m bus_op \<Rightarrow> mail_log \<Rightarrow> 'm bus_out \<times> mail_log" where
  "log_step (Subscribe p) L = (Subscribed (length (boxes L)),
     L\<lparr>boxes := boxes L @ [\<lparr>mb_topic = p, mb_from = length (entries L), mb_taken = 0, mb_open = True\<rparr>]\<rparr>)"
| "log_step (Dispatch m) L =
     (Delivered (of_nat (length (filter (\<lambda>b. mb_open b \<and> mb_topic b = m_destination m) (boxes L)))),
      L\<lparr>entries := entries L @ [(of_nat (length (entries L)), m)]\<rparr>)"
| "log_step (Receive c) L = (if box_open L c
     then (Received (Inr (front L c)), if front L c = None then L else take_mail 1 c L) else (NoOutput, L))"
| "log_step (Drain c) L = (if box_open L c
     then (Drained (unread L c), take_mail (length (unread L c)) c L) else (NoOutput, L))"
| "log_step (DropReceiver c) L = (NoOutput,
     if box_open L c then L\<lparr>boxes := (boxes L)[c := (boxes L ! c)\<lparr>mb_open := False\<rparr>]\<rparr> else L)"
| "log_step ClearAll L = (NoOutput,
     L\<lparr>boxes := map (\<lambda>b. if mb_open b then b\<lparr>mb_taken := length (mail_of L b)\<rparr> else b) (boxes L)\<rparr>)"
| "log_step (Select arms) L = (if list_all (\<lambda>(c, _). box_open L c) arms
     then (case next_event L (map fst arms) of None \<Rightarrow> (Selected None, L)
           | Some (i, e) \<Rightarrow> (Selected (Some (i, case snd (arms ! i) (m_payload (snd e)) of
                 None \<Rightarrow> Inl CodecError | Some x \<Rightarrow> Inr (fst e, x, m_sender (snd e)))),
               take_mail 1 (fst (arms ! i)) L)) else (NoOutput, L))"

fun outputs :: "('o \<Rightarrow> 's \<Rightarrow> 'r \<times> 's) \<Rightarrow> 'o list \<Rightarrow> 's \<Rightarrow> 'r list" where
  "outputs f [] s = []"
| "outputs f (x # xs) s = (case f x s of (r, s) \<Rightarrow> r # outputs f xs s)"

section \<open>The abstraction\<close>

definition listed :: "dispatcher \<Rightarrow> topic \<Rightarrow> nat list" where
  "listed d p = (case map_of (subscribers d) p of Some cs \<Rightarrow> cs | None \<Rightarrow> [])"

definition tracks :: "dispatcher \<Rightarrow> mail_log \<Rightarrow> nat \<Rightarrow> bool" where
  "tracks d L c \<longleftrightarrow> receiver_gone (channel_store d ! c) = (\<not> mb_open (boxes L ! c)) \<and>
     (mb_open (boxes L ! c) \<longrightarrow> deque (channel_store d ! c) = unread L c \<and> sender_count (channel_store d ! c) = 1 \<and>
        c \<in> set (listed d (mb_topic (boxes L ! c)))) \<and>
     mb_from (boxes L ! c) \<le> length (entries L) \<and> mb_taken (boxes L ! c) \<le> length (mail_of L (boxes L ! c))"

definition subscribed_ok :: "dispatcher \<Rightarrow> mail_log \<Rightarrow> topic \<Rightarrow> bool" where
  "subscribed_ok d L p \<longleftrightarrow> distinct (listed d p) \<and>
     (\<forall>c \<in> set (listed d p). c < length (boxes L) \<and> mb_topic (boxes L ! c) = p)"

definition abstracts :: "dispatcher \<Rightarrow> mail_log \<Rightarrow> bool" where
  "abstracts d L \<longleftrightarrow> local_index d = of_nat (length (entries L)) \<and>
     (\<forall>i < length (entries L). fst (entries L ! i) = of_nat i) \<and>
     length (channel_store d) = length (boxes L) \<and>
     (\<forall>c < length (boxes L). tracks d L c) \<and> (\<forall>p. subscribed_ok d L p)"

lemma abstractsD:
  assumes "abstracts d L"
  shows "local_index d = of_nat (length (entries L))" "length (channel_store d) = length (boxes L)"
    and "i < length (entries L) \<Longrightarrow> fst (entries L ! i) = of_nat i"
    and "c < length (boxes L) \<Longrightarrow> tracks d L c" and "subscribed_ok d L p"
  using assms unfolding abstracts_def by blast+

lemma mail_of_boxes [simp]: "mail_of (L\<lparr>boxes := bs\<rparr>) b = mail_of L b"
  by (simp add: mail_of_def)

lemma listed_store [simp]: "listed (d\<lparr>channel_store := st\<rparr>) p = listed d p"
  by (simp add: listed_def)

lemma alive_open: "abstracts d L \<Longrightarrow> alive d c = box_open L c"
  using abstractsD(4) [of d L c] by (auto simp: alive_def box_open_def tracks_def abstractsD(2))

lemma open_channel:
  assumes "abstracts d L" "box_open L c"
  shows "deque (channel_store d ! c) = unread L c" "sender_count (channel_store d ! c) = 1"
    and "c < length (boxes L)" "mb_open (boxes L ! c)" "\<not> receiver_gone (channel_store d ! c)"
  using abstractsD(4) [OF assms(1), of c] assms(2) unfolding box_open_def tracks_def by blast+

lemma abstracts_update:
  assumes "abstracts d L" "c < length (boxes L)" "mb_open (boxes L ! c)"
    and "mb_topic b = mb_topic (boxes L ! c)" "mb_from b = mb_from (boxes L ! c)"
    and "mb_taken b \<le> length (mail_of L b)" "receiver_gone ch = (\<not> mb_open b)"
    and "mb_open b \<Longrightarrow> deque ch = drop (mb_taken b) (mail_of L b) \<and> sender_count ch = 1"
  shows "abstracts (d\<lparr>channel_store := (channel_store d)[c := ch]\<rparr>) (L\<lparr>boxes := (boxes L)[c := b]\<rparr>)"
proof -
  let ?d = "d\<lparr>channel_store := (channel_store d)[c := ch]\<rparr>" and ?L = "L\<lparr>boxes := (boxes L)[c := b]\<rparr>"
  note a = abstractsD [OF assms(1)]
  have "tracks ?d ?L k" if k: "k < length (boxes L)" for k
  proof (cases "k = c")
    case True
    then show ?thesis using a(4) [OF assms(2)] assms a(2)
      by (auto simp: tracks_def unread_def)
  next
    case False
    then show ?thesis using a(4) [OF k] by (simp add: tracks_def unread_def)
  qed
  moreover have "mb_topic ((boxes L)[c := b] ! k) = mb_topic (boxes L ! k)" for k
    using assms(2,4) by (cases "k = c") simp_all
  then have "subscribed_ok ?d ?L p" for p using a(5) [of p] by (simp add: subscribed_ok_def)
  ultimately show ?thesis using a(1-3) by (simp add: abstracts_def)
qed

lemma take_abstracts:
  assumes "abstracts d L" "box_open L c" "n \<le> length (unread L c)"
  shows "abstracts (d\<lparr>channel_store := (channel_store d)[c := (channel_store d ! c)\<lparr>deque := drop n (unread L c)\<rparr>]\<rparr>)
    (take_mail n c L)"
proof -
  note o = open_channel [OF assms(1,2)]
  have "mb_taken (boxes L ! c) \<le> length (mail_of L (boxes L ! c))"
    using abstractsD(4) [OF assms(1) o(3)] unfolding tracks_def by blast
  then show ?thesis unfolding take_mail_def using assms(3) o
    by (intro abstracts_update [OF assms(1) o(3,4)]) (simp_all add: unread_def mail_of_def add.commute)
qed

lemma receive_abstracts:
  assumes "abstracts d L" "box_open L c" "try_next c (channel_store d) = (r, st)"
  shows "r = Inr (front L c) \<and> abstracts (d\<lparr>channel_store := st\<rparr>) (if front L c = None then L else take_mail 1 c L)"
proof -
  note o = open_channel [OF assms(1,2)]
  show ?thesis
  proof (cases "unread L c")
    case Nil
    then show ?thesis using assms(1,3) o by (auto simp: try_next_def front_def)
  next
    case (Cons e es)
    then show ?thesis using assms(3) o take_abstracts [OF assms(1,2), of 1]
      by (auto simp: try_next_def front_def)
  qed
qed

lemma drain_abstracts:
  assumes "abstracts d L" "box_open L c" "drain c (channel_store d) = (r, st)"
  shows "r = unread L c \<and> abstracts (d\<lparr>channel_store := st\<rparr>) (take_mail (length (unread L c)) c L)"
  using assms(3) open_channel [OF assms(1,2)] take_abstracts [OF assms(1,2), of "length (unread L c)"]
  by (auto simp: drain_def)

lemma drop_abstracts:
  assumes "abstracts d L" "box_open L c"
  shows "abstracts (d\<lparr>channel_store := drop_receiver c (channel_store d)\<rparr>)
    (L\<lparr>boxes := (boxes L)[c := (boxes L ! c)\<lparr>mb_open := False\<rparr>]\<rparr>)"
proof -
  note o = open_channel [OF assms]
  have "mb_taken (boxes L ! c) \<le> length (mail_of L (boxes L ! c))"
    using abstractsD(4) [OF assms(1) o(3)] unfolding tracks_def by blast
  then show ?thesis unfolding drop_receiver_def
    by (intro abstracts_update [OF assms(1) o(3,4)]) (simp_all add: mail_of_def)
qed

lemma subscribe_abstracts:
  assumes "abstracts d L" "subscribe p d = (c, d')"
  shows "c = length (boxes L) \<and> abstracts d'
    (L\<lparr>boxes := boxes L @ [\<lparr>mb_topic = p, mb_from = length (entries L), mb_taken = 0, mb_open = True\<rparr>]\<rparr>)"
proof -
  let ?b = "\<lparr>mb_topic = p, mb_from = length (entries L), mb_taken = 0, mb_open = True\<rparr>"
  note a = abstractsD [OF assms(1)]
  have c: "c = length (boxes L)"
    and d': "d' = d\<lparr>channel_store := channel_store d @ [\<lparr>deque = [], sender_count = 1, receiver_gone = False\<rparr>],
      subscribers := AList.update p (listed d p @ [c]) (subscribers d)\<rparr>"
    using assms(2) by (auto simp: subscribe_def new_channel_def Let_def listed_def a(2))
  have l: "listed d' q = (if q = p then listed d p @ [c] else listed d q)" for q
    by (simp add: listed_def d' update_conv)
  have st: "channel_store d' = channel_store d @ [\<lparr>deque = [], sender_count = 1, receiver_gone = False\<rparr>]"
    and li: "local_index d' = local_index d" by (simp_all add: d')
  have "tracks d' (L\<lparr>boxes := boxes L @ [?b]\<rparr>) k" if "k < Suc (length (boxes L))" for k
  proof (cases "k = length (boxes L)")
    case True
    then show ?thesis using a(2) c by (simp add: tracks_def l nth_append unread_def mail_of_def st)
  next
    case False
    then have "k < length (boxes L)" using that by simp
    then show ?thesis using a(4) [of k] a(2) by (auto simp: tracks_def l nth_append unread_def st)
  qed
  moreover have "subscribed_ok d' (L\<lparr>boxes := boxes L @ [?b]\<rparr>) q" for q
  proof -
    have old: "x < length (boxes L) \<and> mb_topic (boxes L ! x) = r" if "x \<in> set (listed d r)" for x r
      using a(5) [of r] that unfolding subscribed_ok_def by blast
    have "distinct (listed d' q)"
      using a(5) [of q] old [of c] unfolding l by (cases "q = p") (auto simp: subscribed_ok_def c)
    moreover have "x < Suc (length (boxes L)) \<and> mb_topic ((boxes L @ [?b]) ! x) = q" if x: "x \<in> set (listed d' q)" for x
    proof (cases "x \<in> set (listed d q)")
      case True
      from old [OF this] show ?thesis by (simp add: nth_append)
    next
      case False
      then have "x = c" "q = p" using x unfolding l by (auto split: if_splits)
      then show ?thesis by (simp add: c)
    qed
    ultimately show ?thesis by (simp add: subscribed_ok_def)
  qed
  ultimately show ?thesis using a(1-3) c by (simp add: abstracts_def st li)
qed

section \<open>Dispatching\<close>

lemma offer_gives:
  assumes "offer v cs st = (kept, n, st')" "distinct cs" "\<forall>c \<in> set cs. c < length st"
  shows "kept = filter (\<lambda>c. \<not> receiver_gone (st ! c)) cs \<and> n = of_nat (length kept) \<and> length st' = length st \<and>
    (\<forall>c < length st. receiver_gone (st' ! c) = receiver_gone (st ! c) \<and>
       (\<not> receiver_gone (st ! c) \<longrightarrow> sender_count (st' ! c) = sender_count (st ! c) \<and>
          deque (st' ! c) = deque (st ! c) @ (if c \<in> set cs then [v] else [])))"
  using assms
proof (induction cs arbitrary: st kept n st')
  case (Cons c cs)
  have c: "c < length st" "c \<notin> set cs" using Cons.prems by simp_all
  show ?case
  proof (cases "receiver_gone (st ! c)")
    case True
    then have "offer v cs (drop_sender c st) = (kept, n, st')" using Cons.prems(1) by (simp add: send_def)
    note IH = Cons.IH [OF this]
    have len: "length (drop_sender c st) = length st" by (simp add: drop_sender_def)
    have other: "drop_sender c st ! k = st ! k" if "\<not> receiver_gone (st ! k)" for k
      using that True by (cases "k = c") (simp_all add: drop_sender_def)
    have gone: "receiver_gone (drop_sender c st ! k) = receiver_gone (st ! k)" for k
      using c(1) by (cases "k = c") (simp_all add: drop_sender_def)
    show ?thesis using IH True Cons.prems(2,3) c by (auto simp: len other gone)
  next
    case False
    define st1 where "st1 = st[c := (st ! c)\<lparr>deque := deque (st ! c) @ [v]\<rparr>]"
    obtain kept1 n1 where off: "offer v cs st1 = (kept1, n1, st')" and k: "kept = c # kept1" "n = n1 + 1"
      using Cons.prems(1) False by (cases "offer v cs st1") (simp add: send_def st1_def)
    have at: "st1 ! c = (st ! c)\<lparr>deque := deque (st ! c) @ [v]\<rparr>" using c(1) by (simp add: st1_def)
    have other: "st1 ! k = st ! k" if "k \<noteq> c" for k using that by (simp add: st1_def)
    have gone: "receiver_gone (st1 ! k) = receiver_gone (st ! k)" for k using at other by (cases "k = c") simp_all
    have len: "length st1 = length st" by (simp add: st1_def)
    have IH: "kept1 = filter (\<lambda>c. \<not> receiver_gone (st ! c)) cs \<and> n1 = of_nat (length kept1) \<and> length st' = length st \<and>
      (\<forall>k < length st. receiver_gone (st' ! k) = receiver_gone (st ! k) \<and>
       (\<not> receiver_gone (st ! k) \<longrightarrow> sender_count (st' ! k) = sender_count (st1 ! k) \<and>
          deque (st' ! k) = deque (st1 ! k) @ (if k \<in> set cs then [v] else [])))"
      using Cons.IH [OF off] Cons.prems(2,3) by (simp add: len gone)
    have "sender_count (st' ! m) = sender_count (st ! m) \<and>
        deque (st' ! m) = deque (st ! m) @ (if m \<in> set (c # cs) then [v] else [])"
      if "m < length st" "\<not> receiver_gone (st ! m)" for m
      using IH that at other c(2) by (cases "m = c") auto
    then show ?thesis using IH k False by (simp add: add.commute)
  qed
qed simp

lemma mail_of_new: 
  "mb_from b \<le> length (entries L) \<Longrightarrow> mail_of (L\<lparr>entries := entries L @ [e]\<rparr>) b =
     mail_of L b @ (if m_destination (snd e) = mb_topic b then [e] else [])"
  by (simp add: mail_of_def)

lemma dispatch_abstracts:
  assumes "abstracts d L" "dispatch m d = (n, d')"
  shows "n = of_nat (length (filter (\<lambda>b. mb_open b \<and> mb_topic b = m_destination m) (boxes L))) \<and>
    abstracts d' (L\<lparr>entries := entries L @ [(of_nat (length (entries L)), m)]\<rparr>)"
proof -
  note a = abstractsD [OF assms(1)]
  let ?p = "m_destination m" and ?e = "(of_nat (length (entries L)) :: u64, m)"
  let ?L = "L\<lparr>entries := entries L @ [?e]\<rparr>"
  obtain kept st n' where off: "offer ?e (listed d ?p) (channel_store d) = (kept, n', st)"
    by (metis prod_cases3)
  have sub: "distinct (listed d ?p)" "\<forall>c \<in> set (listed d ?p). c < length (channel_store d) \<and> mb_topic (boxes L ! c) = ?p"
    using a(5) [of ?p] by (simp_all add: subscribed_ok_def a(2))
  have G: "kept = filter (\<lambda>c. \<not> receiver_gone (channel_store d ! c)) (listed d ?p)" "n' = of_nat (length kept)"
      "length st = length (boxes L)"
      "\<And>c. c < length (boxes L) \<Longrightarrow> receiver_gone (st ! c) = receiver_gone (channel_store d ! c) \<and>
       (\<not> receiver_gone (channel_store d ! c) \<longrightarrow> sender_count (st ! c) = sender_count (channel_store d ! c) \<and>
          deque (st ! c) = deque (channel_store d ! c) @ (if c \<in> set (listed d ?p) then [?e] else []))"
    using offer_gives [OF off sub(1)] sub(2) a(2) by auto
  have none: "map_of (subscribers d) ?p = None \<Longrightarrow> kept = [] \<and> st = channel_store d \<and> n' = 0"
    using off by (simp add: listed_def)
  have d': "n = n'" "channel_store d' = st" "local_index d' = local_index d + 1"
    "\<And>q. listed d' q = (if q = ?p then kept else listed d q)"
    using assms(2) off none
    by (cases "map_of (subscribers d) ?p";
        auto simp: dispatch_def Let_def a(1) listed_def update_conv split: prod.splits)+
  have "set kept = {c. c < length (boxes L) \<and> mb_open (boxes L ! c) \<and> mb_topic (boxes L ! c) = ?p}"
  proof (intro set_eqI iffI)
    fix c
    assume "c \<in> set kept"
    then have "c \<in> set (listed d ?p)" "\<not> receiver_gone (channel_store d ! c)" by (simp_all add: G(1))
    then show "c \<in> {c. c < length (boxes L) \<and> mb_open (boxes L ! c) \<and> mb_topic (boxes L ! c) = ?p}"
      using sub(2) a(2) a(4) [of c] by (auto simp: tracks_def)
  next
    fix c
    assume "c \<in> {c. c < length (boxes L) \<and> mb_open (boxes L ! c) \<and> mb_topic (boxes L ! c) = ?p}"
    then show "c \<in> set kept" using a(4) [of c] by (auto simp: G(1) tracks_def)
  qed
  moreover have "distinct kept" using sub(1) by (simp add: G(1))
  ultimately have count: "length kept = length (filter (\<lambda>b. mb_open b \<and> mb_topic b = ?p) (boxes L))"
    by (simp add: length_filter_conv_card distinct_card [symmetric])
  have "tracks d' ?L c" if c: "c < length (boxes L)" for c
  proof -
    let ?b = "boxes L ! c"
    have t: "tracks d L c" by (rule a(4) [OF c])
    then have mail: "mail_of ?L ?b = mail_of L ?b @ (if ?p = mb_topic ?b then [?e] else [])"
      by (simp add: mail_of_new tracks_def)
    have "unread ?L c = unread L c @ (if ?p = mb_topic ?b then [?e] else [])"
      using t unfolding unread_def by (simp add: mail tracks_def)
    moreover have mine: "c \<in> set (listed d (mb_topic ?b)) \<and> \<not> receiver_gone (channel_store d ! c)" if "mb_open ?b"
      using t that unfolding tracks_def by blast
    moreover have "c \<in> set (listed d ?p) \<longleftrightarrow> ?p = mb_topic ?b" if "mb_open ?b"
      using mine [OF that] sub(2) by metis
    moreover have "c \<in> set (listed d' (mb_topic ?b))" if "mb_open ?b"
      using mine [OF that] unfolding d'(4) G(1) by (cases "mb_topic ?b = ?p") simp_all
    ultimately show ?thesis using t G(4) [OF c] unfolding tracks_def d'(2)
      by (cases "mb_open ?b") (simp_all add: mail)
  qed
  moreover have "subscribed_ok d' ?L q" for q
    using a(5) [of q] sub by (auto simp: subscribed_ok_def d'(4) G(1) a(2))
  moreover have "fst (entries ?L ! i) = of_nat i" if "i < length (entries ?L)" for i
    using that a(3) by (auto simp: nth_append less_Suc_eq)
  ultimately have "abstracts d' ?L" using a(1) G(3) by (simp add: abstracts_def d'(2,3))
  then show ?thesis using count G(2) d'(1) by simp
qed

section \<open>Clearing\<close>

lemma clear_store:
  assumes "foldl (\<lambda>(count, st) c. let (n, st) = sender_clear c st in (count + n, st)) (k, st) cs = (n, st')"
  shows "length st' = length st \<and> (\<forall>c < length st. receiver_gone (st' ! c) = receiver_gone (st ! c) \<and>
    sender_count (st' ! c) = sender_count (st ! c) \<and> deque (st' ! c) = (if c \<in> set cs then [] else deque (st ! c)))"
  using assms
proof (induction cs arbitrary: k st)
  case (Cons c cs)
  let ?st = "st[c := (st ! c)\<lparr>deque := []\<rparr>]"
  from Cons.prems have "foldl (\<lambda>(count, st) c. let (n, st) = sender_clear c st in (count + n, st))
      (k + of_nat (length (deque (st ! c))), ?st) cs = (n, st')"
    by (simp add: sender_clear_def)
  note IH = Cons.IH [OF this]
  have "?st ! x = (if x = c \<and> c < length st then (st ! c)\<lparr>deque := []\<rparr> else st ! x)" for x
    by (cases "x = c"; cases "c < length st") (simp_all add: not_less list_update_beyond)
  then show ?case using IH by simp
qed simp

lemma clear_abstracts:
  assumes "abstracts d L"
  shows "abstracts (snd (clear_dispatcher d))
    (L\<lparr>boxes := map (\<lambda>b. if mb_open b then b\<lparr>mb_taken := length (mail_of L b)\<rparr> else b) (boxes L)\<rparr>)"
proof -
  note a = abstractsD [OF assms]
  let ?f = "\<lambda>b. if mb_open b then b\<lparr>mb_taken := length (mail_of L b)\<rparr> else b"
  let ?cs = "concat (map snd (subscribers d))"
  obtain n st where f: "foldl (\<lambda>(count, st) c. let (n, st) = sender_clear c st in (count + n, st)) (0, channel_store d) ?cs = (n, st)"
    by fastforce
  have d': "snd (clear_dispatcher d) = d\<lparr>channel_store := st\<rparr>" unfolding clear_dispatcher_def f by simp
  have S: "length st = length (boxes L)" "\<And>c. c < length (boxes L) \<Longrightarrow> receiver_gone (st ! c) = receiver_gone (channel_store d ! c) \<and>
    sender_count (st ! c) = sender_count (channel_store d ! c) \<and> deque (st ! c) = (if c \<in> set ?cs then [] else deque (channel_store d ! c))"
    using clear_store [OF f] a(2) by simp_all
  have listed: "c \<in> set ?cs" if c: "c \<in> set (listed d p)" for c p
  proof -
    obtain cs where "map_of (subscribers d) p = Some cs" "c \<in> set cs"
      using c by (cases "map_of (subscribers d) p") (simp_all add: listed_def)
    then show ?thesis using map_of_SomeD [of "subscribers d" p cs] by force
  qed
  have mail: "mail_of L (?f b) = mail_of L b" for b by (simp add: mail_of_def)
  have "tracks (d\<lparr>channel_store := st\<rparr>) (L\<lparr>boxes := map ?f (boxes L)\<rparr>) c" if c: "c < length (boxes L)" for c
  proof (cases "mb_open (boxes L ! c)")
    case True
    then have "c \<in> set ?cs" using a(4) [OF c] listed unfolding tracks_def by blast
    then show ?thesis using True a(4) [OF c] S(2) [OF c] c by (simp add: tracks_def unread_def mail_of_def)
  next
    case False
    then show ?thesis using a(4) [OF c] S(2) [OF c] c by (simp add: tracks_def)
  qed
  moreover have "mb_topic (map ?f (boxes L) ! c) = mb_topic (boxes L ! c)" if "c < length (boxes L)" for c
    using that by simp
  then have "subscribed_ok (d\<lparr>channel_store := st\<rparr>) (L\<lparr>boxes := map ?f (boxes L)\<rparr>) p" for p
    using a(5) [of p] by (simp add: subscribed_ok_def)
  ultimately show ?thesis unfolding d' using a(1,3) S(1) by (simp add: abstracts_def)
qed

section \<open>Selecting\<close>

lemma select_min_append:
  "select_min (ps @ qs) k acc = select_min qs (k + length ps) (select_min ps k acc)"
proof (induction ps arbitrary: k acc)
  case (Cons p ps)
  then show ?case by (cases acc) simp
qed simp

lemma select_min_least:
  "case select_min (map Inr os) 0 (None, 0) of
     (None, _) \<Rightarrow> \<forall>x \<in> set os. x = None
   | (Some s, i) \<Rightarrow> i < length os \<and> os ! i = Some s \<and>
       (\<forall>j < length os. \<forall>t. os ! j = Some t \<longrightarrow> s \<le> t \<and> (t = s \<longrightarrow> i \<le> j))"
proof (induction os rule: rev_induct)
  case (snoc x xs)
  obtain least i where m: "select_min (map Inr xs) 0 (None, 0) = (least, i)" by fastforce
  have sn: "select_min (map Inr (xs @ [x])) 0 (None, 0) = select_min [Inr x] (length xs) (least, i)"
    by (simp add: select_min_append m)
  show ?case
  proof (cases x)
    case None
    then show ?thesis using snoc.IH unfolding sn m by (cases least) (auto simp: nth_append less_Suc_eq)
  next
    case (Some t)
    show ?thesis
    proof (cases least)
      case None
      then show ?thesis using snoc.IH Some unfolding sn m
        by (auto simp: nth_append less_Suc_eq) (metis nth_mem option.distinct(1))+
    next
      case (Some s)
      then show ?thesis using snoc.IH \<open>x = Some t\<close> unfolding sn m
        by (auto simp: nth_append less_Suc_eq not_less dest: less_imp_le order.strict_trans1 order.trans) 
    qed
  qed
qed simp

lemma find_index_eq:
  assumes "i < length xs" "P (xs ! i)" "\<forall>j < i. \<not> P (xs ! j)"
  shows "find_index P xs = Some i"
proof (cases "find_index P xs")
  case None
  then have "\<forall>x \<in> set xs. \<not> P x" by (simp add: find_index_None)
  then show ?thesis using assms(2) nth_mem [OF assms(1)] by blast
next
  case (Some k)
  from find_index_Some [OF this] have "P (xs ! k)" "\<forall>j < k. \<not> P (xs ! j)" by blast+
  then have "\<not> k < i" "\<not> i < k" using assms(2,3) by blast+
  then show ?thesis using Some by simp
qed

lemma front_entry:
  assumes "front L c = Some e"
  shows "\<exists>j < length (entries L). entries L ! j = e"
proof -
  have "e \<in> set (unread L c)" using assms by (auto simp: front_def split: list.splits)
  then have "e \<in> set (entries L)" unfolding unread_def mail_of_def by (fastforce dest: in_set_dropD)
  then show ?thesis by (auto simp: in_set_conv_nth)
qed

lemma entry_order:
  assumes "abstracts d L" "length (entries L) < 2 ^ 64" "i < length (entries L)" "j < length (entries L)"
  shows "fst (entries L ! i) \<le> fst (entries L ! j) \<longleftrightarrow> i \<le> j"
proof -
  have u: "unat (of_nat k :: u64) = k" if "k < length (entries L)" for k
    using that assms(2) by (intro unat_of_nat_small) simp
  show ?thesis using abstractsD(3) [OF assms(1)] assms(3,4) by (simp add: word_le_nat_alt u)
qed

lemma select_finds:
  assumes "abstracts d L" "length (entries L) < 2 ^ 64" "\<forall>c \<in> set cs. box_open L c"
  shows "case select_min (map (\<lambda>c. peek_ind c (channel_store d)) cs) 0 (None, 0) of
     (None, _) \<Rightarrow> next_event L cs = None
   | (Some _, i) \<Rightarrow> i < length cs \<and> (\<exists>e. front L (cs ! i) = Some e \<and> next_event L cs = Some (i, e))"
proof -
  let ?os = "map (\<lambda>c. map_option fst (front L c)) cs"
  have "peek_ind c (channel_store d) = Inr (map_option fst (front L c))" if "c \<in> set cs" for c
    using open_channel [OF assms(1)] assms(3) that by (simp add: peek_ind_def front_def split: list.split)
  then have peeks: "map (\<lambda>c. peek_ind c (channel_store d)) cs = map Inr ?os" by simp
  obtain least i where m: "select_min (map Inr ?os) 0 (None, 0) = (least, i)" by fastforce
  show ?thesis
  proof (cases least)
    case None
    then have "\<forall>x \<in> set ?os. x = None" using select_min_least [of ?os] unfolding m by simp
    then have "\<not> (\<exists>c \<in> set cs. front L c = Some e)" for e by auto
    then have "next_event L cs = None"
      by (simp add: next_event_def find_None_iff [THEN iffD2])
    then show ?thesis unfolding peeks m None by simp
  next
    case (Some s)
    have I: "i < length cs" "?os ! i = Some s" "\<And>j t. j < length cs \<Longrightarrow> ?os ! j = Some t \<Longrightarrow> s \<le> t \<and> (t = s \<longrightarrow> i \<le> j)"
      using select_min_least [of ?os] unfolding m Some by auto
    obtain e where e: "front L (cs ! i) = Some e" "fst e = s" using I(1,2) by auto
    obtain k where k: "k < length (entries L)" "entries L ! k = e" using front_entry [OF e(1)] by blast
    have first: "\<not> (\<exists>c \<in> set cs. front L c = Some (entries L ! k'))" if "k' < k" for k'
    proof
      assume "\<exists>c \<in> set cs. front L c = Some (entries L ! k')"
      then obtain j where j: "j < length cs" "front L (cs ! j) = Some (entries L ! k')" by (auto simp: in_set_conv_nth)
      then have "s \<le> fst (entries L ! k')" using I(3) [OF j(1)] by simp
      then have "k \<le> k'" using entry_order [OF assms(1,2) k(1), of k'] that k e(2) by simp
      then show False using that by simp
    qed
    have "List.find (\<lambda>e. \<exists>c \<in> set cs. front L c = Some e) (entries L) = Some e"
      unfolding find_Some_iff using k e(1) I(1) first by (intro exI [of _ k]) auto
    moreover have "find_index (\<lambda>c. front L c = Some e) cs = Some i"
    proof (rule find_index_eq [OF I(1)])
      show "\<forall>j < i. front L (cs ! j) \<noteq> Some e"
      proof (intro allI impI notI)
        fix j
        assume "j < i" "front L (cs ! j) = Some e"
        then show False using I(1) I(3) [of j s] e(2) by simp
      qed
    qed (rule e(1))
    ultimately show ?thesis unfolding peeks m Some using I(1) e(1) by (simp add: next_event_def)
  qed
qed

lemma select_abstracts:
  assumes "abstracts d L" "length (entries L) < 2 ^ 64" "list_all (\<lambda>(c, _). box_open L c) arms"
    and "select_arm arms (channel_store d) = (r, st)"
  shows "\<exists>L'. log_step (Select arms) L = (Selected r, L') \<and> abstracts (d\<lparr>channel_store := st\<rparr>) L'"
proof -
  let ?cs = "map fst arms"
  have op: "\<forall>c \<in> set ?cs. box_open L c" using assms(3) by (auto simp: list_all_iff)
  obtain least i where m: "select_min (map (\<lambda>c. peek_ind c (channel_store d)) ?cs) 0 (None, 0) = (least, i)" by fastforce
  have m': "select_min (map (\<lambda>(c, _). peek_ind c (channel_store d)) arms) 0 (None, 0) = (least, i)"
    unfolding m [symmetric] by (simp add: comp_def case_prod_unfold)
  note S = select_finds [OF assms(1,2) op, unfolded m]
  show ?thesis
  proof (cases least)
    case None
    then show ?thesis using S assms(1,3,4) by (auto simp: select_arm_def m')
  next
    case (Some sn)
    then obtain e where e: "i < length arms" "front L (fst (arms ! i)) = Some e" "next_event L ?cs = Some (i, e)"
      using S by auto
    obtain r' st' where t: "try_next (fst (arms ! i)) (channel_store d) = (r', st')" by fastforce
    have "fst (arms ! i) \<in> set ?cs" using e(1) by simp
    from receive_abstracts [OF assms(1) _ t] op this e(2)
    have R: "r' = Inr (Some e)" "abstracts (d\<lparr>channel_store := st'\<rparr>) (take_mail 1 (fst (arms ! i)) L)" by auto
    show ?thesis using assms(3,4) e R t Some
      by (cases e) (auto simp: select_arm_def m' typed_try_next_def split: option.splits)
  qed
qed

section \<open>The refinement\<close>

lemma step_abstracts:
  assumes "abstracts d L" "length (entries L) < 2 ^ 64"
  shows "\<exists>r d' L'. bus_step op d = (r, d') \<and> log_step op L = (r, L') \<and> abstracts d' L' \<and>
    length (entries L') \<le> Suc (length (entries L))"
proof (cases op)
  case (Subscribe p)
  then show ?thesis using subscribe_abstracts [OF assms(1), of p] by (cases "subscribe p d") simp
next
  case (Dispatch m)
  then show ?thesis using dispatch_abstracts [OF assms(1), of m] by (cases "dispatch m d") simp
next
  case (Receive c)
  then show ?thesis using receive_abstracts [OF assms(1), of c] alive_open [OF assms(1), of c] assms(1)
    by (cases "try_next c (channel_store d)") (simp add: take_mail_def)
next
  case (Drain c)
  then show ?thesis using drain_abstracts [OF assms(1), of c] alive_open [OF assms(1), of c] assms(1)
    by (cases "drain c (channel_store d)"; cases "box_open L c") (auto simp: take_mail_def)
next
  case (DropReceiver c)
  then show ?thesis using drop_abstracts [OF assms(1), of c] alive_open [OF assms(1), of c] assms(1) by simp
next
  case ClearAll
  then show ?thesis using clear_abstracts [OF assms(1)] by simp
next
  case (Select arms)
  have al: "list_all (\<lambda>(c, _). alive d c) arms = list_all (\<lambda>(c, _). box_open L c) arms"
    by (simp add: alive_open [OF assms(1)])
  show ?thesis
  proof (cases "list_all (\<lambda>(c, _). box_open L c) arms")
    case True
    obtain r st where s: "select_arm arms (channel_store d) = (r, st)" by fastforce
    from select_abstracts [OF assms True s] obtain L' where L': "log_step (Select arms) L = (Selected r, L')"
      "abstracts (d\<lparr>channel_store := st\<rparr>) L'" by blast
    have "entries L' = entries L" using L'(1) True by (auto simp: take_mail_def split: option.splits)
    then show ?thesis using Select L' True al s by (simp del: log_step.simps)
  qed (use Select al assms(1) in simp)
qed

lemma runs_agree:
  assumes "abstracts d L" "length (entries L) + length ops < 2 ^ 64"
  shows "outputs bus_step ops d = outputs log_step ops L"
  using assms
proof (induction ops arbitrary: d L)
  case (Cons op ops)
  from step_abstracts [OF Cons.prems(1), of op] Cons.prems(2) obtain r d' L'
    where "bus_step op d = (r, d')" "log_step op L = (r, L')" "abstracts d' L'"
      "length (entries L') \<le> Suc (length (entries L))" by auto
  then show ?case using Cons.IH [of d' L'] Cons.prems(2) by simp
qed simp

text \<open>
  C7. The dispatcher refines a log of messages: whatever the order in which mailboxes are opened, messages
  dispatched, received, selected and discarded and receivers dropped, every call returns what it would on a
  single log of all messages of which each mailbox reads the entries with its topic since it was opened. So
  every message reaches each open mailbox of its topic exactly once and in order, \<open>dispatch\<close>
  returns how many there are, and \<open>select!\<close> takes the earliest message any of its receivers can read.
\<close>

theorem mailboxes_refine_log:
  assumes "length ops < 2 ^ 64"
  shows "outputs bus_step ops (new_dispatcher []) = outputs log_step ops \<lparr>entries = [], boxes = []\<rparr>"
proof (rule runs_agree)
  show "abstracts (new_dispatcher []) \<lparr>entries = [], boxes = []\<rparr>"
    by (simp add: abstracts_def new_dispatcher_def subscribed_ok_def listed_def)
qed (use assms in simp)

theorem mailboxes_refine_log_witness:
  "\<exists>m. m_destination m = [7] \<and>
    outputs bus_step [Subscribe [7], Subscribe [8], Dispatch m, Select [(1, \<lambda>_. Some 1), (0, \<lambda>_. Some (2 :: nat))]] (new_dispatcher []) =
      [Subscribed 0, Subscribed 1, Delivered 1, Selected (Some (1, Inr (0, 2, m_sender m)))]"
proof -
  let ?m = "\<lparr>m_sender = GatekeeperOrigin, m_destination = [7], m_payload = []\<rparr>"
  let ?ops = "[Subscribe [7], Subscribe [8], Dispatch ?m, Select [(1, \<lambda>_. Some 1), (0, \<lambda>_. Some (2 :: nat))]]"
  have "outputs log_step ?ops \<lparr>entries = [], boxes = []\<rparr> =
      [Subscribed 0, Subscribed 1, Delivered 1, Selected (Some (1, Inr (0, 2, m_sender ?m)))]"
    by (simp add: box_open_def next_event_def front_def unread_def mail_of_def)
  with mailboxes_refine_log [of ?ops] show ?thesis by (intro exI [of _ ?m]) simp
qed

end
