(* ===== verification/Utility.thy ===== *)
theory Utility
  imports Prelude
begin

text \<open>
  The utility pallet, \<open>src/substrate/frame/utility/src/lib.rs\<close>: batches of calls, derivative accounts
  and dispatch under another origin. The calls of the other pallets, their weights, the storage they
  share and the call filter of the runtime are parameters. The calls nest, and an origin carries its
  filter along, as \<open>Dispatchable\<close> of the runtime's calls does.
\<close>

section \<open>Calls, origins and events\<close>

datatype 'c utility_call =
    Inner 'c
  | Batch "'c utility_call list"
  | AsDerivative u16 "'c utility_call"
  | BatchAll "'c utility_call list"
  | DispatchAs origin "'c utility_call"
  | BatchTry "'c utility_call list"

record 'c filtered_origin =
  caller :: origin
  call_filter :: "'c utility_call \<Rightarrow> bool"

datatype utility_error = TooManyCalls | CallFiltered | PalletError nat

type_synonym utility_failure = "utility_error dispatch_error"

datatype utility_event =
    BatchInterrupted u32 utility_failure
  | BatchCompleted
  | BatchCompletedWithErrors "u32 list"
  | ItemCompleted
  | ItemFailed u32 utility_failure
  | DispatchedAs "utility_failure option"

text \<open>An outcome of a dispatch: the actual weight, also with an error, as in \<open>PostDispatchInfo\<close>.\<close>

type_synonym 's dispatched = "(utility_failure \<times> u64 option, u64 option, 's) outcome"

record ('c, 's) utility_config =
  inner_dispatch :: "origin \<Rightarrow> 'c \<Rightarrow> 's \<Rightarrow> 's dispatched"
  info_weight :: "'c utility_call \<Rightarrow> u64"
  base_call_filter :: "'c utility_call \<Rightarrow> bool"
  utility_deposit :: "utility_event \<Rightarrow> 's \<Rightarrow> 's"
  batch_weight :: "u32 \<Rightarrow> u64"
  batch_all_weight :: "u32 \<Rightarrow> u64"
  batch_try_weight :: "u32 \<Rightarrow> u64"
  dispatch_as_weight :: u64
  as_derivative_weight :: u64
  reads_writes_weight :: u64
  blake2_256 :: "bytes \<Rightarrow> bytes"
  max_allocation :: u32
  size_of_call :: u32

definition CALL_ALIGN :: u32 where "CALL_ALIGN = 1024"

definition batched_calls_limit :: "('c, 's) utility_config \<Rightarrow> u32" where
  "batched_calls_limit U =
     max_allocation U div 3 div ((size_of_call U + CALL_ALIGN - 1) div CALL_ALIGN * CALL_ALIGN)"

definition le_bytes16 :: "u16 \<Rightarrow> bytes" where
  "le_bytes16 w = [ucast w, ucast (drop_bit 8 w)]"

definition derivative_account_id :: "('c, 's) utility_config \<Rightarrow> account_id \<Rightarrow> u16 \<Rightarrow> account_id" where
  "derivative_account_id U who index =
     blake2_256 U (map (\<lambda>c. of_nat (of_char c)) ''modlpy/utilisuba'' @ who @ le_bytes16 index)"

definition origin_from :: "('c, 's) utility_config \<Rightarrow> origin \<Rightarrow> 'c filtered_origin" where
  "origin_from U o' = \<lparr>caller = o', call_filter = (if o' = Root then (\<lambda>_. True) else base_call_filter U)\<rparr>"

definition extract_actual_weight :: "u64 option \<Rightarrow> u64 \<Rightarrow> u64" where
  "extract_actual_weight w info = min (case w of Some w \<Rightarrow> w | None \<Rightarrow> info) info"

text \<open>
  The weight a call is announced with, before it is dispatched; \<open>info_weight\<close> of the runtime agrees with
  this on the calls of the pallet.
\<close>

definition batch_info :: "('c, 's) utility_config \<Rightarrow> 'c utility_call list \<Rightarrow> u64 \<Rightarrow> u64" where
  "batch_info U calls own =
     saturating_add (foldl (\<lambda>total weight. saturating_add total weight) 0 (map (info_weight U) calls)) own"

definition pallet_info_weight :: "('c, 's) utility_config \<Rightarrow> 'c utility_call \<Rightarrow> u64" where
  "pallet_info_weight U call = (case call of
     Inner c \<Rightarrow> info_weight U (Inner c)
   | Batch calls \<Rightarrow> batch_info U calls (batch_weight U (of_nat (length calls)))
   | AsDerivative _ c \<Rightarrow>
       saturating_add (saturating_add (as_derivative_weight U) (info_weight U c)) (reads_writes_weight U)
   | BatchAll calls \<Rightarrow> batch_info U calls (batch_all_weight U (of_nat (length calls)))
   | DispatchAs _ c \<Rightarrow> saturating_add (dispatch_as_weight U) (info_weight U c)
   | BatchTry calls \<Rightarrow> batch_info U calls (batch_try_weight U (of_nat (length calls))))"

text \<open>The filter \<open>batch_all\<close> adds: no \<open>batch_all\<close> within.\<close>

definition no_batch_all :: "'c utility_call \<Rightarrow> bool" where
  "no_batch_all c = (case c of BatchAll _ \<Rightarrow> False | _ \<Rightarrow> True)"

definition add_filter :: "('c utility_call \<Rightarrow> bool) \<Rightarrow> 'c filtered_origin \<Rightarrow> 'c filtered_origin" where
  "add_filter f o' = o'\<lparr>call_filter := (\<lambda>c. f c \<and> call_filter o' c)\<rparr>"

section \<open>Dispatch\<close>

text \<open>
  \<open>bypass\<close> is \<open>dispatch_bypass_filter\<close>, \<open>filtered_dispatch\<close> checks the filter unless the flag says not to, and the loops
  are those of the three batches with the index of the next call and the weight so far.
\<close>

function bypass :: "('c, 's) utility_config \<Rightarrow> 'c filtered_origin \<Rightarrow> 'c utility_call \<Rightarrow> 's \<Rightarrow> 's dispatched"
  and filtered_dispatch :: "('c, 's) utility_config \<Rightarrow> bool \<Rightarrow> 'c filtered_origin \<Rightarrow> 'c utility_call \<Rightarrow> 's \<Rightarrow> 's dispatched"
  and batch_loop :: "('c, 's) utility_config \<Rightarrow> bool \<Rightarrow> 'c filtered_origin \<Rightarrow> 'c utility_call list \<Rightarrow> u32 \<Rightarrow> u64 \<Rightarrow> 's \<Rightarrow> 's dispatched"
  and batch_all_loop :: "('c, 's) utility_config \<Rightarrow> bool \<Rightarrow> 'c filtered_origin \<Rightarrow> 'c utility_call list \<Rightarrow> u32 \<Rightarrow> u64 \<Rightarrow> 's \<Rightarrow> 's dispatched"
  and batch_try_loop :: "('c, 's) utility_config \<Rightarrow> bool \<Rightarrow> 'c filtered_origin \<Rightarrow> 'c utility_call list \<Rightarrow> u32 \<Rightarrow> u32 list \<Rightarrow> u64 \<Rightarrow> 's \<Rightarrow> 's dispatched"
where
  "bypass U o' (Inner c) s = inner_dispatch U (caller o') c s"
| "bypass U o' (Batch calls) s =
     (if length calls > unat (batched_calls_limit U) then Err (Module TooManyCalls, None) s
      else batch_loop U (ensure_root (caller o')) o' calls 0 0 s)"
| "bypass U o' (AsDerivative index c) s =
     (case ensure_signed (caller o') of None \<Rightarrow> Err (BadOrigin, None) s
      | Some who \<Rightarrow>
          let o1 = o'\<lparr>caller := Signed (derivative_account_id U who index)\<rparr>;
              base = saturating_add (as_derivative_weight U) (reads_writes_weight U)
          in (case filtered_dispatch U False o1 c s of
                Ok w t \<Rightarrow> Ok (Some (saturating_add base (extract_actual_weight w (info_weight U c)))) t
              | Err (e, w) t \<Rightarrow> Err (e, Some (saturating_add base (extract_actual_weight w (info_weight U c)))) t
              | Panic \<Rightarrow> Panic))"
| "bypass U o' (BatchAll calls) s = transactional s
     (if length calls > unat (batched_calls_limit U) then Err (Module TooManyCalls, None) s
      else let root = ensure_root (caller o')
           in batch_all_loop U root (if root then o' else add_filter no_batch_all o') calls 0 0 s)"
| "bypass U o' (DispatchAs o1 c) s =
     (if \<not> ensure_root (caller o') then Err (BadOrigin, None) s
      else case bypass U (origin_from U o1) c s of
             Ok _ t \<Rightarrow> Ok None (utility_deposit U (DispatchedAs None) t)
           | Err (e, _) t \<Rightarrow> Ok None (utility_deposit U (DispatchedAs (Some e)) t)
           | Panic \<Rightarrow> Panic)"
| "bypass U o' (BatchTry calls) s =
     (if length calls > unat (batched_calls_limit U) then Err (Module TooManyCalls, None) s
      else batch_try_loop U (ensure_root (caller o')) o' calls 0 [] 0 s)"
| "filtered_dispatch U unfiltered o' c s =
     (if \<not> unfiltered \<and> \<not> call_filter o' c then Err (Module CallFiltered, None) s else bypass U o' c s)"
| "batch_loop U root o' [] index weight s =
     Ok (Some (batch_weight U index + weight)) (utility_deposit U BatchCompleted s)"
| "batch_loop U root o' (c # calls) index weight s =
     (case filtered_dispatch U root o' c s of
        Ok w t \<Rightarrow> batch_loop U root o' calls (index + 1)
                   (saturating_add weight (extract_actual_weight w (info_weight U c))) (utility_deposit U ItemCompleted t)
      | Err (e, w) t \<Rightarrow> Ok (Some (batch_weight U (index + 1) + saturating_add weight (extract_actual_weight w (info_weight U c))))
                         (utility_deposit U (BatchInterrupted index e) t)
      | Panic \<Rightarrow> Panic)"
| "batch_all_loop U root o' [] index weight s =
     Ok (Some (batch_all_weight U index + weight)) (utility_deposit U BatchCompleted s)"
| "batch_all_loop U root o' (c # calls) index weight s =
     (case filtered_dispatch U root o' c s of
        Ok w t \<Rightarrow> batch_all_loop U root o' calls (index + 1)
                   (saturating_add weight (extract_actual_weight w (info_weight U c))) (utility_deposit U ItemCompleted t)
      | Err (e, w) t \<Rightarrow> Err (e, Some (batch_all_weight U (index + 1) +
                             saturating_add weight (extract_actual_weight w (info_weight U c)))) t
      | Panic \<Rightarrow> Panic)"
| "batch_try_loop U root o' [] index errors weight s =
     Ok (Some (batch_weight U index + weight))
        (utility_deposit U (if errors \<noteq> [] then BatchCompletedWithErrors errors else BatchCompleted) s)"
| "batch_try_loop U root o' (c # calls) index errors weight s =
     (case filtered_dispatch U root o' c s of
        Ok w t \<Rightarrow> batch_try_loop U root o' calls (index + 1) errors
                   (saturating_add weight (extract_actual_weight w (info_weight U c))) (utility_deposit U ItemCompleted t)
      | Err (e, w) t \<Rightarrow> batch_try_loop U root o' calls (index + 1) (errors @ [index])
                   (saturating_add weight (extract_actual_weight w (info_weight U c))) (utility_deposit U (ItemFailed index e) t)
      | Panic \<Rightarrow> Panic)"
  by pat_completeness auto
termination
  by (relation "measure (\<lambda>x. case x of
      Inl (Inl (U, o', c, s)) \<Rightarrow> 2 * size c
    | Inl (Inr (U, b, o', c, s)) \<Rightarrow> 2 * size c + 1
    | Inr (Inl (U, b, o', cs, i, w, s)) \<Rightarrow> 2 * size_list size cs
    | Inr (Inr (Inl (U, b, o', cs, i, w, s))) \<Rightarrow> 2 * size_list size cs
    | Inr (Inr (Inr (U, b, o', cs, i, es, w, s))) \<Rightarrow> 2 * size_list size cs)") auto

end
