(* ===== verification/Utility_Claims.thy ===== *)
theory Utility_Claims
  imports Utility
begin

text \<open>
  The batches against a reference that runs the calls one after the other until the first error.
\<close>

fun in_order :: "('s \<Rightarrow> 's) \<Rightarrow> ('c \<Rightarrow> 's \<Rightarrow> 's dispatched) \<Rightarrow> 'c list \<Rightarrow> 's \<Rightarrow> nat \<times> utility_failure option \<times> 's option" where
  "in_order done_one d [] s = (0, None, Some s)"
| "in_order done_one d (c # cs) s =
     (case d c s of
        Ok _ t \<Rightarrow> (case in_order done_one d cs (done_one t) of (n, e, r) \<Rightarrow> (Suc n, e, r))
      | Err (e, _) t \<Rightarrow> (0, Some e, Some t)
      | Panic \<Rightarrow> (0, None, None))"

text \<open>What a batch makes of such a run, the storage \<open>s\<close> before it being restored or not.\<close>

definition batch_outcome :: "('c, 's) utility_config \<Rightarrow> nat \<times> utility_failure option \<times> 's option \<Rightarrow> 's dispatched \<Rightarrow> bool" where
  "batch_outcome U run r = (case run of
       (n, None, Some t) \<Rightarrow> (\<exists>w. r = Ok w (utility_deposit U BatchCompleted t))
     | (n, Some e, Some t) \<Rightarrow> (\<exists>w. r = Ok w (utility_deposit U (BatchInterrupted (of_nat n) e) t))
     | (n, _, None) \<Rightarrow> r = Panic)"

definition batch_all_outcome :: "('c, 's) utility_config \<Rightarrow> 's \<Rightarrow> nat \<times> utility_failure option \<times> 's option \<Rightarrow> 's dispatched \<Rightarrow> bool" where
  "batch_all_outcome U s run r = (case run of
       (n, None, Some t) \<Rightarrow> (\<exists>w. r = Ok w (utility_deposit U BatchCompleted t))
     | (n, Some e, Some t) \<Rightarrow> (\<exists>w. r = Err (e, w) s)
     | (n, _, None) \<Rightarrow> r = Panic)"

lemma batch_loop_runs:
  "case in_order (utility_deposit U ItemCompleted) (filtered_dispatch U root o') calls s of
     (n, None, Some t) \<Rightarrow> (\<exists>w. batch_loop U root o' calls index weight s = Ok w (utility_deposit U BatchCompleted t))
   | (n, Some e, Some t) \<Rightarrow> (\<exists>w. batch_loop U root o' calls index weight s =
        Ok w (utility_deposit U (BatchInterrupted (index + of_nat n) e) t))
   | (n, _, None) \<Rightarrow> batch_loop U root o' calls index weight s = Panic"
proof (induction calls arbitrary: s index weight)
  case (Cons c calls)
  show ?case
  proof (cases "filtered_dispatch U root o' c s")
    case (Ok w t)
    obtain n e r where run: "in_order (utility_deposit U ItemCompleted) (filtered_dispatch U root o') calls
        (utility_deposit U ItemCompleted t) = (n, e, r)" by (metis prod_cases3)
    show ?thesis
      using Cons.IH [where s = "utility_deposit U ItemCompleted t" and index = "index + 1"
          and weight = "saturating_add weight (extract_actual_weight w (info_weight U c))"] Ok
      by (cases e; cases r; simp add: run add.commute add.left_commute del: filtered_dispatch.simps)
  qed (auto split: prod.splits simp del: filtered_dispatch.simps)
qed simp

lemma batch_all_loop_runs:
  "case in_order (utility_deposit U ItemCompleted) (filtered_dispatch U root o') calls s of
     (n, None, Some t) \<Rightarrow> (\<exists>w. batch_all_loop U root o' calls index weight s = Ok w (utility_deposit U BatchCompleted t))
   | (n, Some e, Some t) \<Rightarrow> (\<exists>w. batch_all_loop U root o' calls index weight s = Err (e, w) t)
   | (n, _, None) \<Rightarrow> batch_all_loop U root o' calls index weight s = Panic"
proof (induction calls arbitrary: s index weight)
  case (Cons c calls)
  show ?case
  proof (cases "filtered_dispatch U root o' c s")
    case (Ok w t)
    obtain n e r where run: "in_order (utility_deposit U ItemCompleted) (filtered_dispatch U root o') calls
        (utility_deposit U ItemCompleted t) = (n, e, r)" by (metis prod_cases3)
    show ?thesis
      using Cons.IH [where s = "utility_deposit U ItemCompleted t" and index = "index + 1"
          and weight = "saturating_add weight (extract_actual_weight w (info_weight U c))"] Ok
      by (cases e; cases r; simp add: run del: filtered_dispatch.simps)
  qed (auto split: prod.splits simp del: filtered_dispatch.simps)
qed simp

lemma in_order_stops:
  assumes "c \<in> set cs" "\<And>s. \<exists>e t. d c s = Err e t"
  shows "case in_order f d cs s of (n, e, r) \<Rightarrow> e = None \<longrightarrow> r = None"
  using assms(1)
proof (induction cs arbitrary: s)
  case (Cons x xs)
  show ?case
  proof (cases "d x s")
    case (Ok w t)
    then have "x \<noteq> c" using assms(2) [of s] by auto
    then have "c \<in> set xs" using Cons.prems by simp
    from Cons.IH [OF this, of "f t"] show ?thesis using Ok by (simp split: prod.splits)
  qed (auto split: prod.splits)
qed simp

text \<open>
  C37. A batch runs its calls one after the other until the first error: \<open>batch\<close> always succeeds, keeps what
  the calls before the error and the failing one wrote, and reports how many succeeded; \<open>batch_all\<close> succeeds
  exactly when all calls do, with the same storage, and otherwise fails with the first error and leaves the
  storage as it was. A \<open>batch_all\<close> of a user never succeeds with another \<open>batch_all\<close> among its calls.
\<close>

theorem batches_run_in_order:
  assumes "length calls \<le> unat (batched_calls_limit U)"
  shows "batch_outcome U (in_order (utility_deposit U ItemCompleted)
        (filtered_dispatch U (caller o' = Root) o') calls s) (bypass U o' (Batch calls) s) \<and>
    batch_all_outcome U s (in_order (utility_deposit U ItemCompleted) (filtered_dispatch U (caller o' = Root)
        (if caller o' = Root then o' else add_filter no_batch_all o')) calls s) (bypass U o' (BatchAll calls) s) \<and>
    (caller o' \<noteq> Root \<and> BatchAll inner \<in> set calls \<longrightarrow> \<not> (\<exists>w t. bypass U o' (BatchAll calls) s = Ok w t))"
proof (intro conjI impI)
  let ?o = "if caller o' = Root then o' else add_filter no_batch_all o'"
  let ?d = "utility_deposit U ItemCompleted"
  show "batch_outcome U (in_order ?d (filtered_dispatch U (caller o' = Root) o') calls s) (bypass U o' (Batch calls) s)"
    using batch_loop_runs [where U = U and root = "caller o' = Root" and o' = o' and calls = calls and s = s and index = 0 and weight = 0] assms
    by (simp add: batch_outcome_def ensure_root_def split: prod.splits option.splits del: filtered_dispatch.simps)
  obtain n e r where run: "in_order ?d (filtered_dispatch U (caller o' = Root) ?o) calls s = (n, e, r)"
    by (metis prod_cases3)
  have all: "bypass U o' (BatchAll calls) s = transactional s (batch_all_loop U (caller o' = Root) ?o calls 0 0 s)"
    using assms by (simp add: ensure_root_def Let_def)
  show out: "batch_all_outcome U s (in_order ?d (filtered_dispatch U (caller o' = Root) ?o) calls s) (bypass U o' (BatchAll calls) s)"
    using batch_all_loop_runs [where U = U and root = "caller o' = Root" and o' = ?o and calls = calls and s = s and index = 0 and weight = 0] unfolding all run batch_all_outcome_def
    by (cases e; cases r) auto
  assume nest: "caller o' \<noteq> Root \<and> BatchAll inner \<in> set calls"
  have "\<exists>e t. filtered_dispatch U (caller o' = Root) ?o (BatchAll inner) u = Err e t" for u
    using nest by (simp add: add_filter_def no_batch_all_def)
  from in_order_stops [OF conjunct2 [OF nest], of "filtered_dispatch U (caller o' = Root) ?o", OF this, of ?d s]
  have "e = None \<longrightarrow> r = None" unfolding run by simp
  then show "\<not> (\<exists>w t. bypass U o' (BatchAll calls) s = Ok w t)"
    using out unfolding run batch_all_outcome_def by (cases e; cases r) auto
qed

section \<open>Weights\<close>

definition returned_weight :: "'s dispatched \<Rightarrow> u64 option" where
  "returned_weight r = (case r of Ok w _ \<Rightarrow> w | Err (_, w) _ \<Rightarrow> w | Panic \<Rightarrow> None)"

lemma returned_simps [simp]:
  "returned_weight (Ok w t) = w" "returned_weight (Err (e, w) t) = w" "returned_weight Panic = None"
  by (simp_all add: returned_weight_def)

lemma returned_transactional [simp]: "returned_weight (transactional s r) = returned_weight r"
  by (cases r) (auto simp: transactional_def returned_weight_def)

text \<open>The benchmarks grow with the number of calls, and \<open>batch_try\<close> is announced with at least what it charges.\<close>

definition weights_grow :: "('c, 's) utility_config \<Rightarrow> bool" where
  "weights_grow U \<longleftrightarrow> (\<forall>i n. i \<le> n \<longrightarrow>
     batch_weight U i \<le> batch_weight U n \<and> batch_all_weight U i \<le> batch_all_weight U n \<and>
     batch_weight U n \<le> batch_try_weight U n)"

definition info_sum :: "('c, 's) utility_config \<Rightarrow> 'c utility_call list \<Rightarrow> nat" where
  "info_sum U calls = (\<Sum>c\<leftarrow>calls. unat (info_weight U c))"

lemma info_sum_simps [simp]:
  "info_sum U [] = 0" "info_sum U (c # cs) = unat (info_weight U c) + info_sum U cs"
  by (simp_all add: info_sum_def)

lemma extract_le: "unat (extract_actual_weight w i) \<le> unat i"
  by (simp add: extract_actual_weight_def word_le_nat_alt [symmetric])

lemma saturating_fold:
  "unat (foldl (\<lambda>total weight. saturating_add total weight) a (map (info_weight U) calls)) =
     min (unat a + info_sum U calls) (2 ^ 64 - 1)"
proof (induction calls arbitrary: a)
  case Nil
  have "unat a < 2 ^ 64" by (rule order.strict_trans2 [OF unsigned_less]) simp
  then show ?case by simp
next
  case (Cons c calls)
  show ?case by (simp add: Cons unat_saturating_add)
qed

lemma batch_info_exact:
  assumes "batch_info U calls own \<noteq> - 1"
  shows "unat (batch_info U calls own) = info_sum U calls + unat own" "info_sum U calls + unat own < 2 ^ 64"
proof -
  have eq: "unat (batch_info U calls own) = min (min (info_sum U calls) (2 ^ 64 - 1) + unat own) (2 ^ 64 - 1)"
    by (simp add: batch_info_def unat_saturating_add saturating_fold)
  have "unat (batch_info U calls own) \<noteq> 2 ^ 64 - 1"
  proof
    assume "unat (batch_info U calls own) = 2 ^ 64 - 1"
    then have "batch_info U calls own = - 1"
      by (simp add: word_unat_eq_iff unsigned_minus_1_eq_mask mask_eq_exp_minus_1)
    then show False using assms by simp
  qed
  then show "unat (batch_info U calls own) = info_sum U calls + unat own" "info_sum U calls + unat own < 2 ^ 64"
    using eq by linarith+
qed

lemma weight_step:
  assumes "unat weight + (unat (info_weight U c) + rest) < 2 ^ 64"
  shows "unat (saturating_add weight (extract_actual_weight w (info_weight U c))) + rest \<le>
    unat weight + (unat (info_weight U c) + rest)"
  using extract_le [of w "info_weight U c"] assms by (simp add: unat_saturating_add)

lemma index_step:
  assumes "unat (index :: u32) + Suc n < 2 ^ 32"
  shows "unat (index + 1) + n < 2 ^ 32" "index + 1 + of_nat n = index + of_nat (Suc n)"
    "index + 1 \<le> index + of_nat (Suc n)"
proof -
  have n: "unat (of_nat (Suc n) :: u32) = Suc n" using assms by (intro unat_of_nat_small) simp
  have 1: "unat (index + 1) = unat index + 1" using assms by (simp add: unat_word_ariths)
  have 2: "unat (index + of_nat (Suc n)) = unat index + Suc n"
    unfolding unat_word_ariths n using assms by simp
  show "unat (index + 1) + n < 2 ^ 32" using 1 assms by simp
  show "index + 1 + of_nat n = index + of_nat (Suc n)" by (simp add: algebra_simps)
  show "index + 1 \<le> index + of_nat (Suc n)" unfolding word_le_nat_alt 1 2 by simp
qed

lemma charge_le:
  assumes "unat (base :: u64) \<le> b" "unat weight \<le> v" "v + b < 2 ^ 64"
  shows "unat (base + weight) \<le> v + b"
  using assms by (simp add: unat_word_ariths)

lemma lt32: "unat (n :: u32) < 2 ^ 32"
  by (rule order.strict_trans2 [OF unsigned_less]) simp

text \<open>The three loops charge alike: a round adds a call's weight, and goes on or ends with the own weight.\<close>

lemma loop_weight:
  fixes L :: "'c utility_call list \<Rightarrow> u32 \<Rightarrow> 'a \<Rightarrow> u64 \<Rightarrow> 's \<Rightarrow> u64 option"
  assumes grow: "\<And>i n. i \<le> n \<Longrightarrow> own i \<le> own n"
    and nil: "\<And>i a w s x. L [] i a w s = Some x \<Longrightarrow> x = own i + w"
    and cons: "\<And>c cs i a w s x. L (c # cs) i a w s = Some x \<Longrightarrow>
      \<exists>v. let w' = saturating_add w (extract_actual_weight v (info_weight U c))
          in x = own (i + 1) + w' \<or> (\<exists>a' s'. L cs (i + 1) a' w' s' = Some x)"
    and "unat index + length calls < 2 ^ 32"
    and "unat weight + info_sum U calls + unat (own (index + of_nat (length calls))) < 2 ^ 64"
    and "L calls index a weight s = Some x"
  shows "unat x \<le> unat weight + info_sum U calls + unat (own (index + of_nat (length calls)))"
  using assms(4-6)
proof (induction calls arbitrary: index weight a s)
  case Nil
  then show ?case using nil [OF Nil(3)] by (auto intro!: charge_le)
next
  case (Cons c calls)
  have room: "unat index + Suc (length calls) < 2 ^ 32" using Cons.prems(1) by simp
  note step = index_step [OF room]
  have fits: "unat weight + (unat (info_weight U c) + (info_sum U calls +
      unat (own (index + of_nat (Suc (length calls)))))) < 2 ^ 64"
    using Cons.prems(2) by (simp add: ac_simps)
  obtain v w' where w': "w' = saturating_add weight (extract_actual_weight v (info_weight U c))"
    and split: "x = own (index + 1) + w' \<or> (\<exists>a' s'. L calls (index + 1) a' w' s' = Some x)"
    using cons [OF Cons.prems(3)] by (auto simp: Let_def)
  note ws = weight_step [OF fits, of v, folded w']
  show ?case
  proof (cases "x = own (index + 1) + w'")
    case True
    have "own (index + 1) \<le> own (index + of_nat (Suc (length calls)))" by (rule grow [OF step(3)])
    then have "unat x \<le> (unat weight + (unat (info_weight U c) + info_sum U calls)) +
        unat (own (index + of_nat (Suc (length calls))))"
      unfolding True using ws fits by (intro charge_le) (auto simp: word_le_nat_alt)
    then show ?thesis by simp
  next
    case False
    then obtain a' s' where rest: "L calls (index + 1) a' w' s' = Some x" using split by blast
    have "unat w' + info_sum U calls + unat (own (index + 1 + of_nat (length calls))) < 2 ^ 64"
      using ws fits unfolding step(2) by linarith
    from Cons.IH [OF step(1) this rest] show ?thesis using ws unfolding step(2) by simp
  qed
qed

lemma batch_weights:
  assumes "weights_grow U" "length calls < 2 ^ 32"
  shows "info_sum U calls + unat (batch_weight U (of_nat (length calls))) < 2 ^ 64 \<Longrightarrow>
      returned_weight (batch_loop U root o' calls 0 0 s) = Some w \<Longrightarrow>
      unat w \<le> info_sum U calls + unat (batch_weight U (of_nat (length calls)))"
    and "info_sum U calls + unat (batch_weight U (of_nat (length calls))) < 2 ^ 64 \<Longrightarrow>
      returned_weight (batch_try_loop U root o' calls 0 [] 0 s) = Some w \<Longrightarrow>
      unat w \<le> info_sum U calls + unat (batch_weight U (of_nat (length calls)))"
    and "info_sum U calls + unat (batch_all_weight U (of_nat (length calls))) < 2 ^ 64 \<Longrightarrow>
      returned_weight (batch_all_loop U root o' calls 0 0 s) = Some w \<Longrightarrow>
      unat w \<le> info_sum U calls + unat (batch_all_weight U (of_nat (length calls)))"
proof -
  have grow: "i \<le> n \<Longrightarrow> batch_weight U i \<le> batch_weight U n" "i \<le> n \<Longrightarrow> batch_all_weight U i \<le> batch_all_weight U n"
    for i n using assms(1) by (simp_all add: weights_grow_def)
  note splits = outcome.splits prod.splits
  show "info_sum U calls + unat (batch_weight U (of_nat (length calls))) < 2 ^ 64 \<Longrightarrow>
      returned_weight (batch_loop U root o' calls 0 0 s) = Some w \<Longrightarrow>
      unat w \<le> info_sum U calls + unat (batch_weight U (of_nat (length calls)))"
    using loop_weight [where L = "\<lambda>cs i (a :: unit) w s. returned_weight (batch_loop U root o' cs i w s)"
        and own = "batch_weight U" and U = U and index = 0 and weight = 0 and calls = calls and x = w and s = s, OF grow(1)] assms(2)
    by (force simp: Let_def simp del: filtered_dispatch.simps split: splits)
  show "info_sum U calls + unat (batch_weight U (of_nat (length calls))) < 2 ^ 64 \<Longrightarrow>
      returned_weight (batch_try_loop U root o' calls 0 [] 0 s) = Some w \<Longrightarrow>
      unat w \<le> info_sum U calls + unat (batch_weight U (of_nat (length calls)))"
    using loop_weight [where L = "\<lambda>cs i es w s. returned_weight (batch_try_loop U root o' cs i es w s)"
        and own = "batch_weight U" and U = U and index = 0 and weight = 0 and calls = calls and x = w and s = s and a = "[]", OF grow(1)] assms(2)
    by (force simp: Let_def simp del: filtered_dispatch.simps split: splits)
  show "info_sum U calls + unat (batch_all_weight U (of_nat (length calls))) < 2 ^ 64 \<Longrightarrow>
      returned_weight (batch_all_loop U root o' calls 0 0 s) = Some w \<Longrightarrow>
      unat w \<le> info_sum U calls + unat (batch_all_weight U (of_nat (length calls)))"
    using loop_weight [where L = "\<lambda>cs i (a :: unit) w s. returned_weight (batch_all_loop U root o' cs i w s)"
        and own = "batch_all_weight U" and U = U and index = 0 and weight = 0 and calls = calls and x = w and s = s, OF grow(2)] assms(2)
    by (force simp: Let_def simp del: filtered_dispatch.simps split: splits)
qed

text \<open>A storage that is a list of numbers and the events; an odd number is refused, having been written.\<close>

definition demo_utility :: "(nat, nat list \<times> utility_event list) utility_config" where
  "demo_utility = \<lparr>inner_dispatch = (\<lambda>_ c (ns, es). if even c then Ok None (ns @ [c], es) else Err (Module (PalletError c), None) (ns @ [c], es)),
     info_weight = (\<lambda>_. 10), base_call_filter = (\<lambda>_. True), utility_deposit = (\<lambda>e (ns, es). (ns, es @ [e])),
     batch_weight = (\<lambda>n. ucast n), batch_all_weight = (\<lambda>n. ucast n), batch_try_weight = (\<lambda>n. ucast n), dispatch_as_weight = 1,
     as_derivative_weight = 1, reads_writes_weight = 1,
     blake2_256 = id, max_allocation = 33554432, size_of_call = 200\<rparr>"

lemma demo_limit: "unat (batched_calls_limit demo_utility) = 10922"
  by (simp add: batched_calls_limit_def demo_utility_def CALL_ALIGN_def)

theorem batches_run_in_order_witness:
  "\<exists>w e. bypass demo_utility \<lparr>caller = Signed [1], call_filter = (\<lambda>_. True)\<rparr> (Batch [Inner 2, Inner 3, Inner 4]) ([], []) =
      Ok w ([2, 3], [ItemCompleted, BatchInterrupted 1 (Module (PalletError 3))]) \<and>
    bypass demo_utility \<lparr>caller = Signed [1], call_filter = (\<lambda>_. True)\<rparr> (BatchAll [Inner 2, Inner 3, Inner 4]) ([], []) =
      Err (Module (PalletError 3), e) ([], [])"
proof -
  let ?o = "\<lparr>caller = Signed [1], call_filter = (\<lambda>_. True)\<rparr> :: nat filtered_origin"
  have "length [Inner 2, Inner 3, Inner (4 :: nat)] \<le> unat (batched_calls_limit demo_utility)"
    by (simp add: demo_limit)
  from batches_run_in_order [OF this, of ?o "([], [])" "[]"] show ?thesis
    by (simp add: batch_outcome_def batch_all_outcome_def demo_utility_def add_filter_def no_batch_all_def)
qed

text \<open>
  C38. A call of the utility pallet is never charged more than it was announced with: the weight a batch, a
  derivative call or a nested call returns, with an error too, is at most the weight computed from the
  announced weights of its calls, unless that weight has saturated.
\<close>

theorem charge_within_announced:
  assumes "weights_grow U" "\<forall>c'. c \<noteq> Inner c'" "pallet_info_weight U c \<noteq> - 1"
    and "returned_weight (bypass U o' c s) = Some w"
  shows "w \<le> pallet_info_weight U c"
proof -
  have limit: "\<not> unat (batched_calls_limit U) < length calls \<Longrightarrow> length calls < 2 ^ 32" for calls :: "'a utility_call list"
    using lt32 [of "batched_calls_limit U"] by linarith
  note exact = batch_info_exact [of U]
  have trial: "batch_weight U n \<le> batch_try_weight U n" for n using assms(1) unfolding weights_grow_def by blast
  show ?thesis
  proof (cases c)
    case (Batch calls)
    then have "length calls < 2 ^ 32" and run: "returned_weight (batch_loop U (ensure_root (caller o')) o' calls 0 0 s) = Some w"
      using assms(4) limit [of calls] by (auto split: if_splits)
    from batch_weights(1) [OF assms(1) this(1) _ run] exact assms(3) show ?thesis
      unfolding Batch pallet_info_weight_def word_le_nat_alt by simp
  next
    case (BatchAll calls)
    then have "length calls < 2 ^ 32" and run: "\<exists>o'. returned_weight (batch_all_loop U (ensure_root (caller o')) o' calls 0 0 s) = Some w
        \<or> returned_weight (batch_all_loop U False o' calls 0 0 s) = Some w \<or> returned_weight (batch_all_loop U True o' calls 0 0 s) = Some w"
      using assms(4) limit [of calls] by (auto simp: Let_def ensure_root_def split: if_splits)
    with batch_weights(3) [OF assms(1)] exact assms(3) show ?thesis
      unfolding BatchAll pallet_info_weight_def word_le_nat_alt by auto
  next
    case (BatchTry calls)
    then have "length calls < 2 ^ 32" and run: "returned_weight (batch_try_loop U (ensure_root (caller o')) o' calls 0 [] 0 s) = Some w"
      using assms(4) limit [of calls] by (auto split: if_splits)
    have own: "unat (batch_weight U (of_nat (length calls))) \<le> unat (batch_try_weight U (of_nat (length calls)))"
      using trial by (simp add: word_le_nat_alt)
    have info: "unat (pallet_info_weight U c) = info_sum U calls + unat (batch_try_weight U (of_nat (length calls)))"
      "info_sum U calls + unat (batch_try_weight U (of_nat (length calls))) < 2 ^ 64"
      using exact assms(3) unfolding BatchTry pallet_info_weight_def by simp_all
    from batch_weights(2) [OF assms(1) \<open>length calls < 2 ^ 32\<close> _ run] own info show ?thesis
      unfolding word_le_nat_alt by linarith
  next
    case (AsDerivative i c1)
    have "unat w \<le> unat (pallet_info_weight U c)" if "w = saturating_add (saturating_add (as_derivative_weight U)
        (reads_writes_weight U)) (extract_actual_weight v (info_weight U c1))" for v
      using extract_le [of v "info_weight U c1"] unfolding that AsDerivative
      by (simp add: pallet_info_weight_def unat_saturating_add)
    then show ?thesis using assms(4) unfolding AsDerivative word_le_nat_alt
      by (auto simp: Let_def simp del: filtered_dispatch.simps split: option.splits outcome.splits prod.splits)
  next
    case (DispatchAs o1 c1)
    then show ?thesis using assms(4) by (auto split: if_splits outcome.splits prod.splits)
  qed (use assms(2) in auto)
qed

theorem charge_within_announced_witness:
  "returned_weight (bypass demo_utility \<lparr>caller = Signed [1], call_filter = (\<lambda>_. True)\<rparr> (Batch [Inner 2, Inner 4]) ([], [])) = Some 22 \<and>
    (22 :: u64) \<le> pallet_info_weight demo_utility (Batch [Inner 2, Inner 4])"
proof -
  have grow: "weights_grow demo_utility"
  proof -
    have "unat (ucast n :: u64) = unat n" for n :: u32
      using lt32 [of n] by (simp add: unsigned_ucast_eq take_bit_nat_eq_self)
    then show ?thesis by (simp add: weights_grow_def demo_utility_def word_le_nat_alt)
  qed
  have ret: "returned_weight (bypass demo_utility \<lparr>caller = Signed [1], call_filter = (\<lambda>_. True)\<rparr>
      (Batch [Inner 2, Inner 4]) ([], [])) = Some 22"
    by (simp add: demo_limit) (simp add: demo_utility_def extract_actual_weight_def saturating_add_def)
  have "pallet_info_weight demo_utility (Batch [Inner 2, Inner 4]) \<noteq> - 1"
    by (simp add: pallet_info_weight_def batch_info_def demo_utility_def saturating_add_def)
  from charge_within_announced [OF grow _ this ret] ret show ?thesis by simp
qed

end
