(* ===== verification/Khala_Calls.thy ===== *)
theory Khala_Calls
  imports Utility
begin

text \<open>
  Who may call what in the Khala runtime, \<open>src/runtime/khala/src/lib.rs\<close>: the calls of the pallets (the methods where a
  filter tells them apart), the base filter of the runtime and the filters of the proxy types. The
  calls of the utility pallet are those of theory Utility.
\<close>

section \<open>The calls of the runtime\<close>

datatype xcm_method =
    ExecuteXcm | TeleportAssets | ReserveTransferAssets | LimitedReserveTransferAssets | LimitedTeleportAssets
  | XcmIgnore | ForceXcmVersion | ForceDefaultXcmVersion | ForceSubscribeVersionNotify
  | ForceUnsubscribeVersionNotify | SendXcm

datatype assets_method =
    CreateAsset | ForceCreateAsset | SetAssetMetadata | ForceSetAssetMetadata | AssetsIgnore | OtherAssetsMethod

datatype vesting_method = Vest | VestOther | OtherVestingMethod
datatype proxy_method = RejectAnnouncement | OtherProxyMethod

datatype stakepool_method =
    CreatePool | AddWorker | RemoveWorker | SetCap | SetPayoutPref | ClaimRewards | Contribute | WithdrawShares
  | StartMining | StopMining | ReclaimPoolWorker | SetMiningEnable | ReconcileWithdrawQueue

datatype registry_method =
    ForceSetBenchmarkDuration | ForceRegisterWorker | ForceRegisterTopicPubkey | RegisterGatekeeper
  | UnregisterGatekeeper | RegisterWorker | AddPruntime | RemovePruntime | AddGenesisHash | RemoveGenesisHash

datatype mq_method = SyncOffchainMessage | PushMessage | ForcePushPalletMessage

datatype khala_call =
    SystemCall | TimestampCall | MultisigCall | ProxyCall proxy_method | VestingCall vesting_method
  | SchedulerCall | PreimageCall | ParachainSystemCall | XcmpQueueCall | DmpQueueCall
  | PolkadotXcmCall xcm_method | BalancesCall | AuthorshipCall | CollatorSelectionCall | SessionCall
  | IdentityCall | DemocracyCall | CouncilCall | TreasuryCall | BountiesCall | LotteryCall
  | TechnicalCommitteeCall | TechnicalMembershipCall | PhragmenElectionCall | TipsCall | ChildBountiesCall
  | ChainBridgeCall | BridgeTransferCall | XcmTransferCall
  | PhalaMqCall mq_method | PhalaRegistryCall registry_method | PhalaMiningCall | PhalaStakePoolCall stakepool_method
  | AssetsCall assets_method | AssetsWrapperCall

type_synonym runtime_call = "khala_call utility_call"

definition match_mq_call :: "runtime_call \<Rightarrow> mq_method option" where
  "match_mq_call c = (case c of Inner (PhalaMqCall m) \<Rightarrow> Some m | _ \<Rightarrow> None)"

section \<open>The base filter\<close>

definition khala_base_filter :: "runtime_call \<Rightarrow> bool" where
  "khala_base_filter c = (case c of Inner k \<Rightarrow> (case k of
       PolkadotXcmCall m \<Rightarrow> m \<in> {ForceXcmVersion, ForceDefaultXcmVersion, ForceSubscribeVersionNotify,
                               ForceUnsubscribeVersionNotify, SendXcm}
     | AssetsCall m \<Rightarrow> m \<notin> {CreateAsset, ForceCreateAsset, SetAssetMetadata, ForceSetAssetMetadata, AssetsIgnore}
     | AssetsWrapperCall \<Rightarrow> False
     | _ \<Rightarrow> True)
   | _ \<Rightarrow> True)"

section \<open>Proxy types\<close>

datatype proxy_type = AnyProxy | NonTransfer | CancelProxy | Governance | Collator | StakePoolManager

definition default_proxy_type :: proxy_type where "default_proxy_type = AnyProxy"

definition proxy_filter :: "proxy_type \<Rightarrow> runtime_call \<Rightarrow> bool" where
  "proxy_filter p c = (case p of
     AnyProxy \<Rightarrow> True
   | NonTransfer \<Rightarrow> (case c of
        Inner (ProxyCall _) \<Rightarrow> True
      | Inner k \<Rightarrow> k \<in> {SystemCall, TimestampCall, SessionCall, DemocracyCall, CouncilCall, PhragmenElectionCall,
          TechnicalCommitteeCall, TechnicalMembershipCall, TreasuryCall, BountiesCall, TipsCall, IdentityCall,
          VestingCall Vest, VestingCall VestOther, SchedulerCall, MultisigCall}
      | _ \<Rightarrow> True)
   | CancelProxy \<Rightarrow> (case c of Inner k \<Rightarrow> k \<in> {ProxyCall RejectAnnouncement, MultisigCall} | _ \<Rightarrow> True)
   | Governance \<Rightarrow> (case c of
        Inner k \<Rightarrow> k \<in> {DemocracyCall, PhragmenElectionCall, CouncilCall, TechnicalCommitteeCall, TreasuryCall,
          BountiesCall, TipsCall, LotteryCall}
      | _ \<Rightarrow> True)
   | Collator \<Rightarrow> (case c of Inner k \<Rightarrow> k \<in> {CollatorSelectionCall, MultisigCall} | _ \<Rightarrow> True)
   | StakePoolManager \<Rightarrow> (case c of
        Inner k \<Rightarrow> k \<in> {PhalaStakePoolCall AddWorker, PhalaStakePoolCall RemoveWorker, PhalaStakePoolCall StartMining,
          PhalaStakePoolCall StopMining, PhalaStakePoolCall ReclaimPoolWorker, PhalaStakePoolCall CreatePool,
          PhalaRegistryCall RegisterWorker, PhalaMqCall SyncOffchainMessage}
      | _ \<Rightarrow> True))"

definition is_superset :: "proxy_type \<Rightarrow> proxy_type \<Rightarrow> bool" where
  "is_superset x y = (if x = y then True
     else if x = AnyProxy then True
     else if y = AnyProxy then False
     else x = NonTransfer)"

section \<open>The calls that move value\<close>

text \<open>Calls that can move the caller's balance or assets to another account or out of the chain.\<close>

definition moves_funds :: "khala_call \<Rightarrow> bool" where
  "moves_funds k = (case k of AssetsCall _ \<Rightarrow> True | _ \<Rightarrow> k \<in> {BalancesCall, XcmTransferCall, BridgeTransferCall, LotteryCall, VestingCall OtherVestingMethod,
     PolkadotXcmCall ExecuteXcm, PolkadotXcmCall TeleportAssets, PolkadotXcmCall ReserveTransferAssets,
     PolkadotXcmCall LimitedReserveTransferAssets, PolkadotXcmCall LimitedTeleportAssets,
     PhalaStakePoolCall Contribute, PhalaStakePoolCall ClaimRewards})"

section \<open>What a proxy can have executed\<close>

text \<open>The configuration of the utility pallet in the runtime: the base filter of the runtime.\<close>

definition khala_utility :: "(khala_call, 's) utility_config \<Rightarrow> (khala_call, 's) utility_config" where
  "khala_utility U = U\<lparr>base_call_filter := khala_base_filter\<rparr>"

text \<open>The origin under which the proxy pallet has the call of a proxy of type \<open>p\<close> dispatched.\<close>

definition proxied_origin :: "(khala_call, 's) utility_config \<Rightarrow> proxy_type \<Rightarrow> account_id \<Rightarrow> khala_call filtered_origin" where
  "proxied_origin U p real = add_filter (proxy_filter p) (origin_from U (Signed real))"

end
