(* ===== verification/Khala_Claims.thy ===== *)
theory Khala_Claims
  imports Khala_Calls Utility_Claims
begin

text \<open>
  The filters of the runtime and the batches together: what a user, or a proxy of a user, can have
  executed however the calls are nested.
\<close>

section \<open>Nothing gets around a filter\<close>

definition within :: "('c \<Rightarrow> bool) \<Rightarrow> 'c filtered_origin \<Rightarrow> bool" where
  "within f o' \<longleftrightarrow> caller o' \<noteq> Root \<and> (\<forall>c. call_filter o' (Inner c) \<longrightarrow> f c)"

lemma within_add_filter: "within f o' \<Longrightarrow> within f (add_filter g o')"
  by (simp add: within_def add_filter_def)

lemma within_caller: "within f o' \<Longrightarrow> within f (o'\<lparr>caller := Signed who\<rparr>)"
  by (simp add: within_def)

text \<open>
  With another way of executing the calls outside \<open>f\<close> the outcome of a dispatch from within \<open>f\<close> is the same: such a
  call is never executed.
\<close>

lemma limit_inner [simp]: "batched_calls_limit (U\<lparr>inner_dispatch := d\<rparr>) = batched_calls_limit U"
  by (simp add: batched_calls_limit_def)

lemma derivative_inner [simp]: "derivative_account_id (U\<lparr>inner_dispatch := d\<rparr>) = derivative_account_id U"
  by (simp add: derivative_account_id_def fun_eq_iff)

lemma filter_confines:
  fixes f d
  defines "V \<equiv> \<lambda>U. U\<lparr>inner_dispatch := d\<rparr>"
  assumes "\<forall>o1 c s. f c \<longrightarrow> d o1 c s = inner_dispatch U o1 c s"
  shows "within f o' \<Longrightarrow> (\<And>k. c = Inner k \<Longrightarrow> f k) \<Longrightarrow> bypass (V U) o' c s = bypass U o' c s"
    and "within f o' \<Longrightarrow> \<not> unfiltered \<Longrightarrow> filtered_dispatch (V U) unfiltered o' c s = filtered_dispatch U unfiltered o' c s"
    and "within f o' \<Longrightarrow> \<not> root \<Longrightarrow> batch_loop (V U) root o' cs i w s = batch_loop U root o' cs i w s"
    and "within f o' \<Longrightarrow> \<not> root \<Longrightarrow> batch_all_loop (V U) root o' cs i w s = batch_all_loop U root o' cs i w s"
    and "within f o' \<Longrightarrow> \<not> root \<Longrightarrow> batch_try_loop (V U) root o' cs i es w s = batch_try_loop U root o' cs i es w s"
  using assms(2)
proof (induction U o' c s and U unfiltered o' c s and U root o' cs i w s and U root o' cs i w s and U root o' cs i es w s
    rule: bypass_filtered_dispatch_batch_loop_batch_all_loop_batch_try_loop.induct)
  case (7 U unfiltered o' c s)
  then show ?case by (auto simp: within_def)
qed (auto simp: V_def within_def ensure_root_def add_filter_def Let_def ensure_signed_def
    split: outcome.splits option.splits origin.splits)

section \<open>Proxies\<close>

lemma proxy_within:
  assumes "p \<in> {NonTransfer, CancelProxy, Collator, StakePoolManager}"
  shows "within (\<lambda>k. \<not> moves_funds k) (proxied_origin U p real)"
  using assms
  by (auto simp: within_def proxied_origin_def add_filter_def origin_from_def proxy_filter_def moves_funds_def
      split: khala_call.splits)


definition demo_runtime :: "(khala_call, khala_call list \<times> utility_event list) utility_config" where
  "demo_runtime = \<lparr>inner_dispatch = (\<lambda>_ k (ks, es). Ok None (ks @ [k], es)),
     info_weight = (\<lambda>_. 10), base_call_filter = khala_base_filter, utility_deposit = (\<lambda>e (ks, es). (ks, es @ [e])),
     batch_weight = (\<lambda>n. ucast n), batch_all_weight = (\<lambda>n. ucast n), batch_try_weight = (\<lambda>n. ucast n), dispatch_as_weight = 1,
     as_derivative_weight = 1, reads_writes_weight = 1,
     blake2_256 = id, max_allocation = 33554432, size_of_call = 200\<rparr>"


text \<open>
  The order of the proxy types against their filters: \<open>is_superset\<close> claims that one type allows every call of
  another, yet the filter of the first refuses a call the second allows, exactly when \<open>NonTransfer\<close> is compared
  with \<open>Governance\<close>, \<open>Collator\<close> or \<open>StakePoolManager\<close>. A proxy may hand out the types its own type
  is a superset of, so a \<open>NonTransfer\<close> proxy can obtain calls its own filter refuses.
\<close>

theorem superset_against_filters:
  "(is_superset x y \<and> (\<exists>c. proxy_filter y c \<and> \<not> proxy_filter x c)) =
     (x = NonTransfer \<and> y \<in> {Governance, Collator, StakePoolManager})"
proof (cases "x = NonTransfer \<and> y \<in> {Governance, Collator, StakePoolManager}")
  case True
  then consider "y = Governance" | "y = Collator" | "y = StakePoolManager" by blast
  then have "\<exists>c. proxy_filter y c \<and> \<not> proxy_filter x c"
  proof cases
    case 1
    then show ?thesis using True by (intro exI [of _ "Inner LotteryCall"]) (simp add: proxy_filter_def)
  next
    case 2
    then show ?thesis using True by (intro exI [of _ "Inner CollatorSelectionCall"]) (simp add: proxy_filter_def)
  next
    case 3
    then show ?thesis using True
      by (intro exI [of _ "Inner (PhalaStakePoolCall StartMining)"]) (simp add: proxy_filter_def)
  qed
  then show ?thesis using True by (auto simp: is_superset_def)
next
  case False
  then show ?thesis
    by (cases x; cases y) (auto simp: is_superset_def proxy_filter_def split: utility_call.splits khala_call.splits)
qed

text \<open>The base filter lets only the root origin, which no filter binds, call the asset registry.\<close>

lemma asset_registry_is_filtered:
  "caller o' \<noteq> Root \<Longrightarrow> o' = origin_from (khala_utility U) (caller o') \<Longrightarrow>
   filtered_dispatch (khala_utility U) False o' (Inner AssetsWrapperCall) s = Err (Module CallFiltered, None) s"
  by (subst filtered_dispatch.simps, cases o') (simp add: origin_from_def khala_utility_def khala_base_filter_def)

end
