(* ===== verification/Upgrades.thy ===== *)
theory Upgrades
  imports Phala_Demo
begin

text \<open>
  What a runtime upgrade does to the storage of the Phala pallets: the hooks \<open>on_runtime_upgrade\<close> of
  \<open>registry.rs\<close>, \<open>mining.rs\<close> and \<open>stakepool.rs\<close> and the migrations they run, in particular
  \<open>stakepool/migrations.rs\<close>, which takes the dust and the duplicate requests out of old pools.

  A hook compares the storage version of its pallet with the code's and returns the new version next to
  the weight. \<open>translate\<close> of Substrate visits the keys of a map in the order of their hashes, which the model
  takes as a list. The numbers the macro \<open>fp!\<close> reads from decimal literals and the weights of the database are
  parameters. Logging and the dump of the pools to files of the host are left out.
\<close>

section \<open>Registry and mining\<close>

record upgrade_env =
  fp_literal :: "string \<Rightarrow> u64f64"
  fx_mul_int :: "u64f64 \<Rightarrow> u128 \<Rightarrow> u64f64"
  fx_div_int :: "u64f64 \<Rightarrow> u128 \<Rightarrow> u64f64"
  db_reads :: "u64 \<Rightarrow> u64"
  db_writes :: "u64 \<Rightarrow> u64"
  db_reads_writes :: "u64 \<Rightarrow> u64 \<Rightarrow> u64"

type_synonym storage_version = "16 word"

definition registry_initialize :: "upgrade_env \<Rightarrow> 'b chain \<Rightarrow> 'b chain \<times> u64" where
  "registry_initialize E s = (s\<lparr>BenchmarkDuration := Some 50\<rparr>, db_writes E 1)"

definition registry_runtime_upgrade :: "upgrade_env \<Rightarrow> storage_version \<Rightarrow> 'b chain \<Rightarrow>
    'b chain \<times> storage_version \<times> u64" where
  "registry_runtime_upgrade E old s =
     (let w = 0 + db_reads E 1
      in if old = 0 then
           let (s, w') = registry_initialize E s in (s, 1, w + w' + db_writes E 1)
         else (s, old, w))"

text \<open>The parameters of the Khala network at its start; \<open>None\<close> is a division by zero, which panics.\<close>

definition khala_tokenomic :: "upgrade_env \<Rightarrow> fixed_ops \<Rightarrow> tokenomic_params option" where
  "khala_tokenomic E F =
     (let block_sec = 12; hour_sec = 3600; day_sec = 24 * hour_sec; year_sec = 365 * day_sec;
          fp = fp_literal E;
          per = (\<lambda>x secs. fx_div_int E (fx_mul_int E x block_sec) secs);
          pha = fp ''0.84'';
          slash_r = per (fp ''0.001'') hour_sec;
          budget = per (fp ''60000'') day_sec
      in case (fx_div F (per (fp ''0.0415625'') year_sec) pha, fx_div F (per (fp ''88.59375'') year_sec) pha,
               fx_div F (fp ''0.3'') pha, fx_div F (fp ''0'') pha) of
           (Some ck, Some cb, Some rk, Some rb) \<Rightarrow>
             Some \<lparr>pha_rate = pha, rho = fp ''1.000000666600231'', budget_per_block = budget,
               v_max = fp ''30000'', cost_k = ck, cost_b = cb, slash_rate = slash_r,
               treasury_ratio = fp ''0.2'', heartbeat_window = 10, rig_k = rk, rig_b = rb,
               re = fp ''1.5'', tk_k = fp ''50'', kappa = fp ''1''\<rparr>
         | _ \<Rightarrow> None)"

definition mining_initialize :: "upgrade_env \<Rightarrow> fixed_ops \<Rightarrow> 'b chain \<Rightarrow> ('b chain \<times> u64) option" where
  "mining_initialize E F s = map_option
     (\<lambda>tk. (s\<lparr>CoolDownPeriod := 604800, TokenomicParameters := Some tk\<rparr>, db_writes E 2))
     (khala_tokenomic E F)"

definition repair_v :: "upgrade_env \<Rightarrow> 'b phala_config \<Rightarrow> 'b chain \<Rightarrow> 'b chain \<times> u64" where
  "repair_v E T s =
     (queue_message_to gatekeeper_event_topic (PalletOrigin (mining_name T)) (enc_gatekeeper_event T RepairV) s,
      db_writes E 1)"

definition mining_runtime_upgrade :: "upgrade_env \<Rightarrow> 'b phala_config \<Rightarrow> storage_version \<Rightarrow> 'b chain \<Rightarrow>
    ('b chain \<times> storage_version \<times> u64) option" where
  "mining_runtime_upgrade E T old s =
     (let w = 0 + db_reads E 1
      in if old = 0 then
           map_option (\<lambda>(s, w'). (s, 3, w + w' + db_writes E 1)) (mining_initialize E (Fx T) s)
         else if old = 2 then
           let (s, w') = repair_v E T s;
               s = s\<lparr>MiningStartBlock := Some 414189, MiningHalvingInterval := Some 324000\<rparr>
           in Some (s, 3, w + w' + db_writes E 3)
         else Some (s, old, w))"

section \<open>The migration of the stake pools\<close>

type_synonym dust_table = "pool_id \<rightharpoonup> u128"

definition dust_of :: "dust_table \<Rightarrow> pool_id \<Rightarrow> u128" where
  "dust_of d pid = (case d pid of Some v \<Rightarrow> v | None \<Rightarrow> 0)"

definition migrate_staker :: "'b phala_config \<Rightarrow> pool_id \<times> account_id \<Rightarrow> user_stake_info \<Rightarrow> dust_table \<Rightarrow>
    'b chain \<Rightarrow> user_stake_info \<times> dust_table \<times> 'b chain" where
  "migrate_staker T key user share_dust_removed s =
     (let (pid, account) = key;
          (shares, shares_dust) = extract_dust (u_shares user);
          user = user\<lparr>u_shares := shares\<rparr>;
          share_dust_removed =
            (if shares_dust > 0
             then share_dust_removed(pid \<mapsto> dust_of share_dust_removed pid + shares_dust)
             else share_dust_removed);
          (locked, stake_dust) = extract_dust (u_locked user);
          user = user\<lparr>u_locked := locked\<rparr>;
          s = (if stake_dust > 0 then ledger_reduce T account 0 stake_dust s else s)
      in (user, share_dust_removed, s))"

text \<open>The traversals count what they visit for the weight.\<close>

fun translate_stakers :: "'b phala_config \<Rightarrow> (pool_id \<times> account_id) list \<Rightarrow> dust_table \<Rightarrow> u64 \<Rightarrow> 'b chain \<Rightarrow>
    dust_table \<times> u64 \<times> 'b chain" where
  "translate_stakers T [] d n s = (d, n, s)"
| "translate_stakers T (k # ks) d n s = (case PoolStakers s k of
     None \<Rightarrow> translate_stakers T ks d n s
   | Some u \<Rightarrow>
       let (u, d, s) = migrate_staker T k u d s
       in translate_stakers T ks d (n + 1) (put_staker (fst k) (snd k) u s))"

fun keep_first_request :: "account_id list \<Rightarrow> withdraw_info list \<Rightarrow> withdraw_info list" where
  "keep_first_request visited [] = []"
| "keep_first_request visited (w # ws) =
     (if w_user w \<notin> set visited then w # keep_first_request (visited @ [w_user w]) ws
      else keep_first_request visited ws)"

definition migrate_pool :: "dust_table \<Rightarrow> pool_info \<Rightarrow> pool_info" where
  "migrate_pool share_dust_removed pool =
     (let pid = p_pid pool;
          pool = (case share_dust_removed pid of
              Some dust \<Rightarrow> pool\<lparr>total_shares := total_shares pool - dust\<rparr>
            | None \<Rightarrow> pool);
          (stake, _) = extract_dust (total_stake pool);
          pool = (if stake = 0 then pool\<lparr>total_stake := 0, free_stake := 0\<rparr> else pool);
          pool = pool\<lparr>withdraw_queue :=
            filter (\<lambda>w. is_nondust_balance (w_shares w)) (withdraw_queue pool)\<rparr>
      in pool\<lparr>withdraw_queue := keep_first_request [] (withdraw_queue pool)\<rparr>)"

fun translate_pools :: "pool_id list \<Rightarrow> dust_table \<Rightarrow> u64 \<Rightarrow> 'b chain \<Rightarrow> u64 \<times> 'b chain" where
  "translate_pools [] d n s = (n, s)"
| "translate_pools (pid # pids) d n s = (case StakePools s pid of
     None \<Rightarrow> translate_pools pids d n s
   | Some p \<Rightarrow> translate_pools pids d (n + 1) (put_pool pid (migrate_pool d p) s))"

definition remove_pool_dust :: "upgrade_env \<Rightarrow> 'b phala_config \<Rightarrow> (pool_id \<times> account_id) list \<Rightarrow> pool_id list \<Rightarrow>
    'b chain \<Rightarrow> 'b chain \<times> u64" where
  "remove_pool_dust E T keys pids s =
     (let (dust, n, s) = translate_stakers T keys Map.empty 0 s;
          (n, s) = translate_pools pids dust n s
      in (s, db_reads_writes E n n))"

definition stakepool_runtime_upgrade :: "upgrade_env \<Rightarrow> 'b phala_config \<Rightarrow> (pool_id \<times> account_id) list \<Rightarrow>
    pool_id list \<Rightarrow> storage_version \<Rightarrow> 'b chain \<Rightarrow> 'b chain \<times> storage_version \<times> u64" where
  "stakepool_runtime_upgrade E T keys pids old s =
     (let w = 0 + db_reads E 1
      in if old = 0 then
           let (s, w') = remove_pool_dust E T keys pids s in (s, 1, w + w' + db_writes E 1)
         else (s, old, w))"

end
