(* ===== verification/Upgrade_Claims.thy ===== *)
theory Upgrade_Claims
  imports Upgrades Pool_Outside
begin

text \<open>
  The migration of the stake pools establishes the invariant that the calls then keep: from storage
  with dust and duplicate requests, whatever the order in which the maps are visited.
\<close>

section \<open>The table of removed shares\<close>

text \<open>What the storage before the migration must have: the ledger of shares without the order of the queues.\<close>

definition share_ledger :: "'b chain \<Rightarrow> bool" where
  "share_ledger s \<longleftrightarrow> finite (dom (PoolStakers s)) \<and>
     (\<forall>pid p. StakePools s pid = Some p \<longrightarrow> p_pid p = pid \<and> pid < PoolCount s \<and>
        unat (total_shares p) = staked s pid \<and>
        (\<forall>w \<in> set (withdraw_queue p). PoolStakers s (pid, w_user w) \<noteq> None)) \<and>
     (\<forall>pid who u. PoolStakers s (pid, who) = Some u \<longrightarrow> u_user u = who \<and> StakePools s pid \<noteq> None)"

lemma migrate_staker_fields:
  assumes "migrate_staker T (pid, who) u d s = (u', d', s')"
  shows "u_shares u' = fst (extract_dust (u_shares u))" "u_locked u' = fst (extract_dust (u_locked u))"
    "u_user u' = u_user u"
    "dust_of d' pid = dust_of d pid + snd (extract_dust (u_shares u))"
    "q \<noteq> pid \<Longrightarrow> dust_of d' q = dust_of d q"
    "stake_part s' = stake_part s" "outside_pool s' = outside_pool s"
  using assms
  by (auto simp: migrate_staker_def dust_of_def Let_def word_gt_0 split: prod.splits if_splits option.splits)

text \<open>What a visited staker becomes.\<close>

definition dusted :: "user_stake_info \<Rightarrow> user_stake_info \<Rightarrow> bool" where
  "dusted u u' \<longleftrightarrow> u_user u' = u_user u \<and> u_shares u' = fst (extract_dust (u_shares u)) \<and>
     u_locked u' = fst (extract_dust (u_locked u))"

lemma translate_stakers_ledger:
  assumes "translate_stakers T ks d n s = (d', n', s')" "distinct ks" "finite (dom (PoolStakers s))"
    and "\<And>pid. unat (dust_of d pid) + staked s pid < 2 ^ 128"
  shows "StakePools s' = StakePools s \<and> PoolCount s' = PoolCount s \<and> outside_pool s' = outside_pool s \<and>
    (\<forall>pid. unat (dust_of d' pid) + staked s' pid = unat (dust_of d pid) + staked s pid) \<and>
    (\<forall>k. if k \<in> set ks then rel_option dusted (PoolStakers s k) (PoolStakers s' k)
         else PoolStakers s' k = PoolStakers s k)"
  using assms
proof (induction T ks d n s rule: translate_stakers.induct)
  case (2 T k ks d n s)
  show ?case
  proof (cases "PoolStakers s k")
    case None
    then show ?thesis using 2 by auto
  next
    case (Some u)
    obtain pid who where k: "k = (pid, who)" by fastforce
    obtain u1 d1 s1 where m: "migrate_staker T k u d s = (u1, d1, s1)" by (metis prod_cases3)
    note f = migrate_staker_fields [OF m [unfolded k]]
    define s2 where "s2 = put_staker pid who u1 s1"
    have put: "put_staker (fst k) (snd k) u1 s1 = s2" by (simp add: s2_def k)
    have rest: "translate_stakers T ks d1 (n + 1) s2 = (d', n', s')"
      using 2(3) Some m put by simp
    have new: "PoolStakers s2 = (PoolStakers s)((pid, who) \<mapsto> u1)"
      using stake_partD(2) [OF f(6)] by (simp add: s2_def put_staker_def)
    have same: "StakePools s2 = StakePools s" "PoolCount s2 = PoolCount s" "outside_pool s2 = outside_pool s"
      using stake_partD(1,3) [OF f(6)] f(7) by (simp_all add: s2_def) (simp_all add: put_staker_def)
    have shares: "unat (u_shares u) = unat (u_shares u1) + unat (snd (extract_dust (u_shares u)))"
      using f(1) by (auto simp: extract_dust_def)
    have held: "held s pid who = unat (u_shares u)" using Some by (simp add: held_def k)
    have sum: "staked s2 pid + unat (snd (extract_dust (u_shares u))) = staked s pid"
      using staked_put(1) [OF 2(5) new] shares held by simp
    have "unat (dust_of d1 pid) = unat (dust_of d pid) + unat (snd (extract_dust (u_shares u)))"
      unfolding f(4) by (rule unat_add_lem [THEN iffD1]) (use 2(6) [of pid] sum in simp)
    then have bal: "unat (dust_of d1 q) + staked s2 q = unat (dust_of d q) + staked s q" for q
      using sum f(5) [of q] staked_put(2) [OF 2(5) new, of q] by (cases "q = pid") auto
    have fin: "finite (dom (PoolStakers s2))" using 2(5) by (simp add: new)
    have IH: "StakePools s' = StakePools s2 \<and> PoolCount s' = PoolCount s2 \<and> outside_pool s' = outside_pool s2 \<and>
      (\<forall>pid. unat (dust_of d' pid) + staked s' pid = unat (dust_of d1 pid) + staked s2 pid) \<and>
      (\<forall>k. if k \<in> set ks then rel_option dusted (PoolStakers s2 k) (PoolStakers s' k)
         else PoolStakers s' k = PoolStakers s2 k)"
    proof (rule 2(2) [OF Some m [symmetric] refl refl, unfolded put])
      show "unat (dust_of d1 q) + staked s2 q < 2 ^ 128" for q using 2(6) [of q] bal [of q] by simp
    qed (use rest fin 2(4) in simp_all)
    have "dusted u u1" using f(1-3) by (simp add: dusted_def)
    then have "if j \<in> set (k # ks) then rel_option dusted (PoolStakers s j) (PoolStakers s' j)
        else PoolStakers s' j = PoolStakers s j" for j
      using IH [THEN conjunct2, THEN conjunct2, THEN conjunct2, THEN conjunct2, THEN spec, of j] 2(4) Some
      by (cases "j = k") (auto simp: new k)
    then show ?thesis using IH bal same by presburger
  qed
qed simp

section \<open>The pools\<close>

lemma keep_first_users:
  "distinct (map w_user (keep_first_request v ws)) \<and>
   w_user ` set (keep_first_request v ws) = w_user ` set ws - set v"
  by (induction v ws rule: keep_first_request.induct) auto

lemma keep_first_subset: "set (keep_first_request v ws) \<subseteq> set ws"
  by (induction v ws rule: keep_first_request.induct) auto

text \<open>An orderly queue is left as it is.\<close>

lemma keep_first_idem:
  "distinct (map w_user ws) \<Longrightarrow> set (map w_user ws) \<inter> set v = {} \<Longrightarrow> keep_first_request v ws = ws"
  by (induction v ws rule: keep_first_request.induct) auto

lemma migrate_pool_fields:
  "p_pid (migrate_pool d p) = p_pid p"
  "total_shares (migrate_pool d p) = total_shares p - dust_of d (p_pid p)"
  "withdraw_queue (migrate_pool d p) =
     keep_first_request [] (filter (\<lambda>w. is_nondust_balance (w_shares w)) (withdraw_queue p))"
  by (simp_all add: migrate_pool_def dust_of_def Let_def split: option.split prod.split)

lemma translate_pools_pools:
  assumes "translate_pools pids d n s = (n', s')" "distinct pids"
  shows "PoolStakers s' = PoolStakers s \<and> PoolCount s' = PoolCount s \<and> outside_pool s' = outside_pool s \<and>
    (\<forall>pid. StakePools s' pid =
      (if pid \<in> set pids then map_option (migrate_pool d) (StakePools s pid) else StakePools s pid))"
  using assms
proof (induction pids d n s rule: translate_pools.induct)
  case (2 pid pids d n s)
  show ?case
  proof (cases "StakePools s pid")
    case None
    then show ?thesis using 2 by auto
  next
    case (Some p)
    define s1 where "s1 = put_pool pid (migrate_pool d p) s"
    have eq: "PoolStakers s1 = PoolStakers s" "PoolCount s1 = PoolCount s" "outside_pool s1 = outside_pool s"
      "StakePools s1 = (StakePools s)(pid \<mapsto> migrate_pool d p)"
      by (simp_all add: s1_def) (simp_all add: put_pool_def)
    show ?thesis using 2(2) [OF Some] 2(3,4) Some by (auto simp: s1_def [symmetric] eq)
  qed
qed simp

section \<open>The migration as a whole\<close>

definition loses_dust :: "user_stake_info \<Rightarrow> user_stake_info \<Rightarrow> bool" where
  "loses_dust u u' \<longleftrightarrow> (\<forall>part \<in> {u_shares, u_locked}.
     part u' \<le> part u \<and> unat (part u) \<le> unat (part u') + 1000 \<and>
     (part u' = 0 \<or> is_nondust_balance (part u')))"

lemma dusted_loses: "dusted u u' \<Longrightarrow> loses_dust u u'"
proof -
  have "fst (extract_dust n) \<le> n \<and> unat n \<le> unat (fst (extract_dust n)) + 1000 \<and>
      (fst (extract_dust n) = 0 \<or> is_nondust_balance (fst (extract_dust n)))" for n
    by (cases n rule: extract_dust_cases)
      (auto simp: word_le_nat_alt word_less_nat_alt is_nondust_balance_def balance_close_to_zero_def)
  then show "dusted u u' \<Longrightarrow> loses_dust u u'" by (simp add: dusted_def loses_dust_def)
qed

lemma staked_bound:
  assumes "share_ledger s"
  shows "staked s pid < 2 ^ 128"
proof (cases "StakePools s pid")
  case None
  then have "{k. k \<in> dom (PoolStakers s) \<and> fst k = pid} = {}" using assms by (fastforce simp: share_ledger_def)
  then show ?thesis by (simp only: staked_def sum.empty) simp
next
  case (Some p)
  then have "staked s pid = unat (total_shares p)" using assms by (simp add: share_ledger_def)
  then show ?thesis using unsigned_less [of "total_shares p"] by simp
qed

lemma remove_pool_dust_books:
  assumes ledger: "share_ledger s"
    and keys: "distinct keys" "set keys = dom (PoolStakers s)"
    and pids: "distinct pids" "set pids = dom (StakePools s)"
    and run: "remove_pool_dust E T keys pids s = (s', w)"
  shows "stake_inv s'" "\<forall>k. rel_option dusted (PoolStakers s k) (PoolStakers s' k)"
    "outside_pool s' = outside_pool s"
proof -
  obtain d n s1 where ts: "translate_stakers T keys Map.empty 0 s = (d, n, s1)" by (metis prod_cases3)
  obtain n' where tp: "translate_pools pids d n s1 = (n', s')"
    using run ts by (auto simp: remove_pool_dust_def Let_def split: prod.splits)
  have led: "finite (dom (PoolStakers s))"
    "\<And>pid p. StakePools s pid = Some p \<Longrightarrow> p_pid p = pid \<and> pid < PoolCount s \<and>
        unat (total_shares p) = staked s pid \<and>
        (\<forall>w \<in> set (withdraw_queue p). PoolStakers s (pid, w_user w) \<noteq> None)"
    "\<And>pid who u. PoolStakers s (pid, who) = Some u \<Longrightarrow> u_user u = who \<and> StakePools s pid \<noteq> None"
    using ledger unfolding share_ledger_def by blast+
  have "unat (dust_of Map.empty pid) + staked s pid < 2 ^ 128" for pid
    using staked_bound [OF ledger] by (simp add: dust_of_def)
  note st = translate_stakers_ledger [OF ts keys(1) led(1) this]
  have stakers: "rel_option dusted (PoolStakers s k) (PoolStakers s1 k)" for k
  proof (cases "k \<in> set keys")
    case True
    then show ?thesis using st by presburger
  next
    case False
    moreover have "PoolStakers s k = None" using False keys(2) by auto
    moreover have "PoolStakers s1 k = PoolStakers s k"
      using st [THEN conjunct2, THEN conjunct2, THEN conjunct2, THEN conjunct2, THEN spec, of k] False by simp
    ultimately show ?thesis by simp
  qed
  note po = translate_pools_pools [OF tp pids(1)]
  have same: "PoolStakers s' = PoolStakers s1" "PoolCount s' = PoolCount s"
    and pools: "StakePools s' pid = map_option (migrate_pool d) (StakePools s pid)" for pid
    using po st pids(2) by (auto simp: domIff)
  show rel: "\<forall>k. rel_option dusted (PoolStakers s k) (PoolStakers s' k)" using stakers same(1) by simp
  show "outside_pool s' = outside_pool s" using po st by simp
  have dom: "PoolStakers s' k = None \<longleftrightarrow> PoolStakers s k = None" for k
    using rel by (metis option.rel_distinct(1,2) option.exhaust)
  have "p_pid p' = pid \<and> pid < PoolCount s' \<and> unat (total_shares p') = staked s' pid \<and>
      queue_ok s' pid (withdraw_queue p')" if p': "StakePools s' pid = Some p'" for pid p'
  proof -
    obtain p where p: "StakePools s pid = Some p" "p' = migrate_pool d p" using p' pools by auto
    note l = led(2) [OF p(1)]
    have sum: "unat (dust_of d pid) + staked s' pid = staked s pid"
      using st by (simp add: dust_of_def staked_cong [OF same(1)])
    then have "dust_of d pid \<le> total_shares p" using l by (simp add: word_le_nat_alt)
    then have "unat (total_shares p - dust_of d pid) = staked s' pid" using sum l by (simp add: unat_sub)
    moreover have "queue_ok s' pid (withdraw_queue p')"
      using l keep_first_users [of "[]"] keep_first_subset [of "[]"] p(2)
      by (fastforce simp: queue_ok_def migrate_pool_fields dom)
    ultimately show ?thesis using l p(2) same(2) by (simp add: migrate_pool_fields)
  qed
  moreover have "u_user u = who \<and> StakePools s' pid \<noteq> None" if "PoolStakers s' (pid, who) = Some u" for pid who u
    using rel [THEN spec, of "(pid, who)"] that led(3) by (auto simp: option_rel_Some2 dusted_def pools)
  moreover have "finite (dom (PoolStakers s'))"
    using led(1) dom by (metis (no_types, lifting) domIff finite_subset subsetI)
  ultimately show "stake_inv s'" unfolding stake_inv_def by blast
qed

text \<open>
  C10. The upgrade of the stake pools repairs their books: from storage in which pools have dust and
  several requests of one user in their queues, the migration establishes the invariant of the pallet in
  whatever order the maps are visited, and every state reachable after it has it. It takes at most 1000
  base units of shares and of stake from a staker of a pool, and touches nothing of the other pallets.
\<close>

theorem migration_settles_books:
  assumes "fixed_arith (Fx T)" "share_ledger s"
    and "distinct keys" "set keys = dom (PoolStakers s)" "distinct pids" "set pids = dom (StakePools s)"
    and "stakepool_runtime_upgrade E T keys pids 0 s = (s', v, w)"
    and "phala_reaches C T s' t"
  shows "stake_inv t \<and> v = 1 \<and> outside_pool s' = outside_pool s \<and>
    (\<forall>k. rel_option loses_dust (PoolStakers s k) (PoolStakers s' k))"
proof -
  obtain w' where run: "remove_pool_dust E T keys pids s = (s', w')" and v: "v = 1"
    using assms(7) by (auto simp: stakepool_runtime_upgrade_def Let_def split: prod.splits)
  note books = remove_pool_dust_books [OF assms(2-6) run]
  have "rel_option loses_dust (PoolStakers s k) (PoolStakers s' k)" for k
    by (rule option.rel_mono_strong [OF books(2) [THEN spec, of k]]) (rule dusted_loses)
  moreover have "stake_inv t"
    using phala_reaches_keeps [OF phala_exec_stake_inv [OF assms(1)] assms(8) books(1)] .
  ultimately show ?thesis using v books(3) by blast
qed

text \<open>Each hook does its work once: run again with the version it left, it only reads that version.\<close>

lemma hooks_run_once:
  shows "registry_runtime_upgrade E old s = (s', v, w) \<Longrightarrow>
      registry_runtime_upgrade E v s' = (s', v, db_reads E 1)"
    and "mining_runtime_upgrade E T old s = Some (s', v, w) \<Longrightarrow>
      mining_runtime_upgrade E T v s' = Some (s', v, db_reads E 1)"
    and "stakepool_runtime_upgrade E T keys pids old s = (s', v, w) \<Longrightarrow>
      stakepool_runtime_upgrade E T keys' pids' v s' = (s', v, db_reads E 1)"
  by (auto simp: registry_runtime_upgrade_def mining_runtime_upgrade_def stakepool_runtime_upgrade_def Let_def
      split: if_splits prod.splits)

text \<open>A pool of two stakers: one has dust, the other has queued two requests.\<close>

definition dusty_user :: user_stake_info where
  "dusty_user = (new_staker staker_b)\<lparr>u_locked := 300, u_shares := 500\<rparr>"

definition rich_user :: user_stake_info where
  "rich_user = (new_staker staker_a)\<lparr>u_locked := 2000000, u_shares := 2000000\<rparr>"

definition dusty_pool :: pool_info where
  "dusty_pool = (new_pool 0 staker_a)\<lparr>total_shares := 2000500, total_stake := 2000300,
     withdraw_queue := [\<lparr>w_user = staker_b, w_shares = 500, w_start_time = 0\<rparr>,
       \<lparr>w_user = staker_a, w_shares = 1000000, w_start_time = 0\<rparr>,
       \<lparr>w_user = staker_a, w_shares = 500000, w_start_time = 1\<rparr>]\<rparr>"

definition dusty_chain :: "(account_id \<Rightarrow> u128) chain" where
  "dusty_chain = genesis\<lparr>PoolCount := 1, StakePools := [0 \<mapsto> dusty_pool],
     PoolStakers := [(0, staker_a) \<mapsto> rich_user, (0, staker_b) \<mapsto> dusty_user]\<rparr>"

definition free_upgrade :: upgrade_env where
  "free_upgrade = \<lparr>fp_literal = (\<lambda>_. 0), fx_mul_int = (*), fx_div_int = (div), db_reads = id, db_writes = id,
     db_reads_writes = (+)\<rparr>"

lemma dusty_ledger: "share_ledger dusty_chain"
proof -
  have "{k. k \<in> dom (PoolStakers dusty_chain) \<and> fst k = 0} = {(0, staker_a), (0, staker_b)}"
    by (auto simp: dusty_chain_def)
  then have "staked dusty_chain 0 = 2000500"
    by (simp add: staked_def) (simp add: dusty_chain_def rich_user_def dusty_user_def staker_a_def staker_b_def)
  then show ?thesis
    by (auto simp: share_ledger_def dusty_chain_def dusty_pool_def new_pool_def rich_user_def dusty_user_def
        new_staker_def split: if_splits)
qed

theorem migration_settles_books_witness:
  "stake_inv (fst (stakepool_runtime_upgrade free_upgrade demo [(0, staker_b), (0, staker_a)] [0] 0 dusty_chain))"
proof -
  obtain s' v w where up: "stakepool_runtime_upgrade free_upgrade demo [(0, staker_b), (0, staker_a)] [0] 0
      dusty_chain = (s', v, w)" by (metis prod_cases3)
  have fx: "fixed_arith (Fx demo)" by (simp add: demo_def u64f64.fixed_arith_axioms)
  have keys: "distinct [(0 :: pool_id, staker_b), (0, staker_a)]"
      "set [(0, staker_b), (0, staker_a)] = dom (PoolStakers dusty_chain)"
    and pids: "distinct [0 :: pool_id]" "set [0] = dom (StakePools dusty_chain)"
    by (auto simp: dusty_chain_def staker_a_def staker_b_def)
  show ?thesis
    using migration_settles_books [OF fx dusty_ledger keys pids up reach_start] by (simp add: up)
qed

end
