(* ===== verification/Storage_Rpc.thy ===== *)
theory Storage_Rpc
  imports Phala_Types
begin

text \<open>
  The storage changes of a range of blocks, the RPC \<open>pha_getStorageChanges\<close> of the node
  (\<open>src/crates/phala-node-rpc-ext/src/storage_changes.rs\<close> and \<open>lib.rs\<close>), and the trie with which a
  worker follows the chain's state by them (\<open>src/crates/phala-trie-storage/src/lib.rs\<close>).

  The client of the node (its headers, bodies, states and the runtime that executes a block) and the
  trie database belong to Substrate and are records of functions. The runtime \<open>api\<close> collects the
  changes of the block it executes until \<open>into_storage_changes\<close> takes them, so it is a state that is passed
  on. The loop walks towards the genesis block and is a partial function: \<open>None\<close> is a call that does not
  return. The conversions \<open>into_\<close> only wrap byte strings and are the identity.
\<close>

section \<open>The data\<close>

type_synonym block_id = bytes
type_synonym storage_collection = "(bytes \<times> bytes option) list"
type_synonym child_collection = "(bytes \<times> storage_collection) list"

record storage_changes =
  main_storage_changes :: storage_collection
  child_storage_changes :: child_collection

datatype digest_item = Seal bytes bytes | OtherDigest bytes

record node_header =
  nh_number :: u64
  nh_parent :: block_id
  nh_logs :: "digest_item list"
  nh_roots :: bytes

record node_block =
  nb_header :: node_header
  nb_extrinsics :: "bytes list"

datatype storage_rpc_error =
    InvalidBlockRange "block_id \<times> u64" "block_id \<times> u64"
  | ResourceLimited string
  | InvalidBlock block_id string
  | Unavailable string

record ('st, 'api) node_client =
  client_header :: "block_id \<Rightarrow> string + node_header option"
  block_body :: "block_id \<Rightarrow> string + bytes list option"
  state_at :: "block_id \<Rightarrow> string + 'st"
  state_pairs :: "'st \<Rightarrow> (bytes \<times> bytes) list"
  runtime_api :: 'api
  execute_block :: "block_id \<Rightarrow> node_block \<Rightarrow> 'api \<Rightarrow> string + 'api"
  into_storage_changes :: "'st \<Rightarrow> block_id \<Rightarrow> 'api \<Rightarrow> (string + storage_changes) \<times> 'api"

section \<open>The query\<close>

definition rpc_header :: "('st, 'api) node_client \<Rightarrow> block_id \<Rightarrow> storage_rpc_error + node_header" where
  "rpc_header N b = (case client_header N b of
     Inl e \<Rightarrow> Inl (InvalidBlock b e)
   | Inr None \<Rightarrow> Inl (InvalidBlock b ''header not found'')
   | Inr (Some h) \<Rightarrow> Inr h)"

definition is_seal :: "digest_item \<Rightarrow> bool" where
  "is_seal d = (case d of Seal _ _ \<Rightarrow> True | OtherDigest _ \<Rightarrow> False)"

text \<open>
  One round of the loop: the changes of a block, and its parent, or \<open>None\<close> at the genesis block. The errors
  of the states name the parent, also for the genesis block's own state.
\<close>

definition changes_of_block :: "('st, 'api) node_client \<Rightarrow> block_id \<Rightarrow> 'api \<Rightarrow>
    storage_rpc_error + storage_changes \<times> block_id option \<times> 'api" where
  "changes_of_block N this_block api =
     (case rpc_header N this_block of Inl e \<Rightarrow> Inl e | Inr header \<Rightarrow>
      case block_body N this_block of
        Inl e \<Rightarrow> Inl (InvalidBlock this_block e)
      | Inr None \<Rightarrow> Inl (InvalidBlock this_block ''block body not found'')
      | Inr (Some extrinsics) \<Rightarrow>
      let parent_hash = nh_parent header
      in if nh_number header = 0 then
           (case state_at N this_block of
              Inl e \<Rightarrow> Inl (InvalidBlock parent_hash e)
            | Inr state \<Rightarrow>
                Inr (\<lparr>main_storage_changes = map (\<lambda>(k, v). (k, Some v)) (state_pairs N state),
                      child_storage_changes = []\<rparr>, None, api))
         else
           let header = header\<lparr>nh_logs := filter (\<lambda>d. \<not> is_seal d) (nh_logs header)\<rparr>;
               block = \<lparr>nb_header = header, nb_extrinsics = extrinsics\<rparr>
           in case execute_block N parent_hash block api of
                Inl e \<Rightarrow> Inl (InvalidBlock this_block e)
              | Inr api \<Rightarrow>
              case state_at N parent_hash of
                Inl e \<Rightarrow> Inl (InvalidBlock parent_hash e)
              | Inr state \<Rightarrow>
              case into_storage_changes N state parent_hash api of
                (Inl e, _) \<Rightarrow> Inl (InvalidBlock parent_hash e)
              | (Inr ch, api) \<Rightarrow> Inr (ch, Some parent_hash, api))"

partial_function (option) collect_changes :: "('st, 'api) node_client \<Rightarrow> block_id \<Rightarrow> block_id \<Rightarrow>
    storage_changes list \<Rightarrow> 'api \<Rightarrow> (storage_rpc_error + storage_changes list) option" where
  "collect_changes N from_block this_block changes api =
     (case changes_of_block N this_block api of
        Inl e \<Rightarrow> Some (Inl e)
      | Inr (ch, None, api) \<Rightarrow> Some (Inr (rev (changes @ [ch])))
      | Inr (ch, Some parent_hash, api) \<Rightarrow>
          (if this_block = from_block then Some (Inr (rev (changes @ [ch])))
           else collect_changes N from_block parent_hash (changes @ [ch]) api))"

declare collect_changes.simps [code]

definition max_number_of_blocks :: u64 where
  "max_number_of_blocks = 10000"

definition storage_changes_between :: "('st, 'api) node_client \<Rightarrow> block_id \<Rightarrow> block_id \<Rightarrow>
    (storage_rpc_error + storage_changes list) option" where
  "storage_changes_between N from_block to_block =
     (case rpc_header N from_block of Inl e \<Rightarrow> Some (Inl e) | Inr h_from \<Rightarrow>
      case rpc_header N to_block of Inl e \<Rightarrow> Some (Inl e) | Inr h_to \<Rightarrow>
      let n_from = nh_number h_from; n_to = nh_number h_to
      in if n_from > n_to then Some (Inl (InvalidBlockRange (from_block, n_from) (to_block, n_to)))
         else if n_to - n_from > max_number_of_blocks
         then Some (Inl (ResourceLimited ''Too large number of blocks''))
         else collect_changes N from_block to_block [] (runtime_api N))"

text \<open>The methods of the RPC; the second indexes the list, which panics (the inner \<open>None\<close>) when it is empty.\<close>

definition rpc_storage_changes :: "bool \<Rightarrow> ('st, 'api) node_client \<Rightarrow> block_id \<Rightarrow> block_id \<Rightarrow>
    (storage_rpc_error + storage_changes list) option" where
  "rpc_storage_changes is_archive_mode N from_block to_block =
     (if \<not> is_archive_mode then
        Some (Inl (Unavailable ''Add \"--pruning=archive\" to the command line to enable this RPC''))
      else storage_changes_between N from_block to_block)"

definition rpc_storage_changes_at :: "(storage_changes \<Rightarrow> bytes) \<Rightarrow> (bytes \<Rightarrow> string) \<Rightarrow> bool \<Rightarrow>
    ('st, 'api) node_client \<Rightarrow> block_id \<Rightarrow> (storage_rpc_error + string option) option" where
  "rpc_storage_changes_at enc to_hex is_archive_mode N b =
     (case rpc_storage_changes is_archive_mode N b b of
        None \<Rightarrow> None
      | Some (Inl e) \<Rightarrow> Some (Inl e)
      | Some (Inr changes) \<Rightarrow>
          Some (Inr (case changes of [] \<Rightarrow> None | ch # _ \<Rightarrow> Some (to_hex (enc ch)))))"

section \<open>The trie of the follower\<close>

record ('db, 'e) trie_ops =
  trie_new :: "'db \<times> bytes"
  trie_empty :: "'db \<times> bytes"
  trie_insert :: "bytes \<Rightarrow> bytes \<Rightarrow> 'db \<times> bytes \<Rightarrow> 'e + 'db \<times> bytes"
  full_storage_root :: "'db \<times> bytes \<Rightarrow> storage_collection \<Rightarrow> child_collection \<Rightarrow> bytes \<times> 'db"
  db_consolidate :: "'db \<Rightarrow> 'db \<Rightarrow> 'db"
  db_purge :: "'db \<Rightarrow> 'db"
  trie_storage :: "'db \<times> bytes \<Rightarrow> bytes \<Rightarrow> 'e + bytes option"
  trie_keys :: "'db \<times> bytes \<Rightarrow> bytes \<Rightarrow> bytes list"

text \<open>A failed insert panics, the outer \<open>None\<close>.\<close>

fun insert_pairs :: "('db, 'e) trie_ops \<Rightarrow> (bytes \<times> bytes) list \<Rightarrow> 'db \<times> bytes \<Rightarrow> ('db \<times> bytes) option" where
  "insert_pairs D [] t = Some t"
| "insert_pairs D ((k, v) # ps) t =
     (case trie_insert D k v t of Inl _ \<Rightarrow> None | Inr t \<Rightarrow> insert_pairs D ps t)"

definition load_trie_backend :: "('db, 'e) trie_ops \<Rightarrow> (bytes \<times> bytes) list \<Rightarrow> ('db \<times> bytes) option" where
  "load_trie_backend D pairs = insert_pairs D pairs (trie_new D)"

definition trie_load :: "('db, 'e) trie_ops \<Rightarrow> (bytes \<times> bytes) list \<Rightarrow> 'db \<times> bytes \<Rightarrow> ('db \<times> bytes) option" where
  "trie_load D pairs t = load_trie_backend D pairs"

definition calc_root_if_changes :: "('db, 'e) trie_ops \<Rightarrow> 'db \<times> bytes \<Rightarrow> storage_collection \<Rightarrow>
    child_collection \<Rightarrow> bytes \<times> 'db" where
  "calc_root_if_changes D t delta child_deltas = full_storage_root D t delta child_deltas"

definition trie_apply_changes :: "('db, 'e) trie_ops \<Rightarrow> 'db \<times> bytes \<Rightarrow> bytes \<Rightarrow> 'db \<Rightarrow> 'db \<times> bytes" where
  "trie_apply_changes D t root transaction =
     (let storage = fst t;
          storage = db_consolidate D storage transaction;
          storage = db_purge D storage
      in (storage, root))"

definition trie_root :: "'db \<times> bytes \<Rightarrow> bytes" where
  "trie_root t = snd t"

definition trie_get :: "('db, 'e) trie_ops \<Rightarrow> 'db \<times> bytes \<Rightarrow> bytes \<Rightarrow> bytes option" where
  "trie_get D t k = (case trie_storage D t k of Inl _ \<Rightarrow> None | Inr v \<Rightarrow> v)"

text \<open>The pairs under a prefix; a key the trie lists but does not have panics.\<close>

fun reflect_keys :: "('db, 'e) trie_ops \<Rightarrow> 'db \<times> bytes \<Rightarrow> bytes list \<Rightarrow> (bytes \<times> bytes) list option" where
  "reflect_keys D t [] = Some []"
| "reflect_keys D t (k # ks) = (case trie_get D t k of
     None \<Rightarrow> None
   | Some v \<Rightarrow> map_option (Cons (k, v)) (reflect_keys D t ks))"

definition trie_pairs :: "('db, 'e) trie_ops \<Rightarrow> 'db \<times> bytes \<Rightarrow> bytes \<Rightarrow> (bytes \<times> bytes) list option" where
  "trie_pairs D t prefix = reflect_keys D t (trie_keys D t prefix)"

text \<open>How a follower takes one answer of the node: the changes of each block in turn.\<close>

fun follow :: "('db, 'e) trie_ops \<Rightarrow> storage_changes list \<Rightarrow> 'db \<times> bytes \<Rightarrow> 'db \<times> bytes" where
  "follow D [] t = t"
| "follow D (c # cs) t =
     (let (root, transaction) = calc_root_if_changes D t (main_storage_changes c) (child_storage_changes c)
      in follow D cs (trie_apply_changes D t root transaction))"

end
