(* ===== verification/Storage_Claims.thy ===== *)
theory Storage_Claims
  imports Storage_Rpc
begin

text \<open>
  A follower that asks a node for the storage changes of a range of blocks and applies them to its
  trie has the state of the last block. The node is described by the state \<open>S b\<close> after each block \<open>b\<close>.
\<close>

section \<open>States and changes\<close>

type_synonym kv = "bytes \<rightharpoonup> bytes"
type_synonym chain_state = "kv \<times> (bytes \<rightharpoonup> kv)"

definition no_state :: chain_state where
  "no_state = (Map.empty, Map.empty)"

definition apply_collection :: "storage_collection \<Rightarrow> kv \<Rightarrow> kv" where
  "apply_collection ds m = fold (\<lambda>(k, v) m. m(k := v)) ds m"

definition apply_child :: "bytes \<times> storage_collection \<Rightarrow> (bytes \<rightharpoonup> kv) \<Rightarrow> (bytes \<rightharpoonup> kv)" where
  "apply_child kd c = c(fst kd \<mapsto> apply_collection (snd kd) (case c (fst kd) of Some m \<Rightarrow> m | None \<Rightarrow> Map.empty))"

definition apply_deltas :: "storage_collection \<Rightarrow> child_collection \<Rightarrow> chain_state \<Rightarrow> chain_state" where
  "apply_deltas delta child_deltas st =
     (apply_collection delta (fst st), fold apply_child child_deltas (snd st))"

definition replay :: "storage_changes list \<Rightarrow> chain_state \<Rightarrow> chain_state" where
  "replay = fold (\<lambda>c. apply_deltas (main_storage_changes c) (child_storage_changes c))"

lemma replay_simps [simp]:
  "replay [] st = st"
  "replay (c # cs) st = replay cs (apply_deltas (main_storage_changes c) (child_storage_changes c) st)"
  "replay (cs @ ds) st = replay ds (replay cs st)"
  by (simp_all add: replay_def)

lemma apply_all_new: "apply_collection (map (\<lambda>(k, v). (k, Some v)) ps) m = m ++ map_of (rev ps)"
proof (induction ps arbitrary: m)
  case (Cons p ps)
  then show ?case
    by (cases p) (auto simp: apply_collection_def map_add_def fun_eq_iff split: option.splits)
qed (simp add: apply_collection_def)

section \<open>An archive node\<close>

text \<open>
  What the client promises: headers follow their parents, bodies and states of its blocks are stored,
  and executing a block on the parent's state yields changes that lead to the block's state; the genesis
  block has no child tries.
\<close>

definition executes :: "('st, 'api) node_client \<Rightarrow> (block_id \<Rightarrow> chain_state) \<Rightarrow> block_id \<Rightarrow> node_header \<Rightarrow>
    bytes list \<Rightarrow> bool" where
  "executes N S b h x \<longleftrightarrow> (\<exists>api st ch.
     execute_block N (nh_parent h)
       \<lparr>nb_header = h\<lparr>nh_logs := filter (\<lambda>d. \<not> is_seal d) (nh_logs h)\<rparr>, nb_extrinsics = x\<rparr>
       (runtime_api N) = Inr api \<and>
     state_at N (nh_parent h) = Inr st \<and>
     into_storage_changes N st (nh_parent h) api = (Inr ch, runtime_api N) \<and>
     S b = apply_deltas (main_storage_changes ch) (child_storage_changes ch) (S (nh_parent h)))"

definition archive_node :: "('st, 'api) node_client \<Rightarrow> (block_id \<Rightarrow> chain_state) \<Rightarrow> bool" where
  "archive_node N S \<longleftrightarrow> (\<forall>b h. client_header N b = Inr (Some h) \<longrightarrow>
     (\<exists>x. block_body N b = Inr (Some x) \<and>
       (if nh_number h = 0 then
          \<exists>st. state_at N b = Inr st \<and> S b = (map_of (rev (state_pairs N st)), Map.empty)
        else executes N S b h x \<and>
          (\<exists>p. client_header N (nh_parent h) = Inr (Some p) \<and> nh_number h = nh_number p + 1))))"

definition at_block :: "('st, 'api) node_client \<Rightarrow> block_id \<Rightarrow> u64 \<Rightarrow> bool" where
  "at_block N b n \<longleftrightarrow> (\<exists>h. client_header N b = Inr (Some h) \<and> nh_number h = n)"

definition before :: "('st, 'api) node_client \<Rightarrow> (block_id \<Rightarrow> chain_state) \<Rightarrow> block_id \<Rightarrow> chain_state" where
  "before N S b = (case client_header N b of
     Inr (Some h) \<Rightarrow> if nh_number h = 0 then no_state else S (nh_parent h)
   | _ \<Rightarrow> no_state)"

inductive descends :: "('st, 'api) node_client \<Rightarrow> block_id \<Rightarrow> block_id \<Rightarrow> bool" for N a where
  descends_self: "descends N a a"
| descends_child: "client_header N b = Inr (Some h) \<Longrightarrow> nh_number h \<noteq> 0 \<Longrightarrow> descends N a (nh_parent h) \<Longrightarrow>
    descends N a b"

inductive_cases descendsE: "descends N a b"

lemma changes_of_genesis:
  assumes "archive_node N S" "client_header N b = Inr (Some h)" "nh_number h = 0"
  obtains ch where "changes_of_block N b (runtime_api N) = Inr (ch, None, runtime_api N)"
    and "replay [ch] no_state = S b"
proof -
  from assms obtain x st where "block_body N b = Inr (Some x)" "state_at N b = Inr st"
    "S b = (map_of (rev (state_pairs N st)), Map.empty)"
    unfolding archive_node_def by fastforce
  then show ?thesis using assms(2,3) that
    by (simp add: changes_of_block_def rpc_header_def apply_deltas_def no_state_def apply_all_new)
qed

lemma changes_of_child:
  assumes "archive_node N S" "client_header N b = Inr (Some h)" "nh_number h \<noteq> 0"
  obtains ch where
    "changes_of_block N b (runtime_api N) = Inr (ch, Some (nh_parent h), runtime_api N)"
    and "replay [ch] (S (nh_parent h)) = S b"
proof -
  from assms obtain x where x: "block_body N b = Inr (Some x)" "executes N S b h x"
    unfolding archive_node_def by (metis (no_types, lifting))
  then show ?thesis using assms(2,3) that
    by (auto simp: executes_def changes_of_block_def rpc_header_def Let_def)
qed

lemma parent_at:
  assumes "archive_node N S" "client_header N b = Inr (Some h)" "nh_number h \<noteq> 0"
  shows "at_block N (nh_parent h) (nh_number h - 1)"
  using assms unfolding archive_node_def at_block_def by fastforce

text \<open>
  The loop always ends: at \<open>from\<close> when it lies on the way to the genesis block, else at the genesis block.
\<close>

lemma collect_changes_path:
  assumes ok: "archive_node N S" and b: "at_block N b n"
  shows "\<exists>cs start m. collect_changes N a b acc (runtime_api N) = Some (Inr (cs @ rev acc)) \<and>
    at_block N start m \<and> m \<le> n \<and> length cs = unat n - unat m + 1 \<and> replay cs (before N S start) = S b \<and>
    (if descends N a b then start = a else m = 0)"
  using b
proof (induction "unat n" arbitrary: n b acc)
  case 0
  then obtain h where h: "client_header N b = Inr (Some h)" "nh_number h = 0"
    by (auto simp: at_block_def unat_eq_0)
  obtain ch where ch: "changes_of_block N b (runtime_api N) = Inr (ch, None, runtime_api N)"
    "replay [ch] no_state = S b" by (rule changes_of_genesis [OF ok h])
  have "collect_changes N a b acc (runtime_api N) = Some (Inr ([ch] @ rev acc))"
    by (subst collect_changes.simps) (simp add: ch)
  moreover have "descends N a b \<Longrightarrow> a = b" using h by (auto elim: descendsE)
  moreover have "at_block N b 0" using h by (auto simp: at_block_def)
  ultimately show ?case using h ch(2) 0
    by (intro exI [of _ "[ch]"] exI [of _ b] exI [of _ 0]) (auto simp: before_def)
next
  case (Suc k)
  then obtain h where h: "client_header N b = Inr (Some h)" "nh_number h = n" by (auto simp: at_block_def)
  have n: "n \<noteq> 0" "unat (n - 1) = k" "n - 1 \<le> n"
  proof -
    show n0: "n \<noteq> 0" using Suc.hyps(2) by auto
    show k: "unat (n - 1) = k" using unat_minus_one [OF n0] Suc.hyps(2) by simp
    show "n - 1 \<le> n" using k Suc.hyps(2) by (simp add: word_le_nat_alt)
  qed
  have h0: "nh_number h \<noteq> 0" using h n by simp
  obtain ch where ch: "changes_of_block N b (runtime_api N) = Inr (ch, Some (nh_parent h), runtime_api N)"
    "replay [ch] (S (nh_parent h)) = S b" by (rule changes_of_child [OF ok h(1) h0])
  show ?case
  proof (cases "b = a")
    case True
    have "collect_changes N a b acc (runtime_api N) = Some (Inr ([ch] @ rev acc))"
      by (subst collect_changes.simps) (simp add: ch True [symmetric])
    then show ?thesis using h h0 ch(2) True descends_self Suc.prems
      by (intro exI [of _ "[ch]"] exI [of _ b] exI [of _ n]) (auto simp: before_def)
  next
    case False
    have step: "collect_changes N a b acc (runtime_api N) =
        collect_changes N a (nh_parent h) (acc @ [ch]) (runtime_api N)"
      by (subst collect_changes.simps) (simp add: ch False)
    obtain cs start m where IH: "collect_changes N a (nh_parent h) (acc @ [ch]) (runtime_api N) =
        Some (Inr (cs @ rev (acc @ [ch])))" "at_block N start m" "m \<le> n - 1" "length cs = k - unat m + 1"
      "replay cs (before N S start) = S (nh_parent h)" "if descends N a (nh_parent h) then start = a else m = 0"
      using Suc.hyps(1) [of "n - 1" "nh_parent h" "acc @ [ch]"] n(2) parent_at [OF ok h(1) h0] h(2) by auto
    have "descends N a b \<longleftrightarrow> descends N a (nh_parent h)"
      using False h(1) h0 descends_child by (auto elim: descendsE)
    moreover have "unat m \<le> k" using IH(3) n(2) by (simp add: word_le_nat_alt)
    ultimately show ?thesis using IH ch(2) step Suc.hyps(2) n(3)
      by (intro exI [of _ "cs @ [ch]"] exI [of _ start] exI [of _ m]) (auto simp: Suc_diff_le)
  qed
qed

section \<open>The follower\<close>

text \<open>What the trie promises, with the state \<open>view t\<close> a database and a root stand for.\<close>

definition trie_laws :: "('db, 'e) trie_ops \<Rightarrow> ('db \<times> bytes \<Rightarrow> chain_state) \<Rightarrow> bool" where
  "trie_laws D view \<longleftrightarrow>
     (\<forall>t delta cd root tx. full_storage_root D t delta cd = (root, tx) \<longrightarrow>
        view (db_purge D (db_consolidate D (fst t) tx), root) = apply_deltas delta cd (view t)) \<and>
     (\<forall>t k. trie_storage D t k = Inr (fst (view t) k))"

lemma follow_replays:
  assumes "trie_laws D view"
  shows "view (follow D cs t) = replay cs (view t)"
proof (induction cs arbitrary: t)
  case (Cons c cs)
  obtain root tx where c: "full_storage_root D t (main_storage_changes c) (child_storage_changes c) = (root, tx)"
    by fastforce
  then have "view (db_purge D (db_consolidate D (fst t) tx), root) =
      apply_deltas (main_storage_changes c) (child_storage_changes c) (view t)"
    using assms unfolding trie_laws_def by blast
  then show ?case using Cons [of "(db_purge D (db_consolidate D (fst t) tx), root)"] c
    by (simp add: calc_root_if_changes_def trie_apply_changes_def)
qed simp

lemma trie_get_view: "trie_laws D view \<Longrightarrow> trie_get D t k = fst (view t) k"
  by (cases t) (simp add: trie_laws_def trie_get_def)

text \<open>Listing the pairs under a prefix does not panic when the trie lists the keys it has.\<close>

lemma trie_pairs_total:
  assumes "trie_laws D view" "set (trie_keys D t prefix) \<subseteq> dom (fst (view t))"
  shows "\<exists>ps. trie_pairs D t prefix = Some ps \<and> map fst ps = trie_keys D t prefix \<and>
    (\<forall>(k, v) \<in> set ps. fst (view t) k = Some v)"
proof -
  have "\<exists>ps. reflect_keys D t ks = Some ps \<and> map fst ps = ks \<and> (\<forall>(k, v) \<in> set ps. fst (view t) k = Some v)"
    if "set ks \<subseteq> dom (fst (view t))" for ks
    using that by (induction ks) (auto simp: trie_get_view [OF assms(1)])
  then show ?thesis using assms(2) by (simp add: trie_pairs_def)
qed

lemma rpc_in_range:
  assumes ok: "archive_node N S" and a: "at_block N a n" and b: "at_block N b m"
    and range: "n \<le> m" "m - n \<le> 10000"
  obtains cs start l where "rpc_storage_changes True N a b = Some (Inr cs)" "at_block N start l" "l \<le> m"
    "length cs = unat m - unat l + 1" "replay cs (before N S start) = S b"
    "if descends N a b then start = a else l = 0"
proof -
  from a b obtain ha hb where h: "client_header N a = Inr (Some ha)" "nh_number ha = n"
    "client_header N b = Inr (Some hb)" "nh_number hb = m" by (auto simp: at_block_def)
  have "rpc_storage_changes True N a b = collect_changes N a b [] (runtime_api N)"
    using h leD [OF range(1)] leD [OF range(2)]
    by (simp add: rpc_storage_changes_def storage_changes_between_def rpc_header_def max_number_of_blocks_def)
  then show ?thesis using collect_changes_path [OF ok b, of a "[]"] that by auto
qed

lemma at_block_unique: "at_block N b n \<Longrightarrow> at_block N b m \<Longrightarrow> n = m"
  by (auto simp: at_block_def)

text \<open>
  C12. A follower can rely on the storage changes of a node: for a range of at most 10000 blocks that ends
  in a descendant of its first block, the RPC returns, with one entry per block, and a trie with the state
  before the range that applies them in turn has the state of the last block, key by key.
\<close>

theorem follower_tracks_the_chain:
  assumes "archive_node N S" "trie_laws D view"
    and "at_block N a n" "at_block N b m" "n \<le> m" "m - n \<le> 10000" "descends N a b"
    and "view t = before N S a"
  shows "\<exists>cs. rpc_storage_changes True N a b = Some (Inr cs) \<and> length cs = unat m - unat n + 1 \<and>
    view (follow D cs t) = S b \<and> (\<forall>k. trie_get D (follow D cs t) k = fst (S b) k)"
proof -
  obtain cs start l where run: "rpc_storage_changes True N a b = Some (Inr cs)" "at_block N start l"
    "length cs = unat m - unat l + 1" "replay cs (before N S start) = S b"
    "if descends N a b then start = a else l = 0" by (rule rpc_in_range [OF assms(1,3-6)])
  have start: "start = a" using run(5) assms(7) by simp
  then have l: "l = n" using at_block_unique [OF run(2)] assms(3) by simp
  have "view (follow D cs t) = S b"
    using follow_replays [OF assms(2)] run(4) start assms(8) by simp
  then show ?thesis using run(1,3) l trie_get_view [OF assms(2)] by auto
qed

text \<open>
  The limit on the number of blocks compares heights only: between blocks of different forks, or for a
  first block that does not lead to the last one, the loop passes the height of the first block and
  re-executes every block down to the genesis block.
\<close>

theorem fork_range_goes_to_genesis:
  assumes "archive_node N S" "at_block N a n" "at_block N b m" "n \<le> m" "m - n \<le> 10000" "\<not> descends N a b"
  shows "\<exists>cs. rpc_storage_changes True N a b = Some (Inr cs) \<and> length cs = unat m + 1"
  by (rule rpc_in_range [OF assms(1-5)]) (use assms(6) in auto)

text \<open>The changes at one block: the list is never empty, as the source remarks.\<close>

lemma changes_at_returns:
  assumes "archive_node N S" "at_block N b n"
  shows "\<exists>x. rpc_storage_changes_at enc to_hex True N b = Some (Inr (Some x))"
proof -
  obtain cs where "rpc_storage_changes True N b b = Some (Inr cs)" "cs \<noteq> []"
    by (rule rpc_in_range [OF assms(1,2,2)]) (auto simp flip: length_greater_0_conv)
  then show ?thesis by (auto simp: rpc_storage_changes_at_def split: list.split)
qed

text \<open>A node with a genesis block and three blocks on two forks, and a trie that is the state itself.\<close>

definition demo_header :: "block_id \<Rightarrow> node_header option" where
  "demo_header b =
     (let h = (\<lambda>n p. Some \<lparr>nh_number = n, nh_parent = p, nh_logs = [Seal [] []], nh_roots = []\<rparr>)
      in if b = [0] then h 0 [] else if b = [1] then h 1 [0] else if b = [2] then h 2 [1]
         else if b = [3] then h 1 [0] else None)"

definition demo_changes :: "block_id \<Rightarrow> storage_changes" where
  "demo_changes b = \<lparr>main_storage_changes = [(b, Some [5]), ([9], None)],
     child_storage_changes = [([8], [(b, Some [6])])]\<rparr>"

definition demo_node :: "(block_id, block_id) node_client" where
  "demo_node = \<lparr>client_header = (\<lambda>b. Inr (demo_header b)), block_body = (\<lambda>b. Inr (Some [b])),
     state_at = Inr, state_pairs = (\<lambda>_. [([9], [7])]), runtime_api = [],
     execute_block = (\<lambda>p blk api. if nh_logs (nb_header blk) = [] then Inr (hd (nb_extrinsics blk)) else Inl ''seal''),
     into_storage_changes = (\<lambda>st p api. (Inr (demo_changes api), []))\<rparr>"

definition demo_state :: "block_id \<Rightarrow> chain_state" where
  "demo_state b =
     (let step = (\<lambda>b. apply_deltas (main_storage_changes (demo_changes b)) (child_storage_changes (demo_changes b)));
          gen = ([[9] \<mapsto> [7]], Map.empty)
      in if b = [0] then gen else if b = [1] then step [1] gen else if b = [2] then step [2] (step [1] gen)
         else step [3] gen)"

definition demo_trie :: "(chain_state, string) trie_ops" where
  "demo_trie = \<lparr>trie_new = (no_state, []), trie_empty = (no_state, []),
     trie_insert = (\<lambda>k v t. Inr (((fst (fst t))(k \<mapsto> v), snd (fst t)), [])),
     full_storage_root = (\<lambda>t delta cd. ([], apply_deltas delta cd (fst t))),
     db_consolidate = (\<lambda>_ tx. tx), db_purge = id, trie_storage = (\<lambda>t k. Inr (fst (fst t) k)),
     trie_keys = (\<lambda>_ _. [])\<rparr>"

lemma demo_node_archive: "archive_node demo_node demo_state"
  by (auto simp: archive_node_def executes_def demo_node_def demo_header_def demo_state_def Let_def is_seal_def
      split: if_splits)

lemma demo_trie_laws: "trie_laws demo_trie fst"
  by (simp add: trie_laws_def demo_trie_def)

theorem follower_tracks_the_chain_witness:
  "\<exists>cs. rpc_storage_changes True demo_node [1] [2] = Some (Inr cs) \<and>
     trie_get demo_trie (follow demo_trie cs (demo_state [0], [])) [2] = Some [5]"
proof -
  have at: "at_block demo_node [1] 1" "at_block demo_node [2] 2"
    by (simp_all add: at_block_def demo_node_def demo_header_def)
  have "descends demo_node [1] [2]"
    by (rule descends_child [where h = "the (demo_header [2])"])
      (simp_all add: demo_node_def demo_header_def descends_self)
  moreover have "fst (demo_state [0], []) = before demo_node demo_state [1]"
    by (simp add: before_def demo_node_def demo_header_def)
  moreover have "fst (demo_state [2]) [2] = Some [5]"
    by (simp add: demo_state_def demo_changes_def apply_deltas_def apply_collection_def)
  ultimately show ?thesis
    using follower_tracks_the_chain [OF demo_node_archive demo_trie_laws at, of "(demo_state [0], [])"] by auto
qed

lemma demo_fork: "\<exists>cs. rpc_storage_changes True demo_node [3] [2] = Some (Inr cs) \<and> length cs = 3"
proof -
  have at: "at_block demo_node [3] 1" "at_block demo_node [2] 2"
    by (simp_all add: at_block_def demo_node_def demo_header_def)
  have "\<not> descends demo_node [3] b" if "b \<in> {[0], [1], [2]}" for b
  proof
    assume "descends demo_node [3] b"
    then show False using that
      by (induction b) (auto simp: demo_node_def demo_header_def split: if_splits)
  qed
  then show ?thesis using fork_range_goes_to_genesis [OF demo_node_archive at] by simp
qed

end
