(* ===== verification/Khala_Config.thy ===== *)
theory Khala_Config
  imports Xt_Runtime Phala_Base
begin

text \<open>
  The constants of the Khala runtime: \<open>src/runtime/khala/src/constants.rs\<close>,
  \<open>src/parachains-common/src/lib.rs\<close> and the \<open>parameter_types!\<close> of \<open>src/runtime/khala/src/lib.rs\<close> that the pallets
  of this repository and the fees take, as configurations of the pallets' models. The weights Substrate
  measures, its \<open>Perbill\<close> and the sum of a weight polynomial are parameters.
\<close>

section \<open>Time\<close>

definition MILLISECS_PER_BLOCK :: u64 where "MILLISECS_PER_BLOCK = 12000"
definition SECS_PER_BLOCK :: u64 where "SECS_PER_BLOCK = MILLISECS_PER_BLOCK div 1000"
definition SLOT_DURATION :: u64 where "SLOT_DURATION = MILLISECS_PER_BLOCK"
definition MinimumPeriod :: u64 where "MinimumPeriod = SLOT_DURATION div 2"
definition MINUTES :: u32 where "MINUTES = 60 div ucast SECS_PER_BLOCK"
definition HOURS :: u32 where "HOURS = MINUTES * 60"
definition DAYS :: u32 where "DAYS = HOURS * 24"
definition BlockHashCount :: u32 where "BlockHashCount = 1200"
definition NoPreimagePostponement :: "u32 option" where "NoPreimagePostponement = Some 10"

section \<open>Money\<close>

definition UNIT :: u128 where "UNIT = 1000000000000"
definition DOLLARS :: u128 where "DOLLARS = UNIT"
definition CENTS :: u128 where "CENTS = DOLLARS div 100"
definition MILLICENTS :: u128 where "MILLICENTS = CENTS div 1000"

definition deposit :: "u32 \<Rightarrow> u32 \<Rightarrow> u128" where
  "deposit items bytes = ucast items * 15 * CENTS + ucast bytes * 1 * CENTS"

definition ExistentialDeposit :: u128 where "ExistentialDeposit = 1 * CENTS"

section \<open>Fees\<close>

record 'pb weight_env =
  ExtrinsicBaseWeight :: u64
  WEIGHT_PER_SECOND :: u64
  perbill_from_rational :: "u128 \<Rightarrow> u128 \<Rightarrow> 'pb"

record 'pb fee_coefficient =
  degree :: u8
  negative :: bool
  coeff_frac :: 'pb
  coeff_integer :: u128

text \<open>A base weight of zero would make the divisions panic, the \<open>None\<close>.\<close>

definition weight_to_fee_polynomial :: "'pb weight_env \<Rightarrow> 'pb fee_coefficient list option" where
  "weight_to_fee_polynomial K =
     (let p = CENTS; q = 100 * ucast (ExtrinsicBaseWeight K)
      in if q = 0 then None
         else Some [\<lparr>degree = 1, negative = False, coeff_frac = perbill_from_rational K (p mod q) q,
                     coeff_integer = p div q\<rparr>])"

definition pha_per_second :: "'pb weight_env \<Rightarrow> u128 option" where
  "pha_per_second K =
     (let base_tx_fee = CENTS; base_weight = ucast (ExtrinsicBaseWeight K)
      in if base_weight = 0 then None
         else let tx_per_second = ucast (WEIGHT_PER_SECOND K) div base_weight
              in Some (base_tx_fee * tx_per_second))"

text \<open>The fees of a transaction, and its tip when there is one, go to the treasury together.\<close>

definition deal_with_fees :: "(u128 \<Rightarrow> u128 \<Rightarrow> u128) \<Rightarrow> (u128 \<Rightarrow> 'x \<Rightarrow> 'x) \<Rightarrow> u128 list \<Rightarrow> 'x \<Rightarrow> 'x" where
  "deal_with_fees merge treasury fees_then_tips x = (case fees_then_tips of
     [] \<Rightarrow> x
   | [fees] \<Rightarrow> treasury fees x
   | fees # tips # _ \<Rightarrow> treasury (merge fees tips) x)"

section \<open>The assets that pay fees\<close>

definition karura_id :: u32 where "karura_id = 2000"
definition KAR_KEY :: bytes where "KAR_KEY = [0, 128]"
definition KUSD_KEY :: bytes where "KUSD_KEY = [0, 129]"
definition bifrost_id :: u32 where "bifrost_id = 2001"
definition BNC_KEY :: bytes where "BNC_KEY = [0, 1]"
definition VSKSM_KEY :: bytes where "VSKSM_KEY = [4, 4]"
definition ZLK_KEY :: bytes where "ZLK_KEY = [2, 7]"

definition sibling_asset :: "u32 \<Rightarrow> bytes \<Rightarrow> multi_location" where
  "sibling_asset para key = at_location 1 [Parachain para, GeneralKey key]"

text \<open>The locations of the fee assets, each with the share of the price in PHA its price is.\<close>

definition khala_fee_table :: "u32 \<Rightarrow> (multi_location \<times> u128) list" where
  "khala_fee_table para =
     [(at_location 1 [], 600), (at_location 1 [Parachain para], 1), (at_location 0 [], 1),
      (sibling_asset karura_id KAR_KEY, 8), (sibling_asset karura_id KUSD_KEY, 4),
      (sibling_asset bifrost_id BNC_KEY, 4), (sibling_asset bifrost_id VSKSM_KEY, 600),
      (sibling_asset bifrost_id ZLK_KEY, 4)]"

definition execution_prices :: "u32 \<Rightarrow> u128 \<Rightarrow> (xcm_asset_id \<times> u128) list" where
  "execution_prices para per_second =
     map (\<lambda>(loc, k). (Concrete loc, per_second div k)) (khala_fee_table para)"

definition khala_fee_assets :: "u32 \<Rightarrow> multi_asset list" where
  "khala_fee_assets para = map (\<lambda>(loc, _). fungible_at loc (- 1)) (khala_fee_table para)"

definition DefaultDestChainXcmFee :: u128 where "DefaultDestChainXcmFee = 10 * CENTS"

section \<open>The pallets\<close>

definition khala_xt :: "u128 \<Rightarrow> 'x xt_config \<Rightarrow> 'x xt_config" where
  "khala_xt per_second X = X\<lparr>
     fee_assets_contain := (\<lambda>a. \<exists>i \<in> set (khala_fee_assets (parachain_id X)). asset_contains X i a),
     wrapper_min_balance := ExistentialDeposit,
     native_execution_price := per_second,
     execution_price_info := execution_prices (parachain_id X) per_second,
     default_xcm_fee := DefaultDestChainXcmFee\<rparr>"

definition khala_bridge :: "('call, 's) bridge_config \<Rightarrow> ('call, 's) bridge_config" where
  "khala_bridge B = B\<lparr>BridgeChainId := 1, ProposalLifetime := 50400\<rparr>"

definition khala_phala :: "'b phala_config \<Rightarrow> 'b phala_config" where
  "khala_phala T = T\<lparr>
     ExpectedBlockTimeSec := ucast SECS_PER_BLOCK,
     MinInitP := 50,
     MinContribution := 1 * CENTS,
     GracePeriod := 7 * 24 * 3600,
     MaxPoolWorkers := 200,
     VerifyPRuntime := True,
     VerifyRelaychainGenesisBlockHash := True\<rparr>"

end
