(* ===== verification/Khala_Fees.thy ===== *)
theory Khala_Fees
  imports Khala_Config Xt_Claims
begin

text \<open>
  Claims about the constants of the Khala runtime: the fees of the bridge under the execution prices of
  the runtime, and what its comments say of times and prices.
\<close>

section \<open>Execution prices\<close>

lemma cents: "CENTS = 10000000000" "unat CENTS = 10 ^ 10"
  by (simp_all add: CENTS_def DOLLARS_def UNIT_def unat_div)

lemma unat_u64_less: "unat (x :: u64) < 2 ^ 64"
  by (rule order.strict_trans2 [OF unsigned_less]) simp

lemma wide: "unat (ucast (x :: u64) :: u128) = unat x"
proof -
  have "unat x < 2 ^ 128" using unat_u64_less [of x] by simp
  then show ?thesis by (simp add: unsigned_ucast_eq take_bit_nat_eq_self)
qed

lemma pha_per_second_bounds:
  assumes "pha_per_second K = Some pps" "ExtrinsicBaseWeight K \<le> WEIGHT_PER_SECOND K"
  shows "unat pps = 10 ^ 10 * (unat (WEIGHT_PER_SECOND K) div unat (ExtrinsicBaseWeight K))"
    and "10 ^ 10 \<le> unat pps"
proof -
  let ?w = "unat (WEIGHT_PER_SECOND K)" and ?b = "unat (ExtrinsicBaseWeight K)"
  have b: "0 < ?b" and p: "pps = CENTS * (ucast (WEIGHT_PER_SECOND K) div ucast (ExtrinsicBaseWeight K))"
    using assms(1) by (auto simp: pha_per_second_def Let_def unat_gt_0 split: if_splits)
  have "?w div ?b < 2 ^ 64" by (rule le_less_trans [OF div_le_dividend unat_u64_less])
  then have small: "10 ^ 10 * (?w div ?b) < 2 ^ 128" by simp
  show eq: "unat pps = 10 ^ 10 * (?w div ?b)"
    unfolding p by (subst unat_mult_lem [THEN iffD1]) (use small in \<open>simp_all add: cents unat_div wide\<close>)
  have "1 \<le> ?w div ?b" using assms(2) b by (simp add: word_le_nat_alt div_greater_zero_iff Suc_le_eq)
  then show "10 ^ 10 \<le> unat pps" unfolding eq by simp
qed

lemma execution_prices_lookup:
  assumes "(loc, k) \<in> set (khala_fee_table para)"
  shows "\<exists>idx. find_index (\<lambda>(fee_asset, _). fee_asset = Concrete loc) (execution_prices para pps) = Some idx \<and>
    snd (execution_prices para pps ! idx) = pps div k"
  using assms
  by (auto simp: khala_fee_table_def execution_prices_def sibling_asset_def karura_id_def bifrost_id_def
      KAR_KEY_def KUSD_KEY_def BNC_KEY_def VSKSM_KEY_def ZLK_KEY_def)

lemma khala_fee_table_positive: "(loc, k) \<in> set (khala_fee_table para) \<Longrightarrow> 0 < unat k"
  by (auto simp: khala_fee_table_def)

text \<open>
  C36. The bridge charges its fee in the asset that is sent: for every fee asset of the runtime that is
  registered, the fee is the fee in PHA times the asset's share of the price of execution in PHA,
  rounded down, and never panics; so an asset priced at one \<open>k\<close>th of PHA pays at most one \<open>k\<close>th.
\<close>

theorem fee_is_priced_in_asset:
  assumes "pha_per_second K = Some pps" "ExtrinsicBaseWeight K \<le> WEIGHT_PER_SECOND K"
    and "(loc, k) \<in> set (khala_fee_table (parachain_id X))"
    and "lookup_id s (XTransferAsset loc) = Some i" "asset_decimals s i = Some decimals"
    and "fee = estimate_fee_in_pha s d (to_e12 amount decimals)" "unat fee * unat pps < 2 ^ 128"
  shows "\<exists>f. get_fee (khala_xt pps X) d (fungible_at loc amount) s =
      Ok (Some (if is_native_asset_id X loc then fee else from_e12 f decimals)) s \<and>
    unat f = unat fee * (unat pps div unat k) div unat pps \<and> unat f * unat k \<le> unat fee"
proof -
  have pps: "10 ^ 10 \<le> unat pps" by (rule pha_per_second_bounds(2) [OF assms(1,2)])
  then have pps0: "pps \<noteq> 0" by auto
  define f where "f = fee * (pps div k) div pps"
  have k: "0 < unat k" by (rule khala_fee_table_positive [OF assms(3)])
  have "unat fee * (unat pps div unat k) \<le> unat fee * unat pps" by simp
  then have "unat fee * (unat pps div unat k) < 2 ^ 128" using assms(7) by linarith
  then have f: "unat f = unat fee * (unat pps div unat k) div unat pps"
    by (simp add: f_def unat_div unat_times_small)
  have paid: "unat f * unat pps \<le> unat fee * (unat pps div unat k)"
    unfolding f by (rule div_times_less_eq_dividend)
  have "unat f * unat k * unat pps = unat f * unat pps * unat k" by (simp only: ac_simps)
  also have "\<dots> \<le> unat fee * (unat pps div unat k) * unat k" by (rule mult_le_mono1 [OF paid])
  also have "\<dots> = unat fee * (unat pps div unat k * unat k)" by (simp only: mult.assoc)
  also have "\<dots> \<le> unat fee * unat pps" by (rule mult_le_mono2) (rule div_times_less_eq_dividend)
  finally have le: "unat f * unat k \<le> unat fee" using pps by simp
  obtain idx where idx: "find_index (\<lambda>(fee_asset, _). fee_asset = Concrete loc)
      (execution_prices (parachain_id X) pps) = Some idx"
    "snd (execution_prices (parachain_id X) pps ! idx) = pps div k"
    using execution_prices_lookup [OF assms(3)] by blast
  have native: "is_native_asset (khala_xt pps X) (fungible_at loc amount) = is_native_asset_id X loc"
    by (simp add: is_native_asset_def is_native_asset_id_def khala_xt_def)
  have fields: "execution_price_info (khala_xt pps X) = execution_prices (parachain_id X) pps"
    "native_execution_price (khala_xt pps X) = pps" by (simp_all add: khala_xt_def)
  have "get_fee (khala_xt pps X) d (fungible_at loc amount) s =
      Ok (Some (if is_native_asset_id X loc then fee else from_e12 f decimals)) s"
    using assms(4-6) idx pps0 by (simp add: get_fee_def native Let_def convert_fee_from_pha_def f_def fields)
  then show ?thesis using f le by blast
qed

definition measured :: "unit weight_env" where
  "measured = \<lparr>ExtrinsicBaseWeight = 85795000, WEIGHT_PER_SECOND = 1000000000000, perbill_from_rational = \<lambda>_ _. ()\<rparr>"

lemma measured_price: "pha_per_second measured = Some 116550000000000"
  by (simp add: pha_per_second_def measured_def cents Let_def)

theorem fee_is_priced_in_asset_witness:
  "get_fee (khala_xt 116550000000000 small_pallets) 2 (fungible_at parent_location 6000000) xt_ready =
     (Ok (Some 100) xt_ready :: (xt_error, u128 option, (unit, coin_ledger) xt_runtime) outcome)"
proof -
  have fee: "60000 = estimate_fee_in_pha xt_ready 2 (to_e12 6000000 12)"
    by (simp add: estimate_fee_in_pha_def bridge_fee_def to_e12_def pow10_def saturating_mul_def)
  have look: "lookup_id xt_ready (XTransferAsset parent_location) = Some 1"
    by (simp add: lookup_id_def ksm_def)
  have dec: "asset_decimals xt_ready 1 = Some 12" by (simp add: asset_decimals_def ksm_properties_def)
  have le: "ExtrinsicBaseWeight measured \<le> WEIGHT_PER_SECOND measured" by (simp add: measured_def)
  have tab: "(parent_location, 600) \<in> set (khala_fee_table (parachain_id small_pallets))"
    by (simp add: khala_fee_table_def)
  have native: "\<not> is_native_asset_id small_pallets parent_location" by (simp add: is_native_asset_id_def)
  obtain f :: u128 where get: "get_fee (khala_xt 116550000000000 small_pallets) 2 (fungible_at parent_location 6000000)
      xt_ready = (Ok (Some (from_e12 f 12)) xt_ready :: (xt_error, u128 option, (unit, coin_ledger) xt_runtime) outcome)"
    and f: "unat f = 100"
    using fee_is_priced_in_asset [OF measured_price le tab look dec fee] native by auto
  have "f = 100" using f by (simp add: word_unat_eq_iff)
  then show ?thesis using get by (simp add: from_e12_def pow10_def)
qed

section \<open>Transaction fees and times\<close>

text \<open>
  The comment on the fee polynomial says that the base weight of a transaction costs a cent. What it costs
  is a hundredth of a cent (and the rounding of \<open>Perbill\<close>): \<open>q\<close> has a factor 100 more than the comment.
\<close>

lemma base_weight_costs_less_than_a_cent:
  assumes poly: "weight_to_fee_polynomial K = Some cs"
    and calc: "\<And>c w. degree c = 1 \<Longrightarrow> \<not> negative c \<Longrightarrow>
      calc [c] w = coeff_integer c * w + perbill_mul (coeff_frac c) w"
    and perbill: "\<And>a b w. a < b \<Longrightarrow>
      unat (perbill_mul (perbill_from_rational K a b) w) * unat b \<le> unat a * unat w + unat b"
  shows "unat (calc cs (ucast (ExtrinsicBaseWeight K))) * 100 \<le> unat CENTS + 100"
proof -
  define b where "b = unat (ExtrinsicBaseWeight K)"
  define q :: u128 where "q = 100 * ucast (ExtrinsicBaseWeight K)"
  have bb: "b < 2 ^ 64" unfolding b_def by (rule unat_u64_less)
  have q: "unat q = 100 * b" unfolding q_def b_def
    by (subst unat_mult_lem [THEN iffD1]) (use bb b_def in \<open>simp_all add: wide\<close>)
  define c where "c = \<lparr>degree = 1, negative = False, coeff_frac = perbill_from_rational K (CENTS mod q) q,
    coeff_integer = CENTS div q\<rparr>"
  have q0: "q \<noteq> 0" and cs: "cs = [c]"
    using poly by (auto simp: weight_to_fee_polynomial_def q_def c_def Let_def split: if_splits)
  have c: "coeff_integer c = CENTS div q" "coeff_frac c = perbill_from_rational K (CENTS mod q) q"
    by (simp_all add: c_def)
  let ?i = "unat CENTS div unat q * b" and ?f = "unat (perbill_mul (coeff_frac c) (ucast (ExtrinsicBaseWeight K)))"
  have qpos: "0 < unat q" using q0 by (simp add: unat_gt_0)
  have "CENTS mod q < q" using qpos by (simp add: word_less_nat_alt unat_mod)
  from perbill [OF this, of "ucast (ExtrinsicBaseWeight K)"]
  have frac: "?f * (100 * b) \<le> unat CENTS mod (100 * b) * b + 100 * b"
    unfolding c by (simp add: wide b_def [symmetric] q unat_mod)
  have b0: "0 < b" using qpos q by simp
  have "100 * ?f * b \<le> (unat CENTS mod (100 * b) + 100) * b" using frac by (simp add: algebra_simps)
  then have f: "100 * ?f \<le> unat CENTS mod (100 * b) + 100" using b0 by simp
  have i: "100 * ?i = unat CENTS div (100 * b) * (100 * b)" unfolding q by (simp only: ac_simps)
  have sum: "100 * (?i + ?f) \<le> unat CENTS + 100"
    unfolding distrib_left i using f div_mult_mod_eq [of "unat CENTS" "100 * b"] by linarith
  have add_le: "unat (x + y) \<le> unat x + unat y" for x y :: u128 by (simp add: unat_word_ariths(1))
  have mult_le: "unat (x * y) \<le> unat x * unat y" for x y :: u128 by (simp add: unat_word_ariths(2))
  have "unat (coeff_integer c * ucast (ExtrinsicBaseWeight K)) \<le> ?i"
    using mult_le [of "CENTS div q" "ucast (ExtrinsicBaseWeight K)"]
    unfolding c by (simp only: unat_div wide b_def [symmetric])
  note prod = this
  have sumup: "calc cs (ucast (ExtrinsicBaseWeight K)) = coeff_integer c * ucast (ExtrinsicBaseWeight K) +
      perbill_mul (coeff_frac c) (ucast (ExtrinsicBaseWeight K))"
    unfolding cs by (rule calc) (simp_all add: c_def)
  have "unat (calc cs (ucast (ExtrinsicBaseWeight K))) \<le> ?i + ?f"
    unfolding sumup using prod add_le [of "coeff_integer c * ucast (ExtrinsicBaseWeight K)"
      "perbill_mul (coeff_frac c) (ucast (ExtrinsicBaseWeight K))"] by linarith
  from order.trans [OF mult_le_mono2 [OF this, of 100] sum] show ?thesis by (simp only: mult.commute)
qed

text \<open>What the comments say of the times of the runtime.\<close>

lemma khala_times:
  "MINUTES = 5" "HOURS = 300" "DAYS = 7200"
  "BlockHashCount = 4 * HOURS"
  "ProposalLifetime (khala_bridge B) = 7 * DAYS"
  "unat (GracePeriod (khala_phala T)) = unat (7 * DAYS) * unat SECS_PER_BLOCK"
  "map_option unat NoPreimagePostponement = Some (2 * unat MINUTES)"
  by (simp_all add: MINUTES_def HOURS_def DAYS_def SECS_PER_BLOCK_def MILLISECS_PER_BLOCK_def BlockHashCount_def
      khala_bridge_def khala_phala_def NoPreimagePostponement_def unat_div)

text \<open>Depositing a fee of the treasury keeps what was paid.\<close>

lemma fees_reach_treasury:
  fixes money :: "'x \<Rightarrow> nat"
  assumes "\<And>a x. money (treasury a x) = money x + unat a"
    and "length fs \<le> 2" "\<And>a b. unat a + unat b < 2 ^ 128 \<Longrightarrow> unat (merge a b) = unat a + unat b"
    and "(\<Sum>f\<leftarrow>fs. unat f) < 2 ^ 128"
  shows "money (deal_with_fees merge treasury fs x) = money x + (\<Sum>f\<leftarrow>fs. unat f)"
  using assms by (auto simp: deal_with_fees_def split: list.split)

end
