(* ===== verification/Phala_Genesis.thy ===== *)
theory Phala_Genesis
  imports Upgrades Block_End
begin

text \<open>
  The storage a chain starts with: the default of every storage item, and the genesis builds of the
  registry and of the mining pallet (\<open>registry.rs\<close>, \<open>mining.rs\<close>). A build that panics (a key of the
  wrong length, the \<open>expect\<close> of the registry) makes no genesis block, the \<open>None\<close>. \<open>chain_specs\<close> builds
  the configurations.
\<close>

section \<open>Defaults\<close>

text \<open>The default of the switch of the stake pools is a constant of the runtime, \<open>enabled\<close>.\<close>

definition default_storage :: "bool \<Rightarrow> 'b \<Rightarrow> 'b chain" where
  "default_storage enabled b = \<lparr>
     bank = b, now_millis = 0, chain_block = 0,
     OffchainIngress = Map.empty, QueuedOutboundMessage = None, OutboundMessages = [],
     Gatekeeper = [], GatekeeperMasterPubkey = None, Workers = Map.empty,
     ContractKeys = Map.empty, TopicKey = Map.empty, BenchmarkDuration = None,
     PRuntimeAllowList = [], RelaychainGenesisBlockHashAllowList = [],
     TokenomicParameters = None, ScheduledTokenomicUpdate = None,
     OnlineMiners = 0, ExpectedHeartbeatCount = None,
     Miners = Map.empty, MinerBindings = Map.empty, WorkerBindings = Map.empty,
     CoolDownPeriod = 0, NextSessionId = 0, MiningStartBlock = None,
     MiningHalvingInterval = None, Stakes = Map.empty,
     StakePools = Map.empty, PoolStakers = Map.empty, PoolCount = 0,
     WorkerAssignments = Map.empty, StakeLedger = Map.empty,
     WithdrawalQueuedPools = Map.empty, WithdrawalTimestamps = [],
     MiningEnabled = enabled, SubAccountPreimages = Map.empty,
     mining_log = [], stakepool_log = []\<rparr>"

section \<open>Registry\<close>

record registry_genesis =
  rg_workers :: "(worker_key \<times> bytes \<times> account_id option) list"
  rg_gatekeepers :: "worker_key list"
  rg_benchmark_duration :: u32

definition default_registry_genesis :: registry_genesis where
  "default_registry_genesis = \<lparr>rg_workers = [], rg_gatekeepers = [], rg_benchmark_duration = 8\<rparr>"

definition registry_queue :: "'b phala_config \<Rightarrow> topic \<Rightarrow> bytes \<Rightarrow> 'b chain \<Rightarrow> 'b chain" where
  "registry_queue T topic payload = queue_message_to topic (PalletOrigin (registry_name T)) payload"

text \<open>\<open>EcdhPublicKey\<close> is a key of 32 bytes; the duration is stored inside the loop, as in the source.\<close>

fun genesis_workers :: "'b phala_config \<Rightarrow> u32 \<Rightarrow> (worker_key \<times> bytes \<times> account_id option) list \<Rightarrow>
    'b chain \<Rightarrow> 'b chain option" where
  "genesis_workers T duration [] s = Some s"
| "genesis_workers T duration ((pubkey, ecdh, oper) # ws) s =
     (if length ecdh \<noteq> 32 then None
      else let info = \<lparr>wi_pubkey = pubkey, wi_ecdh_pubkey = ecdh, runtime_version = 0,
                 last_updated = 0, operator = oper, confidence_level = 128,
                 initial_score = None, features = [1, 4]\<rparr>;
               s = s\<lparr>Workers := (Workers s)(pubkey \<mapsto> info)\<rparr>;
               s = registry_queue T system_event_topic
                     (enc_system_event T (WorkerEvent pubkey (Registered 128))) s;
               s = registry_queue T system_event_topic
                     (enc_system_event T (WorkerEvent pubkey (BenchStart duration))) s
           in genesis_workers T duration ws (s\<lparr>BenchmarkDuration := Some duration\<rparr>))"

fun genesis_gatekeepers :: "'b phala_config \<Rightarrow> worker_key list \<Rightarrow> worker_key list \<Rightarrow> 'b chain \<Rightarrow>
    'b chain" where
  "genesis_gatekeepers T gks [] s = s"
| "genesis_gatekeepers T gks (g # gs) s =
     (case Workers s g of
        None \<Rightarrow> genesis_gatekeepers T gks gs s
      | Some info \<Rightarrow>
          let gks = gks @ [g];
              s = s\<lparr>Gatekeeper := gks\<rparr>;
              s = (if (of_nat (length gks) :: u32) = 1
                   then registry_queue T gatekeeper_launch_topic
                          (enc_gatekeeper_launch T (FirstGatekeeper g (wi_ecdh_pubkey info))) s
                   else registry_queue T gatekeeper_change_topic
                          (enc_gatekeeper_change T (GatekeeperRegistered g (wi_ecdh_pubkey info))) s)
          in genesis_gatekeepers T gks gs s)"

definition registry_genesis_build :: "'b phala_config \<Rightarrow> registry_genesis \<Rightarrow> 'b chain \<Rightarrow> 'b chain option" where
  "registry_genesis_build T g s =
     map_option (genesis_gatekeepers T [] (rg_gatekeepers g))
       (genesis_workers T (rg_benchmark_duration g) (rg_workers g) s)"

section \<open>Mining\<close>

text \<open>The parameters of a new Phala network; \<open>None\<close> is a division by zero, which panics.\<close>

definition default_tokenomic :: "upgrade_env \<Rightarrow> fixed_ops \<Rightarrow> tokenomic_params option" where
  "default_tokenomic E F =
     (let block_sec = 12; hour_sec = 3600; day_sec = 24 * hour_sec; year_sec = 365 * day_sec;
          fp = fp_literal E;
          per = (\<lambda>x secs. fx_div_int E (fx_mul_int E x block_sec) secs);
          pha = fp ''1'';
          slash_r = per (fp ''0.001'') hour_sec;
          budget = per (fp ''720000'') day_sec
      in case (fx_div F (per (fp ''0.0415625'') year_sec) pha, fx_div F (per (fp ''88.59375'') year_sec) pha,
               fx_div F (fp ''0.3'') pha, fx_div F (fp ''0'') pha) of
           (Some ck, Some cb, Some rk, Some rb) \<Rightarrow>
             Some \<lparr>pha_rate = pha, rho = fp ''1.000000666600231'', budget_per_block = budget,
               v_max = fp ''30000'', cost_k = ck, cost_b = cb, slash_rate = slash_r,
               treasury_ratio = fp ''0.2'', heartbeat_window = 10, rig_k = rk, rig_b = rb,
               re = fp ''1.3'', tk_k = fp ''100'', kappa = fp ''1''\<rparr>
         | _ \<Rightarrow> None)"

text \<open>The storage before the first block: the pallets build in the order of the runtime.\<close>

definition genesis_storage :: "'b phala_config \<Rightarrow> bool \<Rightarrow> registry_genesis \<Rightarrow> u32 \<Rightarrow> tokenomic_params \<Rightarrow>
    'b \<Rightarrow> 'b chain option" where
  "genesis_storage T enabled g cool_down tk b =
     map_option (mining_genesis_build T cool_down tk) (registry_genesis_build T g (default_storage enabled b))"

section \<open>What the builds leave\<close>

text \<open>
  The builds write the workers and gatekeepers, the queued messages, the duration of benchmarks and the two
  parameters of the mining pallet, and nothing else.
\<close>

definition genesis_part :: "'b chain \<Rightarrow> _" where
  "genesis_part s = (bank s, now_millis s, chain_block s, OffchainIngress s, OutboundMessages s,
     GatekeeperMasterPubkey s, ContractKeys s, TopicKey s, PRuntimeAllowList s,
     RelaychainGenesisBlockHashAllowList s, ScheduledTokenomicUpdate s, OnlineMiners s, Miners s,
     MinerBindings s, WorkerBindings s, Stakes s, StakePools s, PoolStakers s, PoolCount s,
     WorkerAssignments s, StakeLedger s, WithdrawalQueuedPools s, WithdrawalTimestamps s, MiningEnabled s,
     SubAccountPreimages s, mining_log s, stakepool_log s)"

lemma registry_queue_fields [simp]:
  "genesis_part (registry_queue T t p s) = genesis_part s"
  "Workers (registry_queue T t p s) = Workers s" "Gatekeeper (registry_queue T t p s) = Gatekeeper s"
  by (simp_all add: registry_queue_def queue_message_to_def genesis_part_def)

lemma genesis_part_upd [simp]:
  "genesis_part (s\<lparr>Workers := W\<rparr>) = genesis_part s" "genesis_part (s\<lparr>Gatekeeper := G\<rparr>) = genesis_part s"
  "genesis_part (s\<lparr>BenchmarkDuration := d\<rparr>) = genesis_part s"
  "genesis_part (mining_genesis_build T c tk s) = genesis_part s"
  by (simp_all add: genesis_part_def mining_genesis_build_def queue_message_to_def)

lemma genesis_workers_part:
  "genesis_workers T d ws s = Some t \<Longrightarrow> genesis_part t = genesis_part s \<and> Gatekeeper t = Gatekeeper s"
  by (induction T d ws s rule: genesis_workers.induct) (auto simp: Let_def split: if_splits)

text \<open>Every configured worker is registered, without a score, and its key has the right length.\<close>

lemma genesis_workers_registered:
  "genesis_workers T d ws s = Some t \<Longrightarrow>
     dom (Workers t) = dom (Workers s) \<union> fst ` set ws \<and>
     (\<forall>w info. Workers t w = Some info \<longrightarrow> Workers s w = Some info \<or> initial_score info = None)"
proof (induction ws arbitrary: s)
  case (Cons x ws)
  obtain pubkey ecdh oper where x: "x = (pubkey, ecdh, oper)" by (cases x)
  from Cons.prems obtain u i where "genesis_workers T d ws u = Some t"
    and u: "Workers u = (Workers s)(pubkey \<mapsto> i)" "initial_score i = None"
    by (auto simp: x Let_def split: if_splits)
  note IH = Cons.IH [OF this(1)]
  show ?case
  proof (intro conjI allI impI)
    show "dom (Workers t) = dom (Workers s) \<union> fst ` set (x # ws)" using IH by (auto simp: u(1) x)
  next
    fix w info assume some: "Workers t w = Some info"
    have "Workers u w = Some info \<or> initial_score info = None"
      by (rule IH [THEN conjunct2, rule_format, OF some])
    then show "Workers s w = Some info \<or> initial_score info = None"
      using u by (cases "w = pubkey") auto
  qed
qed simp

lemma genesis_workers_defined:
  "(genesis_workers T d ws s \<noteq> None) = (\<forall>(_, ecdh, _) \<in> set ws. length ecdh = 32)"
  by (induction T d ws s rule: genesis_workers.induct) (auto simp: Let_def)

text \<open>The gatekeepers are the configured ones that are registered, in order.\<close>

lemma genesis_gatekeepers_part:
  "genesis_part (genesis_gatekeepers T gks gs s) = genesis_part s \<and>
   Workers (genesis_gatekeepers T gks gs s) = Workers s"
  by (induction T gks gs s rule: genesis_gatekeepers.induct) (auto simp: Let_def split: option.split)

lemma genesis_gatekeepers_list:
  "Gatekeeper s = gks \<Longrightarrow>
   Gatekeeper (genesis_gatekeepers T gks gs s) = gks @ filter (\<lambda>g. Workers s g \<noteq> None) gs"
proof (induction gs arbitrary: gks s)
  case (Cons g gs)
  then show ?case by (cases "Workers s g") (simp_all add: Let_def Cons.IH)
qed simp

section \<open>The genesis storage is in order\<close>

lemma genesis_storage_parts:
  assumes "genesis_storage T enabled g cool_down tk b = Some s"
  shows "genesis_part s = genesis_part (default_storage enabled b)"
    and "dom (Workers s) = fst ` set (rg_workers g)"
    and "Gatekeeper s = filter (\<lambda>k. k \<in> fst ` set (rg_workers g)) (rg_gatekeepers g)"
    and "Workers s w = Some info \<Longrightarrow> initial_score info = None"
proof -
  let ?d = "default_storage enabled b"
  from assms obtain u where u: "genesis_workers T (rg_benchmark_duration g) (rg_workers g) ?d = Some u"
    and s: "s = mining_genesis_build T cool_down tk (genesis_gatekeepers T [] (rg_gatekeepers g) u)"
    by (auto simp: genesis_storage_def registry_genesis_build_def)
  note part = genesis_workers_part [OF u] and reg = genesis_workers_registered [OF u]
  have W: "Workers s = Workers u" and G: "Gatekeeper s = Gatekeeper (genesis_gatekeepers T [] (rg_gatekeepers g) u)"
    using genesis_gatekeepers_part [of T "[]" "rg_gatekeepers g" u]
    by (simp_all add: s mining_genesis_build_def queue_message_to_def)
  have none: "Gatekeeper u = []" "Workers ?d = Map.empty" using part by (simp_all add: default_storage_def)
  have dom: "dom (Workers u) = fst ` set (rg_workers g)" using reg none(2) by simp
  then have in_dom: "Workers u k \<noteq> None \<longleftrightarrow> k \<in> fst ` set (rg_workers g)" for k by (simp flip: dom add: dom_def)
  show "genesis_part s = genesis_part ?d"
    using part genesis_gatekeepers_part [of T "[]" "rg_gatekeepers g" u] by (simp add: s)
  show "dom (Workers s) = fst ` set (rg_workers g)" by (simp add: W dom)
  show "Gatekeeper s = filter (\<lambda>k. k \<in> fst ` set (rg_workers g)) (rg_gatekeepers g)"
    using genesis_gatekeepers_list [OF none(1), of T "rg_gatekeepers g"] by (simp only: G in_dom append_Nil)
  show "initial_score info = None" if "Workers s w = Some info"
    using reg that none(2) by (auto simp: W)
qed

lemma genesis_storage_defined:
  "(genesis_storage T enabled g cool_down tk b \<noteq> None) = (\<forall>(_, ecdh, _) \<in> set (rg_workers g). length ecdh = 32)"
  using genesis_workers_defined [of T "rg_benchmark_duration g" "rg_workers g" "default_storage enabled b"]
  by (simp add: genesis_storage_def registry_genesis_build_def)

lemma genesis_storage_invs:
  assumes "genesis_storage T enabled g cool_down tk b = Some s"
  shows "mining_inv s" "stake_inv s" "tidy T s" "distinct (rg_gatekeepers g) \<Longrightarrow> registry_inv s"
proof -
  note part = genesis_storage_parts [OF assms]
  show "mining_inv s" using part(1)
    by (simp add: mining_inv_def online_def genesis_part_def default_storage_def)
  show "stake_inv s" using part(1) by (simp add: stake_inv_def genesis_part_def default_storage_def)
  show "tidy T s" using part(1)
    by (simp add: tidy_def assigned_def clock_ok_def genesis_part_def default_storage_def)
  show "registry_inv s" if "distinct (rg_gatekeepers g)"
    unfolding registry_inv_def part(3)
    using that part(1) part(2) part(4) by (auto simp: genesis_part_def default_storage_def)
qed

end
