(* ===== verification/Rust_Text.thy ===== *)
theory Rust_Text
  imports Prelude
begin

text \<open>
  The functions of Rust's standard library on \<open>str\<close> that the node's command line uses: \<open>split\<close>,
  \<open>to_lowercase\<close> (on the ASCII letters), \<open>ends_with\<close> and \<open>parse\<close> to an unsigned integer, which takes one leading plus sign
  and at least one digit and fails on overflow. \<open>show_nat\<close> prints a number.
\<close>

section \<open>Splitting\<close>

fun split_on :: "char \<Rightarrow> string \<Rightarrow> string list" where
  "split_on c [] = [[]]"
| "split_on c (x # xs) =
     (if x = c then [] # split_on c xs
      else case split_on c xs of w # ws \<Rightarrow> (x # w) # ws | [] \<Rightarrow> [[x]])"

fun join_with :: "char \<Rightarrow> string list \<Rightarrow> string" where
  "join_with c [] = []"
| "join_with c [w] = w"
| "join_with c (w # ws) = w @ c # join_with c ws"

lemma split_on_nonempty [simp]: "split_on c xs \<noteq> []"
  by (induction xs) (auto split: list.split)

lemma split_on_free [simp]: "c \<notin> set w \<Longrightarrow> split_on c w = [w]"
  by (induction w) auto

lemma split_on_append [simp]: "c \<notin> set w \<Longrightarrow> split_on c (w @ c # xs) = w # split_on c xs"
  by (induction w) auto

text \<open>Splitting is the inverse of joining words without the separator.\<close>

lemma split_on_join:
  "ws \<noteq> [] \<Longrightarrow> \<forall>w \<in> set ws. c \<notin> set w \<Longrightarrow> split_on c (join_with c ws) = ws"
  by (induction c ws rule: join_with.induct) auto

section \<open>Letters and suffixes\<close>

definition to_lower :: "char \<Rightarrow> char" where
  "to_lower c = (let n = of_char c :: nat in if 65 \<le> n \<and> n \<le> 90 then char_of (n + 32) else c)"

definition ends_with :: "string \<Rightarrow> string \<Rightarrow> bool" where
  "ends_with xs suf \<longleftrightarrow> length suf \<le> length xs \<and> drop (length xs - length suf) xs = suf"

lemma ends_with_last:
  "ends_with xs suf \<Longrightarrow> suf \<noteq> [] \<Longrightarrow> xs \<noteq> [] \<and> last xs = last suf"
  by (auto simp: ends_with_def) (metis last_drop diff_less length_greater_0_conv list.size(3) not_less0 drop_Nil)

section \<open>Numbers\<close>

definition digit_value :: "char \<Rightarrow> nat option" where
  "digit_value c = (let n = of_char c :: nat in if 48 \<le> n \<and> n \<le> 57 then Some (n - 48) else None)"

definition digit :: "nat \<Rightarrow> char" where "digit d = char_of (48 + d)"

lemma digit_value_digit [simp]: "d < 10 \<Longrightarrow> digit_value (digit d) = Some d"
  by (simp add: digit_value_def digit_def)

lemma digit_value_other [simp]: "digit_value CHR ''-'' = None" "digit_value CHR ''+'' = None"
  by (simp_all add: digit_value_def)

fun digits_value :: "nat \<Rightarrow> nat \<Rightarrow> string \<Rightarrow> nat option" where
  "digits_value bound acc [] = Some acc"
| "digits_value bound acc (c # cs) =
     (if bound < acc * 10 then None
      else case digit_value c of None \<Rightarrow> None
      | Some d \<Rightarrow> if bound < acc * 10 + d then None else digits_value bound (acc * 10 + d) cs)"

definition parse_uint :: "nat \<Rightarrow> string \<Rightarrow> nat option" where
  "parse_uint bound xs =
     (case xs of [] \<Rightarrow> None
      | c # cs \<Rightarrow> if c = CHR ''+'' then (if cs = [] then None else digits_value bound 0 cs)
          else digits_value bound 0 xs)"

definition parse_u32 :: "string \<Rightarrow> u32 option" where
  "parse_u32 xs = map_option of_nat (parse_uint (2 ^ 32 - 1) xs)"

definition parse_u128 :: "string \<Rightarrow> u128 option" where
  "parse_u128 xs = map_option of_nat (parse_uint (2 ^ 128 - 1) xs)"

fun show_nat :: "nat \<Rightarrow> string" where
  "show_nat n = (if n < 10 then [digit n] else show_nat (n div 10) @ [digit (n mod 10)])"

declare show_nat.simps [simp del]

lemma digits_value_append:
  "digits_value bound acc (xs @ ys) = Option.bind (digits_value bound acc xs) (\<lambda>a. digits_value bound a ys)"
  by (induction bound acc xs rule: digits_value.induct) (auto split: option.split)

lemma digits_value_show: "n \<le> bound \<Longrightarrow> digits_value bound 0 (show_nat n) = Some n"
proof (induction n rule: show_nat.induct)
  case (1 n)
  show ?case
  proof (cases "n < 10")
    case True
    then show ?thesis using 1(2) by (simp add: show_nat.simps)
  next
    case False
    have "digits_value bound 0 (show_nat (n div 10)) = Some (n div 10)" using 1 False by simp
    moreover have "n div 10 * 10 \<le> bound" using 1(2) by linarith
    moreover have "n div 10 * 10 + n mod 10 = n" by simp
    ultimately show ?thesis using False 1(2)
      by (subst show_nat.simps) (simp add: digits_value_append)
  qed
qed

lemma show_nat_digits: "\<forall>c \<in> set (show_nat n). digit_value c \<noteq> None"
proof (induction n rule: show_nat.induct)
  case (1 n)
  then show ?case by (subst show_nat.simps) auto
qed

lemma show_nat_no_dash [simp]: "CHR ''-'' \<notin> set (show_nat n)"
  using show_nat_digits [of n] by force

lemma show_nat_nonempty [simp]: "show_nat n \<noteq> []"
  by (subst show_nat.simps) simp

lemma parse_show: "n \<le> bound \<Longrightarrow> parse_uint bound (show_nat n) = Some n"
proof -
  assume "n \<le> bound"
  moreover obtain c cs where "show_nat n = c # cs" by (cases "show_nat n") auto
  moreover have "c \<noteq> CHR ''+''" using show_nat_digits [of n] calculation(2) by auto
  ultimately show ?thesis using digits_value_show [of n bound] by (simp add: parse_uint_def)
qed

lemma parse_show_u32 [simp]: "parse_u32 (show_nat (unat n)) = Some n"
proof -
  have "unat n < 2 ^ 32" by (rule order.strict_trans2 [OF unsigned_less]) simp
  then have "unat n \<le> 2 ^ 32 - 1" by simp
  from parse_show [OF this] show ?thesis by (simp add: parse_u32_def)
qed

text \<open>What does not parse: nothing, a sign alone, and anything that is too large.\<close>

lemma digits_value_bounded: "acc \<le> bound \<Longrightarrow> digits_value bound acc xs = Some n \<Longrightarrow> n \<le> bound"
  by (induction bound acc xs rule: digits_value.induct) (auto split: if_splits option.splits)

lemma parse_empty [simp]: "parse_uint bound [] = None"
  by (simp add: parse_uint_def)

lemma parse_bounded: "parse_uint bound xs = Some n \<Longrightarrow> n \<le> bound"
  by (auto simp: parse_uint_def dest!: digits_value_bounded [rotated] simp del: digits_value.simps
    split: list.splits if_splits)

end
