(* ===== verification/Chain_Spec.thy ===== *)
theory Chain_Spec
  imports Phala_Genesis Khala_Config Rust_Text
begin

text \<open>
  The chain specifications the node has built in: \<open>src/node/src/chain_spec/\<close>, one file per runtime. A
  specification is data and a closure that builds the genesis configuration; \<open>spec_genesis\<close> is what the closure
  returns, \<open>None\<close> when it panics. The embedded files \<open>res/*_genesis_info.json\<close> are deserialised by a library
  (\<open>genesis_info_file\<close>, \<open>None\<close> when it fails, which panics); what they hold is written down in \<open>Spec_Claims\<close>.
  Key derivation and the compiled runtime are parameters too.
\<close>

section \<open>The parts of a specification\<close>

datatype native_runtime = PhalaRuntime | KhalaRuntime | RhalaRuntime | ThalaRuntime | ShellRuntime

record extensions =
  relay_chain :: string
  ext_para_id :: u32
  ext_runtime :: string

datatype chain_type = LocalChain | LiveChain

datatype property = TextProperty string | NumberProperty nat

record genesis_info =
  gi_root_key :: account_id
  gi_initial_authorities :: "(account_id \<times> bytes) list"
  gi_endowed_accounts :: "(account_id \<times> string) list"
  gi_technical_committee :: "account_id list"

record genesis_config =
  gc_code :: bytes
  gc_balances :: "(account_id \<times> u128) list"
  gc_sudo :: "account_id option"
  gc_parachain_id :: u32
  gc_invulnerables :: "account_id list"
  gc_candidacy_bond :: u128
  gc_session_keys :: "(account_id \<times> account_id \<times> bytes) list"
  gc_technical_committee :: "account_id list"
  gc_registry :: "registry_genesis option"
  gc_safe_xcm_version :: "nat option"

datatype genesis_built = FullGenesis genesis_config | ShellGenesis bytes u32 account_id

record native_spec =
  spec_name :: string
  spec_id :: string
  spec_type :: chain_type
  protocol_id :: "string option"
  spec_properties :: "(string \<times> property) list option"
  spec_ext :: extensions
  spec_genesis :: "genesis_built option"

record spec_env =
  wasm_binary :: "native_runtime \<Rightarrow> bytes option"
  sr25519_public_from_string :: "string \<Rightarrow> bytes option"
  into_account :: "bytes \<Rightarrow> account_id"
  genesis_info_file :: "string \<Rightarrow> genesis_info option"
  shell_root_key_file :: "string \<Rightarrow> account_id option"

text \<open>A key pair derived from a seed; \<open>None\<close> is the \<open>expect\<close> on a bad seed.\<close>

definition get_pair_from_seed :: "spec_env \<Rightarrow> string \<Rightarrow> bytes option" where
  "get_pair_from_seed K seed = sr25519_public_from_string K (''//'' @ seed)"

definition get_collator_keys_from_seed :: "spec_env \<Rightarrow> string \<Rightarrow> bytes option" where
  "get_collator_keys_from_seed K seed = get_pair_from_seed K seed"

definition get_account_id_from_seed :: "spec_env \<Rightarrow> string \<Rightarrow> account_id option" where
  "get_account_id_from_seed K seed = map_option (into_account K) (get_pair_from_seed K seed)"

definition all_some :: "'a option list \<Rightarrow> 'a list option" where
  "all_some xs = (if None \<in> set xs then None else Some (map the xs))"

definition check_accounts_endowed :: "account_id list \<Rightarrow> (account_id \<times> u128) list \<Rightarrow> bool" where
  "check_accounts_endowed accounts endowed_accounts =
     list_all (\<lambda>account. list_ex (\<lambda>(endowed, _). account = endowed) endowed_accounts) accounts"

definition chain_properties :: "(string \<times> property) list option" where
  "chain_properties = Some [(''tokenSymbol'', TextProperty ''PHA''), (''tokenDecimals'', NumberProperty 12),
     (''ss58Format'', NumberProperty 30)]"

text \<open>The accounts of a development chain.\<close>

definition dev_seeds :: "string list" where
  "dev_seeds = [''Alice'', ''Bob'', ''Charlie'', ''Dave'', ''Eve'', ''Ferdie'', ''Alice//stash'', ''Bob//stash'',
     ''Charlie//stash'', ''Dave//stash'', ''Eve//stash'', ''Ferdie//stash'']"

definition dev_authority :: "spec_env \<Rightarrow> string \<Rightarrow> (account_id \<times> bytes) option" where
  "dev_authority K seed =
     (case (get_account_id_from_seed K seed, get_collator_keys_from_seed K seed) of
        (Some a, Some k) \<Rightarrow> Some (a, k) | _ \<Rightarrow> None)"

text \<open>The endowment of a test network, and the half of the accounts that sits in the committee.\<close>

definition testnet_endowment :: "account_id list \<Rightarrow> (account_id \<times> u128) list" where
  "testnet_endowment accounts = map (\<lambda>acc. (acc, push_bit 60 1)) accounts"

definition testnet_committee :: "account_id list \<Rightarrow> account_id list" where
  "testnet_committee accounts = take ((length accounts + 1) div 2) accounts"

definition parse_amounts :: "(account_id \<times> string) list \<Rightarrow> (account_id \<times> u128) list option" where
  "parse_amounts xs = all_some (map (\<lambda>(k, amount). map_option (\<lambda>a. (k, a)) (parse_u128 amount)) xs)"

definition dev_pubkey :: bytes where
  "dev_pubkey = [0x3a, 0x3d, 0x45, 0xdc, 0x55, 0xb5, 0x7b, 0xf5, 0x42, 0xf4, 0xc6, 0xff, 0x41, 0xaf, 0x08, 0x0e,
     0xc6, 0x75, 0x31, 0x7f, 0x4e, 0xd5, 0x0a, 0xe1, 0xd2, 0x71, 0x3b, 0xf9, 0xf8, 0x92, 0x69, 0x2d]"

definition development_registry_config :: "account_id \<Rightarrow> registry_genesis" where
  "development_registry_config oper = \<lparr>rg_workers = [(dev_pubkey, dev_pubkey, Some oper)],
     rg_gatekeepers = [dev_pubkey], rg_benchmark_duration = 1\<rparr>"

text \<open>The registry of the networks that start without workers.\<close>

definition plain_registry_config :: registry_genesis where
  "plain_registry_config = \<lparr>rg_workers = [], rg_gatekeepers = [], rg_benchmark_duration = 50\<rparr>"

section \<open>Khala\<close>

definition khala_genesis :: "spec_env \<Rightarrow> account_id \<Rightarrow> (account_id \<times> bytes) list \<Rightarrow> account_id list \<Rightarrow>
    (account_id \<times> u128) list \<Rightarrow> u32 \<Rightarrow> registry_genesis option \<Rightarrow> genesis_built option" where
  "khala_genesis K root_key initial_authorities technical_committee endowed_accounts pid registry_override =
     (let all_accounts = map fst initial_authorities @ technical_committee @ [root_key] in
      if \<not> check_accounts_endowed all_accounts endowed_accounts then None
      else case wasm_binary K KhalaRuntime of None \<Rightarrow> None
      | Some code \<Rightarrow> Some (FullGenesis \<lparr>
          gc_code = code,
          gc_balances = endowed_accounts,
          gc_sudo = None,
          gc_parachain_id = pid,
          gc_invulnerables = map fst initial_authorities,
          gc_candidacy_bond = UNIT * 16,
          gc_session_keys = map (\<lambda>(acc, aura). (acc, acc, aura)) initial_authorities,
          gc_technical_committee = technical_committee,
          gc_registry = Some (case registry_override of Some r \<Rightarrow> r | None \<Rightarrow> plain_registry_config),
          gc_safe_xcm_version = Some 2\<rparr>))"

definition khala_testnet_genesis :: "spec_env \<Rightarrow> account_id \<Rightarrow> (account_id \<times> bytes) list \<Rightarrow> account_id list \<Rightarrow>
    u32 \<Rightarrow> registry_genesis option \<Rightarrow> genesis_built option" where
  "khala_testnet_genesis K root_key initial_authorities endowed_accounts pid registry_override =
     khala_genesis K root_key initial_authorities (testnet_committee endowed_accounts)
       (testnet_endowment endowed_accounts) pid registry_override"

definition khala_development_config :: "spec_env \<Rightarrow> u32 \<Rightarrow> native_spec" where
  "khala_development_config K pid = \<lparr>
     spec_name = ''Khala Local Testnet'', spec_id = ''khala_local_testnet'', spec_type = LocalChain,
     protocol_id = Some ''khala'', spec_properties = chain_properties,
     spec_ext = \<lparr>relay_chain = ''kusama-dev'', ext_para_id = pid, ext_runtime = ''khala''\<rparr>,
     spec_genesis =
       (case (get_account_id_from_seed K ''Alice'', all_some (map (dev_authority K) [''Alice'', ''Bob'']),
              all_some (map (get_account_id_from_seed K) dev_seeds)) of
          (Some root, Some authorities, Some accounts) \<Rightarrow>
            khala_testnet_genesis K root authorities accounts pid (Some (development_registry_config root))
        | _ \<Rightarrow> None)\<rparr>"

definition khala_local_testnet_config :: "spec_env \<Rightarrow> u32 \<Rightarrow> string \<Rightarrow> string \<Rightarrow> native_spec option" where
  "khala_local_testnet_config K pid file relay = map_option
     (\<lambda>info. \<lparr>
       spec_name = ''Khala Testnet'', spec_id = ''khala_testnet'', spec_type = LiveChain,
       protocol_id = Some ''khala'', spec_properties = chain_properties,
       spec_ext = \<lparr>relay_chain = relay, ext_para_id = pid, ext_runtime = ''khala''\<rparr>,
       spec_genesis = khala_testnet_genesis K (gi_root_key info) (gi_initial_authorities info)
         (map fst (gi_endowed_accounts info)) pid None\<rparr>)
     (genesis_info_file K file)"

definition khala_local_config :: "spec_env \<Rightarrow> u32 \<Rightarrow> native_spec option" where
  "khala_local_config K pid =
     khala_local_testnet_config K pid ''khala_local_genesis_info.json'' ''kusama-local''"

definition khala_staging_config :: "spec_env \<Rightarrow> native_spec option" where
  "khala_staging_config K = map_option
     (\<lambda>info. \<lparr>
       spec_name = ''Khala'', spec_id = ''khala'', spec_type = LiveChain,
       protocol_id = Some ''khala'', spec_properties = chain_properties,
       spec_ext = \<lparr>relay_chain = ''kusama'', ext_para_id = 2004, ext_runtime = ''khala''\<rparr>,
       spec_genesis = (case parse_amounts (gi_endowed_accounts info) of None \<Rightarrow> None
         | Some endowed \<Rightarrow> khala_genesis K (gi_root_key info) (gi_initial_authorities info)
             (gi_technical_committee info) endowed 2004 None)\<rparr>)
     (genesis_info_file K ''khala_genesis_info.json'')"

section \<open>Phala\<close>

definition phala_genesis :: "spec_env \<Rightarrow> account_id \<Rightarrow> (account_id \<times> bytes) list \<Rightarrow> account_id list \<Rightarrow>
    (account_id \<times> u128) list \<Rightarrow> u32 \<Rightarrow> genesis_built option" where
  "phala_genesis K root_key initial_authorities technical_committee endowed_accounts pid =
     (let all_accounts = map fst initial_authorities @ technical_committee @ [root_key] in
      if \<not> check_accounts_endowed all_accounts endowed_accounts then None
      else case wasm_binary K PhalaRuntime of None \<Rightarrow> None
      | Some code \<Rightarrow> Some (FullGenesis \<lparr>
          gc_code = code,
          gc_balances = endowed_accounts,
          gc_sudo = Some root_key,
          gc_parachain_id = pid,
          gc_invulnerables = map fst initial_authorities,
          gc_candidacy_bond = UNIT * 16,
          gc_session_keys = map (\<lambda>(acc, aura). (acc, acc, aura)) initial_authorities,
          gc_technical_committee = technical_committee,
          gc_registry = None,
          gc_safe_xcm_version = None\<rparr>))"

definition phala_testnet_genesis :: "spec_env \<Rightarrow> account_id \<Rightarrow> (account_id \<times> bytes) list \<Rightarrow> account_id list \<Rightarrow>
    u32 \<Rightarrow> genesis_built option" where
  "phala_testnet_genesis K root_key initial_authorities endowed_accounts pid =
     phala_genesis K root_key initial_authorities (testnet_committee endowed_accounts)
       (testnet_endowment endowed_accounts) pid"

definition phala_development_config :: "spec_env \<Rightarrow> u32 \<Rightarrow> native_spec" where
  "phala_development_config K pid = \<lparr>
     spec_name = ''Phala Local Testnet'', spec_id = ''phala_local_testnet'', spec_type = LocalChain,
     protocol_id = Some ''phala'', spec_properties = chain_properties,
     spec_ext = \<lparr>relay_chain = ''polkadot-dev'', ext_para_id = pid, ext_runtime = ''phala''\<rparr>,
     spec_genesis =
       (case (get_account_id_from_seed K ''Alice'', all_some (map (dev_authority K) [''Alice'', ''Bob'']),
              all_some (map (get_account_id_from_seed K) dev_seeds)) of
          (Some root, Some authorities, Some accounts) \<Rightarrow>
            phala_testnet_genesis K root authorities accounts pid
        | _ \<Rightarrow> None)\<rparr>"

definition phala_local_testnet_config :: "spec_env \<Rightarrow> u32 \<Rightarrow> string \<Rightarrow> string \<Rightarrow> native_spec option" where
  "phala_local_testnet_config K pid file relay = map_option
     (\<lambda>info. \<lparr>
       spec_name = ''Phala Testnet'', spec_id = ''phala_testnet'', spec_type = LiveChain,
       protocol_id = Some ''phala'', spec_properties = chain_properties,
       spec_ext = \<lparr>relay_chain = relay, ext_para_id = pid, ext_runtime = ''phala''\<rparr>,
       spec_genesis = phala_testnet_genesis K (gi_root_key info) (gi_initial_authorities info)
         (map fst (gi_endowed_accounts info)) pid\<rparr>)
     (genesis_info_file K file)"

definition phala_local_config :: "spec_env \<Rightarrow> u32 \<Rightarrow> native_spec option" where
  "phala_local_config K pid =
     phala_local_testnet_config K pid ''phala_local_genesis_info.json'' ''polkadot-local''"

definition phala_staging_config :: "spec_env \<Rightarrow> native_spec option" where
  "phala_staging_config K = map_option
     (\<lambda>info. \<lparr>
       spec_name = ''Phala'', spec_id = ''phala'', spec_type = LiveChain,
       protocol_id = Some ''phala'', spec_properties = chain_properties,
       spec_ext = \<lparr>relay_chain = ''polkadot'', ext_para_id = 2035, ext_runtime = ''phala''\<rparr>,
       spec_genesis = (case parse_amounts (gi_endowed_accounts info) of None \<Rightarrow> None
         | Some endowed \<Rightarrow> phala_genesis K (gi_root_key info) (gi_initial_authorities info)
             (gi_technical_committee info) endowed 2035)\<rparr>)
     (genesis_info_file K ''phala_genesis_info.json'')"

section \<open>Rhala\<close>

definition rhala_genesis :: "spec_env \<Rightarrow> account_id \<Rightarrow> (account_id \<times> bytes) list \<Rightarrow> account_id list \<Rightarrow>
    (account_id \<times> u128) list \<Rightarrow> u32 \<Rightarrow> registry_genesis option \<Rightarrow> genesis_built option" where
  "rhala_genesis K root_key initial_authorities technical_committee endowed_accounts pid registry_override =
     (let all_accounts = map fst initial_authorities @ technical_committee @ [root_key] in
      if \<not> check_accounts_endowed all_accounts endowed_accounts then None
      else case wasm_binary K RhalaRuntime of None \<Rightarrow> None
      | Some code \<Rightarrow> Some (FullGenesis \<lparr>
          gc_code = code,
          gc_balances = endowed_accounts,
          gc_sudo = Some root_key,
          gc_parachain_id = pid,
          gc_invulnerables = map fst initial_authorities,
          gc_candidacy_bond = UNIT * 16,
          gc_session_keys = map (\<lambda>(acc, aura). (acc, acc, aura)) initial_authorities,
          gc_technical_committee = technical_committee,
          gc_registry = Some (case registry_override of Some r \<Rightarrow> r | None \<Rightarrow> plain_registry_config),
          gc_safe_xcm_version = Some 2\<rparr>))"

definition rhala_testnet_genesis :: "spec_env \<Rightarrow> account_id \<Rightarrow> (account_id \<times> bytes) list \<Rightarrow> account_id list \<Rightarrow>
    u32 \<Rightarrow> registry_genesis option \<Rightarrow> genesis_built option" where
  "rhala_testnet_genesis K root_key initial_authorities endowed_accounts pid registry_override =
     rhala_genesis K root_key initial_authorities (testnet_committee endowed_accounts)
       (testnet_endowment endowed_accounts) pid registry_override"

definition rhala_development_config :: "spec_env \<Rightarrow> u32 \<Rightarrow> native_spec" where
  "rhala_development_config K pid = \<lparr>
     spec_name = ''Khala Local Testnet'', spec_id = ''khala_local_testnet'', spec_type = LocalChain,
     protocol_id = Some ''khala'', spec_properties = chain_properties,
     spec_ext = \<lparr>relay_chain = ''rococo-dev'', ext_para_id = pid, ext_runtime = ''rhala''\<rparr>,
     spec_genesis =
       (case (get_account_id_from_seed K ''Alice'', all_some (map (dev_authority K) [''Alice'', ''Bob'']),
              all_some (map (get_account_id_from_seed K) dev_seeds)) of
          (Some root, Some authorities, Some accounts) \<Rightarrow>
            rhala_testnet_genesis K root authorities accounts pid (Some (development_registry_config root))
        | _ \<Rightarrow> None)\<rparr>"

definition rhala_local_testnet_config :: "spec_env \<Rightarrow> u32 \<Rightarrow> string \<Rightarrow> string \<Rightarrow> native_spec option" where
  "rhala_local_testnet_config K pid file relay = map_option
     (\<lambda>info. \<lparr>
       spec_name = ''Khala Testnet'', spec_id = ''khala_testnet'', spec_type = LiveChain,
       protocol_id = Some ''khala'', spec_properties = chain_properties,
       spec_ext = \<lparr>relay_chain = relay, ext_para_id = pid, ext_runtime = ''rhala''\<rparr>,
       spec_genesis = rhala_testnet_genesis K (gi_root_key info) (gi_initial_authorities info)
         (map fst (gi_endowed_accounts info)) pid None\<rparr>)
     (genesis_info_file K file)"

definition rhala_local_config :: "spec_env \<Rightarrow> u32 \<Rightarrow> native_spec option" where
  "rhala_local_config K pid =
     rhala_local_testnet_config K pid ''rhala_local_genesis_info.json'' ''rococo-local''"

definition rhala_staging_config :: "spec_env \<Rightarrow> native_spec option" where
  "rhala_staging_config K = map_option
     (\<lambda>info. \<lparr>
       spec_name = ''Khala'', spec_id = ''khala'', spec_type = LiveChain,
       protocol_id = Some ''khala'', spec_properties = chain_properties,
       spec_ext = \<lparr>relay_chain = ''rococo'', ext_para_id = 2004, ext_runtime = ''rhala''\<rparr>,
       spec_genesis = (case parse_amounts (gi_endowed_accounts info) of None \<Rightarrow> None
         | Some endowed \<Rightarrow> rhala_genesis K (gi_root_key info) (gi_initial_authorities info)
             (gi_technical_committee info) endowed 2004 None)\<rparr>)
     (genesis_info_file K ''rhala_genesis_info.json'')"

section \<open>Thala\<close>

definition thala_genesis :: "spec_env \<Rightarrow> account_id \<Rightarrow> (account_id \<times> bytes) list \<Rightarrow> account_id list \<Rightarrow>
    (account_id \<times> u128) list \<Rightarrow> u32 \<Rightarrow> registry_genesis option \<Rightarrow> genesis_built option" where
  "thala_genesis K root_key initial_authorities technical_committee endowed_accounts pid registry_override =
     (let all_accounts = map fst initial_authorities @ technical_committee @ [root_key] in
      if \<not> check_accounts_endowed all_accounts endowed_accounts then None
      else case wasm_binary K ThalaRuntime of None \<Rightarrow> None
      | Some code \<Rightarrow> Some (FullGenesis \<lparr>
          gc_code = code,
          gc_balances = endowed_accounts,
          gc_sudo = Some root_key,
          gc_parachain_id = pid,
          gc_invulnerables = map fst initial_authorities,
          gc_candidacy_bond = UNIT * 16,
          gc_session_keys = map (\<lambda>(acc, aura). (acc, acc, aura)) initial_authorities,
          gc_technical_committee = technical_committee,
          gc_registry = Some (case registry_override of Some r \<Rightarrow> r | None \<Rightarrow> plain_registry_config),
          gc_safe_xcm_version = Some 2\<rparr>))"

definition thala_testnet_genesis :: "spec_env \<Rightarrow> account_id \<Rightarrow> (account_id \<times> bytes) list \<Rightarrow> account_id list \<Rightarrow>
    u32 \<Rightarrow> registry_genesis option \<Rightarrow> genesis_built option" where
  "thala_testnet_genesis K root_key initial_authorities endowed_accounts pid registry_override =
     thala_genesis K root_key initial_authorities (testnet_committee endowed_accounts)
       (testnet_endowment endowed_accounts) pid registry_override"

definition thala_development_config :: "spec_env \<Rightarrow> u32 \<Rightarrow> native_spec" where
  "thala_development_config K pid = \<lparr>
     spec_name = ''Khala Local Testnet'', spec_id = ''khala_local_testnet'', spec_type = LocalChain,
     protocol_id = Some ''khala'', spec_properties = chain_properties,
     spec_ext = \<lparr>relay_chain = ''kusama-dev'', ext_para_id = pid, ext_runtime = ''thala''\<rparr>,
     spec_genesis =
       (case (get_account_id_from_seed K ''Alice'', all_some (map (dev_authority K) [''Alice'', ''Bob'']),
              all_some (map (get_account_id_from_seed K) dev_seeds)) of
          (Some root, Some authorities, Some accounts) \<Rightarrow>
            thala_testnet_genesis K root authorities accounts pid (Some (development_registry_config root))
        | _ \<Rightarrow> None)\<rparr>"

definition thala_local_testnet_config :: "spec_env \<Rightarrow> u32 \<Rightarrow> string \<Rightarrow> string \<Rightarrow> native_spec option" where
  "thala_local_testnet_config K pid file relay = map_option
     (\<lambda>info. \<lparr>
       spec_name = ''Khala Testnet'', spec_id = ''khala_testnet'', spec_type = LiveChain,
       protocol_id = Some ''khala'', spec_properties = chain_properties,
       spec_ext = \<lparr>relay_chain = relay, ext_para_id = pid, ext_runtime = ''thala''\<rparr>,
       spec_genesis = thala_testnet_genesis K (gi_root_key info) (gi_initial_authorities info)
         (map fst (gi_endowed_accounts info)) pid None\<rparr>)
     (genesis_info_file K file)"

definition thala_local_config :: "spec_env \<Rightarrow> u32 \<Rightarrow> native_spec option" where
  "thala_local_config K pid =
     thala_local_testnet_config K pid ''khala_local_genesis_info.json'' ''kusama-local''"

section \<open>Shell\<close>

definition shell_genesis :: "spec_env \<Rightarrow> u32 \<Rightarrow> account_id \<Rightarrow> genesis_built option" where
  "shell_genesis K pid root_key =
     map_option (\<lambda>code. ShellGenesis code pid root_key) (wasm_binary K ShellRuntime)"

definition shell_development_config :: "spec_env \<Rightarrow> u32 \<Rightarrow> native_spec" where
  "shell_development_config K pid = \<lparr>
     spec_name = ''Shell Development Testnet'', spec_id = ''shell_dev_testnet'', spec_type = LocalChain,
     protocol_id = None, spec_properties = None,
     spec_ext = \<lparr>relay_chain = ''westend'', ext_para_id = pid, ext_runtime = ''shell''\<rparr>,
     spec_genesis = (case get_account_id_from_seed K ''Alice'' of None \<Rightarrow> None
       | Some root \<Rightarrow> shell_genesis K pid root)\<rparr>"

definition shell_staging_config :: "spec_env \<Rightarrow> native_spec option" where
  "shell_staging_config K = map_option
     (\<lambda>root. \<lparr>
       spec_name = ''Shell'', spec_id = ''shell'', spec_type = LiveChain,
       protocol_id = None, spec_properties = None,
       spec_ext = \<lparr>relay_chain = ''kusama'', ext_para_id = 2111, ext_runtime = ''shell''\<rparr>,
       spec_genesis = shell_genesis K 2111 root\<rparr>)
     (shell_root_key_file K ''shell_genesis_info.json'')"

end
