(* ===== verification/Load_Spec.thy ===== *)
theory Load_Spec
  imports Chain_Spec
begin

text \<open>
  The command line of the node, \<open>src/node/src/command.rs\<close>: which chain specification an identifier names
  (\<open>load_spec\<close>) and which runtime's service a specification starts. The compiled runtimes are the features the node
  is built with, \<open>native\<close>; files, the embedded specifications and their parsing belong to the libraries.

  The exit of an operation is an \<open>outcome\<close> without storage: a panic ends the process.
\<close>

section \<open>Specifications\<close>

datatype 'j chain_spec = Native native_spec | Parsed 'j

record 'j node_env =
  native :: "native_runtime \<Rightarrow> bool"
  specs :: spec_env
  path_exists :: "string \<Rightarrow> bool"
  spec_from_file :: "native_runtime \<Rightarrow> string \<Rightarrow> string + 'j"
  spec_embedded :: "native_runtime \<Rightarrow> string + 'j"
  parsed_extensions :: "'j \<Rightarrow> extensions option"
  parsed_storage_code :: "'j \<Rightarrow> string + bytes option"

type_synonym 'a cli = "(string, 'a, unit) outcome"

definition of_sum :: "string + 'a \<Rightarrow> 'a cli" where
  "of_sum r = (case r of Inl e \<Rightarrow> Err e () | Inr x \<Rightarrow> Ok x ())"

definition expected :: "'a option \<Rightarrow> 'a cli" where
  "expected r = (case r of None \<Rightarrow> Panic | Some x \<Rightarrow> Ok x ())"

definition chain_extensions :: "'j node_env \<Rightarrow> 'j chain_spec \<Rightarrow> extensions option" where
  "chain_extensions E spec = (case spec of Native n \<Rightarrow> Some (spec_ext n) | Parsed j \<Rightarrow> parsed_extensions E j)"

definition runtime_name :: "'j node_env \<Rightarrow> 'j chain_spec \<Rightarrow> string cli" where
  "runtime_name E spec = expected (map_option ext_runtime (chain_extensions E spec))"

definition runtime_text :: "native_runtime \<Rightarrow> string" where
  "runtime_text rt = (case rt of PhalaRuntime \<Rightarrow> ''phala'' | KhalaRuntime \<Rightarrow> ''khala''
     | RhalaRuntime \<Rightarrow> ''rhala'' | ThalaRuntime \<Rightarrow> ''thala'' | ShellRuntime \<Rightarrow> ''shell'')"

definition is_runtime :: "'j node_env \<Rightarrow> native_runtime \<Rightarrow> 'j chain_spec \<Rightarrow> bool cli" where
  "is_runtime E rt spec = andthen (runtime_name E spec) (\<lambda>name _. Ok (name = runtime_text rt) ())"

section \<open>Loading\<close>

text \<open>A file is first read as a Khala specification, the default one, to learn its runtime.\<close>

definition load_file :: "'j node_env \<Rightarrow> string \<Rightarrow> 'j chain_spec cli" where
  "load_file E chain =
     andthen (of_sum (spec_from_file E KhalaRuntime chain)) (\<lambda>default _.
     andthen (runtime_name E (Parsed default)) (\<lambda>name _.
       let parse = (\<lambda>rt. andthen (of_sum (spec_from_file E rt chain)) (\<lambda>j _. Ok (Parsed j) ())) in
       if name = ''phala'' \<and> native E PhalaRuntime then parse PhalaRuntime
       else if name = ''khala'' \<and> native E KhalaRuntime then parse KhalaRuntime
       else if name = ''rhala'' \<and> native E RhalaRuntime then parse RhalaRuntime
       else if name = ''thala'' \<and> native E ThalaRuntime then parse ThalaRuntime
       else if name = ''shell'' \<and> native E ShellRuntime then parse ShellRuntime
       else Err ''`chain` must starts with a known runtime name!'' ()))"

definition embedded :: "'j node_env \<Rightarrow> native_runtime \<Rightarrow> 'j chain_spec cli" where
  "embedded E rt = andthen (of_sum (spec_embedded E rt)) (\<lambda>j _. Ok (Parsed j) ())"

definition built_in :: "native_spec option \<Rightarrow> 'j chain_spec cli" where
  "built_in r = andthen (expected r) (\<lambda>n _. Ok (Native n) ())"

text \<open>One branch of \<open>load_spec\<close> per runtime. \<open>profile\<close> and \<open>para\<close> are still results there: \<open>?\<close> is applied on use.\<close>

definition load_phala :: "'j node_env \<Rightarrow> string + string \<Rightarrow> string + u32 \<Rightarrow> 'j chain_spec cli" where
  "load_phala E profile para =
     (let K = specs E in
      case (profile, para) of (Inl _, Inl _) \<Rightarrow> embedded E PhalaRuntime | _ \<Rightarrow>
      andthen (of_sum profile) (\<lambda>prof _.
        if prof = ''dev'' then andthen (of_sum para) (\<lambda>pid _. Ok (Native (phala_development_config K pid)) ())
        else if prof = ''local'' then andthen (of_sum para) (\<lambda>pid _. built_in (phala_local_config K pid))
        else if prof = ''staging'' then built_in (phala_staging_config K)
        else Err (''Unknown profile '' @ prof @ '' for Phala'') ()))"

definition load_khala :: "'j node_env \<Rightarrow> string + string \<Rightarrow> string + u32 \<Rightarrow> 'j chain_spec cli" where
  "load_khala E profile para =
     (let K = specs E in
      case (profile, para) of (Inl _, Inl _) \<Rightarrow> embedded E KhalaRuntime | _ \<Rightarrow>
      andthen (of_sum profile) (\<lambda>prof _.
        if prof = ''dev'' then andthen (of_sum para) (\<lambda>pid _. Ok (Native (khala_development_config K pid)) ())
        else if prof = ''local'' then andthen (of_sum para) (\<lambda>pid _. built_in (khala_local_config K pid))
        else if prof = ''staging'' then built_in (khala_staging_config K)
        else Err (''Unknown profile '' @ prof @ '' for Khala'') ()))"

definition load_rhala :: "'j node_env \<Rightarrow> string + string \<Rightarrow> string + u32 \<Rightarrow> 'j chain_spec cli" where
  "load_rhala E profile para =
     (let K = specs E in
      andthen (of_sum profile) (\<lambda>prof _.
        if prof = ''dev'' then andthen (of_sum para) (\<lambda>pid _. Ok (Native (rhala_development_config K pid)) ())
        else if prof = ''local'' then andthen (of_sum para) (\<lambda>pid _. built_in (rhala_local_config K pid))
        else if prof = ''staging'' then built_in (rhala_staging_config K)
        else Err (''Unknown profile '' @ prof @ '' for Rhala'') ()))"

definition load_thala :: "'j node_env \<Rightarrow> string + string \<Rightarrow> string + u32 \<Rightarrow> 'j chain_spec cli" where
  "load_thala E profile para =
     (let K = specs E in
      andthen (of_sum profile) (\<lambda>prof _.
        if prof = ''dev'' then andthen (of_sum para) (\<lambda>pid _. Ok (Native (thala_development_config K pid)) ())
        else if prof = ''local'' then andthen (of_sum para) (\<lambda>pid _. built_in (thala_local_config K pid))
        else Err (''Unknown profile '' @ prof @ '' for Thala'') ()))"

definition load_shell :: "'j node_env \<Rightarrow> string + string \<Rightarrow> string + u32 \<Rightarrow> 'j chain_spec cli" where
  "load_shell E profile para =
     (let K = specs E in
      case (profile, para) of (Inl _, Inl _) \<Rightarrow> embedded E ShellRuntime | _ \<Rightarrow>
      andthen (of_sum profile) (\<lambda>prof _.
        if prof = ''dev'' then andthen (of_sum para) (\<lambda>pid _. Ok (Native (shell_development_config K pid)) ())
        else if prof = ''staging'' then built_in (shell_staging_config K)
        else Err (''Unknown profile '' @ prof @ '' for Shell'') ()))"

definition profile_of :: "string list \<Rightarrow> string + string" where
  "profile_of parts = (case parts of _ # p # _ \<Rightarrow> Inr p | _ \<Rightarrow> Inl ''Profile skipped'')"

text \<open>A third component that is no number is an error at once, a missing one only when it is needed.\<close>

definition para_id_of :: "string list \<Rightarrow> (string + u32) cli" where
  "para_id_of parts =
     (case parts of _ # _ # p # _ \<Rightarrow>
        (case parse_u32 p of None \<Rightarrow> Err ''No parachain id'' () | Some n \<Rightarrow> Ok (Inr n) ())
      | _ \<Rightarrow> Ok (Inl ''Must specify parachain id'') ())"

definition without_feature :: "string \<Rightarrow> string \<Rightarrow> 'a cli" where
  "without_feature chain feature = Err (''`'' @ chain @ ''` only supported with `'' @ feature @ ''` feature enabled.'') ()"

definition load_native :: "'j node_env \<Rightarrow> string \<Rightarrow> 'j chain_spec cli" where
  "load_native E chain =
     (let parts = split_on CHR ''-'' chain in
      if 3 < length parts
      then Err ''ParaId pattern must be runtime_name-profile-para_id or runtime_name-para_id'' ()
      else let name = hd parts; profile = profile_of parts in
        andthen (para_id_of parts) (\<lambda>para _.
          if name = ''phala'' then
            (if native E PhalaRuntime then load_phala E profile para else without_feature chain ''phala-native'')
          else if name = ''khala'' then
            (if native E KhalaRuntime then load_khala E profile para else without_feature chain ''khala-native'')
          else if name = ''rhala'' then
            (if native E RhalaRuntime then load_rhala E profile para else without_feature chain ''rhala-native'')
          else if name = ''thala'' then
            (if native E ThalaRuntime then load_thala E profile para else without_feature chain ''thala-native'')
          else if name = ''shell'' then
            (if native E ShellRuntime then load_shell E profile para else without_feature chain ''shell-native'')
          else Err ''Invalid `--chain` arg. give exported chain-spec or follow pattern: runtime-profile-para_id'' ()))"

definition load_spec :: "'j node_env \<Rightarrow> string \<Rightarrow> 'j chain_spec cli" where
  "load_spec E chain =
     (if ends_with (map to_lower chain) ''.json'' \<and> path_exists E chain then load_file E chain else load_native E chain)"

section \<open>Starting\<close>

text \<open>
  The five tests of \<open>construct_async_run\<close>, of the benchmarks and of \<open>run\<close>; a runtime that is not compiled in has
  no test. Tried in the order of the source.
\<close>

fun select_runtime :: "'j node_env \<Rightarrow> native_runtime list \<Rightarrow> 'j chain_spec \<Rightarrow> native_runtime option cli" where
  "select_runtime E [] spec = Ok None ()"
| "select_runtime E (rt # rts) spec =
     (if native E rt then andthen (is_runtime E rt spec)
        (\<lambda>hit _. if hit then Ok (Some rt) () else select_runtime E rts spec)
      else select_runtime E rts spec)"

definition all_runtimes :: "native_runtime list" where
  "all_runtimes = [PhalaRuntime, KhalaRuntime, RhalaRuntime, ThalaRuntime, ShellRuntime]"

definition async_run_service :: "'j node_env \<Rightarrow> 'j chain_spec \<Rightarrow> native_runtime cli" where
  "async_run_service E spec =
     andthen (select_runtime E all_runtimes spec) (\<lambda>r _. case r of Some rt \<Rightarrow> Ok rt () | None \<Rightarrow> Panic)"

text \<open>The benchmark command has no branch for the shell runtime.\<close>

definition benchmark_service :: "bool \<Rightarrow> 'j node_env \<Rightarrow> 'j chain_spec \<Rightarrow> native_runtime cli" where
  "benchmark_service enabled E spec =
     (if enabled then
        andthen (select_runtime E [PhalaRuntime, KhalaRuntime, RhalaRuntime, ThalaRuntime] spec)
          (\<lambda>r _. case r of Some rt \<Rightarrow> Ok rt () | None \<Rightarrow> Err ''Chain doesn't support benchmarking'' ())
      else Err ''Benchmarking wasn't enabled when building the node. You can enable it with `--features runtime-benchmarks`.'' ())"

definition try_runtime_service :: "bool \<Rightarrow> 'j node_env \<Rightarrow> 'j chain_spec \<Rightarrow> native_runtime cli" where
  "try_runtime_service enabled E spec =
     (if enabled then
        andthen (select_runtime E all_runtimes spec)
          (\<lambda>r _. case r of Some rt \<Rightarrow> Ok rt () | None \<Rightarrow> Err ''Can't determine runtime from chain_spec'' ())
      else Err ''Try-runtime must be enabled by `--features try-runtime`.'' ())"

text \<open>
  Building the genesis storage calls the closure of a built-in specification; of one that was read from a file only
  the runtime in its storage matters. \<open>export_genesis_state\<close> is the command of that name up to the encoding of the
  block, \<open>export_genesis_wasm\<close> up to the encoding of the output.
\<close>

datatype built_storage = FromConfig genesis_built | FromFile "bytes option"

definition build_storage :: "'j node_env \<Rightarrow> 'j chain_spec \<Rightarrow> built_storage cli" where
  "build_storage E spec =
     (case spec of
        Native n \<Rightarrow> andthen (expected (spec_genesis n)) (\<lambda>g _. Ok (FromConfig g) ())
      | Parsed j \<Rightarrow> andthen (of_sum (parsed_storage_code E j)) (\<lambda>c _. Ok (FromFile c) ()))"

definition export_genesis_state :: "'j node_env \<Rightarrow> string option \<Rightarrow> built_storage cli" where
  "export_genesis_state E chain =
     andthen (load_spec E (case chain of Some c \<Rightarrow> c | None \<Rightarrow> [])) (\<lambda>spec _. build_storage E spec)"

definition extract_genesis_wasm :: "'j node_env \<Rightarrow> 'j chain_spec \<Rightarrow> bytes cli" where
  "extract_genesis_wasm E spec =
     andthen (build_storage E spec) (\<lambda>storage _.
       case storage of
         FromConfig (FullGenesis gc) \<Rightarrow> Ok (gc_code gc) ()
       | FromConfig (ShellGenesis code _ _) \<Rightarrow> Ok code ()
       | FromFile (Some code) \<Rightarrow> Ok code ()
       | FromFile None \<Rightarrow> Err ''Could not find wasm file in genesis state!'' ())"

definition export_genesis_wasm :: "'j node_env \<Rightarrow> string option \<Rightarrow> bytes cli" where
  "export_genesis_wasm E chain =
     andthen (load_spec E (case chain of Some c \<Rightarrow> c | None \<Rightarrow> [])) (\<lambda>spec _. extract_genesis_wasm E spec)"

text \<open>
  The node itself: the service, the parachain it collates for and the relay chain it follows unless the arguments
  for the relay chain name one.
\<close>

definition relay_chain_id :: "'j node_env \<Rightarrow> 'j chain_spec \<Rightarrow> string \<Rightarrow> string" where
  "relay_chain_id E spec given =
     (if given = [] then (case chain_extensions E spec of Some e \<Rightarrow> relay_chain e | None \<Rightarrow> []) else given)"

definition run_node :: "'j node_env \<Rightarrow> 'j chain_spec \<Rightarrow> string \<Rightarrow> (native_runtime \<times> u32 \<times> string) cli" where
  "run_node E spec given =
     (case chain_extensions E spec of
        None \<Rightarrow> Err ''Could not find parachain extension for chain-spec.'' ()
      | Some e \<Rightarrow>
          andthen (build_storage E spec) (\<lambda>_ _.
          andthen (select_runtime E all_runtimes spec)
            (\<lambda>r _. case r of Some rt \<Rightarrow> Ok (rt, ext_para_id e, relay_chain_id E spec given) ()
               | None \<Rightarrow> Err ''Can't determine runtime from chain_spec'' ())))"

end
