(* ===== verification/Spec_Claims.thy ===== *)
theory Spec_Claims
  imports Load_Spec
begin

text \<open>
  What the built-in chain specifications and the identifiers that name them give: the properties of
  \<open>Chain_Spec\<close> and \<open>Load_Spec\<close>, and of the chains they start.
\<close>

section \<open>The embedded files\<close>

text \<open>
  \<open>src/node/res/*_genesis_info.json\<close> as values: \<open>a\<close> and \<open>k\<close> decode the text form of an account and of a key.
\<close>

definition khala_genesis_info :: "(string \<Rightarrow> account_id) \<Rightarrow> (string \<Rightarrow> bytes) \<Rightarrow> genesis_info" where
  "khala_genesis_info a k = \<lparr>
     gi_root_key = a ''42vfdiXkd3EzyDHCugnogd3hPA3hYBud4NWVv7S5E52Af8fW'',
     gi_initial_authorities = [(a ''46P8YFydrLzJqsCqZCyiCMgNXUmpLfuZPGNtk17eQFh3hn8f'', k ''44Ly2hXMqfJRCmWYwZC3rA5Wy8NMAPKEuc8BC3pAALT2iBnK''),
       (a ''43k1ayUPrRZkAQ6Wmwxw2D4QuDp96BKtGeonfuDJt2PfrpaR'', k ''42i8iSRf53xdtQiBgd5k1EHVbcXmr3EVpCvKqQjqy2SigBTn''),
       (a ''45EPJRCKxNMFLiPRoJwjUNyRVoQt8utqTLoCtMKGuFK7ZW5e'', k ''44yTMdkKAN7e2FHMnvNF5CHe9C1d6qjmXuASxChaHe1n5hd3'')],
     gi_endowed_accounts = [(a ''46P8YFydrLzJqsCqZCyiCMgNXUmpLfuZPGNtk17eQFh3hn8f'', ''1000000000000000''),
       (a ''43k1ayUPrRZkAQ6Wmwxw2D4QuDp96BKtGeonfuDJt2PfrpaR'', ''1000000000000000''),
       (a ''45EPJRCKxNMFLiPRoJwjUNyRVoQt8utqTLoCtMKGuFK7ZW5e'', ''1000000000000000''),
       (a ''46KDeVtWPWqdL7LCuJP3WZ2fVkfhQWpaE6hJjzmvnFnXCsGM'', ''1000000000000000''),
       (a ''42vfdiXkd3EzyDHCugnogd3hPA3hYBud4NWVv7S5E52Af8fW'', ''1000000000000000'')],
     gi_technical_committee = [a ''46KDeVtWPWqdL7LCuJP3WZ2fVkfhQWpaE6hJjzmvnFnXCsGM'']\<rparr>"

definition phala_genesis_info :: "(string \<Rightarrow> account_id) \<Rightarrow> (string \<Rightarrow> bytes) \<Rightarrow> genesis_info" where
  "phala_genesis_info a k = \<lparr>
     gi_root_key = a ''45YqS1Djs9uT5b7LLpsD5dY1JWvmUzCcJdpVfh5BPwAaPhnv'',
     gi_initial_authorities = [(a ''43nMiQxzqyFfLfVxJL46ENKG8RsffuaGmLmnZLMnvKb2d2i4'', k ''418YXftSKbANK1dzgT4sdJStM4y49kY2u5jeEhyHrqgtpF5h''),
       (a ''467AksWZLDWqcDEHDp9LehTLdP9D1qW497skkAhFyZCcMj4k'', k ''44no9KSEoC5LdNgUL1W7HRXBF2qFfx7Q7RUmCNAhpb6Ybfe2''),
       (a ''44k99uGun5p7NWy3XrZJ1w2LrNAMUiDxcLTJnjQ4xJDxrepX'', k ''46Enau7zLtTsaepCm3RnYBiemsGyuvTvrKb7vVwyAkqSjvJB'')],
     gi_endowed_accounts = [(a ''43nMiQxzqyFfLfVxJL46ENKG8RsffuaGmLmnZLMnvKb2d2i4'', ''1000000000000000''),
       (a ''467AksWZLDWqcDEHDp9LehTLdP9D1qW497skkAhFyZCcMj4k'', ''1000000000000000''),
       (a ''44k99uGun5p7NWy3XrZJ1w2LrNAMUiDxcLTJnjQ4xJDxrepX'', ''1000000000000000''),
       (a ''45YqS1Djs9uT5b7LLpsD5dY1JWvmUzCcJdpVfh5BPwAaPhnv'', ''1000000000000000'')],
     gi_technical_committee = []\<rparr>"

text \<open>The other four files are equal.\<close>

definition test_genesis_info :: "(string \<Rightarrow> account_id) \<Rightarrow> (string \<Rightarrow> bytes) \<Rightarrow> genesis_info" where
  "test_genesis_info a k = \<lparr>
     gi_root_key = a ''43vZmtrV1wm6XAG4kJSQK5Eg3TKTZQJuPZHay7ckwwtVNGUa'',
     gi_initial_authorities = [(a ''43iKVMcmJSJSHerfEh7QaVzaMwxw1i5X8gfPA3wSEYDQBgc2'', k ''42citJm1TzJ59Q7QFbAp7w1CCdj3vtrnUhjYcM3bMrHjDiQU''),
       (a ''43wE58AajT4bvCFZ2jKo6ZkG7CBiGBTwJtaLmBCSmKYg6yKv'', k ''44tWBFeL8CvQ1NKzQvbmjbdT2KBvFsWFw3RmEcEUYY1JybSS''),
       (a ''3zmNjKnCMrwUUidSPwnyaUiVxFUrWPAadVwMPdVG4u3rAYu6'', k ''444qJ1Cjv4qPa41Gf7YCEU1LyawWzNPc8WZWJofkmyfaeG7J'')],
     gi_endowed_accounts = [(a ''43iKVMcmJSJSHerfEh7QaVzaMwxw1i5X8gfPA3wSEYDQBgc2'', []),
       (a ''43wE58AajT4bvCFZ2jKo6ZkG7CBiGBTwJtaLmBCSmKYg6yKv'', []),
       (a ''3zmNjKnCMrwUUidSPwnyaUiVxFUrWPAadVwMPdVG4u3rAYu6'', []),
       (a ''43vZmtrV1wm6XAG4kJSQK5Eg3TKTZQJuPZHay7ckwwtVNGUa'', [])],
     gi_technical_committee = []\<rparr>"

definition embedded_files :: "(string \<Rightarrow> account_id) \<Rightarrow> (string \<Rightarrow> bytes) \<Rightarrow> spec_env \<Rightarrow> bool" where
  "embedded_files a k K \<longleftrightarrow>
     genesis_info_file K ''khala_genesis_info.json'' = Some (khala_genesis_info a k) \<and>
     genesis_info_file K ''phala_genesis_info.json'' = Some (phala_genesis_info a k) \<and>
     genesis_info_file K ''rhala_genesis_info.json'' = Some (test_genesis_info a k) \<and>
     genesis_info_file K ''khala_local_genesis_info.json'' = Some (test_genesis_info a k) \<and>
     genesis_info_file K ''phala_local_genesis_info.json'' = Some (test_genesis_info a k) \<and>
     genesis_info_file K ''rhala_local_genesis_info.json'' = Some (test_genesis_info a k) \<and>
     shell_root_key_file K ''shell_genesis_info.json'' =
       Some (a ''42vfdiXkd3EzyDHCugnogd3hPA3hYBud4NWVv7S5E52Af8fW'')"

section \<open>The table of built-in specifications\<close>

text \<open>What a runtime and a profile name, as the documentation of the option \<open>--chain\<close> has it.\<close>

definition has_profile :: "native_runtime \<Rightarrow> string \<Rightarrow> bool" where
  "has_profile rt prof \<longleftrightarrow> prof = ''dev'' \<or> prof = ''local'' \<and> rt \<noteq> ShellRuntime \<or>
     prof = ''staging'' \<and> rt \<noteq> ThalaRuntime"

definition built_in_config :: "spec_env \<Rightarrow> native_runtime \<Rightarrow> string \<Rightarrow> u32 \<Rightarrow> native_spec option" where
  "built_in_config K rt prof pid =
     (if prof = ''dev'' then Some (case rt of PhalaRuntime \<Rightarrow> phala_development_config K pid
        | KhalaRuntime \<Rightarrow> khala_development_config K pid | RhalaRuntime \<Rightarrow> rhala_development_config K pid
        | ThalaRuntime \<Rightarrow> thala_development_config K pid | ShellRuntime \<Rightarrow> shell_development_config K pid)
      else if prof = ''local'' then (case rt of PhalaRuntime \<Rightarrow> phala_local_config K pid
        | KhalaRuntime \<Rightarrow> khala_local_config K pid | RhalaRuntime \<Rightarrow> rhala_local_config K pid
        | ThalaRuntime \<Rightarrow> thala_local_config K pid | ShellRuntime \<Rightarrow> None)
      else (case rt of PhalaRuntime \<Rightarrow> phala_staging_config K | KhalaRuntime \<Rightarrow> khala_staging_config K
        | RhalaRuntime \<Rightarrow> rhala_staging_config K | ThalaRuntime \<Rightarrow> None | ShellRuntime \<Rightarrow> shell_staging_config K))"

definition relay_base :: "native_runtime \<Rightarrow> string" where
  "relay_base rt = (case rt of PhalaRuntime \<Rightarrow> ''polkadot'' | RhalaRuntime \<Rightarrow> ''rococo'' | _ \<Rightarrow> ''kusama'')"

definition expected_extensions :: "native_runtime \<Rightarrow> string \<Rightarrow> u32 \<Rightarrow> extensions" where
  "expected_extensions rt prof pid = \<lparr>
     relay_chain = (if rt = ShellRuntime then (if prof = ''dev'' then ''westend'' else ''kusama'')
       else relay_base rt @ (if prof = ''staging'' then [] else CHR ''-'' # prof)),
     ext_para_id = (if prof = ''staging'' then (case rt of PhalaRuntime \<Rightarrow> 2035 | ShellRuntime \<Rightarrow> 2111 | _ \<Rightarrow> 2004)
       else pid),
     ext_runtime = runtime_text rt\<rparr>"

lemmas config_defs =
  khala_development_config_def khala_local_config_def khala_local_testnet_config_def khala_staging_config_def
  phala_development_config_def phala_local_config_def phala_local_testnet_config_def phala_staging_config_def
  rhala_development_config_def rhala_local_config_def rhala_local_testnet_config_def rhala_staging_config_def
  thala_development_config_def thala_local_config_def thala_local_testnet_config_def
  shell_development_config_def shell_staging_config_def

lemma built_in_extensions:
  assumes "has_profile rt prof" "built_in_config K rt prof pid = Some n"
  shows "spec_ext n = expected_extensions rt prof pid"
  using assms
  by (cases rt) (auto simp: has_profile_def built_in_config_def expected_extensions_def relay_base_def
    runtime_text_def config_defs)

lemma of_sum_simps [simp]: "of_sum (Inr x) = Ok x ()" "of_sum (Inl e) = Err e ()"
  by (simp_all add: of_sum_def)

lemma expected_simps [simp]: "expected (Some x) = Ok x ()" "expected None = Panic"
  by (simp_all add: expected_def)

lemma runtime_text_no_dash [simp]: "CHR ''-'' \<notin> set (runtime_text rt)"
  by (cases rt) (simp_all add: runtime_text_def)

lemma has_profile_no_dash: "has_profile rt prof \<Longrightarrow> CHR ''-'' \<notin> set prof"
  by (auto simp: has_profile_def)

section \<open>Loading a built-in specification\<close>

lemma load_branches:
  assumes "has_profile rt prof"
  shows "rt = PhalaRuntime \<Longrightarrow> load_phala E (Inr prof) (Inr pid) = built_in (built_in_config (specs E) rt prof pid)"
    "rt = KhalaRuntime \<Longrightarrow> load_khala E (Inr prof) (Inr pid) = built_in (built_in_config (specs E) rt prof pid)"
    "rt = RhalaRuntime \<Longrightarrow> load_rhala E (Inr prof) (Inr pid) = built_in (built_in_config (specs E) rt prof pid)"
    "rt = ThalaRuntime \<Longrightarrow> load_thala E (Inr prof) (Inr pid) = built_in (built_in_config (specs E) rt prof pid)"
    "rt = ShellRuntime \<Longrightarrow> load_shell E (Inr prof) (Inr pid) = built_in (built_in_config (specs E) rt prof pid)"
  using assms
  by (auto simp: load_phala_def load_khala_def load_rhala_def load_thala_def load_shell_def has_profile_def
    built_in_config_def built_in_def)

lemma load_native_named:
  assumes "has_profile rt prof" "native E rt"
  shows "load_native E (join_with CHR ''-'' [runtime_text rt, prof, show_nat (unat pid)]) =
    built_in (built_in_config (specs E) rt prof pid)"
proof -
  have "split_on CHR ''-'' (join_with CHR ''-'' [runtime_text rt, prof, show_nat (unat pid)]) =
      [runtime_text rt, prof, show_nat (unat pid)]"
    using has_profile_no_dash [OF assms(1)] by (intro split_on_join) simp_all
  then show ?thesis using assms(2) load_branches [OF assms(1)]
    by (cases rt) (simp_all add: load_native_def profile_of_def para_id_of_def runtime_text_def)
qed

lemma last_digit:
  assumes "xs \<noteq> []" "digit_value (last xs) \<noteq> None"
  shows "\<not> ends_with (map to_lower xs) ''.json''"
proof
  assume "ends_with (map to_lower xs) ''.json''"
  then have "to_lower (last xs) = CHR ''n''" using ends_with_last [of "map to_lower xs" "''.json''"] assms(1)
    by (simp add: last_map)
  moreover have "to_lower (last xs) = last xs" using assms(2)
    by (auto simp: to_lower_def digit_value_def Let_def split: if_splits)
  ultimately show False using assms(2) by (simp add: digit_value_def)
qed

lemma load_spec_named:
  assumes "has_profile rt prof" "native E rt"
  shows "load_spec E (join_with CHR ''-'' [runtime_text rt, prof, show_nat (unat pid)]) =
    built_in (built_in_config (specs E) rt prof pid)"
proof -
  let ?chain = "join_with CHR ''-'' [runtime_text rt, prof, show_nat (unat pid)]"
  have "digit_value (last (show_nat (unat pid))) \<noteq> None"
    by (rule bspec [OF show_nat_digits last_in_set]) simp
  then have "\<not> ends_with (map to_lower ?chain) ''.json''" by (intro last_digit) simp_all
  then show ?thesis by (simp add: load_spec_def load_native_named [OF assms] del: join_with.simps)
qed

section \<open>The service of a specification\<close>

lemma select_runtime_native:
  assumes "runtime_name E spec = Ok (runtime_text rt) ()" "rt \<in> set rts" "native E rt"
  shows "select_runtime E rts spec = Ok (Some rt) ()"
proof -
  have inj: "runtime_text x = runtime_text y \<Longrightarrow> x = y" for x y
    by (cases x; cases y) (simp_all add: runtime_text_def)
  from assms show ?thesis by (induction rts) (auto simp: is_runtime_def dest: inj)
qed

lemma all_runtimes_complete [simp]: "rt \<in> set all_runtimes"
  by (cases rt) (simp_all add: all_runtimes_def)

section \<open>The genesis of a specification\<close>

lemma all_some_eq: "all_some xs = Some ys \<longleftrightarrow> xs = map Some ys"
  by (auto simp: all_some_def map_idI intro!: nth_equalityI)
    (metis nth_map nth_mem option.collapse)

lemma all_some_defined: "all_some xs = None \<longleftrightarrow> None \<in> set xs"
  by (simp add: all_some_def)

lemma all_some_map: "all_some (map f xs) = Some ys \<Longrightarrow> x \<in> set xs \<Longrightarrow> \<exists>y \<in> set ys. f x = Some y"
  by (metis all_some_eq image_eqI list.set_map imageE)

text \<open>The accounts a genesis endows, and the registries the specifications configure.\<close>

definition endowed_of :: "(account_id \<times> u128) list \<Rightarrow> account_id set" where
  "endowed_of endowed = fst ` set endowed"

definition known_registry :: "registry_genesis \<Rightarrow> bool" where
  "known_registry g \<longleftrightarrow> g = plain_registry_config \<or> (\<exists>oper. g = development_registry_config oper)"

lemma known_registries [simp]:
  "known_registry plain_registry_config" "known_registry (development_registry_config oper)"
  by (auto simp: known_registry_def)

lemma check_endowed_iff: "check_accounts_endowed accounts endowed \<longleftrightarrow> set accounts \<subseteq> endowed_of endowed"
proof -
  have "list_ex (\<lambda>(e, _). x = e) endowed \<longleftrightarrow> x \<in> endowed_of endowed" for x
    by (induction endowed) (auto simp: endowed_of_def)
  then show ?thesis by (auto simp: check_accounts_endowed_def list_all_iff)
qed

lemma endowed_of_testnet [simp]: "endowed_of (testnet_endowment accounts) = set accounts"
  by (simp add: endowed_of_def testnet_endowment_def image_image)

lemma testnet_committee_sub: "set (testnet_committee accounts) \<subseteq> set accounts"
  by (simp add: testnet_committee_def set_take_subset)

lemmas genesis_defs = khala_genesis_def phala_genesis_def rhala_genesis_def thala_genesis_def

lemmas testnet_defs = khala_testnet_genesis_def phala_testnet_genesis_def rhala_testnet_genesis_def
  thala_testnet_genesis_def

text \<open>A built genesis has its accounts endowed, its parachain and its registry.\<close>

definition genesis_sound :: "native_runtime \<Rightarrow> u32 \<Rightarrow> genesis_built \<Rightarrow> bool" where
  "genesis_sound rt pid built = (case built of
     FullGenesis gc \<Rightarrow> gc_parachain_id gc = pid \<and>
       set (gc_invulnerables gc) \<union> set (gc_technical_committee gc) \<union> set_option (gc_sudo gc)
         \<subseteq> endowed_of (gc_balances gc) \<and>
       (gc_sudo gc = None \<longleftrightarrow> rt = KhalaRuntime) \<and>
       (\<forall>g. gc_registry gc = Some g \<longrightarrow> known_registry g)
   | ShellGenesis _ p _ \<Rightarrow> p = pid)"

lemma genesis_soundI:
  "khala_genesis K r au tc en pid reg = Some built \<Longrightarrow> \<forall>g. reg = Some g \<longrightarrow> known_registry g \<Longrightarrow>
     genesis_sound KhalaRuntime pid built"
  "phala_genesis K r au tc en pid = Some built \<Longrightarrow> genesis_sound PhalaRuntime pid built"
  "rhala_genesis K r au tc en pid reg = Some built \<Longrightarrow> \<forall>g. reg = Some g \<longrightarrow> known_registry g \<Longrightarrow>
     genesis_sound RhalaRuntime pid built"
  "thala_genesis K r au tc en pid reg = Some built \<Longrightarrow> \<forall>g. reg = Some g \<longrightarrow> known_registry g \<Longrightarrow>
     genesis_sound ThalaRuntime pid built"
  "shell_genesis K pid r = Some built \<Longrightarrow> genesis_sound ShellRuntime pid built"
  by (auto simp: genesis_defs shell_genesis_def genesis_sound_def check_endowed_iff Let_def
      split: if_splits option.splits)

lemma registry_arguments:
  "\<forall>g. (None :: registry_genesis option) = Some g \<longrightarrow> known_registry g"
  "\<forall>g. Some (development_registry_config oper) = Some g \<longrightarrow> known_registry g"
  by simp_all

lemmas genesis_soundD = genesis_soundI(2,5) genesis_soundI(1) [OF _ registry_arguments(1)]
  genesis_soundI(1) [OF _ registry_arguments(2)] genesis_soundI(3) [OF _ registry_arguments(1)]
  genesis_soundI(3) [OF _ registry_arguments(2)] genesis_soundI(4) [OF _ registry_arguments(1)]
  genesis_soundI(4) [OF _ registry_arguments(2)]

lemma built_in_sound:
  assumes "has_profile rt prof" "built_in_config K rt prof pid = Some n" "spec_genesis n = Some built"
  shows "genesis_sound rt (ext_para_id (spec_ext n)) built"
  using assms
  by (cases rt) (auto simp: has_profile_def built_in_config_def config_defs testnet_defs
    dest!: genesis_soundD split: option.splits)

text \<open>When a genesis builds: all its accounts are endowed.\<close>

lemma genesis_defined:
  assumes "wasm_binary K KhalaRuntime \<noteq> None" "wasm_binary K PhalaRuntime \<noteq> None"
    "wasm_binary K RhalaRuntime \<noteq> None" "wasm_binary K ThalaRuntime \<noteq> None" "wasm_binary K ShellRuntime \<noteq> None"
  shows "khala_genesis K r au tc en pid reg = None \<longleftrightarrow> \<not> insert r (fst ` set au \<union> set tc) \<subseteq> endowed_of en"
    "phala_genesis K r au tc en pid = None \<longleftrightarrow> \<not> insert r (fst ` set au \<union> set tc) \<subseteq> endowed_of en"
    "rhala_genesis K r au tc en pid reg = None \<longleftrightarrow> \<not> insert r (fst ` set au \<union> set tc) \<subseteq> endowed_of en"
    "thala_genesis K r au tc en pid reg = None \<longleftrightarrow> \<not> insert r (fst ` set au \<union> set tc) \<subseteq> endowed_of en"
    "shell_genesis K pid r \<noteq> None"
  using assms by (auto simp: genesis_defs shell_genesis_def check_endowed_iff Let_def)

lemma testnet_defined:
  assumes "\<And>rt. wasm_binary K rt \<noteq> None" "insert r (fst ` set au) \<subseteq> set accounts"
  shows "khala_testnet_genesis K r au accounts pid reg \<noteq> None" "phala_testnet_genesis K r au accounts pid \<noteq> None"
    "rhala_testnet_genesis K r au accounts pid reg \<noteq> None" "thala_testnet_genesis K r au accounts pid reg \<noteq> None"
  using assms(2) testnet_committee_sub [of accounts]
  by (simp_all only: testnet_defs genesis_defined [OF assms(1) assms(1) assms(1) assms(1) assms(1)]
    endowed_of_testnet not_not) auto

text \<open>The seeds of a development chain, its authorities among the endowed accounts.\<close>

lemma dev_accounts:
  assumes "\<And>seed. seed \<in> set dev_seeds \<Longrightarrow> sr25519_public_from_string K (''//'' @ seed) \<noteq> None"
  obtains root authorities accounts where "get_account_id_from_seed K ''Alice'' = Some root"
    "all_some (map (dev_authority K) [''Alice'', ''Bob'']) = Some authorities"
    "all_some (map (get_account_id_from_seed K) dev_seeds) = Some accounts"
    "insert root (fst ` set authorities) \<subseteq> set accounts"
proof -
  have ok: "\<exists>x. get_account_id_from_seed K seed = Some x" "dev_authority K seed \<noteq> None"
    if "seed \<in> set dev_seeds" for seed
    using assms [OF that] by (auto simp: get_account_id_from_seed_def get_pair_from_seed_def dev_authority_def
        get_collator_keys_from_seed_def)
  have seeds: "''Alice'' \<in> set dev_seeds" "''Bob'' \<in> set dev_seeds" by (simp_all add: dev_seeds_def)
  from ok(1) have "None \<notin> set (map (get_account_id_from_seed K) dev_seeds)" by fastforce
  then obtain accounts where acc: "all_some (map (get_account_id_from_seed K) dev_seeds) = Some accounts"
    by (auto simp: all_some_def)
  obtain root bob where a: "get_account_id_from_seed K ''Alice'' = Some root" "get_account_id_from_seed K ''Bob'' = Some bob"
    using ok(1) seeds by blast
  obtain x y where xy: "dev_authority K ''Alice'' = Some x" "dev_authority K ''Bob'' = Some y"
    using ok(2) seeds by blast
  have "fst x = root" "fst y = bob" using a xy by (auto simp: dev_authority_def split: option.splits)
  moreover have "root \<in> set accounts" "bob \<in> set accounts"
    using all_some_map [OF acc seeds(1)] all_some_map [OF acc seeds(2)] a by auto
  ultimately show ?thesis using that [OF a(1) _ acc, of "[x, y]"] xy by (simp add: all_some_def)
qed

section \<open>A node to look at\<close>

definition demo_specs :: spec_env where
  "demo_specs = \<lparr>
     wasm_binary = (\<lambda>_. Some [0]),
     sr25519_public_from_string = (\<lambda>seed. Some (ascii seed)),
     into_account = (\<lambda>key. key),
     genesis_info_file = (\<lambda>file.
       if file = ''khala_genesis_info.json'' then Some (khala_genesis_info ascii ascii)
       else if file = ''phala_genesis_info.json'' then Some (phala_genesis_info ascii ascii)
       else Some (test_genesis_info ascii ascii)),
     shell_root_key_file = (\<lambda>_. Some (ascii ''42vfdiXkd3EzyDHCugnogd3hPA3hYBud4NWVv7S5E52Af8fW''))\<rparr>"

definition demo_node :: "unit node_env" where
  "demo_node = \<lparr>native = (\<lambda>_. True), specs = demo_specs, path_exists = (\<lambda>_. False),
     spec_from_file = (\<lambda>_ _. Inl ''no file''), spec_embedded = (\<lambda>_. Inl ''not embedded''),
     parsed_extensions = (\<lambda>_. None), parsed_storage_code = (\<lambda>_. Inl ''no storage'')\<rparr>"

lemma demo_node_fields [simp]:
  "native demo_node rt" "specs demo_node = demo_specs" "wasm_binary demo_specs rt = Some [0]"
  "sr25519_public_from_string demo_specs seed = Some (ascii seed)"
  by (simp_all add: demo_node_def demo_specs_def)

lemma demo_embedded: "embedded_files ascii ascii demo_specs"
  by (simp add: embedded_files_def demo_specs_def)

section \<open>Properties\<close>

lemma parse_amount_text:
  "parse_u128 ''1000000000000000'' = Some 1000000000000000" "parse_u128 [] = None"
  by (simp_all add: parse_u128_def parse_uint_def digit_value_def)

lemma file_amounts:
  "\<exists>en. parse_amounts (gi_endowed_accounts (khala_genesis_info a k)) = Some en \<and>
     endowed_of en = fst ` set (gi_endowed_accounts (khala_genesis_info a k))"
  "\<exists>en. parse_amounts (gi_endowed_accounts (phala_genesis_info a k)) = Some en \<and>
     endowed_of en = fst ` set (gi_endowed_accounts (phala_genesis_info a k))"
  "parse_amounts (gi_endowed_accounts (test_genesis_info a k)) = None"
  by (simp_all add: parse_amounts_def all_some_def khala_genesis_info_def phala_genesis_info_def
    test_genesis_info_def parse_amount_text endowed_of_def)

text \<open>Root, authorities and committee of each file are endowed in it.\<close>

definition info_closed :: "genesis_info \<Rightarrow> bool" where
  "info_closed i \<longleftrightarrow> insert (gi_root_key i) (fst ` set (gi_initial_authorities i) \<union> set (gi_technical_committee i))
     \<subseteq> fst ` set (gi_endowed_accounts i)"

lemma files_closed:
  "info_closed (khala_genesis_info a k)" "info_closed (phala_genesis_info a k)" "info_closed (test_genesis_info a k)"
  by (simp_all add: info_closed_def khala_genesis_info_def phala_genesis_info_def test_genesis_info_def)

text \<open>One profile at a time: the development, local and staging specifications.\<close>

lemma dev_builds:
  assumes "\<And>rt. wasm_binary K rt \<noteq> None"
    and "\<And>seed. seed \<in> set dev_seeds \<Longrightarrow> sr25519_public_from_string K (''//'' @ seed) \<noteq> None"
  shows "\<exists>n. built_in_config K rt ''dev'' pid = Some n \<and> spec_genesis n \<noteq> None"
proof -
  obtain root au accs where dev: "get_account_id_from_seed K ''Alice'' = Some root"
      "all_some (map (dev_authority K) [''Alice'', ''Bob'']) = Some au"
      "all_some (map (get_account_id_from_seed K) dev_seeds) = Some accs" "insert root (fst ` set au) \<subseteq> set accs"
    using assms(2) by (rule dev_accounts)
  note built = testnet_defined [OF assms(1) dev(4)] genesis_defined(5) [OF assms(1) assms(1) assms(1) assms(1) assms(1)]
  show ?thesis
    by (cases rt) (simp_all add: built_in_config_def config_defs dev(1-3) [unfolded list.map] built del: not_None_eq)
qed

lemma local_builds:
  assumes "embedded_files a k K" "\<And>rt. wasm_binary K rt \<noteq> None" "rt \<noteq> ShellRuntime"
  shows "\<exists>n. built_in_config K rt ''local'' pid = Some n \<and> spec_genesis n \<noteq> None"
proof -
  let ?i = "test_genesis_info a k"
  have "insert (gi_root_key ?i) (fst ` set (gi_initial_authorities ?i)) \<subseteq> set (map fst (gi_endowed_accounts ?i))"
    using files_closed(3) [of a k] by (simp add: info_closed_def)
  note built = testnet_defined [OF assms(2) this]
  show ?thesis using assms(1,3)
    by (cases rt) (simp_all add: embedded_files_def built_in_config_def config_defs built del: not_None_eq)
qed

lemma staging_builds:
  assumes "embedded_files a k K" "\<And>rt. wasm_binary K rt \<noteq> None" "rt \<noteq> ThalaRuntime"
  shows "\<exists>n. built_in_config K rt ''staging'' pid = Some n \<and> (spec_genesis n = None \<longleftrightarrow> rt = RhalaRuntime)"
proof -
  let ?i = "khala_genesis_info a k" and ?j = "phala_genesis_info a k"
  obtain en en' where en: "parse_amounts (gi_endowed_accounts ?i) = Some en" "parse_amounts (gi_endowed_accounts ?j) = Some en'"
    and ends: "endowed_of en = fst ` set (gi_endowed_accounts ?i)" "endowed_of en' = fst ` set (gi_endowed_accounts ?j)"
    using file_amounts(1,2) [of a k] by blast
  note built = genesis_defined [OF assms(2) assms(2) assms(2) assms(2) assms(2)]
  have "khala_genesis K (gi_root_key ?i) (gi_initial_authorities ?i) (gi_technical_committee ?i) en 2004 None \<noteq> None"
    "phala_genesis K (gi_root_key ?j) (gi_initial_authorities ?j) (gi_technical_committee ?j) en' 2035 \<noteq> None"
    using files_closed(1,2) [of a k] by (simp_all only: built(1,2) ends info_closed_def) simp_all
  then show ?thesis using assms(1,3)
    by (cases rt) (simp_all add: embedded_files_def built_in_config_def config_defs en file_amounts(3) built(5) del: not_None_eq)
qed

lemma built_in_defined:
  assumes "embedded_files a k K" "\<And>rt. wasm_binary K rt \<noteq> None"
    and "\<And>seed. seed \<in> set dev_seeds \<Longrightarrow> sr25519_public_from_string K (''//'' @ seed) \<noteq> None"
    and "has_profile rt prof"
  shows "\<exists>n. built_in_config K rt prof pid = Some n \<and>
    (spec_genesis n = None \<longleftrightarrow> rt = RhalaRuntime \<and> prof = ''staging'')"
  using assms(4) dev_builds [OF assms(2,3), of rt pid] local_builds [OF assms(1,2), of rt pid]
    staging_builds [OF assms(1,2), of rt pid]
  unfolding has_profile_def by (elim disjE conjE) auto

text \<open>
  C40. Whether a built-in chain can start: with the files that are embedded in the node, every built-in specification
  of every runtime builds its genesis (no authority, committee member or root is left without endowment, every amount
  parses), except the staging network of Rhala, whose file has no amounts, so that building its genesis panics. A
  genesis that is built is for the parachain the specification names, endows the collators, the committee and the
  root, and only Khala has no root.
\<close>

theorem built_in_genesis_builds:
  assumes "embedded_files a k K" "\<And>rt. wasm_binary K rt \<noteq> None"
    and "\<And>seed. seed \<in> set dev_seeds \<Longrightarrow> sr25519_public_from_string K (''//'' @ seed) \<noteq> None"
    and "has_profile rt prof"
  shows "\<exists>n. built_in_config K rt prof pid = Some n \<and>
    (case spec_genesis n of None \<Rightarrow> rt = RhalaRuntime \<and> prof = ''staging''
     | Some built \<Rightarrow> \<not> (rt = RhalaRuntime \<and> prof = ''staging'') \<and> genesis_sound rt (ext_para_id (spec_ext n)) built)"
  using built_in_defined [OF assms, of pid] built_in_sound [OF assms(4), of K pid] by (auto split: option.split)

theorem built_in_genesis_builds_witness:
  "\<exists>n. built_in_config demo_specs RhalaRuntime ''staging'' 0 = Some n \<and> spec_genesis n = None"
  using built_in_genesis_builds [OF demo_embedded, of RhalaRuntime "''staging''" 0]
  by (auto simp: has_profile_def split: option.splits)



text \<open>The development chain of Khala starts with one worker, the first gatekeeper.\<close>

lemma demo_khala_dev:
  "\<exists>gc. spec_genesis (khala_development_config demo_specs 2004) = Some (FullGenesis gc) \<and>
     gc_registry gc = Some (development_registry_config (ascii ''//Alice''))"
proof -
  obtain built where "spec_genesis (khala_development_config demo_specs 2004) = Some built"
    using dev_builds [of demo_specs KhalaRuntime 2004] by (auto simp: built_in_config_def)
  then show ?thesis
    by (auto simp: khala_development_config_def khala_testnet_genesis_def khala_genesis_def Let_def
      get_account_id_from_seed_def get_pair_from_seed_def demo_specs_def split: if_splits option.splits)
qed

lemma demo_khala_dev_load:
  "load_spec demo_node (join_with CHR ''-'' [''khala'', ''dev'', show_nat 2004]) =
     Ok (Native (khala_development_config demo_specs 2004)) ()"
  using load_spec_named [of KhalaRuntime "''dev''" demo_node 2004]
  by (simp add: has_profile_def runtime_text_def built_in_config_def built_in_def del: join_with.simps)

section \<open>The chains that start\<close>

lemma load_branch_inv:
  "load_phala E profile para = Ok (Native n) () \<Longrightarrow>
     \<exists>prof pid. has_profile PhalaRuntime prof \<and> built_in_config (specs E) PhalaRuntime prof pid = Some n"
  "load_khala E profile para = Ok (Native n) () \<Longrightarrow>
     \<exists>prof pid. has_profile KhalaRuntime prof \<and> built_in_config (specs E) KhalaRuntime prof pid = Some n"
  "load_rhala E profile para = Ok (Native n) () \<Longrightarrow>
     \<exists>prof pid. has_profile RhalaRuntime prof \<and> built_in_config (specs E) RhalaRuntime prof pid = Some n"
  "load_thala E profile para = Ok (Native n) () \<Longrightarrow>
     \<exists>prof pid. has_profile ThalaRuntime prof \<and> built_in_config (specs E) ThalaRuntime prof pid = Some n"
  "load_shell E profile para = Ok (Native n) () \<Longrightarrow>
     \<exists>prof pid. has_profile ShellRuntime prof \<and> built_in_config (specs E) ShellRuntime prof pid = Some n"
  unfolding load_phala_def load_khala_def load_rhala_def load_thala_def load_shell_def
  by (auto simp: Let_def andthen_def of_sum_def built_in_def expected_def embedded_def has_profile_def built_in_config_def
      split: sum.splits option.splits outcome.splits if_splits)

text \<open>A built-in specification comes from a runtime that is compiled in, and from one of its profiles.\<close>

lemma load_spec_native_inv:
  assumes "load_spec E chain = Ok (Native n) ()"
  shows "\<exists>rt prof pid. native E rt \<and> has_profile rt prof \<and> built_in_config (specs E) rt prof pid = Some n"
proof -
  have "load_file E chain \<noteq> Ok (Native n) ()"
    by (auto simp: load_file_def andthen_def of_sum_def runtime_name_def expected_def Let_def
        split: sum.splits option.splits outcome.splits if_splits)
  then have "load_native E chain = Ok (Native n) ()" using assms by (simp add: load_spec_def split: if_splits)
  then obtain para name where "native E PhalaRuntime \<and> load_phala E (profile_of (split_on CHR ''-'' chain)) para = Ok (Native n) () \<or>
      native E KhalaRuntime \<and> load_khala E (profile_of (split_on CHR ''-'' chain)) para = Ok (Native n) () \<or>
      native E RhalaRuntime \<and> load_rhala E (profile_of (split_on CHR ''-'' chain)) para = Ok (Native n) () \<or>
      native E ThalaRuntime \<and> load_thala E (profile_of (split_on CHR ''-'' chain)) para = Ok (Native n) () \<or>
      native E ShellRuntime \<and> load_shell E (profile_of (split_on CHR ''-'' chain)) para = Ok (Native n) ()"
    by (cases "para_id_of (split_on CHR ''-'' chain)")
      (auto simp: load_native_def Let_def without_feature_def andthen_def split: if_splits)
  then show ?thesis using load_branch_inv [of E "profile_of (split_on CHR ''-'' chain)" para n] by blast
qed

text \<open>
  Files: every runtime reads the same extensions from a file, and the embedded specifications name their runtime.
\<close>

definition files_readable :: "'j node_env \<Rightarrow> bool" where
  "files_readable E \<longleftrightarrow>
     (\<forall>rt rt' f j j'. spec_from_file E rt f = Inr j \<longrightarrow> spec_from_file E rt' f = Inr j' \<longrightarrow>
        parsed_extensions E j = parsed_extensions E j') \<and>
     (\<forall>rt j. spec_embedded E rt = Inr j \<longrightarrow>
        (\<exists>e. parsed_extensions E j = Some e \<and> ext_runtime e = runtime_text rt))"

lemma embedded_name:
  assumes "files_readable E" "embedded E rt = Ok (Parsed j) ()"
  shows "runtime_name E (Parsed j) = Ok (runtime_text rt) ()"
proof -
  have "spec_embedded E rt = Inr j"
    using assms(2) by (auto simp: embedded_def of_sum_def andthen_def split: sum.splits)
  then obtain e where "parsed_extensions E j = Some e" "ext_runtime e = runtime_text rt"
    using assms(1) unfolding files_readable_def by blast
  then show ?thesis by (simp add: runtime_name_def chain_extensions_def)
qed

lemma branch_parsed:
  "load_phala E profile para = Ok (Parsed j) () \<Longrightarrow> embedded E PhalaRuntime = Ok (Parsed j) ()"
  "load_khala E profile para = Ok (Parsed j) () \<Longrightarrow> embedded E KhalaRuntime = Ok (Parsed j) ()"
  "load_rhala E profile para \<noteq> Ok (Parsed j) ()" "load_thala E profile para \<noteq> Ok (Parsed j) ()"
  "load_shell E profile para = Ok (Parsed j) () \<Longrightarrow> embedded E ShellRuntime = Ok (Parsed j) ()"
  unfolding load_phala_def load_khala_def load_rhala_def load_thala_def load_shell_def
  by (auto simp: Let_def andthen_def of_sum_def built_in_def expected_def
      split: sum.splits option.splits outcome.splits if_splits)

lemma file_name:
  assumes "files_readable E" "load_file E chain = Ok (Parsed j) ()"
  shows "\<exists>rt. native E rt \<and> runtime_name E (Parsed j) = Ok (runtime_text rt) ()"
proof -
  obtain d name where d: "spec_from_file E KhalaRuntime chain = Inr d" "runtime_name E (Parsed d) = Ok name ()"
    using assms(2) by (auto simp: load_file_def andthen_def of_sum_def split: sum.splits outcome.splits)
  then obtain rt where rt: "native E rt" "name = runtime_text rt" "spec_from_file E rt chain = Inr j"
    using assms(2) by (auto simp: load_file_def Let_def of_sum_def andthen_def runtime_text_def
        split: sum.splits if_splits)
  have "parsed_extensions E j = parsed_extensions E d"
    using assms(1) rt(3) d(1) unfolding files_readable_def by blast
  then have "runtime_name E (Parsed j) = Ok (runtime_text rt) ()"
    using d(2) rt(2) by (simp add: runtime_name_def chain_extensions_def)
  with rt(1) show ?thesis by blast
qed

lemma loaded_name:
  assumes "files_readable E" "load_spec E chain = Ok spec ()"
  shows "\<exists>rt. native E rt \<and> runtime_name E spec = Ok (runtime_text rt) ()"
proof (cases spec)
  case (Native n)
  then obtain rt prof pid where "native E rt" "has_profile rt prof" "built_in_config (specs E) rt prof pid = Some n"
    using load_spec_native_inv assms(2) by blast
  then show ?thesis using built_in_extensions [of rt prof "specs E" pid n]
    by (auto simp: Native runtime_name_def chain_extensions_def expected_extensions_def)
next
  case (Parsed j)
  show ?thesis
  proof (cases "load_file E chain = Ok (Parsed j) ()")
    case True
    then show ?thesis using file_name [OF assms(1)] Parsed by blast
  next
    case False
    then have "load_native E chain = Ok (Parsed j) ()"
      using assms(2) Parsed by (simp add: load_spec_def split: if_splits)
    then obtain rt where "native E rt" "embedded E rt = Ok (Parsed j) ()"
      by (cases "para_id_of (split_on CHR ''-'' chain)")
        (auto simp: load_native_def Let_def without_feature_def andthen_def branch_parsed(3,4)
          dest: branch_parsed(1,2,5) split: if_splits)
    then show ?thesis using embedded_name [OF assms(1)] Parsed by blast
  qed
qed

text \<open>
  A loaded specification always has a service: whatever argument was given, built in, embedded or a file, the
  runtime it names is one the node was compiled with, so that the commands that run a service do not panic and the
  node does not end with "Can't determine runtime"; only the benchmarks have no service for the shell.
\<close>

theorem loaded_spec_has_service:
  assumes "files_readable E" "load_spec E chain = Ok spec ()"
  shows "\<exists>rt. native E rt \<and> async_run_service E spec = Ok rt () \<and> try_runtime_service True E spec = Ok rt () \<and>
    (rt \<noteq> ShellRuntime \<longrightarrow> benchmark_service True E spec = Ok rt ()) \<and>
    (\<forall>built. build_storage E spec = Ok built () \<longrightarrow>
       (\<exists>pid. \<forall>given. run_node E spec given = Ok (rt, pid, relay_chain_id E spec given) ()))"
proof -
  obtain rt where rt: "native E rt" "runtime_name E spec = Ok (runtime_text rt) ()"
    using loaded_name [OF assms] by blast
  have "select_runtime E all_runtimes spec = Ok (Some rt) ()"
    by (rule select_runtime_native [OF rt(2) _ rt(1)]) simp
  moreover have "select_runtime E [PhalaRuntime, KhalaRuntime, RhalaRuntime, ThalaRuntime] spec = Ok (Some rt) ()"
    if "rt \<noteq> ShellRuntime"
    by (rule select_runtime_native [OF rt(2) _ rt(1)]) (use that in \<open>cases rt; simp\<close>)
  moreover obtain e where "chain_extensions E spec = Some e"
    using rt(2) by (auto simp: runtime_name_def expected_def split: option.splits)
  ultimately show ?thesis using rt(1)
    by (intro exI [of _ rt]) (simp del: select_runtime.simps add: async_run_service_def try_runtime_service_def benchmark_service_def run_node_def)
qed

theorem loaded_spec_has_service_witness:
  "\<exists>rt. async_run_service demo_node (Native (khala_development_config demo_specs 2004)) = Ok rt ()"
  using loaded_spec_has_service [OF _ demo_khala_dev_load] by (auto simp: files_readable_def demo_node_def)

text \<open>
  C11. The invariants of the Phala pallets hold from the first block on: whatever argument names the chain, when it is
  built in and its genesis builds, the pallets build their storage from the genesis without a panic, and every
  storage that calls, messages and hooks reach from there satisfies the invariants of mining, of the stake pools, of
  their queues and of the registry.
\<close>

theorem built_in_chains_stay_in_order:
  assumes "load_spec E chain = Ok (Native n) ()" "spec_genesis n = Some (FullGenesis gc)" "gc_registry gc = Some g"
    and "fixed_arith (Fx T)" "inj (\<lambda>(pid, w). pool_sub_account T pid w)"
  shows "\<exists>s. genesis_storage T enabled g cool_down tk b = Some s \<and>
    (\<forall>t. phala_reaches C T s t \<longrightarrow> mining_inv t \<and> stake_inv t \<and> tidy T t \<and> registry_inv t)"
proof -
  obtain rt prof pid where "has_profile rt prof" "built_in_config (specs E) rt prof pid = Some n"
    using load_spec_native_inv [OF assms(1)] by blast
  from built_in_sound [OF this assms(2)] have "known_registry g" using assms(3) by (simp add: genesis_sound_def)
  then have g: "\<forall>(_, ecdh, _) \<in> set (rg_workers g). length ecdh = 32" "distinct (rg_gatekeepers g)"
    by (auto simp: known_registry_def plain_registry_config_def development_registry_config_def dev_pubkey_def)
  then obtain s where s: "genesis_storage T enabled g cool_down tk b = Some s"
    using genesis_storage_defined [of T enabled g cool_down tk b] by blast
  note start = genesis_storage_invs [OF s]
  have "mining_inv t \<and> stake_inv t \<and> tidy T t \<and> registry_inv t" if "phala_reaches C T s t" for t
    using phala_reaches_all [OF assms(4,5) that start(1-3)] phala_reaches_registry [OF that] start(4) [OF g(2)]
    by (simp add: registry_grows_def)
  with s show ?thesis by blast
qed

definition start_tokenomic :: tokenomic_params where
  "start_tokenomic = \<lparr>pha_rate = 2 ^ 64, rho = 2 ^ 64, budget_per_block = 100 * 2 ^ 64, v_max = 30000 * 2 ^ 64,
     cost_k = 0, cost_b = 0, slash_rate = 0, treasury_ratio = 0, heartbeat_window = 10, rig_k = 0, rig_b = 0,
     re = 2 ^ 64, tk_k = 50 * 2 ^ 64, kappa = 2 ^ 64\<rparr>"

theorem built_in_chains_stay_in_order_witness:
  "\<exists>s. genesis_storage demo True (development_registry_config (ascii ''//Alice'')) 604800 start_tokenomic (\<lambda>_. 0) = Some s \<and>
     stake_inv s \<and> registry_inv s"
proof -
  obtain gc where "spec_genesis (khala_development_config demo_specs 2004) = Some (FullGenesis gc)"
    "gc_registry gc = Some (development_registry_config (ascii ''//Alice''))" using demo_khala_dev by blast
  from built_in_chains_stay_in_order [OF demo_khala_dev_load this, of demo True 604800 start_tokenomic "\<lambda>_. 0" demo_codec]
  obtain s where "genesis_storage demo True (development_registry_config (ascii ''//Alice'')) 604800 start_tokenomic (\<lambda>_. 0) = Some s"
      "\<forall>t. phala_reaches demo_codec demo s t \<longrightarrow> mining_inv t \<and> stake_inv t \<and> tidy demo t \<and> registry_inv t"
    using demo_sub_accounts by (auto simp: u64f64.fixed_arith_axioms)
  then show ?thesis using phala_reaches.reach_start by blast
qed

section \<open>At the edges\<close>

text \<open>The pattern \<open>runtime_name-para_id\<close> of the error message is not accepted: the number is taken for a profile.\<close>

lemma short_pattern_is_refused:
  assumes "native E rt"
  shows "\<exists>e. load_spec E (join_with CHR ''-'' [runtime_text rt, show_nat (unat pid)]) = Err e ()"
proof -
  let ?chain = "join_with CHR ''-'' [runtime_text rt, show_nat (unat pid)]"
  have digit: "digit_value (last (show_nat (unat pid))) \<noteq> None"
    by (rule bspec [OF show_nat_digits last_in_set]) simp
  then have "\<not> ends_with (map to_lower ?chain) ''.json''" by (intro last_digit) simp_all
  moreover have "split_on CHR ''-'' ?chain = [runtime_text rt, show_nat (unat pid)]" by (intro split_on_join) simp_all
  moreover have other: "show_nat (unat pid) \<noteq> p" if "last p \<in> {CHR ''v'', CHR ''l'', CHR ''g''}" for p
    using digit that by (auto simp: digit_value_def)
  from other [of "''dev''"] other [of "''local''"] other [of "''staging''"]
  have "show_nat (unat pid) \<noteq> ''dev''" "show_nat (unat pid) \<noteq> ''local''" "show_nat (unat pid) \<noteq> ''staging''"
    by simp_all
  ultimately show ?thesis using assms
    by (cases rt) (simp_all add: load_spec_def load_native_def profile_of_def para_id_of_def runtime_text_def
      load_phala_def load_khala_def load_rhala_def load_thala_def load_shell_def)
qed

text \<open>
  The networks without genesis workers configure benchmarks of 50 seconds, but the registry stores the duration only
  in the loop over those workers: the first workers to register are told to run benchmarks of length zero.
\<close>

lemma plain_duration_is_lost:
  assumes "genesis_storage T enabled plain_registry_config cool_down tk b = Some s"
  shows "BenchmarkDuration s = None"
  using assms by (auto simp: genesis_storage_def registry_genesis_build_def plain_registry_config_def
    mining_genesis_build_def queue_message_to_def default_storage_def)

end
