(* ===== verification/Fat_Contracts.thy ===== *)
theory Fat_Contracts
  imports Phala_Reach
begin

text \<open>
  The pallet of the fat contracts, \<open>src/pallets/phala/src/fat.rs\<close>, over the chain of the other Phala
  pallets, with the contract types and identifiers of \<open>src/crates/phala-types/src/contract.rs\<close>. The
  pallet reads the registered workers of the registry, writes its contract keys and pushes messages
  through the message queue of the runtime. No runtime of the repository includes it yet.

  Hashes, cluster identifiers and contract identifiers are byte strings; the hasher of the runtime,
  \<open>H256::from_low_u64_be\<close> and the codec are configuration.
\<close>

section \<open>Contract types\<close>

datatype code_index = NativeCode u32 | WasmCode bytes

datatype deploy_target = Cluster bytes | NewGroup "worker_key list"

record contract_info =
  ci_deployer :: account_id
  ci_code_index :: code_index
  ci_salt :: bytes
  ci_cluster_id :: bytes
  instantiate_data :: bytes

text \<open>\<open>to_be_bytes\<close> of a 32-bit number.\<close>

definition u32_be_bytes :: "u32 \<Rightarrow> bytes" where
  "u32_be_bytes x = [ucast (drop_bit 24 x), ucast (drop_bit 16 x), ucast (drop_bit 8 x), ucast x]"

definition code_hash :: "code_index \<Rightarrow> bytes" where
  "code_hash c = (case c of NativeCode contract_id \<Rightarrow> u32_be_bytes contract_id | WasmCode h \<Rightarrow> h)"

definition contract_id_preimage :: "bytes \<Rightarrow> bytes \<Rightarrow> bytes \<Rightarrow> bytes \<Rightarrow> bytes" where
  "contract_id_preimage deployer code cluster_id salt = deployer @ code @ cluster_id @ salt"

definition info_preimage :: "contract_info \<Rightarrow> bytes" where
  "info_preimage i = contract_id_preimage (ci_deployer i) (code_hash (ci_code_index i)) (ci_cluster_id i) (ci_salt i)"

definition contract_id :: "(bytes \<Rightarrow> bytes) \<Rightarrow> contract_info \<Rightarrow> bytes" where
  "contract_id blake i = blake (info_preimage i)"

record worker_identity =
  id_pubkey :: worker_key
  id_ecdh_pubkey :: bytes

datatype contract_event = InstantiateCode contract_info "worker_identity list"

definition instantiate_code :: "contract_info \<Rightarrow> worker_identity list \<Rightarrow> contract_event" where
  "instantiate_code contract_info deploy_workers = InstantiateCode contract_info deploy_workers"

datatype contract_operation = UploadCodeToCluster account_id bytes bytes

datatype contract_registry_event = PubkeyAvailableEvent bytes bytes

datatype worker_contract_report =
    ContractInstantiated bytes bytes bytes bytes
  | ContractInstantiationFailed bytes bytes bytes

definition contract_event_topic :: topic where "contract_event_topic = ascii ''phala/contract/event''"
definition contract_operation_topic :: topic where "contract_operation_topic = ascii ''phala/contract/op''"

section \<open>Storage and configuration\<close>

datatype fat_event =
    CodeUploaded bytes
  | PubkeyAvailable bytes bytes
  | Instantiating bytes bytes account_id
  | Instantiated bytes bytes bytes
  | InstantiationFailed bytes bytes bytes

datatype fat_error =
    CodeNotFound | ContractClusterNotFound | DuplicatedContract | DuplicatedDeployment
  | NoWorkerSpecified | InvalidSender | WorkerNotFound

record 'b fat_chain =
  phala :: "'b chain"
  Code :: "bytes \<rightharpoonup> bytes"
  ClusterCounter :: u64
  Clusters :: "bytes \<rightharpoonup> bytes list"
  Contracts :: "bytes \<rightharpoonup> contract_info"
  ClusterWorkers :: "bytes \<rightharpoonup> worker_key list"
  fat_log :: "fat_event list"

type_synonym ('b, 'a) fat_result = "(fat_error dispatch_error, 'a, 'b fat_chain) outcome"

record 'b fat_config =
  phala_codec :: codec
  phala_cfg :: "'b phala_config"
  hashing :: "bytes \<Rightarrow> bytes"
  from_low_u64_be :: "u64 \<Rightarrow> bytes"
  enc_contract_event :: "contract_event \<Rightarrow> bytes"
  enc_contract_operation :: "contract_operation \<Rightarrow> bytes"
  fat_name :: bytes

abbreviation rt_of :: "'b fat_config \<Rightarrow> 'b phala_config" where
  "rt_of F \<equiv> runtime (phala_codec F) (phala_cfg F)"

definition fat_deposit :: "fat_event \<Rightarrow> 'b fat_chain \<Rightarrow> 'b fat_chain" where
  "fat_deposit e s = s\<lparr>fat_log := fat_log s @ [e]\<rparr>"

text \<open>\<open>push_message\<close> of the pallet: the topic of the message's type, the pallet as the sender; it returns nothing.\<close>

definition fat_push :: "'b fat_config \<Rightarrow> topic \<Rightarrow> bytes \<Rightarrow> 'b fat_chain \<Rightarrow> ('b, unit) fat_result" where
  "fat_push F topic payload s =
     (case left_state (push_message_to (rt_of F) topic (PalletOrigin (fat_name F)) payload (phala s)) of
        None \<Rightarrow> Panic | Some p \<Rightarrow> Ok () (s\<lparr>phala := p\<rparr>))"

section \<open>Calls\<close>

definition upload_code :: "'b fat_config \<Rightarrow> origin \<Rightarrow> bytes \<Rightarrow> 'b fat_chain \<Rightarrow> ('b, unit) fat_result" where
  "upload_code F orig code s =
     (case ensure_signed orig of None \<Rightarrow> Err BadOrigin s | Some _ \<Rightarrow>
      let h = hashing F code
      in Ok () (fat_deposit (CodeUploaded h) (s\<lparr>Code := (Code s)(h \<mapsto> code)\<rparr>)))"

definition upload_code_to_cluster :: "'b fat_config \<Rightarrow> origin \<Rightarrow> bytes \<Rightarrow> bytes \<Rightarrow> 'b fat_chain \<Rightarrow>
    ('b, unit) fat_result" where
  "upload_code_to_cluster F orig code cluster_id s =
     (case ensure_signed orig of None \<Rightarrow> Err BadOrigin s | Some who \<Rightarrow>
      fat_push F contract_operation_topic
        (enc_contract_operation F (UploadCodeToCluster who code cluster_id)) s)"

fun worker_identities :: "'b chain \<Rightarrow> worker_key list \<Rightarrow> worker_identity list option" where
  "worker_identities s [] = Some []"
| "worker_identities s (w # ws) =
     (case Workers s w of None \<Rightarrow> None | Some info \<Rightarrow>
        map_option (\<lambda>rest. \<lparr>id_pubkey = wi_pubkey info, id_ecdh_pubkey = wi_ecdh_pubkey info\<rparr> # rest)
          (worker_identities s ws))"

text \<open>The cluster and the workers of a deployment; a new group moves the counter on. The flag is \<open>new_cluster\<close>.\<close>

definition deployment :: "'b fat_config \<Rightarrow> deploy_target \<Rightarrow> 'b fat_chain \<Rightarrow>
    ('b, bytes \<times> worker_key list \<times> bool) fat_result" where
  "deployment F deploy_to s =
     (case deploy_to of
        Cluster cluster_id \<Rightarrow>
          (case ClusterWorkers s cluster_id of None \<Rightarrow> Err (Module ContractClusterNotFound) s
           | Some workers \<Rightarrow> Ok (cluster_id, workers, False) s)
      | NewGroup deploy_workers \<Rightarrow>
          (if deploy_workers = [] then Err (Module NoWorkerSpecified) s
           else let counter = ClusterCounter s + 1
                in Ok (from_low_u64_be F counter, deploy_workers, True) (s\<lparr>ClusterCounter := counter\<rparr>)))"

definition register_contract :: "'b fat_config \<Rightarrow> contract_info \<Rightarrow> worker_identity list \<Rightarrow> 'b fat_chain \<Rightarrow>
    ('b, unit) fat_result" where
  "register_contract F info workers s =
     (let cid = contract_id (blake2_256 (phala_cfg F)) info; cluster_id = ci_cluster_id info in
      if Contracts s cid \<noteq> None then Err (Module DuplicatedContract) s
      else let s = s\<lparr>Contracts := (Contracts s)(cid \<mapsto> info),
             Clusters := (Clusters s)(cluster_id \<mapsto>
               (case Clusters s cluster_id of Some cs \<Rightarrow> cs | None \<Rightarrow> []) @ [cid])\<rparr>
      in andthen (fat_push F contract_event_topic (enc_contract_event F (instantiate_code info workers)) s)
           (\<lambda>_ s. Ok () (fat_deposit (Instantiating cid (ci_cluster_id info) (ci_deployer info)) s)))"

definition instantiate_contract :: "'b fat_config \<Rightarrow> origin \<Rightarrow> code_index \<Rightarrow> bytes \<Rightarrow> bytes \<Rightarrow> deploy_target \<Rightarrow>
    'b fat_chain \<Rightarrow> ('b, unit) fat_result" where
  "instantiate_contract F orig code_index data salt deploy_to s =
     (case ensure_signed orig of None \<Rightarrow> Err BadOrigin s | Some deployer \<Rightarrow>
      if (case code_index of NativeCode _ \<Rightarrow> False | WasmCode h \<Rightarrow> Code s h = None)
      then Err (Module CodeNotFound) s
      else andthen (deployment F deploy_to s) (\<lambda>(cluster_id, deploy_workers, new_cluster) s.
        case worker_identities (phala s) deploy_workers of None \<Rightarrow> Err (Module WorkerNotFound) s
        | Some workers \<Rightarrow>
          let s = (if new_cluster then s\<lparr>ClusterWorkers := (ClusterWorkers s)(cluster_id \<mapsto> deploy_workers)\<rparr> else s)
          in register_contract F \<lparr>ci_deployer = deployer, ci_code_index = code_index, ci_salt = salt,
               ci_cluster_id = cluster_id, instantiate_data = data\<rparr> workers s))"

section \<open>Messages\<close>

definition on_contract_message_received :: "message_origin \<Rightarrow> contract_registry_event \<Rightarrow> 'b fat_chain \<Rightarrow>
    ('b, unit) fat_result" where
  "on_contract_message_received sender payload s =
     (if sender \<noteq> GatekeeperOrigin then Err (Module InvalidSender) s
      else case payload of PubkeyAvailableEvent contract pubkey \<Rightarrow>
        Ok () (fat_deposit (PubkeyAvailable contract pubkey)
          (s\<lparr>phala := (phala s)\<lparr>ContractKeys := (ContractKeys (phala s))(contract \<mapsto> pubkey)\<rparr>\<rparr>)))"

definition on_worker_contract_message_received :: "message_origin \<Rightarrow> worker_contract_report \<Rightarrow> 'b fat_chain \<Rightarrow>
    ('b, unit) fat_result" where
  "on_worker_contract_message_received sender payload s =
     (case sender of
        WorkerOrigin _ \<Rightarrow>
          (case payload of
             ContractInstantiated i cluster_id deployer _ \<Rightarrow>
               Ok () (fat_deposit (Instantiated i cluster_id deployer) s)
           | ContractInstantiationFailed i cluster_id deployer \<Rightarrow>
               Ok () (fat_deposit (InstantiationFailed i cluster_id deployer) s))
      | _ \<Rightarrow> Err (Module InvalidSender) s)"

section \<open>Steps\<close>

datatype fat_op =
    UploadCode origin bytes
  | UploadToCluster origin bytes bytes
  | Instantiate origin code_index bytes bytes deploy_target
  | ContractMessage message_origin contract_registry_event
  | WorkerReport message_origin worker_contract_report
  | PhalaOp phala_op

text \<open>An operation of the other pallets leaves the storage of this one alone.\<close>

fun fat_exec :: "'b fat_config \<Rightarrow> fat_op \<Rightarrow> 'b fat_chain \<Rightarrow> 'b fat_chain option" where
  "fat_exec F (UploadCode orig code) s = left_state (upload_code F orig code s)"
| "fat_exec F (UploadToCluster orig code k) s = left_state (upload_code_to_cluster F orig code k s)"
| "fat_exec F (Instantiate orig code data salt target) s =
     left_state (instantiate_contract F orig code data salt target s)"
| "fat_exec F (ContractMessage sender e) s = left_state (on_contract_message_received sender e s)"
| "fat_exec F (WorkerReport sender r) s = left_state (on_worker_contract_message_received sender r s)"
| "fat_exec F (PhalaOp op) s =
     (case phala_exec (phala_codec F) (phala_cfg F) op (phala s) of None \<Rightarrow> None
      | Some r \<Rightarrow> map_option (\<lambda>p. s\<lparr>phala := p\<rparr>) (left_state r))"

text \<open>The bound: fewer than 2^64 groups are asked for.\<close>

definition fat_fits :: "fat_op \<Rightarrow> 'b fat_chain \<Rightarrow> bool" where
  "fat_fits op s = (case op of
     Instantiate _ _ _ _ (NewGroup _) \<Rightarrow> ClusterCounter s + 1 \<noteq> 0 | _ \<Rightarrow> True)"

inductive fat_reaches :: "'b fat_config \<Rightarrow> 'b fat_chain \<Rightarrow> 'b fat_chain \<Rightarrow> bool" for F where
  fat_start: "fat_reaches F s s"
| fat_step: "fat_reaches F s t \<Longrightarrow> fat_fits op t \<Longrightarrow> fat_exec F op t = Some u \<Longrightarrow> fat_reaches F s u"

inductive_cases fat_reachesE: "fat_reaches F s t"

end
