(* ===== verification/Fat_Props.thy ===== *)
theory Fat_Props
  imports Fat_Contracts
begin

text \<open>
  The lemmas about the fat contracts: what a push, a registration and an instantiation do on every
  branch, the identifiers, and the invariant of the pallet's storage, which all operations keep,
  those of the other Phala pallets included.
\<close>

section \<open>Pushes\<close>

definition fat_outbox :: "'b fat_config \<Rightarrow> topic \<Rightarrow> bytes \<Rightarrow> 'b fat_chain \<Rightarrow> 'b fat_chain" where
  "fat_outbox F topic payload s = s\<lparr>phala := (phala s)\<lparr>OutboundMessages := OutboundMessages (phala s) @
     [\<lparr>m_sender = PalletOrigin (fat_name F), m_destination = topic, m_payload = payload\<rparr>]\<rparr>\<rparr>"

lemma contract_topics:
  "contract_event_topic \<notin> {registry_event_topic, mining_update_topic, mining_report_topic}"
  "contract_operation_topic \<notin> {registry_event_topic, mining_update_topic, mining_report_topic}"
  "topic_is_offchain contract_event_topic" "topic_is_offchain contract_operation_topic"
  by code_simp+

lemma fat_push_Ok:
  assumes "topic \<in> {contract_event_topic, contract_operation_topic}"
  shows "fat_push F topic payload s = Ok () (fat_outbox F topic payload s)"
  using assms contract_topics
  by (auto simp: fat_push_def push_message_to_def dispatch_message_def route_message_def try_dispatch_def
      default_should_push_def fat_outbox_def)

lemma fat_outbox_simps [simp]:
  "Code (fat_outbox F t pl s) = Code s" "ClusterCounter (fat_outbox F t pl s) = ClusterCounter s"
  "Clusters (fat_outbox F t pl s) = Clusters s" "Contracts (fat_outbox F t pl s) = Contracts s"
  "ClusterWorkers (fat_outbox F t pl s) = ClusterWorkers s" "fat_log (fat_outbox F t pl s) = fat_log s"
  "Workers (phala (fat_outbox F t pl s)) = Workers (phala s)"
  by (simp_all add: fat_outbox_def)

lemma fat_deposit_simps [simp]:
  "Code (fat_deposit e s) = Code s" "ClusterCounter (fat_deposit e s) = ClusterCounter s"
  "Clusters (fat_deposit e s) = Clusters s" "Contracts (fat_deposit e s) = Contracts s"
  "ClusterWorkers (fat_deposit e s) = ClusterWorkers s" "fat_log (fat_deposit e s) = fat_log s @ [e]"
  "phala (fat_deposit e s) = phala s"
  by (simp_all add: fat_deposit_def)

section \<open>Identifiers\<close>

text \<open>
  For codes of one kind, the fields that go into the identifier are recovered from its preimage:
  accounts, hashes and cluster identifiers have 32 bytes, native codes four.
\<close>

definition same_kind :: "code_index \<Rightarrow> code_index \<Rightarrow> bool" where
  "same_kind c d = (case (c, d) of
     (NativeCode _, NativeCode _) \<Rightarrow> True | (WasmCode _, WasmCode _) \<Rightarrow> True | _ \<Rightarrow> False)"

definition sized :: "contract_info \<Rightarrow> bool" where
  "sized i \<longleftrightarrow> length (ci_deployer i) = 32 \<and> length (ci_cluster_id i) = 32 \<and>
     (case ci_code_index i of NativeCode _ \<Rightarrow> True | WasmCode h \<Rightarrow> length h = 32)"

lemma u32_be_bytes_inj: "u32_be_bytes x = u32_be_bytes y \<longleftrightarrow> x = y"
proof
  assume "u32_be_bytes x = u32_be_bytes y"
  then have parts: "(ucast (drop_bit 24 x) :: u8) = ucast (drop_bit 24 y)"
      "(ucast (drop_bit 16 x) :: u8) = ucast (drop_bit 16 y)"
      "(ucast (drop_bit 8 x) :: u8) = ucast (drop_bit 8 y)" "(ucast x :: u8) = ucast y"
    by (simp_all add: u32_be_bytes_def)
  have byte: "bit x (k + n) = bit y (k + n)"
    if "(ucast (drop_bit k x) :: u8) = ucast (drop_bit k y)" "n < 8" for k n
  proof -
    have "bit (ucast (drop_bit k x) :: u8) n = bit (ucast (drop_bit k y) :: u8) n" using that(1) by simp
    then show ?thesis using that(2) by (simp add: bit_unsigned_iff bit_drop_bit_eq)
  qed
  show "x = y"
  proof (rule bit_word_eqI)
    fix n assume "n < LENGTH(32)"
    then consider "n < 8" | "8 \<le> n" "n < 16" | "16 \<le> n" "n < 24" | "24 \<le> n" "n < 32" by fastforce
    then show "bit x n = bit y n"
      using byte [OF parts(1), of "n - 24"] byte [OF parts(2), of "n - 16"] byte [OF parts(3), of "n - 8"]
        byte [of 0 n] parts(4) by cases simp_all
  qed
qed simp

lemma code_hash_length:
  "sized i \<Longrightarrow> length (code_hash (ci_code_index i)) = (case ci_code_index i of NativeCode _ \<Rightarrow> 4 | WasmCode _ \<Rightarrow> 32)"
  by (simp add: sized_def code_hash_def u32_be_bytes_def split: code_index.splits)

lemma info_preimage_inj:
  assumes "sized i" "sized j" "same_kind (ci_code_index i) (ci_code_index j)"
  shows "info_preimage i = info_preimage j \<longleftrightarrow> ci_deployer i = ci_deployer j \<and>
    ci_code_index i = ci_code_index j \<and> ci_cluster_id i = ci_cluster_id j \<and> ci_salt i = ci_salt j"
proof -
  have "code_hash (ci_code_index i) = code_hash (ci_code_index j) \<longleftrightarrow> ci_code_index i = ci_code_index j"
    using assms(3) by (auto simp: same_kind_def code_hash_def u32_be_bytes_inj split: code_index.splits)
  moreover have "length (code_hash (ci_code_index i)) = length (code_hash (ci_code_index j))"
    using assms by (auto simp: code_hash_length same_kind_def split: code_index.splits)
  ultimately show ?thesis using assms(1,2)
    by (simp add: info_preimage_def contract_id_preimage_def sized_def)
qed

section \<open>The branches of an instantiation\<close>

lemma worker_identities_Some:
  "worker_identities p ws = Some ids \<longleftrightarrow>
     (\<forall>w \<in> set ws. Workers p w \<noteq> None) \<and>
     ids = map (\<lambda>w. \<lparr>id_pubkey = wi_pubkey (the (Workers p w)), id_ecdh_pubkey = wi_ecdh_pubkey (the (Workers p w))\<rparr>) ws"
  by (induction ws arbitrary: ids) (auto split: option.splits)

lemma worker_identities_None: "worker_identities p ws = None \<longleftrightarrow> (\<exists>w \<in> set ws. Workers p w = None)"
  by (induction ws) (auto split: option.splits)

definition registered :: "'b fat_config \<Rightarrow> contract_info \<Rightarrow> worker_identity list \<Rightarrow> 'b fat_chain \<Rightarrow> 'b fat_chain" where
  "registered F info ids s =
     (let cid = contract_id (blake2_256 (phala_cfg F)) info; k = ci_cluster_id info
      in fat_deposit (Instantiating cid k (ci_deployer info))
        (fat_outbox F contract_event_topic (enc_contract_event F (InstantiateCode info ids))
          (s\<lparr>Contracts := (Contracts s)(cid \<mapsto> info),
             Clusters := (Clusters s)(k \<mapsto> (case Clusters s k of Some cs \<Rightarrow> cs | None \<Rightarrow> []) @ [cid])\<rparr>)))"

lemma register_contract_cases:
  "register_contract F info ids s =
     (if Contracts s (contract_id (blake2_256 (phala_cfg F)) info) \<noteq> None then Err (Module DuplicatedContract) s
      else Ok () (registered F info ids s))"
  by (simp add: register_contract_def registered_def fat_push_Ok instantiate_code_def Let_def)

text \<open>
  The storage an instantiation leaves: unchanged, the counter moved on, the new group with its workers
  but without the contract, or the contract registered.
\<close>

definition opened :: "'b fat_config \<Rightarrow> worker_key list \<Rightarrow> 'b fat_chain \<Rightarrow> 'b fat_chain" where
  "opened F ws s = s\<lparr>ClusterCounter := ClusterCounter s + 1,
     ClusterWorkers := (ClusterWorkers s)(from_low_u64_be F (ClusterCounter s + 1) \<mapsto> ws)\<rparr>"

definition code_present :: "code_index \<Rightarrow> 'b fat_chain \<Rightarrow> bool" where
  "code_present c s = (case c of NativeCode _ \<Rightarrow> True | WasmCode h \<Rightarrow> Code s h \<noteq> None)"

definition new_info :: "account_id \<Rightarrow> code_index \<Rightarrow> bytes \<Rightarrow> bytes \<Rightarrow> bytes \<Rightarrow> contract_info" where
  "new_info who code data salt k = \<lparr>ci_deployer = who, ci_code_index = code, ci_salt = salt, ci_cluster_id = k,
     instantiate_data = data\<rparr>"

lemma instantiate_refused:
  "ensure_signed orig = None \<or> \<not> code_present code s \<Longrightarrow> \<exists>e. instantiate_contract F orig code data salt target s = Err e s"
  by (auto simp: instantiate_contract_def code_present_def split: option.splits code_index.splits)

lemma instantiate_in_cluster:
  "code_present code s \<Longrightarrow> instantiate_contract F (Signed who) code data salt (Cluster k) s =
     (case ClusterWorkers s k of None \<Rightarrow> Err (Module ContractClusterNotFound) s
      | Some ws \<Rightarrow> (case worker_identities (phala s) ws of None \<Rightarrow> Err (Module WorkerNotFound) s
          | Some ids \<Rightarrow> register_contract F (new_info who code data salt k) ids s))"
  by (auto simp: instantiate_contract_def deployment_def code_present_def new_info_def
      split: option.splits code_index.splits)

lemma instantiate_in_group:
  "code_present code s \<Longrightarrow> instantiate_contract F (Signed who) code data salt (NewGroup ws) s =
     (if ws = [] then Err (Module NoWorkerSpecified) s
      else case worker_identities (phala s) ws of
          None \<Rightarrow> Err (Module WorkerNotFound) (s\<lparr>ClusterCounter := ClusterCounter s + 1\<rparr>)
        | Some ids \<Rightarrow> register_contract F (new_info who code data salt (from_low_u64_be F (ClusterCounter s + 1))) ids
            (opened F ws s))"
  by (auto simp: instantiate_contract_def deployment_def code_present_def new_info_def opened_def Let_def
      split: option.splits code_index.splits)

text \<open>The cluster and the workers a contract goes to, and the storage once the group exists.\<close>

definition placed :: "'b fat_config \<Rightarrow> deploy_target \<Rightarrow> 'b fat_chain \<Rightarrow> bytes \<Rightarrow> worker_key list \<Rightarrow> 'b fat_chain \<Rightarrow> bool" where
  "placed F target s k ws u \<longleftrightarrow> (case target of
     Cluster k' \<Rightarrow> k = k' \<and> ClusterWorkers s k = Some ws \<and> u = s
   | NewGroup ws' \<Rightarrow> ws = ws' \<and> ws \<noteq> [] \<and> k = from_low_u64_be F (ClusterCounter s + 1) \<and> u = opened F ws s)"

lemma contracts_opened: "Contracts (opened F ws s) = Contracts s"
  by (simp add: opened_def)

lemma instantiate_left:
  assumes "left_state (instantiate_contract F orig code data salt target s) = Some t"
  obtains (unchanged) e where "t = s" "instantiate_contract F orig code data salt target s = Err e s"
    | (counted) ws where "target = NewGroup ws" "\<exists>w \<in> set ws. Workers (phala s) w = None"
        "t = s\<lparr>ClusterCounter := ClusterCounter s + 1\<rparr>"
        "instantiate_contract F orig code data salt target s = Err (Module WorkerNotFound) t"
    | (opened) ws where "target = NewGroup ws" "ws \<noteq> []" "\<forall>w \<in> set ws. Workers (phala s) w \<noteq> None"
        "t = opened F ws s"
        "instantiate_contract F orig code data salt target s = Err (Module DuplicatedContract) t"
    | (created) who k ws ids u where
        "instantiate_contract F orig code data salt target s = Ok () t" "orig = Signed who" "code_present code s"
        "worker_identities (phala s) ws = Some ids" "placed F target s k ws u"
        "Contracts s (contract_id (blake2_256 (phala_cfg F)) (new_info who code data salt k)) = None"
        "t = registered F (new_info who code data salt k) ids u"
proof (cases "ensure_signed orig = None \<or> \<not> code_present code s")
  case True
  then show ?thesis using assms unchanged instantiate_refused [OF True, of F data salt target] by auto
next
  case False
  then obtain who where orig: "orig = Signed who" and code: "code_present code s" by (cases orig) auto
  show ?thesis
  proof (cases target)
    case (Cluster k)
    show ?thesis
    proof (cases "ClusterWorkers s k = None \<or> worker_identities (phala s) (the (ClusterWorkers s k)) = None \<or>
        Contracts s (contract_id (blake2_256 (phala_cfg F)) (new_info who code data salt k)) \<noteq> None")
      case True
      then show ?thesis using assms code unchanged orig Cluster
        by (auto simp: instantiate_in_cluster register_contract_cases split: option.splits)
    next
      case False
      then obtain ws ids where "ClusterWorkers s k = Some ws" "worker_identities (phala s) ws = Some ids" by auto
      then show ?thesis using assms code orig Cluster False
        by (intro created [of who ws ids k s])
          (simp_all add: instantiate_in_cluster register_contract_cases placed_def)
    qed
  next
    case (NewGroup ws)
    note eq = instantiate_in_group [OF code, of F who data salt ws] and in_opened = contracts_opened
    show ?thesis
    proof (cases "worker_identities (phala s) ws")
      case None
      then have "\<exists>w \<in> set ws. Workers (phala s) w = None" by (simp add: worker_identities_None)
      then show ?thesis using assms orig NewGroup eq None unchanged counted [OF NewGroup]
        by (cases "ws = []") simp_all
    next
      case (Some ids)
      then have "\<forall>w \<in> set ws. Workers (phala s) w \<noteq> None" by (simp add: worker_identities_Some)
      then show ?thesis
        using assms orig NewGroup eq Some code unchanged opened [OF NewGroup] in_opened [of F ws s]
          created [of who ws ids "from_low_u64_be F (ClusterCounter s + 1)" "opened F ws s"]
        by (cases "ws = []") (auto simp: register_contract_cases placed_def split: if_splits)
    qed
  qed
qed

lemma instantiate_Ok:
  assumes "instantiate_contract F (Signed who) code data salt target s = Ok () t"
  obtains k ws ids u where "code_present code s" "worker_identities (phala s) ws = Some ids" "placed F target s k ws u"
    "Contracts s (contract_id (blake2_256 (phala_cfg F)) (new_info who code data salt k)) = None"
    "t = registered F (new_info who code data salt k) ids u"
proof -
  have "left_state (instantiate_contract F (Signed who) code data salt target s) = Some t" using assms by simp
  then show ?thesis by (cases rule: instantiate_left) (use assms that in auto)
qed

section \<open>The invariant\<close>

text \<open>
  Codes are stored under their hash; the groups have the identifiers of the counter's past values, and
  registered workers; a contract is stored under its identifier and cluster_list once, in its own cluster, which
  has workers; its code is there; the log announces each contract once.
\<close>

definition announced :: "fat_event list \<Rightarrow> bytes list" where
  "announced es = concat (map (\<lambda>e. case e of Instantiating c _ _ \<Rightarrow> [c] | _ \<Rightarrow> []) es)"

definition cluster_list :: "'b fat_chain \<Rightarrow> bytes \<Rightarrow> bytes list" where
  "cluster_list s k = (case Clusters s k of Some cs \<Rightarrow> cs | None \<Rightarrow> [])"

definition groups_ok :: "'b fat_config \<Rightarrow> 'b fat_chain \<Rightarrow> bool" where
  "groups_ok F s \<longleftrightarrow> (\<forall>k ws. ClusterWorkers s k = Some ws \<longrightarrow>
     ws \<noteq> [] \<and> (\<forall>w \<in> set ws. Workers (phala s) w \<noteq> None) \<and>
     (\<exists>n. 0 < n \<and> n \<le> ClusterCounter s \<and> k = from_low_u64_be F n))"

definition contracts_ok :: "'b fat_config \<Rightarrow> 'b fat_chain \<Rightarrow> bool" where
  "contracts_ok F s \<longleftrightarrow> (\<forall>c info. Contracts s c = Some info \<longrightarrow>
     c = contract_id (blake2_256 (phala_cfg F)) info \<and> c \<in> set (cluster_list s (ci_cluster_id info)) \<and>
     ClusterWorkers s (ci_cluster_id info) \<noteq> None \<and> code_present (ci_code_index info) s) \<and>
   (\<forall>k c. c \<in> set (cluster_list s k) \<longrightarrow> (\<exists>info. Contracts s c = Some info \<and> ci_cluster_id info = k)) \<and>
   (\<forall>k. distinct (cluster_list s k)) \<and>
   distinct (announced (fat_log s)) \<and> set (announced (fat_log s)) = dom (Contracts s)"

definition fat_inv :: "'b fat_config \<Rightarrow> 'b fat_chain \<Rightarrow> bool" where
  "fat_inv F s \<longleftrightarrow> (\<forall>h code. Code s h = Some code \<longrightarrow> h = hashing F code) \<and> groups_ok F s \<and> contracts_ok F s"

text \<open>How the storage grows: nothing that is stored is lost, and what is stored of a contract or a group stays.\<close>

definition fat_grows :: "'b fat_chain \<Rightarrow> 'b fat_chain \<Rightarrow> bool" where
  "fat_grows s t \<longleftrightarrow> dom (Code s) \<subseteq> dom (Code t) \<and> ClusterWorkers s \<subseteq>\<^sub>m ClusterWorkers t \<and>
     Contracts s \<subseteq>\<^sub>m Contracts t \<and> ClusterCounter s \<le> ClusterCounter t \<and>
     (\<forall>w. Workers (phala s) w \<noteq> None \<longrightarrow> Workers (phala t) w \<noteq> None)"

lemma groups_okD:
  "groups_ok F s \<Longrightarrow> ClusterWorkers s k = Some ws \<Longrightarrow> ws \<noteq> [] \<and> (\<forall>w \<in> set ws. Workers (phala s) w \<noteq> None) \<and>
     (\<exists>n. 0 < n \<and> n \<le> ClusterCounter s \<and> k = from_low_u64_be F n)"
  unfolding groups_ok_def by blast

lemma contracts_okD:
  "contracts_ok F s \<Longrightarrow> Contracts s c = Some info \<Longrightarrow>
     c = contract_id (blake2_256 (phala_cfg F)) info \<and> c \<in> set (cluster_list s (ci_cluster_id info)) \<and>
     ClusterWorkers s (ci_cluster_id info) \<noteq> None \<and> code_present (ci_code_index info) s"
  "contracts_ok F s \<Longrightarrow> c \<in> set (cluster_list s k) \<Longrightarrow> \<exists>info. Contracts s c = Some info \<and> ci_cluster_id info = k"
  unfolding contracts_ok_def by blast+

lemma code_present_cong: "Code t = Code s \<Longrightarrow> code_present c t = code_present c s"
  by (simp add: code_present_def split: code_index.split)

lemma contracts_ok_mono:
  assumes ok: "contracts_ok F s" and "Contracts t = Contracts s" "Clusters t = Clusters s"
    "announced (fat_log t) = announced (fat_log s)"
    and workers: "dom (ClusterWorkers s) \<subseteq> dom (ClusterWorkers t)" and codes: "dom (Code s) \<subseteq> dom (Code t)"
  shows "contracts_ok F t"
proof -
  have code: "code_present c t" if "code_present c s" for c
    using that codes by (auto simp: code_present_def split: code_index.splits)
  have lists: "cluster_list t = cluster_list s" by (simp add: cluster_list_def assms(3) fun_eq_iff)
  have "ClusterWorkers t (ci_cluster_id i) \<noteq> None \<and> code_present (ci_code_index i) t" if "Contracts s c = Some i" for c i
    using contracts_okD(1) [OF ok that] workers code by blast
  then show ?thesis using ok unfolding contracts_ok_def assms(2,4) lists by blast
qed

lemma fat_grows_refl [simp]: "fat_grows s s"
  by (simp add: fat_grows_def)

lemma fat_grows_trans: "fat_grows s t \<Longrightarrow> fat_grows t u \<Longrightarrow> fat_grows s u"
  by (auto simp: fat_grows_def intro: map_le_trans order_trans)

lemma announced_simps [simp]:
  "announced [] = []" "announced (es @ es') = announced es @ announced es'"
  "announced [Instantiating c k who] = [c]" "announced [CodeUploaded h] = []" "announced [PubkeyAvailable c p] = []"
  "announced [Instantiated c k h] = []" "announced [InstantiationFailed c k h] = []"
  by (simp_all add: announced_def)

text \<open>Steps that touch neither the groups nor the contracts.\<close>

lemma fat_inv_same:
  assumes "fat_inv F s" "ClusterWorkers t = ClusterWorkers s" "ClusterCounter s \<le> ClusterCounter t"
    "Clusters t = Clusters s" "Contracts t = Contracts s" "announced (fat_log t) = announced (fat_log s)"
    "\<And>w. Workers (phala s) w \<noteq> None \<Longrightarrow> Workers (phala t) w \<noteq> None"
    "dom (Code s) \<subseteq> dom (Code t)" "\<And>h code. Code t h = Some code \<Longrightarrow> h = hashing F code"
  shows "fat_inv F t" "fat_grows s t"
proof -
  have "groups_ok F s" "contracts_ok F s" using assms(1) by (simp_all add: fat_inv_def)
  have "groups_ok F t" unfolding groups_ok_def assms(2)
  proof (intro allI impI)
    fix k ws assume "ClusterWorkers s k = Some ws"
    then obtain n where "ws \<noteq> []" "\<forall>w \<in> set ws. Workers (phala s) w \<noteq> None" "0 < n" "n \<le> ClusterCounter s"
        "k = from_low_u64_be F n" using \<open>groups_ok F s\<close> by (auto simp: groups_ok_def)
    then show "ws \<noteq> [] \<and> (\<forall>w \<in> set ws. Workers (phala t) w \<noteq> None) \<and>
        (\<exists>n. 0 < n \<and> n \<le> ClusterCounter t \<and> k = from_low_u64_be F n)"
      using assms(3,7) order_trans by blast
  qed
  moreover have "contracts_ok F t" by (rule contracts_ok_mono [OF \<open>contracts_ok F s\<close>]) (simp_all add: assms)
  ultimately show "fat_inv F t" using assms(9) by (simp add: fat_inv_def)
  show "fat_grows s t" using assms by (simp add: fat_grows_def)
qed

lemma next_cluster_fresh:
  assumes "groups_ok F s" "inj (from_low_u64_be F)" "ClusterCounter s + 1 \<noteq> 0"
  shows "ClusterCounter s < ClusterCounter s + 1" "ClusterWorkers s (from_low_u64_be F (ClusterCounter s + 1)) = None"
proof -
  show less: "ClusterCounter s < ClusterCounter s + 1" using assms(3) by (simp add: word_less_nat_alt unatSuc add.commute)
  show "ClusterWorkers s (from_low_u64_be F (ClusterCounter s + 1)) = None"
  proof (rule ccontr)
    assume "ClusterWorkers s (from_low_u64_be F (ClusterCounter s + 1)) \<noteq> None"
    then obtain n where "n \<le> ClusterCounter s" "from_low_u64_be F (ClusterCounter s + 1) = from_low_u64_be F n"
      using groups_okD [OF assms(1)] by blast
    then show False using injD [OF assms(2)] less by fastforce
  qed
qed

lemma opened_inv:
  assumes inv: "fat_inv F s" and ids: "inj (from_low_u64_be F)" and fits: "ClusterCounter s + 1 \<noteq> 0"
    and ws: "ws \<noteq> []" "\<forall>w \<in> set ws. Workers (phala s) w \<noteq> None"
  shows "fat_inv F (opened F ws s)" "fat_grows s (opened F ws s)"
proof -
  let ?n = "ClusterCounter s + 1" and ?t = "opened F ws s"
  have groups: "groups_ok F s" using inv by (simp add: fat_inv_def)
  note less = next_cluster_fresh(1) [OF groups ids fits] and fresh = next_cluster_fresh(2) [OF groups ids fits]
  have "groups_ok F ?t" unfolding groups_ok_def
  proof (intro allI impI)
    fix k vs assume k: "ClusterWorkers ?t k = Some vs"
    show "vs \<noteq> [] \<and> (\<forall>w \<in> set vs. Workers (phala ?t) w \<noteq> None) \<and>
        (\<exists>n. 0 < n \<and> n \<le> ClusterCounter ?t \<and> k = from_low_u64_be F n)"
    proof (cases "k = from_low_u64_be F ?n")
      case True
      then show ?thesis using k ws fits by (auto simp: opened_def word_neq_0_conv intro!: exI [of _ ?n])
    next
      case False
      then show ?thesis using groups_okD [OF groups, of k vs] k less
        by (auto simp: opened_def intro: order_trans less_imp_le)
    qed
  qed
  moreover have "contracts_ok F ?t"
    by (rule contracts_ok_mono [where s = s]) (use inv in \<open>auto simp: fat_inv_def opened_def\<close>)
  ultimately show "fat_inv F ?t" using inv by (simp add: fat_inv_def opened_def)
  show "fat_grows s ?t" using less fresh
    by (auto simp: fat_grows_def opened_def map_le_def dom_def)
qed

lemma registered_inv:
  assumes inv: "fat_inv F s" and new: "Contracts s (contract_id (blake2_256 (phala_cfg F)) info) = None"
    and code: "code_present (ci_code_index info) s" and k: "ClusterWorkers s (ci_cluster_id info) \<noteq> None"
  shows "fat_inv F (registered F info ids s)" "fat_grows s (registered F info ids s)"
proof -
  let ?c = "contract_id (blake2_256 (phala_cfg F)) info" and ?t = "registered F info ids s"
  have fields: "Contracts ?t = (Contracts s)(?c \<mapsto> info)" "ClusterWorkers ?t = ClusterWorkers s" "Code ?t = Code s"
    "ClusterCounter ?t = ClusterCounter s" "Workers (phala ?t) = Workers (phala s)"
    "announced (fat_log ?t) = announced (fat_log s) @ [?c]"
    "cluster_list ?t j = (if j = ci_cluster_id info then cluster_list s j @ [?c] else cluster_list s j)" for j
    by (simp_all add: registered_def cluster_list_def Let_def)
  have c: "contracts_ok F s" using inv by (simp add: fat_inv_def)
  have unlisted: "?c \<notin> set (cluster_list s j)" for j
  proof
    assume "?c \<in> set (cluster_list s j)"
    then show False using contracts_okD(2) [OF c] new by fastforce
  qed
  have "?c \<notin> dom (Contracts s)" using new by auto
  then have "distinct (announced (fat_log ?t)) \<and> set (announced (fat_log ?t)) = dom (Contracts ?t)"
    using c by (simp add: contracts_ok_def fields)
  moreover have "distinct (cluster_list ?t j)" for j
    using c unlisted by (simp add: contracts_ok_def fields)
  moreover have "\<exists>i. Contracts ?t c = Some i \<and> ci_cluster_id i = j" if "c \<in> set (cluster_list ?t j)" for j c
    using that contracts_okD(2) [OF c, of _ j] new unlisted by (auto simp: fields split: if_splits)
  moreover have "c = contract_id (blake2_256 (phala_cfg F)) i \<and> c \<in> set (cluster_list ?t (ci_cluster_id i)) \<and>
      ClusterWorkers ?t (ci_cluster_id i) \<noteq> None \<and> code_present (ci_code_index i) ?t"
    if "Contracts ?t c = Some i" for c i
    using that contracts_okD(1) [OF c, of _ i] code k code_present_cong [OF fields(3)]
    by (auto simp: fields split: if_splits)
  ultimately have "contracts_ok F ?t" unfolding contracts_ok_def by blast
  moreover have "groups_ok F ?t" using inv by (simp add: fat_inv_def groups_ok_def fields)
  ultimately show "fat_inv F ?t" using inv by (simp add: fat_inv_def fields)
  show "fat_grows s ?t" using new by (auto simp: fat_grows_def fields map_le_def)
qed

section \<open>Every operation keeps it\<close>

lemma instantiate_keeps:
  assumes left: "left_state (instantiate_contract F orig code data salt target s) = Some t"
    and inv: "fat_inv F s" and ids: "inj (from_low_u64_be F)"
    and fits: "fat_fits (Instantiate orig code data salt target) s"
  shows "fat_inv F t \<and> fat_grows s t"
  using left
proof (cases rule: instantiate_left)
  case unchanged
  then show ?thesis using inv by simp
next
  case (counted ws)
  then have "ClusterCounter s < ClusterCounter s + 1" using fits
    by (simp add: fat_fits_def word_less_nat_alt unatSuc add.commute)
  then show ?thesis using inv counted(3) fat_inv_same [OF inv, of t] by (simp add: fat_inv_def)
next
  case (opened ws)
  then show ?thesis using opened_inv [OF inv ids] fits by (simp add: fat_fits_def)
next
  case (created who k ws names u)
  have u: "fat_inv F u \<and> fat_grows s u \<and> Contracts u = Contracts s \<and> Code u = Code s \<and> ClusterWorkers u k = Some ws"
    using created(4,5) opened_inv [OF inv ids, of ws] inv fits
    by (auto simp: placed_def contracts_opened worker_identities_Some fat_fits_def split: deploy_target.splits)
      (simp_all add: opened_def)
  have "code_present code u" using created(3) u code_present_cong by blast
  then show ?thesis
    using registered_inv [of F u "new_info who code data salt k" names] u created(6,7) fat_grows_trans
    by (auto simp: new_info_def)
qed

lemma fat_inv_codes: "fat_inv F s \<Longrightarrow> Code s h = Some code \<Longrightarrow> h = hashing F code"
  by (simp add: fat_inv_def)

lemma fat_exec_keeps:
  assumes ex: "fat_exec F op s = Some t" and inv: "fat_inv F s" and ids: "inj (from_low_u64_be F)"
    and fits: "fat_fits op s"
  shows "fat_inv F t \<and> fat_grows s t"
proof (cases op)
  case (Instantiate orig code data salt target)
  then show ?thesis using instantiate_keeps inv ids fits ex by simp
next
  case (PhalaOp p)
  then obtain r q where run: "phala_exec (phala_codec F) (phala_cfg F) p (phala s) = Some r" "left_state r = Some q"
      and t: "t = s\<lparr>phala := q\<rparr>"
    using ex by (auto split: option.splits)
  then have "registry_grows (phala s) q" using stepsD [OF phala_exec_registry] by blast
  then have workers: "Workers (phala s) w \<noteq> None \<Longrightarrow> Workers q w \<noteq> None" for w
    unfolding registry_grows_def by blast
  then show ?thesis using fat_inv_codes [OF inv] t by (auto intro!: fat_inv_same [OF inv])
next
  case (UploadCode orig code)
  then show ?thesis using ex inv fat_inv_codes [OF inv]
    by (auto simp: upload_code_def Let_def intro!: fat_inv_same [OF inv] split: option.splits if_splits)
next
  case (UploadToCluster orig code k)
  then show ?thesis using ex inv fat_inv_codes [OF inv]
    by (auto simp: upload_code_to_cluster_def fat_push_Ok intro!: fat_inv_same [OF inv] split: option.splits)
next
  case (ContractMessage sender e)
  then show ?thesis using ex inv fat_inv_codes [OF inv]
    by (auto simp: on_contract_message_received_def intro!: fat_inv_same [OF inv]
        split: contract_registry_event.splits if_splits)
next
  case (WorkerReport sender r)
  then show ?thesis using ex inv fat_inv_codes [OF inv]
    by (auto simp: on_worker_contract_message_received_def intro!: fat_inv_same [OF inv]
        split: message_origin.splits worker_contract_report.splits)
qed

lemma fat_reaches_keeps:
  assumes "fat_reaches F s t" "fat_inv F s" "inj (from_low_u64_be F)"
  shows "fat_inv F t \<and> fat_grows s t"
  using assms
proof (induction rule: fat_reaches.induct)
  case (fat_step s t op u)
  then have "fat_inv F t" "fat_grows s t" by simp_all
  then show ?case using fat_exec_keeps [OF fat_step.hyps(3) _ fat_step.prems(2) fat_step.hyps(2)] fat_grows_trans
    by blast
qed simp

end
