(* ===== verification/Oneshot_Transfer.thy ===== *)
theory Oneshot_Transfer
  imports Phala_Base
begin

text \<open>
  One-time transfers, \<open>src/pallets/phala/src/ott.rs\<close>: an account that has not taken part in a transfer may
  distribute amounts to accounts that have not either, and all of them are excluded from then on. The pallet is in
  no runtime of the repository, only in the mock; the currency is a parameter.
\<close>

section \<open>Storage\<close>

record 'b ott_chain =
  ott_bank :: 'b
  BlacklistedAccounts :: "account_id \<rightharpoonup> unit"
  ott_log :: "account_id list list"

datatype ott_error = SenderAlreadyBlacklisted | DestinationAlreadyBlacklisted

type_synonym ('b, 'a) ott_result = "(ott_error dispatch_error, 'a, 'b ott_chain) outcome"

section \<open>The call\<close>

text \<open>One transfer of the loop, with the blacklisted accounts so far.\<close>

fun ott_distribute_each :: "'b currency_ops \<Rightarrow> account_id \<Rightarrow> (account_id \<times> u128) list \<Rightarrow> account_id list \<Rightarrow>
    'b ott_chain \<Rightarrow> ('b, account_id list) ott_result" where
  "ott_distribute_each cur who [] blacklisted s = Ok blacklisted s"
| "ott_distribute_each cur who ((dest, amount) # transfers) blacklisted s =
     (case transfer_keep_alive cur who dest amount (ott_bank s) of
        Inl e \<Rightarrow> Err (External e) s
      | Inr b \<Rightarrow> ott_distribute_each cur who transfers (blacklisted @ [dest])
          (s\<lparr>ott_bank := b, BlacklistedAccounts := (BlacklistedAccounts s)(dest \<mapsto> ())\<rparr>))"

definition ott_distribute :: "'b currency_ops \<Rightarrow> origin \<Rightarrow> (account_id \<times> u128) list \<Rightarrow> 'b ott_chain \<Rightarrow>
    ('b, unit) ott_result" where
  "ott_distribute cur orig transfers s = transactional s
     (case ensure_signed orig of None \<Rightarrow> Err BadOrigin s | Some who \<Rightarrow>
      if BlacklistedAccounts s who \<noteq> None then Err (Module SenderAlreadyBlacklisted) s
      else if \<not> list_all (\<lambda>(dest, _). BlacklistedAccounts s dest = None) transfers
      then Err (Module DestinationAlreadyBlacklisted) s
      else andthen (ott_distribute_each cur who transfers [] s) (\<lambda>blacklisted s.
        let s = s\<lparr>BlacklistedAccounts := (BlacklistedAccounts s)(who \<mapsto> ())\<rparr>;
            blacklisted = blacklisted @ [who]
        in Ok () (s\<lparr>ott_log := ott_log s @ [blacklisted]\<rparr>)))"

definition ott_runtime_upgrade :: "(u64 \<Rightarrow> u64) \<Rightarrow> (u64 \<Rightarrow> u64) \<Rightarrow> 16 word \<Rightarrow> 16 word \<times> u64" where
  "ott_runtime_upgrade reads writes old =
     (let w = 0 + reads 1 in if old = 0 then (1, w + writes 1) else (old, w))"

section \<open>Runs\<close>

inductive ott_reaches :: "'b currency_ops \<Rightarrow> 'b ott_chain \<Rightarrow> 'b ott_chain \<Rightarrow> bool" for cur where
  ott_start: "ott_reaches cur s s"
| ott_step: "ott_reaches cur s t \<Longrightarrow> left_state (ott_distribute cur orig transfers t) = Some u \<Longrightarrow> ott_reaches cur s u"
| ott_other: "ott_reaches cur s t \<Longrightarrow> ott_reaches cur s (t\<lparr>ott_bank := b\<rparr>)"

section \<open>What a distribution does\<close>

lemma not_Some_unit [simp]: "x \<noteq> Some () \<longleftrightarrow> x = None"
  by (cases x) auto

lemma ensure_signed_Some: "ensure_signed orig = Some who \<longleftrightarrow> orig = Signed who"
  by (cases orig) auto

lemma ott_distribute_each_Ok:
  "ott_distribute_each cur who transfers bl s = Ok bl' t \<Longrightarrow>
     bl' = bl @ map fst transfers \<and> ott_log t = ott_log s \<and>
     BlacklistedAccounts t = (\<lambda>a. if a \<in> fst ` set transfers then Some () else BlacklistedAccounts s a)"
proof (induction cur who transfers bl s rule: ott_distribute_each.induct)
  case (2 cur who dest amount transfers bl s)
  then show ?case by (auto simp: fun_eq_iff split: sum.splits)
qed simp

lemma ott_distribute_Ok:
  assumes "ott_distribute cur orig transfers s = Ok () t"
  obtains who where "orig = Signed who" "BlacklistedAccounts s who = None"
    "\<forall>dest \<in> fst ` set transfers. BlacklistedAccounts s dest = None"
    "BlacklistedAccounts t = (\<lambda>a. if a \<in> insert who (fst ` set transfers) then Some () else BlacklistedAccounts s a)"
    "ott_log t = ott_log s @ [map fst transfers @ [who]]"
proof -
  from assms obtain who bl u where who: "orig = Signed who" "BlacklistedAccounts s who = None"
    and dests: "list_all (\<lambda>(dest, _). BlacklistedAccounts s dest = None) transfers"
    and run: "ott_distribute_each cur who transfers [] s = Ok bl u"
    and t: "t = u\<lparr>BlacklistedAccounts := (BlacklistedAccounts u)(who \<mapsto> ()), ott_log := ott_log u @ [bl @ [who]]\<rparr>"
    unfolding ott_distribute_def
    by (auto simp: transactional_def andthen_def ensure_signed_Some Let_def split: option.splits outcome.splits if_splits)
  from dests have "\<forall>dest \<in> fst ` set transfers. BlacklistedAccounts s dest = None"
    by (auto simp: list_all_iff)
  then show ?thesis using that [OF who] ott_distribute_each_Ok [OF run] t by (auto simp: fun_eq_iff)
qed

lemma ott_distribute_Err: "ott_distribute cur orig transfers s = Err e t \<Longrightarrow> t = s"
  by (auto simp: ott_distribute_def transactional_def split: outcome.splits)

text \<open>The accounts excluded are those of the events, and no account is in two events.\<close>

definition ott_inv :: "'b ott_chain \<Rightarrow> bool" where
  "ott_inv s \<longleftrightarrow> dom (BlacklistedAccounts s) = (\<Union>e \<in> set (ott_log s). set e) \<and>
     (\<forall>i j. i < j \<and> j < length (ott_log s) \<longrightarrow> set (ott_log s ! i) \<inter> set (ott_log s ! j) = {})"

lemma ott_distribute_inv:
  assumes "left_state (ott_distribute cur orig transfers s) = Some t" "ott_inv s"
  shows "ott_inv t"
proof (cases "ott_distribute cur orig transfers s")
  case (Ok x u)
  then obtain who where D: "BlacklistedAccounts s who = None"
      "\<forall>dest \<in> fst ` set transfers. BlacklistedAccounts s dest = None"
      "BlacklistedAccounts t = (\<lambda>a. if a \<in> insert who (fst ` set transfers) then Some () else BlacklistedAccounts s a)"
      "ott_log t = ott_log s @ [map fst transfers @ [who]]"
    using ott_distribute_Ok [of cur orig transfers s t] assms(1) by auto
  let ?new = "insert who (fst ` set transfers)"
  have fresh: "?new \<inter> dom (BlacklistedAccounts s) = {}" using D(1,2) by auto
  have old: "set (ott_log s ! i) \<subseteq> dom (BlacklistedAccounts s)" if "i < length (ott_log s)" for i
    using that assms(2) by (auto simp: ott_inv_def)
  have "dom (BlacklistedAccounts t) = dom (BlacklistedAccounts s) \<union> ?new"
    by (simp add: D(3) dom_def Collect_disj_eq Un_commute set_eq_iff)
  then have "dom (BlacklistedAccounts t) = (\<Union>e \<in> set (ott_log t). set e)"
    using assms(2) by (simp add: ott_inv_def D(4) Un_commute)
  moreover have "set (ott_log t ! i) \<inter> set (ott_log t ! j) = {}" if "i < j" "j < length (ott_log t)" for i j
  proof (cases "j < length (ott_log s)")
    case True
    then show ?thesis using that assms(2) by (simp add: ott_inv_def D(4) nth_append)
  next
    case False
    then have j: "j = length (ott_log s)" using that by (simp add: D(4))
    then show ?thesis using old [of i] fresh that by (auto simp: D(4) nth_append)
  qed
  ultimately show ?thesis unfolding ott_inv_def by blast
next
  case (Err e u)
  then show ?thesis using assms ott_distribute_Err [OF Err] by simp
qed (use assms in simp)

lemma ott_reaches_inv: "ott_reaches cur s t \<Longrightarrow> ott_inv s \<Longrightarrow> ott_inv t"
proof (induction rule: ott_reaches.induct)
  case (ott_step s t orig transfers u)
  then show ?case using ott_distribute_inv by blast
qed (simp_all add: ott_inv_def)

lemma ott_reaches_grows:
  "ott_reaches cur s t \<Longrightarrow> dom (BlacklistedAccounts s) \<subseteq> dom (BlacklistedAccounts t) \<and>
     (\<exists>es. ott_log t = ott_log s @ es)"
proof (induction rule: ott_reaches.induct)
  case (ott_step s t orig transfers u)
  show ?case
  proof (cases "ott_distribute cur orig transfers t")
    case (Ok x v)
    then have "ott_distribute cur orig transfers t = Ok () u" using ott_step.hyps(2) by simp
    then show ?thesis using ott_step.IH by (elim ott_distribute_Ok) auto
  next
    case (Err e v)
    then have "u = t" using ott_step.hyps(2) ott_distribute_Err [OF Err] by simp
    then show ?thesis using ott_step.IH by simp
  qed (use ott_step in simp)
qed auto

end
