(* ===== verification/Contract_Claims.thy ===== *)
theory Contract_Claims
  imports Fat_Props Oneshot_Transfer Phala_Demo
begin

text \<open>
  Claims about the fat contracts and the one-time transfers, with the small chain of \<open>Phala_Demo\<close> as
  the storage of their witnesses.
\<close>

section \<open>A small pallet of fat contracts\<close>

definition demo_fat :: "(account_id \<Rightarrow> u128) fat_config" where
  "demo_fat = \<lparr>phala_codec = demo_codec, phala_cfg = demo, hashing = (\<lambda>x. x), from_low_u64_be = (\<lambda>n. replicate (unat n) 0),
     enc_contract_event = (\<lambda>_. []), enc_contract_operation = (\<lambda>_. []), fat_name = ascii ''PhalaFatContracts''\<rparr>"

definition empty_fat :: "(account_id \<Rightarrow> u128) fat_chain" where
  "empty_fat = \<lparr>phala = genesis, Code = Map.empty, ClusterCounter = 0, Clusters = Map.empty, Contracts = Map.empty,
     ClusterWorkers = Map.empty, fat_log = []\<rparr>"

lemma demo_fat_fields [simp]:
  "from_low_u64_be demo_fat = (\<lambda>n. replicate (unat n) 0)" "blake2_256 (phala_cfg demo_fat) = (\<lambda>x. x)"
  "hashing demo_fat = (\<lambda>x. x)"
  by (simp_all add: demo_fat_def demo_def)

lemma demo_ids: "inj (from_low_u64_be demo_fat)"
  by (auto simp: inj_def word_unat_eq_iff dest: arg_cong [where f = length])

lemma empty_fat_fields [simp]:
  "ClusterCounter empty_fat = 0" "Contracts empty_fat = Map.empty" "Code empty_fat = Map.empty"
  "ClusterWorkers empty_fat = Map.empty" "Clusters empty_fat = Map.empty" "fat_log empty_fat = []"
  "Workers (phala empty_fat) worker_a = Some (demo_worker worker_a)"
  by (simp_all add: empty_fat_def)

lemma empty_fat_inv: "fat_inv F empty_fat"
  by (simp add: fat_inv_def groups_ok_def contracts_ok_def cluster_list_def)

definition deploy_op :: fat_op where
  "deploy_op = Instantiate (Signed staker_a) (NativeCode 7) [] [] (NewGroup [worker_a])"

definition demo_info :: contract_info where
  "demo_info = new_info staker_a (NativeCode 7) [] [] [0]"

definition deployed :: "(account_id \<Rightarrow> u128) fat_chain" where
  "deployed = registered demo_fat demo_info
     [\<lparr>id_pubkey = worker_a, id_ecdh_pubkey = []\<rparr>] (opened demo_fat [worker_a] empty_fat)"

lemma demo_deploys:
  "instantiate_contract demo_fat (Signed staker_a) (NativeCode 7) [] [] (NewGroup [worker_a]) empty_fat = Ok () deployed"
  by (simp add: instantiate_in_group code_present_def register_contract_cases contracts_opened deployed_def demo_info_def)
    (simp add: demo_worker_def)

lemma deployed_reached: "fat_reaches demo_fat empty_fat deployed"
  using fat_step [OF fat_start, of deploy_op empty_fat demo_fat deployed]
  by (simp add: deploy_op_def fat_fits_def demo_deploys)

lemma deployed_contract: "Contracts deployed (info_preimage demo_info) = Some demo_info"
  by (simp add: deployed_def registered_def contract_id_def Let_def)

section \<open>Contracts\<close>

text \<open>
  C20. The storage of the fat contracts is well formed in every reachable storage, whatever the other Phala
  pallets do in between: a contract is stored under its identifier, is cluster_list once and only in its own cluster,
  was announced exactly once, its code is there, and its cluster has workers, all of them registered.
\<close>

theorem contracts_well_formed:
  assumes "fat_reaches F s t" "fat_inv F s" "inj (from_low_u64_be F)" "Contracts t c = Some info"
  shows "c = contract_id (blake2_256 (phala_cfg F)) info \<and>
    (\<forall>k. count_list (case Clusters t k of Some cs \<Rightarrow> cs | None \<Rightarrow> []) c = (if k = ci_cluster_id info then 1 else 0)) \<and>
    count_list (announced (fat_log t)) c = 1 \<and>
    (\<forall>h. ci_code_index info = WasmCode h \<longrightarrow> (\<exists>code. Code t h = Some code \<and> hashing F code = h)) \<and>
    (\<exists>ws. ClusterWorkers t (ci_cluster_id info) = Some ws \<and> ws \<noteq> [] \<and> (\<forall>w \<in> set ws. Workers (phala t) w \<noteq> None))"
proof -
  have inv: "fat_inv F t" using fat_reaches_keeps [OF assms(1-3)] by simp
  then have groups: "groups_ok F t" and ok: "contracts_ok F t" by (simp_all add: fat_inv_def)
  note c = contracts_okD(1) [OF ok assms(4)]
  have once: "distinct xs \<Longrightarrow> count_list xs c = (if c \<in> set xs then 1 else 0)" for xs
    by (induction xs) auto
  have "distinct (cluster_list t k)" and "c \<in> set (cluster_list t k) \<longleftrightarrow> k = ci_cluster_id info" for k
    using ok c contracts_okD(2) [OF ok, of c k] assms(4) by (auto simp: contracts_ok_def)
  then have "count_list (cluster_list t k) c = (if k = ci_cluster_id info then 1 else 0)" for k
    using once by simp
  moreover have "distinct (announced (fat_log t))" "c \<in> set (announced (fat_log t))"
    using ok assms(4) by (auto simp: contracts_ok_def)
  then have "count_list (announced (fat_log t)) c = 1" using once by simp
  moreover have "\<exists>code. Code t h = Some code \<and> hashing F code = h" if "ci_code_index info = WasmCode h" for h
    using c that fat_inv_codes [OF inv, of h] by (auto simp: code_present_def)
  moreover obtain ws where "ClusterWorkers t (ci_cluster_id info) = Some ws" using c by blast
  ultimately show ?thesis using c groups_okD [OF groups] by (auto simp: cluster_list_def)
qed

theorem contracts_well_formed_witness:
  "count_list (announced (fat_log deployed)) (info_preimage demo_info) = 1"
  using contracts_well_formed [OF deployed_reached empty_fat_inv demo_ids deployed_contract] by blast

text \<open>
  C19. A contract is instantiated once: after a successful instantiation, whatever happens in between, the same
  account cannot instantiate the same code with the same salt in that cluster again. The second attempt fails
  with \<open>DuplicatedContract\<close> and changes nothing, whatever the data.
\<close>

definition target_cluster :: "'b fat_config \<Rightarrow> deploy_target \<Rightarrow> 'b fat_chain \<Rightarrow> bytes" where
  "target_cluster F target s = (case target of Cluster k \<Rightarrow> k | NewGroup _ \<Rightarrow> from_low_u64_be F (ClusterCounter s + 1))"

theorem contract_is_instantiated_once:
  assumes ok: "instantiate_contract F (Signed who) code data salt target s = Ok () t"
    and inv: "fat_inv F s" "inj (from_low_u64_be F)" "fat_fits (Instantiate (Signed who) code data salt target) s"
    and run: "fat_reaches F t u"
  shows "instantiate_contract F (Signed who) code data' salt (Cluster (target_cluster F target s)) u =
    Err (Module DuplicatedContract) u"
proof -
  let ?h = "blake2_256 (phala_cfg F)"
  obtain k ws ids v where placed: "placed F target s k ws v" and t: "t = registered F (new_info who code data salt k) ids v"
    by (rule instantiate_Ok [OF ok])
  have left: "left_state (instantiate_contract F (Signed who) code data salt target s) = Some t" using ok by simp
  have "fat_inv F t" using instantiate_keeps [OF left inv] by simp
  then have u: "fat_inv F u" "fat_grows t u" using fat_reaches_keeps [OF run _ inv(2)] by simp_all
  have "Contracts t (contract_id ?h (new_info who code data salt k)) = Some (new_info who code data salt k)"
    by (simp add: t registered_def Let_def)
  then have stored: "Contracts u (contract_id ?h (new_info who code data salt k)) = Some (new_info who code data salt k)"
    using u(2) by (auto simp: fat_grows_def map_le_def dom_def)
  have "contract_id ?h (new_info who code data' salt k) = contract_id ?h (new_info who code data salt k)"
    by (simp add: contract_id_def info_preimage_def new_info_def)
  moreover obtain ws' where ws': "ClusterWorkers u k = Some ws'" "code_present code u"
    using contracts_okD(1) [of F u, OF _ stored] u(1) by (auto simp: fat_inv_def new_info_def)
  moreover have "worker_identities (phala u) ws' \<noteq> None"
    using groups_okD [of F u, OF _ ws'(1)] u(1) by (simp add: fat_inv_def worker_identities_None)
  moreover have "k = target_cluster F target s"
    using placed by (simp add: placed_def target_cluster_def split: deploy_target.splits)
  ultimately show ?thesis using stored
    by (auto simp: instantiate_in_cluster register_contract_cases)
qed

theorem contract_is_instantiated_once_witness:
  "instantiate_contract demo_fat (Signed staker_a) (NativeCode 7) [5] [] (Cluster [0]) deployed =
     Err (Module DuplicatedContract) deployed"
  using contract_is_instantiated_once [OF demo_deploys empty_fat_inv demo_ids _ fat_start, of "[5]"]
  by (simp add: fat_fits_def target_cluster_def)

text \<open>
  C30. An instantiation that succeeds sends the workers exactly one message, with the contract and the keys of
  the cluster's workers in their order, and announces the contract. One that fails changes nothing, except
  that a new group may be left behind: with its workers and without a contract when the contract exists
  already, or only counted when a worker is unknown, so that the counter is no cluster's identifier.
\<close>

theorem instantiation_books:
  assumes "left_state (instantiate_contract F (Signed who) code data salt target s) = Some t"
    and "fat_inv F s" "inj (from_low_u64_be F)" "fat_fits (Instantiate (Signed who) code data salt target) s"
  shows "(\<exists>k ws info. instantiate_contract F (Signed who) code data salt target s = Ok () t \<and>
      k = target_cluster F target s \<and> ClusterWorkers t k = Some ws \<and> info = new_info who code data salt k \<and>
      (\<forall>ws'. target = NewGroup ws' \<longrightarrow> ws = ws' \<and> ClusterWorkers s k = None) \<and>
      Contracts t = (Contracts s)(contract_id (blake2_256 (phala_cfg F)) info \<mapsto> info) \<and>
      fat_log t = fat_log s @ [Instantiating (contract_id (blake2_256 (phala_cfg F)) info) k who] \<and>
      OutboundMessages (phala t) = OutboundMessages (phala s) @
        [\<lparr>m_sender = PalletOrigin (fat_name F), m_destination = contract_event_topic,
          m_payload = enc_contract_event F (InstantiateCode info
            (map (\<lambda>w. \<lparr>id_pubkey = wi_pubkey (the (Workers (phala s) w)),
                        id_ecdh_pubkey = wi_ecdh_pubkey (the (Workers (phala s) w))\<rparr>) ws))\<rparr>]) \<or>
    (\<exists>e. instantiate_contract F (Signed who) code data salt target s = Err e t \<and>
      (t = s \<or>
       e = Module DuplicatedContract \<and> (\<exists>ws. target = NewGroup ws \<and> t = opened F ws s) \<or>
       e = Module WorkerNotFound \<and> (\<exists>ws. target = NewGroup ws) \<and> t = s\<lparr>ClusterCounter := ClusterCounter s + 1\<rparr> \<and>
         ClusterWorkers t (from_low_u64_be F (ClusterCounter t)) = None))"
  (is "?created \<or> ?failed")
  using assms(1)
proof (cases rule: instantiate_left)
  case (created who' k ws ids u)
  have who: "who' = who" using created(2) by simp
  have fresh: "ClusterWorkers s (from_low_u64_be F (ClusterCounter s + 1)) = None" if "target = NewGroup ws'" for ws'
    using next_cluster_fresh [of F s] assms(2-4) that by (simp add: fat_inv_def fat_fits_def)
  have ids: "ids = map (\<lambda>w. \<lparr>id_pubkey = wi_pubkey (the (Workers (phala s) w)),
      id_ecdh_pubkey = wi_ecdh_pubkey (the (Workers (phala s) w))\<rparr>) ws"
    using created(4) by (simp add: worker_identities_Some)
  have "?created" unfolding created(1) target_cluster_def
    using created(5) fresh
    by (auto simp: created(7) who ids placed_def registered_def fat_outbox_def opened_def new_info_def Let_def
        split: deploy_target.splits intro!: exI [of _ k] exI [of _ ws])
  then show ?thesis by blast
next
  case (counted ws)
  then have "ClusterWorkers t (from_low_u64_be F (ClusterCounter t)) = None"
    using next_cluster_fresh [of F s] assms(2-4) by (simp add: fat_inv_def fat_fits_def)
  then show ?thesis using counted by blast
next
  case (opened ws)
  then show ?thesis by blast
next
  case (unchanged e)
  then show ?thesis by blast
qed

theorem instantiation_books_witness:
  "\<exists>t. instantiate_contract demo_fat (Signed staker_a) (NativeCode 7) [] [] (NewGroup [staker_b]) empty_fat =
      Err (Module WorkerNotFound) t \<and> ClusterCounter t = 1 \<and> ClusterWorkers t [0] = None"
proof -
  let ?t = "empty_fat\<lparr>ClusterCounter := 1\<rparr>"
  have unknown: "Workers (phala empty_fat) staker_b = None"
    by (simp add: empty_fat_def genesis_def worker_a_def worker_b_def staker_b_def)
  have "instantiate_contract demo_fat (Signed staker_a) (NativeCode 7) [] [] (NewGroup [staker_b]) empty_fat =
      Err (Module WorkerNotFound) ?t"
    by (simp add: instantiate_in_group code_present_def unknown)
  then show ?thesis
    using instantiation_books [of demo_fat staker_a "NativeCode 7" "[]" "[]" "NewGroup [staker_b]" empty_fat ?t]
      empty_fat_inv demo_ids by (simp add: fat_fits_def)
qed

text \<open>
  Two contracts whose codes are of the same kind get the same identifier only when deployer, code,
  cluster and salt are all the same, or when the hash collides on two different preimages.
\<close>

theorem contract_ids_agree:
  assumes "length (ci_deployer i) = 32" "length (ci_deployer j) = 32" "length (ci_cluster_id i) = 32"
    "length (ci_cluster_id j) = 32"
    and "(\<exists>m n. ci_code_index i = NativeCode m \<and> ci_code_index j = NativeCode n) \<or>
      (\<exists>g h. ci_code_index i = WasmCode g \<and> ci_code_index j = WasmCode h \<and> length g = 32 \<and> length h = 32)"
  shows "contract_id blake i = contract_id blake j \<longleftrightarrow>
    (ci_deployer i = ci_deployer j \<and> ci_code_index i = ci_code_index j \<and> ci_cluster_id i = ci_cluster_id j \<and>
       ci_salt i = ci_salt j) \<or>
    (info_preimage i \<noteq> info_preimage j \<and> blake (info_preimage i) = blake (info_preimage j))"
proof -
  have "sized i" "sized j" "same_kind (ci_code_index i) (ci_code_index j)"
    using assms by (auto simp: sized_def same_kind_def)
  note inj = info_preimage_inj [OF this]
  show ?thesis unfolding contract_id_def inj [symmetric] by metis
qed

theorem contract_ids_agree_witness:
  "contract_id (\<lambda>x. x) (new_info (replicate 32 1) (NativeCode 258) [] [] (replicate 32 0)) \<noteq>
   contract_id (\<lambda>x. x) (new_info (replicate 32 1) (NativeCode 513) [] [] (replicate 32 0))"
  using contract_ids_agree [of "new_info (replicate 32 1) (NativeCode 258) [] [] (replicate 32 0)"
      "new_info (replicate 32 1) (NativeCode 513) [] [] (replicate 32 0)" "\<lambda>x. x"]
  by (simp add: new_info_def)

section \<open>One-time transfers\<close>

text \<open>
  C35. An account takes part in at most one successful distribution, as the sender or as a receiver: whatever
  happens to the balances in between, the accounts of two successful distributions are disjoint.
\<close>

theorem transfers_are_one_time:
  assumes "ott_distribute cur orig transfers s = Ok () t" "ott_reaches cur t u"
    and "ott_distribute cur orig' transfers' u = Ok () v"
  shows "\<exists>who who'. orig = Signed who \<and> orig' = Signed who' \<and>
    insert who (fst ` set transfers) \<inter> insert who' (fst ` set transfers') = {}"
proof -
  from assms(1) obtain who where first: "orig = Signed who"
      "BlacklistedAccounts t = (\<lambda>a. if a \<in> insert who (fst ` set transfers) then Some () else BlacklistedAccounts s a)"
    by (rule ott_distribute_Ok)
  from assms(3) obtain who' where second: "orig' = Signed who'" "BlacklistedAccounts u who' = None"
      "\<forall>dest \<in> fst ` set transfers'. BlacklistedAccounts u dest = None"
    by (rule ott_distribute_Ok)
  have "insert who (fst ` set transfers) \<subseteq> dom (BlacklistedAccounts t)"
    unfolding first(2) dom_def by simp blast
  also have "\<dots> \<subseteq> dom (BlacklistedAccounts u)" using ott_reaches_grows [OF assms(2)] by simp
  finally have "insert who (fst ` set transfers) \<inter> insert who' (fst ` set transfers') = {}"
    using second(2,3) by blast
  then show ?thesis using first(1) second(1) by blast
qed

definition funded :: "(account_id \<Rightarrow> u128) ott_chain" where
  "funded = \<lparr>ott_bank = (\<lambda>_. 100), BlacklistedAccounts = Map.empty, ott_log = []\<rparr>"

lemma funded_distributes: "\<exists>t. ott_distribute demo_currency (Signed [10]) [([11], 5), ([12], 7)] funded = Ok () t \<and>
  (\<exists>v. ott_distribute demo_currency (Signed [13]) [([14], 1)] t = Ok () v)"
  by (simp add: ott_distribute_def funded_def demo_currency_def Let_def)

theorem transfers_are_one_time_witness:
  "insert [10] (fst ` set [([11 :: u8], 5 :: u128), ([12], 7)]) \<inter> insert [13] (fst ` set [([14], 1 :: u128)]) = {}"
proof -
  obtain t v where "ott_distribute demo_currency (Signed [10]) [([11], 5), ([12], 7)] funded = Ok () t"
      "ott_distribute demo_currency (Signed [13]) [([14], 1)] t = Ok () v"
    using funded_distributes by blast
  then show ?thesis using transfers_are_one_time [OF _ ott_start] by blast
qed

text \<open>
  A distribution has no bound on the number of receivers.
\<close>

lemma distribution_is_unbounded:
  "\<exists>t. ott_distribute demo_currency (Signed [10]) (replicate n ([11], 0)) funded = Ok () t"
proof -
  have "\<exists>bl' t. ott_distribute_each demo_currency [10] (replicate n ([11], 0)) bl s = Ok bl' t" for bl s
    by (induction n arbitrary: bl s) (simp_all add: demo_currency_def)
  then obtain bl t where "ott_distribute_each demo_currency [10] (replicate n ([11], 0)) [] funded = Ok bl t" by blast
  then show ?thesis by (simp add: ott_distribute_def funded_def Let_def list_all_iff)
qed

end
