(* ===== verification/Sibling_Runtimes.thy ===== *)
theory Sibling_Runtimes
  imports Khala_Claims Khala_Config
begin

text \<open>
  The sibling runtimes, \<open>lib.rs\<close> of \<open>src/runtime/thala\<close>, \<open>rhala\<close>, \<open>phala\<close> and \<open>shell\<close>: which pallets they have,
  their base filters and the filters of their proxy types over the calls of \<open>Khala_Calls\<close> and those of
  the sudo pallet, and the constants in which Thala and Rhala differ from Khala. Where a filter of a sibling
  is, text for text, the one of Khala, its definition refers to Khala's.
\<close>

section \<open>Calls and pallets\<close>

datatype sibling_call = Shared khala_call | SudoCall

text \<open>The pallets with calls a runtime has; Thala has all of Khala's.\<close>

definition thala_has :: "sibling_call \<Rightarrow> bool" where
  "thala_has c = True"

definition rhala_has :: "sibling_call \<Rightarrow> bool" where
  "rhala_has c \<longleftrightarrow> c \<noteq> Shared XcmTransferCall"

definition phala_has :: "sibling_call \<Rightarrow> bool" where
  "phala_has c = (case c of SudoCall \<Rightarrow> True | Shared k \<Rightarrow> (case k of
       PolkadotXcmCall _ \<Rightarrow> False | PhalaMqCall _ \<Rightarrow> False | PhalaRegistryCall _ \<Rightarrow> False | PhalaStakePoolCall _ \<Rightarrow> False
     | _ \<Rightarrow> k \<notin> {XcmpQueueCall, DmpQueueCall, ChainBridgeCall, BridgeTransferCall, XcmTransferCall, PhalaMiningCall,
                AssetsWrapperCall}))"

section \<open>Base filters\<close>

text \<open>\<open>None\<close> is the \<open>unimplemented!()\<close> of Thala on the variant \<open>__Ignore\<close>, which no call can have.\<close>

definition thala_base_filter :: "sibling_call utility_call \<Rightarrow> bool option" where
  "thala_base_filter c = (case c of Inner (Shared k) \<Rightarrow> (case k of
       PolkadotXcmCall m \<Rightarrow>
         (if m \<in> {SendXcm, ExecuteXcm, TeleportAssets, ReserveTransferAssets, LimitedReserveTransferAssets,
                  LimitedTeleportAssets} then Some False
          else if m = XcmIgnore then None else Some True)
     | AssetsCall m \<Rightarrow>
         (if m \<in> {CreateAsset, ForceCreateAsset, SetAssetMetadata, ForceSetAssetMetadata} then Some False
          else if m = AssetsIgnore then None else Some True)
     | AssetsWrapperCall \<Rightarrow> Some False
     | _ \<Rightarrow> Some True)
   | _ \<Rightarrow> Some True)"

definition rhala_base_filter :: "sibling_call utility_call \<Rightarrow> bool" where
  "rhala_base_filter c = (case c of Inner (Shared k) \<Rightarrow> (case k of
       PolkadotXcmCall m \<Rightarrow> m \<in> {ForceXcmVersion, ForceDefaultXcmVersion, ForceSubscribeVersionNotify,
                               ForceUnsubscribeVersionNotify, SendXcm}
     | AssetsCall _ \<Rightarrow> False
     | _ \<Rightarrow> k \<notin> {AssetsWrapperCall, XcmpQueueCall, DmpQueueCall, XcmTransferCall})
   | _ \<Rightarrow> True)"

definition phala_base_filter :: "sibling_call utility_call \<Rightarrow> bool" where
  "phala_base_filter c = (case c of
     Inner (Shared k) \<Rightarrow> (case k of ProxyCall _ \<Rightarrow> True
       | _ \<Rightarrow> k \<in> {SystemCall, TimestampCall, MultisigCall, SchedulerCall, ParachainSystemCall, AuthorshipCall,
                  CollatorSelectionCall, SessionCall, IdentityCall, TreasuryCall})
   | Inner SudoCall \<Rightarrow> False
   | _ \<Rightarrow> True)"

definition shell_base_filter :: "'c \<Rightarrow> bool" where
  "shell_base_filter c = True"

text \<open>A signed extension of Shell that refuses everything; the runtime does not use it.\<close>

definition disallow_signed_validate :: "account_id \<Rightarrow> 'c \<Rightarrow> string + 'v" where
  "disallow_signed_validate who call = Inl ''BadProof''"

definition disallow_signed_pre_dispatch :: "account_id \<Rightarrow> 'c \<Rightarrow> string + unit" where
  "disallow_signed_pre_dispatch who call =
     (case (disallow_signed_validate who call :: string + unit) of Inl e \<Rightarrow> Inl e | Inr _ \<Rightarrow> Inr ())"

section \<open>Proxies\<close>

definition thala_proxy_filter :: "proxy_type \<Rightarrow> sibling_call utility_call \<Rightarrow> bool" where
  "thala_proxy_filter p c = (case c of
     Inner (Shared k) \<Rightarrow> proxy_filter p (Inner k) | Inner SudoCall \<Rightarrow> p = AnyProxy | _ \<Rightarrow> True)"

definition rhala_proxy_filter :: "proxy_type \<Rightarrow> sibling_call utility_call \<Rightarrow> bool" where
  "rhala_proxy_filter p c = (case c of
     Inner (Shared k) \<Rightarrow> proxy_filter p (Inner k) | Inner SudoCall \<Rightarrow> p = AnyProxy | _ \<Rightarrow> True)"

datatype phala_proxy_type = PhalaAny | PhalaNonTransfer | PhalaCancelProxy | PhalaGovernance | PhalaCollator

definition default_phala_proxy_type :: phala_proxy_type where "default_phala_proxy_type = PhalaAny"

definition phala_proxy_filter :: "phala_proxy_type \<Rightarrow> sibling_call utility_call \<Rightarrow> bool" where
  "phala_proxy_filter p c = (case c of
     Inner SudoCall \<Rightarrow> p = PhalaAny
   | Inner (Shared k) \<Rightarrow> (case p of
       PhalaAny \<Rightarrow> True
     | PhalaNonTransfer \<Rightarrow> (case k of ProxyCall _ \<Rightarrow> True
         | _ \<Rightarrow> k \<in> {SystemCall, TimestampCall, SessionCall, DemocracyCall, CouncilCall, PhragmenElectionCall,
                    TechnicalCommitteeCall, TechnicalMembershipCall, TreasuryCall, BountiesCall, TipsCall, IdentityCall,
                    VestingCall Vest, VestingCall VestOther, SchedulerCall, MultisigCall})
     | PhalaCancelProxy \<Rightarrow> k \<in> {ProxyCall RejectAnnouncement, MultisigCall}
     | PhalaGovernance \<Rightarrow> k \<in> {DemocracyCall, PhragmenElectionCall, CouncilCall, TechnicalCommitteeCall, TreasuryCall,
         BountiesCall, TipsCall, LotteryCall}
     | PhalaCollator \<Rightarrow> k \<in> {CollatorSelectionCall, MultisigCall})
   | _ \<Rightarrow> True)"

definition phala_is_superset :: "phala_proxy_type \<Rightarrow> phala_proxy_type \<Rightarrow> bool" where
  "phala_is_superset x y = (if x = y then True
     else if x = PhalaAny then True
     else if y = PhalaAny then False
     else x = PhalaNonTransfer)"

section \<open>The utility pallet in the siblings\<close>

definition thala_utility :: "(sibling_call, 's) utility_config \<Rightarrow> (sibling_call, 's) utility_config" where
  "thala_utility U = U\<lparr>base_call_filter := \<lambda>c. thala_base_filter c = Some True\<rparr>"

definition rhala_utility :: "(sibling_call, 's) utility_config \<Rightarrow> (sibling_call, 's) utility_config" where
  "rhala_utility U = U\<lparr>base_call_filter := rhala_base_filter\<rparr>"

definition phala_utility :: "(sibling_call, 's) utility_config \<Rightarrow> (sibling_call, 's) utility_config" where
  "phala_utility U = U\<lparr>base_call_filter := phala_base_filter\<rparr>"

text \<open>As on Khala: the origin a proxy of a type has a call dispatched with.\<close>

definition sibling_proxied :: "(sibling_call, 's) utility_config \<Rightarrow> (sibling_call utility_call \<Rightarrow> bool) \<Rightarrow> account_id \<Rightarrow>
    sibling_call filtered_origin" where
  "sibling_proxied U proxied real = add_filter proxied (origin_from U (Signed real))"

definition sibling_moves_funds :: "sibling_call \<Rightarrow> bool" where
  "sibling_moves_funds c = (case c of Shared k \<Rightarrow> moves_funds k | SudoCall \<Rightarrow> False)"

section \<open>Constants\<close>

text \<open>The constants of the Phala pallets and of the bridge; execution prices and fee assets are Khala's on Thala, none on Rhala.\<close>

definition thala_phala :: "'b phala_config \<Rightarrow> 'b phala_config" where
  "thala_phala T = T\<lparr>
     ExpectedBlockTimeSec := ucast SECS_PER_BLOCK,
     MinInitP := 50,
     MinContribution := 1 * CENTS,
     GracePeriod := 1 * 3600,
     MaxPoolWorkers := 200,
     VerifyPRuntime := False,
     VerifyRelaychainGenesisBlockHash := False\<rparr>"

definition rhala_phala :: "'b phala_config \<Rightarrow> 'b phala_config" where
  "rhala_phala T = T\<lparr>
     ExpectedBlockTimeSec := ucast SECS_PER_BLOCK,
     MinInitP := 50,
     MinContribution := 1 * CENTS,
     GracePeriod := 1 * 3600,
     MaxPoolWorkers := 200,
     VerifyPRuntime := False,
     VerifyRelaychainGenesisBlockHash := False\<rparr>"

definition thala_bridge :: "('call, 's) bridge_config \<Rightarrow> ('call, 's) bridge_config" where
  "thala_bridge B = B\<lparr>BridgeChainId := 1, ProposalLifetime := 50400\<rparr>"

definition rhala_bridge :: "('call, 's) bridge_config \<Rightarrow> ('call, 's) bridge_config" where
  "rhala_bridge B = B\<lparr>BridgeChainId := 1, ProposalLifetime := 50400\<rparr>"

definition thala_fee_table :: "u32 \<Rightarrow> (multi_location \<times> u128) list" where
  "thala_fee_table para =
     [(at_location 1 [], 600), (at_location 1 [Parachain para], 1), (at_location 0 [], 1),
      (sibling_asset karura_id KAR_KEY, 8), (sibling_asset karura_id KUSD_KEY, 4),
      (sibling_asset bifrost_id BNC_KEY, 4), (sibling_asset bifrost_id VSKSM_KEY, 600),
      (sibling_asset bifrost_id ZLK_KEY, 4)]"

definition thala_execution_prices :: "u32 \<Rightarrow> u128 \<Rightarrow> (xcm_asset_id \<times> u128) list" where
  "thala_execution_prices para per_second =
     map (\<lambda>(loc, k). (Concrete loc, per_second div k)) (thala_fee_table para)"

definition thala_fee_assets :: "u32 \<Rightarrow> multi_asset list" where
  "thala_fee_assets para = map (\<lambda>(loc, _). fungible_at loc (- 1)) (thala_fee_table para)"

definition thala_xt :: "u128 \<Rightarrow> 'x xt_config \<Rightarrow> 'x xt_config" where
  "thala_xt per_second X = X\<lparr>
     fee_assets_contain := (\<lambda>a. \<exists>i \<in> set (thala_fee_assets (parachain_id X)). asset_contains X i a),
     wrapper_min_balance := ExistentialDeposit,
     native_execution_price := per_second,
     execution_price_info := thala_execution_prices (parachain_id X) per_second,
     default_xcm_fee := 10 * CENTS\<rparr>"

text \<open>
  On Rhala the XCM executor has no transactor and no trader, and the bridge no execution prices.
\<close>

definition rhala_xt :: "u128 \<Rightarrow> 'x xt_config \<Rightarrow> 'x xt_config" where
  "rhala_xt per_second X = X\<lparr>
     wrapper_min_balance := ExistentialDeposit,
     native_execution_price := per_second,
     execution_price_info := []\<rparr>"

end
