(* ===== verification/Sibling_Claims.thy ===== *)
theory Sibling_Claims
  imports Sibling_Runtimes Xt_Claims
begin

text \<open>
  Claims about the sibling runtimes: what users and proxies can have executed on them, against Khala, and what
  can leave Rhala over its bridge.
\<close>

section \<open>The filters against Khala's\<close>

text \<open>The base filters of Thala and Rhala in terms of Khala's.\<close>

lemma sibling_filters:
  "thala_base_filter (Inner (Shared k)) = Some True \<longleftrightarrow> khala_base_filter (Inner k) \<and> k \<noteq> PolkadotXcmCall SendXcm"
  "rhala_base_filter (Inner (Shared k)) \<longleftrightarrow> khala_base_filter (Inner k) \<and>
     (\<forall>m. k \<noteq> AssetsCall m) \<and> k \<notin> {XcmpQueueCall, DmpQueueCall, XcmTransferCall}"
  "phala_base_filter (Inner (Shared k)) \<Longrightarrow> khala_base_filter (Inner k) \<and> \<not> moves_funds k"
proof -
  have xcm: "m \<in> {SendXcm, ExecuteXcm, TeleportAssets, ReserveTransferAssets, LimitedReserveTransferAssets,
      LimitedTeleportAssets, XcmIgnore, ForceXcmVersion, ForceDefaultXcmVersion, ForceSubscribeVersionNotify,
      ForceUnsubscribeVersionNotify}" for m by (cases m) simp_all
  show "thala_base_filter (Inner (Shared k)) = Some True \<longleftrightarrow> khala_base_filter (Inner k) \<and> k \<noteq> PolkadotXcmCall SendXcm"
    using xcm by (auto simp: thala_base_filter_def khala_base_filter_def split: khala_call.splits)
  show "rhala_base_filter (Inner (Shared k)) \<longleftrightarrow> khala_base_filter (Inner k) \<and>
     (\<forall>m. k \<noteq> AssetsCall m) \<and> k \<notin> {XcmpQueueCall, DmpQueueCall, XcmTransferCall}"
    by (auto simp: rhala_base_filter_def khala_base_filter_def split: khala_call.splits)
  show "phala_base_filter (Inner (Shared k)) \<Longrightarrow> khala_base_filter (Inner k) \<and> \<not> moves_funds k"
    by (auto simp: phala_base_filter_def khala_base_filter_def moves_funds_def split: khala_call.splits)
qed

text \<open>Thala charges Khala's fees.\<close>

lemma thala_fees: "thala_xt = khala_xt"
  by (simp add: fun_eq_iff thala_xt_def khala_xt_def thala_fee_assets_def khala_fee_assets_def
      thala_execution_prices_def execution_prices_def thala_fee_table_def khala_fee_table_def DefaultDestChainXcmFee_def)

section \<open>Nested calls\<close>

lemma signed_within:
  "(\<And>k. base_call_filter U (Inner k) \<Longrightarrow> f k) \<Longrightarrow> within f (origin_from U (Signed who))"
  by (simp add: within_def origin_from_def)

lemma proxied_within:
  "(\<And>k. p (Inner k) \<Longrightarrow> base_call_filter U (Inner k) \<Longrightarrow> f k) \<Longrightarrow> within f (sibling_proxied U p real)"
  by (auto simp: within_def sibling_proxied_def add_filter_def origin_from_def)

lemma confined_dispatch:
  assumes "within f o'" "V' = V\<lparr>inner_dispatch := d\<rparr>" "\<forall>o1 k s. f k \<longrightarrow> d o1 k s = inner_dispatch V o1 k s"
  shows "filtered_dispatch V' False o' c s = filtered_dispatch V False o' c s"
  unfolding assms(2) using assms(3,1) by (rule filter_confines(2)) simp

text \<open>
  C21. On Phala no transfer of funds and no use of the sudo key gets through: whatever a signed account submits, with batches,
  derivative accounts and dispatches nested at will, no call that moves funds and no call of the sudo pallet is
  executed. So the sudo pallet the runtime contains, and whose key the genesis sets, cannot be used.
\<close>

theorem phala_funds_stay_in_place:
  assumes "\<forall>o1 k s. \<not> sibling_moves_funds k \<and> k \<noteq> SudoCall \<longrightarrow> d o1 k s = inner_dispatch U o1 k s"
  shows "filtered_dispatch (phala_utility (U\<lparr>inner_dispatch := d\<rparr>)) False (origin_from (phala_utility U) (Signed who)) c s =
    filtered_dispatch (phala_utility U) False (origin_from (phala_utility U) (Signed who)) c s"
proof -
  let ?f = "\<lambda>k. \<not> sibling_moves_funds k \<and> k \<noteq> SudoCall"
  have "?f k" if "base_call_filter (phala_utility U) (Inner k)" for k
    using that sibling_filters(3)
    by (cases k) (auto simp: phala_utility_def sibling_moves_funds_def phala_base_filter_def)
  then have "within ?f (origin_from (phala_utility U) (Signed who))" by (rule signed_within)
  then show ?thesis by (rule confined_dispatch) (use assms in \<open>simp_all add: phala_utility_def\<close>)
qed

definition demo_sibling :: "(sibling_call, sibling_call list \<times> utility_event list) utility_config" where
  "demo_sibling = \<lparr>inner_dispatch = (\<lambda>_ k (ks, es). Ok None (ks @ [k], es)),
     info_weight = (\<lambda>_. 10), base_call_filter = (\<lambda>_. True), utility_deposit = (\<lambda>e (ks, es). (ks, es @ [e])),
     batch_weight = (\<lambda>n. ucast n), batch_all_weight = (\<lambda>n. ucast n), batch_try_weight = (\<lambda>n. ucast n), dispatch_as_weight = 1,
     as_derivative_weight = 1, reads_writes_weight = 1,
     blake2_256 = id, max_allocation = 33554432, size_of_call = 200\<rparr>"

theorem phala_funds_stay_in_place_witness:
  "filtered_dispatch (phala_utility (demo_sibling\<lparr>inner_dispatch := (\<lambda>_ k (ks, es).
      if sibling_moves_funds k \<or> k = SudoCall then Panic else Ok None (ks @ [k], es))\<rparr>)) False
      (origin_from (phala_utility demo_sibling) (Signed [1])) (Batch [Inner (Shared SystemCall), Inner SudoCall]) ([], []) =
    filtered_dispatch (phala_utility demo_sibling) False (origin_from (phala_utility demo_sibling) (Signed [1]))
      (Batch [Inner (Shared SystemCall), Inner SudoCall]) ([], [])"
  by (rule phala_funds_stay_in_place) (simp add: demo_sibling_def split: prod.splits)



section \<open>The bridge of Rhala\<close>

text \<open>
  Without execution prices the bridge of Rhala carries no asset but the native one: a transfer of any other
  asset, registered or not, is refused and changes nothing.
\<close>

theorem rhala_bridge_refuses_assets:
  assumes "\<not> is_native_asset_id X (asset_location asset)"
  shows "\<exists>e. transfer_assets (rhala_xt pps X) orig asset d to amount s = Err e s"
proof -
  have "\<not> is_native_asset (rhala_xt pps X) (fungible_at (asset_location asset) amount)"
    using assms by (simp add: is_native_asset_def is_native_asset_id_def rhala_xt_def)
  then have "get_fee (rhala_xt pps X) d (fungible_at (asset_location asset) amount) s =
      (Ok None s :: (xt_error, u128 option, _) outcome)"
    by (simp add: get_fee_def rhala_xt_def Let_def split: option.split)
  then show ?thesis
    by (auto simp: transfer_assets_def transactional_def andthen_def convert_balance_def Let_def
        split: option.splits outcome.splits if_splits)
qed

theorem rhala_bridge_refuses_assets_witness:
  "\<exists>e. transfer_assets (rhala_xt 116550000000000 small_pallets) (Signed [7]) ksm 2 [3] 200 xt_ready = Err e xt_ready"
  by (rule rhala_bridge_refuses_assets) (simp add: is_native_asset_id_def ksm_def)

end
