(* ===== verification/Parachains_Db.thy ===== *)
theory Parachains_Db
  imports Rust_Text
begin

text \<open>
  The database of the parachain subsystems, \<open>src/polkadot/node/service/src/parachains_db\<close>: opening it with its
  columns after an upgrade of its layout, which a version file records. The directory is a record; RocksDB is a
  parameter. What an operation leaves behind stays also when it fails.
\<close>

section \<open>Columns\<close>

definition NUM_COLUMNS_V0 :: u32 where "NUM_COLUMNS_V0 = 3"
definition NUM_COLUMNS :: u32 where "NUM_COLUMNS = 5"
definition COL_AVAILABILITY_DATA :: u32 where "COL_AVAILABILITY_DATA = 0"
definition COL_AVAILABILITY_META :: u32 where "COL_AVAILABILITY_META = 1"
definition COL_APPROVAL_DATA :: u32 where "COL_APPROVAL_DATA = 2"
definition COL_CHAIN_SELECTION_DATA :: u32 where "COL_CHAIN_SELECTION_DATA = 3"
definition COL_DISPUTE_COORDINATOR_DATA :: u32 where "COL_DISPUTE_COORDINATOR_DATA = 4"

record columns_config =
  col_availability_data :: u32
  col_availability_meta :: u32
  col_approval_data :: u32
  col_chain_selection_data :: u32
  col_dispute_coordinator_data :: u32

definition REAL_COLUMNS :: columns_config where
  "REAL_COLUMNS = \<lparr>col_availability_data = COL_AVAILABILITY_DATA, col_availability_meta = COL_AVAILABILITY_META,
     col_approval_data = COL_APPROVAL_DATA, col_chain_selection_data = COL_CHAIN_SELECTION_DATA,
     col_dispute_coordinator_data = COL_DISPUTE_COORDINATOR_DATA\<rparr>"

record cache_sizes =
  availability_data :: nat
  availability_meta :: nat
  approval_data :: nat

definition default_cache_sizes :: cache_sizes where
  "default_cache_sizes = \<lparr>availability_data = 25, availability_meta = 1, approval_data = 5\<rparr>"

section \<open>The directory and the database\<close>

datatype version_entry = NoVersionFile | UnreadableVersion nat | VersionText string

record 'd db_dir =
  dir_listable :: bool
  version_file :: version_entry
  database :: "'d option"
  other_entries :: bool

record database_config =
  columns :: u32
  memory_budget :: "u32 \<rightharpoonup> nat"

text \<open>
  \<open>create_dir_all\<close> and \<open>write\<close> may fail with an I/O error, the latter with the file in any state; opening a database and
  adding a column may fail and leave a database behind; a path may not be UTF-8.
\<close>

record 'd db_env =
  path_is_utf8 :: bool
  create_dir_all :: "'d db_dir \<Rightarrow> nat + 'd db_dir"
  write_file :: "string \<Rightarrow> version_entry \<Rightarrow> nat option \<times> version_entry"
  rocks_open :: "database_config \<Rightarrow> 'd option \<Rightarrow> nat \<times> 'd option + 'd"
  rocks_add_column :: "'d \<Rightarrow> nat option \<times> 'd"

datatype db_error =
    IoError nat | BadPath | CorruptedVersionFile | FutureVersion u32 u32

type_synonym ('d, 'a) db_result = "(db_error, 'a, 'd db_dir) outcome"

section \<open>The version\<close>

definition CURRENT_VERSION :: u32 where "CURRENT_VERSION = 1"

definition current_version :: "'d db_dir \<Rightarrow> db_error + u32" where
  "current_version s = (case version_file s of
     NoVersionFile \<Rightarrow> Inr CURRENT_VERSION
   | UnreadableVersion e \<Rightarrow> Inl (IoError e)
   | VersionText content \<Rightarrow>
       (case parse_u32 content of None \<Rightarrow> Inl CorruptedVersionFile | Some v \<Rightarrow> Inr v))"

definition make_dir :: "'d db_env \<Rightarrow> 'd db_dir \<Rightarrow> ('d, unit) db_result" where
  "make_dir E s = (case create_dir_all E s of Inl e \<Rightarrow> Err (IoError e) s | Inr s \<Rightarrow> Ok () s)"

definition update_version :: "'d db_env \<Rightarrow> 'd db_dir \<Rightarrow> ('d, unit) db_result" where
  "update_version E s =
     andthen (make_dir E s) (\<lambda>_ s.
       case write_file E (show_nat (unat CURRENT_VERSION)) (version_file s) of
         (Some e, v) \<Rightarrow> Err (IoError e) (s\<lparr>version_file := v\<rparr>)
       | (None, v) \<Rightarrow> Ok () (s\<lparr>version_file := v\<rparr>))"

definition open_database :: "'d db_env \<Rightarrow> database_config \<Rightarrow> 'd db_dir \<Rightarrow> ('d, 'd) db_result" where
  "open_database E cfg s = (case rocks_open E cfg (database s) of
     Inl (e, d) \<Rightarrow> Err (IoError e) (s\<lparr>database := d\<rparr>)
   | Inr db \<Rightarrow> Ok db (s\<lparr>database := Some db\<rparr>))"

definition add_column :: "'d db_env \<Rightarrow> 'd \<Rightarrow> 'd db_dir \<Rightarrow> ('d, 'd) db_result" where
  "add_column E db s = (case rocks_add_column E db of
     (Some e, d) \<Rightarrow> Err (IoError e) (s\<lparr>database := Some d\<rparr>)
   | (None, d) \<Rightarrow> Ok d (s\<lparr>database := Some d\<rparr>))"

definition migrate_from_version_0_to_1 :: "'d db_env \<Rightarrow> 'd db_dir \<Rightarrow> ('d, unit) db_result" where
  "migrate_from_version_0_to_1 E s =
     (if \<not> path_is_utf8 E then Err BadPath s
      else andthen (open_database E \<lparr>columns = NUM_COLUMNS_V0, memory_budget = Map.empty\<rparr> s) (\<lambda>db s.
           andthen (add_column E db s) (\<lambda>db s.
           andthen (add_column E db s) (\<lambda>_ s. Ok () s))))"

definition dir_is_empty :: "'d db_dir \<Rightarrow> bool" where
  "dir_is_empty s \<longleftrightarrow> \<not> dir_listable s \<or> (version_file s = NoVersionFile \<and> database s = None \<and> \<not> other_entries s)"

definition try_upgrade_db :: "'d db_env \<Rightarrow> 'd db_dir \<Rightarrow> ('d, unit) db_result" where
  "try_upgrade_db E s =
     andthen
       (if dir_is_empty s then Ok () s
        else case current_version s of
               Inl e \<Rightarrow> Err e s
             | Inr v \<Rightarrow> (if v = 0 then migrate_from_version_0_to_1 E s
                        else if v = CURRENT_VERSION then Ok () s
                        else Err (FutureVersion CURRENT_VERSION v) s))
       (\<lambda>_ s. update_version E s)"

definition open_creating :: "'d db_env \<Rightarrow> cache_sizes \<Rightarrow> 'd db_dir \<Rightarrow> ('d, 'd) db_result" where
  "open_creating E sizes s =
     (let cfg = \<lparr>columns = NUM_COLUMNS, memory_budget =
            [COL_AVAILABILITY_DATA \<mapsto> availability_data sizes, COL_AVAILABILITY_META \<mapsto> availability_meta sizes,
             COL_APPROVAL_DATA \<mapsto> approval_data sizes]\<rparr>
      in if \<not> path_is_utf8 E then Err BadPath s
      else andthen (make_dir E s) (\<lambda>_ s.
           andthen (try_upgrade_db E s) (\<lambda>_ s. open_database E cfg s)))"

text \<open>None of this panics.\<close>

lemma andthen_panics: "andthen r f = Panic \<longleftrightarrow> r = Panic \<or> (\<exists>x s. r = Ok x s \<and> f x s = Panic)"
  by (cases r) auto

lemma db_steps_no_panic:
  "make_dir E s \<noteq> Panic" "update_version E s \<noteq> Panic" "open_database E cfg s \<noteq> Panic" "add_column E db s \<noteq> Panic"
  by (auto simp: make_dir_def update_version_def open_database_def add_column_def andthen_panics
      split: sum.splits option.splits prod.splits)

lemma open_creating_no_panic: "open_creating E sizes s \<noteq> Panic"
  by (auto simp: open_creating_def Let_def try_upgrade_db_def migrate_from_version_0_to_1_def andthen_panics db_steps_no_panic
      split: sum.splits if_splits)

section \<open>Opening the layouts the node knows\<close>

text \<open>
  A file system and a RocksDB that work: a database opens with the number of columns it has, new columns come after the
  ones there are and leave their content, and opening changes nothing.
\<close>

definition store_works :: "'d db_env \<Rightarrow> ('d \<Rightarrow> u32) \<Rightarrow> ('d \<Rightarrow> u32 \<Rightarrow> 'v) \<Rightarrow> bool" where
  "store_works E cols content \<longleftrightarrow>
     path_is_utf8 E \<and>
     (\<forall>s. create_dir_all E s = Inr (s\<lparr>dir_listable := True\<rparr>)) \<and>
     (\<forall>txt v. write_file E txt v = (None, VersionText txt)) \<and>
     (\<forall>cfg. \<exists>d. rocks_open E cfg None = Inr d \<and> cols d = columns cfg) \<and>
     (\<forall>cfg d. cols d = columns cfg \<longrightarrow> rocks_open E cfg (Some d) = Inr d) \<and>
     (\<forall>d. \<exists>d'. rocks_add_column E d = (None, d') \<and> cols d' = cols d + 1 \<and> (\<forall>c < cols d. content d' c = content d c))"

text \<open>The layouts the node knows: nothing yet, version 0 with three columns, and the current one, with its version or without.\<close>

definition layout_known :: "('d \<Rightarrow> u32) \<Rightarrow> 'd db_dir \<Rightarrow> bool" where
  "layout_known cols s \<longleftrightarrow>
     database s = None \<and> version_file s = NoVersionFile \<or>
     (\<exists>d. database s = Some d \<and>
        (version_file s = VersionText ''0'' \<and> cols d = NUM_COLUMNS_V0 \<or>
         version_file s \<in> {NoVersionFile, VersionText ''1''} \<and> cols d = NUM_COLUMNS))"

lemma parse_versions: "parse_u32 ''0'' = Some 0" "parse_u32 ''1'' = Some 1" "show_nat (Suc 0) = ''1''"
proof -
  have s: "show_nat 0 = ''0''" "show_nat 1 = ''1''" by code_simp+
  show "parse_u32 ''0'' = Some 0" "parse_u32 ''1'' = Some 1" "show_nat (Suc 0) = ''1''"
    using parse_show_u32 [of 0] parse_show_u32 [of 1] s by simp_all
qed

lemma try_upgrade_known:
  assumes w: "store_works E cols content" and k: "layout_known cols s" "dir_listable s"
  shows "\<exists>s'. try_upgrade_db E s = Ok () s' \<and> version_file s' = VersionText ''1'' \<and>
    (case database s of None \<Rightarrow> database s' = None
     | Some d \<Rightarrow> \<exists>d'. database s' = Some d' \<and> cols d' = NUM_COLUMNS \<and> (\<forall>c < cols d. content d' c = content d c))"
proof -
  have stamp: "update_version E t = Ok () (t\<lparr>dir_listable := True, version_file := VersionText ''1''\<rparr>)" for t
    using w by (simp add: update_version_def make_dir_def store_works_def CURRENT_VERSION_def parse_versions)
  consider (none) "database s = None" "version_file s = NoVersionFile"
    | (old) d where "database s = Some d" "version_file s = VersionText ''0''" "cols d = NUM_COLUMNS_V0"
    | (new) d where "database s = Some d" "version_file s \<in> {NoVersionFile, VersionText ''1''}" "cols d = NUM_COLUMNS"
    using k(1) by (auto simp: layout_known_def)
  then show ?thesis
  proof cases
    case none
    then show ?thesis by (simp add: try_upgrade_db_def current_version_def CURRENT_VERSION_def stamp)
  next
    case new
    then show ?thesis using k(2)
      by (auto simp: try_upgrade_db_def current_version_def CURRENT_VERSION_def stamp parse_versions dir_is_empty_def)
  next
    case old
    obtain e f where e: "rocks_add_column E d = (None, e)" "cols e = cols d + 1" "\<forall>c < cols d. content e c = content d c"
      and f: "rocks_add_column E e = (None, f)" "cols f = cols e + 1" "\<forall>c < cols e. content f c = content e c"
      using w unfolding store_works_def by metis
    have "migrate_from_version_0_to_1 E s = Ok () (s\<lparr>database := Some f\<rparr>)"
      using w old e(1) f(1)
      by (simp add: migrate_from_version_0_to_1_def open_database_def add_column_def store_works_def)
    moreover have "cols f = NUM_COLUMNS" "\<forall>c < cols d. content f c = content d c"
      using old(3) e(2,3) f(2,3) by (auto simp: NUM_COLUMNS_def NUM_COLUMNS_V0_def word_less_nat_alt)
    ultimately show ?thesis using old k(2)
      by (auto simp: try_upgrade_db_def current_version_def stamp parse_versions dir_is_empty_def)
  qed
qed

lemma open_creating_known:
  assumes w: "store_works E cols content" and k: "layout_known cols s"
  shows "\<exists>db s'. open_creating E sizes s = Ok db s' \<and> database s' = Some db \<and> cols db = NUM_COLUMNS \<and>
    version_file s' = VersionText ''1'' \<and> (\<forall>d c. database s = Some d \<and> c < cols d \<longrightarrow> content db c = content d c)"
proof -
  define t where "t = s\<lparr>dir_listable := True\<rparr>"
  have "layout_known cols t" "dir_listable t" and same: "database t = database s"
    using k by (simp_all add: t_def layout_known_def)
  then obtain u where u: "try_upgrade_db E t = Ok () u" "version_file u = VersionText ''1''"
    "case database s of None \<Rightarrow> database u = None
     | Some d \<Rightarrow> \<exists>d'. database u = Some d' \<and> cols d' = NUM_COLUMNS \<and> (\<forall>c < cols d. content d' c = content d c)"
    using try_upgrade_known [OF w] by force
  let ?cfg = "\<lparr>columns = NUM_COLUMNS, memory_budget =
            [COL_AVAILABILITY_DATA \<mapsto> availability_data sizes, COL_AVAILABILITY_META \<mapsto> availability_meta sizes,
             COL_APPROVAL_DATA \<mapsto> approval_data sizes]\<rparr>"
  have opens: "open_creating E sizes s = open_database E ?cfg u"
    using w u(1) by (simp add: open_creating_def store_works_def make_dir_def t_def Let_def)
  show ?thesis
  proof (cases "database s")
    case None
    moreover obtain d where "rocks_open E ?cfg None = Inr d" "cols d = NUM_COLUMNS"
      using w unfolding store_works_def by (metis database_config.select_convs(1))
    ultimately show ?thesis using u by (simp add: opens open_database_def)
  next
    case (Some d)
    then obtain d' where d': "database u = Some d'" "cols d' = NUM_COLUMNS" "\<forall>c < cols d. content d' c = content d c"
      using u(3) by auto
    then have "rocks_open E ?cfg (Some d') = Inr d'" using w by (simp add: store_works_def)
    then show ?thesis using Some d' u(2) by (simp add: opens open_database_def)
  qed
qed

text \<open>A layout of the future, or a version file that holds no number, is refused before anything is touched.\<close>

lemma open_creating_refuses:
  assumes w: "store_works E cols content" and v: "version_file s = VersionText txt"
  shows "parse_u32 txt = None \<Longrightarrow> open_creating E sizes s = Err CorruptedVersionFile (s\<lparr>dir_listable := True\<rparr>)"
    and "parse_u32 txt = Some n \<Longrightarrow> 1 < n \<Longrightarrow> open_creating E sizes s = Err (FutureVersion 1 n) (s\<lparr>dir_listable := True\<rparr>)"
  using w v by (auto simp: open_creating_def store_works_def make_dir_def try_upgrade_db_def dir_is_empty_def
      current_version_def CURRENT_VERSION_def Let_def)

text \<open>A disk on which it works, whose databases are a number of columns and what they hold.\<close>

definition demo_db :: "(u32 \<times> (u32 \<Rightarrow> nat)) db_env" where
  "demo_db = \<lparr>path_is_utf8 = True, create_dir_all = (\<lambda>s. Inr (s\<lparr>dir_listable := True\<rparr>)),
     write_file = (\<lambda>txt _. (None, VersionText txt)),
     rocks_open = (\<lambda>cfg d. case d of None \<Rightarrow> Inr (columns cfg, \<lambda>_. 0)
       | Some x \<Rightarrow> (if fst x = columns cfg then Inr x else Inl (1, Some x))),
     rocks_add_column = (\<lambda>(n, f). (None, (n + 1, f)))\<rparr>"

lemma demo_db_works: "store_works demo_db fst snd"
  by (simp add: store_works_def demo_db_def case_prod_beta)

end
