(* ===== verification/Relay_Node.thy ===== *)
theory Relay_Node
  imports Chain_Selection Parachains_Db
begin

text \<open>
  The relay chain node's service, \<open>src/polkadot/node/service/src/lib.rs\<close>: which network a specification is for, the
  runtime that runs it, the blocks the overseer starts with, and what \<open>new_full\<close> decides to start. The
  networks and tasks it starts are other crates; the decisions are collected in a plan. The database of the parachain
  subsystems is the one of \<open>Parachains_Db\<close>.
\<close>

section \<open>Networks\<close>

definition starts_with :: "string \<Rightarrow> string \<Rightarrow> bool" where
  "starts_with xs pre \<longleftrightarrow> take (length pre) xs = pre"

definition is_kusama :: "string \<Rightarrow> bool" where
  "is_kusama i \<longleftrightarrow> starts_with i ''kusama'' \<or> starts_with i ''ksm''"

definition is_westend :: "string \<Rightarrow> bool" where
  "is_westend i \<longleftrightarrow> starts_with i ''westend'' \<or> starts_with i ''wnd''"

definition is_rococo :: "string \<Rightarrow> bool" where
  "is_rococo i \<longleftrightarrow> starts_with i ''rococo'' \<or> starts_with i ''rco''"

definition is_wococo :: "string \<Rightarrow> bool" where
  "is_wococo i \<longleftrightarrow> starts_with i ''wococo'' \<or> starts_with i ''wco''"

definition is_versi :: "string \<Rightarrow> bool" where
  "is_versi i \<longleftrightarrow> starts_with i ''versi'' \<or> starts_with i ''vrs''"

definition is_dev :: "string \<Rightarrow> bool" where
  "is_dev i \<longleftrightarrow> ends_with i ''dev''"

section \<open>The runtime of a network\<close>

datatype relay_client = PolkadotClient | KusamaClient | WestendClient | RococoClient

datatype relay_service_error =
    NoRuntime | DatabasePathRequired | AuthoritiesRequireRealOverseer | DatabaseFailed db_error | IoFailed nat

text \<open>
  The runtimes compiled in are \<open>natives\<close>. The branches of \<open>build_full\<close> and of \<open>new_chain_ops\<close>: the
  client is the one whose runtime and executor the service is built with.
\<close>

definition build_full :: "relay_client set \<Rightarrow> string \<Rightarrow> relay_service_error + relay_client" where
  "build_full natives i =
     (if RococoClient \<in> natives \<and> (is_rococo i \<or> is_wococo i \<or> is_versi i) then Inr RococoClient
      else if KusamaClient \<in> natives \<and> is_kusama i then Inr KusamaClient
      else if WestendClient \<in> natives \<and> is_westend i then Inr WestendClient
      else if PolkadotClient \<in> natives then Inr PolkadotClient
      else Inl NoRuntime)"

definition new_chain_ops :: "relay_client set \<Rightarrow> string \<Rightarrow> relay_service_error + relay_client" where
  "new_chain_ops natives i =
     (if RococoClient \<in> natives \<and> (is_rococo i \<or> is_wococo i \<or> is_versi i) then Inr RococoClient
      else if KusamaClient \<in> natives \<and> is_kusama i then Inr KusamaClient
      else if WestendClient \<in> natives \<and> is_westend i then Inr WestendClient
      else if PolkadotClient \<in> natives then Inr PolkadotClient
      else Inl NoRuntime)"

section \<open>The blocks the overseer starts with\<close>

definition MAX_ACTIVE_LEAVES :: nat where "MAX_ACTIVE_LEAVES = 4"

record block_info =
  bi_hash :: block_hash
  bi_parent_hash :: block_hash
  bi_number :: u32

text \<open>One step of the \<open>filter_map\<close>: failed and empty lookups drop the leaf.\<close>

definition consider_leaf :: "'e header_provider \<Rightarrow> header \<Rightarrow> block_hash \<Rightarrow> block_info option" where
  "consider_leaf P best h =
     (case fetch_number P h of
        Inr (Some n) \<Rightarrow>
          (if n < (if number best = 0 then 0 else number best - 1) then None
           else if h = header_hash P best then None
           else case fetch_header P h of
                  Inr (Some found) \<Rightarrow> Some \<lparr>bi_hash = h, bi_parent_hash = parent_hash found, bi_number = n\<rparr>
                | _ \<Rightarrow> None)
      | _ \<Rightarrow> None)"

definition active_leaves :: "'e header_provider \<Rightarrow> ('x + header) \<Rightarrow> ('x + block_hash list) \<Rightarrow> 'x + block_info list" where
  "active_leaves P best_chain leaves =
     (case best_chain of Inl e \<Rightarrow> Inl e | Inr best \<Rightarrow>
      let found = List.map_filter (consider_leaf P best) (case leaves of Inr ls \<Rightarrow> ls | Inl _ \<Rightarrow> []);
          sorted = sort_key bi_number found;
          all = sorted @ [\<lparr>bi_hash = header_hash P best, bi_parent_hash = parent_hash best, bi_number = number best\<rparr>]
      in Inr (take MAX_ACTIVE_LEAVES (rev all)))"

section \<open>What a full node starts\<close>

datatype role = FullRole | LightRole | AuthorityRole

record node_config =
  nc_id :: string
  nc_role :: role
  is_collator :: bool
  has_local_keystore :: bool
  enable_beefy :: bool
  disable_grandpa :: bool
  offchain_worker :: bool
  database_path :: bool
  program_path :: "string option"
  current_exe :: "nat + string"
  overseer_enable_anyways :: bool
  grandpa_pause :: "(u32 \<times> u32) option"

datatype chain_choice = DisputesAware bool | LongestChainRule
datatype discovery_role = PublishAndDiscover | DiscoverOnly

text \<open>
  The decisions: the interval to which block production backs off (\<open>None\<close> for the default), the networking
  protocols, the columns and the program of the subsystems, how the best chain is selected, and the tasks. The beefy
  gadget has its minimal delta of blocks and whether its end stops the node.
\<close>

record subsystem_config =
  av_col_data :: u32
  av_col_meta :: u32
  approval_col_data :: u32
  chain_selection_col_data :: u32
  dispute_col_data :: u32
  pvf_program :: string

record node_plan =
  backoff_max_interval :: "nat option"
  beefy_protocol :: bool
  selection :: chain_choice
  hard_forks :: bool
  runs_offchain_worker :: bool
  subsystems :: subsystem_config
  discovery :: "discovery_role option"
  runs_overseer :: bool
  checks_pvf :: bool
  authors_blocks :: bool
  beefy_gadget :: "(nat \<times> bool) option"
  grandpa_voter :: "(u32 \<times> u32) option option"

definition role_is_authority :: "role \<Rightarrow> bool" where
  "role_is_authority r \<longleftrightarrow> r = AuthorityRole"

definition is_in_flux :: "string \<Rightarrow> bool" where
  "is_in_flux i \<longleftrightarrow> is_rococo i \<or> is_wococo i \<or> is_versi i"

definition backoff_authoring_blocks :: "node_config \<Rightarrow> nat option" where
  "backoff_authoring_blocks N = (if is_in_flux (nc_id N) then Some 10 else None)"

definition auth_or_collator :: "node_config \<Rightarrow> bool" where
  "auth_or_collator N \<longleftrightarrow> role_is_authority (nc_role N) \<or> is_collator N"

definition requires_overseer_for_chain_sel :: "node_config \<Rightarrow> bool" where
  "requires_overseer_for_chain_sel N \<longleftrightarrow> has_local_keystore N \<and> auth_or_collator N"

definition disputes_enabled :: "node_config \<Rightarrow> bool" where
  "disputes_enabled N \<longleftrightarrow> is_rococo (nc_id N) \<or> is_kusama (nc_id N) \<or> is_westend (nc_id N) \<or> is_versi (nc_id N) \<or>
     is_wococo (nc_id N)"

definition pvf_checker_enabled :: "node_config \<Rightarrow> bool" where
  "pvf_checker_enabled N \<longleftrightarrow> \<not> is_collator N \<and> is_versi (nc_id N)"

definition select_chain :: "node_config \<Rightarrow> chain_choice" where
  "select_chain N = (if requires_overseer_for_chain_sel N then DisputesAware (disputes_enabled N) else LongestChainRule)"

text \<open>The database is opened before the program of the workers is looked up.\<close>

definition subsystem_configs :: "'d db_env \<Rightarrow> node_config \<Rightarrow> 'd db_dir \<Rightarrow>
    (relay_service_error, subsystem_config, 'd db_dir) outcome" where
  "subsystem_configs E N s =
     (if \<not> database_path N then Err DatabasePathRequired s
      else case open_creating E default_cache_sizes s of
        Panic \<Rightarrow> Panic
      | Err e s \<Rightarrow> Err (DatabaseFailed e) s
      | Ok _ s \<Rightarrow>
          (case (case program_path N of None \<Rightarrow> current_exe N | Some p \<Rightarrow> Inr p) of
             Inl e \<Rightarrow> Err (IoFailed e) s
           | Inr program \<Rightarrow> Ok \<lparr>
               av_col_data = col_availability_data REAL_COLUMNS,
               av_col_meta = col_availability_meta REAL_COLUMNS,
               approval_col_data = col_approval_data REAL_COLUMNS,
               chain_selection_col_data = col_chain_selection_data REAL_COLUMNS,
               dispute_col_data = col_dispute_coordinator_data REAL_COLUMNS,
               pvf_program = program\<rparr> s))"

definition authority_discovery_service :: "node_config \<Rightarrow> discovery_role option" where
  "authority_discovery_service N =
     (if auth_or_collator N \<or> overseer_enable_anyways N
      then Some (if role_is_authority (nc_role N) then PublishAndDiscover else DiscoverOnly) else None)"

text \<open>Whether the overseer is started; \<open>None\<close> is the assertion.\<close>

definition overseer_handle :: "node_config \<Rightarrow> bool option" where
  "overseer_handle N =
     (case (if has_local_keystore N then authority_discovery_service N else None) of
        Some _ \<Rightarrow> Some True
      | None \<Rightarrow> if requires_overseer_for_chain_sel N then None else Some False)"

definition start_authoring :: "node_config \<Rightarrow> bool \<Rightarrow> relay_service_error + bool" where
  "start_authoring N overseer =
     (if role_is_authority (nc_role N)
      then (if overseer then Inr True else Inl AuthoritiesRequireRealOverseer)
      else Inr False)"

definition start_beefy :: "node_config \<Rightarrow> (nat \<times> bool) option" where
  "start_beefy N = (if enable_beefy N \<and> is_in_flux (nc_id N)
     then Some (if is_wococo (nc_id N) then 4 else 8, is_wococo (nc_id N)) else None)"

definition start_grandpa :: "node_config \<Rightarrow> (u32 \<times> u32) option option" where
  "start_grandpa N = (if disable_grandpa N then None else Some (grandpa_pause N))"

text \<open>
  The errors of the services it starts, other than those of the database, are left out, and so are the tasks themselves. A
  failure after the database was opened leaves it open, in its new layout.
\<close>

definition new_full :: "'d db_env \<Rightarrow> node_config \<Rightarrow> 'd db_dir \<Rightarrow> (relay_service_error, node_plan, 'd db_dir) outcome" where
  "new_full E N s =
     andthen (subsystem_configs E N s) (\<lambda>configs s.
       case overseer_handle N of None \<Rightarrow> Panic
       | Some overseer \<Rightarrow>
         (case start_authoring N overseer of Inl e \<Rightarrow> Err e s
          | Inr authoring \<Rightarrow> Ok \<lparr>
              backoff_max_interval = backoff_authoring_blocks N,
              beefy_protocol = is_in_flux (nc_id N),
              selection = select_chain N,
              hard_forks = is_kusama (nc_id N),
              runs_offchain_worker = offchain_worker N,
              subsystems = configs,
              discovery = authority_discovery_service N,
              runs_overseer = overseer,
              checks_pvf = overseer \<and> pvf_checker_enabled N,
              authors_blocks = authoring,
              beefy_gadget = start_beefy N,
              grandpa_voter = start_grandpa N\<rparr> s))"

end
