(* ===== verification/Relay_Spec.thy ===== *)
theory Relay_Spec
  imports Rust_Text
begin

text \<open>
  The chain specifications of the relay chain node, \<open>src/polkadot/node/service/src/chain_spec.rs\<close>: the helpers that
  derive keys, the genesis of the development, local and staging networks of the four runtimes, and the
  specifications built from them. The runtimes, key derivation, the JSON parser, the units of the currencies and
  the fields left to \<open>Default\<close> are parameters; so are the lists of hexadecimal keys of the staging networks. Fields
  of a genesis that are empty, left to their default or a constant of the runtime (the configuration of Babe's epochs) are
  not listed.

  A genesis is \<open>None\<close> when the closure that builds it panics.
\<close>

section \<open>Keys\<close>

datatype key_kind =
    Sr25519Key | BabeKey | GrandpaKey | ImOnlineKey | ValidatorKey | AssignmentKey | AuthorityDiscoveryKey | BeefyKey

record relay_authority =
  ra_stash :: bytes
  ra_controller :: bytes
  ra_babe :: bytes
  ra_grandpa :: bytes
  ra_im_online :: bytes
  ra_para_validator :: bytes
  ra_para_assignment :: bytes
  ra_authority_discovery :: bytes

record beefy_authority = relay_authority +
  ra_beefy :: bytes

record relay_session_keys =
  sk_babe :: bytes
  sk_grandpa :: bytes
  sk_im_online :: bytes
  sk_para_validator :: bytes
  sk_para_assignment :: bytes
  sk_authority_discovery :: bytes

record rococo_session_keys_t = relay_session_keys +
  sk_beefy :: bytes

section \<open>Parameters\<close>

datatype relay_runtime = Polkadot | Kusama | Westend | Rococo

text \<open>The host configuration: the fields that are set, and \<open>host_more\<close> for the others.\<close>

record 'd host_configuration =
  validation_upgrade_cooldown :: nat
  validation_upgrade_delay :: nat
  code_retention_period :: nat
  max_code_size :: nat
  max_pov_size :: nat
  max_head_data_size :: nat
  group_rotation_frequency :: nat
  chain_availability_period :: nat
  thread_availability_period :: nat
  max_upward_queue_count :: nat
  max_upward_queue_size :: nat
  max_downward_message_size :: nat
  ump_service_total_weight :: nat
  max_upward_message_size :: nat
  max_upward_message_num_per_candidate :: nat
  hrmp_sender_deposit :: nat
  hrmp_recipient_deposit :: nat
  hrmp_channel_max_capacity :: nat
  hrmp_channel_max_total_size :: nat
  hrmp_max_parachain_inbound_channels :: nat
  hrmp_max_parathread_inbound_channels :: nat
  hrmp_channel_max_message_size :: nat
  hrmp_max_parachain_outbound_channels :: nat
  hrmp_max_parathread_outbound_channels :: nat
  hrmp_max_message_num_per_candidate :: nat
  dispute_period :: nat
  no_show_slots :: nat
  n_delay_tranches :: nat
  needed_approvals :: nat
  relay_vrf_modulo_samples :: nat
  zeroth_delay_tranche_width :: nat
  minimum_validation_upgrade_delay :: nat
  max_validators_per_core :: "nat option"
  host_more :: 'd

record 'd relay_env =
  relay_wasm :: "relay_runtime \<Rightarrow> bytes option"
  public_from_string :: "key_kind \<Rightarrow> string \<Rightarrow> bytes option"
  account_of :: "bytes \<Rightarrow> bytes"
  DOT :: u128
  KSM :: u128
  WND :: u128
  ROC :: u128
  host_default :: "'d host_configuration"
  MAX_CODE_SIZE :: nat
  MAX_POV_SIZE :: nat
  LOWEST_PUBLIC_ID :: u32

definition default_parachains_host_configuration :: "'d relay_env \<Rightarrow> 'd host_configuration" where
  "default_parachains_host_configuration E = (host_default E)\<lparr>
     validation_upgrade_cooldown := 2,
     validation_upgrade_delay := 2,
     code_retention_period := 1200,
     max_code_size := MAX_CODE_SIZE E,
     max_pov_size := MAX_POV_SIZE E,
     max_head_data_size := 32 * 1024,
     group_rotation_frequency := 20,
     chain_availability_period := 4,
     thread_availability_period := 4,
     max_upward_queue_count := 8,
     max_upward_queue_size := 1024 * 1024,
     max_downward_message_size := 1024 * 1024,
     ump_service_total_weight := 100000000000,
     max_upward_message_size := 1024 * 1024,
     max_upward_message_num_per_candidate := 5,
     hrmp_sender_deposit := 0,
     hrmp_recipient_deposit := 0,
     hrmp_channel_max_capacity := 8,
     hrmp_channel_max_total_size := 8 * 1024,
     hrmp_max_parachain_inbound_channels := 4,
     hrmp_max_parathread_inbound_channels := 4,
     hrmp_channel_max_message_size := 1024 * 1024,
     hrmp_max_parachain_outbound_channels := 4,
     hrmp_max_parathread_outbound_channels := 4,
     hrmp_max_message_num_per_candidate := 5,
     dispute_period := 6,
     no_show_slots := 2,
     n_delay_tranches := 25,
     needed_approvals := 2,
     relay_vrf_modulo_samples := 2,
     zeroth_delay_tranche_width := 0,
     minimum_validation_upgrade_delay := 5\<rparr>"

section \<open>Keys from seeds\<close>

text \<open>\<open>None\<close> is the \<open>expect\<close> on a seed that does not parse.\<close>

definition get_from_seed :: "'d relay_env \<Rightarrow> key_kind \<Rightarrow> string \<Rightarrow> bytes option" where
  "get_from_seed E kind seed = public_from_string E kind (''//'' @ seed)"

definition relay_account_from_seed :: "'d relay_env \<Rightarrow> string \<Rightarrow> bytes option" where
  "relay_account_from_seed E seed = map_option (account_of E) (get_from_seed E Sr25519Key seed)"

definition get_authority_keys_from_seed_no_beefy :: "'d relay_env \<Rightarrow> string \<Rightarrow> relay_authority option" where
  "get_authority_keys_from_seed_no_beefy E seed =
     (case (relay_account_from_seed E (seed @ ''//stash''), relay_account_from_seed E seed,
            get_from_seed E BabeKey seed, get_from_seed E GrandpaKey seed, get_from_seed E ImOnlineKey seed,
            get_from_seed E ValidatorKey seed, get_from_seed E AssignmentKey seed,
            get_from_seed E AuthorityDiscoveryKey seed) of
        (Some stash, Some controller, Some babe, Some grandpa, Some im, Some v, Some a, Some d) \<Rightarrow>
          Some \<lparr>ra_stash = stash, ra_controller = controller, ra_babe = babe, ra_grandpa = grandpa,
                ra_im_online = im, ra_para_validator = v, ra_para_assignment = a, ra_authority_discovery = d\<rparr>
      | _ \<Rightarrow> None)"

definition get_authority_keys_from_seed :: "'d relay_env \<Rightarrow> string \<Rightarrow> beefy_authority option" where
  "get_authority_keys_from_seed E seed =
     (case (get_authority_keys_from_seed_no_beefy E seed, get_from_seed E BeefyKey seed) of
        (Some k, Some b) \<Rightarrow> Some (relay_authority.extend k (beefy_authority.fields b))
      | _ \<Rightarrow> None)"

text \<open>Evaluating a list of expressions each of which may panic.\<close>

fun evaluate :: "'a option list \<Rightarrow> 'a list option" where
  "evaluate [] = Some []"
| "evaluate (x # xs) = (case x of None \<Rightarrow> None | Some a \<Rightarrow> map_option (\<lambda>as. a # as) (evaluate xs))"

definition testnet_seeds :: "string list" where
  "testnet_seeds = [''Alice'', ''Bob'', ''Charlie'', ''Dave'', ''Eve'', ''Ferdie'', ''Alice//stash'', ''Bob//stash'',
     ''Charlie//stash'', ''Dave//stash'', ''Eve//stash'', ''Ferdie//stash'']"

definition testnet_accounts :: "'d relay_env \<Rightarrow> bytes list option" where
  "testnet_accounts E = evaluate (map (relay_account_from_seed E) testnet_seeds)"

definition polkadot_session_keys :: "bytes \<Rightarrow> bytes \<Rightarrow> bytes \<Rightarrow> bytes \<Rightarrow> bytes \<Rightarrow> bytes \<Rightarrow> relay_session_keys" where
  "polkadot_session_keys babe grandpa im_online para_validator para_assignment authority_discovery =
     \<lparr>sk_babe = babe, sk_grandpa = grandpa, sk_im_online = im_online, sk_para_validator = para_validator,
      sk_para_assignment = para_assignment, sk_authority_discovery = authority_discovery\<rparr>"

definition kusama_session_keys :: "bytes \<Rightarrow> bytes \<Rightarrow> bytes \<Rightarrow> bytes \<Rightarrow> bytes \<Rightarrow> bytes \<Rightarrow> relay_session_keys" where
  "kusama_session_keys babe grandpa im_online para_validator para_assignment authority_discovery =
     \<lparr>sk_babe = babe, sk_grandpa = grandpa, sk_im_online = im_online, sk_para_validator = para_validator,
      sk_para_assignment = para_assignment, sk_authority_discovery = authority_discovery\<rparr>"

definition westend_session_keys :: "bytes \<Rightarrow> bytes \<Rightarrow> bytes \<Rightarrow> bytes \<Rightarrow> bytes \<Rightarrow> bytes \<Rightarrow> relay_session_keys" where
  "westend_session_keys babe grandpa im_online para_validator para_assignment authority_discovery =
     \<lparr>sk_babe = babe, sk_grandpa = grandpa, sk_im_online = im_online, sk_para_validator = para_validator,
      sk_para_assignment = para_assignment, sk_authority_discovery = authority_discovery\<rparr>"

definition rococo_session_keys :: "bytes \<Rightarrow> bytes \<Rightarrow> bytes \<Rightarrow> bytes \<Rightarrow> bytes \<Rightarrow> bytes \<Rightarrow> bytes \<Rightarrow> rococo_session_keys_t" where
  "rococo_session_keys babe grandpa im_online para_validator para_assignment authority_discovery beefy =
     \<lparr>sk_babe = babe, sk_grandpa = grandpa, sk_im_online = im_online, sk_para_validator = para_validator,
      sk_para_assignment = para_assignment, sk_authority_discovery = authority_discovery, sk_beefy = beefy\<rparr>"

text \<open>The two ways in which an authority's keys are entered under its stash.\<close>

definition authority_keys :: "(bytes \<Rightarrow> bytes \<Rightarrow> bytes \<Rightarrow> bytes \<Rightarrow> bytes \<Rightarrow> bytes \<Rightarrow> 'k) \<Rightarrow> relay_authority \<Rightarrow>
    bytes \<times> bytes \<times> 'k" where
  "authority_keys keys x = (ra_stash x, ra_stash x, keys (ra_babe x) (ra_grandpa x) (ra_im_online x)
     (ra_para_validator x) (ra_para_assignment x) (ra_authority_discovery x))"

definition beefy_authority_keys :: "beefy_authority \<Rightarrow> bytes \<times> bytes \<times> rococo_session_keys_t" where
  "beefy_authority_keys x = (ra_stash x, ra_stash x, rococo_session_keys (ra_babe x) (ra_grandpa x) (ra_im_online x)
     (ra_para_validator x) (ra_para_assignment x) (ra_authority_discovery x) (ra_beefy x))"

section \<open>Genesis\<close>

datatype forcing = NotForcing | ForceNone

text \<open>The staking part; all stakers are validators, and 10 percent of a slash go to the reporter.\<close>

record staking_config =
  minimum_validator_count :: u32
  validator_count :: u32
  stakers :: "(bytes \<times> bytes \<times> u128) list"
  staking_invulnerables :: "bytes list"
  force_era :: forcing
  slash_reward_percent :: nat

record ('k, 'd) relay_genesis =
  rl_code :: bytes
  rl_balances :: "(bytes \<times> u128) list"
  rl_session :: "(bytes \<times> bytes \<times> 'k) list"
  rl_staking :: "staking_config option"
  rl_sudo :: "bytes option"
  rl_host :: "'d host_configuration"
  rl_next_free_para_id :: "u32 option"
  rl_bridge_owners :: "bytes list"

definition polkadot_testnet_genesis :: "'d relay_env \<Rightarrow> bytes \<Rightarrow> relay_authority list \<Rightarrow> bytes \<Rightarrow> bytes list option \<Rightarrow>
    (relay_session_keys, 'd) relay_genesis option" where
  "polkadot_testnet_genesis E wasm_binary initial_authorities root_key endowed_accounts =
     (case (case endowed_accounts of Some xs \<Rightarrow> Some xs | None \<Rightarrow> testnet_accounts E) of None \<Rightarrow> None
      | Some endowed \<Rightarrow> let ENDOWMENT = 1000000 * DOT E; STASH = 100 * DOT E in Some \<lparr>
          rl_code = wasm_binary,
          rl_balances = map (\<lambda>k. (k, ENDOWMENT)) endowed,
          rl_session = map (authority_keys polkadot_session_keys) initial_authorities,
          rl_staking = Some \<lparr>minimum_validator_count = 1, validator_count = of_nat (length initial_authorities),
            stakers = map (\<lambda>x. (ra_stash x, ra_controller x, STASH)) initial_authorities,
            staking_invulnerables = map ra_stash initial_authorities,
            force_era = NotForcing, slash_reward_percent = 10\<rparr>,
          rl_sudo = None,
          rl_host = default_parachains_host_configuration E,
          rl_next_free_para_id = None, rl_bridge_owners = []\<rparr>)"

definition kusama_testnet_genesis :: "'d relay_env \<Rightarrow> bytes \<Rightarrow> relay_authority list \<Rightarrow> bytes \<Rightarrow> bytes list option \<Rightarrow>
    (relay_session_keys, 'd) relay_genesis option" where
  "kusama_testnet_genesis E wasm_binary initial_authorities root_key endowed_accounts =
     (case (case endowed_accounts of Some xs \<Rightarrow> Some xs | None \<Rightarrow> testnet_accounts E) of None \<Rightarrow> None
      | Some endowed \<Rightarrow> let ENDOWMENT = 1000000 * KSM E; STASH = 100 * KSM E in Some \<lparr>
          rl_code = wasm_binary,
          rl_balances = map (\<lambda>k. (k, ENDOWMENT)) endowed,
          rl_session = map (authority_keys kusama_session_keys) initial_authorities,
          rl_staking = Some \<lparr>minimum_validator_count = 1, validator_count = of_nat (length initial_authorities),
            stakers = map (\<lambda>x. (ra_stash x, ra_controller x, STASH)) initial_authorities,
            staking_invulnerables = map ra_stash initial_authorities,
            force_era = NotForcing, slash_reward_percent = 10\<rparr>,
          rl_sudo = None,
          rl_host = default_parachains_host_configuration E,
          rl_next_free_para_id = None, rl_bridge_owners = []\<rparr>)"

definition westend_testnet_genesis :: "'d relay_env \<Rightarrow> bytes \<Rightarrow> relay_authority list \<Rightarrow> bytes \<Rightarrow> bytes list option \<Rightarrow>
    (relay_session_keys, 'd) relay_genesis option" where
  "westend_testnet_genesis E wasm_binary initial_authorities root_key endowed_accounts =
     (case (case endowed_accounts of Some xs \<Rightarrow> Some xs | None \<Rightarrow> testnet_accounts E) of None \<Rightarrow> None
      | Some endowed \<Rightarrow> let ENDOWMENT = 1000000 * DOT E; STASH = 100 * DOT E in Some \<lparr>
          rl_code = wasm_binary,
          rl_balances = map (\<lambda>k. (k, ENDOWMENT)) endowed,
          rl_session = map (authority_keys westend_session_keys) initial_authorities,
          rl_staking = Some \<lparr>minimum_validator_count = 1, validator_count = of_nat (length initial_authorities),
            stakers = map (\<lambda>x. (ra_stash x, ra_controller x, STASH)) initial_authorities,
            staking_invulnerables = map ra_stash initial_authorities,
            force_era = NotForcing, slash_reward_percent = 10\<rparr>,
          rl_sudo = Some root_key,
          rl_host = default_parachains_host_configuration E,
          rl_next_free_para_id = Some (LOWEST_PUBLIC_ID E), rl_bridge_owners = []\<rparr>)"

definition rococo_testnet_genesis :: "'d relay_env \<Rightarrow> bytes \<Rightarrow> beefy_authority list \<Rightarrow> bytes \<Rightarrow> bytes list option \<Rightarrow>
    (rococo_session_keys_t, 'd) relay_genesis option" where
  "rococo_testnet_genesis E wasm_binary initial_authorities root_key endowed_accounts =
     (case (case endowed_accounts of Some xs \<Rightarrow> Some xs | None \<Rightarrow> testnet_accounts E) of None \<Rightarrow> None
      | Some endowed \<Rightarrow> let ENDOWMENT = 1000000 * DOT E in Some \<lparr>
          rl_code = wasm_binary,
          rl_balances = map (\<lambda>k. (k, ENDOWMENT)) endowed,
          rl_session = map beefy_authority_keys initial_authorities,
          rl_staking = None,
          rl_sudo = Some root_key,
          rl_host = (default_parachains_host_configuration E)\<lparr>max_validators_per_core := Some 1\<rparr>,
          rl_next_free_para_id = Some (LOWEST_PUBLIC_ID E),
          rl_bridge_owners = [root_key, root_key, root_key, root_key]\<rparr>)"

section \<open>Staging networks\<close>

definition polkadot_staging_genesis :: "'d relay_env \<Rightarrow> bytes \<Rightarrow> (relay_session_keys, 'd) relay_genesis" where
  "polkadot_staging_genesis E wasm_binary =
     (let endowed_accounts = []; initial_authorities = ([] :: relay_authority list);
          ENDOWMENT = 1000000 * DOT E; STASH = 100 * DOT E in \<lparr>
          rl_code = wasm_binary,
          rl_balances = map (\<lambda>k. (k, ENDOWMENT)) endowed_accounts @ map (\<lambda>x. (ra_stash x, STASH)) initial_authorities,
          rl_session = map (authority_keys polkadot_session_keys) initial_authorities,
          rl_staking = Some \<lparr>minimum_validator_count = 4, validator_count = 50,
            stakers = map (\<lambda>x. (ra_stash x, ra_controller x, STASH)) initial_authorities,
            staking_invulnerables = map ra_stash initial_authorities,
            force_era = ForceNone, slash_reward_percent = 10\<rparr>,
          rl_sudo = None,
          rl_host = default_parachains_host_configuration E,
          rl_next_free_para_id = None, rl_bridge_owners = []\<rparr>)"

definition westend_staging_genesis :: "'d relay_env \<Rightarrow> bytes list \<Rightarrow> relay_authority list \<Rightarrow> bytes \<Rightarrow>
    (relay_session_keys, 'd) relay_genesis option" where
  "westend_staging_genesis E endowed_accounts initial_authorities wasm_binary =
     (case endowed_accounts of [] \<Rightarrow> None
      | owner # _ \<Rightarrow> let ENDOWMENT = 1000000 * WND E; STASH = 100 * WND E in Some \<lparr>
          rl_code = wasm_binary,
          rl_balances = map (\<lambda>k. (k, ENDOWMENT)) endowed_accounts @ map (\<lambda>x. (ra_stash x, STASH)) initial_authorities,
          rl_session = map (authority_keys westend_session_keys) initial_authorities,
          rl_staking = Some \<lparr>minimum_validator_count = 4, validator_count = 50,
            stakers = map (\<lambda>x. (ra_stash x, ra_controller x, STASH)) initial_authorities,
            staking_invulnerables = map ra_stash initial_authorities,
            force_era = ForceNone, slash_reward_percent = 10\<rparr>,
          rl_sudo = Some owner,
          rl_host = default_parachains_host_configuration E,
          rl_next_free_para_id = Some (LOWEST_PUBLIC_ID E), rl_bridge_owners = []\<rparr>)"

definition kusama_staging_genesis :: "'d relay_env \<Rightarrow> bytes list \<Rightarrow> relay_authority list \<Rightarrow> bytes \<Rightarrow>
    (relay_session_keys, 'd) relay_genesis" where
  "kusama_staging_genesis E endowed_accounts initial_authorities wasm_binary =
     (let ENDOWMENT = 1000000 * KSM E; STASH = 100 * KSM E in \<lparr>
          rl_code = wasm_binary,
          rl_balances = map (\<lambda>k. (k, ENDOWMENT)) endowed_accounts @ map (\<lambda>x. (ra_stash x, STASH)) initial_authorities,
          rl_session = map (authority_keys kusama_session_keys) initial_authorities,
          rl_staking = Some \<lparr>minimum_validator_count = 4, validator_count = 50,
            stakers = map (\<lambda>x. (ra_stash x, ra_controller x, STASH)) initial_authorities,
            staking_invulnerables = map ra_stash initial_authorities,
            force_era = ForceNone, slash_reward_percent = 10\<rparr>,
          rl_sudo = None,
          rl_host = default_parachains_host_configuration E,
          rl_next_free_para_id = None, rl_bridge_owners = []\<rparr>)"

definition rococo_staging_genesis :: "'d relay_env \<Rightarrow> bytes list \<Rightarrow> beefy_authority list \<Rightarrow> bytes \<Rightarrow>
    (rococo_session_keys_t, 'd) relay_genesis option" where
  "rococo_staging_genesis E endowed_accounts initial_authorities wasm_binary =
     (case endowed_accounts of [] \<Rightarrow> None
      | owner # _ \<Rightarrow> let ENDOWMENT = 1000000 * ROC E; STASH = 100 * ROC E in Some \<lparr>
          rl_code = wasm_binary,
          rl_balances = map (\<lambda>k. (k, ENDOWMENT)) endowed_accounts @ map (\<lambda>x. (ra_stash x, STASH)) initial_authorities,
          rl_session = map beefy_authority_keys initial_authorities,
          rl_staking = None,
          rl_sudo = Some owner,
          rl_host = default_parachains_host_configuration E,
          rl_next_free_para_id = Some (LOWEST_PUBLIC_ID E),
          rl_bridge_owners = [owner, owner, owner, owner]\<rparr>)"

section \<open>Development and local networks\<close>

definition polkadot_development_genesis :: "'d relay_env \<Rightarrow> bytes \<Rightarrow> (relay_session_keys, 'd) relay_genesis option" where
  "polkadot_development_genesis E wasm_binary =
     (case (evaluate [get_authority_keys_from_seed_no_beefy E ''Alice''], relay_account_from_seed E ''Alice'') of
        (Some authorities, Some root) \<Rightarrow> polkadot_testnet_genesis E wasm_binary authorities root None | _ \<Rightarrow> None)"

definition kusama_development_genesis :: "'d relay_env \<Rightarrow> bytes \<Rightarrow> (relay_session_keys, 'd) relay_genesis option" where
  "kusama_development_genesis E wasm_binary =
     (case (evaluate [get_authority_keys_from_seed_no_beefy E ''Alice''], relay_account_from_seed E ''Alice'') of
        (Some authorities, Some root) \<Rightarrow> kusama_testnet_genesis E wasm_binary authorities root None | _ \<Rightarrow> None)"

definition westend_development_genesis :: "'d relay_env \<Rightarrow> bytes \<Rightarrow> (relay_session_keys, 'd) relay_genesis option" where
  "westend_development_genesis E wasm_binary =
     (case (evaluate [get_authority_keys_from_seed_no_beefy E ''Alice''], relay_account_from_seed E ''Alice'') of
        (Some authorities, Some root) \<Rightarrow> westend_testnet_genesis E wasm_binary authorities root None | _ \<Rightarrow> None)"

definition rococo_development_genesis :: "'d relay_env \<Rightarrow> bytes \<Rightarrow> (rococo_session_keys_t, 'd) relay_genesis option" where
  "rococo_development_genesis E wasm_binary =
     (case (evaluate [get_authority_keys_from_seed E ''Alice''], relay_account_from_seed E ''Alice'') of
        (Some authorities, Some root) \<Rightarrow> rococo_testnet_genesis E wasm_binary authorities root None | _ \<Rightarrow> None)"

definition polkadot_local_genesis :: "'d relay_env \<Rightarrow> bytes \<Rightarrow> (relay_session_keys, 'd) relay_genesis option" where
  "polkadot_local_genesis E wasm_binary =
     (case (evaluate [get_authority_keys_from_seed_no_beefy E ''Alice'', get_authority_keys_from_seed_no_beefy E ''Bob''],
            relay_account_from_seed E ''Alice'') of
        (Some authorities, Some root) \<Rightarrow> polkadot_testnet_genesis E wasm_binary authorities root None | _ \<Rightarrow> None)"

definition kusama_local_genesis :: "'d relay_env \<Rightarrow> bytes \<Rightarrow> (relay_session_keys, 'd) relay_genesis option" where
  "kusama_local_genesis E wasm_binary =
     (case (evaluate [get_authority_keys_from_seed_no_beefy E ''Alice'', get_authority_keys_from_seed_no_beefy E ''Bob''],
            relay_account_from_seed E ''Alice'') of
        (Some authorities, Some root) \<Rightarrow> kusama_testnet_genesis E wasm_binary authorities root None | _ \<Rightarrow> None)"

definition westend_local_genesis :: "'d relay_env \<Rightarrow> bytes \<Rightarrow> (relay_session_keys, 'd) relay_genesis option" where
  "westend_local_genesis E wasm_binary =
     (case (evaluate [get_authority_keys_from_seed_no_beefy E ''Alice'', get_authority_keys_from_seed_no_beefy E ''Bob''],
            relay_account_from_seed E ''Alice'') of
        (Some authorities, Some root) \<Rightarrow> westend_testnet_genesis E wasm_binary authorities root None | _ \<Rightarrow> None)"

definition rococo_local_genesis :: "'d relay_env \<Rightarrow> bytes \<Rightarrow> (rococo_session_keys_t, 'd) relay_genesis option" where
  "rococo_local_genesis E wasm_binary =
     (case (evaluate [get_authority_keys_from_seed E ''Alice'', get_authority_keys_from_seed E ''Bob''],
            relay_account_from_seed E ''Alice'') of
        (Some authorities, Some root) \<Rightarrow> rococo_testnet_genesis E wasm_binary authorities root None | _ \<Rightarrow> None)"

definition wococo_local_genesis :: "'d relay_env \<Rightarrow> bytes \<Rightarrow> (rococo_session_keys_t, 'd) relay_genesis option" where
  "wococo_local_genesis E wasm_binary =
     (case (evaluate [get_authority_keys_from_seed E ''Alice'', get_authority_keys_from_seed E ''Bob'',
              get_authority_keys_from_seed E ''Charlie'', get_authority_keys_from_seed E ''Dave''],
            relay_account_from_seed E ''Alice'') of
        (Some authorities, Some root) \<Rightarrow> rococo_testnet_genesis E wasm_binary authorities root None | _ \<Rightarrow> None)"

definition versi_local_genesis :: "'d relay_env \<Rightarrow> bytes \<Rightarrow> (rococo_session_keys_t, 'd) relay_genesis option" where
  "versi_local_genesis E wasm_binary =
     (case (evaluate [get_authority_keys_from_seed E ''Alice'', get_authority_keys_from_seed E ''Bob'',
              get_authority_keys_from_seed E ''Charlie'', get_authority_keys_from_seed E ''Dave''],
            relay_account_from_seed E ''Alice'') of
        (Some authorities, Some root) \<Rightarrow> rococo_testnet_genesis E wasm_binary authorities root None | _ \<Rightarrow> None)"

end
