(* ===== verification/Relay_Networks.thy ===== *)
theory Relay_Networks
  imports Relay_Spec
begin

text \<open>
  The specifications of the relay chains' development, local and staging networks
  (\<open>src/polkadot/node/service/src/chain_spec.rs\<close>), each an error when the runtime was not compiled, and those read from the
  embedded files, whose parser is a parameter. The keys of the staging networks are arguments, as in \<open>Relay_Spec\<close>.
\<close>

section \<open>Specifications\<close>

datatype relay_chain_type = Development | Local | Live

record 'g relay_spec =
  rs_name :: string
  rs_id :: string
  rs_type :: relay_chain_type
  rs_genesis :: "'g option"
  rs_telemetry :: "(string \<times> nat) list option"
  rs_protocol :: "string option"

definition POLKADOT_STAGING_TELEMETRY_URL :: string where
  "POLKADOT_STAGING_TELEMETRY_URL = ''wss://telemetry.polkadot.io/submit/''"
definition KUSAMA_STAGING_TELEMETRY_URL :: string where
  "KUSAMA_STAGING_TELEMETRY_URL = ''wss://telemetry.polkadot.io/submit/''"
definition WESTEND_STAGING_TELEMETRY_URL :: string where
  "WESTEND_STAGING_TELEMETRY_URL = ''wss://telemetry.polkadot.io/submit/''"
definition ROCOCO_STAGING_TELEMETRY_URL :: string where
  "ROCOCO_STAGING_TELEMETRY_URL = ''wss://telemetry.polkadot.io/submit/''"
definition DEFAULT_PROTOCOL_ID :: string where "DEFAULT_PROTOCOL_ID = ''dot''"

text \<open>The genesis of the Rococo networks sets the length of a session, when it has one, before the runtime's own genesis.\<close>

record 'd rococo_genesis_ext =
  runtime_genesis_config :: "(rococo_session_keys_t, 'd) relay_genesis"
  session_length_in_blocks :: "u32 option"

definition rococo_assimilate_storage :: "(u32 \<Rightarrow> 's \<Rightarrow> 's) \<Rightarrow> ((rococo_session_keys_t, 'd) relay_genesis \<Rightarrow> 's \<Rightarrow> string + 's) \<Rightarrow>
    'd rococo_genesis_ext \<Rightarrow> 's \<Rightarrow> string + 's" where
  "rococo_assimilate_storage set_epoch_duration assimilate g s =
     assimilate (runtime_genesis_config g)
       (case session_length_in_blocks g of Some n \<Rightarrow> set_epoch_duration n s | None \<Rightarrow> s)"

definition with_session_length :: "u32 option \<Rightarrow> (rococo_session_keys_t, 'd) relay_genesis option \<Rightarrow> 'd rococo_genesis_ext option" where
  "with_session_length n = map_option (\<lambda>g. \<lparr>runtime_genesis_config = g, session_length_in_blocks = n\<rparr>)"

section \<open>Embedded files\<close>

definition polkadot_config :: "(string \<Rightarrow> string + 'j) \<Rightarrow> string + 'j" where
  "polkadot_config from_json_file = from_json_file ''res/polkadot.json''"

definition kusama_config :: "(string \<Rightarrow> string + 'j) \<Rightarrow> string + 'j" where
  "kusama_config from_json_file = from_json_file ''res/kusama.json''"

definition westend_config :: "(string \<Rightarrow> string + 'j) \<Rightarrow> string + 'j" where
  "westend_config from_json_file = from_json_file ''res/westend.json''"

definition rococo_config :: "(string \<Rightarrow> string + 'j) \<Rightarrow> string + 'j" where
  "rococo_config from_json_file = from_json_file ''res/rococo.json''"

definition versi_config :: "(string \<Rightarrow> string + 'j) \<Rightarrow> string + 'j" where
  "versi_config from_json_file = from_json_file ''res/versi.json''"

definition wococo_config :: "(string \<Rightarrow> string + 'j) \<Rightarrow> string + 'j" where
  "wococo_config from_json_file = from_json_file ''res/wococo.json''"

section \<open>Development networks\<close>

definition polkadot_relay_development_config :: "'d relay_env \<Rightarrow> string + (relay_session_keys, 'd) relay_genesis relay_spec" where
  "polkadot_relay_development_config E = (case relay_wasm E Polkadot of None \<Rightarrow> Inl ''Polkadot development wasm not available''
     | Some wasm_binary \<Rightarrow> Inr \<lparr>
         rs_name = ''Development'', rs_id = ''dev'', rs_type = Development,
         rs_genesis = polkadot_development_genesis E wasm_binary,
         rs_telemetry = None, rs_protocol = Some DEFAULT_PROTOCOL_ID\<rparr>)"

definition kusama_relay_development_config :: "'d relay_env \<Rightarrow> string + (relay_session_keys, 'd) relay_genesis relay_spec" where
  "kusama_relay_development_config E = (case relay_wasm E Kusama of None \<Rightarrow> Inl ''Kusama development wasm not available''
     | Some wasm_binary \<Rightarrow> Inr \<lparr>
         rs_name = ''Development'', rs_id = ''kusama_dev'', rs_type = Development,
         rs_genesis = kusama_development_genesis E wasm_binary,
         rs_telemetry = None, rs_protocol = Some DEFAULT_PROTOCOL_ID\<rparr>)"

definition westend_relay_development_config :: "'d relay_env \<Rightarrow> string + (relay_session_keys, 'd) relay_genesis relay_spec" where
  "westend_relay_development_config E = (case relay_wasm E Westend of None \<Rightarrow> Inl ''Westend development wasm not available''
     | Some wasm_binary \<Rightarrow> Inr \<lparr>
         rs_name = ''Development'', rs_id = ''westend_dev'', rs_type = Development,
         rs_genesis = westend_development_genesis E wasm_binary,
         rs_telemetry = None, rs_protocol = Some DEFAULT_PROTOCOL_ID\<rparr>)"

definition rococo_relay_development_config :: "'d relay_env \<Rightarrow> string + 'd rococo_genesis_ext relay_spec" where
  "rococo_relay_development_config E = (case relay_wasm E Rococo of None \<Rightarrow> Inl ''Rococo development wasm not available''
     | Some wasm_binary \<Rightarrow> Inr \<lparr>
         rs_name = ''Development'', rs_id = ''rococo_dev'', rs_type = Development,
         rs_genesis = with_session_length (Some 10) (rococo_development_genesis E wasm_binary),
         rs_telemetry = None, rs_protocol = Some DEFAULT_PROTOCOL_ID\<rparr>)"

definition versi_relay_development_config :: "'d relay_env \<Rightarrow> string + 'd rococo_genesis_ext relay_spec" where
  "versi_relay_development_config E = (case relay_wasm E Rococo of None \<Rightarrow> Inl ''Versi development wasm not available''
     | Some wasm_binary \<Rightarrow> Inr \<lparr>
         rs_name = ''Development'', rs_id = ''versi_dev'', rs_type = Development,
         rs_genesis = with_session_length (Some 10) (rococo_development_genesis E wasm_binary),
         rs_telemetry = None, rs_protocol = Some ''versi''\<rparr>)"

definition wococo_relay_development_config :: "'d relay_env \<Rightarrow> string + 'd rococo_genesis_ext relay_spec" where
  "wococo_relay_development_config E = (case relay_wasm E Rococo of None \<Rightarrow> Inl ''Wococo development wasm not available''
     | Some wasm_binary \<Rightarrow> Inr \<lparr>
         rs_name = ''Development'', rs_id = ''wococo_dev'', rs_type = Development,
         rs_genesis = with_session_length (Some 10) (rococo_development_genesis E wasm_binary),
         rs_telemetry = None, rs_protocol = Some ''woco''\<rparr>)"

section \<open>Local networks\<close>

definition polkadot_relay_local_config :: "'d relay_env \<Rightarrow> string + (relay_session_keys, 'd) relay_genesis relay_spec" where
  "polkadot_relay_local_config E = (case relay_wasm E Polkadot of None \<Rightarrow> Inl ''Polkadot development wasm not available''
     | Some wasm_binary \<Rightarrow> Inr \<lparr>
         rs_name = ''Local Testnet'', rs_id = ''local_testnet'', rs_type = Local,
         rs_genesis = polkadot_local_genesis E wasm_binary,
         rs_telemetry = None, rs_protocol = Some DEFAULT_PROTOCOL_ID\<rparr>)"

definition kusama_relay_local_config :: "'d relay_env \<Rightarrow> string + (relay_session_keys, 'd) relay_genesis relay_spec" where
  "kusama_relay_local_config E = (case relay_wasm E Kusama of None \<Rightarrow> Inl ''Kusama development wasm not available''
     | Some wasm_binary \<Rightarrow> Inr \<lparr>
         rs_name = ''Kusama Local Testnet'', rs_id = ''kusama_local_testnet'', rs_type = Local,
         rs_genesis = kusama_local_genesis E wasm_binary,
         rs_telemetry = None, rs_protocol = Some DEFAULT_PROTOCOL_ID\<rparr>)"

definition westend_relay_local_config :: "'d relay_env \<Rightarrow> string + (relay_session_keys, 'd) relay_genesis relay_spec" where
  "westend_relay_local_config E = (case relay_wasm E Westend of None \<Rightarrow> Inl ''Westend development wasm not available''
     | Some wasm_binary \<Rightarrow> Inr \<lparr>
         rs_name = ''Westend Local Testnet'', rs_id = ''westend_local_testnet'', rs_type = Local,
         rs_genesis = westend_local_genesis E wasm_binary,
         rs_telemetry = None, rs_protocol = Some DEFAULT_PROTOCOL_ID\<rparr>)"

definition rococo_relay_local_config :: "'d relay_env \<Rightarrow> string + 'd rococo_genesis_ext relay_spec" where
  "rococo_relay_local_config E = (case relay_wasm E Rococo of None \<Rightarrow> Inl ''Rococo development wasm not available''
     | Some wasm_binary \<Rightarrow> Inr \<lparr>
         rs_name = ''Rococo Local Testnet'', rs_id = ''rococo_local_testnet'', rs_type = Local,
         rs_genesis = with_session_length (Some 10) (rococo_local_genesis E wasm_binary),
         rs_telemetry = None, rs_protocol = Some DEFAULT_PROTOCOL_ID\<rparr>)"

definition wococo_relay_local_config :: "'d relay_env \<Rightarrow> string + 'd rococo_genesis_ext relay_spec" where
  "wococo_relay_local_config E = (case relay_wasm E Rococo of None \<Rightarrow> Inl ''Wococo development wasm not available''
     | Some wasm_binary \<Rightarrow> Inr \<lparr>
         rs_name = ''Wococo Local Testnet'', rs_id = ''wococo_local_testnet'', rs_type = Local,
         rs_genesis = with_session_length (Some 10) (wococo_local_genesis E wasm_binary),
         rs_telemetry = None, rs_protocol = Some DEFAULT_PROTOCOL_ID\<rparr>)"

definition versi_relay_local_config :: "'d relay_env \<Rightarrow> string + 'd rococo_genesis_ext relay_spec" where
  "versi_relay_local_config E = (case relay_wasm E Rococo of None \<Rightarrow> Inl ''Versi development wasm not available''
     | Some wasm_binary \<Rightarrow> Inr \<lparr>
         rs_name = ''Versi Local Testnet'', rs_id = ''versi_local_testnet'', rs_type = Local,
         rs_genesis = with_session_length (Some 10) (versi_local_genesis E wasm_binary),
         rs_telemetry = None, rs_protocol = Some DEFAULT_PROTOCOL_ID\<rparr>)"

section \<open>Staging networks\<close>

definition polkadot_relay_staging_config :: "'d relay_env \<Rightarrow> string + (relay_session_keys, 'd) relay_genesis relay_spec" where
  "polkadot_relay_staging_config E = (case relay_wasm E Polkadot of None \<Rightarrow> Inl ''Polkadot development wasm not available''
     | Some wasm_binary \<Rightarrow> Inr \<lparr>
         rs_name = ''Polkadot Staging Testnet'', rs_id = ''polkadot_staging_testnet'', rs_type = Live,
         rs_genesis = Some (polkadot_staging_genesis E wasm_binary),
         rs_telemetry = Some [(POLKADOT_STAGING_TELEMETRY_URL, 0)], rs_protocol = Some DEFAULT_PROTOCOL_ID\<rparr>)"

definition kusama_relay_staging_config :: "'d relay_env \<Rightarrow> bytes list \<Rightarrow> relay_authority list \<Rightarrow> string + (relay_session_keys, 'd) relay_genesis relay_spec" where
  "kusama_relay_staging_config E endowed_accounts initial_authorities = (case relay_wasm E Kusama of None \<Rightarrow> Inl ''Kusama development wasm not available''
     | Some wasm_binary \<Rightarrow> Inr \<lparr>
         rs_name = ''Kusama Staging Testnet'', rs_id = ''kusama_staging_testnet'', rs_type = Live,
         rs_genesis = Some (kusama_staging_genesis E endowed_accounts initial_authorities wasm_binary),
         rs_telemetry = Some [(KUSAMA_STAGING_TELEMETRY_URL, 0)], rs_protocol = Some DEFAULT_PROTOCOL_ID\<rparr>)"

definition westend_relay_staging_config :: "'d relay_env \<Rightarrow> bytes list \<Rightarrow> relay_authority list \<Rightarrow> string + (relay_session_keys, 'd) relay_genesis relay_spec" where
  "westend_relay_staging_config E endowed_accounts initial_authorities = (case relay_wasm E Westend of None \<Rightarrow> Inl ''Westend development wasm not available''
     | Some wasm_binary \<Rightarrow> Inr \<lparr>
         rs_name = ''Westend Staging Testnet'', rs_id = ''westend_staging_testnet'', rs_type = Live,
         rs_genesis = westend_staging_genesis E endowed_accounts initial_authorities wasm_binary,
         rs_telemetry = Some [(WESTEND_STAGING_TELEMETRY_URL, 0)], rs_protocol = Some DEFAULT_PROTOCOL_ID\<rparr>)"

definition rococo_relay_staging_config :: "'d relay_env \<Rightarrow> bytes list \<Rightarrow> beefy_authority list \<Rightarrow> string + 'd rococo_genesis_ext relay_spec" where
  "rococo_relay_staging_config E endowed_accounts initial_authorities = (case relay_wasm E Rococo of None \<Rightarrow> Inl ''Rococo development wasm not available''
     | Some wasm_binary \<Rightarrow> Inr \<lparr>
         rs_name = ''Rococo Staging Testnet'', rs_id = ''rococo_staging_testnet'', rs_type = Live,
         rs_genesis = with_session_length None (rococo_staging_genesis E endowed_accounts initial_authorities wasm_binary),
         rs_telemetry = Some [(ROCOCO_STAGING_TELEMETRY_URL, 0)], rs_protocol = Some DEFAULT_PROTOCOL_ID\<rparr>)"

end
