(* ===== verification/Relay_Genesis.thy ===== *)
theory Relay_Genesis
  imports Relay_Networks
begin

text \<open>
  What the pallets of the relay chains expect of a genesis, and that every development and local network of
  \<open>src/polkadot/node/service/src/chain_spec.rs\<close> starts from such a one.
\<close>

section \<open>The genesis of the test networks\<close>

definition endowed :: "('k, 'd) relay_genesis \<Rightarrow> bytes \<Rightarrow> u128 \<Rightarrow> bool" where
  "endowed g a v \<longleftrightarrow> (\<exists>b. (a, b) \<in> set (rl_balances g) \<and> v \<le> b)"

text \<open>
  What the pallets expect of a genesis: no account is endowed or enters keys twice, every authority enters its keys under
  its own, funded account, the validators are the authorities, each with at least its stake, enough of them for the
  configured minimum, and the accounts that control the network exist.
\<close>

definition relay_genesis_sound :: "('k, 'd) relay_genesis \<Rightarrow> bool" where
  "relay_genesis_sound g \<longleftrightarrow>
     distinct (map fst (rl_balances g)) \<and> distinct (map fst (rl_session g)) \<and> rl_session g \<noteq> [] \<and>
     (\<forall>(a, v, _) \<in> set (rl_session g). v = a \<and> endowed g a 1) \<and>
     (\<forall>st. rl_staking g = Some st \<longrightarrow>
        map fst (stakers st) = map fst (rl_session g) \<and> staking_invulnerables st = map fst (rl_session g) \<and>
        unat (validator_count st) = length (stakers st) \<and> minimum_validator_count st \<le> validator_count st \<and>
        (\<forall>(stash, controller, stake) \<in> set (stakers st). endowed g stash stake \<and> endowed g controller 1 \<and> 0 < stake)) \<and>
     (\<forall>a. rl_sudo g = Some a \<longrightarrow> endowed g a 1) \<and> (\<forall>a \<in> set (rl_bridge_owners g). endowed g a 1)"

text \<open>What the networks rely on: the seeds derive keys, to different accounts, and the currencies' units are in range.\<close>

definition dev_names :: "string list" where "dev_names = [''Alice'', ''Bob'', ''Charlie'', ''Dave'']"

definition seeds_derive :: "'d relay_env \<Rightarrow> bool" where
  "seeds_derive E \<longleftrightarrow>
     (\<forall>s \<in> set testnet_seeds. relay_account_from_seed E s \<noteq> None) \<and>
     (\<forall>s \<in> set dev_names. \<forall>kind. get_from_seed E kind s \<noteq> None) \<and>
     distinct (map (relay_account_from_seed E) testnet_seeds)"

definition unit_in_range :: "u128 \<Rightarrow> bool" where
  "unit_in_range u \<longleftrightarrow> 0 < u \<and> 1000000 * unat u < 2 ^ 128"

definition seed_account :: "'d relay_env \<Rightarrow> string \<Rightarrow> bytes" where
  "seed_account E s = the (relay_account_from_seed E s)"

definition seed_key :: "'d relay_env \<Rightarrow> key_kind \<Rightarrow> string \<Rightarrow> bytes" where
  "seed_key E kind s = the (get_from_seed E kind s)"

lemma evaluate_map: "\<forall>x \<in> set xs. f x \<noteq> None \<Longrightarrow> evaluate (map f xs) = Some (map (\<lambda>x. the (f x)) xs)"
  by (induction xs) auto

lemma testnet_accounts_derive:
  "seeds_derive E \<Longrightarrow> testnet_accounts E = Some (map (seed_account E) testnet_seeds)"
  unfolding testnet_accounts_def seeds_derive_def seed_account_def by (rule evaluate_map) simp

lemma seed_derives: "seeds_derive E \<Longrightarrow> s \<in> set testnet_seeds \<Longrightarrow> relay_account_from_seed E s = Some (seed_account E s)"
  by (auto simp: seeds_derive_def seed_account_def)

lemma key_derives: "seeds_derive E \<Longrightarrow> s \<in> set dev_names \<Longrightarrow> get_from_seed E kind s = Some (seed_key E kind s)"
  by (auto simp: seeds_derive_def seed_key_def)

lemma seed_accounts_distinct:
  assumes "seeds_derive E" shows "distinct (map (seed_account E) testnet_seeds)"
proof -
  have "map (relay_account_from_seed E) testnet_seeds = map Some (map (seed_account E) testnet_seeds)"
    using seed_derives [OF assms] by simp
  then show ?thesis using assms unfolding seeds_derive_def by (metis distinct_map)
qed

lemma dev_name_seeds: "s \<in> set dev_names \<Longrightarrow> s \<in> set testnet_seeds \<and> s @ ''//stash'' \<in> set testnet_seeds"
  by (auto simp: dev_names_def testnet_seeds_def)

text \<open>The stash and the controller of an authority are two of the endowed accounts.\<close>

definition test_authority :: "'d relay_env \<Rightarrow> string \<Rightarrow> relay_authority" where
  "test_authority E s = (let key = (\<lambda>kind. seed_key E kind s) in
     \<lparr>ra_stash = seed_account E (s @ ''//stash''), ra_controller = seed_account E s, ra_babe = key BabeKey,
      ra_grandpa = key GrandpaKey, ra_im_online = key ImOnlineKey, ra_para_validator = key ValidatorKey,
      ra_para_assignment = key AssignmentKey, ra_authority_discovery = key AuthorityDiscoveryKey\<rparr>)"

definition test_beefy_authority :: "'d relay_env \<Rightarrow> string \<Rightarrow> beefy_authority" where
  "test_beefy_authority E s =
     relay_authority.extend (test_authority E s) (beefy_authority.fields (seed_key E BeefyKey s))"

lemma authority_of_dev:
  assumes "seeds_derive E" "s \<in> set dev_names"
  shows "get_authority_keys_from_seed_no_beefy E s = Some (test_authority E s)"
  using dev_name_seeds [OF assms(2)]
  by (simp add: get_authority_keys_from_seed_no_beefy_def seed_derives [OF assms(1)] key_derives [OF assms]
      test_authority_def Let_def)

lemma beefy_authority_of_dev:
  assumes "seeds_derive E" "s \<in> set dev_names"
  shows "get_authority_keys_from_seed E s = Some (test_beefy_authority E s)"
  by (simp add: get_authority_keys_from_seed_def authority_of_dev [OF assms] key_derives [OF assms, of BeefyKey]
      test_beefy_authority_def)

lemma test_authority_sel [simp]:
  "ra_stash (test_authority E s) = seed_account E (s @ ''//stash'')" "ra_controller (test_authority E s) = seed_account E s"
  "ra_stash (test_beefy_authority E s) = seed_account E (s @ ''//stash'')"
  by (simp_all add: test_authority_def test_beefy_authority_def Let_def relay_authority.defs)

lemma units:
  assumes "unit_in_range u"
  shows "1 \<le> 1000000 * u" "100 * u \<le> 1000000 * u" "0 < 100 * u"
proof -
  have u: "0 < unat u" "1000000 * unat u < 2 ^ 128" using assms by (auto simp: unit_in_range_def word_gt_0 unat_gt_0)
  then have m: "unat (1000000 * u) = 1000000 * unat u" "unat (100 * u) = 100 * unat u"
    by (simp_all add: unat_word_ariths)
  show "1 \<le> 1000000 * u" "100 * u \<le> 1000000 * u" "0 < 100 * u" using u m by (simp_all add: word_le_nat_alt word_less_nat_alt)
qed

text \<open>A genesis that endows the test accounts and takes its authorities from the development names is sound.\<close>

lemma genesis_of_devs_sound:
  assumes d: "seeds_derive E" and names: "set names \<subseteq> set dev_names" "distinct names" "names \<noteq> []"
    and u: "unit_in_range u"
    and bal: "rl_balances g = map (\<lambda>k. (k, 1000000 * u)) (map (seed_account E) testnet_seeds)"
    and ses: "map fst (rl_session g) = map (\<lambda>s. seed_account E (s @ ''//stash'')) names"
      "\<forall>(a, v, _) \<in> set (rl_session g). v = a"
    and st: "\<And>st. rl_staking g = Some st \<Longrightarrow>
      stakers st = map (\<lambda>s. (seed_account E (s @ ''//stash''), seed_account E s, 100 * u)) names \<and>
      staking_invulnerables st = map (\<lambda>s. seed_account E (s @ ''//stash'')) names \<and>
      validator_count st = of_nat (length names) \<and> minimum_validator_count st = 1"
    and owner: "\<And>a. rl_sudo g = Some a \<or> a \<in> set (rl_bridge_owners g) \<Longrightarrow> a = seed_account E ''Alice''"
  shows "relay_genesis_sound g"
proof -
  have has: "endowed g (seed_account E s) v" if "s \<in> set testnet_seeds" "v \<le> 1000000 * u" for s v
    using that bal by (auto simp: endowed_def)
  have dev: "s @ ''//stash'' \<in> set testnet_seeds" "s \<in> set testnet_seeds" if "s \<in> set names" for s
    using that names(1) dev_name_seeds by blast+
  have "length names \<le> card (set dev_names)"
    using names by (metis List.finite_set card_mono distinct_card)
  then have "length names \<le> 4" by (simp add: dev_names_def)
  then have len: "unat (of_nat (length names) :: u32) = length names" by (simp add: unat_of_nat)
  have inj: "inj_on (seed_account E) (set testnet_seeds)" using seed_accounts_distinct [OF d] by (simp add: distinct_map)
  have alice: "endowed g (seed_account E ''Alice'') 1" using has [of "''Alice''"] units(1) [OF u] by (simp add: testnet_seeds_def)
  have "distinct (map fst (rl_balances g))" using seed_accounts_distinct [OF d] by (simp add: bal comp_def)
  moreover have "distinct (map fst (rl_session g))"
    unfolding ses(1) distinct_map using names(2) dev inj by (auto simp: inj_on_def)
  moreover have "rl_session g \<noteq> []" using ses(1) names(3) by auto
  moreover have "v = a \<and> endowed g a 1" if "(a, v, k) \<in> set (rl_session g)" for a v k
  proof -
    have "a \<in> set (map fst (rl_session g))" using that by force
    then obtain s where "s \<in> set names" "a = seed_account E (s @ ''//stash'')" unfolding ses(1) by auto
    then show ?thesis using that ses(2) has dev units(1) [OF u] by auto
  qed
  moreover have "map fst (stakers st) = map fst (rl_session g) \<and> staking_invulnerables st = map fst (rl_session g) \<and>
        unat (validator_count st) = length (stakers st) \<and> minimum_validator_count st \<le> validator_count st \<and>
        (\<forall>(stash, controller, stake) \<in> set (stakers st). endowed g stash stake \<and> endowed g controller 1 \<and> 0 < stake)"
    if "rl_staking g = Some st" for st
    using st [OF that] ses(1) len names(3) has dev units [OF u]
    by (auto simp: comp_def word_le_nat_alt Suc_le_eq)
  ultimately show ?thesis unfolding relay_genesis_sound_def using alice owner by blast
qed

lemma testnet_genesis_sound:
  assumes d: "seeds_derive E" and names: "set names \<subseteq> set dev_names" "distinct names" "names \<noteq> []"
    and units: "unit_in_range (DOT E)" "unit_in_range (KSM E)"
  shows polkadot_testnet_sound: "\<exists>g. polkadot_testnet_genesis E w (map (test_authority E) names) (seed_account E ''Alice'') None = Some g \<and>
      relay_genesis_sound g \<and> rl_code g = w"
    and kusama_testnet_sound: "\<exists>g. kusama_testnet_genesis E w (map (test_authority E) names) (seed_account E ''Alice'') None = Some g \<and>
      relay_genesis_sound g \<and> rl_code g = w"
    and westend_testnet_sound: "\<exists>g. westend_testnet_genesis E w (map (test_authority E) names) (seed_account E ''Alice'') None = Some g \<and>
      relay_genesis_sound g \<and> rl_code g = w"
    and rococo_testnet_sound: "\<exists>g. rococo_testnet_genesis E w (map (test_beefy_authority E) names) (seed_account E ''Alice'') None = Some g \<and>
      relay_genesis_sound g \<and> rl_code g = w"
proof -
  note dot = genesis_of_devs_sound [OF d names units(1)] and ksm = genesis_of_devs_sound [OF d names units(2)]
  note defs = testnet_accounts_derive [OF d] Let_def authority_keys_def beefy_authority_keys_def comp_def
  show "\<exists>g. polkadot_testnet_genesis E w (map (test_authority E) names) (seed_account E ''Alice'') None = Some g \<and>
      relay_genesis_sound g \<and> rl_code g = w"
    by (rule exI, rule conjI, simp add: polkadot_testnet_genesis_def testnet_accounts_derive [OF d] Let_def, rule conjI, rule dot)
      (auto simp: defs)
  show "\<exists>g. kusama_testnet_genesis E w (map (test_authority E) names) (seed_account E ''Alice'') None = Some g \<and>
      relay_genesis_sound g \<and> rl_code g = w"
    by (rule exI, rule conjI, simp add: kusama_testnet_genesis_def testnet_accounts_derive [OF d] Let_def, rule conjI, rule ksm)
      (auto simp: defs)
  show "\<exists>g. westend_testnet_genesis E w (map (test_authority E) names) (seed_account E ''Alice'') None = Some g \<and>
      relay_genesis_sound g \<and> rl_code g = w"
    by (rule exI, rule conjI, simp add: westend_testnet_genesis_def testnet_accounts_derive [OF d] Let_def, rule conjI, rule dot)
      (auto simp: defs)
  show "\<exists>g. rococo_testnet_genesis E w (map (test_beefy_authority E) names) (seed_account E ''Alice'') None = Some g \<and>
      relay_genesis_sound g \<and> rl_code g = w"
    by (rule exI, rule conjI, simp add: rococo_testnet_genesis_def testnet_accounts_derive [OF d] Let_def, rule conjI, rule dot)
      (auto simp: defs)
qed

definition demo_relay_host :: "unit host_configuration" where
  "demo_relay_host = \<lparr>validation_upgrade_cooldown = 0, validation_upgrade_delay = 0, code_retention_period = 0, max_code_size = 0,
     max_pov_size = 0, max_head_data_size = 0, group_rotation_frequency = 0, chain_availability_period = 0,
     thread_availability_period = 0, max_upward_queue_count = 0, max_upward_queue_size = 0, max_downward_message_size = 0,
     ump_service_total_weight = 0, max_upward_message_size = 0, max_upward_message_num_per_candidate = 0,
     hrmp_sender_deposit = 0, hrmp_recipient_deposit = 0, hrmp_channel_max_capacity = 0, hrmp_channel_max_total_size = 0,
     hrmp_max_parachain_inbound_channels = 0, hrmp_max_parathread_inbound_channels = 0, hrmp_channel_max_message_size = 0,
     hrmp_max_parachain_outbound_channels = 0, hrmp_max_parathread_outbound_channels = 0,
     hrmp_max_message_num_per_candidate = 0, dispute_period = 0, no_show_slots = 0, n_delay_tranches = 0,
     needed_approvals = 0, relay_vrf_modulo_samples = 0, zeroth_delay_tranche_width = 0,
     minimum_validation_upgrade_delay = 0, max_validators_per_core = None, host_more = ()\<rparr>"

text \<open>A node with all four runtimes, whose keys are the bytes of their seeds.\<close>

definition demo_relay :: "unit relay_env" where
  "demo_relay = \<lparr>relay_wasm = (\<lambda>_. Some [1]), public_from_string = (\<lambda>_ seed. Some (map of_char seed)),
     account_of = (\<lambda>k. k), DOT = 10000000000, KSM = 1000000000000, WND = 1000000000000, ROC = 1000000000000,
     host_default = demo_relay_host, MAX_CODE_SIZE = 3145728, MAX_POV_SIZE = 5242880, LOWEST_PUBLIC_ID = 2000\<rparr>"

end
