(* ===== verification/Relay_Claims.thy ===== *)
theory Relay_Claims
  imports Relay_Node Relay_Genesis Parachains_Db
begin

text \<open>
  Claims about the relay chain node inside the parachain node: what it starts, on which runtime, from which
  genesis, and how it opens the database of the parachain subsystems.
\<close>

section \<open>What a full node starts\<close>

definition finds_program :: "node_config \<Rightarrow> bool" where
  "finds_program N \<longleftrightarrow> program_path N \<noteq> None \<or> (\<exists>p. current_exe N = Inr p)"

lemma subsystem_configs_cases:
  "subsystem_configs E N s \<noteq> Panic"
  "(\<exists>c t. subsystem_configs E N s = Ok c t) \<longleftrightarrow>
     database_path N \<and> (\<exists>db t. open_creating E default_cache_sizes s = Ok db t) \<and> finds_program N"
  "subsystem_configs E N s = Err AuthoritiesRequireRealOverseer t \<longleftrightarrow> False"
  using open_creating_no_panic [of E default_cache_sizes s]
  by (auto simp: subsystem_configs_def finds_program_def split: outcome.splits option.splits sum.splits)

lemmas node_parts = overseer_handle_def authority_discovery_service_def start_authoring_def select_chain_def
  requires_overseer_for_chain_sel_def auth_or_collator_def role_is_authority_def pvf_checker_enabled_def start_beefy_def

lemma overseer_is_consistent: "overseer_handle N = Some (has_local_keystore N \<and> (auth_or_collator N \<or> overseer_enable_anyways N))"
  by (simp add: node_parts)


definition demo_relay_node :: node_config where
  "demo_relay_node = \<lparr>nc_id = ''versi_dev'', nc_role = AuthorityRole, is_collator = False, has_local_keystore = True,
     enable_beefy = False, disable_grandpa = False, offchain_worker = True, database_path = True,
     program_path = Some ''polkadot'', current_exe = Inl 0, overseer_enable_anyways = False, grandpa_pause = None\<rparr>"


section \<open>The blocks the overseer starts with\<close>

definition best_info :: "'e header_provider \<Rightarrow> header \<Rightarrow> block_info" where
  "best_info P best = \<lparr>bi_hash = header_hash P best, bi_parent_hash = parent_hash best, bi_number = number best\<rparr>"

text \<open>A leaf that is considered is another block than the best one, and at most an uncle of it.\<close>

lemma considered:
  assumes "consider_leaf P best h = Some b"
  shows "bi_hash b = h" "h \<noteq> header_hash P best" "fetch_number P h = Inr (Some (bi_number b))"
    "unat (number best) \<le> unat (bi_number b) + 1"
proof -
  show "bi_hash b = h" "h \<noteq> header_hash P best" "fetch_number P h = Inr (Some (bi_number b))"
    using assms by (auto simp: consider_leaf_def split: sum.splits option.splits if_splits)
  have "\<not> bi_number b < (if number best = 0 then 0 else number best - 1)"
    using assms by (auto simp: consider_leaf_def split: sum.splits option.splits if_splits)
  then show "unat (number best) \<le> unat (bi_number b) + 1"
    by (cases "number best = 0") (auto simp: word_less_nat_alt unat_minus_one)
qed

lemma considered_leaves_distinct: "distinct ls \<Longrightarrow> distinct (map bi_hash (List.map_filter (consider_leaf P best) ls))"
proof (induction ls)
  case (Cons h ls)
  have "h \<notin> bi_hash ` set (List.map_filter (consider_leaf P best) ls)"
    using Cons.prems considered(1) [of P best] by (auto simp: map_filter_def)
  then show ?case using Cons considered(1) [of P best h] by (cases "consider_leaf P best h") (auto simp: map_filter_simps)
qed (simp add: map_filter_simps)

lemma sorted_take_rev:
  assumes "sorted (map f xs)"
  shows "sorted_wrt (\<lambda>a b. f b \<le> f a) (take n (rev xs))"
    and "\<forall>a \<in> set (take n (rev xs)). \<forall>b \<in> set (drop n (rev xs)). f b \<le> f a"
proof -
  have "sorted_wrt (\<lambda>a b. f b \<le> f a) (take n (rev xs) @ drop n (rev xs))"
    using assms by (simp add: sorted_map sorted_wrt_rev)
  then show "sorted_wrt (\<lambda>a b. f b \<le> f a) (take n (rev xs))"
    "\<forall>a \<in> set (take n (rev xs)). \<forall>b \<in> set (drop n (rev xs)). f b \<le> f a"
    unfolding sorted_wrt_append by auto
qed

text \<open>
  The overseer starts with the best block first and at most three more: other leaves of the chain, each at most one
  block lower than the best, highest first, none twice, and none left out that is higher than one taken. An error of
  the leaves counts as no leaves.
\<close>

theorem overseer_starts_from_leaves:
  "\<exists>more. active_leaves P (Inr best) leaves = Inr (best_info P best # more) \<and> length more \<le> 3 \<and>
     (\<forall>b \<in> set more. (\<exists>ls. leaves = Inr ls \<and> bi_hash b \<in> set ls) \<and> bi_hash b \<noteq> header_hash P best \<and>
        fetch_number P (bi_hash b) = Inr (Some (bi_number b)) \<and> unat (number best) \<le> unat (bi_number b) + 1) \<and>
     sorted_wrt (\<lambda>a b. bi_number b \<le> bi_number a) more \<and>
     (\<forall>ls. leaves = Inr ls \<longrightarrow>
        (distinct ls \<longrightarrow> distinct (map bi_hash more)) \<and>
        (\<forall>h \<in> set ls. \<forall>b. consider_leaf P best h = Some b \<longrightarrow>
           b \<in> set more \<or> length more = 3 \<and> (\<forall>a \<in> set more. bi_number b \<le> bi_number a)))"
proof -
  define ys where "ys = (case leaves of Inr ls \<Rightarrow> ls | Inl _ \<Rightarrow> [])"
  have ys: "h \<in> set ys \<Longrightarrow> \<exists>ls. leaves = Inr ls \<and> h \<in> set ls" "leaves = Inr ls \<Longrightarrow> ys = ls" for h ls
    by (cases leaves; simp add: ys_def)+
  define found where "found = List.map_filter (consider_leaf P best) ys"
  define xs where "xs = sort_key bi_number found"
  define more where "more = take 3 (rev xs)"
  have set_xs: "set xs = {b. \<exists>h \<in> set ys. consider_leaf P best h = Some b}"
    by (auto simp: xs_def found_def map_filter_def) force
  have eq: "active_leaves P (Inr best) leaves = Inr (best_info P best # more)"
    by (simp add: active_leaves_def MAX_ACTIVE_LEAVES_def best_info_def more_def xs_def found_def ys_def Let_def)
  have sub: "set more \<subseteq> set xs" using set_take_subset [of 3 "rev xs"] by (simp add: more_def)
  have leaf: "(\<exists>ls. leaves = Inr ls \<and> bi_hash b \<in> set ls) \<and> bi_hash b \<noteq> header_hash P best \<and>
        fetch_number P (bi_hash b) = Inr (Some (bi_number b)) \<and> unat (number best) \<le> unat (bi_number b) + 1"
    if "b \<in> set more" for b
  proof -
    have "b \<in> set xs" using that sub by blast
    then obtain h where "h \<in> set ys" "consider_leaf P best h = Some b" unfolding set_xs by blast
    then show ?thesis using considered [of P best h b] ys(1) [of h] by auto
  qed
  have sorted: "sorted (map bi_number xs)" by (simp add: xs_def)
  have dist: "distinct (map bi_hash more)" if "distinct ys"
  proof -
    have "distinct (map bi_hash found)" using considered_leaves_distinct that by (simp add: found_def)
    then have "distinct (map bi_hash xs)" by (simp add: xs_def distinct_map)
    then have "distinct (map bi_hash (rev xs))" by (simp add: rev_map [symmetric])
    then show ?thesis unfolding more_def take_map [symmetric] by (rule distinct_take)
  qed
  have rest: "b \<in> set more \<or> length more = 3 \<and> (\<forall>a \<in> set more. bi_number b \<le> bi_number a)" if "b \<in> set xs" for b
  proof (cases "b \<in> set (drop 3 (rev xs))")
    case True
    then have "length more = 3" by (cases "length xs \<le> 3") (auto simp: more_def)
    then show ?thesis using True sorted_take_rev(2) [OF sorted, of 3] by (auto simp: more_def)
  next
    case False
    have "b \<in> set (take 3 (rev xs) @ drop 3 (rev xs))" using that by simp
    then show ?thesis using False unfolding set_append more_def by blast
  qed
  have "length more \<le> 3" by (simp add: more_def)
  moreover have "sorted_wrt (\<lambda>a b. bi_number b \<le> bi_number a) more"
    using sorted_take_rev(1) [OF sorted] by (simp add: more_def)
  moreover have "(distinct ls \<longrightarrow> distinct (map bi_hash more)) \<and>
        (\<forall>h \<in> set ls. \<forall>b. consider_leaf P best h = Some b \<longrightarrow>
           b \<in> set more \<or> length more = 3 \<and> (\<forall>a \<in> set more. bi_number b \<le> bi_number a))" if "leaves = Inr ls" for ls
    using dist rest set_xs unfolding ys(2) [OF that] by blast
  ultimately show ?thesis using eq leaf by blast
qed

definition demo_provider :: "unit header_provider" where
  "demo_provider = \<lparr>fetch_header = (\<lambda>h. Inr (Some \<lparr>parent_hash = h - 1, number = 4\<rparr>)),
     fetch_number = (\<lambda>h. Inr (Some (if h = 3 then 5 else 4))), header_hash = (\<lambda>h. if number h = 5 then 3 else 2)\<rparr>"

theorem overseer_starts_from_leaves_witness:
  "\<exists>more. active_leaves demo_provider (Inr \<lparr>parent_hash = 1, number = 5\<rparr> :: unit + header) (Inr [2, 3]) =
       Inr (best_info demo_provider \<lparr>parent_hash = 1, number = 5\<rparr> # more) \<and>
     distinct (map bi_hash more) \<and> (\<forall>b \<in> set more. bi_hash b = 2 \<and> bi_number b = 4)"
proof -
  let ?best = "\<lparr>parent_hash = 1, number = 5\<rparr>" and ?leaves = "Inr [2, 3] :: unit + block_hash list"
  have best: "header_hash demo_provider ?best = 3" by (simp add: demo_provider_def)
  have num: "bi_number b = 4" if "fetch_number demo_provider 2 = Inr (Some (bi_number b))" for b
    using that by (simp add: demo_provider_def)
  from overseer_starts_from_leaves [of demo_provider ?best ?leaves] show ?thesis
    unfolding best
    by - (erule exE, elim conjE, rule exI, rule conjI, assumption, rule conjI, force, force dest!: bspec intro: num)
qed

section \<open>The runtime of a network\<close>

text \<open>The identifiers of the built-in networks, or the error that their runtime is missing, with the client they are meant for.\<close>

definition relay_network_id :: "string + 'g relay_spec \<Rightarrow> string option" where
  "relay_network_id r = (case r of Inl _ \<Rightarrow> None | Inr s \<Rightarrow> Some (rs_id s))"

definition built_in_networks :: "'d relay_env \<Rightarrow> bytes list \<Rightarrow> relay_authority list \<Rightarrow> beefy_authority list \<Rightarrow>
    (string option \<times> relay_client) list" where
  "built_in_networks E accounts authorities beefy_authorities =
     [(relay_network_id (polkadot_relay_development_config E), PolkadotClient),
      (relay_network_id (polkadot_relay_local_config E), PolkadotClient),
      (relay_network_id (polkadot_relay_staging_config E), PolkadotClient),
      (relay_network_id (kusama_relay_development_config E), KusamaClient),
      (relay_network_id (kusama_relay_local_config E), KusamaClient),
      (relay_network_id (kusama_relay_staging_config E accounts authorities), KusamaClient),
      (relay_network_id (westend_relay_development_config E), WestendClient),
      (relay_network_id (westend_relay_local_config E), WestendClient),
      (relay_network_id (westend_relay_staging_config E accounts authorities), WestendClient),
      (relay_network_id (rococo_relay_development_config E), RococoClient),
      (relay_network_id (rococo_relay_local_config E), RococoClient),
      (relay_network_id (rococo_relay_staging_config E accounts beefy_authorities), RococoClient),
      (relay_network_id (versi_relay_development_config E), RococoClient),
      (relay_network_id (versi_relay_local_config E), RococoClient),
      (relay_network_id (wococo_relay_development_config E), RococoClient),
      (relay_network_id (wococo_relay_local_config E), RococoClient)]"

lemmas relay_specs = polkadot_relay_development_config_def polkadot_relay_local_config_def polkadot_relay_staging_config_def
    kusama_relay_development_config_def kusama_relay_local_config_def kusama_relay_staging_config_def
    westend_relay_development_config_def westend_relay_local_config_def westend_relay_staging_config_def
    rococo_relay_development_config_def rococo_relay_local_config_def rococo_relay_staging_config_def
    versi_relay_development_config_def versi_relay_local_config_def wococo_relay_development_config_def
    wococo_relay_local_config_def

definition built_in_ids :: "(string \<times> relay_client) list" where
  "built_in_ids =
     [(''dev'', PolkadotClient), (''local_testnet'', PolkadotClient), (''polkadot_staging_testnet'', PolkadotClient),
      (''kusama_dev'', KusamaClient), (''kusama_local_testnet'', KusamaClient), (''kusama_staging_testnet'', KusamaClient),
      (''westend_dev'', WestendClient), (''westend_local_testnet'', WestendClient), (''westend_staging_testnet'', WestendClient),
      (''rococo_dev'', RococoClient), (''rococo_local_testnet'', RococoClient), (''rococo_staging_testnet'', RococoClient),
      (''versi_dev'', RococoClient), (''versi_local_testnet'', RococoClient),
      (''wococo_dev'', RococoClient), (''wococo_local_testnet'', RococoClient)]"

text \<open>A network has its identifier if its runtime was compiled.\<close>

lemma list_all2_set: "list_all2 P xs ys \<Longrightarrow> x \<in> set xs \<Longrightarrow> \<exists>y \<in> set ys. P x y"
  by (induction rule: list_all2_induct) auto

lemma network_ids_are_constant:
  "list_all2 (\<lambda>(i, c) (j, d). (i = None \<or> i = Some j) \<and> c = d) (built_in_networks E accounts authorities beefy) built_in_ids"
  unfolding built_in_networks_def built_in_ids_def list.rel_inject list.rel_inject(2) prod.case
  by (intro conjI list.rel_intros) (simp_all only: relay_specs relay_network_id_def, simp_all split: option.split)

lemma built_in_clients:
  "client \<in> natives \<Longrightarrow> list_all (\<lambda>(i, c). c = client \<longrightarrow> build_full natives i = Inr client) built_in_ids"
  by (cases client)
    (simp_all add: built_in_ids_def build_full_def is_kusama_def is_westend_def is_rococo_def is_wococo_def is_versi_def
      starts_with_def)

text \<open>
  A relay chain runs on the runtime it was made for: the service built for a built-in network, and likewise the
  one for operations on its database, is of the network's own runtime whenever that is compiled in; and the two
  always choose alike, for any identifier and any set of runtimes.
\<close>

theorem networks_run_their_runtime:
  assumes "(Some i, client) \<in> set (built_in_networks E accounts authorities beefy_authorities)" "client \<in> natives"
  shows "build_full natives i = Inr client \<and> new_chain_ops natives i = Inr client \<and>
    (\<forall>natives' j. new_chain_ops natives' j = build_full natives' j)"
proof -
  have alike: "new_chain_ops natives' j = build_full natives' j" for natives' j
    by (simp add: new_chain_ops_def build_full_def)
  obtain j where "(j, client) \<in> set built_in_ids" "j = i"
    using list_all2_set [OF network_ids_are_constant assms(1)] by auto
  then have "build_full natives i = Inr client"
    using built_in_clients [OF assms(2)] by (auto simp: list_all_iff)
  then show ?thesis using alike by simp
qed

theorem networks_run_their_runtime_witness:
  "(Some ''kusama_dev'', KusamaClient) \<in> set (built_in_networks demo_relay [] [] []) \<and>
   build_full {KusamaClient, PolkadotClient} ''kusama_dev'' = Inr KusamaClient"
proof -
  have m: "(Some ''kusama_dev'', KusamaClient) \<in> set (built_in_networks demo_relay [] [] [])"
    by (simp add: built_in_networks_def kusama_relay_development_config_def demo_relay_def relay_network_id_def)
  then show ?thesis
    using networks_run_their_runtime [OF m, of "{KusamaClient, PolkadotClient}"] by simp
qed

section \<open>The genesis of the test networks\<close>

definition relay_test_specs :: "'d relay_env \<Rightarrow> (string + (relay_session_keys, 'd) relay_genesis relay_spec) list" where
  "relay_test_specs E =
     [polkadot_relay_development_config E, kusama_relay_development_config E, westend_relay_development_config E,
      polkadot_relay_local_config E, kusama_relay_local_config E, westend_relay_local_config E]"

definition rococo_test_specs :: "'d relay_env \<Rightarrow> (string + 'd rococo_genesis_ext relay_spec) list" where
  "rococo_test_specs E =
     [rococo_relay_development_config E, versi_relay_development_config E, wococo_relay_development_config E,
      rococo_relay_local_config E, versi_relay_local_config E, wococo_relay_local_config E]"

definition started_from :: "'d relay_env \<Rightarrow> ('k, 'd) relay_genesis \<Rightarrow> bool" where
  "started_from E g \<longleftrightarrow> relay_genesis_sound g \<and> (\<exists>R. relay_wasm E R = Some (rl_code g))"

lemma test_authorities:
  assumes "seeds_derive E" "set names \<subseteq> set dev_names"
  shows "evaluate (map (get_authority_keys_from_seed_no_beefy E) names) = Some (map (test_authority E) names)"
    and "evaluate (map (get_authority_keys_from_seed E) names) = Some (map (test_beefy_authority E) names)"
  using authority_of_dev [OF assms(1)] beefy_authority_of_dev [OF assms(1)] assms(2)
  by (subst evaluate_map; auto)+

lemma test_root: "seeds_derive E \<Longrightarrow> relay_account_from_seed E ''Alice'' = Some (seed_account E ''Alice'')"
  by (rule seed_derives) (simp_all add: testnet_seeds_def)

lemma alice: "set [''Alice''] \<subseteq> set dev_names" "distinct [''Alice'']" "[''Alice''] \<noteq> []"
  and alice_bob: "set [''Alice'', ''Bob''] \<subseteq> set dev_names" "distinct [''Alice'', ''Bob'']" "[''Alice'', ''Bob''] \<noteq> []"
  and all_devs: "set dev_names \<subseteq> set dev_names" "distinct dev_names" "dev_names \<noteq> []"
  by (simp_all add: dev_names_def)

text \<open>Each specification takes its genesis from one of the closures, applied to a compiled runtime.\<close>

lemma relay_test_genesis:
  assumes "Inr s \<in> set (relay_test_specs E)"
  shows "\<exists>f \<in> {polkadot_development_genesis, kusama_development_genesis, westend_development_genesis,
      polkadot_local_genesis, kusama_local_genesis, westend_local_genesis}.
    \<exists>R w. relay_wasm E R = Some w \<and> rs_genesis s = f E w"
  using assms unfolding relay_test_specs_def list.set insert_iff empty_iff
  by (elim disjE) (auto simp: relay_specs split: option.splits)

lemma rococo_test_genesis:
  assumes "Inr s \<in> set (rococo_test_specs E)"
  shows "\<exists>f \<in> {rococo_development_genesis, rococo_local_genesis, wococo_local_genesis, versi_local_genesis}.
    \<exists>R w. relay_wasm E R = Some w \<and> rs_genesis s = with_session_length (Some 10) (f E w)"
  using assms unfolding rococo_test_specs_def list.set insert_iff empty_iff
  by (elim disjE) (auto simp: relay_specs split: option.splits)

text \<open>
  C29. Every development and local network of the relay chain starts: if the seeds of the test accounts derive keys, to
  different accounts, and a million units of the currency fit a balance, the closure of each specification builds its
  genesis without panicking, on a compiled runtime, and the genesis is sound: no account twice, every authority funded and
  staked with money it has, enough validators for the minimum, and root and the owners of the bridges exist; the Rococo
  family changes sessions every ten blocks.
\<close>

theorem test_networks_start_sound:
  assumes "seeds_derive E" "unit_in_range (DOT E)" "unit_in_range (KSM E)"
  shows "(\<forall>s. Inr s \<in> set (relay_test_specs E) \<longrightarrow> (\<exists>g. rs_genesis s = Some g \<and> started_from E g)) \<and>
    (\<forall>s. Inr s \<in> set (rococo_test_specs E) \<longrightarrow>
       (\<exists>x. rs_genesis s = Some x \<and> started_from E (runtime_genesis_config x) \<and> session_length_in_blocks x = Some 10))"
proof -
  note one = testnet_genesis_sound [OF assms(1) alice assms(2,3)]
    and two = testnet_genesis_sound [OF assms(1) alice_bob assms(2,3)]
    and four = testnet_genesis_sound [OF assms(1) all_devs assms(2,3)]
  note authorities = test_authorities [OF assms(1) alice(1)] test_authorities [OF assms(1) alice_bob(1)]
    test_authorities [OF assms(1) all_devs(1)]
  have relay: "\<exists>g. f E w = Some g \<and> relay_genesis_sound g \<and> rl_code g = w"
    if "f \<in> {polkadot_development_genesis, kusama_development_genesis, westend_development_genesis,
      polkadot_local_genesis, kusama_local_genesis, westend_local_genesis}" for f w
    using that one(1-3) [of w] two(1-3) [of w] authorities(1,3)
    by (auto simp: polkadot_development_genesis_def kusama_development_genesis_def westend_development_genesis_def
        polkadot_local_genesis_def kusama_local_genesis_def westend_local_genesis_def test_root [OF assms(1)])
  have rococo: "\<exists>g. f E w = Some g \<and> relay_genesis_sound g \<and> rl_code g = w"
    if "f \<in> {rococo_development_genesis, rococo_local_genesis, wococo_local_genesis, versi_local_genesis}" for f w
    using that one(4) [of w] two(4) [of w] four(4) [of w] authorities(2,4,6)
    by (auto simp: rococo_development_genesis_def rococo_local_genesis_def wococo_local_genesis_def versi_local_genesis_def
        test_root [OF assms(1)] dev_names_def)
  have "\<exists>g. rs_genesis s = Some g \<and> started_from E g" if s: "Inr s \<in> set (relay_test_specs E)" for s
    using relay_test_genesis [OF s] relay unfolding started_from_def by metis
  moreover have "\<exists>x. rs_genesis s = Some x \<and> started_from E (runtime_genesis_config x) \<and> session_length_in_blocks x = Some 10"
    if s: "Inr s \<in> set (rococo_test_specs E)" for s
  proof -
    obtain f R w where f: "f \<in> {rococo_development_genesis, rococo_local_genesis, wococo_local_genesis, versi_local_genesis}"
      "relay_wasm E R = Some w" "rs_genesis s = with_session_length (Some 10) (f E w)"
      using rococo_test_genesis [OF s] by blast
    obtain g where "f E w = Some g" "relay_genesis_sound g" "rl_code g = w" using rococo [OF f(1)] by blast
    then show ?thesis using f(2,3) by (auto simp: with_session_length_def started_from_def)
  qed
  ultimately show ?thesis by blast
qed

lemma demo_relay_derives: "seeds_derive demo_relay" "unit_in_range (DOT demo_relay)" "unit_in_range (KSM demo_relay)"
  by (simp_all add: seeds_derive_def demo_relay_def relay_account_from_seed_def get_from_seed_def unit_in_range_def
      testnet_seeds_def dev_names_def)

theorem test_networks_start_sound_witness:
  "\<exists>s g. versi_relay_local_config demo_relay = Inr s \<and> rs_genesis s = Some g \<and>
     started_from demo_relay (runtime_genesis_config g) \<and> session_length_in_blocks g = Some 10"
proof -
  obtain s where s: "versi_relay_local_config demo_relay = Inr s"
    by (simp add: versi_relay_local_config_def demo_relay_def)
  then have "Inr s \<in> set (rococo_test_specs demo_relay)" by (simp add: rococo_test_specs_def)
  then show ?thesis using s test_networks_start_sound [OF demo_relay_derives] by blast
qed

section \<open>The database of the parachain subsystems\<close>

text \<open>The columns the subsystems use.\<close>

definition columns_used :: "u32 list" where
  "columns_used = map (\<lambda>f. f REAL_COLUMNS) [col_availability_data, col_availability_meta, col_approval_data,
     col_chain_selection_data, col_dispute_coordinator_data]"



end
