(* ===== verification/Known_Limits.thy ===== *)
theory Known_Limits
  imports Queue_Claims
begin

text \<open>
  Behaviours of the code that its comments or its neighbours do not lead one to expect, as facts of the model.
\<close>

text \<open>A benchmark report less than a second after its start divides by zero (\<open>registry.rs\<close>).\<close>

lemma short_benchmark_panics:
  assumes "start_time < now_millis s" "now_millis s - start_time < 1000"
  shows "registry_on_message T (WorkerOrigin worker) (BenchReport start_time iters) s = Panic"
proof -
  have "(now_millis s - start_time) div 1000 = 0"
    using assms(2) by (simp add: word_unat_eq_iff unat_div word_less_nat_alt)
  then show ?thesis using assms(1) by (simp add: registry_on_message_def bench_score_def Let_def)
qed

text \<open>A reward for a worker in no pool discards all rewards listed after it (\<open>stakepool.rs\<close>, \<open>on_reward\<close>).\<close>

lemma rewards_after_dismissed_are_lost:
  assumes "WorkerAssignments s (si_pubkey info) = None"
  shows "on_reward T (info # rest) s = on_reward T [info] s"
  using assms by (simp add: Let_def)

text \<open>A balance of \<open>2^64\<close> units, about 18.4 million PHA, converts to the fixed point number zero.\<close>

lemma large_balance_becomes_zero:
  assumes "fixed_release F"
  shows "balance_to_fixed F (2 ^ 64) = 0"
proof -
  have arith: "fixed_arith F" using assms by (rule fixed_release.axioms(1))
  have "fx_from_num F (2 ^ 64) = of_nat (unat (2 ^ 64 :: u128) * 2 ^ 64)"
    by (rule fixed_release.from_num_wraps [OF assms])
  also have "\<dots> = 0" by simp
  finally have zero: "fx_from_num F (2 ^ 64) = 0" .
  have "FIXED_1E12 \<noteq> 0" by (simp add: FIXED_1E12_def)
  from fixed_arith.sat_div [OF arith this, of 0]
  have "unat (fx_sat_div F 0 FIXED_1E12) = 0" by simp
  then show ?thesis unfolding balance_to_fixed_def Let_def zero by (simp add: unat_eq_0)
qed

text \<open>So a pool whose stake is exactly that much has a share price of zero although its shares are worth something.\<close>

lemma large_pool_is_worthless:
  assumes "fixed_release F" "total_shares p = 1000000000000" "total_stake p = 2 ^ 64"
  shows "share_price F p = Some 0"
proof -
  have arith: "fixed_arith F" using assms(1) by (rule fixed_release.axioms(1))
  have "unat (fx_from_num F 1000000000000) = 1000000000000 * 2 ^ 64"
    by (subst fixed_arith.from_num [OF arith]) simp_all
  moreover have "FIXED_1E12 \<noteq> 0" by (simp add: FIXED_1E12_def)
  ultimately have "balance_to_fixed F 1000000000000 \<noteq> 0"
    using fixed_arith.sat_div [OF arith, of FIXED_1E12 "fx_from_num F 1000000000000"]
    by (auto simp: balance_to_fixed_def Let_def FIXED_1E12_def)
  then show ?thesis
    unfolding share_price_def assms(2,3) large_balance_becomes_zero [OF assms(1)] fixed_arith.checked_div [OF arith]
    by simp
qed

end
